(* ===== verification/Prelude.thy ===== *)
theory Prelude
  imports Complex_Main "HOL-Library.Word"
begin

text \<open>
  Shared vocabulary of the development: the machine integers and pointers of the C interface,
  IEEE doubles as values (only their finiteness and their order matter to the modelled code),
  the C enumerations as an interface (a locale every enumeration of the headers interprets),
  and tests on bit masks.
\<close>

unbundle bit_operations_syntax

section \<open>Machine types\<close>

type_synonym u8 = "8 word"
type_synonym u16 = "16 word"
type_synonym u32 = "32 word"
type_synonym u64 = "64 word"
type_synonym i32 = "32 word"
type_synonym i64 = "64 word"

text \<open>The library's targets are 64-bit: a size and an address are 64-bit words.\<close>

type_synonym usize = "64 word"
type_synonym ptr = "64 word"

abbreviation null_ptr :: ptr where
  "null_ptr \<equiv> 0"

lemma unat_widen:
  "LENGTH('a::len) \<le> LENGTH('b::len) \<Longrightarrow> unat (ucast (w :: 'a word) :: 'b word) = unat w"
proof -
  assume "LENGTH('a) \<le> LENGTH('b)"
  then have "unat w < 2 ^ LENGTH('b)"
    by (meson less_le_trans one_le_numeral power_increasing unsigned_less)
  then show ?thesis by (simp add: unsigned_ucast_eq take_bit_nat_eq_self)
qed

section \<open>Doubles\<close>

text \<open>
  A C \<open>double\<close>, up to the sign of zero and the rounding of arithmetic: a finite value, an
  infinity or a NaN. The comparisons follow IEEE 754: every one of them is false on a NaN.
\<close>

datatype double = Finite real | Pos_Inf | Neg_Inf | Not_A_Number

fun is_finite :: "double \<Rightarrow> bool" where
  "is_finite (Finite _) = True"
| "is_finite _ = False"

fun double_lt :: "double \<Rightarrow> double \<Rightarrow> bool" where
  "double_lt (Finite x) (Finite y) = (x < y)"
| "double_lt (Finite _) Pos_Inf = True"
| "double_lt Neg_Inf (Finite _) = True"
| "double_lt Neg_Inf Pos_Inf = True"
| "double_lt _ _ = False"

fun double_eq :: "double \<Rightarrow> double \<Rightarrow> bool" where
  "double_eq (Finite x) (Finite y) = (x = y)"
| "double_eq Pos_Inf Pos_Inf = True"
| "double_eq Neg_Inf Neg_Inf = True"
| "double_eq _ _ = False"

definition double_le :: "double \<Rightarrow> double \<Rightarrow> bool" where
  "double_le x y \<longleftrightarrow> double_lt x y \<or> double_eq x y"

lemma is_finite_iff: "is_finite d \<longleftrightarrow> (\<exists>x. d = Finite x)"
  by (cases d) auto

lemma double_le_finite [simp]: "double_le (Finite x) (Finite y) \<longleftrightarrow> x \<le> y"
  by (auto simp: double_le_def)

lemma nan_unordered [simp]:
  "\<not> double_lt Not_A_Number d" "\<not> double_lt d Not_A_Number"
  "\<not> double_le Not_A_Number d" "\<not> double_le d Not_A_Number"
  by (cases d; simp add: double_le_def)+

section \<open>Bit masks\<close>

text \<open>\<open>(fields & bit) != 0\<close>, and \<open>(fields & ~known) != 0\<close>.\<close>

definition has_flag :: "'a::len word \<Rightarrow> 'a word \<Rightarrow> bool" where
  "has_flag fields flag \<longleftrightarrow> fields AND flag \<noteq> 0"

definition has_unknown_bits :: "'a::len word \<Rightarrow> 'a word \<Rightarrow> bool" where
  "has_unknown_bits fields known \<longleftrightarrow> fields AND NOT known \<noteq> 0"

lemma has_flag_zero [simp]: "\<not> has_flag 0 flag"
  by (simp add: has_flag_def)

lemma has_unknown_bits_zero [simp]: "\<not> has_unknown_bits 0 known"
  by (simp add: has_unknown_bits_def)

lemma has_flag_single: "has_flag fields (push_bit n 1) \<longleftrightarrow> bit fields n"
proof -
  have "bit (fields AND push_bit n 1) k \<longleftrightarrow> bit fields k \<and> k = n" for k
    by (auto simp: bit_simps dest: bit_imp_le_length)
  then show ?thesis
    unfolding has_flag_def by (metis bit_eqI bit_0_eq bot_apply bot_bool_def)
qed

lemma known_bits_bit: "\<not> has_unknown_bits fields known \<longleftrightarrow> (\<forall>n. bit fields n \<longrightarrow> bit known n)"
proof -
  have "bit (fields AND NOT known) k \<longleftrightarrow> bit fields k \<and> \<not> bit known k" for k
    by (auto simp: bit_simps dest: bit_imp_le_length)
  then show ?thesis
    unfolding has_unknown_bits_def by (metis bit_eqI bit_0_eq bot_apply bot_bool_def)
qed

section \<open>C enumerations\<close>

text \<open>
  An enumeration is a datatype of its enumerators, the value each stands for and the list of all
  of them. A field of an enumeration type can hold any integer of the underlying type (the
  headers let a later release add enumerators), so the models keep such a field as a word and read it
  with \<open>enum_of\<close>: \<open>None\<close> is a value the headers do not name, the \<open>default:\<close> of a switch.
\<close>

definition enum_of :: "('e \<Rightarrow> 'w) \<Rightarrow> 'e list \<Rightarrow> 'w \<Rightarrow> 'e option" where
  "enum_of code enumerators v = List.find (\<lambda>e. code e = v) enumerators"

locale c_enum =
  fixes code :: "'e \<Rightarrow> 'w"
    and enumerators :: "'e list"
  assumes distinct_codes: "distinct (map code enumerators)"
    and all_values: "e \<in> set enumerators"
begin

lemma code_inj: "code e = code e' \<Longrightarrow> e = e'"
  using distinct_codes all_values [of e] all_values [of e']
  by (auto simp: distinct_map dest: inj_onD)

lemma enum_of_code: "enum_of code enumerators (code e) = Some e"
proof -
  obtain e' where "enum_of code enumerators (code e) = Some e'"
    using all_values [of e] by (cases "enum_of code enumerators (code e)")
      (auto simp: enum_of_def find_None_iff)
  then show ?thesis
    by (auto simp: enum_of_def find_Some_iff dest: code_inj)
qed

lemma enum_of_Some: "enum_of code enumerators v = Some e \<longleftrightarrow> v = code e"
  using enum_of_code by (auto simp: enum_of_def find_Some_iff)

lemma enum_of_None: "enum_of code enumerators v = None \<longleftrightarrow> v \<notin> range code"
  using all_values by (auto simp: enum_of_def find_None_iff)

lemma finite_enumerators: "finite (UNIV :: 'e set)"
  by (rule finite_subset [of _ "set enumerators"]) (auto intro: all_values)

end

end
