(* ===== verification/Api_Base.thy ===== *)
theory Api_Base
  imports Prelude
begin

text \<open>
  The data of \<open>base.h\<close>, \<open>wake.h\<close>, \<open>delivery.h\<close>, \<open>completion.h\<close> and \<open>logging.h\<close>, under
  \<open>include/maplibre_native_c/\<close>: each struct is a record whose fields carry the struct's name, each
  enumeration a datatype with its codes and an interpretation of \<open>c_enum\<close>, each union a
  datatype with one constructor per member. Fields of enumeration and bit set types are words; a
  pointer to an array is the list it reaches, or \<open>None\<close> when null; callbacks and opaque pointers
  are addresses.
\<close>

unbundle bit_operations_syntax

section \<open>base.h\<close>

datatype (plugins only: code size) mln_status =
    MLN_STATUS_OK
  | MLN_STATUS_INVALID_ARGUMENT
  | MLN_STATUS_INVALID_STATE
  | MLN_STATUS_WRONG_THREAD
  | MLN_STATUS_UNSUPPORTED
  | MLN_STATUS_NATIVE_ERROR
  | MLN_STATUS_CANCELLED
  | MLN_STATUS_BUSY
  | MLN_STATUS_TARGET_LOST
  | MLN_STATUS_NOT_FOUND
  | MLN_STATUS_ALREADY_EXISTS

primrec mln_status_code :: "mln_status \<Rightarrow> i32" where
    "mln_status_code MLN_STATUS_OK = 0"
  | "mln_status_code MLN_STATUS_INVALID_ARGUMENT = -1"
  | "mln_status_code MLN_STATUS_INVALID_STATE = -2"
  | "mln_status_code MLN_STATUS_WRONG_THREAD = -3"
  | "mln_status_code MLN_STATUS_UNSUPPORTED = -4"
  | "mln_status_code MLN_STATUS_NATIVE_ERROR = -5"
  | "mln_status_code MLN_STATUS_CANCELLED = -6"
  | "mln_status_code MLN_STATUS_BUSY = -7"
  | "mln_status_code MLN_STATUS_TARGET_LOST = -8"
  | "mln_status_code MLN_STATUS_NOT_FOUND = -10"
  | "mln_status_code MLN_STATUS_ALREADY_EXISTS = -11"

definition mln_status_values :: "mln_status list" where
  "mln_status_values =
  [MLN_STATUS_OK,
   MLN_STATUS_INVALID_ARGUMENT,
   MLN_STATUS_INVALID_STATE,
   MLN_STATUS_WRONG_THREAD,
   MLN_STATUS_UNSUPPORTED,
   MLN_STATUS_NATIVE_ERROR,
   MLN_STATUS_CANCELLED,
   MLN_STATUS_BUSY,
   MLN_STATUS_TARGET_LOST,
   MLN_STATUS_NOT_FOUND,
   MLN_STATUS_ALREADY_EXISTS]"

interpretation status_enum: c_enum mln_status_code mln_status_values
  by (unfold_locales, simp add: mln_status_values_def, rename_tac e, case_tac e; simp add: mln_status_values_def)

record mln_diagnostic =
  diagnostic_size :: u32
  diagnostic_message :: "u8 list"

datatype (plugins only: code size) mln_render_backend_flag =
    MLN_RENDER_BACKEND_FLAG_METAL
  | MLN_RENDER_BACKEND_FLAG_VULKAN
  | MLN_RENDER_BACKEND_FLAG_OPEN_GL
  | MLN_RENDER_BACKEND_FLAG_WEB_GPU

primrec mln_render_backend_flag_code :: "mln_render_backend_flag \<Rightarrow> u32" where
    "mln_render_backend_flag_code MLN_RENDER_BACKEND_FLAG_METAL = push_bit 0 1"
  | "mln_render_backend_flag_code MLN_RENDER_BACKEND_FLAG_VULKAN = push_bit 1 1"
  | "mln_render_backend_flag_code MLN_RENDER_BACKEND_FLAG_OPEN_GL = push_bit 2 1"
  | "mln_render_backend_flag_code MLN_RENDER_BACKEND_FLAG_WEB_GPU = push_bit 3 1"

definition mln_render_backend_flag_values :: "mln_render_backend_flag list" where
  "mln_render_backend_flag_values =
  [MLN_RENDER_BACKEND_FLAG_METAL,
   MLN_RENDER_BACKEND_FLAG_VULKAN,
   MLN_RENDER_BACKEND_FLAG_OPEN_GL,
   MLN_RENDER_BACKEND_FLAG_WEB_GPU]"

interpretation render_backend_flag_enum: c_enum mln_render_backend_flag_code mln_render_backend_flag_values
  by (unfold_locales, simp add: mln_render_backend_flag_values_def, rename_tac e, case_tac e; simp add: mln_render_backend_flag_values_def)

type_synonym mln_render_backend_flags = u32

type_synonym mln_runtime = u64

type_synonym mln_map = u64

type_synonym mln_style_expression = u64

type_synonym mln_offscreen_device = u64

type_synonym mln_vulkan_device = u64

type_synonym mln_map_projection = u64

type_synonym mln_resource_request = u64

type_synonym mln_resource_transform_request = u64

type_synonym mln_render_session = u64

type_synonym mln_acquired_frame = u64

type_synonym mln_render_frame_batch = u64

type_synonym mln_frame_pacer = u64

type_synonym mln_delivery_queue = u64

record mln_buffer_view =
  buffer_view_data :: "u8 list option"
  buffer_view_size :: usize

section \<open>wake.h\<close>

record mln_wake =
  wake_callback :: ptr
  wake_user_data :: ptr
  wake_release_user_data :: ptr
  wake_queue :: mln_delivery_queue

section \<open>delivery.h\<close>

record mln_delivery_queue_options =
  delivery_queue_options_size :: u32
  delivery_queue_options_wake :: mln_wake
  delivery_queue_options_release_abandoned_user_data :: ptr

section \<open>completion.h\<close>

record mln_completion_result =
  completion_result_size :: u32
  completion_result_status :: i32
  completion_result_value_size :: u32
  completion_result_generation :: u64
  completion_result_render_update_generation :: u64
  completion_result_diagnostic :: mln_buffer_view
  completion_result_value :: ptr
  completion_result_value_count :: usize

record mln_completion =
  completion_size :: u32
  completion_callback :: ptr
  completion_user_data :: ptr
  completion_release_user_data :: ptr
  completion_queue :: mln_delivery_queue

section \<open>logging.h\<close>

datatype (plugins only: code size) mln_log_severity =
    MLN_LOG_SEVERITY_INFO
  | MLN_LOG_SEVERITY_WARNING
  | MLN_LOG_SEVERITY_ERROR

primrec mln_log_severity_code :: "mln_log_severity \<Rightarrow> u32" where
    "mln_log_severity_code MLN_LOG_SEVERITY_INFO = 1"
  | "mln_log_severity_code MLN_LOG_SEVERITY_WARNING = 2"
  | "mln_log_severity_code MLN_LOG_SEVERITY_ERROR = 3"

definition mln_log_severity_values :: "mln_log_severity list" where
  "mln_log_severity_values =
  [MLN_LOG_SEVERITY_INFO,
   MLN_LOG_SEVERITY_WARNING,
   MLN_LOG_SEVERITY_ERROR]"

interpretation log_severity_enum: c_enum mln_log_severity_code mln_log_severity_values
  by (unfold_locales, simp add: mln_log_severity_values_def, rename_tac e, case_tac e; simp add: mln_log_severity_values_def)

datatype (plugins only: code size) mln_log_severity_flag =
    MLN_LOG_SEVERITY_FLAG_INFO
  | MLN_LOG_SEVERITY_FLAG_WARNING
  | MLN_LOG_SEVERITY_FLAG_ERROR
  | MLN_LOG_SEVERITY_FLAG_DEFAULT
  | MLN_LOG_SEVERITY_FLAG_ALL

primrec mln_log_severity_flag_code :: "mln_log_severity_flag \<Rightarrow> u32" where
    "mln_log_severity_flag_code MLN_LOG_SEVERITY_FLAG_INFO = push_bit 1 1"
  | "mln_log_severity_flag_code MLN_LOG_SEVERITY_FLAG_WARNING = push_bit 2 1"
  | "mln_log_severity_flag_code MLN_LOG_SEVERITY_FLAG_ERROR = push_bit 3 1"
  | "mln_log_severity_flag_code MLN_LOG_SEVERITY_FLAG_DEFAULT = 0x6"
  | "mln_log_severity_flag_code MLN_LOG_SEVERITY_FLAG_ALL = 0xe"

definition mln_log_severity_flag_values :: "mln_log_severity_flag list" where
  "mln_log_severity_flag_values =
  [MLN_LOG_SEVERITY_FLAG_INFO,
   MLN_LOG_SEVERITY_FLAG_WARNING,
   MLN_LOG_SEVERITY_FLAG_ERROR,
   MLN_LOG_SEVERITY_FLAG_DEFAULT,
   MLN_LOG_SEVERITY_FLAG_ALL]"

interpretation log_severity_flag_enum: c_enum mln_log_severity_flag_code mln_log_severity_flag_values
  by (unfold_locales, simp add: mln_log_severity_flag_values_def, rename_tac e, case_tac e; simp add: mln_log_severity_flag_values_def)

type_synonym mln_log_severity_flags = u32

datatype (plugins only: code size) mln_log_event =
    MLN_LOG_EVENT_GENERAL
  | MLN_LOG_EVENT_SETUP
  | MLN_LOG_EVENT_SHADER
  | MLN_LOG_EVENT_PARSE_STYLE
  | MLN_LOG_EVENT_PARSE_TILE
  | MLN_LOG_EVENT_RENDER
  | MLN_LOG_EVENT_STYLE
  | MLN_LOG_EVENT_DATABASE
  | MLN_LOG_EVENT_HTTP_REQUEST
  | MLN_LOG_EVENT_SPRITE
  | MLN_LOG_EVENT_IMAGE
  | MLN_LOG_EVENT_GRAPHICS_BACKEND
  | MLN_LOG_EVENT_JNI
  | MLN_LOG_EVENT_ANDROID
  | MLN_LOG_EVENT_CRASH
  | MLN_LOG_EVENT_GLYPH
  | MLN_LOG_EVENT_TIMING

primrec mln_log_event_code :: "mln_log_event \<Rightarrow> u32" where
    "mln_log_event_code MLN_LOG_EVENT_GENERAL = 0"
  | "mln_log_event_code MLN_LOG_EVENT_SETUP = 1"
  | "mln_log_event_code MLN_LOG_EVENT_SHADER = 2"
  | "mln_log_event_code MLN_LOG_EVENT_PARSE_STYLE = 3"
  | "mln_log_event_code MLN_LOG_EVENT_PARSE_TILE = 4"
  | "mln_log_event_code MLN_LOG_EVENT_RENDER = 5"
  | "mln_log_event_code MLN_LOG_EVENT_STYLE = 6"
  | "mln_log_event_code MLN_LOG_EVENT_DATABASE = 7"
  | "mln_log_event_code MLN_LOG_EVENT_HTTP_REQUEST = 8"
  | "mln_log_event_code MLN_LOG_EVENT_SPRITE = 9"
  | "mln_log_event_code MLN_LOG_EVENT_IMAGE = 10"
  | "mln_log_event_code MLN_LOG_EVENT_GRAPHICS_BACKEND = 11"
  | "mln_log_event_code MLN_LOG_EVENT_JNI = 12"
  | "mln_log_event_code MLN_LOG_EVENT_ANDROID = 13"
  | "mln_log_event_code MLN_LOG_EVENT_CRASH = 14"
  | "mln_log_event_code MLN_LOG_EVENT_GLYPH = 15"
  | "mln_log_event_code MLN_LOG_EVENT_TIMING = 16"

definition mln_log_event_values :: "mln_log_event list" where
  "mln_log_event_values =
  [MLN_LOG_EVENT_GENERAL,
   MLN_LOG_EVENT_SETUP,
   MLN_LOG_EVENT_SHADER,
   MLN_LOG_EVENT_PARSE_STYLE,
   MLN_LOG_EVENT_PARSE_TILE,
   MLN_LOG_EVENT_RENDER,
   MLN_LOG_EVENT_STYLE,
   MLN_LOG_EVENT_DATABASE,
   MLN_LOG_EVENT_HTTP_REQUEST,
   MLN_LOG_EVENT_SPRITE,
   MLN_LOG_EVENT_IMAGE,
   MLN_LOG_EVENT_GRAPHICS_BACKEND,
   MLN_LOG_EVENT_JNI,
   MLN_LOG_EVENT_ANDROID,
   MLN_LOG_EVENT_CRASH,
   MLN_LOG_EVENT_GLYPH,
   MLN_LOG_EVENT_TIMING]"

interpretation log_event_enum: c_enum mln_log_event_code mln_log_event_values
  by (unfold_locales, simp add: mln_log_event_values_def, rename_tac e, case_tac e; simp add: mln_log_event_values_def)

record mln_log_handler =
  log_handler_size :: u32
  log_handler_callback :: ptr
  log_handler_user_data :: ptr
  log_handler_release_user_data :: ptr
  log_handler_queue :: mln_delivery_queue
  log_handler_platform_severities :: mln_log_severity_flags

end
