(* ===== verification/Api_Geometry.thy ===== *)
theory Api_Geometry
  imports Api_Base
begin

text \<open>
  The value types that several headers share (coordinates, points, insets, sizes), declared in \<open>map.h\<close> and \<open>runtime.h\<close>, under
  \<open>include/maplibre_native_c/\<close>: each struct is a record whose fields carry the struct's name, each
  enumeration a datatype with its codes and an interpretation of \<open>c_enum\<close>, each union a
  datatype with one constructor per member. Fields of enumeration and bit set types are words; a
  pointer to an array is the list it reaches, or \<open>None\<close> when null; callbacks and opaque pointers
  are addresses.
\<close>

unbundle bit_operations_syntax

section \<open>map.h, runtime.h\<close>

type_synonym mln_offline_region_id = i64

type_synonym mln_runtime_event_flags = u64

record mln_logical_extent =
  logical_extent_width :: u32
  logical_extent_height :: u32
  logical_extent_scale_factor :: double

record mln_logical_size =
  logical_size_width :: u32
  logical_size_height :: u32

record mln_screen_point =
  screen_point_x :: double
  screen_point_y :: double

record mln_edge_insets =
  edge_insets_top :: double
  edge_insets_left :: double
  edge_insets_bottom :: double
  edge_insets_right :: double

record mln_lat_lng =
  lat_lng_latitude :: double
  lat_lng_longitude :: double

record mln_lat_lng_bounds =
  lat_lng_bounds_southwest :: mln_lat_lng
  lat_lng_bounds_northeast :: mln_lat_lng

end
