(* ===== verification/Api_Style.thy ===== *)
theory Api_Style
  imports Api_Geometry
begin

text \<open>
  The data of \<open>style.h\<close>, \<open>style_expression.h\<close> and \<open>query.h\<close>, under
  \<open>include/maplibre_native_c/\<close>: each struct is a record whose fields carry the struct's name, each
  enumeration a datatype with its codes and an interpretation of \<open>c_enum\<close>, each union a
  datatype with one constructor per member. Fields of enumeration and bit set types are words; a
  pointer to an array is the list it reaches, or \<open>None\<close> when null; callbacks and opaque pointers
  are addresses.
\<close>

unbundle bit_operations_syntax

section \<open>style.h\<close>

datatype (plugins only: code size) mln_style_source_type =
    MLN_STYLE_SOURCE_TYPE_UNKNOWN
  | MLN_STYLE_SOURCE_TYPE_VECTOR
  | MLN_STYLE_SOURCE_TYPE_RASTER
  | MLN_STYLE_SOURCE_TYPE_RASTER_DEM
  | MLN_STYLE_SOURCE_TYPE_GEO_JSON
  | MLN_STYLE_SOURCE_TYPE_IMAGE
  | MLN_STYLE_SOURCE_TYPE_VIDEO
  | MLN_STYLE_SOURCE_TYPE_ANNOTATIONS
  | MLN_STYLE_SOURCE_TYPE_CUSTOM_GEOMETRY
  | MLN_STYLE_SOURCE_TYPE_CUSTOM_VECTOR

primrec mln_style_source_type_code :: "mln_style_source_type \<Rightarrow> u32" where
    "mln_style_source_type_code MLN_STYLE_SOURCE_TYPE_UNKNOWN = 0"
  | "mln_style_source_type_code MLN_STYLE_SOURCE_TYPE_VECTOR = 1"
  | "mln_style_source_type_code MLN_STYLE_SOURCE_TYPE_RASTER = 2"
  | "mln_style_source_type_code MLN_STYLE_SOURCE_TYPE_RASTER_DEM = 3"
  | "mln_style_source_type_code MLN_STYLE_SOURCE_TYPE_GEO_JSON = 4"
  | "mln_style_source_type_code MLN_STYLE_SOURCE_TYPE_IMAGE = 5"
  | "mln_style_source_type_code MLN_STYLE_SOURCE_TYPE_VIDEO = 6"
  | "mln_style_source_type_code MLN_STYLE_SOURCE_TYPE_ANNOTATIONS = 7"
  | "mln_style_source_type_code MLN_STYLE_SOURCE_TYPE_CUSTOM_GEOMETRY = 8"
  | "mln_style_source_type_code MLN_STYLE_SOURCE_TYPE_CUSTOM_VECTOR = 9"

definition mln_style_source_type_values :: "mln_style_source_type list" where
  "mln_style_source_type_values =
  [MLN_STYLE_SOURCE_TYPE_UNKNOWN,
   MLN_STYLE_SOURCE_TYPE_VECTOR,
   MLN_STYLE_SOURCE_TYPE_RASTER,
   MLN_STYLE_SOURCE_TYPE_RASTER_DEM,
   MLN_STYLE_SOURCE_TYPE_GEO_JSON,
   MLN_STYLE_SOURCE_TYPE_IMAGE,
   MLN_STYLE_SOURCE_TYPE_VIDEO,
   MLN_STYLE_SOURCE_TYPE_ANNOTATIONS,
   MLN_STYLE_SOURCE_TYPE_CUSTOM_GEOMETRY,
   MLN_STYLE_SOURCE_TYPE_CUSTOM_VECTOR]"

interpretation style_source_type_enum: c_enum mln_style_source_type_code mln_style_source_type_values
  by (unfold_locales, simp add: mln_style_source_type_values_def, rename_tac e, case_tac e; simp add: mln_style_source_type_values_def)

datatype (plugins only: code size) mln_style_source_info_field =
    MLN_STYLE_SOURCE_INFO_TILE_JSON
  | MLN_STYLE_SOURCE_INFO_BOUNDS
  | MLN_STYLE_SOURCE_INFO_TILE_SIZE
  | MLN_STYLE_SOURCE_INFO_VECTOR_ENCODING
  | MLN_STYLE_SOURCE_INFO_RASTER_ENCODING
  | MLN_STYLE_SOURCE_INFO_GEO_JSON

primrec mln_style_source_info_field_code :: "mln_style_source_info_field \<Rightarrow> u32" where
    "mln_style_source_info_field_code MLN_STYLE_SOURCE_INFO_TILE_JSON = push_bit 0 1"
  | "mln_style_source_info_field_code MLN_STYLE_SOURCE_INFO_BOUNDS = push_bit 1 1"
  | "mln_style_source_info_field_code MLN_STYLE_SOURCE_INFO_TILE_SIZE = push_bit 2 1"
  | "mln_style_source_info_field_code MLN_STYLE_SOURCE_INFO_VECTOR_ENCODING = push_bit 3 1"
  | "mln_style_source_info_field_code MLN_STYLE_SOURCE_INFO_RASTER_ENCODING = push_bit 4 1"
  | "mln_style_source_info_field_code MLN_STYLE_SOURCE_INFO_GEO_JSON = push_bit 5 1"

definition mln_style_source_info_field_values :: "mln_style_source_info_field list" where
  "mln_style_source_info_field_values =
  [MLN_STYLE_SOURCE_INFO_TILE_JSON,
   MLN_STYLE_SOURCE_INFO_BOUNDS,
   MLN_STYLE_SOURCE_INFO_TILE_SIZE,
   MLN_STYLE_SOURCE_INFO_VECTOR_ENCODING,
   MLN_STYLE_SOURCE_INFO_RASTER_ENCODING,
   MLN_STYLE_SOURCE_INFO_GEO_JSON]"

interpretation style_source_info_field_enum: c_enum mln_style_source_info_field_code mln_style_source_info_field_values
  by (unfold_locales, simp add: mln_style_source_info_field_values_def, rename_tac e, case_tac e; simp add: mln_style_source_info_field_values_def)

type_synonym mln_style_source_info_fields = u32

datatype (plugins only: code size) mln_style_tile_scheme =
    MLN_STYLE_TILE_SCHEME_XYZ
  | MLN_STYLE_TILE_SCHEME_TMS

primrec mln_style_tile_scheme_code :: "mln_style_tile_scheme \<Rightarrow> u32" where
    "mln_style_tile_scheme_code MLN_STYLE_TILE_SCHEME_XYZ = 0"
  | "mln_style_tile_scheme_code MLN_STYLE_TILE_SCHEME_TMS = 1"

definition mln_style_tile_scheme_values :: "mln_style_tile_scheme list" where
  "mln_style_tile_scheme_values =
  [MLN_STYLE_TILE_SCHEME_XYZ,
   MLN_STYLE_TILE_SCHEME_TMS]"

interpretation style_tile_scheme_enum: c_enum mln_style_tile_scheme_code mln_style_tile_scheme_values
  by (unfold_locales, simp add: mln_style_tile_scheme_values_def, rename_tac e, case_tac e; simp add: mln_style_tile_scheme_values_def)

datatype (plugins only: code size) mln_style_vector_tile_encoding =
    MLN_STYLE_VECTOR_TILE_ENCODING_MVT
  | MLN_STYLE_VECTOR_TILE_ENCODING_MLT

primrec mln_style_vector_tile_encoding_code :: "mln_style_vector_tile_encoding \<Rightarrow> u32" where
    "mln_style_vector_tile_encoding_code MLN_STYLE_VECTOR_TILE_ENCODING_MVT = 0"
  | "mln_style_vector_tile_encoding_code MLN_STYLE_VECTOR_TILE_ENCODING_MLT = 1"

definition mln_style_vector_tile_encoding_values :: "mln_style_vector_tile_encoding list" where
  "mln_style_vector_tile_encoding_values =
  [MLN_STYLE_VECTOR_TILE_ENCODING_MVT,
   MLN_STYLE_VECTOR_TILE_ENCODING_MLT]"

interpretation style_vector_tile_encoding_enum: c_enum mln_style_vector_tile_encoding_code mln_style_vector_tile_encoding_values
  by (unfold_locales, simp add: mln_style_vector_tile_encoding_values_def, rename_tac e, case_tac e; simp add: mln_style_vector_tile_encoding_values_def)

datatype (plugins only: code size) mln_style_raster_dem_encoding =
    MLN_STYLE_RASTER_DEM_ENCODING_MAPBOX
  | MLN_STYLE_RASTER_DEM_ENCODING_TERRARIUM

primrec mln_style_raster_dem_encoding_code :: "mln_style_raster_dem_encoding \<Rightarrow> u32" where
    "mln_style_raster_dem_encoding_code MLN_STYLE_RASTER_DEM_ENCODING_MAPBOX = 0"
  | "mln_style_raster_dem_encoding_code MLN_STYLE_RASTER_DEM_ENCODING_TERRARIUM = 1"

definition mln_style_raster_dem_encoding_values :: "mln_style_raster_dem_encoding list" where
  "mln_style_raster_dem_encoding_values =
  [MLN_STYLE_RASTER_DEM_ENCODING_MAPBOX,
   MLN_STYLE_RASTER_DEM_ENCODING_TERRARIUM]"

interpretation style_raster_dem_encoding_enum: c_enum mln_style_raster_dem_encoding_code mln_style_raster_dem_encoding_values
  by (unfold_locales, simp add: mln_style_raster_dem_encoding_values_def, rename_tac e, case_tac e; simp add: mln_style_raster_dem_encoding_values_def)

record mln_image_stretch =
  image_stretch_from :: double
  image_stretch_to :: double

record mln_image_content =
  image_content_left :: double
  image_content_top :: double
  image_content_right :: double
  image_content_bottom :: double

datatype (plugins only: code size) mln_style_image_text_fit =
    MLN_STYLE_IMAGE_TEXT_FIT_STRETCH_OR_SHRINK
  | MLN_STYLE_IMAGE_TEXT_FIT_STRETCH_ONLY
  | MLN_STYLE_IMAGE_TEXT_FIT_PROPORTIONAL

primrec mln_style_image_text_fit_code :: "mln_style_image_text_fit \<Rightarrow> u32" where
    "mln_style_image_text_fit_code MLN_STYLE_IMAGE_TEXT_FIT_STRETCH_OR_SHRINK = 0"
  | "mln_style_image_text_fit_code MLN_STYLE_IMAGE_TEXT_FIT_STRETCH_ONLY = 1"
  | "mln_style_image_text_fit_code MLN_STYLE_IMAGE_TEXT_FIT_PROPORTIONAL = 2"

definition mln_style_image_text_fit_values :: "mln_style_image_text_fit list" where
  "mln_style_image_text_fit_values =
  [MLN_STYLE_IMAGE_TEXT_FIT_STRETCH_OR_SHRINK,
   MLN_STYLE_IMAGE_TEXT_FIT_STRETCH_ONLY,
   MLN_STYLE_IMAGE_TEXT_FIT_PROPORTIONAL]"

interpretation style_image_text_fit_enum: c_enum mln_style_image_text_fit_code mln_style_image_text_fit_values
  by (unfold_locales, simp add: mln_style_image_text_fit_values_def, rename_tac e, case_tac e; simp add: mln_style_image_text_fit_values_def)

datatype (plugins only: code size) mln_style_layer_visibility =
    MLN_STYLE_LAYER_VISIBILITY_VISIBLE
  | MLN_STYLE_LAYER_VISIBILITY_NONE

primrec mln_style_layer_visibility_code :: "mln_style_layer_visibility \<Rightarrow> u32" where
    "mln_style_layer_visibility_code MLN_STYLE_LAYER_VISIBILITY_VISIBLE = 0"
  | "mln_style_layer_visibility_code MLN_STYLE_LAYER_VISIBILITY_NONE = 1"

definition mln_style_layer_visibility_values :: "mln_style_layer_visibility list" where
  "mln_style_layer_visibility_values =
  [MLN_STYLE_LAYER_VISIBILITY_VISIBLE,
   MLN_STYLE_LAYER_VISIBILITY_NONE]"

interpretation style_layer_visibility_enum: c_enum mln_style_layer_visibility_code mln_style_layer_visibility_values
  by (unfold_locales, simp add: mln_style_layer_visibility_values_def, rename_tac e, case_tac e; simp add: mln_style_layer_visibility_values_def)

datatype (plugins only: code size) mln_geo_json_source_option_field =
    MLN_GEO_JSON_SOURCE_OPTION_MIN_ZOOM
  | MLN_GEO_JSON_SOURCE_OPTION_MAX_ZOOM
  | MLN_GEO_JSON_SOURCE_OPTION_TOLERANCE
  | MLN_GEO_JSON_SOURCE_OPTION_CLUSTER_MAX_ZOOM
  | MLN_GEO_JSON_SOURCE_OPTION_BUFFER
  | MLN_GEO_JSON_SOURCE_OPTION_CLUSTER_RADIUS
  | MLN_GEO_JSON_SOURCE_OPTION_CLUSTER_MIN_POINTS
  | MLN_GEO_JSON_SOURCE_OPTION_LINE_METRICS
  | MLN_GEO_JSON_SOURCE_OPTION_CLUSTER

primrec mln_geo_json_source_option_field_code :: "mln_geo_json_source_option_field \<Rightarrow> u32" where
    "mln_geo_json_source_option_field_code MLN_GEO_JSON_SOURCE_OPTION_MIN_ZOOM = push_bit 0 1"
  | "mln_geo_json_source_option_field_code MLN_GEO_JSON_SOURCE_OPTION_MAX_ZOOM = push_bit 1 1"
  | "mln_geo_json_source_option_field_code MLN_GEO_JSON_SOURCE_OPTION_TOLERANCE = push_bit 2 1"
  | "mln_geo_json_source_option_field_code MLN_GEO_JSON_SOURCE_OPTION_CLUSTER_MAX_ZOOM = push_bit 3 1"
  | "mln_geo_json_source_option_field_code MLN_GEO_JSON_SOURCE_OPTION_BUFFER = push_bit 4 1"
  | "mln_geo_json_source_option_field_code MLN_GEO_JSON_SOURCE_OPTION_CLUSTER_RADIUS = push_bit 5 1"
  | "mln_geo_json_source_option_field_code MLN_GEO_JSON_SOURCE_OPTION_CLUSTER_MIN_POINTS = push_bit 6 1"
  | "mln_geo_json_source_option_field_code MLN_GEO_JSON_SOURCE_OPTION_LINE_METRICS = push_bit 7 1"
  | "mln_geo_json_source_option_field_code MLN_GEO_JSON_SOURCE_OPTION_CLUSTER = push_bit 8 1"

definition mln_geo_json_source_option_field_values :: "mln_geo_json_source_option_field list" where
  "mln_geo_json_source_option_field_values =
  [MLN_GEO_JSON_SOURCE_OPTION_MIN_ZOOM,
   MLN_GEO_JSON_SOURCE_OPTION_MAX_ZOOM,
   MLN_GEO_JSON_SOURCE_OPTION_TOLERANCE,
   MLN_GEO_JSON_SOURCE_OPTION_CLUSTER_MAX_ZOOM,
   MLN_GEO_JSON_SOURCE_OPTION_BUFFER,
   MLN_GEO_JSON_SOURCE_OPTION_CLUSTER_RADIUS,
   MLN_GEO_JSON_SOURCE_OPTION_CLUSTER_MIN_POINTS,
   MLN_GEO_JSON_SOURCE_OPTION_LINE_METRICS,
   MLN_GEO_JSON_SOURCE_OPTION_CLUSTER]"

interpretation geo_json_source_option_field_enum: c_enum mln_geo_json_source_option_field_code mln_geo_json_source_option_field_values
  by (unfold_locales, simp add: mln_geo_json_source_option_field_values_def, rename_tac e, case_tac e; simp add: mln_geo_json_source_option_field_values_def)

type_synonym mln_geo_json_source_option_fields = u32

datatype (plugins only: code size) mln_custom_geometry_source_option_field =
    MLN_CUSTOM_GEOMETRY_SOURCE_OPTION_MIN_ZOOM
  | MLN_CUSTOM_GEOMETRY_SOURCE_OPTION_MAX_ZOOM
  | MLN_CUSTOM_GEOMETRY_SOURCE_OPTION_TOLERANCE
  | MLN_CUSTOM_GEOMETRY_SOURCE_OPTION_TILE_SIZE
  | MLN_CUSTOM_GEOMETRY_SOURCE_OPTION_BUFFER
  | MLN_CUSTOM_GEOMETRY_SOURCE_OPTION_CLIP
  | MLN_CUSTOM_GEOMETRY_SOURCE_OPTION_WRAP

primrec mln_custom_geometry_source_option_field_code :: "mln_custom_geometry_source_option_field \<Rightarrow> u32" where
    "mln_custom_geometry_source_option_field_code MLN_CUSTOM_GEOMETRY_SOURCE_OPTION_MIN_ZOOM = push_bit 0 1"
  | "mln_custom_geometry_source_option_field_code MLN_CUSTOM_GEOMETRY_SOURCE_OPTION_MAX_ZOOM = push_bit 1 1"
  | "mln_custom_geometry_source_option_field_code MLN_CUSTOM_GEOMETRY_SOURCE_OPTION_TOLERANCE = push_bit 2 1"
  | "mln_custom_geometry_source_option_field_code MLN_CUSTOM_GEOMETRY_SOURCE_OPTION_TILE_SIZE = push_bit 3 1"
  | "mln_custom_geometry_source_option_field_code MLN_CUSTOM_GEOMETRY_SOURCE_OPTION_BUFFER = push_bit 4 1"
  | "mln_custom_geometry_source_option_field_code MLN_CUSTOM_GEOMETRY_SOURCE_OPTION_CLIP = push_bit 5 1"
  | "mln_custom_geometry_source_option_field_code MLN_CUSTOM_GEOMETRY_SOURCE_OPTION_WRAP = push_bit 6 1"

definition mln_custom_geometry_source_option_field_values :: "mln_custom_geometry_source_option_field list" where
  "mln_custom_geometry_source_option_field_values =
  [MLN_CUSTOM_GEOMETRY_SOURCE_OPTION_MIN_ZOOM,
   MLN_CUSTOM_GEOMETRY_SOURCE_OPTION_MAX_ZOOM,
   MLN_CUSTOM_GEOMETRY_SOURCE_OPTION_TOLERANCE,
   MLN_CUSTOM_GEOMETRY_SOURCE_OPTION_TILE_SIZE,
   MLN_CUSTOM_GEOMETRY_SOURCE_OPTION_BUFFER,
   MLN_CUSTOM_GEOMETRY_SOURCE_OPTION_CLIP,
   MLN_CUSTOM_GEOMETRY_SOURCE_OPTION_WRAP]"

interpretation custom_geometry_source_option_field_enum: c_enum mln_custom_geometry_source_option_field_code mln_custom_geometry_source_option_field_values
  by (unfold_locales, simp add: mln_custom_geometry_source_option_field_values_def, rename_tac e, case_tac e; simp add: mln_custom_geometry_source_option_field_values_def)

type_synonym mln_custom_geometry_source_option_fields = u32

datatype (plugins only: code size) mln_custom_vector_source_option_field =
    MLN_CUSTOM_VECTOR_SOURCE_OPTION_MIN_ZOOM
  | MLN_CUSTOM_VECTOR_SOURCE_OPTION_MAX_ZOOM

primrec mln_custom_vector_source_option_field_code :: "mln_custom_vector_source_option_field \<Rightarrow> u32" where
    "mln_custom_vector_source_option_field_code MLN_CUSTOM_VECTOR_SOURCE_OPTION_MIN_ZOOM = push_bit 0 1"
  | "mln_custom_vector_source_option_field_code MLN_CUSTOM_VECTOR_SOURCE_OPTION_MAX_ZOOM = push_bit 1 1"

definition mln_custom_vector_source_option_field_values :: "mln_custom_vector_source_option_field list" where
  "mln_custom_vector_source_option_field_values =
  [MLN_CUSTOM_VECTOR_SOURCE_OPTION_MIN_ZOOM,
   MLN_CUSTOM_VECTOR_SOURCE_OPTION_MAX_ZOOM]"

interpretation custom_vector_source_option_field_enum: c_enum mln_custom_vector_source_option_field_code mln_custom_vector_source_option_field_values
  by (unfold_locales, simp add: mln_custom_vector_source_option_field_values_def, rename_tac e, case_tac e; simp add: mln_custom_vector_source_option_field_values_def)

type_synonym mln_custom_vector_source_option_fields = u32

datatype (plugins only: code size) mln_style_image_option_field =
    MLN_STYLE_IMAGE_OPTION_PIXEL_RATIO
  | MLN_STYLE_IMAGE_OPTION_SDF
  | MLN_STYLE_IMAGE_OPTION_STRETCH_X
  | MLN_STYLE_IMAGE_OPTION_STRETCH_Y
  | MLN_STYLE_IMAGE_OPTION_CONTENT
  | MLN_STYLE_IMAGE_OPTION_TEXT_FIT_WIDTH
  | MLN_STYLE_IMAGE_OPTION_TEXT_FIT_HEIGHT
  | MLN_STYLE_IMAGE_OPTION_KEEP_UNUSED

primrec mln_style_image_option_field_code :: "mln_style_image_option_field \<Rightarrow> u32" where
    "mln_style_image_option_field_code MLN_STYLE_IMAGE_OPTION_PIXEL_RATIO = push_bit 0 1"
  | "mln_style_image_option_field_code MLN_STYLE_IMAGE_OPTION_SDF = push_bit 1 1"
  | "mln_style_image_option_field_code MLN_STYLE_IMAGE_OPTION_STRETCH_X = push_bit 2 1"
  | "mln_style_image_option_field_code MLN_STYLE_IMAGE_OPTION_STRETCH_Y = push_bit 3 1"
  | "mln_style_image_option_field_code MLN_STYLE_IMAGE_OPTION_CONTENT = push_bit 4 1"
  | "mln_style_image_option_field_code MLN_STYLE_IMAGE_OPTION_TEXT_FIT_WIDTH = push_bit 5 1"
  | "mln_style_image_option_field_code MLN_STYLE_IMAGE_OPTION_TEXT_FIT_HEIGHT = push_bit 6 1"
  | "mln_style_image_option_field_code MLN_STYLE_IMAGE_OPTION_KEEP_UNUSED = push_bit 7 1"

definition mln_style_image_option_field_values :: "mln_style_image_option_field list" where
  "mln_style_image_option_field_values =
  [MLN_STYLE_IMAGE_OPTION_PIXEL_RATIO,
   MLN_STYLE_IMAGE_OPTION_SDF,
   MLN_STYLE_IMAGE_OPTION_STRETCH_X,
   MLN_STYLE_IMAGE_OPTION_STRETCH_Y,
   MLN_STYLE_IMAGE_OPTION_CONTENT,
   MLN_STYLE_IMAGE_OPTION_TEXT_FIT_WIDTH,
   MLN_STYLE_IMAGE_OPTION_TEXT_FIT_HEIGHT,
   MLN_STYLE_IMAGE_OPTION_KEEP_UNUSED]"

interpretation style_image_option_field_enum: c_enum mln_style_image_option_field_code mln_style_image_option_field_values
  by (unfold_locales, simp add: mln_style_image_option_field_values_def, rename_tac e, case_tac e; simp add: mln_style_image_option_field_values_def)

type_synonym mln_style_image_option_fields = u32

datatype (plugins only: code size) mln_style_image_info_field =
    MLN_STYLE_IMAGE_INFO_CONTENT
  | MLN_STYLE_IMAGE_INFO_TEXT_FIT_WIDTH
  | MLN_STYLE_IMAGE_INFO_TEXT_FIT_HEIGHT

primrec mln_style_image_info_field_code :: "mln_style_image_info_field \<Rightarrow> u32" where
    "mln_style_image_info_field_code MLN_STYLE_IMAGE_INFO_CONTENT = push_bit 0 1"
  | "mln_style_image_info_field_code MLN_STYLE_IMAGE_INFO_TEXT_FIT_WIDTH = push_bit 1 1"
  | "mln_style_image_info_field_code MLN_STYLE_IMAGE_INFO_TEXT_FIT_HEIGHT = push_bit 2 1"

definition mln_style_image_info_field_values :: "mln_style_image_info_field list" where
  "mln_style_image_info_field_values =
  [MLN_STYLE_IMAGE_INFO_CONTENT,
   MLN_STYLE_IMAGE_INFO_TEXT_FIT_WIDTH,
   MLN_STYLE_IMAGE_INFO_TEXT_FIT_HEIGHT]"

interpretation style_image_info_field_enum: c_enum mln_style_image_info_field_code mln_style_image_info_field_values
  by (unfold_locales, simp add: mln_style_image_info_field_values_def, rename_tac e, case_tac e; simp add: mln_style_image_info_field_values_def)

type_synonym mln_style_image_info_fields = u32

datatype (plugins only: code size) mln_style_transition_option_field =
    MLN_STYLE_TRANSITION_OPTION_DURATION
  | MLN_STYLE_TRANSITION_OPTION_DELAY
  | MLN_STYLE_TRANSITION_OPTION_ENABLE_PLACEMENT_TRANSITIONS

primrec mln_style_transition_option_field_code :: "mln_style_transition_option_field \<Rightarrow> u32" where
    "mln_style_transition_option_field_code MLN_STYLE_TRANSITION_OPTION_DURATION = push_bit 0 1"
  | "mln_style_transition_option_field_code MLN_STYLE_TRANSITION_OPTION_DELAY = push_bit 1 1"
  | "mln_style_transition_option_field_code MLN_STYLE_TRANSITION_OPTION_ENABLE_PLACEMENT_TRANSITIONS = push_bit 2 1"

definition mln_style_transition_option_field_values :: "mln_style_transition_option_field list" where
  "mln_style_transition_option_field_values =
  [MLN_STYLE_TRANSITION_OPTION_DURATION,
   MLN_STYLE_TRANSITION_OPTION_DELAY,
   MLN_STYLE_TRANSITION_OPTION_ENABLE_PLACEMENT_TRANSITIONS]"

interpretation style_transition_option_field_enum: c_enum mln_style_transition_option_field_code mln_style_transition_option_field_values
  by (unfold_locales, simp add: mln_style_transition_option_field_values_def, rename_tac e, case_tac e; simp add: mln_style_transition_option_field_values_def)

type_synonym mln_style_transition_option_fields = u32

record mln_style_source_tile_info =
  style_source_tile_info_tile_urls :: "mln_buffer_view list option"
  style_source_tile_info_tile_url_count :: usize
  style_source_tile_info_min_zoom :: double
  style_source_tile_info_max_zoom :: double
  style_source_tile_info_scheme :: u32

record mln_geo_json_source_options =
  geo_json_source_options_size :: u32
  geo_json_source_options_fields :: mln_geo_json_source_option_fields
  geo_json_source_options_min_zoom :: double
  geo_json_source_options_max_zoom :: double
  geo_json_source_options_tolerance :: double
  geo_json_source_options_cluster_max_zoom :: double
  geo_json_source_options_cluster_properties :: mln_buffer_view
  geo_json_source_options_buffer :: u32
  geo_json_source_options_cluster_radius :: u32
  geo_json_source_options_cluster_min_points :: u64
  geo_json_source_options_line_metrics :: bool
  geo_json_source_options_cluster :: bool

record mln_style_source_info =
  style_source_info_id :: mln_buffer_view
  style_source_info_type :: u32
  style_source_info_fields :: mln_style_source_info_fields
  style_source_info_is_volatile :: bool
  style_source_info_attribution :: mln_buffer_view
  style_source_info_url :: mln_buffer_view
  style_source_info_tile_json :: mln_style_source_tile_info
  style_source_info_bounds :: mln_lat_lng_bounds
  style_source_info_tile_size :: u32
  style_source_info_vector_encoding :: u32
  style_source_info_raster_encoding :: u32
  style_source_info_geo_json :: mln_geo_json_source_options

record mln_style_layer_info =
  style_layer_info_id :: mln_buffer_view
  style_layer_info_type :: mln_buffer_view
  style_layer_info_source_id :: mln_buffer_view
  style_layer_info_source_layer :: mln_buffer_view
  style_layer_info_min_zoom :: double
  style_layer_info_max_zoom :: double
  style_layer_info_visibility :: u32

record mln_canonical_tile_id =
  canonical_tile_id_z :: u32
  canonical_tile_id_x :: u32
  canonical_tile_id_y :: u32

record mln_custom_geometry_source_options =
  custom_geometry_source_options_size :: u32
  custom_geometry_source_options_fields :: mln_custom_geometry_source_option_fields
  custom_geometry_source_options_fetch_tile :: ptr
  custom_geometry_source_options_cancel_tile :: ptr
  custom_geometry_source_options_user_data :: ptr
  custom_geometry_source_options_min_zoom :: double
  custom_geometry_source_options_max_zoom :: double
  custom_geometry_source_options_tolerance :: double
  custom_geometry_source_options_tile_size :: u32
  custom_geometry_source_options_buffer :: u32
  custom_geometry_source_options_clip :: bool
  custom_geometry_source_options_wrap :: bool
  custom_geometry_source_options_release_user_data :: ptr
  custom_geometry_source_options_queue :: mln_delivery_queue

record mln_custom_vector_source_options =
  custom_vector_source_options_size :: u32
  custom_vector_source_options_fields :: mln_custom_vector_source_option_fields
  custom_vector_source_options_fetch_tile :: ptr
  custom_vector_source_options_cancel_tile :: ptr
  custom_vector_source_options_user_data :: ptr
  custom_vector_source_options_min_zoom :: double
  custom_vector_source_options_max_zoom :: double
  custom_vector_source_options_release_user_data :: ptr
  custom_vector_source_options_queue :: mln_delivery_queue

record mln_premultiplied_rgba8_image =
  premultiplied_rgba8_image_size :: u32
  premultiplied_rgba8_image_width :: u32
  premultiplied_rgba8_image_height :: u32
  premultiplied_rgba8_image_stride :: u32
  premultiplied_rgba8_image_pixels :: "u8 list option"
  premultiplied_rgba8_image_byte_length :: usize

record mln_style_image_options =
  style_image_options_size :: u32
  style_image_options_fields :: mln_style_image_option_fields
  style_image_options_stretch_x :: "mln_image_stretch list option"
  style_image_options_stretch_x_count :: usize
  style_image_options_stretch_y :: "mln_image_stretch list option"
  style_image_options_stretch_y_count :: usize
  style_image_options_content :: mln_image_content
  style_image_options_text_fit_width :: u32
  style_image_options_text_fit_height :: u32
  style_image_options_pixel_ratio :: double
  style_image_options_sdf :: bool
  style_image_options_keep_unused :: bool

record mln_style_image_info =
  style_image_info_width :: u32
  style_image_info_height :: u32
  style_image_info_fields :: mln_style_image_info_fields
  style_image_info_pixels :: mln_buffer_view
  style_image_info_stretch_x :: "mln_image_stretch list option"
  style_image_info_stretch_x_count :: usize
  style_image_info_stretch_y :: "mln_image_stretch list option"
  style_image_info_stretch_y_count :: usize
  style_image_info_content :: mln_image_content
  style_image_info_text_fit_width :: u32
  style_image_info_text_fit_height :: u32
  style_image_info_pixel_ratio :: double
  style_image_info_sdf :: bool
  style_image_info_keep_unused :: bool

record mln_style_transition_options =
  style_transition_options_size :: u32
  style_transition_options_fields :: mln_style_transition_option_fields
  style_transition_options_duration_ms :: double
  style_transition_options_delay_ms :: double
  style_transition_options_enable_placement_transitions :: bool

section \<open>style_expression.h\<close>

datatype (plugins only: code size) mln_style_expression_type_kind =
    MLN_STYLE_EXPRESSION_TYPE_VALUE
  | MLN_STYLE_EXPRESSION_TYPE_NUMBER
  | MLN_STYLE_EXPRESSION_TYPE_STRING
  | MLN_STYLE_EXPRESSION_TYPE_BOOLEAN
  | MLN_STYLE_EXPRESSION_TYPE_COLOR
  | MLN_STYLE_EXPRESSION_TYPE_OBJECT
  | MLN_STYLE_EXPRESSION_TYPE_FORMATTED
  | MLN_STYLE_EXPRESSION_TYPE_IMAGE
  | MLN_STYLE_EXPRESSION_TYPE_PADDING
  | MLN_STYLE_EXPRESSION_TYPE_VARIABLE_ANCHOR_OFFSET_COLLECTION
  | MLN_STYLE_EXPRESSION_TYPE_ARRAY

primrec mln_style_expression_type_kind_code :: "mln_style_expression_type_kind \<Rightarrow> u32" where
    "mln_style_expression_type_kind_code MLN_STYLE_EXPRESSION_TYPE_VALUE = 0"
  | "mln_style_expression_type_kind_code MLN_STYLE_EXPRESSION_TYPE_NUMBER = 1"
  | "mln_style_expression_type_kind_code MLN_STYLE_EXPRESSION_TYPE_STRING = 2"
  | "mln_style_expression_type_kind_code MLN_STYLE_EXPRESSION_TYPE_BOOLEAN = 3"
  | "mln_style_expression_type_kind_code MLN_STYLE_EXPRESSION_TYPE_COLOR = 4"
  | "mln_style_expression_type_kind_code MLN_STYLE_EXPRESSION_TYPE_OBJECT = 5"
  | "mln_style_expression_type_kind_code MLN_STYLE_EXPRESSION_TYPE_FORMATTED = 6"
  | "mln_style_expression_type_kind_code MLN_STYLE_EXPRESSION_TYPE_IMAGE = 7"
  | "mln_style_expression_type_kind_code MLN_STYLE_EXPRESSION_TYPE_PADDING = 8"
  | "mln_style_expression_type_kind_code MLN_STYLE_EXPRESSION_TYPE_VARIABLE_ANCHOR_OFFSET_COLLECTION = 9"
  | "mln_style_expression_type_kind_code MLN_STYLE_EXPRESSION_TYPE_ARRAY = 10"

definition mln_style_expression_type_kind_values :: "mln_style_expression_type_kind list" where
  "mln_style_expression_type_kind_values =
  [MLN_STYLE_EXPRESSION_TYPE_VALUE,
   MLN_STYLE_EXPRESSION_TYPE_NUMBER,
   MLN_STYLE_EXPRESSION_TYPE_STRING,
   MLN_STYLE_EXPRESSION_TYPE_BOOLEAN,
   MLN_STYLE_EXPRESSION_TYPE_COLOR,
   MLN_STYLE_EXPRESSION_TYPE_OBJECT,
   MLN_STYLE_EXPRESSION_TYPE_FORMATTED,
   MLN_STYLE_EXPRESSION_TYPE_IMAGE,
   MLN_STYLE_EXPRESSION_TYPE_PADDING,
   MLN_STYLE_EXPRESSION_TYPE_VARIABLE_ANCHOR_OFFSET_COLLECTION,
   MLN_STYLE_EXPRESSION_TYPE_ARRAY]"

interpretation style_expression_type_kind_enum: c_enum mln_style_expression_type_kind_code mln_style_expression_type_kind_values
  by (unfold_locales, simp add: mln_style_expression_type_kind_values_def, rename_tac e, case_tac e; simp add: mln_style_expression_type_kind_values_def)

record mln_style_expression_type =
  style_expression_type_kind :: u32
  style_expression_type_item_kind :: u32
  style_expression_type_item_count :: u32

datatype (plugins only: code size) mln_style_expression_option_field =
    MLN_STYLE_EXPRESSION_OPTION_EXPECTED_TYPE

primrec mln_style_expression_option_field_code :: "mln_style_expression_option_field \<Rightarrow> u32" where
    "mln_style_expression_option_field_code MLN_STYLE_EXPRESSION_OPTION_EXPECTED_TYPE = push_bit 0 1"

definition mln_style_expression_option_field_values :: "mln_style_expression_option_field list" where
  "mln_style_expression_option_field_values =
  [MLN_STYLE_EXPRESSION_OPTION_EXPECTED_TYPE]"

interpretation style_expression_option_field_enum: c_enum mln_style_expression_option_field_code mln_style_expression_option_field_values
  by (unfold_locales, simp add: mln_style_expression_option_field_values_def, rename_tac e, case_tac e; simp add: mln_style_expression_option_field_values_def)

type_synonym mln_style_expression_option_fields = u32

record mln_style_expression_options =
  style_expression_options_size :: u32
  style_expression_options_fields :: mln_style_expression_option_fields
  style_expression_options_expected_type :: mln_style_expression_type

datatype (plugins only: code size) mln_style_expression_input_field =
    MLN_STYLE_EXPRESSION_INPUT_ZOOM
  | MLN_STYLE_EXPRESSION_INPUT_COLOR_RAMP_PARAMETER
  | MLN_STYLE_EXPRESSION_INPUT_CANONICAL_TILE_ID

primrec mln_style_expression_input_field_code :: "mln_style_expression_input_field \<Rightarrow> u32" where
    "mln_style_expression_input_field_code MLN_STYLE_EXPRESSION_INPUT_ZOOM = push_bit 0 1"
  | "mln_style_expression_input_field_code MLN_STYLE_EXPRESSION_INPUT_COLOR_RAMP_PARAMETER = push_bit 1 1"
  | "mln_style_expression_input_field_code MLN_STYLE_EXPRESSION_INPUT_CANONICAL_TILE_ID = push_bit 3 1"

definition mln_style_expression_input_field_values :: "mln_style_expression_input_field list" where
  "mln_style_expression_input_field_values =
  [MLN_STYLE_EXPRESSION_INPUT_ZOOM,
   MLN_STYLE_EXPRESSION_INPUT_COLOR_RAMP_PARAMETER,
   MLN_STYLE_EXPRESSION_INPUT_CANONICAL_TILE_ID]"

interpretation style_expression_input_field_enum: c_enum mln_style_expression_input_field_code mln_style_expression_input_field_values
  by (unfold_locales, simp add: mln_style_expression_input_field_values_def, rename_tac e, case_tac e; simp add: mln_style_expression_input_field_values_def)

type_synonym mln_style_expression_input_fields = u32

record mln_style_expression_inputs =
  style_expression_inputs_size :: u32
  style_expression_inputs_fields :: mln_style_expression_input_fields
  style_expression_inputs_zoom :: double
  style_expression_inputs_color_ramp_parameter :: double
  style_expression_inputs_feature :: mln_buffer_view
  style_expression_inputs_feature_state :: mln_buffer_view
  style_expression_inputs_global_state :: mln_buffer_view
  style_expression_inputs_canonical_tile_id :: mln_canonical_tile_id
  style_expression_inputs_available_images :: "mln_buffer_view list option"
  style_expression_inputs_available_image_count :: usize

record mln_style_expression_info =
  style_expression_info_size :: u32
  style_expression_info_is_feature_constant :: bool
  style_expression_info_is_zoom_constant :: bool

section \<open>query.h\<close>

datatype (plugins only: code size) mln_rendered_query_geometry_type =
    MLN_RENDERED_QUERY_GEOMETRY_TYPE_POINT
  | MLN_RENDERED_QUERY_GEOMETRY_TYPE_BOX
  | MLN_RENDERED_QUERY_GEOMETRY_TYPE_LINE_STRING

primrec mln_rendered_query_geometry_type_code :: "mln_rendered_query_geometry_type \<Rightarrow> u32" where
    "mln_rendered_query_geometry_type_code MLN_RENDERED_QUERY_GEOMETRY_TYPE_POINT = 1"
  | "mln_rendered_query_geometry_type_code MLN_RENDERED_QUERY_GEOMETRY_TYPE_BOX = 2"
  | "mln_rendered_query_geometry_type_code MLN_RENDERED_QUERY_GEOMETRY_TYPE_LINE_STRING = 3"

definition mln_rendered_query_geometry_type_values :: "mln_rendered_query_geometry_type list" where
  "mln_rendered_query_geometry_type_values =
  [MLN_RENDERED_QUERY_GEOMETRY_TYPE_POINT,
   MLN_RENDERED_QUERY_GEOMETRY_TYPE_BOX,
   MLN_RENDERED_QUERY_GEOMETRY_TYPE_LINE_STRING]"

interpretation rendered_query_geometry_type_enum: c_enum mln_rendered_query_geometry_type_code mln_rendered_query_geometry_type_values
  by (unfold_locales, simp add: mln_rendered_query_geometry_type_values_def, rename_tac e, case_tac e; simp add: mln_rendered_query_geometry_type_values_def)

record mln_screen_box =
  screen_box_min :: mln_screen_point
  screen_box_max :: mln_screen_point

record mln_screen_line_string =
  screen_line_string_points :: "mln_screen_point list option"
  screen_line_string_point_count :: usize

datatype mln_rendered_query_geometry_data =
    RenderedQueryGeometryData_point mln_screen_point
  | RenderedQueryGeometryData_box mln_screen_box
  | RenderedQueryGeometryData_line_string mln_screen_line_string

record mln_rendered_query_geometry =
  rendered_query_geometry_size :: u32
  rendered_query_geometry_type :: u32
  rendered_query_geometry_data :: mln_rendered_query_geometry_data

datatype (plugins only: code size) mln_rendered_feature_query_option_field =
    MLN_RENDERED_FEATURE_QUERY_OPTION_LAYER_IDS

primrec mln_rendered_feature_query_option_field_code :: "mln_rendered_feature_query_option_field \<Rightarrow> u32" where
    "mln_rendered_feature_query_option_field_code MLN_RENDERED_FEATURE_QUERY_OPTION_LAYER_IDS = push_bit 0 1"

definition mln_rendered_feature_query_option_field_values :: "mln_rendered_feature_query_option_field list" where
  "mln_rendered_feature_query_option_field_values =
  [MLN_RENDERED_FEATURE_QUERY_OPTION_LAYER_IDS]"

interpretation rendered_feature_query_option_field_enum: c_enum mln_rendered_feature_query_option_field_code mln_rendered_feature_query_option_field_values
  by (unfold_locales, simp add: mln_rendered_feature_query_option_field_values_def, rename_tac e, case_tac e; simp add: mln_rendered_feature_query_option_field_values_def)

type_synonym mln_rendered_feature_query_option_fields = u32

record mln_rendered_feature_query_options =
  rendered_feature_query_options_size :: u32
  rendered_feature_query_options_fields :: mln_rendered_feature_query_option_fields
  rendered_feature_query_options_layer_ids :: "mln_buffer_view list option"
  rendered_feature_query_options_layer_id_count :: usize
  rendered_feature_query_options_filter :: mln_buffer_view

datatype (plugins only: code size) mln_source_feature_query_option_field =
    MLN_SOURCE_FEATURE_QUERY_OPTION_SOURCE_LAYER_IDS

primrec mln_source_feature_query_option_field_code :: "mln_source_feature_query_option_field \<Rightarrow> u32" where
    "mln_source_feature_query_option_field_code MLN_SOURCE_FEATURE_QUERY_OPTION_SOURCE_LAYER_IDS = push_bit 0 1"

definition mln_source_feature_query_option_field_values :: "mln_source_feature_query_option_field list" where
  "mln_source_feature_query_option_field_values =
  [MLN_SOURCE_FEATURE_QUERY_OPTION_SOURCE_LAYER_IDS]"

interpretation source_feature_query_option_field_enum: c_enum mln_source_feature_query_option_field_code mln_source_feature_query_option_field_values
  by (unfold_locales, simp add: mln_source_feature_query_option_field_values_def, rename_tac e, case_tac e; simp add: mln_source_feature_query_option_field_values_def)

type_synonym mln_source_feature_query_option_fields = u32

record mln_source_feature_query_options =
  source_feature_query_options_size :: u32
  source_feature_query_options_fields :: mln_source_feature_query_option_fields
  source_feature_query_options_source_layer_ids :: "mln_buffer_view list option"
  source_feature_query_options_source_layer_id_count :: usize
  source_feature_query_options_filter :: mln_buffer_view

record mln_rendered_feature =
  rendered_feature_feature :: mln_buffer_view
  rendered_feature_layer_id :: mln_buffer_view
  rendered_feature_source_id :: mln_buffer_view
  rendered_feature_source_layer_id :: mln_buffer_view
  rendered_feature_state :: mln_buffer_view

record mln_source_feature =
  source_feature_feature :: mln_buffer_view
  source_feature_source_layer_id :: mln_buffer_view

end
