(* ===== verification/Api_Map.thy ===== *)
theory Api_Map
  imports Api_Geometry
begin

text \<open>
  The data of \<open>map.h\<close> and \<open>projection.h\<close>, under
  \<open>include/maplibre_native_c/\<close>: each struct is a record whose fields carry the struct's name, each
  enumeration a datatype with its codes and an interpretation of \<open>c_enum\<close>, each union a
  datatype with one constructor per member. Fields of enumeration and bit set types are words; a
  pointer to an array is the list it reaches, or \<open>None\<close> when null; callbacks and opaque pointers
  are addresses.
\<close>

unbundle bit_operations_syntax

section \<open>map.h\<close>

datatype (plugins only: code size) mln_camera_option_field =
    MLN_CAMERA_OPTION_CENTER
  | MLN_CAMERA_OPTION_ZOOM
  | MLN_CAMERA_OPTION_BEARING
  | MLN_CAMERA_OPTION_PITCH
  | MLN_CAMERA_OPTION_CENTER_ALTITUDE
  | MLN_CAMERA_OPTION_PADDING
  | MLN_CAMERA_OPTION_ANCHOR
  | MLN_CAMERA_OPTION_ROLL
  | MLN_CAMERA_OPTION_FOV

primrec mln_camera_option_field_code :: "mln_camera_option_field \<Rightarrow> u32" where
    "mln_camera_option_field_code MLN_CAMERA_OPTION_CENTER = push_bit 0 1"
  | "mln_camera_option_field_code MLN_CAMERA_OPTION_ZOOM = push_bit 1 1"
  | "mln_camera_option_field_code MLN_CAMERA_OPTION_BEARING = push_bit 2 1"
  | "mln_camera_option_field_code MLN_CAMERA_OPTION_PITCH = push_bit 3 1"
  | "mln_camera_option_field_code MLN_CAMERA_OPTION_CENTER_ALTITUDE = push_bit 4 1"
  | "mln_camera_option_field_code MLN_CAMERA_OPTION_PADDING = push_bit 5 1"
  | "mln_camera_option_field_code MLN_CAMERA_OPTION_ANCHOR = push_bit 6 1"
  | "mln_camera_option_field_code MLN_CAMERA_OPTION_ROLL = push_bit 7 1"
  | "mln_camera_option_field_code MLN_CAMERA_OPTION_FOV = push_bit 8 1"

definition mln_camera_option_field_values :: "mln_camera_option_field list" where
  "mln_camera_option_field_values =
  [MLN_CAMERA_OPTION_CENTER,
   MLN_CAMERA_OPTION_ZOOM,
   MLN_CAMERA_OPTION_BEARING,
   MLN_CAMERA_OPTION_PITCH,
   MLN_CAMERA_OPTION_CENTER_ALTITUDE,
   MLN_CAMERA_OPTION_PADDING,
   MLN_CAMERA_OPTION_ANCHOR,
   MLN_CAMERA_OPTION_ROLL,
   MLN_CAMERA_OPTION_FOV]"

interpretation camera_option_field_enum: c_enum mln_camera_option_field_code mln_camera_option_field_values
  by (unfold_locales, simp add: mln_camera_option_field_values_def, rename_tac e, case_tac e; simp add: mln_camera_option_field_values_def)

type_synonym mln_camera_option_fields = u32

datatype (plugins only: code size) mln_animation_option_field =
    MLN_ANIMATION_OPTION_DURATION
  | MLN_ANIMATION_OPTION_VELOCITY
  | MLN_ANIMATION_OPTION_MIN_ZOOM
  | MLN_ANIMATION_OPTION_EASING
  | MLN_ANIMATION_OPTION_TRANSITION_ID

primrec mln_animation_option_field_code :: "mln_animation_option_field \<Rightarrow> u32" where
    "mln_animation_option_field_code MLN_ANIMATION_OPTION_DURATION = push_bit 0 1"
  | "mln_animation_option_field_code MLN_ANIMATION_OPTION_VELOCITY = push_bit 1 1"
  | "mln_animation_option_field_code MLN_ANIMATION_OPTION_MIN_ZOOM = push_bit 2 1"
  | "mln_animation_option_field_code MLN_ANIMATION_OPTION_EASING = push_bit 3 1"
  | "mln_animation_option_field_code MLN_ANIMATION_OPTION_TRANSITION_ID = push_bit 4 1"

definition mln_animation_option_field_values :: "mln_animation_option_field list" where
  "mln_animation_option_field_values =
  [MLN_ANIMATION_OPTION_DURATION,
   MLN_ANIMATION_OPTION_VELOCITY,
   MLN_ANIMATION_OPTION_MIN_ZOOM,
   MLN_ANIMATION_OPTION_EASING,
   MLN_ANIMATION_OPTION_TRANSITION_ID]"

interpretation animation_option_field_enum: c_enum mln_animation_option_field_code mln_animation_option_field_values
  by (unfold_locales, simp add: mln_animation_option_field_values_def, rename_tac e, case_tac e; simp add: mln_animation_option_field_values_def)

type_synonym mln_animation_option_fields = u32

datatype (plugins only: code size) mln_camera_fit_option_field =
    MLN_CAMERA_FIT_OPTION_PADDING
  | MLN_CAMERA_FIT_OPTION_BEARING
  | MLN_CAMERA_FIT_OPTION_PITCH

primrec mln_camera_fit_option_field_code :: "mln_camera_fit_option_field \<Rightarrow> u32" where
    "mln_camera_fit_option_field_code MLN_CAMERA_FIT_OPTION_PADDING = push_bit 0 1"
  | "mln_camera_fit_option_field_code MLN_CAMERA_FIT_OPTION_BEARING = push_bit 1 1"
  | "mln_camera_fit_option_field_code MLN_CAMERA_FIT_OPTION_PITCH = push_bit 2 1"

definition mln_camera_fit_option_field_values :: "mln_camera_fit_option_field list" where
  "mln_camera_fit_option_field_values =
  [MLN_CAMERA_FIT_OPTION_PADDING,
   MLN_CAMERA_FIT_OPTION_BEARING,
   MLN_CAMERA_FIT_OPTION_PITCH]"

interpretation camera_fit_option_field_enum: c_enum mln_camera_fit_option_field_code mln_camera_fit_option_field_values
  by (unfold_locales, simp add: mln_camera_fit_option_field_values_def, rename_tac e, case_tac e; simp add: mln_camera_fit_option_field_values_def)

type_synonym mln_camera_fit_option_fields = u32

datatype (plugins only: code size) mln_bound_option_field =
    MLN_BOUND_OPTION_BOUNDS
  | MLN_BOUND_OPTION_MIN_ZOOM
  | MLN_BOUND_OPTION_MAX_ZOOM
  | MLN_BOUND_OPTION_MIN_PITCH
  | MLN_BOUND_OPTION_MAX_PITCH
  | MLN_BOUND_OPTION_UNBOUNDED

primrec mln_bound_option_field_code :: "mln_bound_option_field \<Rightarrow> u32" where
    "mln_bound_option_field_code MLN_BOUND_OPTION_BOUNDS = push_bit 0 1"
  | "mln_bound_option_field_code MLN_BOUND_OPTION_MIN_ZOOM = push_bit 1 1"
  | "mln_bound_option_field_code MLN_BOUND_OPTION_MAX_ZOOM = push_bit 2 1"
  | "mln_bound_option_field_code MLN_BOUND_OPTION_MIN_PITCH = push_bit 3 1"
  | "mln_bound_option_field_code MLN_BOUND_OPTION_MAX_PITCH = push_bit 4 1"
  | "mln_bound_option_field_code MLN_BOUND_OPTION_UNBOUNDED = push_bit 5 1"

definition mln_bound_option_field_values :: "mln_bound_option_field list" where
  "mln_bound_option_field_values =
  [MLN_BOUND_OPTION_BOUNDS,
   MLN_BOUND_OPTION_MIN_ZOOM,
   MLN_BOUND_OPTION_MAX_ZOOM,
   MLN_BOUND_OPTION_MIN_PITCH,
   MLN_BOUND_OPTION_MAX_PITCH,
   MLN_BOUND_OPTION_UNBOUNDED]"

interpretation bound_option_field_enum: c_enum mln_bound_option_field_code mln_bound_option_field_values
  by (unfold_locales, simp add: mln_bound_option_field_values_def, rename_tac e, case_tac e; simp add: mln_bound_option_field_values_def)

type_synonym mln_bound_option_fields = u32

datatype (plugins only: code size) mln_free_camera_option_field =
    MLN_FREE_CAMERA_OPTION_POSITION
  | MLN_FREE_CAMERA_OPTION_ORIENTATION

primrec mln_free_camera_option_field_code :: "mln_free_camera_option_field \<Rightarrow> u32" where
    "mln_free_camera_option_field_code MLN_FREE_CAMERA_OPTION_POSITION = push_bit 0 1"
  | "mln_free_camera_option_field_code MLN_FREE_CAMERA_OPTION_ORIENTATION = push_bit 1 1"

definition mln_free_camera_option_field_values :: "mln_free_camera_option_field list" where
  "mln_free_camera_option_field_values =
  [MLN_FREE_CAMERA_OPTION_POSITION,
   MLN_FREE_CAMERA_OPTION_ORIENTATION]"

interpretation free_camera_option_field_enum: c_enum mln_free_camera_option_field_code mln_free_camera_option_field_values
  by (unfold_locales, simp add: mln_free_camera_option_field_values_def, rename_tac e, case_tac e; simp add: mln_free_camera_option_field_values_def)

type_synonym mln_free_camera_option_fields = u32

datatype (plugins only: code size) mln_projection_mode_option_field =
    MLN_PROJECTION_MODE_OPTION_AXONOMETRIC
  | MLN_PROJECTION_MODE_OPTION_X_SKEW
  | MLN_PROJECTION_MODE_OPTION_Y_SKEW

primrec mln_projection_mode_option_field_code :: "mln_projection_mode_option_field \<Rightarrow> u32" where
    "mln_projection_mode_option_field_code MLN_PROJECTION_MODE_OPTION_AXONOMETRIC = push_bit 0 1"
  | "mln_projection_mode_option_field_code MLN_PROJECTION_MODE_OPTION_X_SKEW = push_bit 1 1"
  | "mln_projection_mode_option_field_code MLN_PROJECTION_MODE_OPTION_Y_SKEW = push_bit 2 1"

definition mln_projection_mode_option_field_values :: "mln_projection_mode_option_field list" where
  "mln_projection_mode_option_field_values =
  [MLN_PROJECTION_MODE_OPTION_AXONOMETRIC,
   MLN_PROJECTION_MODE_OPTION_X_SKEW,
   MLN_PROJECTION_MODE_OPTION_Y_SKEW]"

interpretation projection_mode_option_field_enum: c_enum mln_projection_mode_option_field_code mln_projection_mode_option_field_values
  by (unfold_locales, simp add: mln_projection_mode_option_field_values_def, rename_tac e, case_tac e; simp add: mln_projection_mode_option_field_values_def)

type_synonym mln_projection_mode_option_fields = u32

datatype (plugins only: code size) mln_map_debug_flag =
    MLN_MAP_DEBUG_TILE_BORDERS
  | MLN_MAP_DEBUG_PARSE_STATUS
  | MLN_MAP_DEBUG_TIMESTAMPS
  | MLN_MAP_DEBUG_COLLISION
  | MLN_MAP_DEBUG_OVERDRAW
  | MLN_MAP_DEBUG_STENCIL_CLIP
  | MLN_MAP_DEBUG_DEPTH_BUFFER

primrec mln_map_debug_flag_code :: "mln_map_debug_flag \<Rightarrow> u32" where
    "mln_map_debug_flag_code MLN_MAP_DEBUG_TILE_BORDERS = push_bit 1 1"
  | "mln_map_debug_flag_code MLN_MAP_DEBUG_PARSE_STATUS = push_bit 2 1"
  | "mln_map_debug_flag_code MLN_MAP_DEBUG_TIMESTAMPS = push_bit 3 1"
  | "mln_map_debug_flag_code MLN_MAP_DEBUG_COLLISION = push_bit 4 1"
  | "mln_map_debug_flag_code MLN_MAP_DEBUG_OVERDRAW = push_bit 5 1"
  | "mln_map_debug_flag_code MLN_MAP_DEBUG_STENCIL_CLIP = push_bit 6 1"
  | "mln_map_debug_flag_code MLN_MAP_DEBUG_DEPTH_BUFFER = push_bit 7 1"

definition mln_map_debug_flag_values :: "mln_map_debug_flag list" where
  "mln_map_debug_flag_values =
  [MLN_MAP_DEBUG_TILE_BORDERS,
   MLN_MAP_DEBUG_PARSE_STATUS,
   MLN_MAP_DEBUG_TIMESTAMPS,
   MLN_MAP_DEBUG_COLLISION,
   MLN_MAP_DEBUG_OVERDRAW,
   MLN_MAP_DEBUG_STENCIL_CLIP,
   MLN_MAP_DEBUG_DEPTH_BUFFER]"

interpretation map_debug_flag_enum: c_enum mln_map_debug_flag_code mln_map_debug_flag_values
  by (unfold_locales, simp add: mln_map_debug_flag_values_def, rename_tac e, case_tac e; simp add: mln_map_debug_flag_values_def)

type_synonym mln_map_debug_flags = u32

datatype (plugins only: code size) mln_north_orientation =
    MLN_NORTH_ORIENTATION_UP
  | MLN_NORTH_ORIENTATION_RIGHT
  | MLN_NORTH_ORIENTATION_DOWN
  | MLN_NORTH_ORIENTATION_LEFT

primrec mln_north_orientation_code :: "mln_north_orientation \<Rightarrow> u32" where
    "mln_north_orientation_code MLN_NORTH_ORIENTATION_UP = 0"
  | "mln_north_orientation_code MLN_NORTH_ORIENTATION_RIGHT = 1"
  | "mln_north_orientation_code MLN_NORTH_ORIENTATION_DOWN = 2"
  | "mln_north_orientation_code MLN_NORTH_ORIENTATION_LEFT = 3"

definition mln_north_orientation_values :: "mln_north_orientation list" where
  "mln_north_orientation_values =
  [MLN_NORTH_ORIENTATION_UP,
   MLN_NORTH_ORIENTATION_RIGHT,
   MLN_NORTH_ORIENTATION_DOWN,
   MLN_NORTH_ORIENTATION_LEFT]"

interpretation north_orientation_enum: c_enum mln_north_orientation_code mln_north_orientation_values
  by (unfold_locales, simp add: mln_north_orientation_values_def, rename_tac e, case_tac e; simp add: mln_north_orientation_values_def)

datatype (plugins only: code size) mln_constrain_mode =
    MLN_CONSTRAIN_MODE_NONE
  | MLN_CONSTRAIN_MODE_HEIGHT_ONLY
  | MLN_CONSTRAIN_MODE_WIDTH_AND_HEIGHT
  | MLN_CONSTRAIN_MODE_SCREEN

primrec mln_constrain_mode_code :: "mln_constrain_mode \<Rightarrow> u32" where
    "mln_constrain_mode_code MLN_CONSTRAIN_MODE_NONE = 0"
  | "mln_constrain_mode_code MLN_CONSTRAIN_MODE_HEIGHT_ONLY = 1"
  | "mln_constrain_mode_code MLN_CONSTRAIN_MODE_WIDTH_AND_HEIGHT = 2"
  | "mln_constrain_mode_code MLN_CONSTRAIN_MODE_SCREEN = 3"

definition mln_constrain_mode_values :: "mln_constrain_mode list" where
  "mln_constrain_mode_values =
  [MLN_CONSTRAIN_MODE_NONE,
   MLN_CONSTRAIN_MODE_HEIGHT_ONLY,
   MLN_CONSTRAIN_MODE_WIDTH_AND_HEIGHT,
   MLN_CONSTRAIN_MODE_SCREEN]"

interpretation constrain_mode_enum: c_enum mln_constrain_mode_code mln_constrain_mode_values
  by (unfold_locales, simp add: mln_constrain_mode_values_def, rename_tac e, case_tac e; simp add: mln_constrain_mode_values_def)

datatype (plugins only: code size) mln_viewport_mode =
    MLN_VIEWPORT_MODE_DEFAULT
  | MLN_VIEWPORT_MODE_FLIPPED_Y

primrec mln_viewport_mode_code :: "mln_viewport_mode \<Rightarrow> u32" where
    "mln_viewport_mode_code MLN_VIEWPORT_MODE_DEFAULT = 0"
  | "mln_viewport_mode_code MLN_VIEWPORT_MODE_FLIPPED_Y = 1"

definition mln_viewport_mode_values :: "mln_viewport_mode list" where
  "mln_viewport_mode_values =
  [MLN_VIEWPORT_MODE_DEFAULT,
   MLN_VIEWPORT_MODE_FLIPPED_Y]"

interpretation viewport_mode_enum: c_enum mln_viewport_mode_code mln_viewport_mode_values
  by (unfold_locales, simp add: mln_viewport_mode_values_def, rename_tac e, case_tac e; simp add: mln_viewport_mode_values_def)

datatype (plugins only: code size) mln_map_viewport_option_field =
    MLN_MAP_VIEWPORT_OPTION_NORTH_ORIENTATION
  | MLN_MAP_VIEWPORT_OPTION_CONSTRAIN_MODE
  | MLN_MAP_VIEWPORT_OPTION_VIEWPORT_MODE
  | MLN_MAP_VIEWPORT_OPTION_FRUSTUM_OFFSET

primrec mln_map_viewport_option_field_code :: "mln_map_viewport_option_field \<Rightarrow> u32" where
    "mln_map_viewport_option_field_code MLN_MAP_VIEWPORT_OPTION_NORTH_ORIENTATION = push_bit 0 1"
  | "mln_map_viewport_option_field_code MLN_MAP_VIEWPORT_OPTION_CONSTRAIN_MODE = push_bit 1 1"
  | "mln_map_viewport_option_field_code MLN_MAP_VIEWPORT_OPTION_VIEWPORT_MODE = push_bit 2 1"
  | "mln_map_viewport_option_field_code MLN_MAP_VIEWPORT_OPTION_FRUSTUM_OFFSET = push_bit 3 1"

definition mln_map_viewport_option_field_values :: "mln_map_viewport_option_field list" where
  "mln_map_viewport_option_field_values =
  [MLN_MAP_VIEWPORT_OPTION_NORTH_ORIENTATION,
   MLN_MAP_VIEWPORT_OPTION_CONSTRAIN_MODE,
   MLN_MAP_VIEWPORT_OPTION_VIEWPORT_MODE,
   MLN_MAP_VIEWPORT_OPTION_FRUSTUM_OFFSET]"

interpretation map_viewport_option_field_enum: c_enum mln_map_viewport_option_field_code mln_map_viewport_option_field_values
  by (unfold_locales, simp add: mln_map_viewport_option_field_values_def, rename_tac e, case_tac e; simp add: mln_map_viewport_option_field_values_def)

type_synonym mln_map_viewport_option_fields = u32

datatype (plugins only: code size) mln_tile_lod_mode =
    MLN_TILE_LOD_MODE_DEFAULT
  | MLN_TILE_LOD_MODE_DISTANCE

primrec mln_tile_lod_mode_code :: "mln_tile_lod_mode \<Rightarrow> u32" where
    "mln_tile_lod_mode_code MLN_TILE_LOD_MODE_DEFAULT = 0"
  | "mln_tile_lod_mode_code MLN_TILE_LOD_MODE_DISTANCE = 1"

definition mln_tile_lod_mode_values :: "mln_tile_lod_mode list" where
  "mln_tile_lod_mode_values =
  [MLN_TILE_LOD_MODE_DEFAULT,
   MLN_TILE_LOD_MODE_DISTANCE]"

interpretation tile_lod_mode_enum: c_enum mln_tile_lod_mode_code mln_tile_lod_mode_values
  by (unfold_locales, simp add: mln_tile_lod_mode_values_def, rename_tac e, case_tac e; simp add: mln_tile_lod_mode_values_def)

datatype (plugins only: code size) mln_map_tile_option_field =
    MLN_MAP_TILE_OPTION_PREFETCH_ZOOM_DELTA
  | MLN_MAP_TILE_OPTION_LOD_MIN_RADIUS
  | MLN_MAP_TILE_OPTION_LOD_SCALE
  | MLN_MAP_TILE_OPTION_LOD_PITCH_THRESHOLD
  | MLN_MAP_TILE_OPTION_LOD_ZOOM_SHIFT
  | MLN_MAP_TILE_OPTION_LOD_MODE

primrec mln_map_tile_option_field_code :: "mln_map_tile_option_field \<Rightarrow> u32" where
    "mln_map_tile_option_field_code MLN_MAP_TILE_OPTION_PREFETCH_ZOOM_DELTA = push_bit 0 1"
  | "mln_map_tile_option_field_code MLN_MAP_TILE_OPTION_LOD_MIN_RADIUS = push_bit 1 1"
  | "mln_map_tile_option_field_code MLN_MAP_TILE_OPTION_LOD_SCALE = push_bit 2 1"
  | "mln_map_tile_option_field_code MLN_MAP_TILE_OPTION_LOD_PITCH_THRESHOLD = push_bit 3 1"
  | "mln_map_tile_option_field_code MLN_MAP_TILE_OPTION_LOD_ZOOM_SHIFT = push_bit 4 1"
  | "mln_map_tile_option_field_code MLN_MAP_TILE_OPTION_LOD_MODE = push_bit 5 1"

definition mln_map_tile_option_field_values :: "mln_map_tile_option_field list" where
  "mln_map_tile_option_field_values =
  [MLN_MAP_TILE_OPTION_PREFETCH_ZOOM_DELTA,
   MLN_MAP_TILE_OPTION_LOD_MIN_RADIUS,
   MLN_MAP_TILE_OPTION_LOD_SCALE,
   MLN_MAP_TILE_OPTION_LOD_PITCH_THRESHOLD,
   MLN_MAP_TILE_OPTION_LOD_ZOOM_SHIFT,
   MLN_MAP_TILE_OPTION_LOD_MODE]"

interpretation map_tile_option_field_enum: c_enum mln_map_tile_option_field_code mln_map_tile_option_field_values
  by (unfold_locales, simp add: mln_map_tile_option_field_values_def, rename_tac e, case_tac e; simp add: mln_map_tile_option_field_values_def)

type_synonym mln_map_tile_option_fields = u32

datatype (plugins only: code size) mln_map_mode =
    MLN_MAP_MODE_CONTINUOUS
  | MLN_MAP_MODE_STATIC
  | MLN_MAP_MODE_TILE

primrec mln_map_mode_code :: "mln_map_mode \<Rightarrow> u32" where
    "mln_map_mode_code MLN_MAP_MODE_CONTINUOUS = 0"
  | "mln_map_mode_code MLN_MAP_MODE_STATIC = 1"
  | "mln_map_mode_code MLN_MAP_MODE_TILE = 2"

definition mln_map_mode_values :: "mln_map_mode list" where
  "mln_map_mode_values =
  [MLN_MAP_MODE_CONTINUOUS,
   MLN_MAP_MODE_STATIC,
   MLN_MAP_MODE_TILE]"

interpretation map_mode_enum: c_enum mln_map_mode_code mln_map_mode_values
  by (unfold_locales, simp add: mln_map_mode_values_def, rename_tac e, case_tac e; simp add: mln_map_mode_values_def)

datatype (plugins only: code size) mln_map_option_field =
    MLN_MAP_OPTION_EVENT_MASK
  | MLN_MAP_OPTION_TILE_CACHE_ENABLED

primrec mln_map_option_field_code :: "mln_map_option_field \<Rightarrow> u32" where
    "mln_map_option_field_code MLN_MAP_OPTION_EVENT_MASK = push_bit 0 1"
  | "mln_map_option_field_code MLN_MAP_OPTION_TILE_CACHE_ENABLED = push_bit 1 1"

definition mln_map_option_field_values :: "mln_map_option_field list" where
  "mln_map_option_field_values =
  [MLN_MAP_OPTION_EVENT_MASK,
   MLN_MAP_OPTION_TILE_CACHE_ENABLED]"

interpretation map_option_field_enum: c_enum mln_map_option_field_code mln_map_option_field_values
  by (unfold_locales, simp add: mln_map_option_field_values_def, rename_tac e, case_tac e; simp add: mln_map_option_field_values_def)

type_synonym mln_map_option_fields = u32

record mln_map_options =
  map_options_size :: u32
  map_options_fields :: mln_map_option_fields
  map_options_initial_extent :: mln_logical_extent
  map_options_map_mode :: u32
  map_options_fast_pfor_enabled :: bool
  map_options_event_mask :: mln_runtime_event_flags
  map_options_tile_cache_enabled :: bool

record mln_camera_options =
  camera_options_size :: u32
  camera_options_fields :: mln_camera_option_fields
  camera_options_center :: mln_lat_lng
  camera_options_center_altitude :: double
  camera_options_padding :: mln_edge_insets
  camera_options_anchor :: mln_screen_point
  camera_options_zoom :: double
  camera_options_bearing :: double
  camera_options_pitch :: double
  camera_options_roll :: double
  camera_options_field_of_view :: double

record mln_camera =
  camera_center :: mln_lat_lng
  camera_center_altitude :: double
  camera_padding :: mln_edge_insets
  camera_zoom :: double
  camera_bearing :: double
  camera_pitch :: double
  camera_roll :: double
  camera_field_of_view :: double

record mln_unit_bezier =
  unit_bezier_x1 :: double
  unit_bezier_y1 :: double
  unit_bezier_x2 :: double
  unit_bezier_y2 :: double

datatype (plugins only: code size) mln_camera_transition_outcome =
    MLN_CAMERA_TRANSITION_OUTCOME_COMPLETED
  | MLN_CAMERA_TRANSITION_OUTCOME_CANCELLED
  | MLN_CAMERA_TRANSITION_OUTCOME_CLOSED
  | MLN_CAMERA_TRANSITION_OUTCOME_REPLACED

primrec mln_camera_transition_outcome_code :: "mln_camera_transition_outcome \<Rightarrow> u32" where
    "mln_camera_transition_outcome_code MLN_CAMERA_TRANSITION_OUTCOME_COMPLETED = 0"
  | "mln_camera_transition_outcome_code MLN_CAMERA_TRANSITION_OUTCOME_CANCELLED = 1"
  | "mln_camera_transition_outcome_code MLN_CAMERA_TRANSITION_OUTCOME_CLOSED = 2"
  | "mln_camera_transition_outcome_code MLN_CAMERA_TRANSITION_OUTCOME_REPLACED = 3"

definition mln_camera_transition_outcome_values :: "mln_camera_transition_outcome list" where
  "mln_camera_transition_outcome_values =
  [MLN_CAMERA_TRANSITION_OUTCOME_COMPLETED,
   MLN_CAMERA_TRANSITION_OUTCOME_CANCELLED,
   MLN_CAMERA_TRANSITION_OUTCOME_CLOSED,
   MLN_CAMERA_TRANSITION_OUTCOME_REPLACED]"

interpretation camera_transition_outcome_enum: c_enum mln_camera_transition_outcome_code mln_camera_transition_outcome_values
  by (unfold_locales, simp add: mln_camera_transition_outcome_values_def, rename_tac e, case_tac e; simp add: mln_camera_transition_outcome_values_def)

record mln_camera_velocity =
  camera_velocity_pan :: mln_screen_point
  camera_velocity_zoom :: double
  camera_velocity_bearing :: double
  camera_velocity_pitch :: double

record mln_camera_transition_end =
  camera_transition_end_size :: u32
  camera_transition_end_outcome :: u32
  camera_transition_end_generation :: u64
  camera_transition_end_velocity :: mln_camera_velocity

record mln_camera_transition_handler =
  camera_transition_handler_callback :: ptr
  camera_transition_handler_user_data :: ptr
  camera_transition_handler_release_user_data :: ptr
  camera_transition_handler_queue :: mln_delivery_queue

record mln_animation_options =
  animation_options_fields :: mln_animation_option_fields
  animation_options_duration_ms :: double
  animation_options_velocity :: double
  animation_options_min_zoom :: double
  animation_options_easing :: mln_unit_bezier
  animation_options_transition_id :: u64
  animation_options_end_handler :: mln_camera_transition_handler

datatype (plugins only: code size) mln_camera_update_mode =
    MLN_CAMERA_UPDATE_MODE_JUMP
  | MLN_CAMERA_UPDATE_MODE_EASE
  | MLN_CAMERA_UPDATE_MODE_FLY

primrec mln_camera_update_mode_code :: "mln_camera_update_mode \<Rightarrow> u32" where
    "mln_camera_update_mode_code MLN_CAMERA_UPDATE_MODE_JUMP = 0"
  | "mln_camera_update_mode_code MLN_CAMERA_UPDATE_MODE_EASE = 1"
  | "mln_camera_update_mode_code MLN_CAMERA_UPDATE_MODE_FLY = 2"

definition mln_camera_update_mode_values :: "mln_camera_update_mode list" where
  "mln_camera_update_mode_values =
  [MLN_CAMERA_UPDATE_MODE_JUMP,
   MLN_CAMERA_UPDATE_MODE_EASE,
   MLN_CAMERA_UPDATE_MODE_FLY]"

interpretation camera_update_mode_enum: c_enum mln_camera_update_mode_code mln_camera_update_mode_values
  by (unfold_locales, simp add: mln_camera_update_mode_values_def, rename_tac e, case_tac e; simp add: mln_camera_update_mode_values_def)

datatype (plugins only: code size) mln_gesture_phase =
    MLN_GESTURE_PHASE_NONE
  | MLN_GESTURE_PHASE_BEGIN
  | MLN_GESTURE_PHASE_UPDATE
  | MLN_GESTURE_PHASE_END
  | MLN_GESTURE_PHASE_CANCEL

primrec mln_gesture_phase_code :: "mln_gesture_phase \<Rightarrow> u32" where
    "mln_gesture_phase_code MLN_GESTURE_PHASE_NONE = 0"
  | "mln_gesture_phase_code MLN_GESTURE_PHASE_BEGIN = 1"
  | "mln_gesture_phase_code MLN_GESTURE_PHASE_UPDATE = 2"
  | "mln_gesture_phase_code MLN_GESTURE_PHASE_END = 3"
  | "mln_gesture_phase_code MLN_GESTURE_PHASE_CANCEL = 4"

definition mln_gesture_phase_values :: "mln_gesture_phase list" where
  "mln_gesture_phase_values =
  [MLN_GESTURE_PHASE_NONE,
   MLN_GESTURE_PHASE_BEGIN,
   MLN_GESTURE_PHASE_UPDATE,
   MLN_GESTURE_PHASE_END,
   MLN_GESTURE_PHASE_CANCEL]"

interpretation gesture_phase_enum: c_enum mln_gesture_phase_code mln_gesture_phase_values
  by (unfold_locales, simp add: mln_gesture_phase_values_def, rename_tac e, case_tac e; simp add: mln_gesture_phase_values_def)

datatype (plugins only: code size) mln_momentum_decay_model =
    MLN_MOMENTUM_DECAY_MODEL_FRICTION
  | MLN_MOMENTUM_DECAY_MODEL_EASE

primrec mln_momentum_decay_model_code :: "mln_momentum_decay_model \<Rightarrow> u32" where
    "mln_momentum_decay_model_code MLN_MOMENTUM_DECAY_MODEL_FRICTION = 0"
  | "mln_momentum_decay_model_code MLN_MOMENTUM_DECAY_MODEL_EASE = 1"

definition mln_momentum_decay_model_values :: "mln_momentum_decay_model list" where
  "mln_momentum_decay_model_values =
  [MLN_MOMENTUM_DECAY_MODEL_FRICTION,
   MLN_MOMENTUM_DECAY_MODEL_EASE]"

interpretation momentum_decay_model_enum: c_enum mln_momentum_decay_model_code mln_momentum_decay_model_values
  by (unfold_locales, simp add: mln_momentum_decay_model_values_def, rename_tac e, case_tac e; simp add: mln_momentum_decay_model_values_def)

datatype (plugins only: code size) mln_momentum_decay_field =
    MLN_MOMENTUM_DECAY_MODEL
  | MLN_MOMENTUM_DECAY_HALF_LIFE_MS
  | MLN_MOMENTUM_DECAY_STOP_SPEED
  | MLN_MOMENTUM_DECAY_DISTANCE
  | MLN_MOMENTUM_DECAY_DURATION_MS
  | MLN_MOMENTUM_DECAY_EASING
  | MLN_MOMENTUM_DECAY_MIN_SPEED
  | MLN_MOMENTUM_DECAY_MAX_SPEED
  | MLN_MOMENTUM_DECAY_MAX_DISTANCE

primrec mln_momentum_decay_field_code :: "mln_momentum_decay_field \<Rightarrow> u32" where
    "mln_momentum_decay_field_code MLN_MOMENTUM_DECAY_MODEL = push_bit 0 1"
  | "mln_momentum_decay_field_code MLN_MOMENTUM_DECAY_HALF_LIFE_MS = push_bit 1 1"
  | "mln_momentum_decay_field_code MLN_MOMENTUM_DECAY_STOP_SPEED = push_bit 2 1"
  | "mln_momentum_decay_field_code MLN_MOMENTUM_DECAY_DISTANCE = push_bit 3 1"
  | "mln_momentum_decay_field_code MLN_MOMENTUM_DECAY_DURATION_MS = push_bit 4 1"
  | "mln_momentum_decay_field_code MLN_MOMENTUM_DECAY_EASING = push_bit 5 1"
  | "mln_momentum_decay_field_code MLN_MOMENTUM_DECAY_MIN_SPEED = push_bit 6 1"
  | "mln_momentum_decay_field_code MLN_MOMENTUM_DECAY_MAX_SPEED = push_bit 7 1"
  | "mln_momentum_decay_field_code MLN_MOMENTUM_DECAY_MAX_DISTANCE = push_bit 8 1"

definition mln_momentum_decay_field_values :: "mln_momentum_decay_field list" where
  "mln_momentum_decay_field_values =
  [MLN_MOMENTUM_DECAY_MODEL,
   MLN_MOMENTUM_DECAY_HALF_LIFE_MS,
   MLN_MOMENTUM_DECAY_STOP_SPEED,
   MLN_MOMENTUM_DECAY_DISTANCE,
   MLN_MOMENTUM_DECAY_DURATION_MS,
   MLN_MOMENTUM_DECAY_EASING,
   MLN_MOMENTUM_DECAY_MIN_SPEED,
   MLN_MOMENTUM_DECAY_MAX_SPEED,
   MLN_MOMENTUM_DECAY_MAX_DISTANCE]"

interpretation momentum_decay_field_enum: c_enum mln_momentum_decay_field_code mln_momentum_decay_field_values
  by (unfold_locales, simp add: mln_momentum_decay_field_values_def, rename_tac e, case_tac e; simp add: mln_momentum_decay_field_values_def)

type_synonym mln_momentum_decay_fields = u32

record mln_momentum_decay =
  momentum_decay_fields :: mln_momentum_decay_fields
  momentum_decay_model :: u32
  momentum_decay_half_life_ms :: double
  momentum_decay_stop_speed :: double
  momentum_decay_distance :: double
  momentum_decay_duration_ms :: double
  momentum_decay_easing :: mln_unit_bezier
  momentum_decay_min_speed :: double
  momentum_decay_max_speed :: double
  momentum_decay_max_distance :: double

datatype (plugins only: code size) mln_pan_momentum_field =
    MLN_PAN_MOMENTUM_VELOCITY

primrec mln_pan_momentum_field_code :: "mln_pan_momentum_field \<Rightarrow> u32" where
    "mln_pan_momentum_field_code MLN_PAN_MOMENTUM_VELOCITY = push_bit 0 1"

definition mln_pan_momentum_field_values :: "mln_pan_momentum_field list" where
  "mln_pan_momentum_field_values =
  [MLN_PAN_MOMENTUM_VELOCITY]"

interpretation pan_momentum_field_enum: c_enum mln_pan_momentum_field_code mln_pan_momentum_field_values
  by (unfold_locales, simp add: mln_pan_momentum_field_values_def, rename_tac e, case_tac e; simp add: mln_pan_momentum_field_values_def)

type_synonym mln_pan_momentum_fields = u32

record mln_pan_momentum =
  pan_momentum_fields :: mln_pan_momentum_fields
  pan_momentum_velocity :: mln_screen_point
  pan_momentum_decay :: mln_momentum_decay

datatype (plugins only: code size) mln_momentum_snap_field =
    MLN_MOMENTUM_SNAP_SPACING
  | MLN_MOMENTUM_SNAP_OFFSET
  | MLN_MOMENTUM_SNAP_TOLERANCE
  | MLN_MOMENTUM_SNAP_DURATION_MS

primrec mln_momentum_snap_field_code :: "mln_momentum_snap_field \<Rightarrow> u32" where
    "mln_momentum_snap_field_code MLN_MOMENTUM_SNAP_SPACING = push_bit 0 1"
  | "mln_momentum_snap_field_code MLN_MOMENTUM_SNAP_OFFSET = push_bit 1 1"
  | "mln_momentum_snap_field_code MLN_MOMENTUM_SNAP_TOLERANCE = push_bit 2 1"
  | "mln_momentum_snap_field_code MLN_MOMENTUM_SNAP_DURATION_MS = push_bit 3 1"

definition mln_momentum_snap_field_values :: "mln_momentum_snap_field list" where
  "mln_momentum_snap_field_values =
  [MLN_MOMENTUM_SNAP_SPACING,
   MLN_MOMENTUM_SNAP_OFFSET,
   MLN_MOMENTUM_SNAP_TOLERANCE,
   MLN_MOMENTUM_SNAP_DURATION_MS]"

interpretation momentum_snap_field_enum: c_enum mln_momentum_snap_field_code mln_momentum_snap_field_values
  by (unfold_locales, simp add: mln_momentum_snap_field_values_def, rename_tac e, case_tac e; simp add: mln_momentum_snap_field_values_def)

type_synonym mln_momentum_snap_fields = u32

record mln_momentum_snap =
  momentum_snap_fields :: mln_momentum_snap_fields
  momentum_snap_spacing :: double
  momentum_snap_offset :: double
  momentum_snap_tolerance :: double
  momentum_snap_duration_ms :: double

datatype (plugins only: code size) mln_anchored_momentum_field =
    MLN_ANCHORED_MOMENTUM_VELOCITY
  | MLN_ANCHORED_MOMENTUM_ANCHOR
  | MLN_ANCHORED_MOMENTUM_SNAP

primrec mln_anchored_momentum_field_code :: "mln_anchored_momentum_field \<Rightarrow> u32" where
    "mln_anchored_momentum_field_code MLN_ANCHORED_MOMENTUM_VELOCITY = push_bit 0 1"
  | "mln_anchored_momentum_field_code MLN_ANCHORED_MOMENTUM_ANCHOR = push_bit 1 1"
  | "mln_anchored_momentum_field_code MLN_ANCHORED_MOMENTUM_SNAP = push_bit 2 1"

definition mln_anchored_momentum_field_values :: "mln_anchored_momentum_field list" where
  "mln_anchored_momentum_field_values =
  [MLN_ANCHORED_MOMENTUM_VELOCITY,
   MLN_ANCHORED_MOMENTUM_ANCHOR,
   MLN_ANCHORED_MOMENTUM_SNAP]"

interpretation anchored_momentum_field_enum: c_enum mln_anchored_momentum_field_code mln_anchored_momentum_field_values
  by (unfold_locales, simp add: mln_anchored_momentum_field_values_def, rename_tac e, case_tac e; simp add: mln_anchored_momentum_field_values_def)

type_synonym mln_anchored_momentum_fields = u32

record mln_anchored_momentum =
  anchored_momentum_fields :: mln_anchored_momentum_fields
  anchored_momentum_velocity :: double
  anchored_momentum_anchor :: mln_screen_point
  anchored_momentum_decay :: mln_momentum_decay
  anchored_momentum_snap :: mln_momentum_snap

record mln_gesture_momentum =
  gesture_momentum_pan :: mln_pan_momentum
  gesture_momentum_zoom :: mln_anchored_momentum
  gesture_momentum_bearing :: mln_anchored_momentum
  gesture_momentum_pitch :: mln_anchored_momentum

datatype (plugins only: code size) mln_camera_delta_field =
    MLN_CAMERA_DELTA_OFFSET
  | MLN_CAMERA_DELTA_SCALE
  | MLN_CAMERA_DELTA_BEARING
  | MLN_CAMERA_DELTA_PITCH
  | MLN_CAMERA_DELTA_ANCHOR
  | MLN_CAMERA_DELTA_MOMENTUM

primrec mln_camera_delta_field_code :: "mln_camera_delta_field \<Rightarrow> u32" where
    "mln_camera_delta_field_code MLN_CAMERA_DELTA_OFFSET = push_bit 0 1"
  | "mln_camera_delta_field_code MLN_CAMERA_DELTA_SCALE = push_bit 1 1"
  | "mln_camera_delta_field_code MLN_CAMERA_DELTA_BEARING = push_bit 2 1"
  | "mln_camera_delta_field_code MLN_CAMERA_DELTA_PITCH = push_bit 3 1"
  | "mln_camera_delta_field_code MLN_CAMERA_DELTA_ANCHOR = push_bit 4 1"
  | "mln_camera_delta_field_code MLN_CAMERA_DELTA_MOMENTUM = push_bit 5 1"

definition mln_camera_delta_field_values :: "mln_camera_delta_field list" where
  "mln_camera_delta_field_values =
  [MLN_CAMERA_DELTA_OFFSET,
   MLN_CAMERA_DELTA_SCALE,
   MLN_CAMERA_DELTA_BEARING,
   MLN_CAMERA_DELTA_PITCH,
   MLN_CAMERA_DELTA_ANCHOR,
   MLN_CAMERA_DELTA_MOMENTUM]"

interpretation camera_delta_field_enum: c_enum mln_camera_delta_field_code mln_camera_delta_field_values
  by (unfold_locales, simp add: mln_camera_delta_field_values_def, rename_tac e, case_tac e; simp add: mln_camera_delta_field_values_def)

type_synonym mln_camera_delta_fields = u32

record mln_camera_delta =
  camera_delta_size :: u32
  camera_delta_fields :: mln_camera_delta_fields
  camera_delta_offset :: mln_screen_point
  camera_delta_scale :: double
  camera_delta_bearing :: double
  camera_delta_pitch :: double
  camera_delta_anchor :: mln_screen_point
  camera_delta_momentum :: mln_gesture_momentum
  camera_delta_animation :: mln_animation_options
  camera_delta_gesture_phase :: u32
  camera_delta_reserved :: u32

record mln_camera_update =
  camera_update_size :: u32
  camera_update_mode :: u32
  camera_update_camera :: mln_camera_options
  camera_update_animation :: mln_animation_options
  camera_update_gesture_phase :: u32
  camera_update_reserved :: u32

record mln_camera_fit_options =
  camera_fit_options_size :: u32
  camera_fit_options_fields :: mln_camera_fit_option_fields
  camera_fit_options_padding :: mln_edge_insets
  camera_fit_options_bearing :: double
  camera_fit_options_pitch :: double

record mln_camera_fit_update =
  camera_fit_update_size :: u32
  camera_fit_update_mode :: u32
  camera_fit_update_fit :: mln_camera_fit_options
  camera_fit_update_animation :: mln_animation_options

record mln_vec3 =
  vec3_x :: double
  vec3_y :: double
  vec3_z :: double

record mln_quaternion =
  quaternion_x :: double
  quaternion_y :: double
  quaternion_z :: double
  quaternion_w :: double

record mln_free_camera_options =
  free_camera_options_size :: u32
  free_camera_options_fields :: mln_free_camera_option_fields
  free_camera_options_position :: mln_vec3
  free_camera_options_orientation :: mln_quaternion

record mln_free_camera =
  free_camera_position :: mln_vec3
  free_camera_orientation :: mln_quaternion

datatype (plugins only: code size) mln_feature_id_type =
    MLN_FEATURE_ID_TYPE_STRING
  | MLN_FEATURE_ID_TYPE_UINT
  | MLN_FEATURE_ID_TYPE_INT
  | MLN_FEATURE_ID_TYPE_DOUBLE

primrec mln_feature_id_type_code :: "mln_feature_id_type \<Rightarrow> u32" where
    "mln_feature_id_type_code MLN_FEATURE_ID_TYPE_STRING = 1"
  | "mln_feature_id_type_code MLN_FEATURE_ID_TYPE_UINT = 2"
  | "mln_feature_id_type_code MLN_FEATURE_ID_TYPE_INT = 3"
  | "mln_feature_id_type_code MLN_FEATURE_ID_TYPE_DOUBLE = 4"

definition mln_feature_id_type_values :: "mln_feature_id_type list" where
  "mln_feature_id_type_values =
  [MLN_FEATURE_ID_TYPE_STRING,
   MLN_FEATURE_ID_TYPE_UINT,
   MLN_FEATURE_ID_TYPE_INT,
   MLN_FEATURE_ID_TYPE_DOUBLE]"

interpretation feature_id_type_enum: c_enum mln_feature_id_type_code mln_feature_id_type_values
  by (unfold_locales, simp add: mln_feature_id_type_values_def, rename_tac e, case_tac e; simp add: mln_feature_id_type_values_def)

datatype mln_feature_id_data =
    FeatureIdData_string_value mln_buffer_view
  | FeatureIdData_uint_value u64
  | FeatureIdData_int_value i64
  | FeatureIdData_double_value double

record mln_feature_id =
  feature_id_type :: u32
  feature_id_data :: mln_feature_id_data

datatype (plugins only: code size) mln_feature_state_selector_field =
    MLN_FEATURE_STATE_SELECTOR_FEATURE_ID

primrec mln_feature_state_selector_field_code :: "mln_feature_state_selector_field \<Rightarrow> u32" where
    "mln_feature_state_selector_field_code MLN_FEATURE_STATE_SELECTOR_FEATURE_ID = push_bit 0 1"

definition mln_feature_state_selector_field_values :: "mln_feature_state_selector_field list" where
  "mln_feature_state_selector_field_values =
  [MLN_FEATURE_STATE_SELECTOR_FEATURE_ID]"

interpretation feature_state_selector_field_enum: c_enum mln_feature_state_selector_field_code mln_feature_state_selector_field_values
  by (unfold_locales, simp add: mln_feature_state_selector_field_values_def, rename_tac e, case_tac e; simp add: mln_feature_state_selector_field_values_def)

type_synonym mln_feature_state_selector_fields = u32

record mln_feature_state_selector =
  feature_state_selector_size :: u32
  feature_state_selector_fields :: mln_feature_state_selector_fields
  feature_state_selector_source_id :: mln_buffer_view
  feature_state_selector_source_layer_id :: mln_buffer_view
  feature_state_selector_feature_id :: mln_feature_id
  feature_state_selector_state_key :: mln_buffer_view

record mln_bound_options =
  bound_options_size :: u32
  bound_options_fields :: mln_bound_option_fields
  bound_options_bounds :: mln_lat_lng_bounds
  bound_options_min_zoom :: double
  bound_options_max_zoom :: double
  bound_options_min_pitch :: double
  bound_options_max_pitch :: double

record mln_camera_bounds =
  camera_bounds_bounds :: mln_lat_lng_bounds
  camera_bounds_unbounded :: bool
  camera_bounds_min_zoom :: double
  camera_bounds_max_zoom :: double
  camera_bounds_min_pitch :: double
  camera_bounds_max_pitch :: double

record mln_offline_tile_pyramid_region_definition =
  offline_tile_pyramid_region_definition_style_url :: mln_buffer_view
  offline_tile_pyramid_region_definition_bounds :: mln_lat_lng_bounds
  offline_tile_pyramid_region_definition_min_zoom :: double
  offline_tile_pyramid_region_definition_max_zoom :: double
  offline_tile_pyramid_region_definition_pixel_ratio :: double
  offline_tile_pyramid_region_definition_include_ideographs :: bool

record mln_offline_geometry_region_definition =
  offline_geometry_region_definition_style_url :: mln_buffer_view
  offline_geometry_region_definition_geometry :: mln_buffer_view
  offline_geometry_region_definition_min_zoom :: double
  offline_geometry_region_definition_max_zoom :: double
  offline_geometry_region_definition_pixel_ratio :: double
  offline_geometry_region_definition_include_ideographs :: bool

datatype mln_offline_region_definition_data =
    OfflineRegionDefinitionData_tile_pyramid mln_offline_tile_pyramid_region_definition
  | OfflineRegionDefinitionData_geometry mln_offline_geometry_region_definition

record mln_offline_region_definition =
  offline_region_definition_size :: u32
  offline_region_definition_type :: u32
  offline_region_definition_data :: mln_offline_region_definition_data

record mln_offline_region_info =
  offline_region_info_id :: mln_offline_region_id
  offline_region_info_definition :: mln_offline_region_definition
  offline_region_info_metadata :: "u8 list option"
  offline_region_info_metadata_size :: usize

record mln_projected_meters =
  projected_meters_northing :: double
  projected_meters_easting :: double

record mln_projection_mode_options =
  projection_mode_options_size :: u32
  projection_mode_options_fields :: mln_projection_mode_option_fields
  projection_mode_options_axonometric :: bool
  projection_mode_options_x_skew :: double
  projection_mode_options_y_skew :: double

record mln_projection_mode =
  projection_mode_axonometric :: bool
  projection_mode_x_skew :: double
  projection_mode_y_skew :: double

record mln_map_viewport_options =
  map_viewport_options_size :: u32
  map_viewport_options_fields :: mln_map_viewport_option_fields
  map_viewport_options_north_orientation :: u32
  map_viewport_options_constrain_mode :: u32
  map_viewport_options_viewport_mode :: u32
  map_viewport_options_frustum_offset :: mln_edge_insets

record mln_map_viewport =
  map_viewport_north_orientation :: u32
  map_viewport_constrain_mode :: u32
  map_viewport_viewport_mode :: u32
  map_viewport_frustum_offset :: mln_edge_insets

record mln_map_view =
  map_view_size :: u32
  map_view_camera :: mln_camera
  map_view_extent :: mln_logical_extent
  map_view_projection_mode :: mln_projection_mode
  map_view_viewport :: mln_map_viewport

record mln_map_tile_options =
  map_tile_options_size :: u32
  map_tile_options_fields :: mln_map_tile_option_fields
  map_tile_options_prefetch_zoom_delta :: u32
  map_tile_options_lod_min_radius :: double
  map_tile_options_lod_scale :: double
  map_tile_options_lod_pitch_threshold :: double
  map_tile_options_lod_zoom_shift :: double
  map_tile_options_lod_mode :: u32

record mln_map_tile_settings =
  map_tile_settings_prefetch_zoom_delta :: u32
  map_tile_settings_lod_min_radius :: double
  map_tile_settings_lod_scale :: double
  map_tile_settings_lod_pitch_threshold :: double
  map_tile_settings_lod_zoom_shift :: double
  map_tile_settings_lod_mode :: u32

record mln_map_snapshot =
  map_snapshot_size :: u32
  map_snapshot_debug_flags :: mln_map_debug_flags
  map_snapshot_generation :: u64
  map_snapshot_fully_loaded :: bool
  map_snapshot_rendering_stats_view_enabled :: bool
  map_snapshot_gesture_in_progress :: bool
  map_snapshot_transition_in_progress :: bool
  map_snapshot_event_mask :: mln_runtime_event_flags
  map_snapshot_latest_render_update_generation :: u64
  map_snapshot_tile :: mln_map_tile_settings
  map_snapshot_bounds :: mln_camera_bounds
  map_snapshot_free_camera :: mln_free_camera
  map_snapshot_view :: mln_map_view

record mln_camera_query_result =
  camera_query_result_generation :: u64
  camera_query_result_camera :: mln_camera

section \<open>projection.h\<close>

record mln_map_projection_camera_result =
  map_projection_camera_result_size :: u32
  map_projection_camera_result_camera :: mln_camera

end
