(* ===== verification/Api_Render.thy ===== *)
theory Api_Render
  imports Api_Map
begin

text \<open>
  The data of the render headers \<open>render_target.h\<close> and \<open>render_session.h\<close>, under
  \<open>include/maplibre_native_c/\<close>: each struct is a record whose fields carry the struct's name, each
  enumeration a datatype with its codes and an interpretation of \<open>c_enum\<close>, each union a
  datatype with one constructor per member. Fields of enumeration and bit set types are words; a
  pointer to an array is the list it reaches, or \<open>None\<close> when null; callbacks and opaque pointers
  are addresses.
\<close>

unbundle bit_operations_syntax

section \<open>render_target.h\<close>

type_synonym mln_vulkan_non_dispatchable_handle = u64

datatype (plugins only: code size) mln_render_driver_kind =
    MLN_RENDER_DRIVER_CORE_WORKER
  | MLN_RENDER_DRIVER_CALLER_GRAPHICS_THREAD

primrec mln_render_driver_kind_code :: "mln_render_driver_kind \<Rightarrow> u32" where
    "mln_render_driver_kind_code MLN_RENDER_DRIVER_CORE_WORKER = 1"
  | "mln_render_driver_kind_code MLN_RENDER_DRIVER_CALLER_GRAPHICS_THREAD = 2"

definition mln_render_driver_kind_values :: "mln_render_driver_kind list" where
  "mln_render_driver_kind_values =
  [MLN_RENDER_DRIVER_CORE_WORKER,
   MLN_RENDER_DRIVER_CALLER_GRAPHICS_THREAD]"

interpretation render_driver_kind_enum: c_enum mln_render_driver_kind_code mln_render_driver_kind_values
  by (unfold_locales, simp add: mln_render_driver_kind_values_def, rename_tac e, case_tac e; simp add: mln_render_driver_kind_values_def)

datatype (plugins only: code size) mln_render_session_capability_flag =
    MLN_RENDER_SESSION_CAPABILITY_FRAME_ACQUISITION
  | MLN_RENDER_SESSION_CAPABILITY_READBACK
  | MLN_RENDER_SESSION_CAPABILITY_PRESENTATION

primrec mln_render_session_capability_flag_code :: "mln_render_session_capability_flag \<Rightarrow> u32" where
    "mln_render_session_capability_flag_code MLN_RENDER_SESSION_CAPABILITY_FRAME_ACQUISITION = push_bit 0 1"
  | "mln_render_session_capability_flag_code MLN_RENDER_SESSION_CAPABILITY_READBACK = push_bit 1 1"
  | "mln_render_session_capability_flag_code MLN_RENDER_SESSION_CAPABILITY_PRESENTATION = push_bit 2 1"

definition mln_render_session_capability_flag_values :: "mln_render_session_capability_flag list" where
  "mln_render_session_capability_flag_values =
  [MLN_RENDER_SESSION_CAPABILITY_FRAME_ACQUISITION,
   MLN_RENDER_SESSION_CAPABILITY_READBACK,
   MLN_RENDER_SESSION_CAPABILITY_PRESENTATION]"

interpretation render_session_capability_flag_enum: c_enum mln_render_session_capability_flag_code mln_render_session_capability_flag_values
  by (unfold_locales, simp add: mln_render_session_capability_flag_values_def, rename_tac e, case_tac e; simp add: mln_render_session_capability_flag_values_def)

type_synonym mln_render_session_capability_flags = u32

record mln_queue_lock =
  queue_lock_lock :: ptr
  queue_lock_unlock :: ptr
  queue_lock_user_data :: ptr
  queue_lock_release_user_data :: ptr

datatype (plugins only: code size) mln_gpu_sync_kind =
    MLN_GPU_SYNC_CPU_COMPLETE
  | MLN_GPU_SYNC_OPEN_GL_FENCE
  | MLN_GPU_SYNC_QUEUE_ORDER
  | MLN_GPU_SYNC_VULKAN_TIMELINE_SEMAPHORE
  | MLN_GPU_SYNC_SYNC_FD
  | MLN_GPU_SYNC_METAL_SHARED_EVENT
  | MLN_GPU_SYNC_D3D12_FENCE

primrec mln_gpu_sync_kind_code :: "mln_gpu_sync_kind \<Rightarrow> u32" where
    "mln_gpu_sync_kind_code MLN_GPU_SYNC_CPU_COMPLETE = 0"
  | "mln_gpu_sync_kind_code MLN_GPU_SYNC_OPEN_GL_FENCE = 1"
  | "mln_gpu_sync_kind_code MLN_GPU_SYNC_QUEUE_ORDER = 2"
  | "mln_gpu_sync_kind_code MLN_GPU_SYNC_VULKAN_TIMELINE_SEMAPHORE = 3"
  | "mln_gpu_sync_kind_code MLN_GPU_SYNC_SYNC_FD = 4"
  | "mln_gpu_sync_kind_code MLN_GPU_SYNC_METAL_SHARED_EVENT = 5"
  | "mln_gpu_sync_kind_code MLN_GPU_SYNC_D3D12_FENCE = 6"

definition mln_gpu_sync_kind_values :: "mln_gpu_sync_kind list" where
  "mln_gpu_sync_kind_values =
  [MLN_GPU_SYNC_CPU_COMPLETE,
   MLN_GPU_SYNC_OPEN_GL_FENCE,
   MLN_GPU_SYNC_QUEUE_ORDER,
   MLN_GPU_SYNC_VULKAN_TIMELINE_SEMAPHORE,
   MLN_GPU_SYNC_SYNC_FD,
   MLN_GPU_SYNC_METAL_SHARED_EVENT,
   MLN_GPU_SYNC_D3D12_FENCE]"

interpretation gpu_sync_kind_enum: c_enum mln_gpu_sync_kind_code mln_gpu_sync_kind_values
  by (unfold_locales, simp add: mln_gpu_sync_kind_values_def, rename_tac e, case_tac e; simp add: mln_gpu_sync_kind_values_def)

datatype (plugins only: code size) mln_gpu_sync_kind_flag =
    MLN_GPU_SYNC_KIND_FLAG_CPU_COMPLETE
  | MLN_GPU_SYNC_KIND_FLAG_OPEN_GL_FENCE
  | MLN_GPU_SYNC_KIND_FLAG_QUEUE_ORDER
  | MLN_GPU_SYNC_KIND_FLAG_VULKAN_TIMELINE_SEMAPHORE
  | MLN_GPU_SYNC_KIND_FLAG_SYNC_FD
  | MLN_GPU_SYNC_KIND_FLAG_METAL_SHARED_EVENT
  | MLN_GPU_SYNC_KIND_FLAG_D3D12_FENCE

primrec mln_gpu_sync_kind_flag_code :: "mln_gpu_sync_kind_flag \<Rightarrow> u32" where
    "mln_gpu_sync_kind_flag_code MLN_GPU_SYNC_KIND_FLAG_CPU_COMPLETE = push_bit 0 1"
  | "mln_gpu_sync_kind_flag_code MLN_GPU_SYNC_KIND_FLAG_OPEN_GL_FENCE = push_bit 1 1"
  | "mln_gpu_sync_kind_flag_code MLN_GPU_SYNC_KIND_FLAG_QUEUE_ORDER = push_bit 2 1"
  | "mln_gpu_sync_kind_flag_code MLN_GPU_SYNC_KIND_FLAG_VULKAN_TIMELINE_SEMAPHORE = push_bit 3 1"
  | "mln_gpu_sync_kind_flag_code MLN_GPU_SYNC_KIND_FLAG_SYNC_FD = push_bit 4 1"
  | "mln_gpu_sync_kind_flag_code MLN_GPU_SYNC_KIND_FLAG_METAL_SHARED_EVENT = push_bit 5 1"
  | "mln_gpu_sync_kind_flag_code MLN_GPU_SYNC_KIND_FLAG_D3D12_FENCE = push_bit 6 1"

definition mln_gpu_sync_kind_flag_values :: "mln_gpu_sync_kind_flag list" where
  "mln_gpu_sync_kind_flag_values =
  [MLN_GPU_SYNC_KIND_FLAG_CPU_COMPLETE,
   MLN_GPU_SYNC_KIND_FLAG_OPEN_GL_FENCE,
   MLN_GPU_SYNC_KIND_FLAG_QUEUE_ORDER,
   MLN_GPU_SYNC_KIND_FLAG_VULKAN_TIMELINE_SEMAPHORE,
   MLN_GPU_SYNC_KIND_FLAG_SYNC_FD,
   MLN_GPU_SYNC_KIND_FLAG_METAL_SHARED_EVENT,
   MLN_GPU_SYNC_KIND_FLAG_D3D12_FENCE]"

interpretation gpu_sync_kind_flag_enum: c_enum mln_gpu_sync_kind_flag_code mln_gpu_sync_kind_flag_values
  by (unfold_locales, simp add: mln_gpu_sync_kind_flag_values_def, rename_tac e, case_tac e; simp add: mln_gpu_sync_kind_flag_values_def)

type_synonym mln_gpu_sync_kind_flags = u32

record mln_render_session_attach_options =
  render_session_attach_options_size :: u32
  render_session_attach_options_driver :: u32
  render_session_attach_options_producer_sync_kinds :: mln_gpu_sync_kind_flags
  render_session_attach_options_frame_wake :: mln_wake
  render_session_attach_options_redraw_wake :: mln_wake
  render_session_attach_options_driver_work_wake :: mln_wake
  render_session_attach_options_queue_lock :: mln_queue_lock

record mln_render_session_capabilities =
  render_session_capabilities_size :: u32
  render_session_capabilities_driver :: u32
  render_session_capabilities_texture_ring_depth :: u32
  render_session_capabilities_flags :: mln_render_session_capability_flags
  render_session_capabilities_producer_sync_kind :: u32
  render_session_capabilities_consumer_sync_kinds :: mln_gpu_sync_kind_flags

record mln_gpu_sync =
  gpu_sync_size :: u32
  gpu_sync_kind :: u32
  gpu_sync_handle :: u64
  gpu_sync_value :: u64

record mln_metal_context_descriptor =
  metal_context_descriptor_device :: ptr

record mln_vulkan_context_descriptor =
  vulkan_context_descriptor_instance :: ptr
  vulkan_context_descriptor_physical_device :: ptr
  vulkan_context_descriptor_device :: ptr
  vulkan_context_descriptor_graphics_queue :: ptr
  vulkan_context_descriptor_graphics_queue_family_index :: u32
  vulkan_context_descriptor_get_instance_proc_addr :: ptr
  vulkan_context_descriptor_get_device_proc_addr :: ptr

record mln_web_gpu_context_descriptor =
  web_gpu_context_descriptor_instance :: ptr
  web_gpu_context_descriptor_device :: ptr
  web_gpu_context_descriptor_queue :: ptr

datatype (plugins only: code size) mln_open_gl_context_provider_flag =
    MLN_OPEN_GL_CONTEXT_PROVIDER_FLAG_WGL
  | MLN_OPEN_GL_CONTEXT_PROVIDER_FLAG_EGL
  | MLN_OPEN_GL_CONTEXT_PROVIDER_FLAG_WEB_GL

primrec mln_open_gl_context_provider_flag_code :: "mln_open_gl_context_provider_flag \<Rightarrow> u32" where
    "mln_open_gl_context_provider_flag_code MLN_OPEN_GL_CONTEXT_PROVIDER_FLAG_WGL = push_bit 0 1"
  | "mln_open_gl_context_provider_flag_code MLN_OPEN_GL_CONTEXT_PROVIDER_FLAG_EGL = push_bit 1 1"
  | "mln_open_gl_context_provider_flag_code MLN_OPEN_GL_CONTEXT_PROVIDER_FLAG_WEB_GL = push_bit 2 1"

definition mln_open_gl_context_provider_flag_values :: "mln_open_gl_context_provider_flag list" where
  "mln_open_gl_context_provider_flag_values =
  [MLN_OPEN_GL_CONTEXT_PROVIDER_FLAG_WGL,
   MLN_OPEN_GL_CONTEXT_PROVIDER_FLAG_EGL,
   MLN_OPEN_GL_CONTEXT_PROVIDER_FLAG_WEB_GL]"

interpretation open_gl_context_provider_flag_enum: c_enum mln_open_gl_context_provider_flag_code mln_open_gl_context_provider_flag_values
  by (unfold_locales, simp add: mln_open_gl_context_provider_flag_values_def, rename_tac e, case_tac e; simp add: mln_open_gl_context_provider_flag_values_def)

type_synonym mln_open_gl_context_provider_flags = u32

datatype (plugins only: code size) mln_open_gl_context_platform =
    MLN_OPEN_GL_CONTEXT_PLATFORM_UNSPECIFIED
  | MLN_OPEN_GL_CONTEXT_PLATFORM_WGL
  | MLN_OPEN_GL_CONTEXT_PLATFORM_EGL
  | MLN_OPEN_GL_CONTEXT_PLATFORM_WEB_GL

primrec mln_open_gl_context_platform_code :: "mln_open_gl_context_platform \<Rightarrow> u32" where
    "mln_open_gl_context_platform_code MLN_OPEN_GL_CONTEXT_PLATFORM_UNSPECIFIED = 0"
  | "mln_open_gl_context_platform_code MLN_OPEN_GL_CONTEXT_PLATFORM_WGL = 1"
  | "mln_open_gl_context_platform_code MLN_OPEN_GL_CONTEXT_PLATFORM_EGL = 2"
  | "mln_open_gl_context_platform_code MLN_OPEN_GL_CONTEXT_PLATFORM_WEB_GL = 3"

definition mln_open_gl_context_platform_values :: "mln_open_gl_context_platform list" where
  "mln_open_gl_context_platform_values =
  [MLN_OPEN_GL_CONTEXT_PLATFORM_UNSPECIFIED,
   MLN_OPEN_GL_CONTEXT_PLATFORM_WGL,
   MLN_OPEN_GL_CONTEXT_PLATFORM_EGL,
   MLN_OPEN_GL_CONTEXT_PLATFORM_WEB_GL]"

interpretation open_gl_context_platform_enum: c_enum mln_open_gl_context_platform_code mln_open_gl_context_platform_values
  by (unfold_locales, simp add: mln_open_gl_context_platform_values_def, rename_tac e, case_tac e; simp add: mln_open_gl_context_platform_values_def)

datatype (plugins only: code size) mln_open_gl_context_ownership =
    MLN_OPEN_GL_CONTEXT_OWNERSHIP_SHARED
  | MLN_OPEN_GL_CONTEXT_OWNERSHIP_DEDICATED

primrec mln_open_gl_context_ownership_code :: "mln_open_gl_context_ownership \<Rightarrow> u32" where
    "mln_open_gl_context_ownership_code MLN_OPEN_GL_CONTEXT_OWNERSHIP_SHARED = 0"
  | "mln_open_gl_context_ownership_code MLN_OPEN_GL_CONTEXT_OWNERSHIP_DEDICATED = 1"

definition mln_open_gl_context_ownership_values :: "mln_open_gl_context_ownership list" where
  "mln_open_gl_context_ownership_values =
  [MLN_OPEN_GL_CONTEXT_OWNERSHIP_SHARED,
   MLN_OPEN_GL_CONTEXT_OWNERSHIP_DEDICATED]"

interpretation open_gl_context_ownership_enum: c_enum mln_open_gl_context_ownership_code mln_open_gl_context_ownership_values
  by (unfold_locales, simp add: mln_open_gl_context_ownership_values_def, rename_tac e, case_tac e; simp add: mln_open_gl_context_ownership_values_def)

datatype (plugins only: code size) mln_open_gl_client_api =
    MLN_OPEN_GL_CLIENT_API_UNSPECIFIED
  | MLN_OPEN_GL_CLIENT_API_GL
  | MLN_OPEN_GL_CLIENT_API_GLES

primrec mln_open_gl_client_api_code :: "mln_open_gl_client_api \<Rightarrow> u32" where
    "mln_open_gl_client_api_code MLN_OPEN_GL_CLIENT_API_UNSPECIFIED = 0"
  | "mln_open_gl_client_api_code MLN_OPEN_GL_CLIENT_API_GL = 1"
  | "mln_open_gl_client_api_code MLN_OPEN_GL_CLIENT_API_GLES = 2"

definition mln_open_gl_client_api_values :: "mln_open_gl_client_api list" where
  "mln_open_gl_client_api_values =
  [MLN_OPEN_GL_CLIENT_API_UNSPECIFIED,
   MLN_OPEN_GL_CLIENT_API_GL,
   MLN_OPEN_GL_CLIENT_API_GLES]"

interpretation open_gl_client_api_enum: c_enum mln_open_gl_client_api_code mln_open_gl_client_api_values
  by (unfold_locales, simp add: mln_open_gl_client_api_values_def, rename_tac e, case_tac e; simp add: mln_open_gl_client_api_values_def)

record mln_wgl_context_descriptor =
  wgl_context_descriptor_device_context :: ptr
  wgl_context_descriptor_share_context :: ptr
  wgl_context_descriptor_get_proc_address :: ptr

record mln_egl_context_descriptor =
  egl_context_descriptor_display :: ptr
  egl_context_descriptor_config :: ptr
  egl_context_descriptor_share_context :: ptr
  egl_context_descriptor_client_api :: u32
  egl_context_descriptor_get_proc_address :: ptr

datatype (plugins only: code size) mln_web_gl_context_kind =
    MLN_WEB_GL_CONTEXT_EXISTING
  | MLN_WEB_GL_CONTEXT_TRANSFERRED_CANVAS

primrec mln_web_gl_context_kind_code :: "mln_web_gl_context_kind \<Rightarrow> u32" where
    "mln_web_gl_context_kind_code MLN_WEB_GL_CONTEXT_EXISTING = 0"
  | "mln_web_gl_context_kind_code MLN_WEB_GL_CONTEXT_TRANSFERRED_CANVAS = 1"

definition mln_web_gl_context_kind_values :: "mln_web_gl_context_kind list" where
  "mln_web_gl_context_kind_values =
  [MLN_WEB_GL_CONTEXT_EXISTING,
   MLN_WEB_GL_CONTEXT_TRANSFERRED_CANVAS]"

interpretation web_gl_context_kind_enum: c_enum mln_web_gl_context_kind_code mln_web_gl_context_kind_values
  by (unfold_locales, simp add: mln_web_gl_context_kind_values_def, rename_tac e, case_tac e; simp add: mln_web_gl_context_kind_values_def)

record mln_web_gl_context_descriptor =
  web_gl_context_descriptor_kind :: u32
  web_gl_context_descriptor_context :: i32
  web_gl_context_descriptor_canvas_selector :: mln_buffer_view

datatype mln_open_gl_context_descriptor_data =
    OpenGlContextDescriptorData_wgl mln_wgl_context_descriptor
  | OpenGlContextDescriptorData_egl mln_egl_context_descriptor
  | OpenGlContextDescriptorData_web_gl mln_web_gl_context_descriptor

record mln_open_gl_context_descriptor =
  open_gl_context_descriptor_platform :: u32
  open_gl_context_descriptor_ownership :: u32
  open_gl_context_descriptor_data :: mln_open_gl_context_descriptor_data

section \<open>render_session.h\<close>

datatype (plugins only: code size) mln_render_result =
    MLN_RENDER_RESULT_RENDERED
  | MLN_RENDER_RESULT_NO_UPDATE
  | MLN_RENDER_RESULT_TARGET_NOT_READY
  | MLN_RENDER_RESULT_SUPERSEDED
  | MLN_RENDER_RESULT_FAILED

primrec mln_render_result_code :: "mln_render_result \<Rightarrow> u32" where
    "mln_render_result_code MLN_RENDER_RESULT_RENDERED = 0"
  | "mln_render_result_code MLN_RENDER_RESULT_NO_UPDATE = 1"
  | "mln_render_result_code MLN_RENDER_RESULT_TARGET_NOT_READY = 2"
  | "mln_render_result_code MLN_RENDER_RESULT_SUPERSEDED = 3"
  | "mln_render_result_code MLN_RENDER_RESULT_FAILED = 4"

definition mln_render_result_values :: "mln_render_result list" where
  "mln_render_result_values =
  [MLN_RENDER_RESULT_RENDERED,
   MLN_RENDER_RESULT_NO_UPDATE,
   MLN_RENDER_RESULT_TARGET_NOT_READY,
   MLN_RENDER_RESULT_SUPERSEDED,
   MLN_RENDER_RESULT_FAILED]"

interpretation render_result_enum: c_enum mln_render_result_code mln_render_result_values
  by (unfold_locales, simp add: mln_render_result_values_def, rename_tac e, case_tac e; simp add: mln_render_result_values_def)

datatype (plugins only: code size) mln_render_session_state =
    MLN_RENDER_SESSION_STATE_ATTACHING
  | MLN_RENDER_SESSION_STATE_ATTACHED
  | MLN_RENDER_SESSION_STATE_DETACHING
  | MLN_RENDER_SESSION_STATE_DETACHED
  | MLN_RENDER_SESSION_STATE_FAILED
  | MLN_RENDER_SESSION_STATE_ABANDONED

primrec mln_render_session_state_code :: "mln_render_session_state \<Rightarrow> u32" where
    "mln_render_session_state_code MLN_RENDER_SESSION_STATE_ATTACHING = 1"
  | "mln_render_session_state_code MLN_RENDER_SESSION_STATE_ATTACHED = 2"
  | "mln_render_session_state_code MLN_RENDER_SESSION_STATE_DETACHING = 3"
  | "mln_render_session_state_code MLN_RENDER_SESSION_STATE_DETACHED = 4"
  | "mln_render_session_state_code MLN_RENDER_SESSION_STATE_FAILED = 5"
  | "mln_render_session_state_code MLN_RENDER_SESSION_STATE_ABANDONED = 6"

definition mln_render_session_state_values :: "mln_render_session_state list" where
  "mln_render_session_state_values =
  [MLN_RENDER_SESSION_STATE_ATTACHING,
   MLN_RENDER_SESSION_STATE_ATTACHED,
   MLN_RENDER_SESSION_STATE_DETACHING,
   MLN_RENDER_SESSION_STATE_DETACHED,
   MLN_RENDER_SESSION_STATE_FAILED,
   MLN_RENDER_SESSION_STATE_ABANDONED]"

interpretation render_session_state_enum: c_enum mln_render_session_state_code mln_render_session_state_values
  by (unfold_locales, simp add: mln_render_session_state_values_def, rename_tac e, case_tac e; simp add: mln_render_session_state_values_def)

datatype (plugins only: code size) mln_frame_demand_flag =
    MLN_FRAME_DEMAND_FORCE
  | MLN_FRAME_DEMAND_WAIT_FOR_UPDATE

primrec mln_frame_demand_flag_code :: "mln_frame_demand_flag \<Rightarrow> u32" where
    "mln_frame_demand_flag_code MLN_FRAME_DEMAND_FORCE = push_bit 0 1"
  | "mln_frame_demand_flag_code MLN_FRAME_DEMAND_WAIT_FOR_UPDATE = push_bit 2 1"

definition mln_frame_demand_flag_values :: "mln_frame_demand_flag list" where
  "mln_frame_demand_flag_values =
  [MLN_FRAME_DEMAND_FORCE,
   MLN_FRAME_DEMAND_WAIT_FOR_UPDATE]"

interpretation frame_demand_flag_enum: c_enum mln_frame_demand_flag_code mln_frame_demand_flag_values
  by (unfold_locales, simp add: mln_frame_demand_flag_values_def, rename_tac e, case_tac e; simp add: mln_frame_demand_flag_values_def)

type_synonym mln_frame_demand_flags = u32

record mln_frame_demand =
  frame_demand_size :: u32
  frame_demand_flags :: mln_frame_demand_flags
  frame_demand_token :: u64

record mln_render_frame_result =
  render_frame_result_size :: u32
  render_frame_result_disposition :: u32
  render_frame_result_token :: u64
  render_frame_result_map_update_generation :: u64
  render_frame_result_generation :: u64
  render_frame_result_frame_generation :: u64
  render_frame_result_needs_repaint :: bool
  render_frame_result_view :: mln_map_view
  render_frame_result_mode :: u32

record mln_render_frame_batch_view =
  render_frame_batch_view_size :: u32
  render_frame_batch_view_result_size :: u32
  render_frame_batch_view_results :: "mln_render_frame_result list option"
  render_frame_batch_view_result_count :: usize

record mln_render_session_snapshot =
  render_session_snapshot_size :: u32
  render_session_snapshot_state :: u32
  render_session_snapshot_extent :: mln_logical_extent
  render_session_snapshot_generation :: u64
  render_session_snapshot_frame_generation :: u64
  render_session_snapshot_acquired_frame_count :: u32
  render_session_snapshot_failure_status :: i32
  render_session_snapshot_has_target :: bool

datatype (plugins only: code size) mln_render_abandon_disposition =
    MLN_RENDER_ABANDON_DISPOSITION_CLEAN
  | MLN_RENDER_ABANDON_DISPOSITION_QUARANTINED

primrec mln_render_abandon_disposition_code :: "mln_render_abandon_disposition \<Rightarrow> u32" where
    "mln_render_abandon_disposition_code MLN_RENDER_ABANDON_DISPOSITION_CLEAN = 0"
  | "mln_render_abandon_disposition_code MLN_RENDER_ABANDON_DISPOSITION_QUARANTINED = 1"

definition mln_render_abandon_disposition_values :: "mln_render_abandon_disposition list" where
  "mln_render_abandon_disposition_values =
  [MLN_RENDER_ABANDON_DISPOSITION_CLEAN,
   MLN_RENDER_ABANDON_DISPOSITION_QUARANTINED]"

interpretation render_abandon_disposition_enum: c_enum mln_render_abandon_disposition_code mln_render_abandon_disposition_values
  by (unfold_locales, simp add: mln_render_abandon_disposition_values_def, rename_tac e, case_tac e; simp add: mln_render_abandon_disposition_values_def)

record mln_render_abandon_result =
  render_abandon_result_size :: u32
  render_abandon_result_disposition :: u32
  render_abandon_result_quarantined_resource_count :: u32
  render_abandon_result_reserved :: u32

datatype (plugins only: code size) mln_frame_pacer_option_field =
    MLN_FRAME_PACER_OPTION_MAXIMUM_FRAMES_PER_SECOND

primrec mln_frame_pacer_option_field_code :: "mln_frame_pacer_option_field \<Rightarrow> u32" where
    "mln_frame_pacer_option_field_code MLN_FRAME_PACER_OPTION_MAXIMUM_FRAMES_PER_SECOND = push_bit 0 1"

definition mln_frame_pacer_option_field_values :: "mln_frame_pacer_option_field list" where
  "mln_frame_pacer_option_field_values =
  [MLN_FRAME_PACER_OPTION_MAXIMUM_FRAMES_PER_SECOND]"

interpretation frame_pacer_option_field_enum: c_enum mln_frame_pacer_option_field_code mln_frame_pacer_option_field_values
  by (unfold_locales, simp add: mln_frame_pacer_option_field_values_def, rename_tac e, case_tac e; simp add: mln_frame_pacer_option_field_values_def)

type_synonym mln_frame_pacer_option_fields = u32

record mln_frame_pacer_options =
  frame_pacer_options_size :: u32
  frame_pacer_options_fields :: mln_frame_pacer_option_fields
  frame_pacer_options_maximum_frames_per_second :: u32

end
