(* ===== verification/Api_Runtime.thy ===== *)
theory Api_Runtime
  imports Api_Geometry
begin

text \<open>
  The data of \<open>runtime.h\<close>, under
  \<open>include/maplibre_native_c/\<close>: each struct is a record whose fields carry the struct's name, each
  enumeration a datatype with its codes and an interpretation of \<open>c_enum\<close>, each union a
  datatype with one constructor per member. Fields of enumeration and bit set types are words; a
  pointer to an array is the list it reaches, or \<open>None\<close> when null; callbacks and opaque pointers
  are addresses.
\<close>

unbundle bit_operations_syntax

section \<open>runtime.h\<close>

datatype (plugins only: code size) mln_network_status =
    MLN_NETWORK_STATUS_ONLINE
  | MLN_NETWORK_STATUS_OFFLINE

primrec mln_network_status_code :: "mln_network_status \<Rightarrow> u32" where
    "mln_network_status_code MLN_NETWORK_STATUS_ONLINE = 1"
  | "mln_network_status_code MLN_NETWORK_STATUS_OFFLINE = 2"

definition mln_network_status_values :: "mln_network_status list" where
  "mln_network_status_values =
  [MLN_NETWORK_STATUS_ONLINE,
   MLN_NETWORK_STATUS_OFFLINE]"

interpretation network_status_enum: c_enum mln_network_status_code mln_network_status_values
  by (unfold_locales, simp add: mln_network_status_values_def, rename_tac e, case_tac e; simp add: mln_network_status_values_def)

datatype (plugins only: code size) mln_cache_database_operation =
    MLN_CACHE_DATABASE_OPERATION_CLEAR
  | MLN_CACHE_DATABASE_OPERATION_INVALIDATE
  | MLN_CACHE_DATABASE_OPERATION_PACK
  | MLN_CACHE_DATABASE_OPERATION_RESET

primrec mln_cache_database_operation_code :: "mln_cache_database_operation \<Rightarrow> u32" where
    "mln_cache_database_operation_code MLN_CACHE_DATABASE_OPERATION_CLEAR = 1"
  | "mln_cache_database_operation_code MLN_CACHE_DATABASE_OPERATION_INVALIDATE = 2"
  | "mln_cache_database_operation_code MLN_CACHE_DATABASE_OPERATION_PACK = 3"
  | "mln_cache_database_operation_code MLN_CACHE_DATABASE_OPERATION_RESET = 4"

definition mln_cache_database_operation_values :: "mln_cache_database_operation list" where
  "mln_cache_database_operation_values =
  [MLN_CACHE_DATABASE_OPERATION_CLEAR,
   MLN_CACHE_DATABASE_OPERATION_INVALIDATE,
   MLN_CACHE_DATABASE_OPERATION_PACK,
   MLN_CACHE_DATABASE_OPERATION_RESET]"

interpretation cache_database_operation_enum: c_enum mln_cache_database_operation_code mln_cache_database_operation_values
  by (unfold_locales, simp add: mln_cache_database_operation_values_def, rename_tac e, case_tac e; simp add: mln_cache_database_operation_values_def)

datatype (plugins only: code size) mln_offline_region_definition_type =
    MLN_OFFLINE_REGION_DEFINITION_TILE_PYRAMID
  | MLN_OFFLINE_REGION_DEFINITION_GEOMETRY

primrec mln_offline_region_definition_type_code :: "mln_offline_region_definition_type \<Rightarrow> u32" where
    "mln_offline_region_definition_type_code MLN_OFFLINE_REGION_DEFINITION_TILE_PYRAMID = 1"
  | "mln_offline_region_definition_type_code MLN_OFFLINE_REGION_DEFINITION_GEOMETRY = 2"

definition mln_offline_region_definition_type_values :: "mln_offline_region_definition_type list" where
  "mln_offline_region_definition_type_values =
  [MLN_OFFLINE_REGION_DEFINITION_TILE_PYRAMID,
   MLN_OFFLINE_REGION_DEFINITION_GEOMETRY]"

interpretation offline_region_definition_type_enum: c_enum mln_offline_region_definition_type_code mln_offline_region_definition_type_values
  by (unfold_locales, simp add: mln_offline_region_definition_type_values_def, rename_tac e, case_tac e; simp add: mln_offline_region_definition_type_values_def)

datatype (plugins only: code size) mln_offline_region_download_state =
    MLN_OFFLINE_REGION_DOWNLOAD_INACTIVE
  | MLN_OFFLINE_REGION_DOWNLOAD_ACTIVE

primrec mln_offline_region_download_state_code :: "mln_offline_region_download_state \<Rightarrow> u32" where
    "mln_offline_region_download_state_code MLN_OFFLINE_REGION_DOWNLOAD_INACTIVE = 0"
  | "mln_offline_region_download_state_code MLN_OFFLINE_REGION_DOWNLOAD_ACTIVE = 1"

definition mln_offline_region_download_state_values :: "mln_offline_region_download_state list" where
  "mln_offline_region_download_state_values =
  [MLN_OFFLINE_REGION_DOWNLOAD_INACTIVE,
   MLN_OFFLINE_REGION_DOWNLOAD_ACTIVE]"

interpretation offline_region_download_state_enum: c_enum mln_offline_region_download_state_code mln_offline_region_download_state_values
  by (unfold_locales, simp add: mln_offline_region_download_state_values_def, rename_tac e, case_tac e; simp add: mln_offline_region_download_state_values_def)

record mln_offline_region_status =
  offline_region_status_download_state :: u32
  offline_region_status_completed_resource_count :: u64
  offline_region_status_completed_resource_size :: u64
  offline_region_status_completed_tile_count :: u64
  offline_region_status_required_tile_count :: u64
  offline_region_status_completed_tile_size :: u64
  offline_region_status_required_resource_count :: u64
  offline_region_status_required_resource_count_is_precise :: bool
  offline_region_status_complete :: bool

datatype (plugins only: code size) mln_runtime_event_type =
    MLN_RUNTIME_EVENT_MAP_CAMERA_WILL_CHANGE
  | MLN_RUNTIME_EVENT_MAP_CAMERA_IS_CHANGING
  | MLN_RUNTIME_EVENT_MAP_CAMERA_DID_CHANGE
  | MLN_RUNTIME_EVENT_MAP_STYLE_LOADED
  | MLN_RUNTIME_EVENT_MAP_LOADING_STARTED
  | MLN_RUNTIME_EVENT_MAP_LOADING_FINISHED
  | MLN_RUNTIME_EVENT_MAP_LOADING_FAILED
  | MLN_RUNTIME_EVENT_MAP_IDLE
  | MLN_RUNTIME_EVENT_MAP_RENDER_ERROR
  | MLN_RUNTIME_EVENT_MAP_RENDER_FRAME_STARTED
  | MLN_RUNTIME_EVENT_MAP_RENDER_FRAME_FINISHED
  | MLN_RUNTIME_EVENT_MAP_RENDER_MAP_STARTED
  | MLN_RUNTIME_EVENT_MAP_RENDER_MAP_FINISHED
  | MLN_RUNTIME_EVENT_MAP_STYLE_IMAGE_MISSING
  | MLN_RUNTIME_EVENT_MAP_TILE_ACTION
  | MLN_RUNTIME_EVENT_MAP_SOURCE_CHANGED
  | MLN_RUNTIME_EVENT_OFFLINE_REGION_STATUS_CHANGED
  | MLN_RUNTIME_EVENT_OFFLINE_REGION_RESPONSE_ERROR
  | MLN_RUNTIME_EVENT_OFFLINE_REGION_TILE_COUNT_LIMIT_EXCEEDED
  | MLN_RUNTIME_EVENT_MAP_GLYPHS_REQUESTED
  | MLN_RUNTIME_EVENT_MAP_GLYPHS_LOADED
  | MLN_RUNTIME_EVENT_MAP_GLYPHS_ERROR
  | MLN_RUNTIME_EVENT_MAP_SPRITE_REQUESTED
  | MLN_RUNTIME_EVENT_MAP_SPRITE_LOADED
  | MLN_RUNTIME_EVENT_MAP_SPRITE_ERROR

primrec mln_runtime_event_type_code :: "mln_runtime_event_type \<Rightarrow> u32" where
    "mln_runtime_event_type_code MLN_RUNTIME_EVENT_MAP_CAMERA_WILL_CHANGE = 1"
  | "mln_runtime_event_type_code MLN_RUNTIME_EVENT_MAP_CAMERA_IS_CHANGING = 2"
  | "mln_runtime_event_type_code MLN_RUNTIME_EVENT_MAP_CAMERA_DID_CHANGE = 3"
  | "mln_runtime_event_type_code MLN_RUNTIME_EVENT_MAP_STYLE_LOADED = 4"
  | "mln_runtime_event_type_code MLN_RUNTIME_EVENT_MAP_LOADING_STARTED = 5"
  | "mln_runtime_event_type_code MLN_RUNTIME_EVENT_MAP_LOADING_FINISHED = 6"
  | "mln_runtime_event_type_code MLN_RUNTIME_EVENT_MAP_LOADING_FAILED = 7"
  | "mln_runtime_event_type_code MLN_RUNTIME_EVENT_MAP_IDLE = 8"
  | "mln_runtime_event_type_code MLN_RUNTIME_EVENT_MAP_RENDER_ERROR = 9"
  | "mln_runtime_event_type_code MLN_RUNTIME_EVENT_MAP_RENDER_FRAME_STARTED = 10"
  | "mln_runtime_event_type_code MLN_RUNTIME_EVENT_MAP_RENDER_FRAME_FINISHED = 11"
  | "mln_runtime_event_type_code MLN_RUNTIME_EVENT_MAP_RENDER_MAP_STARTED = 12"
  | "mln_runtime_event_type_code MLN_RUNTIME_EVENT_MAP_RENDER_MAP_FINISHED = 13"
  | "mln_runtime_event_type_code MLN_RUNTIME_EVENT_MAP_STYLE_IMAGE_MISSING = 14"
  | "mln_runtime_event_type_code MLN_RUNTIME_EVENT_MAP_TILE_ACTION = 15"
  | "mln_runtime_event_type_code MLN_RUNTIME_EVENT_MAP_SOURCE_CHANGED = 16"
  | "mln_runtime_event_type_code MLN_RUNTIME_EVENT_OFFLINE_REGION_STATUS_CHANGED = 17"
  | "mln_runtime_event_type_code MLN_RUNTIME_EVENT_OFFLINE_REGION_RESPONSE_ERROR = 18"
  | "mln_runtime_event_type_code MLN_RUNTIME_EVENT_OFFLINE_REGION_TILE_COUNT_LIMIT_EXCEEDED = 19"
  | "mln_runtime_event_type_code MLN_RUNTIME_EVENT_MAP_GLYPHS_REQUESTED = 20"
  | "mln_runtime_event_type_code MLN_RUNTIME_EVENT_MAP_GLYPHS_LOADED = 21"
  | "mln_runtime_event_type_code MLN_RUNTIME_EVENT_MAP_GLYPHS_ERROR = 22"
  | "mln_runtime_event_type_code MLN_RUNTIME_EVENT_MAP_SPRITE_REQUESTED = 23"
  | "mln_runtime_event_type_code MLN_RUNTIME_EVENT_MAP_SPRITE_LOADED = 24"
  | "mln_runtime_event_type_code MLN_RUNTIME_EVENT_MAP_SPRITE_ERROR = 25"

definition mln_runtime_event_type_values :: "mln_runtime_event_type list" where
  "mln_runtime_event_type_values =
  [MLN_RUNTIME_EVENT_MAP_CAMERA_WILL_CHANGE,
   MLN_RUNTIME_EVENT_MAP_CAMERA_IS_CHANGING,
   MLN_RUNTIME_EVENT_MAP_CAMERA_DID_CHANGE,
   MLN_RUNTIME_EVENT_MAP_STYLE_LOADED,
   MLN_RUNTIME_EVENT_MAP_LOADING_STARTED,
   MLN_RUNTIME_EVENT_MAP_LOADING_FINISHED,
   MLN_RUNTIME_EVENT_MAP_LOADING_FAILED,
   MLN_RUNTIME_EVENT_MAP_IDLE,
   MLN_RUNTIME_EVENT_MAP_RENDER_ERROR,
   MLN_RUNTIME_EVENT_MAP_RENDER_FRAME_STARTED,
   MLN_RUNTIME_EVENT_MAP_RENDER_FRAME_FINISHED,
   MLN_RUNTIME_EVENT_MAP_RENDER_MAP_STARTED,
   MLN_RUNTIME_EVENT_MAP_RENDER_MAP_FINISHED,
   MLN_RUNTIME_EVENT_MAP_STYLE_IMAGE_MISSING,
   MLN_RUNTIME_EVENT_MAP_TILE_ACTION,
   MLN_RUNTIME_EVENT_MAP_SOURCE_CHANGED,
   MLN_RUNTIME_EVENT_OFFLINE_REGION_STATUS_CHANGED,
   MLN_RUNTIME_EVENT_OFFLINE_REGION_RESPONSE_ERROR,
   MLN_RUNTIME_EVENT_OFFLINE_REGION_TILE_COUNT_LIMIT_EXCEEDED,
   MLN_RUNTIME_EVENT_MAP_GLYPHS_REQUESTED,
   MLN_RUNTIME_EVENT_MAP_GLYPHS_LOADED,
   MLN_RUNTIME_EVENT_MAP_GLYPHS_ERROR,
   MLN_RUNTIME_EVENT_MAP_SPRITE_REQUESTED,
   MLN_RUNTIME_EVENT_MAP_SPRITE_LOADED,
   MLN_RUNTIME_EVENT_MAP_SPRITE_ERROR]"

interpretation runtime_event_type_enum: c_enum mln_runtime_event_type_code mln_runtime_event_type_values
  by (unfold_locales, simp add: mln_runtime_event_type_values_def, rename_tac e, case_tac e; simp add: mln_runtime_event_type_values_def)

datatype (plugins only: code size) mln_runtime_event_flag =
    MLN_RUNTIME_EVENT_FLAG_NONE
  | MLN_RUNTIME_EVENT_FLAG_MAP_CAMERA_WILL_CHANGE
  | MLN_RUNTIME_EVENT_FLAG_MAP_CAMERA_IS_CHANGING
  | MLN_RUNTIME_EVENT_FLAG_MAP_CAMERA_DID_CHANGE
  | MLN_RUNTIME_EVENT_FLAG_MAP_STYLE_LOADED
  | MLN_RUNTIME_EVENT_FLAG_MAP_LOADING_STARTED
  | MLN_RUNTIME_EVENT_FLAG_MAP_LOADING_FINISHED
  | MLN_RUNTIME_EVENT_FLAG_MAP_LOADING_FAILED
  | MLN_RUNTIME_EVENT_FLAG_MAP_IDLE
  | MLN_RUNTIME_EVENT_FLAG_MAP_RENDER_ERROR
  | MLN_RUNTIME_EVENT_FLAG_MAP_RENDER_FRAME_STARTED
  | MLN_RUNTIME_EVENT_FLAG_MAP_RENDER_FRAME_FINISHED
  | MLN_RUNTIME_EVENT_FLAG_MAP_RENDER_MAP_STARTED
  | MLN_RUNTIME_EVENT_FLAG_MAP_RENDER_MAP_FINISHED
  | MLN_RUNTIME_EVENT_FLAG_MAP_STYLE_IMAGE_MISSING
  | MLN_RUNTIME_EVENT_FLAG_MAP_TILE_ACTION
  | MLN_RUNTIME_EVENT_FLAG_MAP_SOURCE_CHANGED
  | MLN_RUNTIME_EVENT_FLAG_OFFLINE_REGION_STATUS_CHANGED
  | MLN_RUNTIME_EVENT_FLAG_OFFLINE_REGION_RESPONSE_ERROR
  | MLN_RUNTIME_EVENT_FLAG_OFFLINE_REGION_TILE_COUNT_LIMIT_EXCEEDED
  | MLN_RUNTIME_EVENT_FLAG_MAP_GLYPHS_REQUESTED
  | MLN_RUNTIME_EVENT_FLAG_MAP_GLYPHS_LOADED
  | MLN_RUNTIME_EVENT_FLAG_MAP_GLYPHS_ERROR
  | MLN_RUNTIME_EVENT_FLAG_MAP_SPRITE_REQUESTED
  | MLN_RUNTIME_EVENT_FLAG_MAP_SPRITE_LOADED
  | MLN_RUNTIME_EVENT_FLAG_MAP_SPRITE_ERROR
  | MLN_RUNTIME_EVENT_FLAG_ALL_MAP_EVENTS
  | MLN_RUNTIME_EVENT_FLAG_ALL_RUNTIME_EVENTS
  | MLN_RUNTIME_EVENT_FLAG_ALL

primrec mln_runtime_event_flag_code :: "mln_runtime_event_flag \<Rightarrow> u64" where
    "mln_runtime_event_flag_code MLN_RUNTIME_EVENT_FLAG_NONE = 0"
  | "mln_runtime_event_flag_code MLN_RUNTIME_EVENT_FLAG_MAP_CAMERA_WILL_CHANGE = push_bit 1 1"
  | "mln_runtime_event_flag_code MLN_RUNTIME_EVENT_FLAG_MAP_CAMERA_IS_CHANGING = push_bit 2 1"
  | "mln_runtime_event_flag_code MLN_RUNTIME_EVENT_FLAG_MAP_CAMERA_DID_CHANGE = push_bit 3 1"
  | "mln_runtime_event_flag_code MLN_RUNTIME_EVENT_FLAG_MAP_STYLE_LOADED = push_bit 4 1"
  | "mln_runtime_event_flag_code MLN_RUNTIME_EVENT_FLAG_MAP_LOADING_STARTED = push_bit 5 1"
  | "mln_runtime_event_flag_code MLN_RUNTIME_EVENT_FLAG_MAP_LOADING_FINISHED = push_bit 6 1"
  | "mln_runtime_event_flag_code MLN_RUNTIME_EVENT_FLAG_MAP_LOADING_FAILED = push_bit 7 1"
  | "mln_runtime_event_flag_code MLN_RUNTIME_EVENT_FLAG_MAP_IDLE = push_bit 8 1"
  | "mln_runtime_event_flag_code MLN_RUNTIME_EVENT_FLAG_MAP_RENDER_ERROR = push_bit 9 1"
  | "mln_runtime_event_flag_code MLN_RUNTIME_EVENT_FLAG_MAP_RENDER_FRAME_STARTED = push_bit 10 1"
  | "mln_runtime_event_flag_code MLN_RUNTIME_EVENT_FLAG_MAP_RENDER_FRAME_FINISHED = push_bit 11 1"
  | "mln_runtime_event_flag_code MLN_RUNTIME_EVENT_FLAG_MAP_RENDER_MAP_STARTED = push_bit 12 1"
  | "mln_runtime_event_flag_code MLN_RUNTIME_EVENT_FLAG_MAP_RENDER_MAP_FINISHED = push_bit 13 1"
  | "mln_runtime_event_flag_code MLN_RUNTIME_EVENT_FLAG_MAP_STYLE_IMAGE_MISSING = push_bit 14 1"
  | "mln_runtime_event_flag_code MLN_RUNTIME_EVENT_FLAG_MAP_TILE_ACTION = push_bit 15 1"
  | "mln_runtime_event_flag_code MLN_RUNTIME_EVENT_FLAG_MAP_SOURCE_CHANGED = push_bit 16 1"
  | "mln_runtime_event_flag_code MLN_RUNTIME_EVENT_FLAG_OFFLINE_REGION_STATUS_CHANGED = push_bit 17 1"
  | "mln_runtime_event_flag_code MLN_RUNTIME_EVENT_FLAG_OFFLINE_REGION_RESPONSE_ERROR = push_bit 18 1"
  | "mln_runtime_event_flag_code MLN_RUNTIME_EVENT_FLAG_OFFLINE_REGION_TILE_COUNT_LIMIT_EXCEEDED = push_bit 19 1"
  | "mln_runtime_event_flag_code MLN_RUNTIME_EVENT_FLAG_MAP_GLYPHS_REQUESTED = push_bit 20 1"
  | "mln_runtime_event_flag_code MLN_RUNTIME_EVENT_FLAG_MAP_GLYPHS_LOADED = push_bit 21 1"
  | "mln_runtime_event_flag_code MLN_RUNTIME_EVENT_FLAG_MAP_GLYPHS_ERROR = push_bit 22 1"
  | "mln_runtime_event_flag_code MLN_RUNTIME_EVENT_FLAG_MAP_SPRITE_REQUESTED = push_bit 23 1"
  | "mln_runtime_event_flag_code MLN_RUNTIME_EVENT_FLAG_MAP_SPRITE_LOADED = push_bit 24 1"
  | "mln_runtime_event_flag_code MLN_RUNTIME_EVENT_FLAG_MAP_SPRITE_ERROR = push_bit 25 1"
  | "mln_runtime_event_flag_code MLN_RUNTIME_EVENT_FLAG_ALL_MAP_EVENTS = 0x3f1fffe"
  | "mln_runtime_event_flag_code MLN_RUNTIME_EVENT_FLAG_ALL_RUNTIME_EVENTS = 0xe0000"
  | "mln_runtime_event_flag_code MLN_RUNTIME_EVENT_FLAG_ALL = 0x3fffffe"

definition mln_runtime_event_flag_values :: "mln_runtime_event_flag list" where
  "mln_runtime_event_flag_values =
  [MLN_RUNTIME_EVENT_FLAG_NONE,
   MLN_RUNTIME_EVENT_FLAG_MAP_CAMERA_WILL_CHANGE,
   MLN_RUNTIME_EVENT_FLAG_MAP_CAMERA_IS_CHANGING,
   MLN_RUNTIME_EVENT_FLAG_MAP_CAMERA_DID_CHANGE,
   MLN_RUNTIME_EVENT_FLAG_MAP_STYLE_LOADED,
   MLN_RUNTIME_EVENT_FLAG_MAP_LOADING_STARTED,
   MLN_RUNTIME_EVENT_FLAG_MAP_LOADING_FINISHED,
   MLN_RUNTIME_EVENT_FLAG_MAP_LOADING_FAILED,
   MLN_RUNTIME_EVENT_FLAG_MAP_IDLE,
   MLN_RUNTIME_EVENT_FLAG_MAP_RENDER_ERROR,
   MLN_RUNTIME_EVENT_FLAG_MAP_RENDER_FRAME_STARTED,
   MLN_RUNTIME_EVENT_FLAG_MAP_RENDER_FRAME_FINISHED,
   MLN_RUNTIME_EVENT_FLAG_MAP_RENDER_MAP_STARTED,
   MLN_RUNTIME_EVENT_FLAG_MAP_RENDER_MAP_FINISHED,
   MLN_RUNTIME_EVENT_FLAG_MAP_STYLE_IMAGE_MISSING,
   MLN_RUNTIME_EVENT_FLAG_MAP_TILE_ACTION,
   MLN_RUNTIME_EVENT_FLAG_MAP_SOURCE_CHANGED,
   MLN_RUNTIME_EVENT_FLAG_OFFLINE_REGION_STATUS_CHANGED,
   MLN_RUNTIME_EVENT_FLAG_OFFLINE_REGION_RESPONSE_ERROR,
   MLN_RUNTIME_EVENT_FLAG_OFFLINE_REGION_TILE_COUNT_LIMIT_EXCEEDED,
   MLN_RUNTIME_EVENT_FLAG_MAP_GLYPHS_REQUESTED,
   MLN_RUNTIME_EVENT_FLAG_MAP_GLYPHS_LOADED,
   MLN_RUNTIME_EVENT_FLAG_MAP_GLYPHS_ERROR,
   MLN_RUNTIME_EVENT_FLAG_MAP_SPRITE_REQUESTED,
   MLN_RUNTIME_EVENT_FLAG_MAP_SPRITE_LOADED,
   MLN_RUNTIME_EVENT_FLAG_MAP_SPRITE_ERROR,
   MLN_RUNTIME_EVENT_FLAG_ALL_MAP_EVENTS,
   MLN_RUNTIME_EVENT_FLAG_ALL_RUNTIME_EVENTS,
   MLN_RUNTIME_EVENT_FLAG_ALL]"

interpretation runtime_event_flag_enum: c_enum mln_runtime_event_flag_code mln_runtime_event_flag_values
  by (unfold_locales, simp add: mln_runtime_event_flag_values_def, rename_tac e, case_tac e; simp add: mln_runtime_event_flag_values_def)

datatype (plugins only: code size) mln_runtime_event_source_type =
    MLN_RUNTIME_EVENT_SOURCE_RUNTIME
  | MLN_RUNTIME_EVENT_SOURCE_MAP

primrec mln_runtime_event_source_type_code :: "mln_runtime_event_source_type \<Rightarrow> u32" where
    "mln_runtime_event_source_type_code MLN_RUNTIME_EVENT_SOURCE_RUNTIME = 0"
  | "mln_runtime_event_source_type_code MLN_RUNTIME_EVENT_SOURCE_MAP = 1"

definition mln_runtime_event_source_type_values :: "mln_runtime_event_source_type list" where
  "mln_runtime_event_source_type_values =
  [MLN_RUNTIME_EVENT_SOURCE_RUNTIME,
   MLN_RUNTIME_EVENT_SOURCE_MAP]"

interpretation runtime_event_source_type_enum: c_enum mln_runtime_event_source_type_code mln_runtime_event_source_type_values
  by (unfold_locales, simp add: mln_runtime_event_source_type_values_def, rename_tac e, case_tac e; simp add: mln_runtime_event_source_type_values_def)

datatype (plugins only: code size) mln_runtime_event_payload_type =
    MLN_RUNTIME_EVENT_PAYLOAD_NONE
  | MLN_RUNTIME_EVENT_PAYLOAD_CAMERA_CHANGE
  | MLN_RUNTIME_EVENT_PAYLOAD_LOADING_FAILED
  | MLN_RUNTIME_EVENT_PAYLOAD_RENDER_FRAME
  | MLN_RUNTIME_EVENT_PAYLOAD_STYLE_IMAGE
  | MLN_RUNTIME_EVENT_PAYLOAD_TILE_ACTION
  | MLN_RUNTIME_EVENT_PAYLOAD_SOURCE_CHANGED
  | MLN_RUNTIME_EVENT_PAYLOAD_OFFLINE_REGION_STATUS
  | MLN_RUNTIME_EVENT_PAYLOAD_OFFLINE_REGION_RESPONSE_ERROR
  | MLN_RUNTIME_EVENT_PAYLOAD_OFFLINE_REGION_TILE_COUNT_LIMIT
  | MLN_RUNTIME_EVENT_PAYLOAD_GLYPHS
  | MLN_RUNTIME_EVENT_PAYLOAD_SPRITE

primrec mln_runtime_event_payload_type_code :: "mln_runtime_event_payload_type \<Rightarrow> u32" where
    "mln_runtime_event_payload_type_code MLN_RUNTIME_EVENT_PAYLOAD_NONE = 0"
  | "mln_runtime_event_payload_type_code MLN_RUNTIME_EVENT_PAYLOAD_CAMERA_CHANGE = 1"
  | "mln_runtime_event_payload_type_code MLN_RUNTIME_EVENT_PAYLOAD_LOADING_FAILED = 2"
  | "mln_runtime_event_payload_type_code MLN_RUNTIME_EVENT_PAYLOAD_RENDER_FRAME = 3"
  | "mln_runtime_event_payload_type_code MLN_RUNTIME_EVENT_PAYLOAD_STYLE_IMAGE = 4"
  | "mln_runtime_event_payload_type_code MLN_RUNTIME_EVENT_PAYLOAD_TILE_ACTION = 5"
  | "mln_runtime_event_payload_type_code MLN_RUNTIME_EVENT_PAYLOAD_SOURCE_CHANGED = 6"
  | "mln_runtime_event_payload_type_code MLN_RUNTIME_EVENT_PAYLOAD_OFFLINE_REGION_STATUS = 7"
  | "mln_runtime_event_payload_type_code MLN_RUNTIME_EVENT_PAYLOAD_OFFLINE_REGION_RESPONSE_ERROR = 8"
  | "mln_runtime_event_payload_type_code MLN_RUNTIME_EVENT_PAYLOAD_OFFLINE_REGION_TILE_COUNT_LIMIT = 9"
  | "mln_runtime_event_payload_type_code MLN_RUNTIME_EVENT_PAYLOAD_GLYPHS = 10"
  | "mln_runtime_event_payload_type_code MLN_RUNTIME_EVENT_PAYLOAD_SPRITE = 11"

definition mln_runtime_event_payload_type_values :: "mln_runtime_event_payload_type list" where
  "mln_runtime_event_payload_type_values =
  [MLN_RUNTIME_EVENT_PAYLOAD_NONE,
   MLN_RUNTIME_EVENT_PAYLOAD_CAMERA_CHANGE,
   MLN_RUNTIME_EVENT_PAYLOAD_LOADING_FAILED,
   MLN_RUNTIME_EVENT_PAYLOAD_RENDER_FRAME,
   MLN_RUNTIME_EVENT_PAYLOAD_STYLE_IMAGE,
   MLN_RUNTIME_EVENT_PAYLOAD_TILE_ACTION,
   MLN_RUNTIME_EVENT_PAYLOAD_SOURCE_CHANGED,
   MLN_RUNTIME_EVENT_PAYLOAD_OFFLINE_REGION_STATUS,
   MLN_RUNTIME_EVENT_PAYLOAD_OFFLINE_REGION_RESPONSE_ERROR,
   MLN_RUNTIME_EVENT_PAYLOAD_OFFLINE_REGION_TILE_COUNT_LIMIT,
   MLN_RUNTIME_EVENT_PAYLOAD_GLYPHS,
   MLN_RUNTIME_EVENT_PAYLOAD_SPRITE]"

interpretation runtime_event_payload_type_enum: c_enum mln_runtime_event_payload_type_code mln_runtime_event_payload_type_values
  by (unfold_locales, simp add: mln_runtime_event_payload_type_values_def, rename_tac e, case_tac e; simp add: mln_runtime_event_payload_type_values_def)

datatype (plugins only: code size) mln_camera_change_mode =
    MLN_CAMERA_CHANGE_MODE_IMMEDIATE
  | MLN_CAMERA_CHANGE_MODE_ANIMATED

primrec mln_camera_change_mode_code :: "mln_camera_change_mode \<Rightarrow> u32" where
    "mln_camera_change_mode_code MLN_CAMERA_CHANGE_MODE_IMMEDIATE = 0"
  | "mln_camera_change_mode_code MLN_CAMERA_CHANGE_MODE_ANIMATED = 1"

definition mln_camera_change_mode_values :: "mln_camera_change_mode list" where
  "mln_camera_change_mode_values =
  [MLN_CAMERA_CHANGE_MODE_IMMEDIATE,
   MLN_CAMERA_CHANGE_MODE_ANIMATED]"

interpretation camera_change_mode_enum: c_enum mln_camera_change_mode_code mln_camera_change_mode_values
  by (unfold_locales, simp add: mln_camera_change_mode_values_def, rename_tac e, case_tac e; simp add: mln_camera_change_mode_values_def)

datatype (plugins only: code size) mln_camera_change_source =
    MLN_CAMERA_CHANGE_SOURCE_COMMAND
  | MLN_CAMERA_CHANGE_SOURCE_GESTURE
  | MLN_CAMERA_CHANGE_SOURCE_MOMENTUM

primrec mln_camera_change_source_code :: "mln_camera_change_source \<Rightarrow> u32" where
    "mln_camera_change_source_code MLN_CAMERA_CHANGE_SOURCE_COMMAND = 0"
  | "mln_camera_change_source_code MLN_CAMERA_CHANGE_SOURCE_GESTURE = 1"
  | "mln_camera_change_source_code MLN_CAMERA_CHANGE_SOURCE_MOMENTUM = 2"

definition mln_camera_change_source_values :: "mln_camera_change_source list" where
  "mln_camera_change_source_values =
  [MLN_CAMERA_CHANGE_SOURCE_COMMAND,
   MLN_CAMERA_CHANGE_SOURCE_GESTURE,
   MLN_CAMERA_CHANGE_SOURCE_MOMENTUM]"

interpretation camera_change_source_enum: c_enum mln_camera_change_source_code mln_camera_change_source_values
  by (unfold_locales, simp add: mln_camera_change_source_values_def, rename_tac e, case_tac e; simp add: mln_camera_change_source_values_def)

datatype (plugins only: code size) mln_map_load_error =
    MLN_MAP_LOAD_ERROR_UNKNOWN
  | MLN_MAP_LOAD_ERROR_STYLE_PARSE
  | MLN_MAP_LOAD_ERROR_STYLE_LOAD

primrec mln_map_load_error_code :: "mln_map_load_error \<Rightarrow> u32" where
    "mln_map_load_error_code MLN_MAP_LOAD_ERROR_UNKNOWN = 0"
  | "mln_map_load_error_code MLN_MAP_LOAD_ERROR_STYLE_PARSE = 1"
  | "mln_map_load_error_code MLN_MAP_LOAD_ERROR_STYLE_LOAD = 2"

definition mln_map_load_error_values :: "mln_map_load_error list" where
  "mln_map_load_error_values =
  [MLN_MAP_LOAD_ERROR_UNKNOWN,
   MLN_MAP_LOAD_ERROR_STYLE_PARSE,
   MLN_MAP_LOAD_ERROR_STYLE_LOAD]"

interpretation map_load_error_enum: c_enum mln_map_load_error_code mln_map_load_error_values
  by (unfold_locales, simp add: mln_map_load_error_values_def, rename_tac e, case_tac e; simp add: mln_map_load_error_values_def)

datatype (plugins only: code size) mln_render_mode =
    MLN_RENDER_MODE_PARTIAL
  | MLN_RENDER_MODE_FULL

primrec mln_render_mode_code :: "mln_render_mode \<Rightarrow> u32" where
    "mln_render_mode_code MLN_RENDER_MODE_PARTIAL = 0"
  | "mln_render_mode_code MLN_RENDER_MODE_FULL = 1"

definition mln_render_mode_values :: "mln_render_mode list" where
  "mln_render_mode_values =
  [MLN_RENDER_MODE_PARTIAL,
   MLN_RENDER_MODE_FULL]"

interpretation render_mode_enum: c_enum mln_render_mode_code mln_render_mode_values
  by (unfold_locales, simp add: mln_render_mode_values_def, rename_tac e, case_tac e; simp add: mln_render_mode_values_def)

datatype (plugins only: code size) mln_tile_operation =
    MLN_TILE_OPERATION_REQUESTED_FROM_CACHE
  | MLN_TILE_OPERATION_REQUESTED_FROM_NETWORK
  | MLN_TILE_OPERATION_LOAD_FROM_NETWORK
  | MLN_TILE_OPERATION_LOAD_FROM_CACHE
  | MLN_TILE_OPERATION_START_PARSE
  | MLN_TILE_OPERATION_END_PARSE
  | MLN_TILE_OPERATION_ERROR
  | MLN_TILE_OPERATION_CANCELLED
  | MLN_TILE_OPERATION_NULL

primrec mln_tile_operation_code :: "mln_tile_operation \<Rightarrow> u32" where
    "mln_tile_operation_code MLN_TILE_OPERATION_REQUESTED_FROM_CACHE = 0"
  | "mln_tile_operation_code MLN_TILE_OPERATION_REQUESTED_FROM_NETWORK = 1"
  | "mln_tile_operation_code MLN_TILE_OPERATION_LOAD_FROM_NETWORK = 2"
  | "mln_tile_operation_code MLN_TILE_OPERATION_LOAD_FROM_CACHE = 3"
  | "mln_tile_operation_code MLN_TILE_OPERATION_START_PARSE = 4"
  | "mln_tile_operation_code MLN_TILE_OPERATION_END_PARSE = 5"
  | "mln_tile_operation_code MLN_TILE_OPERATION_ERROR = 6"
  | "mln_tile_operation_code MLN_TILE_OPERATION_CANCELLED = 7"
  | "mln_tile_operation_code MLN_TILE_OPERATION_NULL = 8"

definition mln_tile_operation_values :: "mln_tile_operation list" where
  "mln_tile_operation_values =
  [MLN_TILE_OPERATION_REQUESTED_FROM_CACHE,
   MLN_TILE_OPERATION_REQUESTED_FROM_NETWORK,
   MLN_TILE_OPERATION_LOAD_FROM_NETWORK,
   MLN_TILE_OPERATION_LOAD_FROM_CACHE,
   MLN_TILE_OPERATION_START_PARSE,
   MLN_TILE_OPERATION_END_PARSE,
   MLN_TILE_OPERATION_ERROR,
   MLN_TILE_OPERATION_CANCELLED,
   MLN_TILE_OPERATION_NULL]"

interpretation tile_operation_enum: c_enum mln_tile_operation_code mln_tile_operation_values
  by (unfold_locales, simp add: mln_tile_operation_values_def, rename_tac e, case_tac e; simp add: mln_tile_operation_values_def)

datatype (plugins only: code size) mln_resource_kind =
    MLN_RESOURCE_KIND_UNKNOWN
  | MLN_RESOURCE_KIND_STYLE
  | MLN_RESOURCE_KIND_SOURCE
  | MLN_RESOURCE_KIND_TILE
  | MLN_RESOURCE_KIND_GLYPHS
  | MLN_RESOURCE_KIND_SPRITE_IMAGE
  | MLN_RESOURCE_KIND_SPRITE_JSON
  | MLN_RESOURCE_KIND_IMAGE

primrec mln_resource_kind_code :: "mln_resource_kind \<Rightarrow> u32" where
    "mln_resource_kind_code MLN_RESOURCE_KIND_UNKNOWN = 0"
  | "mln_resource_kind_code MLN_RESOURCE_KIND_STYLE = 1"
  | "mln_resource_kind_code MLN_RESOURCE_KIND_SOURCE = 2"
  | "mln_resource_kind_code MLN_RESOURCE_KIND_TILE = 3"
  | "mln_resource_kind_code MLN_RESOURCE_KIND_GLYPHS = 4"
  | "mln_resource_kind_code MLN_RESOURCE_KIND_SPRITE_IMAGE = 5"
  | "mln_resource_kind_code MLN_RESOURCE_KIND_SPRITE_JSON = 6"
  | "mln_resource_kind_code MLN_RESOURCE_KIND_IMAGE = 7"

definition mln_resource_kind_values :: "mln_resource_kind list" where
  "mln_resource_kind_values =
  [MLN_RESOURCE_KIND_UNKNOWN,
   MLN_RESOURCE_KIND_STYLE,
   MLN_RESOURCE_KIND_SOURCE,
   MLN_RESOURCE_KIND_TILE,
   MLN_RESOURCE_KIND_GLYPHS,
   MLN_RESOURCE_KIND_SPRITE_IMAGE,
   MLN_RESOURCE_KIND_SPRITE_JSON,
   MLN_RESOURCE_KIND_IMAGE]"

interpretation resource_kind_enum: c_enum mln_resource_kind_code mln_resource_kind_values
  by (unfold_locales, simp add: mln_resource_kind_values_def, rename_tac e, case_tac e; simp add: mln_resource_kind_values_def)

datatype (plugins only: code size) mln_resource_loading_method =
    MLN_RESOURCE_LOADING_METHOD_ALL
  | MLN_RESOURCE_LOADING_METHOD_CACHE_ONLY
  | MLN_RESOURCE_LOADING_METHOD_NETWORK_ONLY

primrec mln_resource_loading_method_code :: "mln_resource_loading_method \<Rightarrow> u32" where
    "mln_resource_loading_method_code MLN_RESOURCE_LOADING_METHOD_ALL = 0"
  | "mln_resource_loading_method_code MLN_RESOURCE_LOADING_METHOD_CACHE_ONLY = 1"
  | "mln_resource_loading_method_code MLN_RESOURCE_LOADING_METHOD_NETWORK_ONLY = 2"

definition mln_resource_loading_method_values :: "mln_resource_loading_method list" where
  "mln_resource_loading_method_values =
  [MLN_RESOURCE_LOADING_METHOD_ALL,
   MLN_RESOURCE_LOADING_METHOD_CACHE_ONLY,
   MLN_RESOURCE_LOADING_METHOD_NETWORK_ONLY]"

interpretation resource_loading_method_enum: c_enum mln_resource_loading_method_code mln_resource_loading_method_values
  by (unfold_locales, simp add: mln_resource_loading_method_values_def, rename_tac e, case_tac e; simp add: mln_resource_loading_method_values_def)

datatype (plugins only: code size) mln_resource_priority =
    MLN_RESOURCE_PRIORITY_REGULAR
  | MLN_RESOURCE_PRIORITY_LOW

primrec mln_resource_priority_code :: "mln_resource_priority \<Rightarrow> u32" where
    "mln_resource_priority_code MLN_RESOURCE_PRIORITY_REGULAR = 0"
  | "mln_resource_priority_code MLN_RESOURCE_PRIORITY_LOW = 1"

definition mln_resource_priority_values :: "mln_resource_priority list" where
  "mln_resource_priority_values =
  [MLN_RESOURCE_PRIORITY_REGULAR,
   MLN_RESOURCE_PRIORITY_LOW]"

interpretation resource_priority_enum: c_enum mln_resource_priority_code mln_resource_priority_values
  by (unfold_locales, simp add: mln_resource_priority_values_def, rename_tac e, case_tac e; simp add: mln_resource_priority_values_def)

datatype (plugins only: code size) mln_resource_usage =
    MLN_RESOURCE_USAGE_ONLINE
  | MLN_RESOURCE_USAGE_OFFLINE

primrec mln_resource_usage_code :: "mln_resource_usage \<Rightarrow> u32" where
    "mln_resource_usage_code MLN_RESOURCE_USAGE_ONLINE = 0"
  | "mln_resource_usage_code MLN_RESOURCE_USAGE_OFFLINE = 1"

definition mln_resource_usage_values :: "mln_resource_usage list" where
  "mln_resource_usage_values =
  [MLN_RESOURCE_USAGE_ONLINE,
   MLN_RESOURCE_USAGE_OFFLINE]"

interpretation resource_usage_enum: c_enum mln_resource_usage_code mln_resource_usage_values
  by (unfold_locales, simp add: mln_resource_usage_values_def, rename_tac e, case_tac e; simp add: mln_resource_usage_values_def)

datatype (plugins only: code size) mln_resource_storage_policy =
    MLN_RESOURCE_STORAGE_POLICY_PERMANENT
  | MLN_RESOURCE_STORAGE_POLICY_VOLATILE

primrec mln_resource_storage_policy_code :: "mln_resource_storage_policy \<Rightarrow> u32" where
    "mln_resource_storage_policy_code MLN_RESOURCE_STORAGE_POLICY_PERMANENT = 0"
  | "mln_resource_storage_policy_code MLN_RESOURCE_STORAGE_POLICY_VOLATILE = 1"

definition mln_resource_storage_policy_values :: "mln_resource_storage_policy list" where
  "mln_resource_storage_policy_values =
  [MLN_RESOURCE_STORAGE_POLICY_PERMANENT,
   MLN_RESOURCE_STORAGE_POLICY_VOLATILE]"

interpretation resource_storage_policy_enum: c_enum mln_resource_storage_policy_code mln_resource_storage_policy_values
  by (unfold_locales, simp add: mln_resource_storage_policy_values_def, rename_tac e, case_tac e; simp add: mln_resource_storage_policy_values_def)

datatype (plugins only: code size) mln_resource_response_status =
    MLN_RESOURCE_RESPONSE_STATUS_OK
  | MLN_RESOURCE_RESPONSE_STATUS_ERROR
  | MLN_RESOURCE_RESPONSE_STATUS_NO_CONTENT
  | MLN_RESOURCE_RESPONSE_STATUS_NOT_MODIFIED

primrec mln_resource_response_status_code :: "mln_resource_response_status \<Rightarrow> u32" where
    "mln_resource_response_status_code MLN_RESOURCE_RESPONSE_STATUS_OK = 0"
  | "mln_resource_response_status_code MLN_RESOURCE_RESPONSE_STATUS_ERROR = 1"
  | "mln_resource_response_status_code MLN_RESOURCE_RESPONSE_STATUS_NO_CONTENT = 2"
  | "mln_resource_response_status_code MLN_RESOURCE_RESPONSE_STATUS_NOT_MODIFIED = 3"

definition mln_resource_response_status_values :: "mln_resource_response_status list" where
  "mln_resource_response_status_values =
  [MLN_RESOURCE_RESPONSE_STATUS_OK,
   MLN_RESOURCE_RESPONSE_STATUS_ERROR,
   MLN_RESOURCE_RESPONSE_STATUS_NO_CONTENT,
   MLN_RESOURCE_RESPONSE_STATUS_NOT_MODIFIED]"

interpretation resource_response_status_enum: c_enum mln_resource_response_status_code mln_resource_response_status_values
  by (unfold_locales, simp add: mln_resource_response_status_values_def, rename_tac e, case_tac e; simp add: mln_resource_response_status_values_def)

datatype (plugins only: code size) mln_resource_error_reason =
    MLN_RESOURCE_ERROR_REASON_OTHER
  | MLN_RESOURCE_ERROR_REASON_NOT_FOUND
  | MLN_RESOURCE_ERROR_REASON_SERVER
  | MLN_RESOURCE_ERROR_REASON_CONNECTION
  | MLN_RESOURCE_ERROR_REASON_RATE_LIMIT

primrec mln_resource_error_reason_code :: "mln_resource_error_reason \<Rightarrow> u32" where
    "mln_resource_error_reason_code MLN_RESOURCE_ERROR_REASON_OTHER = 0"
  | "mln_resource_error_reason_code MLN_RESOURCE_ERROR_REASON_NOT_FOUND = 1"
  | "mln_resource_error_reason_code MLN_RESOURCE_ERROR_REASON_SERVER = 2"
  | "mln_resource_error_reason_code MLN_RESOURCE_ERROR_REASON_CONNECTION = 3"
  | "mln_resource_error_reason_code MLN_RESOURCE_ERROR_REASON_RATE_LIMIT = 4"

definition mln_resource_error_reason_values :: "mln_resource_error_reason list" where
  "mln_resource_error_reason_values =
  [MLN_RESOURCE_ERROR_REASON_OTHER,
   MLN_RESOURCE_ERROR_REASON_NOT_FOUND,
   MLN_RESOURCE_ERROR_REASON_SERVER,
   MLN_RESOURCE_ERROR_REASON_CONNECTION,
   MLN_RESOURCE_ERROR_REASON_RATE_LIMIT]"

interpretation resource_error_reason_enum: c_enum mln_resource_error_reason_code mln_resource_error_reason_values
  by (unfold_locales, simp add: mln_resource_error_reason_values_def, rename_tac e, case_tac e; simp add: mln_resource_error_reason_values_def)

record mln_runtime_options =
  runtime_options_size :: u32
  runtime_options_asset_path :: mln_buffer_view
  runtime_options_cache_path :: mln_buffer_view

record mln_rendering_stats =
  rendering_stats_encoding_time_ms :: double
  rendering_stats_rendering_time_ms :: double
  rendering_stats_frame_count :: i64
  rendering_stats_draw_call_count :: i64
  rendering_stats_total_draw_call_count :: i64

record mln_runtime_event_render_frame =
  runtime_event_render_frame_mode :: u32
  runtime_event_render_frame_needs_repaint :: bool
  runtime_event_render_frame_placement_changed :: bool
  runtime_event_render_frame_stats :: mln_rendering_stats

record mln_runtime_event_camera_change =
  runtime_event_camera_change_mode :: u32
  runtime_event_camera_change_source :: u32

record mln_runtime_event_loading_failed =
  runtime_event_loading_failed_error :: u32

record mln_runtime_event_style_image =
  runtime_event_style_image_image_id :: mln_buffer_view

record mln_runtime_event_source_changed =
  runtime_event_source_changed_source_id :: mln_buffer_view

record mln_tile_id =
  tile_id_overscaled_z :: u32
  tile_id_wrap :: i32
  tile_id_canonical_z :: u32
  tile_id_canonical_x :: u32
  tile_id_canonical_y :: u32

record mln_runtime_event_tile_action =
  runtime_event_tile_action_source_id :: mln_buffer_view
  runtime_event_tile_action_operation :: u32
  runtime_event_tile_action_tile_id :: mln_tile_id

record mln_runtime_event_glyphs =
  runtime_event_glyphs_font_stack :: "mln_buffer_view list option"
  runtime_event_glyphs_font_count :: usize
  runtime_event_glyphs_first :: u32
  runtime_event_glyphs_last :: u32
  runtime_event_glyphs_font_face :: bool

record mln_runtime_event_sprite =
  runtime_event_sprite_id :: mln_buffer_view
  runtime_event_sprite_url :: mln_buffer_view

record mln_runtime_event_offline_region_status =
  runtime_event_offline_region_status_region_id :: mln_offline_region_id
  runtime_event_offline_region_status_status :: mln_offline_region_status

record mln_runtime_event_offline_region_response_error =
  runtime_event_offline_region_response_error_region_id :: mln_offline_region_id
  runtime_event_offline_region_response_error_reason :: u32

record mln_runtime_event_offline_region_tile_count_limit =
  runtime_event_offline_region_tile_count_limit_region_id :: mln_offline_region_id
  runtime_event_offline_region_tile_count_limit_limit :: u64

datatype mln_runtime_event_payload =
    RuntimeEventPayload_camera_change mln_runtime_event_camera_change
  | RuntimeEventPayload_loading_failed mln_runtime_event_loading_failed
  | RuntimeEventPayload_render_frame mln_runtime_event_render_frame
  | RuntimeEventPayload_style_image mln_runtime_event_style_image
  | RuntimeEventPayload_tile_action mln_runtime_event_tile_action
  | RuntimeEventPayload_source_changed mln_runtime_event_source_changed
  | RuntimeEventPayload_offline_region_status mln_runtime_event_offline_region_status
  | RuntimeEventPayload_offline_region_response_error mln_runtime_event_offline_region_response_error
  | RuntimeEventPayload_offline_region_tile_count_limit mln_runtime_event_offline_region_tile_count_limit
  | RuntimeEventPayload_glyphs mln_runtime_event_glyphs
  | RuntimeEventPayload_sprite mln_runtime_event_sprite

record mln_runtime_event =
  runtime_event_type :: u32
  runtime_event_source_type :: u32
  runtime_event_source :: u64
  runtime_event_generation :: u64
  runtime_event_payload_type :: u32
  runtime_event_message :: mln_buffer_view
  runtime_event_payload :: mln_runtime_event_payload

record mln_event_batch_view =
  event_batch_view_size :: u32
  event_batch_view_event_size :: u32
  event_batch_view_events :: "mln_runtime_event list option"
  event_batch_view_event_count :: usize

record mln_runtime_event_handler =
  runtime_event_handler_size :: u32
  runtime_event_handler_callback :: ptr
  runtime_event_handler_user_data :: ptr
  runtime_event_handler_release_user_data :: ptr
  runtime_event_handler_queue :: mln_delivery_queue

datatype (plugins only: code size) mln_resource_kind_flag =
    MLN_RESOURCE_KIND_FLAG_UNKNOWN
  | MLN_RESOURCE_KIND_FLAG_STYLE
  | MLN_RESOURCE_KIND_FLAG_SOURCE
  | MLN_RESOURCE_KIND_FLAG_TILE
  | MLN_RESOURCE_KIND_FLAG_GLYPHS
  | MLN_RESOURCE_KIND_FLAG_SPRITE_IMAGE
  | MLN_RESOURCE_KIND_FLAG_SPRITE_JSON
  | MLN_RESOURCE_KIND_FLAG_IMAGE
  | MLN_RESOURCE_KIND_FLAG_ALL

primrec mln_resource_kind_flag_code :: "mln_resource_kind_flag \<Rightarrow> u32" where
    "mln_resource_kind_flag_code MLN_RESOURCE_KIND_FLAG_UNKNOWN = push_bit 0 1"
  | "mln_resource_kind_flag_code MLN_RESOURCE_KIND_FLAG_STYLE = push_bit 1 1"
  | "mln_resource_kind_flag_code MLN_RESOURCE_KIND_FLAG_SOURCE = push_bit 2 1"
  | "mln_resource_kind_flag_code MLN_RESOURCE_KIND_FLAG_TILE = push_bit 3 1"
  | "mln_resource_kind_flag_code MLN_RESOURCE_KIND_FLAG_GLYPHS = push_bit 4 1"
  | "mln_resource_kind_flag_code MLN_RESOURCE_KIND_FLAG_SPRITE_IMAGE = push_bit 5 1"
  | "mln_resource_kind_flag_code MLN_RESOURCE_KIND_FLAG_SPRITE_JSON = push_bit 6 1"
  | "mln_resource_kind_flag_code MLN_RESOURCE_KIND_FLAG_IMAGE = push_bit 7 1"
  | "mln_resource_kind_flag_code MLN_RESOURCE_KIND_FLAG_ALL = 0xff"

definition mln_resource_kind_flag_values :: "mln_resource_kind_flag list" where
  "mln_resource_kind_flag_values =
  [MLN_RESOURCE_KIND_FLAG_UNKNOWN,
   MLN_RESOURCE_KIND_FLAG_STYLE,
   MLN_RESOURCE_KIND_FLAG_SOURCE,
   MLN_RESOURCE_KIND_FLAG_TILE,
   MLN_RESOURCE_KIND_FLAG_GLYPHS,
   MLN_RESOURCE_KIND_FLAG_SPRITE_IMAGE,
   MLN_RESOURCE_KIND_FLAG_SPRITE_JSON,
   MLN_RESOURCE_KIND_FLAG_IMAGE,
   MLN_RESOURCE_KIND_FLAG_ALL]"

interpretation resource_kind_flag_enum: c_enum mln_resource_kind_flag_code mln_resource_kind_flag_values
  by (unfold_locales, simp add: mln_resource_kind_flag_values_def, rename_tac e, case_tac e; simp add: mln_resource_kind_flag_values_def)

type_synonym mln_resource_kind_flags = u32

datatype (plugins only: code size) mln_url_match_flag =
    MLN_URL_MATCH_GLOB

primrec mln_url_match_flag_code :: "mln_url_match_flag \<Rightarrow> u32" where
    "mln_url_match_flag_code MLN_URL_MATCH_GLOB = push_bit 0 1"

definition mln_url_match_flag_values :: "mln_url_match_flag list" where
  "mln_url_match_flag_values =
  [MLN_URL_MATCH_GLOB]"

interpretation url_match_flag_enum: c_enum mln_url_match_flag_code mln_url_match_flag_values
  by (unfold_locales, simp add: mln_url_match_flag_values_def, rename_tac e, case_tac e; simp add: mln_url_match_flag_values_def)

type_synonym mln_url_match_flags = u32

record mln_resource_route =
  resource_route_size :: u32
  resource_route_kinds :: mln_resource_kind_flags
  resource_route_flags :: mln_url_match_flags
  resource_route_url :: mln_buffer_view

record mln_http_header =
  http_header_name :: mln_buffer_view
  http_header_value :: mln_buffer_view

record mln_http_header_rule =
  http_header_rule_size :: u32
  http_header_rule_kinds :: mln_resource_kind_flags
  http_header_rule_flags :: mln_url_match_flags
  http_header_rule_url :: mln_buffer_view
  http_header_rule_headers :: "mln_http_header list option"
  http_header_rule_header_count :: usize

datatype (plugins only: code size) mln_resource_transform_error_field =
    MLN_RESOURCE_TRANSFORM_ERROR_RETRY_AFTER

primrec mln_resource_transform_error_field_code :: "mln_resource_transform_error_field \<Rightarrow> u32" where
    "mln_resource_transform_error_field_code MLN_RESOURCE_TRANSFORM_ERROR_RETRY_AFTER = push_bit 0 1"

definition mln_resource_transform_error_field_values :: "mln_resource_transform_error_field list" where
  "mln_resource_transform_error_field_values =
  [MLN_RESOURCE_TRANSFORM_ERROR_RETRY_AFTER]"

interpretation resource_transform_error_field_enum: c_enum mln_resource_transform_error_field_code mln_resource_transform_error_field_values
  by (unfold_locales, simp add: mln_resource_transform_error_field_values_def, rename_tac e, case_tac e; simp add: mln_resource_transform_error_field_values_def)

type_synonym mln_resource_transform_error_fields = u32

record mln_resource_transform_error =
  resource_transform_error_size :: u32
  resource_transform_error_fields :: mln_resource_transform_error_fields
  resource_transform_error_reason :: u32
  resource_transform_error_message :: mln_buffer_view
  resource_transform_error_retry_after_unix_ms :: i64

record mln_url_query_parameter =
  url_query_parameter_name :: mln_buffer_view
  url_query_parameter_value :: mln_buffer_view

record mln_resource_transform_rule =
  resource_transform_rule_size :: u32
  resource_transform_rule_kinds :: mln_resource_kind_flags
  resource_transform_rule_flags :: mln_url_match_flags
  resource_transform_rule_url :: mln_buffer_view
  resource_transform_rule_parameters :: "mln_url_query_parameter list option"
  resource_transform_rule_parameter_count :: usize

record mln_resource_transform =
  resource_transform_size :: u32
  resource_transform_callback :: ptr
  resource_transform_user_data :: ptr
  resource_transform_release_user_data :: ptr
  resource_transform_queue :: mln_delivery_queue
  resource_transform_rules :: "mln_resource_transform_rule list option"
  resource_transform_rule_count :: usize

record mln_http_header_transform_response =
  http_header_transform_response_size :: u32
  http_header_transform_response_context :: ptr

record mln_http_header_transform =
  http_header_transform_size :: u32
  http_header_transform_callback :: ptr
  http_header_transform_user_data :: ptr
  http_header_transform_release_user_data :: ptr
  http_header_transform_rules :: "mln_http_header_rule list option"
  http_header_transform_rule_count :: usize

record mln_resource_range =
  resource_range_start :: u64
  resource_range_end :: u64

datatype (plugins only: code size) mln_resource_request_field =
    MLN_RESOURCE_REQUEST_RANGE
  | MLN_RESOURCE_REQUEST_PRIOR_MODIFIED
  | MLN_RESOURCE_REQUEST_PRIOR_EXPIRES

primrec mln_resource_request_field_code :: "mln_resource_request_field \<Rightarrow> u32" where
    "mln_resource_request_field_code MLN_RESOURCE_REQUEST_RANGE = push_bit 0 1"
  | "mln_resource_request_field_code MLN_RESOURCE_REQUEST_PRIOR_MODIFIED = push_bit 1 1"
  | "mln_resource_request_field_code MLN_RESOURCE_REQUEST_PRIOR_EXPIRES = push_bit 2 1"

definition mln_resource_request_field_values :: "mln_resource_request_field list" where
  "mln_resource_request_field_values =
  [MLN_RESOURCE_REQUEST_RANGE,
   MLN_RESOURCE_REQUEST_PRIOR_MODIFIED,
   MLN_RESOURCE_REQUEST_PRIOR_EXPIRES]"

interpretation resource_request_field_enum: c_enum mln_resource_request_field_code mln_resource_request_field_values
  by (unfold_locales, simp add: mln_resource_request_field_values_def, rename_tac e, case_tac e; simp add: mln_resource_request_field_values_def)

type_synonym mln_resource_request_fields = u32

record mln_resource_request_info =
  resource_request_info_size :: u32
  resource_request_info_fields :: mln_resource_request_fields
  resource_request_info_requested_url :: mln_buffer_view
  resource_request_info_resolved_url :: mln_buffer_view
  resource_request_info_kind :: u32
  resource_request_info_loading_method :: u32
  resource_request_info_priority :: u32
  resource_request_info_usage :: u32
  resource_request_info_storage_policy :: u32
  resource_request_info_range :: mln_resource_range
  resource_request_info_prior_modified_unix_ms :: i64
  resource_request_info_prior_expires_unix_ms :: i64
  resource_request_info_prior_etag :: mln_buffer_view
  resource_request_info_prior_data :: "u8 list option"
  resource_request_info_prior_data_size :: usize

datatype (plugins only: code size) mln_resource_response_field =
    MLN_RESOURCE_RESPONSE_MODIFIED
  | MLN_RESOURCE_RESPONSE_EXPIRES
  | MLN_RESOURCE_RESPONSE_RETRY_AFTER

primrec mln_resource_response_field_code :: "mln_resource_response_field \<Rightarrow> u32" where
    "mln_resource_response_field_code MLN_RESOURCE_RESPONSE_MODIFIED = push_bit 0 1"
  | "mln_resource_response_field_code MLN_RESOURCE_RESPONSE_EXPIRES = push_bit 1 1"
  | "mln_resource_response_field_code MLN_RESOURCE_RESPONSE_RETRY_AFTER = push_bit 2 1"

definition mln_resource_response_field_values :: "mln_resource_response_field list" where
  "mln_resource_response_field_values =
  [MLN_RESOURCE_RESPONSE_MODIFIED,
   MLN_RESOURCE_RESPONSE_EXPIRES,
   MLN_RESOURCE_RESPONSE_RETRY_AFTER]"

interpretation resource_response_field_enum: c_enum mln_resource_response_field_code mln_resource_response_field_values
  by (unfold_locales, simp add: mln_resource_response_field_values_def, rename_tac e, case_tac e; simp add: mln_resource_response_field_values_def)

type_synonym mln_resource_response_fields = u32

record mln_resource_response =
  resource_response_size :: u32
  resource_response_fields :: mln_resource_response_fields
  resource_response_status :: u32
  resource_response_error_reason :: u32
  resource_response_bytes :: "u8 list option"
  resource_response_byte_count :: usize
  resource_response_error_message :: mln_buffer_view
  resource_response_must_revalidate :: bool
  resource_response_modified_unix_ms :: i64
  resource_response_expires_unix_ms :: i64
  resource_response_etag :: mln_buffer_view
  resource_response_retry_after_unix_ms :: i64

record mln_resource_request_cancel_handler =
  resource_request_cancel_handler_size :: u32
  resource_request_cancel_handler_callback :: ptr
  resource_request_cancel_handler_user_data :: ptr
  resource_request_cancel_handler_release_user_data :: ptr
  resource_request_cancel_handler_queue :: mln_delivery_queue

record mln_resource_provider =
  resource_provider_size :: u32
  resource_provider_callback :: ptr
  resource_provider_user_data :: ptr
  resource_provider_release_user_data :: ptr
  resource_provider_queue :: mln_delivery_queue
  resource_provider_routes :: "mln_resource_route list option"
  resource_provider_route_count :: usize

end
