(* ===== verification/Utf8.thy ===== *)
theory Utf8
  imports Prelude
begin

text \<open>
  UTF-8 as the library checks it (\<open>is_valid_utf8\<close> in \<open>src/runtime/runtime.cpp\<close>), against the
  Unicode definition: a valid text is a concatenation of encodings of Unicode scalar values.
  The model walks the remaining bytes where the code advances an index.
\<close>

type_synonym bytes = "u8 list"

section \<open>The check\<close>

definition continuation :: "bytes \<Rightarrow> nat \<Rightarrow> bool" where
  "continuation bs k \<longleftrightarrow> k < length bs \<and> bs ! k \<ge> 0x80 \<and> bs ! k \<le> 0xBF"

text \<open>\<open>bs\<close> holds the bytes after \<open>first\<close>, so the code's offset \<open>k\<close> is index \<open>k - 1\<close> here.\<close>

function is_valid_utf8 :: "bytes \<Rightarrow> bool" where
  "is_valid_utf8 [] = True"
| "is_valid_utf8 (first # bs) =
     (if first \<le> 0x7F then is_valid_utf8 bs
      else if first \<ge> 0xC2 \<and> first \<le> 0xDF \<and> continuation bs 0
        then is_valid_utf8 (drop 1 bs)
      else if first = 0xE0 \<and> 1 < length bs \<and> bs ! 0 \<ge> 0xA0 \<and> bs ! 0 \<le> 0xBF
          \<and> continuation bs 1
        then is_valid_utf8 (drop 2 bs)
      else if ((first \<ge> 0xE1 \<and> first \<le> 0xEC) \<or> (first \<ge> 0xEE \<and> first \<le> 0xEF))
          \<and> continuation bs 0 \<and> continuation bs 1
        then is_valid_utf8 (drop 2 bs)
      else if first = 0xED \<and> 1 < length bs \<and> bs ! 0 \<ge> 0x80 \<and> bs ! 0 \<le> 0x9F
          \<and> continuation bs 1
        then is_valid_utf8 (drop 2 bs)
      else if first = 0xF0 \<and> 2 < length bs \<and> bs ! 0 \<ge> 0x90 \<and> bs ! 0 \<le> 0xBF
          \<and> continuation bs 1 \<and> continuation bs 2
        then is_valid_utf8 (drop 3 bs)
      else if first \<ge> 0xF1 \<and> first \<le> 0xF3 \<and> continuation bs 0 \<and> continuation bs 1
          \<and> continuation bs 2
        then is_valid_utf8 (drop 3 bs)
      else if first = 0xF4 \<and> 2 < length bs \<and> bs ! 0 \<ge> 0x80 \<and> bs ! 0 \<le> 0x8F
          \<and> continuation bs 1 \<and> continuation bs 2
        then is_valid_utf8 (drop 3 bs)
      else False)"
  by pat_completeness auto
termination
  by (relation "measure length") auto

declare is_valid_utf8.simps(2) [simp del]

section \<open>The Unicode definition\<close>

definition scalar_value :: "nat \<Rightarrow> bool" where
  "scalar_value c \<longleftrightarrow> c \<le> 0x10FFFF \<and> \<not> (0xD800 \<le> c \<and> c \<le> 0xDFFF)"

definition byte :: "nat \<Rightarrow> u8" where
  "byte n = of_nat n"

definition utf8_encode :: "nat \<Rightarrow> bytes" where
  "utf8_encode c =
     (if c < 0x80 then [byte c]
      else if c < 0x800 then [byte (0xC0 + c div 64), byte (0x80 + c mod 64)]
      else if c < 0x10000
        then [byte (0xE0 + c div 4096), byte (0x80 + c div 64 mod 64), byte (0x80 + c mod 64)]
      else [byte (0xF0 + c div 262144), byte (0x80 + c div 4096 mod 64),
            byte (0x80 + c div 64 mod 64), byte (0x80 + c mod 64)])"

definition utf8_text :: "nat list \<Rightarrow> bytes" where
  "utf8_text cs = concat (map utf8_encode cs)"

lemma utf8_text_simps [simp]:
  "utf8_text [] = []" "utf8_text (c # cs) = utf8_encode c @ utf8_text cs"
  "utf8_text (cs @ ds) = utf8_text cs @ utf8_text ds"
  by (simp_all add: utf8_text_def)

text \<open>Bytes as numbers.\<close>

lemma unat_byte [simp]: "n < 256 \<Longrightarrow> unat (byte n) = n"
  by (simp add: byte_def unat_of_nat take_bit_eq_mod)

lemma byte_unat [simp]: "byte (unat a) = a"
  by (simp add: byte_def)

lemma u8_le_iff: "(a :: u8) \<le> b \<longleftrightarrow> unat a \<le> unat b"
  by (rule word_le_nat_alt)

lemma u8_numerals:
  "(a :: u8) = 0xE0 \<longleftrightarrow> unat a = 0xE0" "a = 0xED \<longleftrightarrow> unat a = 0xED"
  "a = 0xF0 \<longleftrightarrow> unat a = 0xF0" "a = 0xF4 \<longleftrightarrow> unat a = 0xF4"
  by (simp_all add: word_unat_eq_iff)

lemma unat_u8_bound: "unat (a :: u8) \<le> 255"
proof -
  have "unat a < 2 ^ LENGTH(8)" by (rule unsigned_less)
  then show ?thesis by simp
qed

lemmas byte_arith = u8_le_iff u8_numerals

definition trail :: "u8 \<Rightarrow> bool" where
  "trail b \<longleftrightarrow> 128 \<le> unat b \<and> unat b \<le> 191"

definition lead2 :: "u8 \<Rightarrow> bool" where
  "lead2 a \<longleftrightarrow> 194 \<le> unat a \<and> unat a \<le> 223"

definition lead3 :: "u8 \<Rightarrow> u8 \<Rightarrow> bool" where
  "lead3 a b \<longleftrightarrow> 224 \<le> unat a \<and> unat a \<le> 239 \<and> trail b \<and> (unat a = 224 \<longrightarrow> 160 \<le> unat b)
     \<and> (unat a = 237 \<longrightarrow> unat b \<le> 159)"

definition lead4 :: "u8 \<Rightarrow> u8 \<Rightarrow> bool" where
  "lead4 a b \<longleftrightarrow> 240 \<le> unat a \<and> unat a \<le> 244 \<and> trail b \<and> (unat a = 240 \<longrightarrow> 144 \<le> unat b)
     \<and> (unat a = 244 \<longrightarrow> unat b \<le> 143)"

lemmas sequence_defs = trail_def lead2_def lead3_def lead4_def

lemma continuation_simps [simp]:
  "\<not> continuation [] k" "continuation (b # bs) 0 \<longleftrightarrow> trail b"
  "continuation (b # bs) (Suc k) = continuation bs k"
  by (auto simp: continuation_def trail_def byte_arith)

lemma continuation_numeral [simp]:
  "continuation (b # bs) (numeral n) = continuation bs (pred_numeral n)"
  by (subst numeral_eq_Suc) simp

text \<open>The check, one sequence at a time.\<close>

lemma valid_one: "unat a \<le> 127 \<Longrightarrow> is_valid_utf8 (a # bs) = is_valid_utf8 bs"
  by (simp add: is_valid_utf8.simps byte_arith)

lemma valid_two: "lead2 a \<Longrightarrow> trail b \<Longrightarrow> is_valid_utf8 (a # b # bs) = is_valid_utf8 bs"
  by (simp add: is_valid_utf8.simps(2) [of a] byte_arith lead2_def)

lemma valid_three:
  "lead3 a b \<Longrightarrow> trail c \<Longrightarrow> is_valid_utf8 (a # b # c # bs) = is_valid_utf8 bs"
  by (simp add: is_valid_utf8.simps(2) [of a] byte_arith lead3_def) (auto simp: trail_def)

lemma valid_four:
  "lead4 a b \<Longrightarrow> trail c \<Longrightarrow> trail d \<Longrightarrow> is_valid_utf8 (a # b # c # d # bs) = is_valid_utf8 bs"
  by (simp add: is_valid_utf8.simps(2) [of a] byte_arith lead4_def) (auto simp: trail_def)

lemmas valid_sequences = valid_one valid_two valid_three valid_four

lemma valid_cases:
  assumes "is_valid_utf8 (a # bs)"
  obtains (one) "unat a \<le> 127" "is_valid_utf8 bs"
    | (two) b r where "bs = b # r" "lead2 a" "trail b" "is_valid_utf8 r"
    | (three) b c r where "bs = b # c # r" "lead3 a b" "trail c" "is_valid_utf8 r"
    | (four) b c d r where "bs = b # c # d # r" "lead4 a b" "trail c" "trail d" "is_valid_utf8 r"
proof -
  consider "bs = []" | b where "bs = [b]" | b c where "bs = [b, c]" | b c d r where "bs = b # c # d # r"
    by (metis neq_Nil_conv)
  then show thesis
  proof cases
    case 1
    with assms one show thesis
      by (simp add: is_valid_utf8.simps(2) [of a] byte_arith split: if_splits)
  next
    case 2
    with assms one two show thesis
      by (simp add: is_valid_utf8.simps(2) [of a] byte_arith lead2_def split: if_splits)
  next
    case 3
    with assms one two three show thesis
      by (simp add: is_valid_utf8.simps(2) [of a] byte_arith split: if_splits)
        (auto simp: sequence_defs)
  next
    case 4
    with assms one two three four show thesis
      by (simp add: is_valid_utf8.simps(2) [of a] byte_arith split: if_splits)
        (auto simp: sequence_defs)
  qed
qed

lemma utf8_encode_nonempty [simp]: "utf8_encode c \<noteq> []"
  by (simp add: utf8_encode_def)

lemma div_sextets: "(c :: nat) div 4096 = c div 64 div 64" "c div 262144 = c div 64 div 64 div 64"
  by (simp_all add: div_mult2_eq [symmetric])

lemma sextets:
  "4096 * (c div 4096) + 64 * (c div 64 mod 64) + c mod 64 = (c :: nat)"
  "262144 * (c div 262144) + 4096 * (c div 4096 mod 64) + 64 * (c div 64 mod 64) + c mod 64 = (c :: nat)"
proof -
  have c: "64 * (c div 64) + c mod 64 = c" and d: "64 * (c div 64 div 64) + c div 64 mod 64 = c div 64"
    and e: "64 * (c div 64 div 64 div 64) + c div 64 div 64 mod 64 = c div 64 div 64"
    by (simp_all only: mult_div_mod_eq)
  show "4096 * (c div 4096) + 64 * (c div 64 mod 64) + c mod 64 = c"
    unfolding div_sextets using c d by linarith
  show "262144 * (c div 262144) + 4096 * (c div 4096 mod 64) + 64 * (c div 64 mod 64) + c mod 64 = c"
    unfolding div_sextets using c d e by linarith
qed

lemma from_sextet:
  assumes "z < (64 :: nat)"
  shows "(x * 64 + z) div 64 = x" "(x * 64 + z) mod 64 = z"
  using assms by simp_all

lemma from_sextets:
  assumes "y < 64" "z < (64 :: nat)"
  shows "(x * 4096 + y * 64 + z) div 64 = x * 64 + y" "(x * 4096 + y * 64 + z) mod 64 = z"
    "(x * 4096 + y * 64 + z) div 4096 = x" "(x * 4096 + y * 64 + z) div 262144 = x div 64"
proof -
  have eq: "x * 4096 + y * 64 + z = (x * 64 + y) * 64 + z" by simp
  show "(x * 4096 + y * 64 + z) mod 64 = z"
    unfolding eq using assms(2) by (rule from_sextet)
  show *: "(x * 4096 + y * 64 + z) div 64 = x * 64 + y"
    unfolding eq using assms(2) by (rule from_sextet)
  show "(x * 4096 + y * 64 + z) div 4096 = x" "(x * 4096 + y * 64 + z) div 262144 = x div 64"
    unfolding div_sextets * from_sextet [OF assms(1)] by simp_all
qed

lemma byte_eq: "unat a = n \<Longrightarrow> a = byte n"
  by (auto simp: byte_unat)

lemma unat_offset:
  "trail b \<Longrightarrow> \<exists>y < 64. unat b = 128 + y"
  "lead2 a \<Longrightarrow> \<exists>x. 2 \<le> x \<and> x < 32 \<and> unat a = 192 + x"
  "224 \<le> unat a \<Longrightarrow> unat a \<le> 239 \<Longrightarrow> \<exists>x < 16. unat a = 224 + x"
  "240 \<le> unat a \<Longrightarrow> unat a \<le> 244 \<Longrightarrow> \<exists>x \<le> 4. unat a = 240 + x"
  by (presburger | force simp: sequence_defs intro: exI [of _ "unat b - 128"] exI [of _ "unat a - 192"])+

lemma valid_encode_append:
  assumes "scalar_value c"
  shows "is_valid_utf8 (utf8_encode c @ bs) = is_valid_utf8 bs"
proof -
  consider (one) "c < 0x80" | (two) "0x80 \<le> c" "c < 0x800" | (three) "0x800 \<le> c" "c < 0x10000"
    | (four) "0x10000 \<le> c" "c \<le> 0x10FFFF"
    using assms by (force simp: scalar_value_def)
  then show ?thesis
  proof cases
    case one
    then show ?thesis by (simp add: utf8_encode_def valid_one)
  next
    case two
    then have "2 \<le> c div 64" "c div 64 < 32" "c mod 64 < 64" by auto
    with two show ?thesis
      by (simp add: utf8_encode_def valid_two sequence_defs)
  next
    case three
    define x y z where "x = c div 4096" and "y = c div 64 mod 64" and "z = c mod 64"
    have c: "c = 4096 * x + 64 * y + z"
      by (simp add: sextets x_def y_def z_def)
    have b: "y < 64" "z < 64" "x < 16"
      using three by (auto simp: x_def y_def z_def)
    have "x = 0 \<Longrightarrow> 32 \<le> y" using three c b by auto
    moreover have "x = 13 \<Longrightarrow> y < 32" using assms three c b by (auto simp: scalar_value_def)
    ultimately have "lead3 (byte (0xE0 + x)) (byte (0x80 + y))" "trail (byte (0x80 + z))"
      using b by (auto simp: sequence_defs)
    with three show ?thesis
      by (simp add: utf8_encode_def valid_three flip: x_def y_def z_def)
  next
    case four
    define w x y z where "w = c div 262144" and "x = c div 4096 mod 64"
      and "y = c div 64 mod 64" and "z = c mod 64"
    have c: "c = 262144 * w + 4096 * x + 64 * y + z"
      by (simp add: sextets w_def x_def y_def z_def)
    have b: "x < 64" "y < 64" "z < 64" "w \<le> 4"
      using four by (auto simp: w_def x_def y_def z_def)
    have "w = 0 \<Longrightarrow> 16 \<le> x" using four c b by auto
    moreover have "w = 4 \<Longrightarrow> x < 16" using four c b by auto
    ultimately have "lead4 (byte (0xF0 + w)) (byte (0x80 + x))" "trail (byte (0x80 + y))"
      "trail (byte (0x80 + z))"
      using b by (auto simp: sequence_defs)
    with four show ?thesis
      by (simp add: utf8_encode_def valid_four flip: w_def x_def y_def z_def)
  qed
qed

lemma valid_utf8_text: "\<forall>c \<in> set cs. scalar_value c \<Longrightarrow> is_valid_utf8 (utf8_text cs)"
  by (induction cs) (auto simp: valid_encode_append)

lemma valid_utf8_encodes:
  "is_valid_utf8 bs \<Longrightarrow> \<exists>cs. (\<forall>c \<in> set cs. scalar_value c) \<and> bs = utf8_text cs"
proof (induction bs rule: length_induct)
  case (1 bs)
  show ?case
  proof (cases bs)
    case Nil
    then show ?thesis by (intro exI [of _ "[]"]) simp
  next
    case (Cons a bs')
    have step: ?thesis
      if bs: "bs = utf8_encode c @ r" and c: "scalar_value c" and r: "is_valid_utf8 r" for c r
    proof -
      have "length r < length bs" by (simp add: bs)
      with r 1(1) obtain cs where "\<forall>c \<in> set cs. scalar_value c" "r = utf8_text cs"
        by blast
      with bs c show ?thesis by (intro exI [of _ "c # cs"]) simp
    qed
    from 1(2) Cons have "is_valid_utf8 (a # bs')" by simp
    then show ?thesis
    proof (cases rule: valid_cases)
      case one
      then have "bs = utf8_encode (unat a) @ bs'" "scalar_value (unat a)"
        by (simp_all add: utf8_encode_def scalar_value_def Cons)
      then show ?thesis using one(2) by (rule step)
    next
      case (two b r)
      obtain x y where x: "2 \<le> x" "x < 32" "unat a = 192 + x" and y: "y < 64" "unat b = 128 + y"
        using unat_offset(1,2) two by blast
      have "bs = utf8_encode (x * 64 + y) @ r" "scalar_value (x * 64 + y)"
        using x y two(1)
        by (simp_all add: utf8_encode_def scalar_value_def Cons from_sextet
            byte_eq [OF x(3)] byte_eq [OF y(2)])
      then show ?thesis using two(4) by (rule step)
    next
      case (three b c r)
      obtain x y z where x: "x < 16" "unat a = 224 + x" and y: "y < 64" "unat b = 128 + y"
        and z: "z < 64" "unat c = 128 + z"
        using unat_offset(1,3) three unfolding lead3_def by metis
      define v where "v = x * 4096 + y * 64 + z"
      have range: "x = 0 \<Longrightarrow> 32 \<le> y" "x = 13 \<Longrightarrow> y < 32"
        using three x y by (auto simp: lead3_def)
      have "2048 \<le> v"
        using range(1) unfolding v_def by (cases "x = 0") simp_all
      moreover have "v < 65536"
        using x(1) y(1) z(1) unfolding v_def by linarith
      moreover have "\<not> (55296 \<le> v \<and> v \<le> 57343)"
      proof
        assume v: "55296 \<le> v \<and> v \<le> 57343"
        with y(1) z(1) have "x = 13" unfolding v_def by linarith
        with range(2) v z(1) show False unfolding v_def by linarith
      qed
      ultimately have bounds: "2048 \<le> v" "v < 65536" "\<not> (55296 \<le> v \<and> v \<le> 57343)"
        by blast+
      have digits: "v div 4096 = x" "v div 64 mod 64 = y" "v mod 64 = z"
        unfolding v_def from_sextets [OF y(1) z(1)] from_sextet [OF y(1)] by (rule refl)+
      have bytes: "a = byte (224 + x)" "b = byte (128 + y)" "c = byte (128 + z)"
        by (fact byte_eq [OF x(2)] byte_eq [OF y(2)] byte_eq [OF z(2)])+
      have "utf8_encode v = [a, b, c]" "scalar_value v"
        using bounds by (simp_all add: utf8_encode_def scalar_value_def digits bytes)
      then have "bs = utf8_encode v @ r" "scalar_value v"
        using three(1) by (simp_all add: Cons)
      then show ?thesis using three(4) by (rule step)
    next
      case (four b c d r)
      obtain w x y z where w: "w \<le> 4" "unat a = 240 + w" and x: "x < 64" "unat b = 128 + x"
        and y: "y < 64" "unat c = 128 + y" and z: "z < 64" "unat d = 128 + z"
        using unat_offset(1,4) four unfolding lead4_def by metis
      define v where "v = (w * 64 + x) * 4096 + y * 64 + z"
      have range: "w = 0 \<Longrightarrow> 16 \<le> x" "w = 4 \<Longrightarrow> x < 16"
        using four w x by (auto simp: lead4_def)
      have lower: "65536 \<le> v"
        using range(1) unfolding v_def by (cases "w = 0") simp_all
      have upper: "v \<le> 0x10FFFF"
        using w(1) x(1) y(1) z(1) range(2) unfolding v_def by (cases "w = 4") simp_all
      have digits: "v div 64 mod 64 = y" "v div 4096 mod 64 = x" "v div 262144 = w" "v mod 64 = z"
        unfolding v_def from_sextets [OF y(1) z(1)] from_sextet [OF x(1)] from_sextet [OF y(1)]
        by (rule refl)+
      have bytes: "a = byte (240 + w)" "b = byte (128 + x)" "c = byte (128 + y)" "d = byte (128 + z)"
        by (fact byte_eq [OF w(2)] byte_eq [OF x(2)] byte_eq [OF y(2)] byte_eq [OF z(2)])+
      have "utf8_encode v = [a, b, c, d]" "scalar_value v"
        using lower upper by (simp_all add: utf8_encode_def scalar_value_def digits bytes)
      then have "bs = utf8_encode v @ r" "scalar_value v"
        using four(1) by (simp_all add: Cons)
      then show ?thesis using four(5) by (rule step)
    qed
  qed
qed

lemma valid_utf8_iff:
  "is_valid_utf8 bs \<longleftrightarrow> (\<exists>cs. (\<forall>c \<in> set cs. scalar_value c) \<and> bs = utf8_text cs)"
  using valid_utf8_text valid_utf8_encodes by blast

lemma valid_utf8_append: "is_valid_utf8 xs \<Longrightarrow> is_valid_utf8 ys \<Longrightarrow> is_valid_utf8 (xs @ ys)"
  unfolding valid_utf8_iff
  by (metis Un_iff set_append utf8_text_simps(3))

end
