(* ===== verification/Diagnostics.thy ===== *)
theory Diagnostics
  imports Api_Base Utf8 "HOL-Library.Sublist"
begin

text \<open>
  Diagnostics and the boundary every C entry point runs in: the calling thread's error buffer and
  the writes to a caller's \<open>mln_diagnostic\<close> (\<open>src/diagnostics/diagnostics.cpp\<close>), the views of C strings
  (\<open>src/diagnostics/string_view.hpp\<close>), the scopes that forbid reentry
  (\<open>src/execution/forbid_reentry.hpp\<close>) and \<open>native_boundary\<close> and \<open>status_boundary\<close>
  (\<open>src/c_api/boundary.hpp\<close>). A C string is the list of its bytes before the terminator.
\<close>

section \<open>C strings\<close>

definition ascii :: "string \<Rightarrow> bytes" where
  "ascii s = map of_char s"

definition c_string :: "bytes \<Rightarrow> bytes" where
  "c_string memory = takeWhile (\<lambda>b. b \<noteq> 0) memory"

text \<open>A copy of \<open>s\<close> and a terminator over the start of \<open>memory\<close>.\<close>

definition put_c_string :: "bytes \<Rightarrow> bytes \<Rightarrow> bytes" where
  "put_c_string s memory = s @ 0 # drop (Suc (length s)) memory"

lemma c_string_no_nul: "0 \<notin> set (c_string memory)"
  by (auto simp: c_string_def dest: set_takeWhileD)

lemma c_string_id: "0 \<notin> set s \<Longrightarrow> c_string s = s"
  by (simp add: c_string_def takeWhile_eq_all_conv) metis

lemma c_string_put [simp]: "0 \<notin> set s \<Longrightarrow> c_string (put_c_string s memory) = s"
  by (simp add: c_string_def put_c_string_def takeWhile_append1 takeWhile_append2)
    (metis (mono_tags, lifting) append.right_neutral takeWhile.simps(2) takeWhile_append2)

lemma length_put_c_string: "length s < length memory \<Longrightarrow> length (put_c_string s memory) = length memory"
  by (simp add: put_c_string_def)

lemma drop_put_c_string: "length s < n \<Longrightarrow> drop n (put_c_string s memory) = drop n memory"
proof -
  assume "length s < n"
  then obtain m where "n = Suc (length s + m)"
    using less_iff_Suc_add by blast
  then show ?thesis by (simp add: put_c_string_def ac_simps)
qed

section \<open>The thread's state\<close>

text \<open>
  The thread-local variables: the error buffer, the diagnostic of the innermost scope that forbids
  reentry, and the status of the handle fault recorded last.
\<close>

record thread_locals =
  last_error_buffer :: bytes
  active_reentry :: "bytes option"
  recorded_fault_status :: mln_status

definition diagnostic_capacity :: nat where
  "diagnostic_capacity = 4096"

definition fresh_thread :: thread_locals where
  "fresh_thread = \<lparr>last_error_buffer = replicate diagnostic_capacity 0, active_reentry = None,
     recorded_fault_status = MLN_STATUS_INVALID_ARGUMENT\<rparr>"

definition thread_ok :: "thread_locals \<Rightarrow> bool" where
  "thread_ok t \<longleftrightarrow> length (last_error_buffer t) = diagnostic_capacity \<and> 0 \<in> set (last_error_buffer t)"

section \<open>Messages\<close>

definition is_trail :: "u8 \<Rightarrow> bool" where
  "is_trail b \<longleftrightarrow> b AND 0xC0 = 0x80"

fun back_to_start :: "bytes \<Rightarrow> nat \<Rightarrow> nat" where
  "back_to_start full 0 = 0"
| "back_to_start full (Suc n) = (if is_trail (full ! Suc n) then back_to_start full n else Suc n)"

lemma back_to_start_numeral [simp]:
  "back_to_start full (numeral n) =
     (if is_trail (full ! numeral n) then back_to_start full (pred_numeral n) else numeral n)"
  by (metis back_to_start.simps(2) numeral_eq_Suc)

definition truncated :: "bytes \<Rightarrow> nat \<Rightarrow> bytes" where
  "truncated full capacity =
     (if length full < capacity then full else take (back_to_start full (capacity - 1)) full)"

definition thread_last_error_message :: "thread_locals \<Rightarrow> bytes" where
  "thread_last_error_message t = c_string (last_error_buffer t)"

definition clear_thread_error :: "thread_locals \<Rightarrow> thread_locals" where
  "clear_thread_error t = t\<lparr>last_error_buffer := (last_error_buffer t)[0 := 0]\<rparr>"

definition set_thread_error :: "bytes option \<Rightarrow> thread_locals \<Rightarrow> thread_locals" where
  "set_thread_error message t = (case message of
     None \<Rightarrow> t\<lparr>last_error_buffer := (last_error_buffer t)[0 := 0]\<rparr>
   | Some m \<Rightarrow> t\<lparr>last_error_buffer :=
       put_c_string (truncated m (length (last_error_buffer t))) (last_error_buffer t)\<rparr>)"

abbreviation error_text :: "string \<Rightarrow> thread_locals \<Rightarrow> thread_locals" where
  "error_text s \<equiv> set_thread_error (Some (ascii s))"

definition message_offset :: nat where
  "message_offset = 4"

definition message_capacity :: "mln_diagnostic \<Rightarrow> nat" where
  "message_capacity d = min (unat (diagnostic_size d) - message_offset) diagnostic_capacity"

definition write_diagnostic :: "mln_diagnostic option \<Rightarrow> bytes \<Rightarrow> mln_diagnostic option" where
  "write_diagnostic diagnostic message = (case diagnostic of
     None \<Rightarrow> None
   | Some d \<Rightarrow>
       if unat (diagnostic_size d) \<le> message_offset then Some d
       else Some (d\<lparr>diagnostic_message :=
         put_c_string (truncated message (message_capacity d)) (diagnostic_message d)\<rparr>))"

section \<open>Views of strings\<close>

definition string_from_view :: "mln_buffer_view \<Rightarrow> bytes" where
  "string_from_view v =
     (if buffer_view_size v = 0 then [] else take (unat (buffer_view_size v)) (the (buffer_view_data v)))"

definition validate_c_string_view ::
    "mln_buffer_view \<Rightarrow> string \<Rightarrow> thread_locals \<Rightarrow> bool \<times> thread_locals" where
  "validate_c_string_view v name t =
     (if buffer_view_data v = None \<and> buffer_view_size v \<noteq> 0
        then (False, error_text (name @ '' has null data with a nonzero size'') t)
      else if buffer_view_size v \<noteq> 0
          \<and> 0 \<in> set (take (unat (buffer_view_size v)) (the (buffer_view_data v)))
        then (False, error_text (name @ '' contains embedded NUL'') t)
      else (True, t))"

section \<open>Scopes that forbid reentry\<close>

text \<open>The constructor returns what the destructor restores.\<close>

definition forbid_reentry :: "bytes \<Rightarrow> thread_locals \<Rightarrow> bytes option \<times> thread_locals" where
  "forbid_reentry diagnostic t = (active_reentry t, t\<lparr>active_reentry := Some diagnostic\<rparr>)"

definition end_forbid_reentry :: "bytes option \<Rightarrow> thread_locals \<Rightarrow> thread_locals" where
  "end_forbid_reentry previous t = t\<lparr>active_reentry := previous\<rparr>"

definition inside_forbid_reentry ::
    "bytes \<Rightarrow> (thread_locals \<Rightarrow> thread_locals) \<Rightarrow> thread_locals \<Rightarrow> thread_locals" where
  "inside_forbid_reentry diagnostic callback t =
     (let (previous, inner) = forbid_reentry diagnostic t
      in end_forbid_reentry previous (callback inner))"

section \<open>The boundary\<close>

text \<open>What a body does: it returns a status, or throws with or without a message.\<close>

datatype outcome = Returned mln_status | Threw_exception bytes | Threw_unknown

type_synonym 's body = "thread_locals \<Rightarrow> 's \<Rightarrow> outcome \<times> thread_locals \<times> 's"

definition native_boundary ::
    "mln_diagnostic option \<Rightarrow> 's body \<Rightarrow> thread_locals \<Rightarrow> 's
      \<Rightarrow> mln_status \<times> mln_diagnostic option \<times> thread_locals \<times> 's" where
  "native_boundary out body t s =
     (let (r, t1, s1) = body (clear_thread_error t) s;
          (status, t2) = (case r of
              Returned st \<Rightarrow> (st, t1)
            | Threw_exception what \<Rightarrow> (MLN_STATUS_NATIVE_ERROR, set_thread_error (Some what) t1)
            | Threw_unknown \<Rightarrow> (MLN_STATUS_NATIVE_ERROR, error_text ''unknown native exception'' t1))
      in (status,
          write_diagnostic out
            (if status = MLN_STATUS_OK then [] else thread_last_error_message t2),
          t2, s1))"

definition status_boundary ::
    "mln_diagnostic option \<Rightarrow> 's body \<Rightarrow> thread_locals \<Rightarrow> 's
      \<Rightarrow> mln_status \<times> mln_diagnostic option \<times> thread_locals \<times> 's" where
  "status_boundary out body t s = (case active_reentry t of
     Some refusal \<Rightarrow> (MLN_STATUS_INVALID_STATE, write_diagnostic out refusal, t, s)
   | None \<Rightarrow> native_boundary out body t s)"

section \<open>A truncated message is the longest valid one\<close>

lemma is_trail_table: "\<forall>n \<in> set [0..<256]. is_trail (byte n) \<longleftrightarrow> 128 \<le> n \<and> n \<le> 191"
  unfolding is_trail_def byte_def by code_simp

lemma is_trail_iff: "is_trail b \<longleftrightarrow> trail b"
  using is_trail_table [rule_format, of "unat b"] unat_u8_bound [of b]
  by (simp add: trail_def)

lemma incomplete_sequences:
  "lead2 a \<Longrightarrow> \<not> is_valid_utf8 [a]" "lead3 a b \<Longrightarrow> \<not> is_valid_utf8 [a]" "lead3 a b \<Longrightarrow> \<not> is_valid_utf8 [a, b]"
  "lead4 a b \<Longrightarrow> \<not> is_valid_utf8 [a]" "lead4 a b \<Longrightarrow> \<not> is_valid_utf8 [a, b]"
  "lead4 a b \<Longrightarrow> \<not> is_valid_utf8 [a, b, c]"
  by (auto simp: is_valid_utf8.simps(2) [of a] byte_arith lead2_def lead3_def lead4_def)

lemma leads_not_trail: "unat a \<le> 127 \<Longrightarrow> \<not> trail a" "lead2 a \<Longrightarrow> \<not> trail a"
  "lead3 a b \<Longrightarrow> \<not> trail a" "lead4 a b \<Longrightarrow> \<not> trail a"
  by (auto simp: sequence_defs)

lemma lead_next_trail: "lead3 a b \<Longrightarrow> trail b" "lead4 a b \<Longrightarrow> trail b"
  by (simp_all add: lead3_def lead4_def)

text \<open>The cut of a valid text is valid exactly where no sequence continues.\<close>

lemma valid_take_iff:
  "is_valid_utf8 bs \<Longrightarrow> k < length bs \<Longrightarrow> is_valid_utf8 (take k bs) \<longleftrightarrow> \<not> trail (bs ! k)"
proof (induction bs arbitrary: k rule: length_induct)
  case (1 bs)
  then obtain a bs' where bs: "bs = a # bs'" by (cases bs) auto
  note IH = 1(1) [rule_format, unfolded bs]
  from 1(2) bs have "is_valid_utf8 (a # bs')" by simp
  then show ?case
  proof (cases rule: valid_cases)
    case one
    with IH [of bs' "k - 1"] 1(3) show ?thesis
      by (cases k) (simp_all add: bs valid_one leads_not_trail)
  next
    case (two b r)
    with IH [of r "k - 2"] 1(3) show ?thesis
      by (auto simp: bs take_Cons' nth_Cons' valid_two leads_not_trail incomplete_sequences
          numeral_2_eq_2)
  next
    case (three b c r)
    with IH [of r "k - 3"] 1(3) show ?thesis
      by (auto simp: bs take_Cons' nth_Cons' valid_three leads_not_trail incomplete_sequences
          lead_next_trail numeral_2_eq_2 numeral_3_eq_3)
  next
    case (four b c d r)
    with IH [of r "k - Suc (Suc (Suc (Suc 0)))"] 1(3) show ?thesis
      by (auto simp: bs take_Cons' nth_Cons' valid_four leads_not_trail incomplete_sequences
          lead_next_trail)
  qed
qed

lemma back_to_start_le: "back_to_start full n \<le> n"
  by (induction n) auto

lemma back_to_start_stop: "back_to_start full n = 0 \<or> \<not> is_trail (full ! back_to_start full n)"
  by (induction n) auto

lemma back_to_start_skips: "back_to_start full n < k \<Longrightarrow> k \<le> n \<Longrightarrow> is_trail (full ! k)"
  by (induction n) (auto split: if_splits simp: le_Suc_eq)

lemma truncated_prefix: "prefix (truncated full capacity) full"
  by (simp add: truncated_def take_is_prefix)

lemma truncated_fits: "0 < capacity \<Longrightarrow> length (truncated full capacity) < capacity"
  using back_to_start_le [of full "capacity - 1"] by (auto simp: truncated_def min_less_iff_disj)

lemma truncated_valid: "is_valid_utf8 full \<Longrightarrow> is_valid_utf8 (truncated full capacity)"
proof -
  assume full: "is_valid_utf8 full"
  let ?k = "back_to_start full (capacity - 1)"
  show ?thesis
  proof (cases "length full < capacity \<or> ?k = 0")
    case True
    with full show ?thesis by (auto simp: truncated_def)
  next
    case False
    with back_to_start_le [of full "capacity - 1"] have "?k < length full" by auto
    with full False back_to_start_stop [of full "capacity - 1"] show ?thesis
      by (simp add: truncated_def valid_take_iff is_trail_iff)
  qed
qed

lemma truncated_longest:
  assumes "is_valid_utf8 full" "prefix p full" "is_valid_utf8 p" "length p < capacity"
  shows "length p \<le> length (truncated full capacity)"
proof (rule ccontr)
  assume longer: "\<not> length p \<le> length (truncated full capacity)"
  have p: "p = take (length p) full" "length p \<le> length full"
    using assms(2) by (auto simp: prefix_def)
  with longer have big: "\<not> length full < capacity" by (auto simp: truncated_def)
  with longer p have k: "back_to_start full (capacity - 1) < length p"
    by (simp add: truncated_def)
  with assms(4) have "trail (full ! length p)"
    using back_to_start_skips [of full "capacity - 1" "length p"] by (simp add: is_trail_iff)
  moreover from big assms(4) have "length p < length full" by simp
  ultimately show False
    using assms(1,3) p(1) valid_take_iff by metis
qed

lemma truncated_no_nul: "0 \<notin> set full \<Longrightarrow> 0 \<notin> set (truncated full capacity)"
  using set_mono_prefix [OF truncated_prefix] by blast

lemma truncated_Nil [simp]: "truncated [] capacity = []"
  by (simp add: truncated_def)

text \<open>
  C1: truncating a valid UTF-8 message to a buffer of \<open>capacity\<close> bytes keeps a prefix that leaves
  room for the terminator, is itself valid UTF-8, and is the longest such prefix.
\<close>

theorem truncated_is_longest_valid_prefix:
  assumes "is_valid_utf8 message" "0 < capacity"
  shows "prefix (truncated message capacity) message \<and> length (truncated message capacity) < capacity
    \<and> is_valid_utf8 (truncated message capacity)
    \<and> (\<forall>p. prefix p message \<and> is_valid_utf8 p \<and> length p < capacity
          \<longrightarrow> length p \<le> length (truncated message capacity))"
  using assms truncated_prefix truncated_fits truncated_valid truncated_longest by blast

theorem truncated_is_longest_valid_prefix_witness:
  "is_valid_utf8 (truncated [0x61, 0xE2, 0x82, 0xAC] 4) \<and> truncated [0x61, 0xE2, 0x82, 0xAC] 4 = [0x61]"
proof
  have "is_valid_utf8 [0x61, 0xE2, 0x82, 0xAC]" by code_simp
  then show "is_valid_utf8 (truncated [0x61, 0xE2, 0x82, 0xAC] 4)"
    using truncated_is_longest_valid_prefix [of "[0x61, 0xE2, 0x82, 0xAC]" 4] by simp
  show "truncated [0x61, 0xE2, 0x82, 0xAC] 4 = [0x61]" by code_simp
qed

section \<open>The thread's error\<close>

lemma thread_ok_fresh [simp]: "thread_ok fresh_thread"
  by (simp add: thread_ok_def fresh_thread_def diagnostic_capacity_def)

lemma thread_ok_clear [simp]: "thread_ok t \<Longrightarrow> thread_ok (clear_thread_error t)"
  by (cases "last_error_buffer t")
    (auto simp: thread_ok_def clear_thread_error_def diagnostic_capacity_def)

lemma clear_thread_error_message [simp]:
  "thread_ok t \<Longrightarrow> thread_last_error_message (clear_thread_error t) = []"
  by (cases "last_error_buffer t")
    (auto simp: thread_ok_def clear_thread_error_def thread_last_error_message_def c_string_def
      diagnostic_capacity_def)

lemma thread_ok_set [simp]: "thread_ok t \<Longrightarrow> thread_ok (set_thread_error m t)"
proof (cases m)
  case None
  assume "thread_ok t"
  then show ?thesis
    using thread_ok_clear [of t] by (simp add: set_thread_error_def clear_thread_error_def None)
next
  case (Some message)
  assume t: "thread_ok t"
  have "length (truncated message (length (last_error_buffer t))) < length (last_error_buffer t)"
    using t by (intro truncated_fits) (simp add: thread_ok_def diagnostic_capacity_def)
  with t Some show ?thesis
    by (simp add: set_thread_error_def thread_ok_def length_put_c_string) (simp add: put_c_string_def)
qed

lemma set_thread_error_message [simp]:
  "thread_ok t \<Longrightarrow> 0 \<notin> set message \<Longrightarrow>
     thread_last_error_message (set_thread_error (Some message) t) = truncated message diagnostic_capacity"
  by (simp add: set_thread_error_def thread_last_error_message_def truncated_no_nul thread_ok_def)

lemma set_thread_error_other [simp]:
  "active_reentry (set_thread_error m t) = active_reentry t"
  "recorded_fault_status (set_thread_error m t) = recorded_fault_status t"
  by (simp_all add: set_thread_error_def split: option.splits)

lemma thread_message_no_nul: "0 \<notin> set (thread_last_error_message t)"
  by (simp add: thread_last_error_message_def c_string_no_nul)

section \<open>Writes to the caller's diagnostic\<close>

lemma message_capacity_pos: "message_offset < unat (diagnostic_size d) \<Longrightarrow> 0 < message_capacity d"
  by (simp add: message_capacity_def message_offset_def diagnostic_capacity_def)

lemma write_diagnostic_null [simp]: "write_diagnostic None m = None"
  by (simp add: write_diagnostic_def)

lemma write_diagnostic_message:
  "message_offset < unat (diagnostic_size d) \<Longrightarrow> 0 \<notin> set m \<Longrightarrow>
     \<exists>d'. write_diagnostic (Some d) m = Some d'
       \<and> c_string (diagnostic_message d') = truncated m (message_capacity d)"
  by (simp add: write_diagnostic_def truncated_no_nul)

text \<open>
  C2: a diagnostic is written only inside the size its caller declared: the bytes of the message
  past \<open>min (size - 4) 4096\<close> keep their values, the length of the memory is unchanged, a
  declared size that leaves no room for a message is not written at all, and otherwise the message
  reads back as the longest part that fits.
\<close>

theorem write_diagnostic_stays_inside:
  assumes "message_capacity d \<le> length (diagnostic_message d)" "0 \<notin> set m"
  shows "\<exists>d'. write_diagnostic (Some d) m = Some d' \<and> diagnostic_size d' = diagnostic_size d
    \<and> length (diagnostic_message d') = length (diagnostic_message d)
    \<and> drop (message_capacity d) (diagnostic_message d')
        = drop (message_capacity d) (diagnostic_message d)
    \<and> (if unat (diagnostic_size d) \<le> message_offset then d' = d
       else c_string (diagnostic_message d') = truncated m (message_capacity d))"
proof (cases "unat (diagnostic_size d) \<le> message_offset")
  case True
  then show ?thesis by (simp add: write_diagnostic_def)
next
  case False
  then have "length (truncated m (message_capacity d)) < message_capacity d"
    by (intro truncated_fits message_capacity_pos) simp
  with False assms show ?thesis
    by (simp add: write_diagnostic_def truncated_no_nul length_put_c_string drop_put_c_string)
qed

theorem write_diagnostic_stays_inside_witness:
  "\<exists>d'. write_diagnostic (Some \<lparr>diagnostic_size = 7, diagnostic_message = [9, 9, 9, 9, 9]\<rparr>) [65, 66, 67]
     = Some d' \<and> diagnostic_message d' = [65, 66, 0, 9, 9]"
proof -
  let ?d = "\<lparr>diagnostic_size = 7, diagnostic_message = [9, 9, 9, 9, 9]\<rparr>"
  have "message_capacity ?d = 3"
    by (simp add: message_capacity_def message_offset_def diagnostic_capacity_def)
  then obtain d' where "write_diagnostic (Some ?d) [65, 66, 67] = Some d'"
    using write_diagnostic_stays_inside [of ?d "[65, 66, 67]"] by auto
  then show ?thesis
    by (auto simp: write_diagnostic_def message_offset_def message_capacity_def diagnostic_capacity_def
        truncated_def put_c_string_def is_trail_def)
qed

section \<open>The boundary\<close>

lemma status_boundary_refused:
  "active_reentry t = Some refusal \<Longrightarrow>
     status_boundary out body t s = (MLN_STATUS_INVALID_STATE, write_diagnostic out refusal, t, s)"
  by (simp add: status_boundary_def)

text \<open>What a body leaves in the thread's buffer, with its status.\<close>

definition outcome_status :: "outcome \<Rightarrow> mln_status" where
  "outcome_status r = (case r of Returned st \<Rightarrow> st | _ \<Rightarrow> MLN_STATUS_NATIVE_ERROR)"

definition outcome_message :: "outcome \<Rightarrow> thread_locals \<Rightarrow> bytes" where
  "outcome_message r t1 = (case r of
     Returned st \<Rightarrow> thread_last_error_message t1
   | Threw_exception what \<Rightarrow> truncated what diagnostic_capacity
   | Threw_unknown \<Rightarrow> ascii ''unknown native exception'')"

lemma unknown_message: "0 \<notin> set (ascii ''unknown native exception'')"
    "truncated (ascii ''unknown native exception'') diagnostic_capacity = ascii ''unknown native exception''"
  by (simp_all add: ascii_def truncated_def diagnostic_capacity_def)

text \<open>
  C3: outside a scope that forbids reentry, an entry point starts with the thread's buffer empty,
  runs its body once, returns the body's status (\<open>NATIVE_ERROR\<close> when the body throws), leaves the
  body's message or the exception's in the thread's buffer, and reports to the caller's diagnostic
  that message on failure and the empty message on success. It never lets an exception out.
\<close>

theorem status_boundary_reports:
  assumes "active_reentry t = None" "thread_ok t"
    and body: "body (clear_thread_error t) s = (r, t1, s1)" "thread_ok t1"
    and what: "\<forall>m. r = Threw_exception m \<longrightarrow> 0 \<notin> set m"
    and d: "message_offset < unat (diagnostic_size d)"
  shows "thread_last_error_message (clear_thread_error t) = []
    \<and> (\<exists>d' t2. status_boundary (Some d) body t s = (outcome_status r, Some d', t2, s1)
        \<and> thread_last_error_message t2 = outcome_message r t1
        \<and> c_string (diagnostic_message d')
            = (if outcome_status r = MLN_STATUS_OK then []
               else truncated (outcome_message r t1) (message_capacity d)))"
proof -
  define t2 where "t2 = (case r of Returned _ \<Rightarrow> t1 | Threw_exception m \<Rightarrow> set_thread_error (Some m) t1
    | Threw_unknown \<Rightarrow> error_text ''unknown native exception'' t1)"
  have m: "thread_last_error_message t2 = outcome_message r t1"
    using body(2) what by (simp add: t2_def outcome_message_def unknown_message split: outcome.splits)
  let ?m = "if outcome_status r = MLN_STATUS_OK then [] else outcome_message r t1"
  have "0 \<notin> set ?m" using thread_message_no_nul [of t2] by (simp add: m)
  with d obtain d' where d': "write_diagnostic (Some d) ?m = Some d'"
    "c_string (diagnostic_message d') = truncated ?m (message_capacity d)"
    using write_diagnostic_message by blast
  have "status_boundary (Some d) body t s = (outcome_status r, Some d', t2, s1)"
    using assms(1) body(1) d'(1) m
    by (cases r) (auto simp: status_boundary_def native_boundary_def outcome_status_def t2_def)
  with d'(2) m assms(2) show ?thesis by auto
qed

theorem status_boundary_reports_witness:
  "\<exists>d' t2. status_boundary (Some \<lparr>diagnostic_size = 8, diagnostic_message = replicate 4 7\<rparr>)
       (\<lambda>t s. (Threw_exception [98, 97, 100, 33, 33], t, s + 1)) fresh_thread (4 :: nat)
     = (MLN_STATUS_NATIVE_ERROR, Some d', t2, 5) \<and> c_string (diagnostic_message d') = [98, 97, 100]"
proof -
  let ?d = "\<lparr>diagnostic_size = 8, diagnostic_message = replicate 4 7\<rparr>"
  have "message_capacity ?d = 4" "message_offset < unat (diagnostic_size ?d)"
    by (simp_all add: message_capacity_def message_offset_def diagnostic_capacity_def)
  moreover have "active_reentry fresh_thread = None" by (simp add: fresh_thread_def)
  moreover have "truncated (truncated [98, 97, 100, 33, 33] diagnostic_capacity) 4 = [98, 97, 100]"
    by (simp add: truncated_def diagnostic_capacity_def is_trail_def)
  ultimately show ?thesis
    using status_boundary_reports [of fresh_thread
        "\<lambda>t s. (Threw_exception [98, 97, 100, 33, 33], t, s + 1)" "4 :: nat" _ _ _ ?d]
    by (auto simp: outcome_status_def outcome_message_def)
qed

text \<open>
  Inside a scope that forbids reentry every entry point is refused with
  \<open>INVALID_STATE\<close> and the innermost scope's diagnostic, whatever its body does: the body does not run
  (its state is untouched) and the thread's own error message survives, and when the
  scope ends the thread is back in the scope it was in before.
\<close>

theorem forbid_reentry_refuses:
  "status_boundary out body (snd (forbid_reentry diagnostic t)) s
     = (MLN_STATUS_INVALID_STATE, write_diagnostic out diagnostic, snd (forbid_reentry diagnostic t), s)
   \<and> thread_last_error_message (snd (forbid_reentry diagnostic t)) = thread_last_error_message t
   \<and> active_reentry (inside_forbid_reentry diagnostic callback t) = active_reentry t"
  by (simp add: status_boundary_def forbid_reentry_def end_forbid_reentry_def
      inside_forbid_reentry_def thread_last_error_message_def)

end
