(* ===== verification/Delivery_Events.thy ===== *)
theory Delivery_Events
  imports Api_Runtime Diagnostics
begin

text \<open>
  The event span of a delivery queue (\<open>EventDeliveryItem\<close> and \<open>bind_event_strings\<close> in
  \<open>src/delivery/delivery_queue.cpp\<close>, \<open>event_message\<close> in \<open>delivery_queue.hpp\<close>): the events queued next to
  each other share one array of records and one arena of messages, and their message pointers
  are set only when the span runs. A view is the memory it points to with its size; \<open>None\<close> as a
  result is an exception.
\<close>

section \<open>The text of a payload\<close>

definition string_view_of :: "bytes \<Rightarrow> mln_buffer_view" where
  "string_view_of text = \<lparr>buffer_view_data = Some (text @ [0]), buffer_view_size = of_nat (length text)\<rparr>"

text \<open>
  Writing a member of the payload union: the members the code leaves alone keep their values when the
  union holds that member, which is the member \<open>payload_type\<close> names.
\<close>

definition write_glyphs :: "mln_buffer_view list \<Rightarrow> mln_runtime_event_payload \<Rightarrow> mln_runtime_event_payload" where
  "write_glyphs views p = (case p of
     RuntimeEventPayload_glyphs g \<Rightarrow> RuntimeEventPayload_glyphs
       (g\<lparr>runtime_event_glyphs_font_stack := (if views = [] then None else Some views),
          runtime_event_glyphs_font_count := of_nat (length views)\<rparr>)
   | _ \<Rightarrow> p)"

definition write_tile_source :: "mln_buffer_view \<Rightarrow> mln_runtime_event_payload \<Rightarrow> mln_runtime_event_payload" where
  "write_tile_source v p = (case p of
     RuntimeEventPayload_tile_action a \<Rightarrow> RuntimeEventPayload_tile_action
       (a\<lparr>runtime_event_tile_action_source_id := v\<rparr>)
   | _ \<Rightarrow> p)"

definition only_string :: "bytes list \<Rightarrow> bytes option" where
  "only_string strings = (if length strings \<noteq> 1 then None else Some (hd strings))"

definition bind_event_strings :: "mln_runtime_event \<Rightarrow> bytes list \<Rightarrow> mln_runtime_event option" where
  "bind_event_strings event strings =
     (case enum_of mln_runtime_event_payload_type_code mln_runtime_event_payload_type_values
        (runtime_event_payload_type event) of
       Some MLN_RUNTIME_EVENT_PAYLOAD_GLYPHS \<Rightarrow>
         Some (event\<lparr>runtime_event_payload :=
           write_glyphs (map string_view_of strings) (runtime_event_payload event)\<rparr>)
     | Some MLN_RUNTIME_EVENT_PAYLOAD_SPRITE \<Rightarrow>
         if length strings \<noteq> 2 then None
         else Some (event\<lparr>runtime_event_payload := RuntimeEventPayload_sprite
           \<lparr>runtime_event_sprite_id = string_view_of (strings ! 0),
            runtime_event_sprite_url = string_view_of (strings ! 1)\<rparr>\<rparr>)
     | Some MLN_RUNTIME_EVENT_PAYLOAD_STYLE_IMAGE \<Rightarrow>
         map_option (\<lambda>text. event\<lparr>runtime_event_payload := RuntimeEventPayload_style_image
           \<lparr>runtime_event_style_image_image_id = string_view_of text\<rparr>\<rparr>) (only_string strings)
     | Some MLN_RUNTIME_EVENT_PAYLOAD_TILE_ACTION \<Rightarrow>
         map_option (\<lambda>text. event\<lparr>runtime_event_payload :=
           write_tile_source (string_view_of text) (runtime_event_payload event)\<rparr>) (only_string strings)
     | Some MLN_RUNTIME_EVENT_PAYLOAD_SOURCE_CHANGED \<Rightarrow>
         map_option (\<lambda>text. event\<lparr>runtime_event_payload := RuntimeEventPayload_source_changed
           \<lparr>runtime_event_source_changed_source_id = string_view_of text\<rparr>\<rparr>) (only_string strings)
     | _ \<Rightarrow> Some event)"

section \<open>The span\<close>

record event_item =
  item_events :: "mln_runtime_event list"
  item_messages :: bytes
  item_strings :: "bytes list list"

definition empty_event_item :: event_item where
  "empty_event_item = \<lparr>item_events = [], item_messages = [], item_strings = []\<rparr>"

definition event_message :: "bytes \<Rightarrow> bytes option" where
  "event_message message = (if length message > 0xFFFFFFFF - 1 then None else Some message)"

definition append_event :: "mln_runtime_event \<Rightarrow> bytes \<Rightarrow> bytes list \<Rightarrow> event_item \<Rightarrow> event_item option" where
  "append_event event text strings item = (case event_message text of
     None \<Rightarrow> None
   | Some message \<Rightarrow>
       (case bind_event_strings (event\<lparr>runtime_event_message :=
           \<lparr>buffer_view_data = None, buffer_view_size = of_nat (length message)\<rparr>\<rparr>) strings of
         None \<Rightarrow> None
       | Some bound \<Rightarrow> Some (item
           \<lparr>item_messages :=
              (if message = [] then item_messages item else item_messages item @ message @ [0]),
            item_strings := (if strings = [] then item_strings item else item_strings item @ [strings]),
            item_events := item_events item @ [bound]\<rparr>)))"

fun finalize_from :: "bytes \<Rightarrow> nat \<Rightarrow> mln_runtime_event list \<Rightarrow> mln_runtime_event list" where
  "finalize_from messages offset [] = []"
| "finalize_from messages offset (event # events) =
     (let view = runtime_event_message event
      in if buffer_view_size view = 0
         then event\<lparr>runtime_event_message := view\<lparr>buffer_view_data := Some [0]\<rparr>\<rparr>
           # finalize_from messages offset events
         else event\<lparr>runtime_event_message := view\<lparr>buffer_view_data := Some (drop offset messages)\<rparr>\<rparr>
           # finalize_from messages (offset + unat (buffer_view_size view) + 1) events)"

definition finalize_item :: "event_item \<Rightarrow> event_item" where
  "finalize_item item = item\<lparr>item_events := finalize_from (item_messages item) 0 (item_events item)\<rparr>"

definition sizeof_mln_event_batch_view :: nat where
  "sizeof_mln_event_batch_view = 24"

definition sizeof_mln_runtime_event :: nat where
  "sizeof_mln_runtime_event = 120"

definition batch_view :: "event_item \<Rightarrow> mln_event_batch_view" where
  "batch_view item = \<lparr>event_batch_view_size = of_nat sizeof_mln_event_batch_view,
     event_batch_view_event_size = of_nat sizeof_mln_runtime_event,
     event_batch_view_events = Some (item_events item),
     event_batch_view_event_count = of_nat (length (item_events item))\<rparr>"

section \<open>Every event gets its own message\<close>

type_synonym queued_event = "mln_runtime_event \<times> bytes \<times> bytes list"

fun append_events :: "queued_event list \<Rightarrow> event_item \<Rightarrow> event_item option" where
  "append_events [] item = Some item"
| "append_events ((event, text, strings) # es) item = (case append_event event text strings item of
     None \<Rightarrow> None
   | Some item' \<Rightarrow> append_events es item')"

definition in_arena :: "bytes \<Rightarrow> bytes" where
  "in_arena text = (if text = [] then [] else text @ [0])"

fun span_arena :: "queued_event list \<Rightarrow> bytes" where
  "span_arena [] = []"
| "span_arena ((event, text, strings) # qs) = in_arena text @ span_arena qs"

lemma span_arena_append [simp]: "span_arena (qs @ qs') = span_arena qs @ span_arena qs'"
  by (induction qs rule: span_arena.induct) simp_all

text \<open>An event as it waits in a span: bound, with the size of its message and no pointer.\<close>

definition bound_event :: "queued_event \<Rightarrow> mln_runtime_event option" where
  "bound_event q = (case q of (event, text, strings) \<Rightarrow>
     bind_event_strings (event\<lparr>runtime_event_message :=
       \<lparr>buffer_view_data = None, buffer_view_size = of_nat (length text)\<rparr>\<rparr>) strings)"

definition waits :: "queued_event \<Rightarrow> mln_runtime_event \<Rightarrow> bool" where
  "waits q e \<longleftrightarrow> length (fst (snd q)) < 2 ^ 32 \<and> bound_event q = Some e"

lemma append_events_one:
  "append_events [q] item = Some item' \<Longrightarrow>
     \<exists>e. bound_event q = Some e \<and> item_events item' = item_events item @ [e]"
  by (cases q) (auto simp: append_event_def event_message_def bound_event_def
      split: option.splits if_splits)

definition span_holds :: "queued_event list \<Rightarrow> event_item \<Rightarrow> bool" where
  "span_holds qs item \<longleftrightarrow> list_all2 waits qs (item_events item)
     \<and> item_messages item = span_arena qs"

lemma bind_event_strings_keeps:
  "bind_event_strings event strings = Some e \<Longrightarrow> runtime_event_message e = runtime_event_message event
     \<and> runtime_event_type e = runtime_event_type event
     \<and> runtime_event_source e = runtime_event_source event
     \<and> runtime_event_generation e = runtime_event_generation event"
  by (auto simp: bind_event_strings_def split: option.splits mln_runtime_event_payload_type.splits if_splits)

lemma append_event_holds:
  "append_event event text strings item = Some item' \<Longrightarrow> span_holds qs item \<Longrightarrow>
     span_holds (qs @ [(event, text, strings)]) item'"
  by (auto simp: append_event_def event_message_def span_holds_def waits_def bound_event_def in_arena_def
      list_all2_appendI split: option.splits if_splits)

lemma append_events_hold:
  "append_events qs' item = Some item' \<Longrightarrow> span_holds qs item \<Longrightarrow> span_holds (qs @ qs') item'"
proof (induction qs' item arbitrary: qs rule: append_events.induct)
  case (2 event msg strings es item)
  then show ?case
    using append_event_holds by (fastforce split: option.splits)
qed simp

definition delivered_as :: "queued_event \<Rightarrow> mln_runtime_event \<Rightarrow> bool" where
  "delivered_as q e = (case q of (event, text, strings) \<Rightarrow>
     runtime_event_type e = runtime_event_type event
     \<and> runtime_event_source e = runtime_event_source event
     \<and> runtime_event_generation e = runtime_event_generation event
     \<and> string_from_view (runtime_event_message e) = text
     \<and> (\<exists>rest. buffer_view_data (runtime_event_message e) = Some (text @ 0 # rest)))"

lemma size_of_text: "length text < 2 ^ 32 \<Longrightarrow> unat (of_nat (length text) :: usize) = length text"
  by (simp add: unat_of_nat take_bit_nat_eq_self)

lemma finalize_delivers:
  "list_all2 waits qs es \<Longrightarrow> drop offset messages = span_arena qs \<Longrightarrow>
     list_all2 delivered_as qs (finalize_from messages offset es)"
proof (induction qs es arbitrary: offset rule: list_all2_induct)
  case (Cons q qs e es)
  obtain event msg strings where q: "q = (event, msg, strings)" by (cases q) auto
  from Cons.hyps(1) have len: "length msg < 2 ^ 32"
    and view: "runtime_event_message e = \<lparr>buffer_view_data = None, buffer_view_size = of_nat (length msg)\<rparr>"
    and same: "runtime_event_type e = runtime_event_type event"
      "runtime_event_source e = runtime_event_source event"
      "runtime_event_generation e = runtime_event_generation event"
    by (auto simp: waits_def bound_event_def q dest!: bind_event_strings_keeps)
  note size = size_of_text [OF len]
  show ?case
  proof (cases "msg = []")
    case True
    with view same have "delivered_as q (e\<lparr>runtime_event_message :=
        runtime_event_message e\<lparr>buffer_view_data := Some [0]\<rparr>\<rparr>)"
      by (simp add: q delivered_as_def string_from_view_def)
    with True Cons show ?thesis by (simp add: q view in_arena_def)
  next
    case False
    with size have nonzero: "of_nat (length msg) \<noteq> (0 :: usize)" by (metis length_0_conv unsigned_0)
    have arena: "drop offset messages = msg @ 0 # span_arena qs"
      using Cons.prems False by (simp add: q in_arena_def)
    have "drop (Suc (length msg)) (drop offset messages) = span_arena qs"
      unfolding arena by simp
    then have rest: "drop (offset + length msg + 1) messages = span_arena qs"
      by (simp add: add.commute add.left_commute)
    from view same nonzero size arena have "delivered_as q (e\<lparr>runtime_event_message :=
        runtime_event_message e\<lparr>buffer_view_data := Some (drop offset messages)\<rparr>\<rparr>)"
      by (simp add: q delivered_as_def string_from_view_def)
    with Cons.IH [OF rest] nonzero size show ?thesis by (simp add: view)
  qed
qed simp

text \<open>
  C9: when a span of queued events runs, its batch has one record per queued event, in the
  order they were queued, and each record's message is exactly the text it was queued with,
  terminated in memory, although appends moved the shared arena in between.
\<close>

theorem event_span_delivers_messages:
  assumes "append_events queued empty_event_item = Some item"
  shows "list_all2 delivered_as queued (item_events (finalize_item item))"
proof -
  have "span_holds [] empty_event_item" by (simp add: span_holds_def empty_event_item_def)
  from append_events_hold [OF assms this] show ?thesis
    by (simp add: span_holds_def finalize_item_def finalize_delivers)
qed

theorem event_span_delivers_messages_witness:
  "\<exists>a b item. append_events [(a, [104, 105], []), (b, [], []), (a, [33], [])] empty_event_item = Some item
     \<and> list_all2 delivered_as [(a, [104, 105], []), (b, [], []), (a, [33], [])]
         (item_events (finalize_item item))"
proof -
  let ?e = "\<lparr>runtime_event_type = 1, runtime_event_source_type = 0, runtime_event_source = 5,
    runtime_event_generation = 2, runtime_event_payload_type = 0,
    runtime_event_message = \<lparr>buffer_view_data = None, buffer_view_size = 0\<rparr>,
    runtime_event_payload = RuntimeEventPayload_sprite \<lparr>runtime_event_sprite_id = string_view_of [],
      runtime_event_sprite_url = string_view_of []\<rparr>\<rparr>"
  let ?qs = "[(?e, [104, 105], []), (?e, [], []), (?e, [33], [])]"
  have "enum_of mln_runtime_event_payload_type_code mln_runtime_event_payload_type_values 0
      = Some MLN_RUNTIME_EVENT_PAYLOAD_NONE"
    by (simp add: enum_of_def mln_runtime_event_payload_type_values_def)
  then obtain item where "append_events ?qs empty_event_item = Some item"
    by (simp add: append_event_def event_message_def bind_event_strings_def)
  with event_span_delivers_messages [OF this] show ?thesis by blast
qed

end
