(* ===== verification/Handles.thy ===== *)
theory Handles
  imports Diagnostics
begin

text \<open>
  Public handles (\<open>src/handles/handle_table.hpp\<close> and \<open>handle_table.cpp\<close>): the 64-bit generational
  ids, the table of each kind with its slots and its stack of free indices, and the faults a
  handle that names nothing reports. The operations take the table's kind (\<open>Traits::kind\<close>) as an
  argument; each runs under the table's lock, so it is one step. The locale \<open>handle_store\<close> is what
  the owners of handles rely on, and the table interprets it.
\<close>

unbundle bit_operations_syntax

section \<open>Kinds\<close>

datatype (plugins only: code size) handle_kind =
    Kind_Runtime | Kind_Map | Kind_MapProjection | Kind_RenderSession | Kind_ResourceRequest
  | Kind_ResourceTransformRequest | Kind_AcquiredFrame | Kind_RenderFrameBatch
  | Kind_DeliveryQueue | Kind_StyleExpression | Kind_OffscreenDevice | Kind_VulkanDevice
  | Kind_FramePacer

primrec handle_kind_code :: "handle_kind \<Rightarrow> u8" where
  "handle_kind_code Kind_Runtime = 1"
| "handle_kind_code Kind_Map = 2"
| "handle_kind_code Kind_MapProjection = 3"
| "handle_kind_code Kind_RenderSession = 4"
| "handle_kind_code Kind_ResourceRequest = 12"
| "handle_kind_code Kind_ResourceTransformRequest = 13"
| "handle_kind_code Kind_AcquiredFrame = 20"
| "handle_kind_code Kind_RenderFrameBatch = 21"
| "handle_kind_code Kind_DeliveryQueue = 23"
| "handle_kind_code Kind_StyleExpression = 25"
| "handle_kind_code Kind_OffscreenDevice = 26"
| "handle_kind_code Kind_VulkanDevice = 27"
| "handle_kind_code Kind_FramePacer = 28"

definition handle_kind_values :: "handle_kind list" where
  "handle_kind_values = [Kind_Runtime, Kind_Map, Kind_MapProjection, Kind_RenderSession,
     Kind_ResourceRequest, Kind_ResourceTransformRequest, Kind_AcquiredFrame, Kind_RenderFrameBatch,
     Kind_DeliveryQueue, Kind_StyleExpression, Kind_OffscreenDevice, Kind_VulkanDevice,
     Kind_FramePacer]"

interpretation handle_kind_enum: c_enum handle_kind_code handle_kind_values
  by (unfold_locales, simp add: handle_kind_values_def, rename_tac e, case_tac e;
      simp add: handle_kind_values_def)

primrec kind_text :: "handle_kind \<Rightarrow> string" where
  "kind_text Kind_Runtime = ''mln_runtime''"
| "kind_text Kind_Map = ''mln_map''"
| "kind_text Kind_MapProjection = ''mln_map_projection''"
| "kind_text Kind_RenderSession = ''mln_render_session''"
| "kind_text Kind_ResourceRequest = ''mln_resource_request''"
| "kind_text Kind_ResourceTransformRequest = ''mln_resource_transform_request''"
| "kind_text Kind_AcquiredFrame = ''mln_acquired_frame''"
| "kind_text Kind_RenderFrameBatch = ''mln_render_frame_batch''"
| "kind_text Kind_DeliveryQueue = ''mln_delivery_queue''"
| "kind_text Kind_StyleExpression = ''mln_style_expression''"
| "kind_text Kind_OffscreenDevice = ''mln_offscreen_device''"
| "kind_text Kind_VulkanDevice = ''mln_vulkan_device''"
| "kind_text Kind_FramePacer = ''mln_frame_pacer''"

definition handle_kind_name :: "u8 \<Rightarrow> string option" where
  "handle_kind_name kind = map_option kind_text (enum_of handle_kind_code handle_kind_values kind)"

section \<open>The layout of a handle\<close>

definition handle_generation_bits :: nat where
  "handle_generation_bits = 36"

definition handle_index_bits :: nat where
  "handle_index_bits = 20"

definition handle_max_generation :: u64 where
  "handle_max_generation = push_bit handle_generation_bits 1 - 1"

definition handle_max_index :: u64 where
  "handle_max_index = push_bit handle_index_bits 1 - 1"

definition encode_handle :: "handle_kind \<Rightarrow> u64 \<Rightarrow> u64 \<Rightarrow> u64" where
  "encode_handle kind index generation =
     push_bit (handle_index_bits + handle_generation_bits) (ucast (handle_kind_code kind))
       OR push_bit handle_generation_bits index OR generation"

definition handle_kind_of :: "u64 \<Rightarrow> u8" where
  "handle_kind_of handle = ucast (drop_bit (handle_index_bits + handle_generation_bits) handle)"

definition handle_index_of :: "u64 \<Rightarrow> u64" where
  "handle_index_of handle = drop_bit handle_generation_bits handle AND handle_max_index"

definition handle_generation_of :: "u64 \<Rightarrow> u64" where
  "handle_generation_of handle = handle AND handle_max_generation"

section \<open>Faults\<close>

datatype handle_fault = Fault_Null | Fault_NotAHandle | Fault_WrongKind | Fault_Unknown | Fault_Stale

definition handle_fault_status :: "handle_fault \<Rightarrow> mln_status" where
  "handle_fault_status fault =
     (if fault = Fault_Stale then MLN_STATUS_INVALID_STATE else MLN_STATUS_INVALID_ARGUMENT)"

definition hex_digit :: "u64 \<Rightarrow> nat \<Rightarrow> nat" where
  "hex_digit handle k = unat (drop_bit (4 * k) handle AND 0xF)"

text \<open>The loop over the shifts \<open>4 * k\<close>, from 60 down to 0.\<close>

fun hex_from :: "u64 \<Rightarrow> bool \<Rightarrow> nat \<Rightarrow> string" where
  "hex_from handle leading 0 = [''0123456789abcdef'' ! hex_digit handle 0]"
| "hex_from handle leading (Suc k) =
     (if hex_digit handle (Suc k) \<noteq> 0 \<or> \<not> leading
      then ''0123456789abcdef'' ! hex_digit handle (Suc k) # hex_from handle False k
      else hex_from handle leading k)"

definition handle_to_hex :: "u64 \<Rightarrow> string" where
  "handle_to_hex handle = ''0x'' @ hex_from handle True 15"

definition classify_handle_fault :: "handle_kind \<Rightarrow> u64 \<Rightarrow> bool \<Rightarrow> handle_fault" where
  "classify_handle_fault expected handle issued =
     (if handle = 0 then Fault_Null
      else if handle_kind_name (handle_kind_of handle) = None then Fault_NotAHandle
      else if handle_kind_of handle \<noteq> handle_kind_code expected then Fault_WrongKind
      else if issued then Fault_Stale else Fault_Unknown)"

definition fault_message :: "handle_kind \<Rightarrow> u64 \<Rightarrow> handle_fault \<Rightarrow> string" where
  "fault_message expected handle fault = (case fault of
     Fault_Null \<Rightarrow> kind_text expected @ '' handle must not be null''
   | Fault_NotAHandle \<Rightarrow> handle_to_hex handle @ '' is not a valid '' @ kind_text expected @ '' handle''
   | Fault_WrongKind \<Rightarrow> ''handle '' @ handle_to_hex handle @ '' is an ''
       @ the (handle_kind_name (handle_kind_of handle)) @ '' handle, not an '' @ kind_text expected
       @ '' handle''
   | Fault_Unknown \<Rightarrow> kind_text expected @ '' handle '' @ handle_to_hex handle
       @ '' was never created by this process''
   | Fault_Stale \<Rightarrow> kind_text expected @ '' handle '' @ handle_to_hex handle
       @ '' is stale; the object it named has been released'')"

definition report_handle_fault ::
    "handle_kind \<Rightarrow> u64 \<Rightarrow> handle_fault \<Rightarrow> thread_locals \<Rightarrow> mln_status \<times> thread_locals" where
  "report_handle_fault expected handle fault t =
     (handle_fault_status fault,
      error_text (fault_message expected handle fault)
        (t\<lparr>recorded_fault_status := handle_fault_status fault\<rparr>))"

section \<open>The table\<close>

text \<open>
  A slot's generation is the one it issues next, or the one it issued last while it holds an object.
  \<open>free_indices\<close> is a stack whose top is its last element, as the vector's is.
\<close>

record 'o slot =
  slot_generation :: u64
  slot_object :: "'o option"

record 'o handle_table =
  table_slots :: "'o slot list"
  free_indices :: "u32 list"

definition empty_table :: "'o handle_table" where
  "empty_table = \<lparr>table_slots = [], free_indices = []\<rparr>"

text \<open>\<open>None\<close> is the exception \<open>HandleTableExhausted\<close>.\<close>

definition insert_handle ::
    "handle_kind \<Rightarrow> 'o \<Rightarrow> 'o handle_table \<Rightarrow> (u64 \<times> 'o handle_table) option" where
  "insert_handle kind obj table =
     (if free_indices table \<noteq> [] then
        let index = last (free_indices table);
            slot = table_slots table ! unat index
        in Some (encode_handle kind (ucast index) (slot_generation slot),
             table\<lparr>table_slots := (table_slots table)[unat index := slot\<lparr>slot_object := Some obj\<rparr>],
               free_indices := butlast (free_indices table)\<rparr>)
      else if length (table_slots table) > unat handle_max_index then None
      else
        Some (encode_handle kind (of_nat (length (table_slots table))) 1,
          table\<lparr>table_slots := table_slots table @ [\<lparr>slot_generation = 1, slot_object = Some obj\<rparr>]\<rparr>))"

definition find_slot :: "handle_kind \<Rightarrow> 'o handle_table \<Rightarrow> u64 \<Rightarrow> 'o slot option" where
  "find_slot kind table handle =
     (if handle_kind_of handle \<noteq> handle_kind_code kind then None
      else if unat (handle_index_of handle) \<ge> length (table_slots table) then None
      else let slot = table_slots table ! unat (handle_index_of handle)
        in if slot_object slot = None \<or> slot_generation slot \<noteq> handle_generation_of handle then None
           else Some slot)"

definition fault_for :: "handle_kind \<Rightarrow> 'o handle_table \<Rightarrow> u64 \<Rightarrow> handle_fault" where
  "fault_for kind table handle =
     (let index = unat (handle_index_of handle); generation = handle_generation_of handle;
          issued = index < length (table_slots table) \<and> generation \<noteq> 0
            \<and> generation < slot_generation (table_slots table ! index)
      in classify_handle_fault kind handle issued)"

definition try_resolve :: "handle_kind \<Rightarrow> 'o handle_table \<Rightarrow> u64 \<Rightarrow> 'o option" where
  "try_resolve kind table handle = (case find_slot kind table handle of
     None \<Rightarrow> None | Some slot \<Rightarrow> slot_object slot)"

definition resolve ::
    "handle_kind \<Rightarrow> 'o handle_table \<Rightarrow> u64 \<Rightarrow> thread_locals \<Rightarrow> 'o option \<times> thread_locals" where
  "resolve kind table handle t = (case try_resolve kind table handle of
     Some obj \<Rightarrow> (Some obj, t)
   | None \<Rightarrow> (None, snd (report_handle_fault kind handle (fault_for kind table handle) t)))"

text \<open>A lease is the slot's shared pointer, where \<open>resolve\<close> is the pointer it holds.\<close>

definition lease ::
    "handle_kind \<Rightarrow> 'o handle_table \<Rightarrow> u64 \<Rightarrow> thread_locals \<Rightarrow> 'o option \<times> thread_locals" where
  "lease kind table handle t = (case find_slot kind table handle of
     None \<Rightarrow> (None, snd (report_handle_fault kind handle (fault_for kind table handle) t))
   | Some slot \<Rightarrow> (slot_object slot, t))"

definition try_lease :: "handle_kind \<Rightarrow> 'o handle_table \<Rightarrow> u64 \<Rightarrow> 'o option" where
  "try_lease kind table handle = (case find_slot kind table handle of
     None \<Rightarrow> None | Some slot \<Rightarrow> slot_object slot)"

definition remove_handle ::
    "handle_kind \<Rightarrow> 'o handle_table \<Rightarrow> u64 \<Rightarrow> 'o option \<times> 'o handle_table" where
  "remove_handle kind table handle =
     (if find_slot kind table handle = None then (None, table)
      else
        let index = handle_index_of handle;
            slot = table_slots table ! unat index;
            retired = slot\<lparr>slot_generation := slot_generation slot + 1, slot_object := None\<rparr>;
            table' = table\<lparr>table_slots := (table_slots table)[unat index := retired]\<rparr>
        in (slot_object slot,
            if slot_generation retired \<le> handle_max_generation
            then table'\<lparr>free_indices := free_indices table' @ [ucast index]\<rparr>
            else table'))"

section \<open>The layout loses nothing\<close>

lemma max_masks: "handle_max_generation = mask 36" "handle_max_index = mask 20"
  by (simp_all add: handle_max_generation_def handle_max_index_def handle_generation_bits_def
      handle_index_bits_def mask_eq_decr_exp push_bit_of_1)

lemma below_mask: "i \<le> mask n \<Longrightarrow> bit (i :: u64) k \<Longrightarrow> k < n"
proof (cases "n < 64")
  case True
  assume "i \<le> mask n" and bit: "bit i k"
  then have "uint i \<le> mask n"
    using True by (simp add: word_le_def uint_mask_eq)
  then have "uint i < 2 ^ n"
    by (simp add: mask_eq_exp_minus_1)
  then have "take_bit n i = i"
    by (simp add: mask_eq_iff take_bit_eq_mask)
  with bit show ?thesis by (metis bit_take_bit_iff)
next
  case False
  assume "bit i k"
  then show ?thesis using False bit_imp_le_length [of i k] by simp
qed

lemmas handle_layout = encode_handle_def handle_kind_of_def handle_index_of_def handle_generation_of_def
  handle_index_bits_def handle_generation_bits_def max_masks

lemma encode_fields:
  assumes "i \<le> handle_max_index" "g \<le> handle_max_generation"
  shows "handle_kind_of (encode_handle k i g) = handle_kind_code k"
    "handle_index_of (encode_handle k i g) = i"
    "handle_generation_of (encode_handle k i g) = g"
  using assms unfolding handle_layout
  by (intro bit_word_eqI; auto simp: bit_simps dest: below_mask)+

lemma handle_eqI:
  assumes "handle_kind_of h = handle_kind_of h'" "handle_index_of h = handle_index_of h'"
    "handle_generation_of h = handle_generation_of h'"
  shows "h = h'"
proof (rule bit_word_eqI)
  fix n :: nat
  assume n: "n < LENGTH(64)"
  consider "n < 36" | "36 \<le> n" "n < 56" | "56 \<le> n" by linarith
  then show "bit h n = bit h' n"
  proof cases
    case 1
    then have "bit (handle_generation_of h) n = bit h n" "bit (handle_generation_of h') n = bit h' n"
      using n by (simp_all add: handle_layout bit_simps)
    with assms(3) show ?thesis by simp
  next
    case 2
    then have "bit (handle_index_of h) (n - 36) = bit h n" "bit (handle_index_of h') (n - 36) = bit h' n"
      using n by (simp_all add: handle_layout bit_simps; linarith)+
    with assms(2) show ?thesis by simp
  next
    case 3
    with n have "n - 56 < 8" by simp
    with 3 have "bit (handle_kind_of h) (n - 56) = bit h n"
      "bit (handle_kind_of h') (n - 56) = bit h' n"
      by (simp_all add: handle_layout bit_simps)
    with assms(1) show ?thesis by simp
  qed
qed

lemma fields_bounded: "handle_index_of h \<le> handle_max_index" "handle_generation_of h \<le> handle_max_generation"
  by (simp_all add: handle_index_of_def handle_generation_of_def word_and_le1)

lemma handle_eq_encode:
  "handle_kind_of h = handle_kind_code k \<Longrightarrow>
     h = encode_handle k (handle_index_of h) (handle_generation_of h)"
  by (rule handle_eqI) (simp_all add: encode_fields fields_bounded)

text \<open>
  C4: the three fields of a handle read back as they were encoded, and a value of a table's
  kind is the encoding of its own fields, so no two slots or generations share a handle.
\<close>

theorem handle_layout_roundtrip:
  assumes "index \<le> handle_max_index" "generation \<le> handle_max_generation"
  shows "handle_kind_of (encode_handle kind index generation) = handle_kind_code kind
    \<and> handle_index_of (encode_handle kind index generation) = index
    \<and> handle_generation_of (encode_handle kind index generation) = generation
    \<and> (handle_kind_of h = handle_kind_code kind
        \<longleftrightarrow> h = encode_handle kind (handle_index_of h) (handle_generation_of h))"
  using assms encode_fields handle_eq_encode [of h kind]
    encode_fields(1) [OF fields_bounded, of kind h h]
  by metis

theorem handle_layout_roundtrip_witness:
  "handle_index_of (encode_handle Kind_Map 5 9) = 5 \<and> handle_generation_of (encode_handle Kind_Map 5 9) = 9"
proof -
  have "(5 :: u64) \<le> handle_max_index" "(9 :: u64) \<le> handle_max_generation"
    by (simp_all add: max_masks mask_numeral)
  then show ?thesis using handle_layout_roundtrip [of 5 9 Kind_Map 0] by simp
qed

section \<open>The invariant of a table\<close>

definition slot_ok :: "'o slot \<Rightarrow> bool" where
  "slot_ok s \<longleftrightarrow> slot_generation s \<noteq> 0 \<and> slot_generation s \<le> handle_max_generation + 1
     \<and> (slot_object s \<noteq> None \<longrightarrow> slot_generation s \<le> handle_max_generation)"

definition table_ok :: "'o handle_table \<Rightarrow> bool" where
  "table_ok table \<longleftrightarrow> length (table_slots table) \<le> 2 ^ 20 \<and> list_all slot_ok (table_slots table)
     \<and> distinct (free_indices table)
     \<and> list_all (\<lambda>i. unat i < length (table_slots table)
          \<and> slot_object (table_slots table ! unat i) = None
          \<and> slot_generation (table_slots table ! unat i) \<le> handle_max_generation)
        (free_indices table)"

text \<open>The handles a table has ever issued: the live ones and the retired ones.\<close>

definition was_issued :: "handle_kind \<Rightarrow> 'o handle_table \<Rightarrow> u64 \<Rightarrow> bool" where
  "was_issued kind table h \<longleftrightarrow> handle_kind_of h = handle_kind_code kind \<and>
     (let i = unat (handle_index_of h); g = handle_generation_of h
      in i < length (table_slots table) \<and> g \<noteq> 0
        \<and> (g < slot_generation (table_slots table ! i)
            \<or> g = slot_generation (table_slots table ! i) \<and> slot_object (table_slots table ! i) \<noteq> None))"

lemma kind_code_nonzero [simp]: "handle_kind_code k \<noteq> 0"
  by (cases k) simp_all

lemma kind_code_inj [simp]: "handle_kind_code k = handle_kind_code k' \<longleftrightarrow> k = k'"
  using handle_kind_enum.code_inj by blast

lemma not_null: "handle_kind_of h = handle_kind_code k \<Longrightarrow> h \<noteq> 0"
  by (auto simp: handle_kind_of_def dest: sym)

lemma kind_name_known [simp]: "handle_kind_name (handle_kind_code k) = Some (kind_text k)"
  by (simp add: handle_kind_name_def handle_kind_enum.enum_of_code)

lemma max_numbers: "unat handle_max_index = 2 ^ 20 - 1" "unat handle_max_generation = 2 ^ 36 - 1"
  by (simp_all add: max_masks mask_numeral)

lemma table_ok_empty [simp]: "table_ok empty_table"
  by (simp add: table_ok_def empty_table_def)

lemma not_issued_empty [simp]: "\<not> was_issued k empty_table h"
  by (simp add: was_issued_def empty_table_def)

text \<open>The slot a handle's index names.\<close>

abbreviation slot_at :: "'o handle_table \<Rightarrow> u64 \<Rightarrow> 'o slot" where
  "slot_at table h \<equiv> table_slots table ! unat (handle_index_of h)"

lemma try_resolve_eq:
  "try_resolve k table h =
     (if handle_kind_of h = handle_kind_code k \<and> unat (handle_index_of h) < length (table_slots table)
         \<and> slot_generation (slot_at table h) = handle_generation_of h
      then slot_object (slot_at table h) else None)"
  by (auto simp: try_resolve_def find_slot_def Let_def)

lemma find_slot_eq:
  "find_slot k table h = (if try_resolve k table h = None then None else Some (slot_at table h))"
  by (auto simp: try_resolve_def find_slot_def Let_def)

lemma try_lease_eq: "try_lease k table h = try_resolve k table h"
  by (simp add: try_lease_def try_resolve_def)

lemma lease_eq: "lease k table h t = resolve k table h t"
  by (auto simp: lease_def resolve_def try_resolve_def find_slot_def Let_def split: option.splits)

lemma was_issued_eq:
  "was_issued k table h \<longleftrightarrow> handle_kind_of h = handle_kind_code k
     \<and> unat (handle_index_of h) < length (table_slots table) \<and> handle_generation_of h \<noteq> 0
     \<and> (handle_generation_of h < slot_generation (slot_at table h)
         \<or> handle_generation_of h = slot_generation (slot_at table h)
           \<and> slot_object (slot_at table h) \<noteq> None)"
  by (auto simp: was_issued_def Let_def)

lemma slot_ok_nth: "table_ok table \<Longrightarrow> i < length (table_slots table) \<Longrightarrow> slot_ok (table_slots table ! i)"
  by (simp add: table_ok_def list_all_length)

lemma handle_eq_iff:
  "h = h' \<longleftrightarrow> handle_kind_of h = handle_kind_of h'
     \<and> unat (handle_index_of h) = unat (handle_index_of h')
     \<and> handle_generation_of h = handle_generation_of h'"
  by (metis handle_eqI word_unat_eq_iff)

lemma resolved_was_issued:
  "table_ok table \<Longrightarrow> try_resolve k table h = Some x \<Longrightarrow> was_issued k table h"
  using slot_ok_nth [of table "unat (handle_index_of h)"]
  by (auto simp: try_resolve_eq was_issued_eq slot_ok_def split: if_splits)

text \<open>An insertion reuses the slot on top of the stack, or adds one.\<close>

lemma insert_cases:
  assumes "insert_handle k x table = Some (h, table')" "table_ok table"
  obtains (reuse) rest index where
      "free_indices table = rest @ [index]" "unat index < length (table_slots table)"
      "slot_object (table_slots table ! unat index) = None"
      "slot_generation (table_slots table ! unat index) \<le> handle_max_generation"
      "handle_kind_of h = handle_kind_code k" "unat (handle_index_of h) = unat index"
      "handle_generation_of h = slot_generation (table_slots table ! unat index)"
      "table' = table\<lparr>table_slots := (table_slots table)
         [unat index := (table_slots table ! unat index)\<lparr>slot_object := Some x\<rparr>], free_indices := rest\<rparr>"
  | (fresh) "free_indices table = []" "length (table_slots table) < 2 ^ 20"
      "handle_kind_of h = handle_kind_code k" "unat (handle_index_of h) = length (table_slots table)"
      "handle_generation_of h = 1"
      "table' = table\<lparr>table_slots := table_slots table @ [\<lparr>slot_generation = 1, slot_object = Some x\<rparr>]\<rparr>"
proof (cases "free_indices table = []")
  case True
  with assms(1) have len: "length (table_slots table) < 2 ^ 20"
    and h: "h = encode_handle k (of_nat (length (table_slots table))) 1"
    and t: "table' = table\<lparr>table_slots := table_slots table @ [\<lparr>slot_generation = 1, slot_object = Some x\<rparr>]\<rparr>"
    by (auto simp: insert_handle_def max_numbers split: if_splits)
  from len have u: "unat (of_nat (length (table_slots table)) :: u64) = length (table_slots table)"
    by (simp add: unat_of_nat take_bit_nat_eq_self)
  with len have "of_nat (length (table_slots table)) \<le> handle_max_index" "1 \<le> handle_max_generation"
    by (simp_all add: word_le_nat_alt max_numbers)
  from encode_fields [OF this, of k] show thesis
    using True len t u by (intro fresh) (simp_all add: h)
next
  case False
  then obtain rest index where free: "free_indices table = rest @ [index]"
    by (metis append_butlast_last_id)
  let ?s = "table_slots table ! unat index"
  from assms(2) free have ok: "unat index < length (table_slots table)" "slot_object ?s = None"
    "slot_generation ?s \<le> handle_max_generation" "length (table_slots table) \<le> 2 ^ 20"
    by (simp_all add: table_ok_def)
  from assms(1) free have h: "h = encode_handle k (ucast index) (slot_generation ?s)"
    and t: "table' = table\<lparr>table_slots := (table_slots table)
         [unat index := ?s\<lparr>slot_object := Some x\<rparr>], free_indices := rest\<rparr>"
    by (auto simp: insert_handle_def Let_def)
  have u: "unat (ucast index :: u64) = unat index"
    by (simp add: unat_widen)
  with ok have "ucast index \<le> handle_max_index"
    by (simp add: word_le_nat_alt max_numbers)
  from encode_fields [OF this ok(3), of k] show thesis
    using free ok t u by (intro reuse) (simp_all add: h)
qed

lemma insert_table_ok:
  assumes "insert_handle k x table = Some (h, table')" "table_ok table"
  shows "table_ok table'"
  using assms
proof (cases rule: insert_cases)
  case (reuse rest index)
  with assms(2) show ?thesis
    by (auto simp: table_ok_def list_all_iff nth_list_update slot_ok_def
        simp flip: word_unat_eq_iff dest!: set_update_subset_insert [THEN subsetD])
next
  case fresh
  with assms(2) show ?thesis
    by (auto simp: table_ok_def slot_ok_def max_masks mask_numeral nth_append)
qed

lemma insert_fresh_handle:
  assumes "insert_handle k x table = Some (h, table')" "table_ok table"
  shows "\<not> was_issued k table h" "h \<noteq> 0"
proof -
  show "\<not> was_issued k table h"
    using assms by (cases rule: insert_cases) (simp_all add: was_issued_eq)
  have "handle_kind_of h = handle_kind_code k"
    using assms by (cases rule: insert_cases) simp_all
  then show "h \<noteq> 0" by (rule not_null)
qed

lemma insert_issues:
  assumes "insert_handle k x table = Some (h, table')" "table_ok table"
  shows "was_issued k table' h' \<longleftrightarrow> h' = h \<or> was_issued k table h'"
  using assms
proof (cases rule: insert_cases)
  case (reuse rest index)
  with slot_ok_nth [OF assms(2), of "unat index"] show ?thesis
    by (auto simp: was_issued_eq nth_list_update handle_eq_iff [of _ h] slot_ok_def)
next
  case fresh
  then show ?thesis
    by (auto simp: was_issued_eq nth_append handle_eq_iff [of _ h])
qed

lemma insert_resolves:
  assumes "insert_handle k x table = Some (h, table')" "table_ok table"
  shows "try_resolve k table' = (try_resolve k table)(h \<mapsto> x)"
  using assms
proof (cases rule: insert_cases)
  case (reuse rest index)
  then show ?thesis
    by (auto simp: fun_eq_iff try_resolve_eq nth_list_update handle_eq_iff [of _ h])
next
  case fresh
  then show ?thesis
    by (auto simp: fun_eq_iff try_resolve_eq nth_append handle_eq_iff [of _ h])
qed

lemma remove_dead [simp]:
  "try_resolve k table h = None \<Longrightarrow> remove_handle k table h = (None, table)"
  by (simp add: remove_handle_def find_slot_eq)

lemma slot_update_all:
  "s\<lparr>slot_generation := g, slot_object := x\<rparr> = \<lparr>slot_generation = g, slot_object = x\<rparr>"
  by (cases s) simp

lemma remove_live:
  assumes "try_resolve k table h = Some x"
  shows "fst (remove_handle k table h) = Some x"
    "table_slots (snd (remove_handle k table h)) = (table_slots table)[unat (handle_index_of h) :=
       \<lparr>slot_generation = handle_generation_of h + 1, slot_object = None\<rparr>]"
    "free_indices (snd (remove_handle k table h)) =
       (if handle_generation_of h + 1 \<le> handle_max_generation
        then free_indices table @ [ucast (handle_index_of h)] else free_indices table)"
  using assms
  by (auto simp: remove_handle_def find_slot_eq Let_def try_resolve_eq slot_update_all split: if_splits)

lemma generation_advances:
  "g \<le> handle_max_generation \<Longrightarrow> g < g + 1" "g \<le> handle_max_generation \<Longrightarrow> g + 1 \<noteq> 0"
  "g \<le> handle_max_generation \<Longrightarrow> g + 1 \<le> handle_max_generation + 1"
  "g \<le> handle_max_generation \<Longrightarrow> g' < g + 1 \<longleftrightarrow> g' \<le> g"
proof -
  assume "g \<le> handle_max_generation"
  then have g: "unat g \<le> 2 ^ 36 - 1" by (simp add: word_le_nat_alt max_numbers)
  then have s: "unat (g + 1) = Suc (unat g)" by (simp add: unat_word_ariths)
  have m: "unat (handle_max_generation + 1) = 2 ^ 36" by (simp add: unat_word_ariths max_numbers)
  show "g < g + 1" "g' < g + 1 \<longleftrightarrow> g' \<le> g"
    using s by (auto simp: word_less_nat_alt word_le_nat_alt)
  show "g + 1 \<noteq> 0" using s by (metis nat.distinct(1) unsigned_0)
  show "g + 1 \<le> handle_max_generation + 1"
    using g by (simp only: word_le_nat_alt s m) simp
qed

lemma remove_table_ok:
  assumes "table_ok table"
  shows "table_ok (snd (remove_handle k table h))"
proof (cases "try_resolve k table h")
  case None
  with assms show ?thesis by simp
next
  case (Some x)
  let ?i = "unat (handle_index_of h)"
  have len: "length (table_slots table) \<le> 2 ^ 20" using assms by (simp add: table_ok_def)
  have i: "?i < length (table_slots table)" and obj: "slot_object (slot_at table h) = Some x"
    using Some by (auto simp: try_resolve_eq split: if_splits)
  have u: "unat (ucast (handle_index_of h) :: u32) = ?i"
    using len i by (simp add: unsigned_ucast_eq take_bit_nat_eq_self)
  have "slot_ok \<lparr>slot_generation = handle_generation_of h + 1, slot_object = None\<rparr>"
    using generation_advances [OF fields_bounded(2) [of h]] by (simp add: slot_ok_def)
  with assms i obj u show ?thesis
    by (auto simp: table_ok_def remove_live [OF Some] list_all_iff nth_list_update
        dest!: set_update_subset_insert [THEN subsetD])
qed

lemma remove_result:
  "fst (remove_handle k table h) = try_resolve k table h"
  by (cases "try_resolve k table h") (simp_all add: remove_live)

lemma remove_resolves:
  "try_resolve k (snd (remove_handle k table h)) = (try_resolve k table)(h := None)"
proof (cases "try_resolve k table h")
  case None
  then show ?thesis by (simp add: fun_upd_idem)
next
  case (Some x)
  then show ?thesis
    by (auto simp: fun_eq_iff try_resolve_eq remove_live [OF Some] nth_list_update handle_eq_iff [of _ h]
        split: if_splits)
qed

lemma remove_issues:
  "table_ok table \<Longrightarrow> was_issued k (snd (remove_handle k table h)) h' \<longleftrightarrow> was_issued k table h'"
proof (cases "try_resolve k table h")
  case None
  then show ?thesis by simp
next
  case (Some x)
  then have i: "unat (handle_index_of h) < length (table_slots table)"
    and g: "slot_generation (slot_at table h) = handle_generation_of h"
    and obj: "slot_object (slot_at table h) = Some x"
    by (auto simp: try_resolve_eq split: if_splits)
  show ?thesis
  proof (cases "unat (handle_index_of h') = unat (handle_index_of h)")
    case True
    with i g obj generation_advances(4) [OF fields_bounded(2) [of h]] show ?thesis
      by (simp add: was_issued_eq remove_live(2) [OF Some] le_less)
  next
    case False
    then show ?thesis by (simp add: was_issued_eq remove_live(2) [OF Some])
  qed
qed

section \<open>What the owners of handles rely on\<close>

text \<open>
  A store of objects under handles it chooses: an insertion chooses a handle it never issued and
  adds the object under it, a removal takes the object away and issues nothing.
\<close>

datatype 'o store_op = Insert_object 'o | Remove_object u64

fun run_store ::
    "('o \<Rightarrow> 't \<Rightarrow> (u64 \<times> 't) option) \<Rightarrow> ('t \<Rightarrow> u64 \<Rightarrow> 'o option \<times> 't) \<Rightarrow> 'o store_op list \<Rightarrow> 't
      \<Rightarrow> u64 list \<times> 't" where
  "run_store ins rem [] t = ([], t)"
| "run_store ins rem (Insert_object x # ops) t = (case ins x t of
     None \<Rightarrow> run_store ins rem ops t
   | Some (h, t') \<Rightarrow> let (hs, t'') = run_store ins rem ops t' in (h # hs, t''))"
| "run_store ins rem (Remove_object h # ops) t = run_store ins rem ops (snd (rem t h))"

locale handle_store =
  fixes ins :: "'o \<Rightarrow> 't \<Rightarrow> (u64 \<times> 't) option"
    and rem :: "'t \<Rightarrow> u64 \<Rightarrow> 'o option \<times> 't"
    and look :: "'t \<Rightarrow> u64 \<Rightarrow> 'o option"
    and issued :: "'t \<Rightarrow> u64 \<Rightarrow> bool"
    and ok :: "'t \<Rightarrow> bool"
  assumes ins_ok: "ins x t = Some (h, t') \<Longrightarrow> ok t \<Longrightarrow> ok t'"
    and ins_fresh: "ins x t = Some (h, t') \<Longrightarrow> ok t \<Longrightarrow> \<not> issued t h"
    and ins_issued: "ins x t = Some (h, t') \<Longrightarrow> ok t \<Longrightarrow> issued t' h' \<longleftrightarrow> h' = h \<or> issued t h'"
    and ins_look: "ins x t = Some (h, t') \<Longrightarrow> ok t \<Longrightarrow> look t' = (look t)(h \<mapsto> x)"
    and rem_ok: "ok t \<Longrightarrow> ok (snd (rem t h))"
    and rem_issued: "ok t \<Longrightarrow> issued (snd (rem t h)) h' \<longleftrightarrow> issued t h'"
    and rem_look: "ok t \<Longrightarrow> look (snd (rem t h)) = (look t)(h := None)"
    and look_issued: "ok t \<Longrightarrow> look t h = Some x \<Longrightarrow> issued t h"
begin

lemma run_cases:
  assumes "ok t"
  obtains (full) "run_store ins rem (op # ops) t = run_store ins rem ops t"
  | (insert) x h t' where "ok t'" "\<not> issued t h" "\<And>h'. issued t' h' \<longleftrightarrow> h' = h \<or> issued t h'"
      "look t' = (look t)(h \<mapsto> x)"
      "run_store ins rem (op # ops) t
         = (h # fst (run_store ins rem ops t'), snd (run_store ins rem ops t'))"
  | (remove) h t' where "ok t'" "\<And>h'. issued t' h' \<longleftrightarrow> issued t h'" "look t' = (look t)(h := None)"
      "run_store ins rem (op # ops) t = run_store ins rem ops t'"
proof (cases op)
  case (Insert_object x)
  show thesis
  proof (cases "ins x t")
    case None
    with Insert_object show thesis by (intro full) simp
  next
    case (Some p)
    then obtain h t' where ins: "ins x t = Some (h, t')" by (cases p) simp
    have "ok t'" using ins assms by (rule ins_ok)
    moreover have "\<not> issued t h" using ins assms by (rule ins_fresh)
    moreover have "\<And>h'. issued t' h' \<longleftrightarrow> h' = h \<or> issued t h'" using ins assms by (rule ins_issued)
    moreover have "look t' = (look t)(h \<mapsto> x)" using ins assms by (rule ins_look)
    moreover have "run_store ins rem (op # ops) t
        = (h # fst (run_store ins rem ops t'), snd (run_store ins rem ops t'))"
      using ins Insert_object by (simp add: split_beta)
    ultimately show thesis by (rule insert)
  qed
next
  case (Remove_object h)
  with assms show thesis
    by (intro remove [of "snd (rem t h)" h]) (simp_all add: rem_ok rem_issued rem_look)
qed

lemma run_ok: "ok t \<Longrightarrow> ok (snd (run_store ins rem ops t))"
proof (induction ops arbitrary: t)
  case (Cons op ops)
  from \<open>ok t\<close> show ?case
    by (cases rule: run_cases [of t op ops]) (use Cons in simp_all)
qed simp

lemma run_issued:
  "ok t \<Longrightarrow> issued (snd (run_store ins rem ops t)) h
     \<longleftrightarrow> h \<in> set (fst (run_store ins rem ops t)) \<or> issued t h"
proof (induction ops arbitrary: t)
  case (Cons op ops)
  from \<open>ok t\<close> show ?case
    by (cases rule: run_cases [of t op ops]) (use Cons in auto)
qed simp

lemma run_distinct:
  "ok t \<Longrightarrow> distinct (fst (run_store ins rem ops t))
     \<and> (\<forall>h \<in> set (fst (run_store ins rem ops t)). \<not> issued t h)"
proof (induction ops arbitrary: t)
  case (Cons op ops)
  from \<open>ok t\<close> show ?case
  proof (cases rule: run_cases [of t op ops])
    case full
    with Cons show ?thesis by simp
  next
    case (insert x h t')
    with Cons.IH [of t'] show ?thesis by auto
  next
    case (remove h t')
    with Cons.IH [of t'] show ?thesis by simp
  qed
qed simp

text \<open>A handle that has stopped naming its object names nothing ever after.\<close>

lemma dead_stays_dead:
  "ok t \<Longrightarrow> issued t h \<Longrightarrow> look t h = None \<Longrightarrow> look (snd (run_store ins rem ops t)) h = None"
proof (induction ops arbitrary: t)
  case (Cons op ops)
  from \<open>ok t\<close> show ?case
  proof (cases rule: run_cases [of t op ops])
    case full
    with Cons show ?thesis by simp
  next
    case (insert x h' t')
    with Cons.prems have "h \<noteq> h'" by auto
    with insert Cons.IH [of t'] Cons.prems show ?thesis by simp
  next
    case (remove h' t')
    with Cons.IH [of t'] Cons.prems show ?thesis by simp
  qed
qed simp

end

interpretation table_store: handle_store "insert_handle k" "remove_handle k" "try_resolve k"
    "was_issued k" table_ok for k
  by unfold_locales
    (auto dest: insert_table_ok insert_fresh_handle insert_issues insert_resolves resolved_was_issued
      simp: remove_table_ok remove_issues remove_resolves)

section \<open>Handles are never reissued\<close>

lemmas table_run = table_store.run_ok table_store.run_issued table_store.run_distinct
  table_store.dead_stays_dead

text \<open>
  C5: whatever creations and releases a table goes through, every handle it hands out is new: the
  handles of a run are pairwise distinct, differ from every handle the table issued before,
  and none of them is the null handle.
\<close>

theorem handles_never_reissued:
  assumes "table_ok table"
    and "run_store (insert_handle k) (remove_handle k) ops table = (handles, table')"
  shows "distinct handles \<and> (\<forall>h \<in> set handles. \<not> was_issued k table h \<and> was_issued k table' h \<and> h \<noteq> 0)
    \<and> table_ok table'"
proof -
  have "table_ok table'" "distinct handles" "\<forall>h \<in> set handles. \<not> was_issued k table h"
    "\<And>h. was_issued k table' h \<longleftrightarrow> h \<in> set handles \<or> was_issued k table h"
    using assms table_store.run_ok [of table k ops] table_store.run_distinct [of table k ops]
      table_store.run_issued [of table k ops] by simp_all
  moreover have "h \<noteq> 0" if "was_issued k table' h" for h
    using that not_null by (auto simp: was_issued_eq)
  ultimately show ?thesis by blast
qed

theorem handles_never_reissued_witness:
  "distinct (fst (run_store (insert_handle Kind_Map) (remove_handle Kind_Map)
      [Insert_object 1, Remove_object (encode_handle Kind_Map 0 1), Insert_object (2 :: nat)] empty_table))"
  using handles_never_reissued [OF table_ok_empty surjective_pairing] by blast

lemma classify_issued:
  "was_issued k table h \<Longrightarrow> try_resolve k table h = None \<Longrightarrow> fault_for k table h = Fault_Stale"
  using not_null [of h k]
  by (auto simp: fault_for_def classify_handle_fault_def Let_def was_issued_eq try_resolve_eq
      split: if_splits)

lemma classify_unissued:
  "\<not> was_issued k table h \<Longrightarrow> fault_for k table h \<noteq> Fault_Stale"
  by (auto simp: fault_for_def classify_handle_fault_def Let_def was_issued_eq)

lemma recorded_fault_report [simp]:
  "recorded_fault_status (snd (report_handle_fault k h f t)) = handle_fault_status f"
  by (simp add: report_handle_fault_def)

lemma resolve_fault:
  "try_resolve k table h = None \<Longrightarrow> fst (resolve k table h t) = None
     \<and> recorded_fault_status (snd (resolve k table h t))
         = (if was_issued k table h then MLN_STATUS_INVALID_STATE else MLN_STATUS_INVALID_ARGUMENT)"
  using classify_issued [of k table h] classify_unissued [of k table h]
  by (simp add: resolve_def handle_fault_status_def)



text \<open>
  C7: the status of a failed lookup says what the value was: \<open>INVALID_STATE\<close> exactly for a handle this
  table once issued, \<open>INVALID_ARGUMENT\<close> for every other value (null, of no kind, of
  another kind, or never issued), and a lookup that succeeds leaves the thread's error alone.
\<close>

theorem lookup_status_is_precise:
  "resolve k table h t = (case try_resolve k table h of Some x \<Rightarrow> (Some x, t) | None \<Rightarrow>
     (None, snd (report_handle_fault k h
        (if was_issued k table h then Fault_Stale
         else if h = 0 then Fault_Null
         else if handle_kind_of h \<notin> range handle_kind_code then Fault_NotAHandle
         else if handle_kind_of h \<noteq> handle_kind_code k then Fault_WrongKind else Fault_Unknown) t)))
   \<and> lease k table h t = resolve k table h t
   \<and> recorded_fault_status (snd (report_handle_fault k h f t)) = fst (report_handle_fault k h f t)"
proof -
  have "handle_kind_name (handle_kind_of h) = None \<longleftrightarrow> handle_kind_of h \<notin> range handle_kind_code"
    by (simp add: handle_kind_name_def handle_kind_enum.enum_of_None)
  moreover have "\<not> was_issued k table h \<Longrightarrow> try_resolve k table h = None \<Longrightarrow>
      fault_for k table h = (if h = 0 then Fault_Null
        else if handle_kind_name (handle_kind_of h) = None then Fault_NotAHandle
        else if handle_kind_of h \<noteq> handle_kind_code k then Fault_WrongKind else Fault_Unknown)"
    by (auto simp: fault_for_def classify_handle_fault_def Let_def was_issued_eq)
  ultimately show ?thesis
    using classify_issued [of k table h]
    by (auto simp: resolve_def lease_eq report_handle_fault_def split: option.splits)
qed

section \<open>Exhaustion\<close>

text \<open>Every slot that can still issue a handle is on the stack.\<close>

definition no_leak :: "'o handle_table \<Rightarrow> bool" where
  "no_leak table \<longleftrightarrow> (\<forall>i < length (table_slots table). slot_object (table_slots table ! i) = None
     \<and> slot_generation (table_slots table ! i) \<le> handle_max_generation
     \<longrightarrow> i \<in> unat ` set (free_indices table))"

lemma no_leak_empty: "no_leak empty_table"
  by (simp add: no_leak_def empty_table_def)

lemma insert_no_leak:
  assumes "insert_handle k x table = Some (h, table')" "table_ok table" "no_leak table"
  shows "no_leak table'"
  using assms(1,2)
proof (cases rule: insert_cases)
  case (reuse rest index)
  with assms(3) show ?thesis by (auto simp: no_leak_def nth_list_update)
next
  case fresh
  with assms(3) show ?thesis by (auto simp: no_leak_def nth_append less_Suc_eq)
qed

lemma remove_no_leak:
  assumes "table_ok table" "no_leak table"
  shows "no_leak (snd (remove_handle k table h))"
proof (cases "try_resolve k table h")
  case None
  with assms show ?thesis by simp
next
  case (Some x)
  have i: "length (table_slots table) \<le> 2 ^ 20" "unat (handle_index_of h) < length (table_slots table)"
    using assms(1) Some by (auto simp: table_ok_def try_resolve_eq split: if_splits)
  then have "unat (ucast (handle_index_of h) :: u32) = unat (handle_index_of h)"
    by (simp add: unsigned_ucast_eq take_bit_nat_eq_self)
  with assms(2) i(2) show ?thesis
    by (auto simp: no_leak_def remove_live [OF Some] nth_list_update)
qed

text \<open>
  An insertion fails exactly when all of the table's \<open>2 ^ 20\<close> slots exist and each one
  either holds a live object or has issued its last generation, and insertions and removals keep
  every reusable slot available.
\<close>

theorem insert_fails_only_when_full:
  assumes "table_ok table" "no_leak table"
  shows "(insert_handle k x table = None \<longleftrightarrow> length (table_slots table) = 2 ^ 20
      \<and> (\<forall>s \<in> set (table_slots table). slot_object s \<noteq> None \<or> handle_max_generation < slot_generation s))
    \<and> (\<forall>h table'. insert_handle k x table = Some (h, table') \<longrightarrow> no_leak table')
    \<and> no_leak (snd (remove_handle k table h))"
proof -
  have "free_indices table = [] \<longleftrightarrow> (\<forall>s \<in> set (table_slots table).
      slot_object s \<noteq> None \<or> handle_max_generation < slot_generation s)"
    using assms by (cases "free_indices table")
      (auto simp: no_leak_def table_ok_def all_set_conv_all_nth not_less)
  moreover have "length (table_slots table) \<le> 2 ^ 20" using assms(1) by (simp add: table_ok_def)
  ultimately show ?thesis
    using insert_no_leak [OF _ assms] remove_no_leak [OF assms]
    by (auto simp: insert_handle_def max_numbers Let_def)
qed

theorem insert_fails_only_when_full_witness: "insert_handle Kind_Runtime (0 :: nat) empty_table \<noteq> None"
  using insert_fails_only_when_full [OF table_ok_empty no_leak_empty, of Kind_Runtime "0 :: nat"]
  by (simp add: empty_table_def)

section \<open>A table refines a map\<close>

text \<open>
  The contract of a table as its clients see it: a map from handles to objects and the set of the handles it
  has used. A creation picks any unused handle that is not null, or fails; a release takes the object a handle
  names; a lookup reads it.
\<close>

datatype 'o client_op = Create_object 'o | Release_object u64 | Look_up u64

datatype 'o client_result = Created u64 | Exhausted | Object_of "'o option"

inductive map_step ::
    "(u64 \<rightharpoonup> 'o) \<times> u64 set \<Rightarrow> 'o client_op \<Rightarrow> 'o client_result \<Rightarrow> (u64 \<rightharpoonup> 'o) \<times> u64 set \<Rightarrow> bool" where
  map_create: "h \<notin> used \<Longrightarrow> h \<noteq> 0 \<Longrightarrow>
     map_step (m, used) (Create_object x) (Created h) (m(h \<mapsto> x), insert h used)"
| map_exhausted: "map_step (m, used) (Create_object x) Exhausted (m, used)"
| map_release: "map_step (m, used) (Release_object h) (Object_of (m h)) (m(h := None), used)"
| map_look_up: "map_step (m, used) (Look_up h) (Object_of (m h)) (m, used)"

inductive map_run ::
    "(u64 \<rightharpoonup> 'o) \<times> u64 set \<Rightarrow> 'o client_op list \<Rightarrow> 'o client_result list \<Rightarrow> (u64 \<rightharpoonup> 'o) \<times> u64 set \<Rightarrow> bool" where
  map_run_Nil: "map_run s [] [] s"
| map_run_Cons: "map_step s op r s' \<Longrightarrow> map_run s' ops rs s'' \<Longrightarrow> map_run s (op # ops) (r # rs) s''"

fun table_step :: "handle_kind \<Rightarrow> 'o client_op \<Rightarrow> 'o handle_table \<Rightarrow> 'o client_result \<times> 'o handle_table" where
  "table_step k (Create_object x) table = (case insert_handle k x table of
     None \<Rightarrow> (Exhausted, table) | Some (h, table') \<Rightarrow> (Created h, table'))"
| "table_step k (Release_object h) table = (let (x, table') = remove_handle k table h in (Object_of x, table'))"
| "table_step k (Look_up h) table = (Object_of (try_lease k table h), table)"

fun table_run_ops :: "handle_kind \<Rightarrow> 'o client_op list \<Rightarrow> 'o handle_table \<Rightarrow> 'o client_result list \<times> 'o handle_table" where
  "table_run_ops k [] table = ([], table)"
| "table_run_ops k (op # ops) table =
     (let (r, table1) = table_step k op table; (rs, table2) = table_run_ops k ops table1 in (r # rs, table2))"

definition table_abs :: "handle_kind \<Rightarrow> 'o handle_table \<Rightarrow> (u64 \<rightharpoonup> 'o) \<times> u64 set" where
  "table_abs k table = (try_resolve k table, {h. was_issued k table h})"

lemma table_step_simulates:
  assumes "table_ok table"
  shows "table_ok (snd (table_step k op table))
    \<and> map_step (table_abs k table) op (fst (table_step k op table)) (table_abs k (snd (table_step k op table)))"
proof (cases op)
  case (Create_object x)
  show ?thesis
  proof (cases "insert_handle k x table")
    case None
    with assms Create_object show ?thesis by (simp add: table_abs_def map_exhausted)
  next
    case (Some p)
    then obtain h table' where ins: "insert_handle k x table = Some (h, table')" by (cases p) simp
    have "{h'. was_issued k table' h'} = insert h {h'. was_issued k table h'}"
      using insert_issues [OF ins assms] by auto
    with map_create [of h "{h. was_issued k table h}" "try_resolve k table" x]
      insert_fresh_handle [OF ins assms] insert_resolves [OF ins assms] insert_table_ok [OF ins assms]
    show ?thesis by (simp add: Create_object ins table_abs_def)
  qed
next
  case (Release_object h)
  with assms map_release [of "try_resolve k table" "{h. was_issued k table h}" h] show ?thesis
    by (simp add: table_abs_def remove_table_ok remove_issues remove_resolves remove_result split_beta)
next
  case (Look_up h)
  with assms map_look_up [of "try_resolve k table"] show ?thesis
    by (simp add: table_abs_def try_lease_eq)
qed

text \<open>
  C8: a table refines its contract: whatever its clients do, what each creation, release and lookup
  returns is what a map from handles to objects returns whose creations use fresh handles.
\<close>

theorem table_refines_map:
  assumes "table_ok table"
  shows "case table_run_ops k ops table of (results, table') \<Rightarrow>
    table_ok table' \<and> map_run (table_abs k table) ops results (table_abs k table')"
  using assms
proof (induction ops arbitrary: table)
  case Nil
  then show ?case by (simp add: map_run_Nil)
next
  case (Cons op ops)
  obtain r table1 where step: "table_step k op table = (r, table1)" by fastforce
  with table_step_simulates [OF Cons.prems, of k op] have
    "table_ok table1" "map_step (table_abs k table) op r (table_abs k table1)" by simp_all
  with Cons.IH [of table1] show ?case by (auto simp: step split: prod.splits intro: map_run_Cons)
qed

theorem table_refines_map_witness:
  "case table_run_ops Kind_Map [Create_object CHR ''a'', Look_up (encode_handle Kind_Map 0 1), Release_object 7] empty_table of
     (results, table') \<Rightarrow> map_run (Map.empty, {}) [Create_object CHR ''a'', Look_up (encode_handle Kind_Map 0 1), Release_object 7]
       results (table_abs Kind_Map table')"
proof -
  have "table_abs Kind_Map (empty_table :: char handle_table) = (Map.empty, {})"
    by (simp add: table_abs_def try_resolve_eq fun_eq_iff empty_table_def was_issued_def)
  then show ?thesis
    using table_refines_map [OF table_ok_empty, of Kind_Map "[Create_object CHR ''a'', Look_up (encode_handle Kind_Map 0 1), Release_object 7]"]
    by (auto split: prod.splits)
qed

end
