(* ===== verification/Delivery.thy ===== *)
theory Delivery
  imports Delivery_Events Handles "HOL-Library.Multiset"
begin

text \<open>
  Delivery queues (\<open>src/delivery/delivery_queue.cpp\<close> and \<open>.hpp\<close>): the calls native code queues for the
  thread that dispatches them. A queue's operations are functions from a queue to a queue and the
  effects they have outside its lock (a wake, a host call, a disposal); \<open>dispatch\<close> is the step
  relation of its atomic actions, interleaved with every other operation on the queue and with the
  other dispatches. The linked lists of calls and of held user data are HOL lists.
\<close>

section \<open>Calls\<close>

text \<open>
  What a call's \<open>invoke\<close> does: nothing (a call that only releases user data), a host callback with a copied
  argument record, a span of events, or a wake, whose pending flag it clears first.
\<close>

datatype 'a invocation = No_invoke | Invoke_record 'a | Invoke_events event_item | Invoke_wake nat

record 'a delivery_item =
  item_user_data :: ptr
  item_invoke :: "'a invocation"
  item_callback :: ptr
  item_release :: ptr
  item_discards :: bool
  item_taken :: bool
  item_last_call :: bool

definition make_release_call :: "ptr \<Rightarrow> ptr \<Rightarrow> 'a delivery_item" where
  "make_release_call user_data release = \<lparr>item_user_data = user_data, item_invoke = No_invoke,
     item_callback = 0, item_release = release, item_discards = False, item_taken = False,
     item_last_call = False\<rparr>"

definition make_event_call :: "ptr \<Rightarrow> ptr \<Rightarrow> event_item \<Rightarrow> 'a delivery_item" where
  "make_event_call user_data callback batch = \<lparr>item_user_data = user_data,
     item_invoke = Invoke_events batch, item_callback = callback, item_release = 0,
     item_discards = False, item_taken = False, item_last_call = False\<rparr>"

section \<open>Effects\<close>

datatype 'a effect =
    Wake_notified
  | Wake_closed
  | Host_called "'a delivery_item"
  | Host_released ptr ptr
  | Handles_discarded "'a delivery_item"
  | User_data_abandoned ptr

text \<open>\<open>ItemDeleter\<close>, and \<open>abandon_items\<close> over a list of calls.\<close>

definition destroy_item :: "'a delivery_item \<Rightarrow> 'a effect list" where
  "destroy_item item =
     (if \<not> item_taken item \<and> item_discards item then [Handles_discarded item] else [])"

fun abandon_items :: "bool \<Rightarrow> ptr \<Rightarrow> 'a delivery_item list \<Rightarrow> 'a effect list" where
  "abandon_items exiting abandon [] = []"
| "abandon_items exiting abandon (item # items) =
     (if exiting then []
      else destroy_item item
        @ (if item_last_call item \<and> abandon \<noteq> 0 then [User_data_abandoned (item_user_data item)] else []))
     @ abandon_items exiting abandon items"

definition run_call :: "'a delivery_item \<Rightarrow> 'a effect list" where
  "run_call item =
     (let item = item\<lparr>item_taken := True\<rparr>
      in (if item_invoke item \<noteq> No_invoke then [Host_called item] else [])
         @ (if item_release item \<noteq> 0 then [Host_released (item_release item) (item_user_data item)] else [])
         @ destroy_item item)"

section \<open>The queue\<close>

text \<open>\<open>queue_calls\<close> is the list from \<open>head_\<close> to \<open>tail_\<close>; a held registration is its node and user data.\<close>

record 'a delivery_queue =
  queue_calls :: "'a delivery_item list"
  queue_running :: "'a delivery_item list"
  queue_held :: "(nat \<times> ptr) list"
  queue_closed :: bool
  queue_abandon :: ptr
  queue_has_wake :: bool
  queue_dispatching :: bool
  queue_dispatch_requested :: bool

definition new_queue :: "bool \<Rightarrow> ptr \<Rightarrow> 'a delivery_queue" where
  "new_queue has_wake abandon = \<lparr>queue_calls = [], queue_running = [], queue_held = [],
     queue_closed = False, queue_abandon = abandon, queue_has_wake = has_wake,
     queue_dispatching = False, queue_dispatch_requested = False\<rparr>"

definition unlink_held :: "nat \<Rightarrow> (nat \<times> ptr) list \<Rightarrow> (nat \<times> ptr) list" where
  "unlink_held node held = filter (\<lambda>h. fst h \<noteq> node) held"

text \<open>The result is the hold: the node the queue keeps, or \<open>None\<close> for an empty hold.\<close>

definition hold_user_data ::
    "nat \<Rightarrow> ptr \<Rightarrow> 'a delivery_queue \<Rightarrow> nat option \<times> 'a delivery_queue" where
  "hold_user_data node user_data q =
     (if queue_abandon q = 0 \<or> queue_closed q then (None, q)
      else (Some node, q\<lparr>queue_held := (node, user_data) # queue_held q\<rparr>))"

definition withdraw :: "nat \<Rightarrow> 'a delivery_queue \<Rightarrow> 'a delivery_queue" where
  "withdraw node q =
     (if queue_closed q then q else q\<lparr>queue_held := unlink_held node (queue_held q)\<rparr>)"

text \<open>\<open>AbandonHold::reset\<close>, the destructor of a hold.\<close>

definition reset_hold :: "nat option \<Rightarrow> 'a delivery_queue \<Rightarrow> 'a delivery_queue" where
  "reset_hold hold q = (case hold of None \<Rightarrow> q | Some node \<Rightarrow> withdraw node q)"

definition append_item ::
    "'a delivery_item \<Rightarrow> nat option \<Rightarrow> 'a delivery_queue \<Rightarrow> bool \<times> 'a effect list \<times> 'a delivery_queue" where
  "append_item item settled q =
     (if queue_closed q then (False, [], q)
      else
        let item' = (if settled \<noteq> None then item\<lparr>item_last_call := True\<rparr> else item);
            held = (case settled of None \<Rightarrow> queue_held q | Some node \<Rightarrow> unlink_held node (queue_held q));
            wake = queue_calls q = [] \<and> queue_has_wake q
        in (True, if wake then [Wake_notified] else [],
            q\<lparr>queue_held := held, queue_calls := queue_calls q @ [item']\<rparr>))"

definition push ::
    "bool \<Rightarrow> 'a delivery_item \<Rightarrow> 'a delivery_queue \<Rightarrow> bool \<times> 'a effect list \<times> 'a delivery_queue" where
  "push exiting item q = (if exiting then (True, [], q) else append_item item None q)"

definition push_held ::
    "bool \<Rightarrow> 'a delivery_item \<Rightarrow> nat option \<Rightarrow> 'a delivery_queue
      \<Rightarrow> bool \<times> 'a effect list \<times> 'a delivery_queue" where
  "push_held exiting item hold q =
     (if exiting then (True, [], reset_hold hold q) else append_item item hold q)"

text \<open>The span at the tail of the queue, when it belongs to the same registration.\<close>

definition tail_span :: "ptr \<Rightarrow> ptr \<Rightarrow> 'a delivery_item list \<Rightarrow> event_item option" where
  "tail_span user_data callback calls =
     (if calls = [] then None
      else case item_invoke (last calls) of
          Invoke_events batch \<Rightarrow>
            if item_user_data (last calls) = user_data \<and> item_callback (last calls) = callback
            then Some batch else None
        | _ \<Rightarrow> None)"

text \<open>The result \<open>None\<close> is the exception of an append that fails.\<close>

definition push_event ::
    "bool \<Rightarrow> queued_event \<Rightarrow> ptr \<Rightarrow> ptr \<Rightarrow> 'a delivery_queue
      \<Rightarrow> ('a effect list \<times> 'a delivery_queue) option" where
  "push_event exiting event user_data callback q =
     (if exiting \<or> queue_closed q then Some ([], q)
      else case tail_span user_data callback (queue_calls q) of
          Some batch \<Rightarrow>
            (case append_events [event] batch of
               None \<Rightarrow> None
             | Some batch' \<Rightarrow> Some ([], q\<lparr>queue_calls := butlast (queue_calls q)
                 @ [(last (queue_calls q))\<lparr>item_invoke := Invoke_events batch'\<rparr>]\<rparr>))
        | None \<Rightarrow>
            (case append_events [event] empty_event_item of
               None \<Rightarrow> None
             | Some batch \<Rightarrow> Some (if queue_calls q = [] \<and> queue_has_wake q then [Wake_notified] else [],
                 q\<lparr>queue_calls := queue_calls q @ [make_event_call user_data callback batch]\<rparr>)))"

definition close_queue :: "bool \<Rightarrow> 'a delivery_queue \<Rightarrow> 'a effect list \<times> 'a delivery_queue" where
  "close_queue exiting q =
     (let abandon = (if exiting then 0 else queue_abandon q)
      in ((if queue_has_wake q then [Wake_closed] else [])
          @ abandon_items exiting abandon (queue_running q)
          @ abandon_items exiting abandon (queue_calls q)
          @ (if abandon \<noteq> 0 then map (User_data_abandoned \<circ> snd) (queue_held q) else []),
          q\<lparr>queue_closed := True, queue_running := [], queue_calls := [], queue_held := [],
            queue_has_wake := False\<rparr>))"

text \<open>The first lock of \<open>run_calls\<close>: \<open>False\<close> is its early return.\<close>

definition take_calls :: "bool \<Rightarrow> 'a delivery_queue \<Rightarrow> bool \<times> 'a delivery_queue" where
  "take_calls exiting q =
     (if exiting \<or> queue_closed q then (False, q)
      else (True, q\<lparr>queue_running := queue_calls q, queue_calls := []\<rparr>))"

text \<open>The lock in the loop of \<open>run_calls\<close>: the next call, if there is one.\<close>

definition next_call :: "bool \<Rightarrow> 'a delivery_queue \<Rightarrow> 'a delivery_item option \<times> 'a delivery_queue" where
  "next_call exiting q =
     (if queue_closed q \<or> queue_running q = [] then (None, q)
      else if exiting then (None, q\<lparr>queue_running := []\<rparr>)
      else (Some (hd (queue_running q)), q\<lparr>queue_running := tl (queue_running q)\<rparr>))"

section \<open>Dispatch\<close>

text \<open>
  Where one call of \<open>dispatch()\<close> stands; \<open>acquired\<close> is its local variable. A dispatch that a host call
  makes from inside another is a dispatch of its own.
\<close>

datatype 'a position =
    Not_started
  | Try_acquire bool
  | Holding
  | Take_calls
  | Next_call
  | In_call "'a delivery_item"
  | Releasing
  | Check_request
  | Returned_from bool

text \<open>
  A queued call counts as the single calls it makes: a span of events as its events, in the
  form they wait in, and every other call as itself.
\<close>

datatype 'a single_call = Single_event ptr ptr mln_runtime_event | Single_call "'a delivery_item"

definition single_calls :: "'a delivery_item \<Rightarrow> 'a single_call list" where
  "single_calls item = (case item_invoke item of
     Invoke_events batch \<Rightarrow> map (Single_event (item_user_data item) (item_callback item)) (item_events batch)
   | _ \<Rightarrow> [Single_call item])"

definition all_calls :: "'a delivery_item list \<Rightarrow> 'a single_call list" where
  "all_calls items = concat (map single_calls items)"

definition last_user_data :: "'a delivery_item list \<Rightarrow> ptr list" where
  "last_user_data items = map item_user_data (filter item_last_call items)"

text \<open>
  The state of the system: the queue, the process-exit flag, every dispatch, the holds that
  registrations own, and a record of what happened: the calls accepted, started and dropped, how many
  were accepted when a dispatch last began, whether the receiver was woken since the calls were
  last taken, the user data of every hold accepted, of every hold withdrawn and of every last call
  started, and the effects.
\<close>

record 'a delivery_system =
  sys_queue :: "'a delivery_queue"
  sys_exiting :: bool
  sys_dispatches :: "nat \<Rightarrow> 'a position"
  sys_holds :: "(nat \<times> ptr) list"
  sys_next_node :: nat
  sys_pushed :: "'a single_call list"
  sys_started :: "'a single_call list"
  sys_dropped :: "'a single_call list"
  sys_covered :: nat
  sys_woken :: bool
  sys_held_ever :: "ptr list"
  sys_withdrawn :: "ptr list"
  sys_last_started :: "ptr list"
  sys_effects :: "'a effect list"

definition new_system :: "bool \<Rightarrow> ptr \<Rightarrow> 'a delivery_system" where
  "new_system has_wake abandon = \<lparr>sys_queue = new_queue has_wake abandon, sys_exiting = False,
     sys_dispatches = (\<lambda>_. Not_started), sys_holds = [], sys_next_node = 0, sys_pushed = [],
     sys_started = [], sys_dropped = [], sys_covered = 0, sys_woken = False, sys_held_ever = [],
     sys_withdrawn = [], sys_last_started = [], sys_effects = []\<rparr>"

definition emit :: "'a effect list \<Rightarrow> 'a delivery_queue \<Rightarrow> 'a delivery_system \<Rightarrow> 'a delivery_system" where
  "emit effects q s = s\<lparr>sys_queue := q, sys_effects := sys_effects s @ effects,
     sys_woken := sys_woken s \<or> Wake_notified \<in> set effects\<rparr>"

text \<open>The operations on the system: a push, a hold, the last call of a hold, a withdrawal, an event, a close.\<close>

definition do_push :: "'a delivery_item \<Rightarrow> 'a delivery_system \<Rightarrow> 'a delivery_system" where
  "do_push item s = (case push (sys_exiting s) item (sys_queue s) of (accepted, effects, q) \<Rightarrow>
     (emit effects q s)\<lparr>sys_pushed := sys_pushed s
       @ (if accepted \<and> \<not> sys_exiting s then single_calls item else [])\<rparr>)"

definition do_hold :: "ptr \<Rightarrow> 'a delivery_system \<Rightarrow> 'a delivery_system" where
  "do_hold user_data s = (case hold_user_data (sys_next_node s) user_data (sys_queue s) of
     (None, q) \<Rightarrow> s
   | (Some node, q) \<Rightarrow> s\<lparr>sys_queue := q, sys_next_node := Suc node,
       sys_holds := (node, user_data) # sys_holds s, sys_held_ever := sys_held_ever s @ [user_data]\<rparr>)"

definition do_push_last :: "nat \<times> ptr \<Rightarrow> ptr \<Rightarrow> 'a delivery_system \<Rightarrow> 'a delivery_system" where
  "do_push_last hold release s =
     (case push_held (sys_exiting s) (make_release_call (snd hold) release) (Some (fst hold)) (sys_queue s) of
       (accepted, effects, q) \<Rightarrow>
         (emit effects q s)\<lparr>sys_holds := remove1 hold (sys_holds s),
           sys_pushed := sys_pushed s @ (if accepted \<and> \<not> sys_exiting s
             then single_calls ((make_release_call (snd hold) release)\<lparr>item_last_call := True\<rparr>) else [])\<rparr>)"

definition do_withdraw :: "nat \<times> ptr \<Rightarrow> 'a delivery_system \<Rightarrow> 'a delivery_system" where
  "do_withdraw hold s = s\<lparr>sys_queue := reset_hold (Some (fst hold)) (sys_queue s),
     sys_holds := remove1 hold (sys_holds s),
     sys_withdrawn := sys_withdrawn s @ (if queue_closed (sys_queue s) then [] else [snd hold])\<rparr>"

definition do_push_event :: "queued_event \<Rightarrow> ptr \<Rightarrow> ptr \<Rightarrow> 'a delivery_system \<Rightarrow> 'a delivery_system" where
  "do_push_event event user_data callback s =
     (case push_event (sys_exiting s) event user_data callback (sys_queue s) of
       None \<Rightarrow> s
     | Some (effects, q) \<Rightarrow> (emit effects q s)\<lparr>sys_pushed := sys_pushed s
         @ (if sys_exiting s \<or> queue_closed (sys_queue s) then []
            else [Single_event user_data callback (the (bound_event event))])\<rparr>)"

definition do_close :: "'a delivery_system \<Rightarrow> 'a delivery_system" where
  "do_close s = (case close_queue (sys_exiting s) (sys_queue s) of (effects, q) \<Rightarrow>
     (emit effects q s)\<lparr>sys_dropped := sys_dropped s
       @ all_calls (queue_running (sys_queue s) @ queue_calls (sys_queue s))\<rparr>)"

text \<open>The next atomic action of a dispatch.\<close>

definition move :: "nat \<Rightarrow> 'a position \<Rightarrow> 'a delivery_system \<Rightarrow> 'a delivery_system" where
  "move t p s = s\<lparr>sys_dispatches := (sys_dispatches s)(t := p)\<rparr>"

definition update_queue ::
    "('a delivery_queue \<Rightarrow> 'a delivery_queue) \<Rightarrow> 'a delivery_system \<Rightarrow> 'a delivery_system" where
  "update_queue f s = s\<lparr>sys_queue := f (sys_queue s)\<rparr>"

definition dispatch_action :: "nat \<Rightarrow> 'a delivery_system \<Rightarrow> 'a delivery_system" where
  "dispatch_action t s = (case sys_dispatches s t of
     Not_started \<Rightarrow> move t (Try_acquire False)
       (update_queue (queue_dispatch_requested_update (\<lambda>_. True)) s\<lparr>sys_covered := length (sys_pushed s)\<rparr>)
   | Try_acquire acquired \<Rightarrow>
       if queue_dispatching (sys_queue s) then move t (Returned_from acquired) s
       else move t Holding (update_queue (queue_dispatching_update (\<lambda>_. True)) s)
   | Holding \<Rightarrow>
       if queue_dispatch_requested (sys_queue s)
       then move t Take_calls (update_queue (queue_dispatch_requested_update (\<lambda>_. False)) s)
       else move t Releasing s
   | Take_calls \<Rightarrow> (case take_calls (sys_exiting s) (sys_queue s) of
         (False, q) \<Rightarrow> move t Holding s
       | (True, q) \<Rightarrow> move t Next_call (update_queue (\<lambda>_. q) s\<lparr>sys_woken := False\<rparr>))
   | Next_call \<Rightarrow> (case next_call (sys_exiting s) (sys_queue s) of
         (None, q) \<Rightarrow> move t Holding (update_queue (\<lambda>_. q) s)
       | (Some item, q) \<Rightarrow> move t (In_call item) (update_queue (\<lambda>_. q) s
           \<lparr>sys_started := sys_started s @ single_calls item,
            sys_last_started := sys_last_started s @ last_user_data [item]\<rparr>))
   | In_call item \<Rightarrow> move t Next_call (emit (run_call item) (sys_queue s) s)
   | Releasing \<Rightarrow> move t Check_request (update_queue (queue_dispatching_update (\<lambda>_. False)) s)
   | Check_request \<Rightarrow>
       if queue_dispatch_requested (sys_queue s) then move t (Try_acquire True) s
       else move t (Returned_from True) s
   | Returned_from acquired \<Rightarrow> s)"

inductive delivery_step :: "'a delivery_system \<Rightarrow> 'a delivery_system \<Rightarrow> bool" where
  step_push: "\<not> item_last_call item \<Longrightarrow> delivery_step s (do_push item s)"
| step_hold: "delivery_step s (do_hold user_data s)"
| step_push_last: "hold \<in> set (sys_holds s) \<Longrightarrow> delivery_step s (do_push_last hold release s)"
| step_withdraw: "hold \<in> set (sys_holds s) \<Longrightarrow> delivery_step s (do_withdraw hold s)"
| step_push_event: "delivery_step s (do_push_event event user_data callback s)"
| step_close: "delivery_step s (do_close s)"
| step_exit: "delivery_step s (s\<lparr>sys_exiting := True\<rparr>)"
| step_dispatch: "delivery_step s (dispatch_action t s)"

inductive delivery_reachable :: "bool \<Rightarrow> ptr \<Rightarrow> 'a delivery_system \<Rightarrow> bool" for has_wake abandon where
  start: "delivery_reachable has_wake abandon (new_system has_wake abandon)"
| step: "delivery_reachable has_wake abandon s \<Longrightarrow> delivery_step s s' \<Longrightarrow>
    delivery_reachable has_wake abandon s'"

section \<open>What the operations keep\<close>

lemmas environment_defs = do_push_def do_hold_def do_push_last_def do_withdraw_def do_push_event_def
  do_close_def emit_def push_def push_held_def push_event_def append_item_def hold_user_data_def
  reset_hold_def withdraw_def close_queue_def Let_def

lemmas dispatch_defs = dispatch_action_def move_def update_queue_def take_calls_def next_call_def

text \<open>Every operation but a dispatch leaves the dispatches and the flags they share alone.\<close>

definition same_dispatches :: "'a delivery_system \<Rightarrow> 'a delivery_system \<Rightarrow> bool" where
  "same_dispatches s s' \<longleftrightarrow> sys_dispatches s' = sys_dispatches s
     \<and> queue_dispatching (sys_queue s') = queue_dispatching (sys_queue s)
     \<and> queue_dispatch_requested (sys_queue s') = queue_dispatch_requested (sys_queue s)
     \<and> sys_covered s' = sys_covered s \<and> sys_started s' = sys_started s
     \<and> sys_last_started s' = sys_last_started s
     \<and> (queue_running (sys_queue s') = queue_running (sys_queue s)
         \<or> queue_running (sys_queue s') = [] \<and> queue_closed (sys_queue s'))
     \<and> (queue_closed (sys_queue s) \<longrightarrow> queue_closed (sys_queue s')
         \<and> (queue_calls (sys_queue s) = [] \<longrightarrow> queue_calls (sys_queue s') = []))
     \<and> (queue_closed (sys_queue s') \<longrightarrow> queue_closed (sys_queue s)
         \<or> queue_running (sys_queue s') = [] \<and> queue_calls (sys_queue s') = [])
     \<and> (sys_exiting s \<longrightarrow> sys_exiting s')
     \<and> (\<exists>new. sys_pushed s' = sys_pushed s @ new)"

lemma push_same: "same_dispatches s (do_push item s)"
  by (auto simp: same_dispatches_def environment_defs)

lemma hold_same: "same_dispatches s (do_hold user_data s)"
  by (auto simp: same_dispatches_def environment_defs)

lemma push_last_same: "same_dispatches s (do_push_last hold release s)"
  by (auto simp: same_dispatches_def environment_defs)

lemma withdraw_same: "same_dispatches s (do_withdraw hold s)"
  by (auto simp: same_dispatches_def environment_defs)

lemma push_event_same: "same_dispatches s (do_push_event event user_data callback s)"
  by (auto simp: same_dispatches_def environment_defs split: option.splits)

lemma close_same: "same_dispatches s (do_close s)"
  by (auto simp: same_dispatches_def environment_defs)

lemma exit_same: "same_dispatches s (s\<lparr>sys_exiting := True\<rparr>)"
  by (simp add: same_dispatches_def)

lemmas environment_same = push_same hold_same push_last_same withdraw_same push_event_same close_same
  exit_same

lemma step_cases_dispatch:
  assumes "delivery_step s s'"
  obtains (environment) "same_dispatches s s'" | (dispatch) t where "s' = dispatch_action t s"
  using assms by (cases rule: delivery_step.cases) (auto intro: environment_same)

section \<open>One dispatch at a time, and no request lost\<close>

fun holds_lock :: "'a position \<Rightarrow> bool" where
  "holds_lock Not_started = False"
| "holds_lock (Try_acquire _) = False"
| "holds_lock Check_request = False"
| "holds_lock (Returned_from _) = False"
| "holds_lock _ = True"

fun is_active :: "'a position \<Rightarrow> bool" where
  "is_active Not_started = False"
| "is_active (Returned_from _) = False"
| "is_active _ = True"

fun runs_calls :: "'a position \<Rightarrow> bool" where
  "runs_calls Next_call = True"
| "runs_calls (In_call _) = True"
| "runs_calls _ = False"

text \<open>The dispatch that holds the queue, its position moving with every action.\<close>

definition holders :: "'a delivery_system \<Rightarrow> nat set" where
  "holders s = {t. holds_lock (sys_dispatches s t)}"

definition active :: "'a delivery_system \<Rightarrow> nat set" where
  "active s = {t. is_active (sys_dispatches s t)}"

definition runners :: "'a delivery_system \<Rightarrow> nat set" where
  "runners s = {t. runs_calls (sys_dispatches s t)}"

definition takers :: "'a delivery_system \<Rightarrow> nat set" where
  "takers s = {t. sys_dispatches s t = Take_calls}"

lemmas position_sets = holders_def active_def runners_def takers_def

lemma positions_move:
  "holders (move t p s) = (if holds_lock p then insert t (holders s) else holders s - {t})"
  "active (move t p s) = (if is_active p then insert t (active s) else active s - {t})"
  "runners (move t p s) = (if runs_calls p then insert t (runners s) else runners s - {t})"
  "takers (move t p s) = (if p = Take_calls then insert t (takers s) else takers s - {t})"
  by (auto simp: position_sets move_def)

lemma positions_same:
  "sys_dispatches s' = sys_dispatches s \<Longrightarrow>
     holders s' = holders s \<and> active s' = active s \<and> runners s' = runners s \<and> takers s' = takers s"
  by (simp add: position_sets)

lemma positions_update [simp]:
  "holders (sys_queue_update g0 s) = holders s"
  "holders (sys_covered_update g1 s) = holders s"
  "holders (sys_woken_update g2 s) = holders s"
  "holders (sys_started_update g3 s) = holders s"
  "holders (sys_last_started_update g4 s) = holders s"
  "holders (sys_effects_update g5 s) = holders s"
  "holders (sys_pushed_update g6 s) = holders s"
  "holders (sys_exiting_update g7 s) = holders s"
  "holders (sys_dropped_update g8 s) = holders s"
  "holders (sys_holds_update g9 s) = holders s"
  "holders (sys_next_node_update g10 s) = holders s"
  "holders (sys_held_ever_update g11 s) = holders s"
  "holders (sys_withdrawn_update g12 s) = holders s"
  "active (sys_queue_update g0 s) = active s"
  "active (sys_covered_update g1 s) = active s"
  "active (sys_woken_update g2 s) = active s"
  "active (sys_started_update g3 s) = active s"
  "active (sys_last_started_update g4 s) = active s"
  "active (sys_effects_update g5 s) = active s"
  "active (sys_pushed_update g6 s) = active s"
  "active (sys_exiting_update g7 s) = active s"
  "active (sys_dropped_update g8 s) = active s"
  "active (sys_holds_update g9 s) = active s"
  "active (sys_next_node_update g10 s) = active s"
  "active (sys_held_ever_update g11 s) = active s"
  "active (sys_withdrawn_update g12 s) = active s"
  "runners (sys_queue_update g0 s) = runners s"
  "runners (sys_covered_update g1 s) = runners s"
  "runners (sys_woken_update g2 s) = runners s"
  "runners (sys_started_update g3 s) = runners s"
  "runners (sys_last_started_update g4 s) = runners s"
  "runners (sys_effects_update g5 s) = runners s"
  "runners (sys_pushed_update g6 s) = runners s"
  "runners (sys_exiting_update g7 s) = runners s"
  "runners (sys_dropped_update g8 s) = runners s"
  "runners (sys_holds_update g9 s) = runners s"
  "runners (sys_next_node_update g10 s) = runners s"
  "runners (sys_held_ever_update g11 s) = runners s"
  "runners (sys_withdrawn_update g12 s) = runners s"
  "takers (sys_queue_update g0 s) = takers s"
  "takers (sys_covered_update g1 s) = takers s"
  "takers (sys_woken_update g2 s) = takers s"
  "takers (sys_started_update g3 s) = takers s"
  "takers (sys_last_started_update g4 s) = takers s"
  "takers (sys_effects_update g5 s) = takers s"
  "takers (sys_pushed_update g6 s) = takers s"
  "takers (sys_exiting_update g7 s) = takers s"
  "takers (sys_dropped_update g8 s) = takers s"
  "takers (sys_holds_update g9 s) = takers s"
  "takers (sys_next_node_update g10 s) = takers s"
  "takers (sys_held_ever_update g11 s) = takers s"
  "takers (sys_withdrawn_update g12 s) = takers s"
  by (simp_all add: position_sets)

lemma positions_at:
  "sys_dispatches s t = p \<Longrightarrow> (t \<in> holders s \<longleftrightarrow> holds_lock p) \<and> (t \<in> active s \<longleftrightarrow> is_active p)
     \<and> (t \<in> runners s \<longleftrightarrow> runs_calls p) \<and> (t \<in> takers s \<longleftrightarrow> p = Take_calls)"
  by (auto simp: position_sets)

lemma move_fields [simp]:
  "sys_queue (move t p s) = sys_queue s" "sys_exiting (move t p s) = sys_exiting s"
  "sys_pushed (move t p s) = sys_pushed s" "sys_started (move t p s) = sys_started s"
  "sys_dropped (move t p s) = sys_dropped s" "sys_covered (move t p s) = sys_covered s"
  "sys_woken (move t p s) = sys_woken s" "sys_holds (move t p s) = sys_holds s"
  "sys_next_node (move t p s) = sys_next_node s" "sys_held_ever (move t p s) = sys_held_ever s"
  "sys_withdrawn (move t p s) = sys_withdrawn s" "sys_effects (move t p s) = sys_effects s"
  "sys_last_started (move t p s) = sys_last_started s"
  by (simp_all add: move_def)

text \<open>An action of a dispatch moves its position and changes the queue and the record.\<close>

lemma dispatch_cases:
  obtains (request) "sys_dispatches s t = Not_started"
      "dispatch_action t s = move t (Try_acquire False)
        (s\<lparr>sys_queue := (sys_queue s)\<lparr>queue_dispatch_requested := True\<rparr>, sys_covered := length (sys_pushed s)\<rparr>)"
  | (busy) acquired where "sys_dispatches s t = Try_acquire acquired" "queue_dispatching (sys_queue s)"
      "dispatch_action t s = move t (Returned_from acquired) s"
  | (acquire) acquired where "sys_dispatches s t = Try_acquire acquired" "\<not> queue_dispatching (sys_queue s)"
      "dispatch_action t s = move t Holding (s\<lparr>sys_queue := (sys_queue s)\<lparr>queue_dispatching := True\<rparr>\<rparr>)"
  | (accept) "sys_dispatches s t = Holding" "queue_dispatch_requested (sys_queue s)"
      "dispatch_action t s = move t Take_calls
        (s\<lparr>sys_queue := (sys_queue s)\<lparr>queue_dispatch_requested := False\<rparr>\<rparr>)"
  | (stop) "sys_dispatches s t = Holding" "\<not> queue_dispatch_requested (sys_queue s)"
      "dispatch_action t s = move t Releasing s"
  | (take_none) "sys_dispatches s t = Take_calls" "sys_exiting s \<or> queue_closed (sys_queue s)"
      "dispatch_action t s = move t Holding s"
  | (take_all) "sys_dispatches s t = Take_calls" "\<not> sys_exiting s" "\<not> queue_closed (sys_queue s)"
      "dispatch_action t s = move t Next_call (s\<lparr>sys_queue := (sys_queue s)
        \<lparr>queue_running := queue_calls (sys_queue s), queue_calls := []\<rparr>, sys_woken := False\<rparr>)"
  | (no_more) "sys_dispatches s t = Next_call"
      "queue_closed (sys_queue s) \<or> queue_running (sys_queue s) = []" "dispatch_action t s = move t Holding s"
  | (exit_running) "sys_dispatches s t = Next_call" "sys_exiting s"
      "dispatch_action t s = move t Holding (s\<lparr>sys_queue := (sys_queue s)\<lparr>queue_running := []\<rparr>\<rparr>)"
  | (one) item rest where "sys_dispatches s t = Next_call" "\<not> queue_closed (sys_queue s)" "\<not> sys_exiting s"
      "queue_running (sys_queue s) = item # rest"
      "dispatch_action t s = move t (In_call item) (s\<lparr>sys_queue := (sys_queue s)\<lparr>queue_running := rest\<rparr>,
        sys_started := sys_started s @ single_calls item,
        sys_last_started := sys_last_started s @ last_user_data [item]\<rparr>)"
  | (run) item where "sys_dispatches s t = In_call item"
      "dispatch_action t s = move t Next_call (emit (run_call item) (sys_queue s) s)"
  | (unlock) "sys_dispatches s t = Releasing"
      "dispatch_action t s = move t Check_request (s\<lparr>sys_queue := (sys_queue s)\<lparr>queue_dispatching := False\<rparr>\<rparr>)"
  | (again) "sys_dispatches s t = Check_request" "queue_dispatch_requested (sys_queue s)"
      "dispatch_action t s = move t (Try_acquire True) s"
  | (finish) "sys_dispatches s t = Check_request" "\<not> queue_dispatch_requested (sys_queue s)"
      "dispatch_action t s = move t (Returned_from True) s"
  | (returned) acquired where "sys_dispatches s t = Returned_from acquired" "dispatch_action t s = s"
proof (cases "sys_dispatches s t")
  case Not_started
  then show thesis by (intro request) (simp_all add: dispatch_action_def update_queue_def)
next
  case (Try_acquire acquired)
  show thesis
  proof (cases "queue_dispatching (sys_queue s)")
    case True
    then show thesis using Try_acquire by (intro busy) (simp_all add: dispatch_action_def update_queue_def)
  next
    case False
    then show thesis using Try_acquire by (intro acquire) (simp_all add: dispatch_action_def update_queue_def)
  qed
next
  case Holding
  show thesis
  proof (cases "queue_dispatch_requested (sys_queue s)")
    case True
    then show thesis using Holding by (intro accept) (simp_all add: dispatch_action_def update_queue_def)
  next
    case False
    then show thesis using Holding by (intro stop) (simp_all add: dispatch_action_def update_queue_def)
  qed
next
  case Take_calls
  show thesis
  proof (cases "sys_exiting s \<or> queue_closed (sys_queue s)")
    case True
    then show thesis using Take_calls by (intro take_none) (simp_all add: dispatch_action_def update_queue_def take_calls_def)
  next
    case False
    then show thesis using Take_calls by (intro take_all) (simp_all add: dispatch_action_def update_queue_def take_calls_def)
  qed
next
  case Next_call
  consider "queue_closed (sys_queue s) \<or> queue_running (sys_queue s) = []"
    | "sys_exiting s" "\<not> queue_closed (sys_queue s)" "queue_running (sys_queue s) \<noteq> []"
    | item rest where "\<not> sys_exiting s" "\<not> queue_closed (sys_queue s)" "queue_running (sys_queue s) = item # rest"
    by (cases "queue_running (sys_queue s)") auto
  then show thesis
  proof cases
    case 1
    with Next_call show thesis
      by (intro no_more) (simp_all add: dispatch_action_def next_call_def update_queue_def)
  next
    case 2
    with Next_call show thesis
      by (intro exit_running) (simp_all add: dispatch_action_def next_call_def update_queue_def)
  next
    case 3
    with Next_call show thesis
      by (intro one) (simp_all add: dispatch_action_def next_call_def update_queue_def)
  qed
next
  case (In_call item)
  then show thesis by (intro run) (simp_all add: dispatch_action_def)
next
  case Releasing
  then show thesis by (intro unlock) (simp_all add: dispatch_action_def update_queue_def)
next
  case Check_request
  show thesis
  proof (cases "queue_dispatch_requested (sys_queue s)")
    case True
    then show thesis using Check_request by (intro again) (simp_all add: dispatch_action_def)
  next
    case False
    then show thesis using Check_request by (intro finish) (simp_all add: dispatch_action_def)
  qed
next
  case (Returned_from acquired)
  then show thesis by (intro returned) (simp_all add: dispatch_action_def)
qed

definition lock_ok :: "'a delivery_system \<Rightarrow> bool" where
  "lock_ok s \<longleftrightarrow> (\<forall>t \<in> holders s. \<forall>u \<in> holders s. t = u)
     \<and> (queue_dispatching (sys_queue s) \<longleftrightarrow> holders s \<noteq> {})"

definition request_ok :: "'a delivery_system \<Rightarrow> bool" where
  "request_ok s \<longleftrightarrow> (queue_dispatch_requested (sys_queue s) \<longrightarrow> active s \<noteq> {})"

definition running_ok :: "'a delivery_system \<Rightarrow> bool" where
  "running_ok s \<longleftrightarrow> (queue_running (sys_queue s) \<noteq> [] \<longrightarrow> runners s \<noteq> {})
     \<and> (queue_closed (sys_queue s) \<longrightarrow> queue_running (sys_queue s) = [] \<and> queue_calls (sys_queue s) = [])"

lemma position_order: "runners s \<subseteq> holders s" "takers s \<subseteq> holders s" "holders s \<subseteq> active s"
  "runners s \<inter> takers s = {}"
proof -
  have "runs_calls p \<Longrightarrow> holds_lock p \<and> p \<noteq> Take_calls" "holds_lock p \<Longrightarrow> is_active p" for p :: "'a position"
    by (cases p; simp)+
  then show "runners s \<subseteq> holders s" "takers s \<subseteq> holders s" "holders s \<subseteq> active s"
    "runners s \<inter> takers s = {}"
    by (auto simp: position_sets)
qed

lemma lock_ok_unique: "lock_ok s \<Longrightarrow> t \<in> holders s \<Longrightarrow> holders s = {t}"
  by (auto simp: lock_ok_def)

lemma environment_ok:
  assumes "same_dispatches s s'"
  shows "lock_ok s \<Longrightarrow> lock_ok s'" "request_ok s \<Longrightarrow> request_ok s'" "running_ok s \<Longrightarrow> running_ok s'"
  using assms positions_same [of s' s]
  by (auto simp: same_dispatches_def lock_ok_def request_ok_def running_ok_def)

lemma lock_ok_dispatch: "lock_ok s \<Longrightarrow> lock_ok (dispatch_action t s)"
  by (cases rule: dispatch_cases [of s t])
    (auto simp: lock_ok_def positions_move emit_def dest!: positions_at)

lemma request_ok_dispatch: "lock_ok s \<Longrightarrow> request_ok s \<Longrightarrow> request_ok (dispatch_action t s)"
  using position_order(3) [of s]
  by (cases rule: dispatch_cases [of s t])
    (auto simp: lock_ok_def request_ok_def positions_move emit_def dest!: positions_at)

lemma running_ok_dispatch: "lock_ok s \<Longrightarrow> running_ok s \<Longrightarrow> running_ok (dispatch_action t s)"
  using position_order(1) [of s]
  by (cases rule: dispatch_cases [of s t])
    (auto simp: lock_ok_def running_ok_def positions_move emit_def dest!: positions_at)

section \<open>Every accepted call starts once, in order\<close>

lemma all_calls_simps [simp]:
  "all_calls [] = []" "all_calls (item # items) = single_calls item @ all_calls items"
  "all_calls (items @ items') = all_calls items @ all_calls items'"
  by (simp_all add: all_calls_def)

lemma last_user_data_simps [simp]:
  "last_user_data [] = []"
  "last_user_data (item # items) = (if item_last_call item then [item_user_data item] else []) @ last_user_data items"
  "last_user_data (items @ items') = last_user_data items @ last_user_data items'"
  by (simp_all add: last_user_data_def)

text \<open>An event is dropped, joins the span at the tail of the queue, or starts a span.\<close>

lemma event_cases:
  obtains (nothing) "do_push_event event user_data callback s = s"
  | (join) calls call batch batch' e where "\<not> sys_exiting s" "\<not> queue_closed (sys_queue s)"
      "queue_calls (sys_queue s) = calls @ [call]" "item_invoke call = Invoke_events batch"
      "item_user_data call = user_data" "item_callback call = callback"
      "item_events batch' = item_events batch @ [e]"
      "do_push_event event user_data callback s = s\<lparr>sys_queue := (sys_queue s)
         \<lparr>queue_calls := calls @ [call\<lparr>item_invoke := Invoke_events batch'\<rparr>]\<rparr>,
         sys_pushed := sys_pushed s @ [Single_event user_data callback e]\<rparr>"
  | (alone) batch e where "\<not> sys_exiting s" "\<not> queue_closed (sys_queue s)" "item_events batch = [e]"
      "do_push_event event user_data callback s = (emit
         (if queue_calls (sys_queue s) = [] \<and> queue_has_wake (sys_queue s) then [Wake_notified] else [])
         ((sys_queue s)\<lparr>queue_calls := queue_calls (sys_queue s) @ [make_event_call user_data callback batch]\<rparr>) s)
         \<lparr>sys_pushed := sys_pushed s @ [Single_event user_data callback e]\<rparr>"
proof (cases "sys_exiting s \<or> queue_closed (sys_queue s)")
  case True
  then have "do_push_event event user_data callback s = s"
    by (cases s) (auto simp: do_push_event_def push_event_def emit_def)
  then show thesis by (rule nothing)
next
  case False
  show thesis
  proof (cases "tail_span user_data callback (queue_calls (sys_queue s))")
    case None
    show thesis
    proof (cases "append_events [event] empty_event_item")
      case none: None
      with None False have "do_push_event event user_data callback s = s"
        by (simp add: do_push_event_def push_event_def)
      then show thesis by (rule nothing)
    next
      case (Some batch)
      with append_events_one [OF this] None False show thesis
        by (intro alone [of batch "the (bound_event event)"])
          (auto simp: do_push_event_def push_event_def empty_event_item_def)
    qed
  next
    case (Some batch)
    then obtain calls call where calls: "queue_calls (sys_queue s) = calls @ [call]"
      "item_invoke call = Invoke_events batch" "item_user_data call = user_data" "item_callback call = callback"
      by (cases "queue_calls (sys_queue s)" rule: rev_cases)
        (auto simp: tail_span_def split: invocation.splits if_splits)
    show thesis
    proof (cases "append_events [event] batch")
      case None
      with Some False have "do_push_event event user_data callback s = s"
        by (simp add: do_push_event_def push_event_def)
      then show thesis by (rule nothing)
    next
      case join': (Some batch')
      with append_events_one [OF this] Some False calls show thesis
        by (intro join [of calls call batch batch' "the (bound_event event)"])
          (auto simp: do_push_event_def push_event_def emit_def)
    qed
  qed
qed

lemma event_calls:
  "item_invoke call = Invoke_events batch \<Longrightarrow>
     single_calls call = map (Single_event (item_user_data call) (item_callback call)) (item_events batch)"
  "single_calls (call\<lparr>item_invoke := Invoke_events batch\<rparr>)
     = map (Single_event (item_user_data call) (item_callback call)) (item_events batch)"
  "single_calls (make_event_call user_data callback batch)
     = map (Single_event user_data callback) (item_events batch)"
  "\<not> item_last_call (make_event_call user_data callback batch)"
  by (simp_all add: single_calls_def make_event_call_def)

definition order_ok :: "'a delivery_system \<Rightarrow> bool" where
  "order_ok s \<longleftrightarrow> (\<not> sys_exiting s \<longrightarrow>
       sys_pushed s = sys_started s
         @ all_calls (queue_running (sys_queue s) @ queue_calls (sys_queue s)) @ sys_dropped s
     \<and> (\<not> queue_closed (sys_queue s) \<longrightarrow> sys_dropped s = []))"

definition wake_ok :: "bool \<Rightarrow> 'a delivery_system \<Rightarrow> bool" where
  "wake_ok has_wake s \<longleftrightarrow> (\<not> queue_closed (sys_queue s) \<longrightarrow> queue_has_wake (sys_queue s) = has_wake
     \<and> (has_wake \<and> queue_calls (sys_queue s) \<noteq> [] \<longrightarrow> sys_woken s))"

definition cover_ok :: "'a delivery_system \<Rightarrow> bool" where
  "cover_ok s \<longleftrightarrow> sys_covered s \<le> length (sys_pushed s)
     \<and> (\<not> queue_closed (sys_queue s) \<longrightarrow> \<not> sys_exiting s \<longrightarrow>
         queue_dispatch_requested (sys_queue s) \<or> takers s \<noteq> {}
         \<or> sys_covered s \<le> length (sys_started s @ all_calls (queue_running (sys_queue s))))"

lemma order_ok_environment:
  assumes "running_ok s" "order_ok s"
  shows "order_ok (do_push item s)" "order_ok (do_hold user_data s)" "order_ok (do_push_last hold release s)"
    "order_ok (do_withdraw hold s)" "order_ok (do_close s)" "order_ok (s\<lparr>sys_exiting := True\<rparr>)"
  using assms by (auto simp: order_ok_def running_ok_def environment_defs split: if_splits)

lemma order_ok_event:
  assumes "running_ok s" "order_ok s"
  shows "order_ok (do_push_event event user_data callback s)"
  using assms
  by (cases rule: event_cases [of event user_data callback s])
    (auto simp: order_ok_def running_ok_def emit_def event_calls)

lemma order_ok_dispatch:
  assumes "lock_ok s" "running_ok s" "order_ok s"
  shows "order_ok (dispatch_action t s)"
proof (cases rule: dispatch_cases [of s t])
  case take_all
  then have "t \<in> takers s" using positions_at by blast
  then have "holders s = {t}" "t \<notin> runners s"
    using lock_ok_unique [OF assms(1)] position_order [of s] by auto
  then have "queue_running (sys_queue s) = []"
    using assms(2) position_order(1) [of s] by (auto simp: running_ok_def)
  with take_all assms(3) show ?thesis by (simp add: order_ok_def)
qed (use assms(3) in \<open>auto simp: order_ok_def emit_def\<close>)

lemma wake_ok_environment:
  assumes "wake_ok has_wake s"
  shows "wake_ok has_wake (do_push item s)" "wake_ok has_wake (do_hold user_data s)"
    "wake_ok has_wake (do_push_last hold release s)" "wake_ok has_wake (do_withdraw hold s)"
    "wake_ok has_wake (do_close s)" "wake_ok has_wake (s\<lparr>sys_exiting := True\<rparr>)"
  using assms by (auto simp: wake_ok_def environment_defs)

lemma wake_ok_event:
  assumes "wake_ok has_wake s"
  shows "wake_ok has_wake (do_push_event event user_data callback s)"
  using assms
  by (cases rule: event_cases [of event user_data callback s]) (auto simp: wake_ok_def emit_def)

lemma wake_ok_dispatch: "wake_ok has_wake s \<Longrightarrow> wake_ok has_wake (dispatch_action t s)"
  by (cases rule: dispatch_cases [of s t]) (auto simp: wake_ok_def emit_def)

section \<open>No queued call outlives the dispatches asked for it\<close>

lemma cover_ok_environment: "same_dispatches s s' \<Longrightarrow> cover_ok s \<Longrightarrow> cover_ok s'"
  using positions_same [of s' s] by (auto simp: same_dispatches_def cover_ok_def)

lemma cover_ok_dispatch:
  assumes "lock_ok s" "running_ok s" "order_ok s" "cover_ok s"
  shows "cover_ok (dispatch_action t s)"
proof (cases rule: dispatch_cases [of s t])
  case take_all
  then have "t \<in> takers s" using positions_at by blast
  then have "holders s = {t}" "t \<notin> runners s"
    using lock_ok_unique [OF assms(1)] position_order [of s] by auto
  then have "queue_running (sys_queue s) = []"
    using assms(2) position_order(1) [of s] by (auto simp: running_ok_def)
  with take_all assms(3,4) show ?thesis by (auto simp: order_ok_def cover_ok_def)
qed (use assms(4) in \<open>auto simp: cover_ok_def emit_def positions_move dest!: positions_at\<close>)

section \<open>Held user data leaves the queue once\<close>

definition abandoned_of :: "'a effect list \<Rightarrow> ptr list" where
  "abandoned_of effects = concat (map (\<lambda>e. case e of User_data_abandoned p \<Rightarrow> [p] | _ \<Rightarrow> []) effects)"

lemma abandoned_of_simps [simp]:
  "abandoned_of [] = []" "abandoned_of (es @ es') = abandoned_of es @ abandoned_of es'"
  "abandoned_of (User_data_abandoned p # es) = p # abandoned_of es"
  "abandoned_of (Wake_notified # es) = abandoned_of es" "abandoned_of (Wake_closed # es) = abandoned_of es"
  "abandoned_of (Host_called item # es) = abandoned_of es"
  "abandoned_of (Host_released r p # es) = abandoned_of es"
  "abandoned_of (Handles_discarded item # es) = abandoned_of es"
  by (simp_all add: abandoned_of_def)

lemma abandoned_of_items:
  "abandoned_of (abandon_items False abandon items) = (if abandon = 0 then [] else last_user_data items)"
  by (induction items) (auto simp: destroy_item_def)

lemma abandoned_of_held: "abandoned_of (map (User_data_abandoned \<circ> snd) held) = map snd held"
  by (induction held) auto

lemma abandoned_of_run [simp]: "abandoned_of (run_call item) = []"
  by (simp add: run_call_def destroy_item_def Let_def)

lemma unlink_held_remove:
  "distinct (map fst held) \<Longrightarrow> hold \<in> set held \<Longrightarrow> unlink_held (fst hold) held = remove1 hold held"
proof (induction held)
  case (Cons h held)
  show ?case
  proof (cases "h = hold")
    case True
    with Cons.prems(1) have "fst hold \<notin> fst ` set held" by simp
    then have "filter (\<lambda>k. fst k \<noteq> fst hold) held = held" by (metis (mono_tags, lifting) filter_True image_eqI)
    with True show ?thesis by (simp add: unlink_held_def)
  next
    case False
    with Cons have "fst h \<noteq> fst hold" by (auto simp: rev_image_eqI)
    with False Cons show ?thesis by (simp add: unlink_held_def)
  qed
qed simp

lemma mset_remove_held:
  "hold \<in> set held \<Longrightarrow> mset (map snd held) = add_mset (snd hold) (mset (map snd (remove1 hold held)))"
  by (induction held) auto

definition held_ok :: "ptr \<Rightarrow> 'a delivery_system \<Rightarrow> bool" where
  "held_ok abandon s \<longleftrightarrow> queue_abandon (sys_queue s) = abandon
     \<and> (abandon = 0 \<longrightarrow> sys_held_ever s = [])
     \<and> (queue_closed (sys_queue s) \<longrightarrow> queue_held (sys_queue s) = [])
     \<and> (\<not> queue_closed (sys_queue s) \<longrightarrow> queue_held (sys_queue s) = sys_holds s)
     \<and> distinct (map fst (queue_held (sys_queue s)))
     \<and> (\<forall>h \<in> set (queue_held (sys_queue s)). fst h < sys_next_node s)
     \<and> (\<not> sys_exiting s \<longrightarrow> mset (sys_held_ever s) = mset (map snd (queue_held (sys_queue s)))
         + mset (last_user_data (queue_running (sys_queue s) @ queue_calls (sys_queue s)))
         + mset (sys_last_started s) + mset (sys_withdrawn s) + mset (abandoned_of (sys_effects s)))"

lemma held_ok_push:
  assumes "held_ok abandon s" "\<not> item_last_call item"
  shows "held_ok abandon (do_push item s)"
  using assms by (auto simp: held_ok_def environment_defs)

lemma held_ok_exit: "held_ok abandon s \<Longrightarrow> held_ok abandon (s\<lparr>sys_exiting := True\<rparr>)"
  by (simp add: held_ok_def)

lemma held_ok_hold:
  assumes "held_ok abandon s"
  shows "held_ok abandon (do_hold user_data s)"
proof (cases "queue_abandon (sys_queue s) = 0 \<or> queue_closed (sys_queue s)")
  case True
  then have "do_hold user_data s = s" by (simp add: do_hold_def hold_user_data_def)
  with assms show ?thesis by simp
next
  case False
  have nodes: "\<forall>h \<in> set (queue_held (sys_queue s)). fst h < sys_next_node s"
    using assms by (simp add: held_ok_def)
  then have "sys_next_node s \<notin> fst ` set (queue_held (sys_queue s))" by auto
  moreover have "\<forall>h \<in> set (queue_held (sys_queue s)). fst h < Suc (sys_next_node s)"
    using nodes by (simp add: less_SucI)
  ultimately show ?thesis
    using False assms by (auto simp: held_ok_def do_hold_def hold_user_data_def)
qed

lemma distinct_nodes_remove: "distinct (map fst held) \<Longrightarrow> distinct (map fst (remove1 hold held))"
  by (induction held) (auto dest: set_remove1_subset [THEN subsetD] intro: rev_image_eqI)

lemma held_ok_settle:
  assumes "running_ok s" "held_ok abandon s" "hold \<in> set (sys_holds s)"
  shows "held_ok abandon (do_push_last hold release s)" "held_ok abandon (do_withdraw hold s)"
proof -
  have "held_ok abandon (do_push_last hold release s) \<and> held_ok abandon (do_withdraw hold s)"
  proof (cases "queue_closed (sys_queue s)")
    case True
    with assms show ?thesis by (simp add: held_ok_def environment_defs)
  next
    case False
    with assms(2) have held: "queue_held (sys_queue s) = sys_holds s"
      and distinct: "distinct (map fst (sys_holds s))" by (auto simp: held_ok_def)
    define holds where "holds = remove1 hold (sys_holds s)"
    have unlink: "unlink_held (fst hold) (sys_holds s) = holds"
      unfolding holds_def using distinct assms(3) by (rule unlink_held_remove)
    have rest: "distinct (map fst holds)" "\<forall>h \<in> set holds. fst h < sys_next_node s"
      using distinct_nodes_remove [OF distinct] assms(2) held
      by (auto simp: held_ok_def holds_def dest: set_remove1_subset [THEN subsetD])
    have whole: "mset (map snd (sys_holds s)) = add_mset (snd hold) (mset (map snd holds))"
      unfolding holds_def using assms(3) by (rule mset_remove_held)
    have account: "\<not> sys_exiting s \<Longrightarrow> mset (sys_held_ever s) = add_mset (snd hold) (mset (map snd holds)
        + mset (last_user_data (queue_running (sys_queue s) @ queue_calls (sys_queue s)))
        + mset (sys_last_started s) + mset (sys_withdrawn s) + mset (abandoned_of (sys_effects s)))"
      using assms(2) by (simp only: held_ok_def held whole) simp
    have same: "queue_abandon (sys_queue s) = abandon" "abandon = 0 \<Longrightarrow> sys_held_ever s = []"
      using assms(2) by (simp_all add: held_ok_def)
    have "held_ok abandon (do_withdraw hold s)"
      using False held unlink rest account same
      by (simp add: held_ok_def do_withdraw_def reset_hold_def withdraw_def flip: holds_def)
    moreover have "held_ok abandon (do_push_last hold release s)"
      using False held unlink rest account same
      by (simp add: held_ok_def do_push_last_def push_held_def reset_hold_def withdraw_def
          append_item_def emit_def make_release_call_def flip: holds_def)
    ultimately show ?thesis by simp
  qed
  then show "held_ok abandon (do_push_last hold release s)" "held_ok abandon (do_withdraw hold s)"
    by simp_all
qed

lemma held_ok_event:
  assumes "held_ok abandon s"
  shows "held_ok abandon (do_push_event event user_data callback s)"
  using assms
  by (cases rule: event_cases [of event user_data callback s])
    (auto simp: held_ok_def emit_def event_calls)

lemma held_ok_close:
  assumes "held_ok abandon s"
  shows "held_ok abandon (do_close s)"
  using assms
  by (auto simp: held_ok_def do_close_def close_queue_def emit_def abandoned_of_items abandoned_of_held Let_def)

lemma held_ok_dispatch:
  assumes "lock_ok s" "running_ok s" "held_ok abandon s"
  shows "held_ok abandon (dispatch_action t s)"
proof (cases rule: dispatch_cases [of s t])
  case take_all
  then have "t \<in> takers s" using positions_at by blast
  then have "holders s = {t}" "t \<notin> runners s"
    using lock_ok_unique [OF assms(1)] position_order [of s] by auto
  then have "queue_running (sys_queue s) = []"
    using assms(2) position_order(1) [of s] by (auto simp: running_ok_def)
  with take_all assms(3) show ?thesis by (auto simp: held_ok_def)
qed (use assms(3) in \<open>auto simp: held_ok_def emit_def\<close>)

section \<open>Every reachable state\<close>

definition system_ok :: "bool \<Rightarrow> ptr \<Rightarrow> 'a delivery_system \<Rightarrow> bool" where
  "system_ok has_wake abandon s \<longleftrightarrow> lock_ok s \<and> request_ok s \<and> running_ok s \<and> order_ok s
     \<and> wake_ok has_wake s \<and> cover_ok s \<and> held_ok abandon s"

lemma system_ok_new: "system_ok has_wake abandon (new_system has_wake abandon)"
  by (simp add: system_ok_def lock_ok_def request_ok_def running_ok_def order_ok_def wake_ok_def
      cover_ok_def held_ok_def new_system_def new_queue_def position_sets)

lemma system_ok_step:
  assumes "delivery_step s s'" "system_ok has_wake abandon s"
  shows "system_ok has_wake abandon s'"
  using assms(1)
proof cases
  case (step_push item)
  with assms(2) show ?thesis
    by (auto simp: system_ok_def held_ok_push
        intro: environment_ok push_same order_ok_environment wake_ok_environment cover_ok_environment)
next
  case (step_hold user_data)
  with assms(2) show ?thesis
    by (auto simp: system_ok_def held_ok_hold
        intro: environment_ok hold_same order_ok_environment wake_ok_environment cover_ok_environment)
next
  case (step_push_last hold release)
  with assms(2) show ?thesis
    by (auto simp: system_ok_def held_ok_settle
        intro: environment_ok push_last_same order_ok_environment wake_ok_environment cover_ok_environment)
next
  case (step_withdraw hold)
  with assms(2) show ?thesis
    by (auto simp: system_ok_def held_ok_settle
        intro: environment_ok withdraw_same order_ok_environment wake_ok_environment cover_ok_environment)
next
  case (step_push_event event user_data callback)
  with assms(2) show ?thesis
    by (auto simp: system_ok_def held_ok_event order_ok_event wake_ok_event
        intro: environment_ok push_event_same cover_ok_environment)
next
  case step_close
  with assms(2) show ?thesis
    by (auto simp: system_ok_def held_ok_close
        intro: environment_ok close_same order_ok_environment wake_ok_environment cover_ok_environment)
next
  case step_exit
  with assms(2) show ?thesis
    by (auto simp: system_ok_def held_ok_exit
        intro: environment_ok exit_same order_ok_environment wake_ok_environment cover_ok_environment)
next
  case (step_dispatch t)
  with assms(2) show ?thesis
    by (simp add: system_ok_def lock_ok_dispatch request_ok_dispatch running_ok_dispatch
        order_ok_dispatch wake_ok_dispatch cover_ok_dispatch held_ok_dispatch)
qed

lemma reachable_ok: "delivery_reachable has_wake abandon s \<Longrightarrow> system_ok has_wake abandon s"
  by (induction rule: delivery_reachable.induct) (auto intro: system_ok_new system_ok_step)

lemmas reachable_parts = reachable_ok [unfolded system_ok_def]

text \<open>
  C10: in every interleaving of pushes, events, holds, dispatches, releases and closes, until the process
  exits, the calls a queue accepted are exactly the calls that started, then those that
  wait, then those dropped: every call starts at most once, in the order it was accepted,
  none is dropped while the queue is open, and none waits once it is closed.
\<close>

theorem delivery_runs_calls_in_order:
  assumes "delivery_reachable has_wake abandon s" "\<not> sys_exiting s"
  shows "sys_pushed s = sys_started s @ all_calls (queue_running (sys_queue s) @ queue_calls (sys_queue s))
      @ sys_dropped s
    \<and> (\<not> queue_closed (sys_queue s) \<longrightarrow> sys_dropped s = [])
    \<and> (queue_closed (sys_queue s) \<longrightarrow> queue_running (sys_queue s) = [] \<and> queue_calls (sys_queue s) = [])"
  using assms reachable_ok [OF assms(1)] by (simp add: system_ok_def order_ok_def running_ok_def)

theorem delivery_runs_calls_in_order_witness:
  "let item = make_release_call 7 9 :: nat delivery_item; s = do_close (do_push item (new_system True 0))
   in sys_pushed s = [Single_call item] \<and> sys_pushed s = sys_started s @ sys_dropped s"
proof -
  let ?item = "make_release_call 7 9 :: nat delivery_item"
  let ?s = "do_close (do_push ?item (new_system True 0))"
  have "delivery_reachable True 0 ?s"
    by (rule delivery_reachable.step [OF delivery_reachable.step [OF delivery_reachable.start step_push] step_close])
      (simp add: make_release_call_def)
  moreover have "sys_pushed ?s = [Single_call ?item]" "\<not> sys_exiting ?s" "queue_closed (sys_queue ?s)"
    by (simp_all add: environment_defs new_system_def new_queue_def single_calls_def make_release_call_def)
  ultimately show ?thesis
    using delivery_runs_calls_in_order [of True 0 ?s] by (simp add: Let_def)
qed



text \<open>
  C12: no dispatch request is lost. When no dispatch is under way any more, whatever the interleaving was,
  no request is pending and the queue is not held, and on an open queue every call that was
  queued before any of the dispatches began, one that found the queue busy included, has
  started.
\<close>

theorem no_dispatch_request_lost:
  assumes "delivery_reachable has_wake abandon s" "active s = {}"
  shows "\<not> queue_dispatch_requested (sys_queue s) \<and> \<not> queue_dispatching (sys_queue s)
    \<and> queue_running (sys_queue s) = []
    \<and> (\<not> queue_closed (sys_queue s) \<and> \<not> sys_exiting s \<longrightarrow>
        take (sys_covered s) (sys_pushed s) = take (sys_covered s) (sys_started s)
        \<and> sys_covered s \<le> length (sys_started s))"
proof -
  note ok = reachable_ok [OF assms(1), unfolded system_ok_def]
  have empty: "holders s = {}" "runners s = {}" "takers s = {}"
    using assms(2) position_order [of s] by auto
  then have "\<not> queue_dispatch_requested (sys_queue s)" "\<not> queue_dispatching (sys_queue s)"
    "queue_running (sys_queue s) = []"
    using ok assms(2) by (auto simp: lock_ok_def request_ok_def running_ok_def)
  moreover from this have "sys_covered s \<le> length (sys_started s)"
    if "\<not> queue_closed (sys_queue s)" "\<not> sys_exiting s"
    using that ok empty by (simp add: cover_ok_def)
  ultimately show ?thesis
    using ok by (auto simp: order_ok_def)
qed

theorem no_dispatch_request_lost_witness:
  "let item = make_release_call 7 9 :: nat delivery_item;
       s = (dispatch_action 0 ^^ 10) (do_push item (new_system False 0))
   in sys_dispatches s 0 = Returned_from True \<and> take 1 (sys_started s) = [Single_call item]"
proof -
  let ?item = "make_release_call 7 9 :: nat delivery_item"
  let ?a = "do_push ?item (new_system False 0)"
  let ?s = "(dispatch_action 0 ^^ 10) ?a"
  have a: "delivery_reachable False 0 ?a"
    by (rule delivery_reachable.step [OF delivery_reachable.start step_push]) (simp add: make_release_call_def)
  have "delivery_reachable False 0 ((dispatch_action 0 ^^ n) ?a)" for n
    by (induction n) (auto intro: a delivery_reachable.step step_dispatch)
  then have reachable: "delivery_reachable False 0 ?s" .
  have "sys_dispatches ?s = (\<lambda>_. Not_started)(0 := Returned_from True)"
    and queue: "\<not> queue_closed (sys_queue ?s)" "\<not> sys_exiting ?s"
    and calls: "sys_covered ?s = 1" "sys_pushed ?s = [Single_call ?item]"
    by (simp_all add: eval_nat_numeral dispatch_defs environment_defs new_system_def new_queue_def
        make_release_call_def single_calls_def)
  then have "active ?s = {}" "sys_dispatches ?s 0 = Returned_from True"
    by (simp_all add: active_def)
  then show ?thesis
    using no_dispatch_request_lost [OF reachable] queue calls by (auto simp: Let_def)
qed

text \<open>
  C13: the receiver hears of every call. On an open queue with a wake, if calls wait to be taken then
  the wake was notified after the calls were last taken.
\<close>

theorem waiting_calls_were_announced:
  assumes "delivery_reachable True abandon s" "\<not> queue_closed (sys_queue s)" "queue_calls (sys_queue s) \<noteq> []"
  shows "sys_woken s"
  using reachable_ok [OF assms(1)] assms(2,3) by (simp add: system_ok_def wake_ok_def)

theorem waiting_calls_were_announced_witness:
  "sys_woken (do_push (make_release_call 7 9 :: nat delivery_item) (new_system True 0))"
proof -
  let ?s = "do_push (make_release_call 7 9 :: nat delivery_item) (new_system True 0)"
  have "delivery_reachable True 0 ?s"
    by (rule delivery_reachable.step [OF delivery_reachable.start step_push]) (simp add: make_release_call_def)
  then show ?thesis
    by (rule waiting_calls_were_announced) (simp_all add: environment_defs new_system_def new_queue_def)
qed



section \<open>A dispatch on its own\<close>

lemma two_actions: "(f ^^ Suc (Suc n)) s = (f ^^ n) (f (f s))"
  by (simp only: funpow_Suc_right comp_def)

lemma run_items:
  "sys_dispatches s t = Next_call \<Longrightarrow> \<not> queue_closed (sys_queue s) \<Longrightarrow> \<not> sys_exiting s \<Longrightarrow>
     queue_running (sys_queue s) = items \<Longrightarrow>
   (let s' = (dispatch_action t ^^ (2 * length items)) s in
     sys_dispatches s' t = Next_call \<and> sys_effects s' = sys_effects s @ concat (map run_call items)
     \<and> sys_queue s' = (sys_queue s)\<lparr>queue_running := []\<rparr> \<and> \<not> sys_exiting s')"
proof (induction items arbitrary: s)
  case Nil
  then show ?case by (cases "sys_queue s") (simp add: Let_def)
next
  case (Cons item items)
  let ?s = "dispatch_action t (dispatch_action t s)"
  have s: "sys_dispatches ?s t = Next_call" "\<not> queue_closed (sys_queue ?s)" "\<not> sys_exiting ?s"
    "queue_running (sys_queue ?s) = items" "sys_effects ?s = sys_effects s @ run_call item"
    "(sys_queue ?s)\<lparr>queue_running := []\<rparr> = (sys_queue s)\<lparr>queue_running := []\<rparr>"
    using Cons.prems by (simp_all add: dispatch_defs emit_def)
  have "(dispatch_action t ^^ (2 * length (item # items))) s = (dispatch_action t ^^ (2 * length items)) ?s"
    by (simp only: length_Cons mult_Suc_right add_2_eq_Suc two_actions)
  with Cons.IH [OF s(1-4)] s(5,6) show ?case by (simp add: Let_def)
qed

text \<open>
  C15: a dispatch that meets no other operation terminates, within \<open>2 * n + 8\<close> atomic actions for \<open>n\<close>
  queued calls, reports success, runs each queued call once in queue order (the host callback, then the
  release), and leaves the queue empty and free.
\<close>

theorem lone_dispatch_terminates:
  assumes "sys_dispatches s t = Not_started" "\<not> queue_closed (sys_queue s)" "\<not> sys_exiting s"
    and "\<not> queue_dispatching (sys_queue s)"
  shows "let s' = (dispatch_action t ^^ (2 * length (queue_calls (sys_queue s)) + 8)) s in
     sys_dispatches s' t = Returned_from True
     \<and> sys_effects s' = sys_effects s @ concat (map run_call (queue_calls (sys_queue s)))
     \<and> sys_queue s' = (sys_queue s)\<lparr>queue_calls := [], queue_running := [], queue_dispatching := False,
         queue_dispatch_requested := False\<rparr>"
proof -
  let ?f = "dispatch_action t"
  let ?n = "2 * length (queue_calls (sys_queue s))"
  define s1 where "s1 = ?f (?f (?f (?f s)))"
  have s1: "sys_dispatches s1 t = Next_call" "\<not> queue_closed (sys_queue s1)" "\<not> sys_exiting s1"
    "queue_running (sys_queue s1) = queue_calls (sys_queue s)" "sys_effects s1 = sys_effects s"
    "sys_queue s1 = (sys_queue s)\<lparr>queue_calls := [], queue_running := queue_calls (sys_queue s),
       queue_dispatching := True, queue_dispatch_requested := False\<rparr>"
    using assms by (simp_all add: s1_def dispatch_defs)
  define s2 where "s2 = (?f ^^ ?n) s1"
  have s2: "sys_dispatches s2 t = Next_call" "\<not> sys_exiting s2"
    "sys_effects s2 = sys_effects s @ concat (map run_call (queue_calls (sys_queue s)))"
    "sys_queue s2 = (sys_queue s1)\<lparr>queue_running := []\<rparr>"
    using run_items [OF s1(1-4)] s1(5) by (simp_all add: s2_def Let_def)
  have "(?f ^^ (?n + 8)) s = (?f ^^ 4) ((?f ^^ ?n) ((?f ^^ 4) s))"
    by (metis (no_types, lifting) comp_apply funpow_add add.assoc add.commute numeral_Bit0)
  also have "(?f ^^ 4) s = s1"
    by (simp add: s1_def eval_nat_numeral)
  finally have "(?f ^^ (?n + 8)) s = ?f (?f (?f (?f s2)))"
    by (simp add: s2_def eval_nat_numeral)
  moreover have "sys_dispatches (?f (?f (?f (?f s2)))) t = Returned_from True
    \<and> sys_effects (?f (?f (?f (?f s2)))) = sys_effects s2
    \<and> sys_queue (?f (?f (?f (?f s2)))) = (sys_queue s)\<lparr>queue_calls := [], queue_running := [],
        queue_dispatching := False, queue_dispatch_requested := False\<rparr>"
    using s2(1,4) s1(6) by (simp add: dispatch_defs)
  ultimately show ?thesis using s2(3) by (simp add: Let_def)
qed

theorem lone_dispatch_terminates_witness:
  "sys_dispatches ((dispatch_action 3 ^^ 10)
     (do_push (make_release_call 7 9 :: nat delivery_item) (new_system False 0))) 3 = Returned_from True"
proof -
  let ?s = "do_push (make_release_call 7 9 :: nat delivery_item) (new_system False 0)"
  have "sys_dispatches ?s 3 = Not_started" "\<not> queue_closed (sys_queue ?s)" "\<not> sys_exiting ?s"
    "\<not> queue_dispatching (sys_queue ?s)" "length (queue_calls (sys_queue ?s)) = 1"
    by (simp_all add: environment_defs new_system_def new_queue_def)
  with lone_dispatch_terminates [of ?s 3] show ?thesis by (simp add: Let_def)
qed

end
