(* ===== verification/Jni.thy ===== *)
theory Jni
  imports Utf8
begin

text \<open>
  The hand-written half of the Android shim (\<open>bindings/kotlin/src/androidMain/jni/mln_jni.c\<close>): the
  transcription of Java strings to UTF-8, the accessors of native memory, the upcalls with the
  attachment of their thread, and the registration in \<open>JNI_OnLoad\<close>. The Java virtual machine is the
  environment: what its functions return is an argument of the definitions. Addresses are 64-bit and
  the byte order is little-endian, as on the shim's targets.
\<close>

unbundle bit_operations_syntax

section \<open>Java strings to UTF-8\<close>

text \<open>One UTF-16 unit, or two that form a pair, as the loop reads them: the code and the units it takes.\<close>

definition high_surrogate :: "u32 \<Rightarrow> bool" where
  "high_surrogate code \<longleftrightarrow> code \<ge> 0xD800 \<and> code \<le> 0xDBFF"

definition low_surrogate :: "u32 \<Rightarrow> bool" where
  "low_surrogate code \<longleftrightarrow> code \<ge> 0xDC00 \<and> code \<le> 0xDFFF"

fun read_code :: "u16 list \<Rightarrow> u32 \<times> u16 list" where
  "read_code [] = (0, [])"
| "read_code [unit] =
     (let code = ucast unit in (if code \<ge> 0xD800 \<and> code \<le> 0xDFFF then 0x3F else code, []))"
| "read_code (unit # next # rest) =
     (let code = ucast unit; following = ucast next :: u32
      in if high_surrogate code \<and> low_surrogate following
         then (0x10000 + push_bit 10 (code - 0xD800) + following - 0xDC00, rest)
         else if code \<ge> 0xD800 \<and> code \<le> 0xDFFF then (0x3F, next # rest)
         else (code, next # rest))"

definition put_code :: "u32 \<Rightarrow> bytes" where
  "put_code code =
     (if code < 0x80 then [ucast code]
      else if code < 0x800
        then [ucast (0xC0 OR drop_bit 6 code), ucast (0x80 OR (code AND 0x3F))]
      else if code < 0x10000
        then [ucast (0xE0 OR drop_bit 12 code), ucast (0x80 OR (drop_bit 6 code AND 0x3F)),
              ucast (0x80 OR (code AND 0x3F))]
      else [ucast (0xF0 OR drop_bit 18 code), ucast (0x80 OR (drop_bit 12 code AND 0x3F)),
            ucast (0x80 OR (drop_bit 6 code AND 0x3F)), ucast (0x80 OR (code AND 0x3F))])"

lemma read_code_shorter [termination_simp]:
  "units \<noteq> [] \<Longrightarrow> length (snd (read_code units)) < length units"
  by (cases units rule: read_code.cases) (auto simp: Let_def)

function put_units :: "u16 list \<Rightarrow> bytes" where
  "put_units units =
     (if units = [] then [] else put_code (fst (read_code units)) @ put_units (snd (read_code units)))"
  by pat_completeness auto
termination
  by (relation "measure length") (auto simp: read_code_shorter)

declare put_units.simps [simp del]

text \<open>
  The bytes written at the address and their count. \<open>pinned\<close> is what the virtual machine gives: the units
  of a short string copied into the buffer, or pinned for a longer one; \<open>None\<close> is a pending exception
  or a null pointer.
\<close>

definition mln_jni_put_utf8 :: "u16 list option \<Rightarrow> bytes \<times> nat" where
  "mln_jni_put_utf8 pinned = (case pinned of
     None \<Rightarrow> ([], 0)
   | Some units \<Rightarrow> (put_units units, length (put_units units)))"

section \<open>The decoding Java specifies\<close>

text \<open>The Unicode scalar values of a string: a pair is one, and a lone surrogate reads as a question mark.\<close>

fun scalars :: "nat list \<Rightarrow> nat list" where
  "scalars [] = []"
| "scalars [u] = [if 0xD800 \<le> u \<and> u < 0xE000 then 0x3F else u]"
| "scalars (u # v # us) =
     (if 0xD800 \<le> u \<and> u < 0xDC00 \<and> 0xDC00 \<le> v \<and> v < 0xE000
      then (0x10000 + (u - 0xD800) * 0x400 + (v - 0xDC00)) # scalars us
      else (if 0xD800 \<le> u \<and> u < 0xE000 then 0x3F else u) # scalars (v # us))"

text \<open>The bytes of one code are its UTF-8 encoding.\<close>

lemma or_tables:
  "\<forall>n \<in> set [0..<64]. (0x80 OR of_nat n :: u32) = 0x80 + of_nat n"
  "\<forall>n \<in> set [0..<32]. (0xC0 OR of_nat n :: u32) = 0xC0 + of_nat n"
  "\<forall>n \<in> set [0..<16]. (0xE0 OR of_nat n :: u32) = 0xE0 + of_nat n"
  "\<forall>n \<in> set [0..<8]. (0xF0 OR of_nat n :: u32) = 0xF0 + of_nat n"
  by code_simp+

lemma byte_of_word: "ucast (w :: u32) = byte (unat w)"
  by (simp add: byte_def)

lemma or_byte:
  assumes "n \<le> m" "m \<le> 256" "\<forall>k \<in> set [0..<n]. (of_nat b OR of_nat k :: u32) = of_nat b + of_nat k"
    "b + n \<le> 256" "unat x < n"
  shows "unat (of_nat b OR x :: u32) = b + unat x"
proof -
  have "of_nat b OR x = (of_nat b + of_nat (unat x) :: u32)"
    using assms(3) [rule_format, of "unat x"] assms(5) by simp
  moreover have "unat (of_nat (b + unat x) :: u32) = b + unat x"
    using assms(4,5) by (simp only: unat_of_nat) (simp add: take_bit_nat_eq_self)
  ultimately show ?thesis by (simp only: of_nat_add)
qed

lemma or_bytes:
  "unat x < 64 \<Longrightarrow> unat (0x80 OR x :: u32) = 0x80 + unat x"
  "unat x < 32 \<Longrightarrow> unat (0xC0 OR x :: u32) = 0xC0 + unat x"
  "unat x < 16 \<Longrightarrow> unat (0xE0 OR x :: u32) = 0xE0 + unat x"
  "unat x < 8 \<Longrightarrow> unat (0xF0 OR x :: u32) = 0xF0 + unat x"
  using or_byte [of 64 64 "0x80" x] or_byte [of 32 32 "0xC0" x] or_byte [of 16 16 "0xE0" x]
    or_byte [of 8 8 "0xF0" x] or_tables
  by simp_all

lemma shift_mask:
  "unat (drop_bit n (c :: u32)) = unat c div 2 ^ n" "unat (c AND 0x3F :: u32) = unat c mod 64"
proof -
  show "unat (drop_bit n c) = unat c div 2 ^ n"
    by (simp only: unat_drop_bit_eq flip: drop_bit_eq_div)
  have "c AND 0x3F = take_bit 6 c" by (simp add: take_bit_eq_mask mask_numeral)
  then show "unat (c AND 0x3F) = unat c mod 64" by (simp only: unsigned_take_bit_eq) (simp add: take_bit_eq_mod)
qed

lemma put_code_encodes:
  assumes "unat code < 0x110000"
  shows "put_code code = utf8_encode (unat code)"
proof -
  have less: "code < 0x80 \<longleftrightarrow> unat code < 0x80" "code < 0x800 \<longleftrightarrow> unat code < 0x800"
    "code < 0x10000 \<longleftrightarrow> unat code < 0x10000"
    by (simp_all add: word_less_nat_alt)
  have "unat code < 0x800 \<Longrightarrow> unat code div 64 < 32" "unat code < 0x10000 \<Longrightarrow> unat code div 4096 < 16"
    "unat code div 262144 < 8"
    using assms by auto
  then show ?thesis
    by (simp add: put_code_def utf8_encode_def less byte_of_word or_bytes shift_mask)
qed

lemma unat_unit: "unat (ucast (u :: u16) :: u32) = unat u" "unat u < 0x10000"
proof -
  show "unat (ucast u :: u32) = unat u" by (simp add: unat_widen)
  have "unat u < 2 ^ LENGTH(16)" by (rule unsigned_less)
  then show "unat u < 0x10000" by simp
qed

lemma pair_code:
  assumes "0xD800 \<le> unat u" "unat u < 0xDC00" "0xDC00 \<le> unat v" "unat v < 0xE000"
  shows "unat (0x2400 + (push_bit 10 (ucast (u :: u16) - 0xD800) + ucast (v :: u16)) :: u32)
    = 0x2400 + ((unat u - 0xD800) * 0x400 + unat v)"
proof -
  let ?n = "0x2400 + ((unat u - 0xD800) * 0x400 + unat v)"
  have "(of_nat ?n :: u32) = 0x2400 + (of_nat (unat u - 0xD800) * 0x400 + of_nat (unat v))"
    by simp
  also have "of_nat (unat u - 0xD800) = (ucast u - 0xD800 :: u32)"
    using assms(1) by (simp add: of_nat_diff)
  also have "0x2400 + ((ucast u - 0xD800) * 0x400 + of_nat (unat v))
      = (0x2400 + (push_bit 10 (ucast u - 0xD800) + ucast v) :: u32)"
    by (simp add: push_bit_eq_mult)
  finally have "unat (0x2400 + (push_bit 10 (ucast u - 0xD800) + ucast v) :: u32) = unat (of_nat ?n :: u32)"
    by (simp only:)
  also have "\<dots> = ?n"
    using assms by (simp only: unat_of_nat) (simp add: take_bit_nat_eq_self)
  finally show ?thesis .
qed

lemma surrogates:
  "high_surrogate (ucast (u :: u16)) \<longleftrightarrow> 0xD800 \<le> unat u \<and> unat u < 0xDC00"
  "low_surrogate (ucast u) \<longleftrightarrow> 0xDC00 \<le> unat u \<and> unat u < 0xE000"
  "(ucast u :: u32) \<ge> 0xD800 \<and> (ucast u :: u32) \<le> 0xDFFF \<longleftrightarrow> 0xD800 \<le> unat u \<and> unat u < 0xE000"
  by (auto simp: high_surrogate_def low_surrogate_def word_le_nat_alt unat_unit)

lemma read_code_scalars:
  "units \<noteq> [] \<Longrightarrow> scalars (map unat units)
     = unat (fst (read_code units)) # scalars (map unat (snd (read_code units)))"
  by (cases units rule: read_code.cases)
    (auto simp: Let_def surrogates unat_unit pair_code)

lemma scalars_valid: "\<forall>u \<in> set us. u < 0x10000 \<Longrightarrow> \<forall>c \<in> set (scalars us). scalar_value c"
  by (induction us rule: scalars.induct) (auto simp: scalar_value_def)

text \<open>
  C16: the bytes written for a Java string are the UTF-8 encodings of its Unicode scalar values, with a
  question mark for each lone surrogate; so they are always valid UTF-8, and the count returned is
  their number.
\<close>

theorem put_utf8_encodes_string:
  "mln_jni_put_utf8 (Some units)
     = (utf8_text (scalars (map unat units)), length (utf8_text (scalars (map unat units))))
   \<and> is_valid_utf8 (fst (mln_jni_put_utf8 (Some units)))"
proof -
  have small: "\<forall>c \<in> set (scalars (map unat us)). scalar_value c" for us :: "u16 list"
    by (rule scalars_valid) (simp add: unat_unit)
  have bytes: "put_units us = utf8_text (scalars (map unat us))" for us
  proof (induction us rule: put_units.induct)
    case (1 us)
    show ?case
    proof (cases "us = []")
      case True
      then show ?thesis by (simp add: put_units.simps)
    next
      case False
      note read = read_code_scalars [OF False]
      have "scalar_value (unat (fst (read_code us)))" using small [of us] read by simp
      then have "put_code (fst (read_code us)) = utf8_encode (unat (fst (read_code us)))"
        by (intro put_code_encodes) (simp add: scalar_value_def)
      with False 1 read show ?thesis by (simp add: put_units.simps [of us])
    qed
  qed
  then show ?thesis
    using small [of units] valid_utf8_text by (simp add: mln_jni_put_utf8_def)
qed

section \<open>Native memory\<close>

type_synonym memory = "ptr \<Rightarrow> u8"

definition load :: "memory \<Rightarrow> ptr \<Rightarrow> nat \<Rightarrow> bytes" where
  "load m a n = map (\<lambda>i. m (a + of_nat i)) [0..<n]"

definition store :: "memory \<Rightarrow> ptr \<Rightarrow> bytes \<Rightarrow> memory" where
  "store m a bs = (\<lambda>p. if unat (p - a) < length bs then bs ! unat (p - a) else m p)"

definition to_bytes :: "'a::len word \<Rightarrow> bytes" where
  "to_bytes v = map (\<lambda>i. ucast (drop_bit (8 * i) v)) [0..<LENGTH('a) div 8]"

fun of_bytes :: "bytes \<Rightarrow> 'a::len word" where
  "of_bytes [] = 0"
| "of_bytes (b # bs) = ucast b OR push_bit 8 (of_bytes bs)"

text \<open>The accessors of every width, floats and doubles as their bits.\<close>

definition mln_jni_get :: "memory \<Rightarrow> ptr \<Rightarrow> 'a::len word" where
  "mln_jni_get m a = of_bytes (load m a (LENGTH('a) div 8))"

definition mln_jni_put :: "memory \<Rightarrow> ptr \<Rightarrow> 'a::len word \<Rightarrow> memory" where
  "mln_jni_put m a v = store m a (to_bytes v)"

definition mln_jni_get_bytes :: "memory \<Rightarrow> ptr \<Rightarrow> nat \<Rightarrow> bytes" where
  "mln_jni_get_bytes m a count = load m a count"

definition mln_jni_put_bytes :: "memory \<Rightarrow> ptr \<Rightarrow> bytes \<Rightarrow> memory" where
  "mln_jni_put_bytes m a value = store m a value"

definition mln_jni_clear :: "memory \<Rightarrow> ptr \<Rightarrow> u64 \<Rightarrow> memory" where
  "mln_jni_clear m a amount = store m a (replicate (unat amount) 0)"

text \<open>\<open>calloc\<close> and \<open>malloc\<close> are the C library's: an address for a size, or null.\<close>

definition mln_jni_allocate :: "(nat \<Rightarrow> ptr) \<Rightarrow> i64 \<Rightarrow> ptr" where
  "mln_jni_allocate allocator amount =
     (if sint amount < 0 then 0 else allocator (if amount = 0 then 1 else unat amount))"

lemma load_store_bytes: "length bs < 2 ^ 64 \<Longrightarrow> load (store m a bs) a (length bs) = bs"
  by (rule nth_equalityI) (simp_all add: load_def store_def unat_of_nat take_bit_nat_eq_self)

lemma store_outside: "\<not> unat (p - a) < length bs \<Longrightarrow> store m a bs p = m p"
  by (simp add: store_def)

lemma bit_of_bytes:
  "bit (of_bytes bs :: 'a::len word) k \<longleftrightarrow> k < LENGTH('a) \<and> k div 8 < length bs \<and> bit (bs ! (k div 8)) (k mod 8)"
proof (induction bs arbitrary: k)
  case (Cons b bs)
  show ?case
  proof (cases "k < 8")
    case True
    then show ?thesis by (auto simp: bit_simps)
  next
    case False
    then obtain j where "k = 8 + j" by (auto simp: not_less le_iff_add)
    then have "k div 8 = Suc ((k - 8) div 8)" "k mod 8 = (k - 8) mod 8" by simp_all
    moreover have "\<not> bit b k" using False bit_imp_le_length [of b k] by auto
    ultimately show ?thesis using False Cons.IH [of "k - 8"] by (auto simp: bit_simps)
  qed
qed simp

lemma of_to_bytes:
  assumes "LENGTH('a) = 8 * n"
  shows "of_bytes (to_bytes v) = (v :: 'a::len word)"
proof (rule bit_word_eqI)
  fix k assume k: "k < LENGTH('a)"
  have d: "k div 8 < n" using k assms by (intro less_mult_imp_div_less) (simp add: mult.commute)
  have "8 * (k div 8) + k mod 8 = k" by simp
  then show "bit (of_bytes (to_bytes v) :: 'a word) k \<longleftrightarrow> bit v k"
    using k assms by (simp add: bit_of_bytes to_bytes_def bit_simps d)
qed

text \<open>
  What an accessor of any width puts at an address, aligned or not, the accessor of that width gets
  back, and no other byte of memory changes; a cleared region reads as zeros.
\<close>

theorem memory_accessors_roundtrip:
  assumes "LENGTH('a) = 8 * n" "n \<le> 8" "8 * n \<le> unat amount"
  shows "mln_jni_get (mln_jni_put m a v) a = (v :: 'a::len word)
    \<and> (n \<le> unat (p - a) \<longrightarrow> mln_jni_put m a v p = m p)
    \<and> mln_jni_get (mln_jni_clear m a amount) a = (0 :: 'a word)"
proof -
  have len: "length (to_bytes v) = n" using assms(1) by (simp add: to_bytes_def)
  then have "load (store m a (to_bytes v)) a n = to_bytes v"
    using assms(2) load_store_bytes [of "to_bytes v" m a] by simp
  then have "mln_jni_get (mln_jni_put m a v) a = v"
    using assms(1) by (simp add: mln_jni_get_def mln_jni_put_def of_to_bytes)
  moreover have "of_bytes (replicate k 0) = (0 :: 'a word)" for k
    by (induction k) simp_all
  moreover have "load (mln_jni_clear m a amount) a n = replicate n 0"
    using assms(2,3) by (intro nth_equalityI)
      (simp_all add: load_def mln_jni_clear_def store_def unat_of_nat take_bit_nat_eq_self)
  ultimately show ?thesis
    using assms(1) len by (simp add: mln_jni_get_def mln_jni_put_def store_outside)
qed

theorem memory_accessors_roundtrip_witness:
  "mln_jni_get (mln_jni_put (\<lambda>_. 7) 0x1003 (0xDEADBEEF :: 32 word)) 0x1003 = (0xDEADBEEF :: 32 word)"
  using memory_accessors_roundtrip [where 'a = 32 and n = 4 and amount = 32] by simp

section \<open>Upcalls\<close>

datatype jni_status = JNI_OK | JNI_EDETACHED | JNI_Error

record jni_thread =
  jni_attached :: bool
  jni_detach_key :: bool
  jni_pending :: bool

definition mln_jni_detach :: "jni_thread \<Rightarrow> jni_thread" where
  "mln_jni_detach t = t\<lparr>jni_attached := False\<rparr>"

text \<open>\<open>status\<close> is the result of \<open>GetEnv\<close>, \<open>attaches\<close> that of attaching the thread.\<close>

definition mln_jni_thread_env :: "jni_status \<Rightarrow> bool \<Rightarrow> jni_thread \<Rightarrow> bool \<times> jni_thread" where
  "mln_jni_thread_env status attaches t =
     (if status = JNI_OK then (True, t)
      else if status \<noteq> JNI_EDETACHED \<or> \<not> attaches then (False, t)
      else (True, t\<lparr>jni_attached := True, jni_detach_key := True\<rparr>))"

definition mln_jni_upcall_returned :: "jni_thread \<Rightarrow> bool \<times> jni_thread" where
  "mln_jni_upcall_returned t =
     (if \<not> jni_pending t then (True, t) else (False, t\<lparr>jni_pending := False\<rparr>))"

text \<open>The upcalls of every result type; \<open>call\<close> is the Java method.\<close>

definition mln_jni_upcall ::
    "jni_status \<Rightarrow> bool \<Rightarrow> (jni_thread \<Rightarrow> 'v \<times> jni_thread) \<Rightarrow> 'v \<Rightarrow> jni_thread
      \<Rightarrow> bool \<times> 'v \<times> jni_thread" where
  "mln_jni_upcall status attaches call result t =
     (let (env, t1) = mln_jni_thread_env status attaches t
      in if \<not> env then (False, result, t1)
         else let (v, t2) = call t1; (returned, t3) = mln_jni_upcall_returned t2
           in if \<not> returned then (False, result, t3) else (True, v, t3))"

text \<open>
  C17: an upcall succeeds exactly when its thread has or gets an environment and the method does not throw.
  It then stores the method's value; otherwise the caller's result is untouched. It never returns
  with an exception pending, and a thread it attaches is marked to detach when it exits.
\<close>

theorem upcall_contains_exceptions:
  assumes "\<not> jni_pending t" "\<forall>t. jni_attached (snd (call t)) = jni_attached t
      \<and> jni_detach_key (snd (call t)) = jni_detach_key t"
    and "mln_jni_upcall status attaches call result t = (returned, value, t')"
  shows "\<not> jni_pending t'
    \<and> (returned \<longleftrightarrow> (status = JNI_OK \<or> status = JNI_EDETACHED \<and> attaches)
        \<and> \<not> jni_pending (snd (call (snd (mln_jni_thread_env status attaches t)))))
    \<and> value = (if returned then fst (call (snd (mln_jni_thread_env status attaches t))) else result)
    \<and> (jni_attached t' \<and> \<not> jni_attached t \<longrightarrow> jni_detach_key t')"
proof -
  define t1 where "t1 = snd (mln_jni_thread_env status attaches t)"
  define env where "env = fst (mln_jni_thread_env status attaches t)"
  obtain v t2 where call: "call t1 = (v, t2)" by (cases "call t1")
  with assms(2) have keeps: "jni_attached t2 = jni_attached t1" "jni_detach_key t2 = jni_detach_key t1"
    by (metis snd_conv)+
  have env: "env \<longleftrightarrow> status = JNI_OK \<or> status = JNI_EDETACHED \<and> attaches" "jni_pending t1 = jni_pending t"
    "jni_attached t1 \<and> \<not> jni_attached t \<longrightarrow> jni_detach_key t1"
    by (auto simp: env_def t1_def mln_jni_thread_env_def)
  have "mln_jni_upcall status attaches call result t = (if \<not> env then (False, result, t1)
      else if jni_pending t2 then (False, result, t2\<lparr>jni_pending := False\<rparr>) else (True, v, t2))"
    by (simp add: mln_jni_upcall_def mln_jni_upcall_returned_def split_beta Let_def call
        flip: env_def t1_def)
  with assms(1,3) env keeps call show ?thesis
    unfolding t1_def [symmetric] by (auto split: if_splits)
qed

theorem upcall_contains_exceptions_witness:
  "\<exists>t'. mln_jni_upcall JNI_EDETACHED True (\<lambda>t. (5 :: nat, t\<lparr>jni_pending := True\<rparr>)) 9
     \<lparr>jni_attached = False, jni_detach_key = False, jni_pending = False\<rparr> = (False, 9, t')
     \<and> \<not> jni_pending t' \<and> jni_detach_key t'"
proof -
  let ?t = "\<lparr>jni_attached = False, jni_detach_key = False, jni_pending = False\<rparr>"
  let ?call = "\<lambda>t. (5 :: nat, t\<lparr>jni_pending := True\<rparr>)"
  obtain t' where "mln_jni_upcall JNI_EDETACHED True ?call 9 ?t = (False, 9, t')" "jni_attached t'"
    by (simp add: mln_jni_upcall_def mln_jni_thread_env_def mln_jni_upcall_returned_def)
  with upcall_contains_exceptions [of ?t ?call JNI_EDETACHED True 9] show ?thesis by auto
qed

section \<open>Registration\<close>

text \<open>
  The table of upcalls, \<open>type\<close> and \<open>method\<close> resolved by \<open>JNI_OnLoad\<close>. \<open>find_class\<close> and
  \<open>get_method\<close> are the virtual machine's; the classes looked up are recorded. \<open>earlier\<close> is the part of the
  table already resolved.
\<close>

record ('c, 'm) upcall =
  upcall_owner :: string
  upcall_name :: string
  upcall_signature :: string
  upcall_type :: "'c option"
  upcall_method :: "'m option"

fun earlier_type :: "('c, 'm) upcall list \<Rightarrow> string \<Rightarrow> 'c option" where
  "earlier_type [] owner = None"
| "earlier_type (u # us) owner =
     (if upcall_owner u = owner \<and> upcall_type u \<noteq> None then upcall_type u else earlier_type us owner)"

fun resolve_upcalls ::
    "(string \<Rightarrow> 'c option) \<Rightarrow> ('c \<Rightarrow> string \<Rightarrow> string \<Rightarrow> 'm option)
      \<Rightarrow> ('c, 'm) upcall list \<Rightarrow> ('c, 'm) upcall list \<Rightarrow> string list
      \<Rightarrow> ('c, 'm) upcall list option \<times> string list" where
  "resolve_upcalls find_class get_method earlier [] looked = (Some earlier, looked)"
| "resolve_upcalls find_class get_method earlier (u # us) looked =
     (let type1 = (if upcall_type u = None then earlier_type earlier (upcall_owner u) else upcall_type u);
          (type2, looked') = (if type1 = None then (find_class (upcall_owner u), looked @ [upcall_owner u])
                              else (type1, looked))
      in case type2 of
           None \<Rightarrow> (None, looked')
         | Some class \<Rightarrow>
             let u' = u\<lparr>upcall_type := Some class,
                   upcall_method := get_method class (upcall_name u) (upcall_signature u)\<rparr>
             in if upcall_method u' = None then (None, looked')
                else resolve_upcalls find_class get_method (earlier @ [u']) us looked')"

definition resolved :: "(string \<Rightarrow> 'c option) \<Rightarrow> ('c \<Rightarrow> string \<Rightarrow> string \<Rightarrow> 'm option) \<Rightarrow> ('c, 'm) upcall \<Rightarrow> bool" where
  "resolved find_class get_method u \<longleftrightarrow> (\<exists>class method. find_class (upcall_owner u) = Some class
     \<and> upcall_type u = Some class \<and> upcall_method u = Some method
     \<and> get_method class (upcall_name u) (upcall_signature u) = Some method)"

lemma earlier_type_resolved:
  assumes "\<forall>e \<in> set earlier. resolved find_class get_method e"
  shows "earlier_type earlier owner
    = (if owner \<in> upcall_owner ` set earlier then find_class owner else None)"
  using assms by (induction earlier) (auto simp: resolved_def)

lemma resolve_upcalls_resolved:
  assumes "resolve_upcalls find_class get_method earlier us looked = (Some table, looked')"
    and "\<forall>e \<in> set earlier. resolved find_class get_method e" "\<forall>u \<in> set us. upcall_type u = None"
    and "distinct looked" "set looked = upcall_owner ` set earlier"
  shows "(\<forall>e \<in> set table. resolved find_class get_method e)
    \<and> map upcall_name table = map upcall_name (earlier @ us)
    \<and> map upcall_owner table = map upcall_owner (earlier @ us)
    \<and> distinct looked' \<and> set looked' = upcall_owner ` set table"
  using assms
proof (induction us arbitrary: earlier looked)
  case (Cons u us)
  let ?owner = "upcall_owner u"
  have earlier: "earlier_type earlier ?owner = (if ?owner \<in> set looked then find_class ?owner else None)"
    using earlier_type_resolved [OF Cons.prems(2)] Cons.prems(5) by simp
  have found: "find_class ?owner \<noteq> None" if "?owner \<in> set looked"
    using that Cons.prems(2,5) by (auto simp: resolved_def)
  from Cons.prems(1) earlier found obtain cls mth where
    cm: "find_class ?owner = Some cls" "get_method cls (upcall_name u) (upcall_signature u) = Some mth"
    and rest: "resolve_upcalls find_class get_method
      (earlier @ [u\<lparr>upcall_type := Some cls, upcall_method := Some mth\<rparr>]) us
      (if ?owner \<in> set looked then looked else looked @ [?owner]) = (Some table, looked')"
    using Cons.prems(3) by (auto simp: Let_def split: if_splits option.splits)
  let ?u = "u\<lparr>upcall_type := Some cls, upcall_method := Some mth\<rparr>"
  let ?looked = "if ?owner \<in> set looked then looked else looked @ [?owner]"
  have 1: "\<forall>e \<in> set (earlier @ [?u]). resolved find_class get_method e"
    using Cons.prems(2) cm by (auto simp: resolved_def)
  have 2: "\<forall>u \<in> set us. upcall_type u = None" using Cons.prems(3) by simp
  have 3: "distinct ?looked" using Cons.prems(4) by simp
  have 4: "set ?looked = upcall_owner ` set (earlier @ [?u])" using Cons.prems(5) by auto
  from Cons.IH [OF rest 1 2 3 4] show ?case by simp
qed simp

text \<open>
  When loading succeeds, every upcall of the table has the class of its own owner and the method of its
  own name and signature, and each owner's class is looked up exactly once.
\<close>

theorem onload_resolves_upcalls:
  assumes "\<forall>u \<in> set upcalls. upcall_type u = None"
    and "resolve_upcalls find_class get_method [] upcalls [] = (Some table, looked)"
  shows "(\<forall>e \<in> set table. resolved find_class get_method e)
    \<and> map upcall_owner table = map upcall_owner upcalls \<and> map upcall_name table = map upcall_name upcalls
    \<and> distinct looked \<and> set looked = upcall_owner ` set upcalls"
proof -
  from resolve_upcalls_resolved [OF assms(2) _ assms(1)] have
    *: "\<forall>e \<in> set table. resolved find_class get_method e" "map upcall_name table = map upcall_name upcalls"
      "map upcall_owner table = map upcall_owner upcalls" "distinct looked"
      "set looked = upcall_owner ` set table"
    by simp_all
  then have "upcall_owner ` set table = upcall_owner ` set upcalls" by (metis set_map)
  with * show ?thesis by simp
qed

theorem onload_resolves_upcalls_witness:
  "let u = (\<lambda>owner name. \<lparr>upcall_owner = owner, upcall_name = name, upcall_signature = ''()V'',
       upcall_type = None, upcall_method = None\<rparr> :: (nat, nat) upcall)
   in snd (resolve_upcalls (\<lambda>k. Some (length k)) (\<lambda>c n g. Some (c + length n)) []
       [u ''A'' ''x'', u ''B'' ''y'', u ''A'' ''z''] []) = [''A'', ''B'']
     \<and> distinct [''A'', ''B'']"
proof -
  let ?u = "\<lambda>owner name. \<lparr>upcall_owner = owner, upcall_name = name, upcall_signature = ''()V'',
       upcall_type = None, upcall_method = None\<rparr> :: (nat, nat) upcall"
  let ?us = "[?u ''A'' ''x'', ?u ''B'' ''y'', ?u ''A'' ''z'']"
  obtain table where run: "resolve_upcalls (\<lambda>k. Some (length k)) (\<lambda>c n g. Some (c + length n)) [] ?us []
      = (Some table, [''A'', ''B''])"
    by (simp add: Let_def)
  from onload_resolves_upcalls [OF _ this] show ?thesis using run by (simp add: Let_def)
qed

text \<open>
  \<open>JNI_OnLoad\<close>: \<open>register\<close> is the outcome of registering the natives of a class with the tables for the
  platform, the critical ones from API level 26 on.
\<close>

datatype natives = Standard_natives | Critical_natives

definition registered_classes :: "string list" where
  "registered_classes = [''org/maplibre/nativeffi/internal/c/C'',
     ''org/maplibre/nativeffi/internal/memory/NativeMemory'', ''org/maplibre/nativeffi/internal/c/Jni'']"

definition JNI_OnLoad ::
    "jni_status \<Rightarrow> int \<Rightarrow> bool \<Rightarrow> (string \<Rightarrow> natives \<Rightarrow> bool) \<Rightarrow> (string \<Rightarrow> 'c option)
      \<Rightarrow> ('c \<Rightarrow> string \<Rightarrow> string \<Rightarrow> 'm option) \<Rightarrow> ('c, 'm) upcall list
      \<Rightarrow> ('c, 'm) upcall list option" where
  "JNI_OnLoad status api_level key_created register find_class get_method upcalls =
     (if status \<noteq> JNI_OK \<or> api_level < 0 then None
      else let natives = (if api_level \<ge> 26 then Critical_natives else Standard_natives)
        in if \<not> key_created \<or> \<not> register (registered_classes ! 0) natives
              \<or> \<not> register (registered_classes ! 1) natives
              \<or> \<not> register (registered_classes ! 2) Standard_natives
           then None
           else fst (resolve_upcalls find_class get_method [] upcalls []))"

text \<open>\<open>upcallStub\<close>: the stub at the index of the first upcall with the name, or null.\<close>

fun mln_jni_upcall_stub :: "(string \<times> ptr) list \<Rightarrow> string \<Rightarrow> ptr" where
  "mln_jni_upcall_stub [] name = 0"
| "mln_jni_upcall_stub ((upcall, stub) # rest) name =
     (if upcall = name \<and> stub \<noteq> 0 then stub else mln_jni_upcall_stub rest name)"

end
