(* ===== verification/Url_Globs.thy ===== *)
theory Url_Globs
  imports Utf8
begin

text \<open>
  URL globs (\<open>CompiledGlob\<close> in \<open>src/resources/url_rules.hpp\<close> and \<open>url_rules.cpp\<close>): a pattern is compiled
  into a row of tokens, and a candidate URL runs through the linear automaton of that row, one bit
  per token in a fixed bitset. The reference is the reading of a pattern the public header gives
  (\<open>mln_url_match_flag\<close> in \<open>runtime.h\<close>). The bitset is the list of its bits, updated by index in the
  order of the code's loops.
\<close>

section \<open>Compilation\<close>

abbreviation star :: u8 where "star \<equiv> 0x2A"
abbreviation question :: u8 where "question \<equiv> 0x3F"
abbreviation backslash :: u8 where "backslash \<equiv> 0x5C"
abbreviation slash :: u8 where "slash \<equiv> 0x2F"

definition max_tokens :: nat where
  "max_tokens = 4096"

datatype glob_kind = Kind_Literal | Kind_Any | Kind_Segment | Kind_Spanning

record glob_token =
  token_kind :: glob_kind
  token_literal :: u8

text \<open>\<open>rest\<close> is the pattern after the byte at the index; a loop over stars leaves what follows them.\<close>

function token_count :: "bytes \<Rightarrow> nat" where
  "token_count [] = 0"
| "token_count (c # rest) = Suc (token_count
     (if c = star then dropWhile (\<lambda>b. b = star) rest
      else if c = backslash \<and> rest \<noteq> [] then tl rest else rest))"
  by pat_completeness auto
termination
  by (relation "measure length") (auto simp: le_imp_less_Suc length_dropWhile_le)

function glob_tokens :: "bytes \<Rightarrow> glob_token list" where
  "glob_tokens [] = []"
| "glob_tokens (c # rest) =
     (if c = star
        then \<lparr>token_kind = if dropWhile (\<lambda>b. b = star) rest = rest then Kind_Segment else Kind_Spanning,
              token_literal = 0\<rparr> # glob_tokens (dropWhile (\<lambda>b. b = star) rest)
      else if c = question then \<lparr>token_kind = Kind_Any, token_literal = 0\<rparr> # glob_tokens rest
      else if c = backslash \<and> rest \<noteq> []
        then \<lparr>token_kind = Kind_Literal, token_literal = hd rest\<rparr> # glob_tokens (tl rest)
      else \<lparr>token_kind = Kind_Literal, token_literal = c\<rparr> # glob_tokens rest)"
  by pat_completeness auto
termination
  by (relation "measure length") (auto simp: le_imp_less_Suc length_dropWhile_le)

text \<open>The constructor; \<open>None\<close> is the \<open>length_error\<close> it throws.\<close>

definition compiled_glob :: "bytes \<Rightarrow> glob_token list option" where
  "compiled_glob pattern = (if token_count pattern > max_tokens then None else Some (glob_tokens pattern))"

section \<open>Matching\<close>

definition start_states :: "glob_token list \<Rightarrow> bool list" where
  "start_states tokens =
     fold (\<lambda>index states. states[Suc index :=
         token_kind (tokens ! index) \<in> {Kind_Segment, Kind_Spanning} \<and> states ! index])
       [0..<length tokens] ((replicate (Suc max_tokens) False)[0 := True])"

text \<open>One turn of the inner loop: the states and \<open>previous\<close>.\<close>

definition next_state :: "glob_token list \<Rightarrow> u8 \<Rightarrow> nat \<Rightarrow> bool list \<times> bool \<Rightarrow> bool list \<times> bool" where
  "next_state tokens b index = (\<lambda>(states, previous).
     let old = states ! Suc index; token = tokens ! index
     in (states[Suc index := (case token_kind token of
           Kind_Segment \<Rightarrow> states ! index \<or> (old \<and> b \<noteq> slash)
         | Kind_Spanning \<Rightarrow> states ! index \<or> old
         | Kind_Any \<Rightarrow> previous \<and> b \<noteq> slash
         | Kind_Literal \<Rightarrow> previous \<and> b = token_literal token)], old))"

definition consume_byte :: "glob_token list \<Rightarrow> u8 \<Rightarrow> bool list \<Rightarrow> bool list" where
  "consume_byte tokens b states =
     fst (fold (next_state tokens b) [0..<length tokens] (states[0 := False], states ! 0))"

definition glob_matches :: "glob_token list \<Rightarrow> bytes \<Rightarrow> bool" where
  "glob_matches tokens candidate = fold (consume_byte tokens) candidate (start_states tokens) ! length tokens"

section \<open>The language of a row of tokens\<close>

fun token_reads :: "glob_token \<Rightarrow> bytes \<Rightarrow> bool" where
  "token_reads token w = (case token_kind token of
     Kind_Literal \<Rightarrow> w = [token_literal token]
   | Kind_Any \<Rightarrow> (\<exists>b. w = [b] \<and> b \<noteq> slash)
   | Kind_Segment \<Rightarrow> slash \<notin> set w
   | Kind_Spanning \<Rightarrow> True)"

declare token_reads.simps [simp del]

definition tokens_read :: "glob_token list \<Rightarrow> bytes \<Rightarrow> bool" where
  "tokens_read tokens w \<longleftrightarrow> (\<exists>parts. list_all2 token_reads tokens parts \<and> concat parts = w)"

lemma tokens_read_Nil [simp]: "tokens_read [] w \<longleftrightarrow> w = []"
  by (auto simp: tokens_read_def)

lemma tokens_read_snoc:
  "tokens_read (tokens @ [t]) w \<longleftrightarrow> (\<exists>u v. w = u @ v \<and> tokens_read tokens u \<and> token_reads t v)"
  unfolding tokens_read_def
proof safe
  fix parts assume "list_all2 token_reads (tokens @ [t]) parts" "w = concat parts"
  then obtain ps p where "parts = ps @ [p]" "list_all2 token_reads tokens ps" "token_reads t p"
    by (auto simp: list_all2_append1 list_all2_Cons1)
  then show "\<exists>u v. concat parts = u @ v \<and> (\<exists>parts. list_all2 token_reads tokens parts \<and> concat parts = u)
      \<and> token_reads t v"
    by auto
next
  fix parts v assume "list_all2 token_reads tokens parts" "token_reads t v"
  then show "\<exists>qs. list_all2 token_reads (tokens @ [t]) qs \<and> concat qs = concat parts @ v"
    by (intro exI [of _ "parts @ [v]"]) (simp add: list_all2_appendI)
qed

lemma tokens_read_Cons:
  "tokens_read (t # tokens) w \<longleftrightarrow> (\<exists>u v. w = u @ v \<and> token_reads t u \<and> tokens_read tokens v)"
  unfolding tokens_read_def
proof
  assume "\<exists>parts. list_all2 token_reads (t # tokens) parts \<and> concat parts = w"
  then obtain p ps where "token_reads t p" "list_all2 token_reads tokens ps" "w = p @ concat ps"
    by (auto simp: list_all2_Cons1)
  then show "\<exists>u v. w = u @ v \<and> token_reads t u \<and> (\<exists>parts. list_all2 token_reads tokens parts \<and> concat parts = v)"
    by blast
next
  assume "\<exists>u v. w = u @ v \<and> token_reads t u \<and> (\<exists>parts. list_all2 token_reads tokens parts \<and> concat parts = v)"
  then obtain u ps where "token_reads t u" "list_all2 token_reads tokens ps" "w = u @ concat ps" by blast
  then show "\<exists>qs. list_all2 token_reads (t # tokens) qs \<and> concat qs = w"
    by (intro exI [of _ "u # ps"]) simp
qed

text \<open>The automaton's transitions, as facts about the language of the tokens before a state.\<close>

lemma snoc_empty:
  "tokens_read (tokens @ [t]) [] \<longleftrightarrow> token_kind t \<in> {Kind_Segment, Kind_Spanning} \<and> tokens_read tokens []"
  by (auto simp: tokens_read_snoc token_reads.simps split: glob_kind.splits)

lemma split_last: "w @ [b] = u @ v \<longleftrightarrow> (v = [] \<and> u = w @ [b]) \<or> (\<exists>v'. v = v' @ [b] \<and> w = u @ v')"
  by (cases v rule: rev_cases) auto

lemma snoc_split:
  "tokens_read (tokens @ [t]) (w @ [b]) \<longleftrightarrow> (tokens_read tokens (w @ [b]) \<and> token_reads t [])
     \<or> (\<exists>u v. w = u @ v \<and> tokens_read tokens u \<and> token_reads t (v @ [b]))"
  unfolding tokens_read_snoc split_last by blast

lemma reads_snoc:
  "token_reads t (v @ [b]) \<longleftrightarrow> (case token_kind t of
     Kind_Literal \<Rightarrow> v = [] \<and> b = token_literal t
   | Kind_Any \<Rightarrow> v = [] \<and> b \<noteq> slash
   | Kind_Segment \<Rightarrow> token_reads t v \<and> b \<noteq> slash
   | Kind_Spanning \<Rightarrow> True)"
  by (auto simp: token_reads.simps split: glob_kind.splits)

lemma snoc_byte:
  "tokens_read (tokens @ [t]) (w @ [b]) \<longleftrightarrow> (case token_kind t of
     Kind_Literal \<Rightarrow> tokens_read tokens w \<and> b = token_literal t
   | Kind_Any \<Rightarrow> tokens_read tokens w \<and> b \<noteq> slash
   | Kind_Segment \<Rightarrow> tokens_read tokens (w @ [b]) \<or> (tokens_read (tokens @ [t]) w \<and> b \<noteq> slash)
   | Kind_Spanning \<Rightarrow> tokens_read tokens (w @ [b]) \<or> tokens_read (tokens @ [t]) w)"
proof (cases "token_kind t")
  case Kind_Spanning
  then have "token_reads t v" for v by (simp add: token_reads.simps)
  with Kind_Spanning show ?thesis unfolding snoc_split by (simp add: reads_snoc) (simp add: tokens_read_snoc)
next
  case Kind_Segment
  then have "token_reads t []" by (simp add: token_reads.simps)
  with Kind_Segment show ?thesis unfolding snoc_split by (simp add: reads_snoc) (auto simp: tokens_read_snoc)
qed (auto simp: snoc_split reads_snoc token_reads.simps)

text \<open>The invariant: each state says whether the bytes read so far belong to the tokens before it.\<close>

definition states_show :: "glob_token list \<Rightarrow> bytes \<Rightarrow> bool list \<Rightarrow> bool" where
  "states_show tokens w states \<longleftrightarrow> length states = Suc max_tokens
     \<and> (\<forall>k \<le> length tokens. states ! k \<longleftrightarrow> tokens_read (take k tokens) w)"

lemma take_snoc: "k < length tokens \<Longrightarrow> take (Suc k) tokens = take k tokens @ [tokens ! k]"
  by (rule take_Suc_conv_app_nth)

lemma start_states_show:
  assumes "length tokens \<le> max_tokens"
  shows "states_show tokens [] (start_states tokens)"
proof -
  let ?step = "\<lambda>index states. states[Suc index :=
         token_kind (tokens ! index) \<in> {Kind_Segment, Kind_Spanning} \<and> states ! index]"
  let ?first = "(replicate (Suc max_tokens) False)[0 := True]"
  have "length (fold ?step [0..<n] ?first) = Suc max_tokens
      \<and> (\<forall>k \<le> n. fold ?step [0..<n] ?first ! k \<longleftrightarrow> tokens_read (take k tokens) [])"
    if "n \<le> length tokens" for n
    using that
  proof (induction n)
    case (Suc n)
    then show ?case using assms take_snoc [of n tokens]
      by (auto simp: nth_list_update le_Suc_eq snoc_empty)
  qed simp
  then show ?thesis by (simp add: states_show_def start_states_def)
qed

lemma consume_byte_shows:
  assumes bound: "length tokens \<le> max_tokens" and shown: "states_show tokens w states"
  shows "states_show tokens (w @ [b]) (consume_byte tokens b states)"
proof -
  let ?run = "\<lambda>n. fold (next_state tokens b) [0..<n] (states[0 := False], states ! 0)"
  have len: "length states = Suc max_tokens" using shown by (simp add: states_show_def)
  have old: "states ! k \<longleftrightarrow> tokens_read (take k tokens) w" if "k \<le> length tokens" for k
    using shown that by (simp add: states_show_def)
  have "length (fst (?run n)) = Suc max_tokens \<and> snd (?run n) = states ! n
      \<and> (\<forall>k \<le> n. fst (?run n) ! k \<longleftrightarrow> tokens_read (take k tokens) (w @ [b]))
      \<and> (\<forall>k. n < k \<and> k \<le> length tokens \<longrightarrow> fst (?run n) ! k = states ! k)"
    if "n \<le> length tokens" for n
    using that
  proof (induction n)
    case (Suc n)
    obtain new previous where run: "?run n = (new, previous)" by fastforce
    with Suc have IH: "length new = Suc max_tokens" "previous = states ! n"
        "\<And>k. k \<le> n \<Longrightarrow> new ! k \<longleftrightarrow> tokens_read (take k tokens) (w @ [b])"
        "\<And>k. n < k \<Longrightarrow> k \<le> length tokens \<Longrightarrow> new ! k = states ! k"
      by auto
    have n: "n < length tokens" "Suc n < length new" using Suc.prems bound IH(1) by simp_all
    have kept: "new ! Suc n = states ! Suc n" using IH(4) [of "Suc n"] n by simp
    have turn: "?run (Suc n) = next_state tokens b n (new, previous)" using run by simp
    show ?case unfolding turn using n IH
      by (auto simp: next_state_def kept Let_def nth_list_update le_Suc_eq take_snoc snoc_byte old
          split: glob_kind.split)
  qed (use len in simp)
  from this [of "length tokens"] show ?thesis by (simp add: states_show_def consume_byte_def)
qed

theorem glob_matches_language:
  assumes "length tokens \<le> max_tokens"
  shows "glob_matches tokens candidate \<longleftrightarrow> tokens_read tokens candidate"
proof -
  have "states_show tokens (u @ v) (fold (consume_byte tokens) v states)"
    if "states_show tokens u states" for u v states
    using that
  proof (induction v arbitrary: u states)
    case (Cons b v)
    from Cons.IH [OF consume_byte_shows [OF assms Cons.prems, of b]] show ?case by simp
  qed simp
  from this [OF start_states_show [OF assms], of candidate] show ?thesis
    by (simp add: states_show_def glob_matches_def)
qed

section \<open>The language of a pattern\<close>

text \<open>
  What the header says of a pattern: \<open>*\<close> matches any bytes but a slash, \<open>**\<close> any bytes, \<open>?\<close> one
  byte but a slash, and a backslash makes the next byte match only itself. A backslash at the end is
  itself.
\<close>

inductive pattern_reads :: "bytes \<Rightarrow> bytes \<Rightarrow> bool" where
  read_end: "pattern_reads [] []"
| read_star: "pattern_reads p u \<Longrightarrow> slash \<notin> set s \<Longrightarrow> pattern_reads (star # p) (s @ u)"
| read_double: "pattern_reads p u \<Longrightarrow> pattern_reads (star # star # p) (s @ u)"
| read_question: "pattern_reads p u \<Longrightarrow> b \<noteq> slash \<Longrightarrow> pattern_reads (question # p) (b # u)"
| read_escaped: "pattern_reads p u \<Longrightarrow> pattern_reads (backslash # c # p) (c # u)"
| read_backslash: "pattern_reads [backslash] [backslash]"
| read_literal: "pattern_reads p u \<Longrightarrow> c \<notin> {star, question, backslash} \<Longrightarrow> pattern_reads (c # p) (c # u)"

inductive_cases pattern_NilE: "pattern_reads [] w"
inductive_cases pattern_ConsE: "pattern_reads (c # p) w"


lemma star_tokens:
  "glob_tokens (star # p) = \<lparr>token_kind = if p = [] \<or> hd p \<noteq> star then Kind_Segment else Kind_Spanning,
      token_literal = 0\<rparr> # glob_tokens (dropWhile (\<lambda>b. b = star) p)"
proof -
  have "dropWhile (\<lambda>b. b = star) p = p \<longleftrightarrow> p = [] \<or> hd p \<noteq> star"
    by (cases p) (use length_dropWhile_le [of "\<lambda>b. b = star" "tl p"] in auto)
  then show ?thesis by simp
qed

lemma star_reads:
  "tokens_read (glob_tokens (star # p)) w \<longleftrightarrow> (\<exists>s u. w = s @ u \<and> (p = [] \<or> hd p \<noteq> star \<longrightarrow> slash \<notin> set s)
     \<and> tokens_read (glob_tokens (dropWhile (\<lambda>b. b = star) p)) u)"
  unfolding star_tokens tokens_read_Cons
  by (cases "p = [] \<or> hd p \<noteq> star") (simp_all only: if_True if_False token_reads.simps glob_token.simps glob_kind.case simp_thms)

lemma single_reads:
  "token_kind t = Kind_Any \<Longrightarrow> tokens_read (t # tokens) w \<longleftrightarrow> (\<exists>b u. w = b # u \<and> b \<noteq> slash \<and> tokens_read tokens u)"
  "token_kind t = Kind_Literal \<Longrightarrow> tokens_read (t # tokens) w \<longleftrightarrow> (\<exists>u. w = token_literal t # u \<and> tokens_read tokens u)"
  by (auto simp: tokens_read_Cons token_reads.simps) (metis append_Cons append_Nil)+

lemma stars_read_more:
  "tokens_read (glob_tokens p) u \<Longrightarrow> slash \<notin> set s \<or> (p \<noteq> [] \<and> hd p = star)
     \<Longrightarrow> tokens_read (glob_tokens (star # p)) (s @ u)"
proof (cases "p \<noteq> [] \<and> hd p = star")
  case True
  then obtain q where p: "p = star # q" by (cases p) auto
  assume "tokens_read (glob_tokens p) u"
  then obtain s' u' where "u = s' @ u'" "tokens_read (glob_tokens (dropWhile (\<lambda>b. b = star) q)) u'"
    unfolding p star_reads by blast
  then have "s @ u = (s @ s') @ u'" "tokens_read (glob_tokens (dropWhile (\<lambda>b. b = star) p)) u'"
    by (simp_all add: p)
  then show ?thesis unfolding star_reads using True by blast
next
  case False
  assume "tokens_read (glob_tokens p) u" "slash \<notin> set s \<or> (p \<noteq> [] \<and> hd p = star)"
  moreover have "dropWhile (\<lambda>b. b = star) p = p" using False by (cases p) auto
  ultimately show ?thesis unfolding star_reads using False by auto
qed

lemma reads_stars: "pattern_reads q u \<Longrightarrow> pattern_reads (replicate k star @ q) u"
  by (induction k) (use read_star [where s = "[]"] in auto)

lemma dropWhile_star: "\<exists>k. p = replicate k star @ dropWhile (\<lambda>b. b = star) p"
proof -
  have "takeWhile (\<lambda>b. b = star) p = replicate (length (takeWhile (\<lambda>b. b = star) p)) star"
    by (rule replicate_eqI [symmetric, THEN sym]) (auto dest: set_takeWhileD)
  then show ?thesis by (metis takeWhile_dropWhile_id)
qed

lemma tokens_read_pattern: "pattern_reads p w \<longleftrightarrow> tokens_read (glob_tokens p) w"
proof
  assume "pattern_reads p w"
  then show "tokens_read (glob_tokens p) w"
  proof (induction rule: pattern_reads.induct)
    case (read_star p u s)
    then show ?case by (intro stars_read_more) simp_all
  next
    case (read_double p u s)
    then have "tokens_read (glob_tokens (star # p)) ([] @ u)" by (intro stars_read_more) simp_all
    then show ?case by (intro stars_read_more) simp_all
  qed (auto simp: single_reads)
next
  assume "tokens_read (glob_tokens p) w"
  then show "pattern_reads p w"
  proof (induction p arbitrary: w rule: glob_tokens.induct)
    case 1
    then show ?case by (auto intro: read_end)
  next
    case (2 c rest)
    show ?case
    proof (cases "c = star")
      case True
      with 2 obtain s u where w: "w = s @ u" "rest = [] \<or> hd rest \<noteq> star \<longrightarrow> slash \<notin> set s"
        and u: "pattern_reads (dropWhile (\<lambda>b. b = star) rest) u"
        using star_reads [of rest w] by blast
      obtain k q where q: "dropWhile (\<lambda>b. b = star) rest = q" and k: "rest = replicate k star @ q"
        using dropWhile_star by metis
      then have next_q: "q = [] \<or> hd q \<noteq> star" using hd_dropWhile [of "\<lambda>b. b = star" rest] by metis
      show ?thesis
      proof (cases k)
        case 0
        with k w u q next_q True show ?thesis by (auto intro: read_star)
      next
        case (Suc j)
        with k have "rest = star # replicate j star @ q" by simp
        with True w(1) read_double [OF reads_stars [OF u [unfolded q], of j], of s] show ?thesis by simp
      qed
    next
      case False
      consider "c = question" | d p where "c = backslash" "rest = d # p" | "c = backslash" "rest = []"
        | "c \<notin> {star, question, backslash}"
        using False by (cases rest) auto
      then show ?thesis
      proof cases
        case 1
        then obtain b u where "w = b # u" "b \<noteq> slash" "tokens_read (glob_tokens rest) u"
          using "2.prems" by (auto simp: single_reads)
        with 1 "2.IH"(2) show ?thesis by (simp add: read_question)
      next
        case (2 d p)
        then obtain u where "w = d # u" "tokens_read (glob_tokens p) u"
          using "2.prems" by (auto simp: single_reads)
        with 2 "2.IH"(3) show ?thesis by (simp add: read_escaped)
      next
        case 3
        with "2.prems" show ?thesis by (simp add: single_reads read_backslash)
      next
        case 4
        then obtain u where "w = c # u" "tokens_read (glob_tokens rest) u"
          using "2.prems" by (auto simp: single_reads)
        with 4 "2.IH"(4) show ?thesis by (simp add: read_literal)
      qed
    qed
  qed
qed

lemma length_glob_tokens: "length (glob_tokens p) = token_count p"
  by (induction p rule: token_count.induct) auto

text \<open>
  C18: a glob compiles exactly when it has at most 4096 tokens, and then the automaton accepts exactly the
  URLs the header's reading of the pattern accepts.
\<close>

theorem compiled_glob_reads_pattern:
  "case compiled_glob pattern of
     None \<Rightarrow> token_count pattern > max_tokens
   | Some tokens \<Rightarrow> length tokens \<le> max_tokens
       \<and> (glob_matches tokens candidate \<longleftrightarrow> pattern_reads pattern candidate)"
  by (simp add: compiled_glob_def length_glob_tokens glob_matches_language tokens_read_pattern
      del: glob_tokens.simps)

end
