(* ===== verification/Url_Rules.thy ===== *)
theory Url_Rules
  imports Url_Globs Diagnostics Api_Runtime
begin

text \<open>
  The rules a host gives for URLs (\<open>src/resources/url_rules.hpp\<close>, \<open>url_rules.cpp\<close>): the routes of a resource
  provider, the query parameters of a resource transform and the headers of a header transform, with
  the validation and the copies of the caller's arrays, and the response an HTTP header transform fills
  (\<open>src/runtime/runtime.cpp\<close>). An array of sized elements is the list of the elements at the places the
  cursor stops: each starts where the declared size of the one before it ends.
\<close>

unbundle bit_operations_syntax

section \<open>Validation\<close>

text \<open>\<open>std::to_string\<close>.\<close>

function decimal :: "nat \<Rightarrow> string" where
  "decimal n = (if n < 10 then [''0123456789'' ! n] else decimal (n div 10) @ [''0123456789'' ! (n mod 10)])"
  by auto
termination by (relation "measure id") auto

declare decimal.simps [simp del]

definition known_url_match_flags :: u32 where
  "known_url_match_flags = mln_url_match_flag_code MLN_URL_MATCH_GLOB"

definition reject :: "string \<Rightarrow> nat \<Rightarrow> string \<Rightarrow> thread_locals \<Rightarrow> mln_status \<times> thread_locals" where
  "reject what index reason t =
     (MLN_STATUS_INVALID_ARGUMENT, error_text (what @ '' '' @ decimal index @ '' '' @ reason) t)"

text \<open>The element at the cursor and the cursor after it. A cursor past the last element is not read.\<close>

definition next_sized_element :: "('e \<Rightarrow> u32) \<Rightarrow> nat \<Rightarrow> nat \<Rightarrow> 'e list \<Rightarrow> ('e \<times> 'e list) option" where
  "next_sized_element element_size sizeof alignof cursor = (case cursor of
     [] \<Rightarrow> None
   | element # rest \<Rightarrow>
       if unat (element_size element) < sizeof \<or> unat (element_size element) mod alignof \<noteq> 0
       then None else Some (element, rest))"

definition check_pattern ::
    "string \<Rightarrow> nat \<Rightarrow> u32 \<Rightarrow> u32 \<Rightarrow> mln_buffer_view \<Rightarrow> thread_locals \<Rightarrow> mln_status \<times> thread_locals" where
  "check_pattern what index kinds flags url t =
     (let (valid, t1) = validate_c_string_view url ''url'' t
      in if \<not> valid then reject what index ''has an invalid url'' t1
         else if has_unknown_bits kinds (mln_resource_kind_flag_code MLN_RESOURCE_KIND_FLAG_ALL)
           then reject what index ''has unknown kind bits'' t1
         else if has_unknown_bits flags known_url_match_flags
           then reject what index ''has unknown flag bits'' t1
         else if has_flag flags (mln_url_match_flag_code MLN_URL_MATCH_GLOB)
             \<and> token_count (string_from_view url) > max_tokens
           then reject what index ''exceeds the glob limit of 4096 tokens'' t1
         else (MLN_STATUS_OK, t1))"

section \<open>URL patterns\<close>

record url_pattern =
  pattern_kinds :: u32
  pattern_url :: bytes
  pattern_glob :: "glob_token list option"

definition matches_kind :: "u32 \<Rightarrow> u32 \<Rightarrow> bool" where
  "matches_kind kinds request_kind \<longleftrightarrow>
     request_kind < 32 \<and> drop_bit (unat request_kind) kinds AND 1 \<noteq> 0"

text \<open>The constructor; \<open>None\<close> is the exception of the glob it compiles.\<close>

definition url_pattern_of :: "u32 \<Rightarrow> u32 \<Rightarrow> bytes \<Rightarrow> url_pattern option" where
  "url_pattern_of kinds flags url =
     (let covered = (if kinds = 0 then mln_resource_kind_flag_code MLN_RESOURCE_KIND_FLAG_ALL else kinds)
      in if has_flag flags (mln_url_match_flag_code MLN_URL_MATCH_GLOB)
         then (case compiled_glob url of
             None \<Rightarrow> None
           | Some tokens \<Rightarrow> Some \<lparr>pattern_kinds = covered, pattern_url = url, pattern_glob = Some tokens\<rparr>)
         else Some \<lparr>pattern_kinds = covered, pattern_url = url, pattern_glob = None\<rparr>)"

definition pattern_matches :: "url_pattern \<Rightarrow> u32 \<Rightarrow> bytes \<Rightarrow> bool" where
  "pattern_matches pattern request_kind candidate \<longleftrightarrow>
     matches_kind (pattern_kinds pattern) request_kind
     \<and> (case pattern_glob pattern of
          Some tokens \<Rightarrow> glob_matches tokens candidate
        | None \<Rightarrow> pattern_url pattern = candidate)"

text \<open>What a pattern means: its kinds, with every kind for none, and its URL as a glob or as it is.\<close>

definition pattern_covers :: "u32 \<Rightarrow> u32 \<Rightarrow> bytes \<Rightarrow> u32 \<Rightarrow> bytes \<Rightarrow> bool" where
  "pattern_covers kinds flags url kind candidate \<longleftrightarrow>
     (if kinds = 0 then unat kind < 8 else unat kind < 32 \<and> bit kinds (unat kind))
     \<and> (if bit flags 0 then pattern_reads url candidate else candidate = url)"

lemma matches_kind_bit: "matches_kind kinds kind \<longleftrightarrow> unat kind < 32 \<and> bit kinds (unat kind)"
proof -
  have "drop_bit n kinds AND 1 \<noteq> 0 \<longleftrightarrow> bit kinds n" for n
    by (simp add: and_one_eq bit_iff_odd_drop_bit odd_iff_mod_2_eq_one)
  then show ?thesis by (simp add: matches_kind_def word_less_nat_alt)
qed

lemma all_kinds_bit: "bit (255 :: int) n \<longleftrightarrow> n < 8"
proof -
  have "(255 :: int) = mask 8" by (simp add: mask_eq_exp_minus_1)
  then show ?thesis by (simp only: bit_mask_iff) simp
qed

lemma glob_flag: "has_flag flags (mln_url_match_flag_code MLN_URL_MATCH_GLOB) \<longleftrightarrow> bit flags 0"
  using has_flag_single [of flags 0] by simp

lemma url_pattern_covers:
  assumes "url_pattern_of kinds flags url = Some pattern"
  shows "pattern_matches pattern kind candidate \<longleftrightarrow> pattern_covers kinds flags url kind candidate"
  using assms
  by (auto simp: url_pattern_of_def pattern_matches_def pattern_covers_def matches_kind_bit glob_flag
      all_kinds_bit compiled_glob_def glob_matches_language length_glob_tokens tokens_read_pattern Let_def
      simp del: glob_tokens.simps mln_url_match_flag_code.simps split: if_splits)

lemma check_pattern_status: "fst (check_pattern what index kinds flags url t) = MLN_STATUS_OK
    \<or> fst (check_pattern what index kinds flags url t) = MLN_STATUS_INVALID_ARGUMENT"
  by (auto simp: check_pattern_def reject_def Let_def split_beta)

lemma checked_pattern_compiles:
  "check_pattern what index kinds flags url t = (MLN_STATUS_OK, t1)
     \<Longrightarrow> \<exists>pattern. url_pattern_of kinds flags (string_from_view url) = Some pattern"
  by (auto simp: check_pattern_def url_pattern_of_def compiled_glob_def reject_def Let_def split_beta
      simp del: mln_url_match_flag_code.simps split: if_splits)

section \<open>Routes\<close>

definition sizeof_mln_resource_route :: nat where
  "sizeof_mln_resource_route = 32"

definition route_table_matches :: "url_pattern list \<Rightarrow> u32 \<Rightarrow> bytes \<Rightarrow> bool" where
  "route_table_matches routes kind resolved_url \<longleftrightarrow>
     routes = [] \<or> list_ex (\<lambda>route. pattern_matches route kind resolved_url) routes"

text \<open>The loop over the remaining \<open>n\<close> elements.\<close>

fun copy_routes_from ::
    "nat \<Rightarrow> nat \<Rightarrow> mln_resource_route list \<Rightarrow> url_pattern list \<Rightarrow> thread_locals
      \<Rightarrow> outcome \<times> url_pattern list \<times> thread_locals" where
  "copy_routes_from 0 index cursor out t = (Returned MLN_STATUS_OK, out, t)"
| "copy_routes_from (Suc n) index cursor out t =
     (case next_sized_element resource_route_size sizeof_mln_resource_route 8 cursor of
        None \<Rightarrow> (let (status, t1) = reject ''route'' index ''has an invalid size'' t in (Returned status, out, t1))
      | Some (route, cursor') \<Rightarrow>
          (let (status, t1) = check_pattern ''route'' index (resource_route_kinds route)
                 (resource_route_flags route) (resource_route_url route) t
           in if status \<noteq> MLN_STATUS_OK then (Returned status, out, t1)
              else (case url_pattern_of (resource_route_kinds route) (resource_route_flags route)
                      (string_from_view (resource_route_url route)) of
                  None \<Rightarrow> (Threw_exception (ascii ''glob exceeds 4096 tokens''), out, t1)
                | Some pattern \<Rightarrow> copy_routes_from n (Suc index) cursor' (out @ [pattern]) t1)))"

definition copy_routes ::
    "mln_resource_route list option \<Rightarrow> usize \<Rightarrow> thread_locals
      \<Rightarrow> url_pattern list \<Rightarrow> outcome \<times> url_pattern list \<times> thread_locals" where
  "copy_routes routes count t out =
     (if routes = None \<and> count \<noteq> 0
      then (Returned MLN_STATUS_INVALID_ARGUMENT, out,
            error_text ''routes must not be null with a nonzero route_count'' t)
      else copy_routes_from (unat count) 0 (case routes of None \<Rightarrow> [] | Some elements \<Rightarrow> elements) [] t)"

definition route_covers :: "mln_resource_route \<Rightarrow> u32 \<Rightarrow> bytes \<Rightarrow> bool" where
  "route_covers route = pattern_covers (resource_route_kinds route) (resource_route_flags route)
     (string_from_view (resource_route_url route))"

lemma next_sized_element_Some:
  "next_sized_element element_size n al cursor = Some (element, rest) \<Longrightarrow> cursor = element # rest"
  by (auto simp: next_sized_element_def split: list.splits if_splits)

lemma copied_routes:
  assumes "copy_routes_from n index cursor out t = (Returned MLN_STATUS_OK, table, t')"
  shows "n \<le> length cursor \<and> (\<exists>patterns. table = out @ patterns
    \<and> list_all2 (\<lambda>route pattern. \<forall>kind url. pattern_matches pattern kind url \<longleftrightarrow> route_covers route kind url)
        (take n cursor) patterns)"
  using assms
proof (induction n arbitrary: index cursor out t)
  case (Suc n)
  from Suc.prems obtain route rest t1 pattern where
    element: "cursor = route # rest"
    and pattern: "url_pattern_of (resource_route_kinds route) (resource_route_flags route)
      (string_from_view (resource_route_url route)) = Some pattern"
    and run: "copy_routes_from n (Suc index) rest (out @ [pattern]) t1 = (Returned MLN_STATUS_OK, table, t')"
    by (auto simp: reject_def Let_def dest!: next_sized_element_Some split: option.splits if_splits prod.splits)
  from Suc.IH [OF run] url_pattern_covers [OF pattern] show ?case
    by (auto simp: element route_covers_def)
qed simp

lemma copy_routes_from_returns:
  "\<exists>status. fst (copy_routes_from n index cursor out t) = Returned status
     \<and> status \<in> {MLN_STATUS_OK, MLN_STATUS_INVALID_ARGUMENT}"
proof (induction n arbitrary: index cursor out t)
  case (Suc n)
  show ?case
  proof (cases "next_sized_element resource_route_size sizeof_mln_resource_route 8 cursor")
    case None
    then show ?thesis by (simp add: reject_def)
  next
    case (Some next_element)
    then obtain route rest where
      element: "next_sized_element resource_route_size sizeof_mln_resource_route 8 cursor = Some (route, rest)"
      by (cases next_element) auto
    let ?check = "check_pattern ''route'' index (resource_route_kinds route) (resource_route_flags route)
      (resource_route_url route) t"
    show ?thesis
    proof (cases "fst ?check = MLN_STATUS_OK")
      case True
      then obtain t1 pattern where "?check = (MLN_STATUS_OK, t1)"
        "url_pattern_of (resource_route_kinds route) (resource_route_flags route)
          (string_from_view (resource_route_url route)) = Some pattern"
        using checked_pattern_compiles by (metis prod.collapse)
      with element Suc.IH show ?thesis by simp
    next
      case False
      with element show ?thesis
        using check_pattern_status [of "''route''" index "resource_route_kinds route"
            "resource_route_flags route" "resource_route_url route" t]
        by (simp add: split_beta)
    qed
  qed
qed simp


section \<open>Query parameters\<close>

abbreviation hash :: u8 where "hash \<equiv> 0x23"
abbreviation percent :: u8 where "percent \<equiv> 0x25"
abbreviation ampersand :: u8 where "ampersand \<equiv> 0x26"
abbreviation equals :: u8 where "equals \<equiv> 0x3D"

definition unreserved :: "u8 \<Rightarrow> bool" where
  "unreserved b \<longleftrightarrow> (b \<ge> 0x41 \<and> b \<le> 0x5A) \<or> (b \<ge> 0x61 \<and> b \<le> 0x7A) \<or> (b \<ge> 0x30 \<and> b \<le> 0x39)
     \<or> b = 0x2D \<or> b = 0x2E \<or> b = 0x5F \<or> b = 0x7E"

definition hex_upper :: "u8 \<Rightarrow> u8" where
  "hex_upper n = of_char (''0123456789ABCDEF'' ! unat n)"

fun append_encoded :: "bytes \<Rightarrow> bytes \<Rightarrow> bytes" where
  "append_encoded out [] = out"
| "append_encoded out (b # text) =
     (if unreserved b then append_encoded (out @ [b]) text
      else append_encoded (out @ [percent, hex_upper (drop_bit 4 b), hex_upper (b AND 0x0F)]) text)"

text \<open>\<open>None\<close> for a valid text, with the thread as the validation leaves it.\<close>

definition check_parameter_text ::
    "nat \<Rightarrow> nat \<Rightarrow> string \<Rightarrow> mln_buffer_view \<Rightarrow> thread_locals \<Rightarrow> mln_status \<times> thread_locals" where
  "check_parameter_text rule parameter what view t =
     (let (valid, t1) = validate_c_string_view view what t
      in if \<not> valid \<or> \<not> is_valid_utf8 (string_from_view view)
         then (MLN_STATUS_INVALID_ARGUMENT, error_text (''resource transform rule '' @ decimal rule
                @ '' parameter '' @ decimal parameter @ '' has an invalid '' @ what) t1)
         else (MLN_STATUS_OK, t1))"

fun copy_parameters ::
    "nat \<Rightarrow> nat \<Rightarrow> mln_url_query_parameter list \<Rightarrow> bytes \<Rightarrow> thread_locals \<Rightarrow> mln_status \<times> bytes \<times> thread_locals" where
  "copy_parameters index parameter [] query t = (MLN_STATUS_OK, query, t)"
| "copy_parameters index parameter (p # ps) query t =
     (let name = url_query_parameter_name p; val = url_query_parameter_value p
      in if buffer_view_size name = 0
         then (MLN_STATUS_INVALID_ARGUMENT, query, error_text (''resource transform rule '' @ decimal index
                 @ '' parameter '' @ decimal parameter @ '' has an empty name'') t)
         else (let (status, t1) = check_parameter_text index parameter ''name'' name t
           in if status \<noteq> MLN_STATUS_OK then (status, query, t1)
              else (let (status, t2) = check_parameter_text index parameter ''value'' val t1
                in if status \<noteq> MLN_STATUS_OK then (status, query, t2)
                   else copy_parameters index (Suc parameter) ps
                     (append_encoded (append_encoded (if query \<noteq> [] then query @ [ampersand] else query)
                          (string_from_view name) @ [equals])
                        (string_from_view val)) t2)))"

record query_rule =
  rule_pattern :: url_pattern
  rule_query :: bytes

definition sizeof_mln_resource_transform_rule :: nat where
  "sizeof_mln_resource_transform_rule = 48"

text \<open>The parameters of a rule, as many as it declares.\<close>

definition rule_parameters :: "mln_resource_transform_rule \<Rightarrow> mln_url_query_parameter list" where
  "rule_parameters rule = (case resource_transform_rule_parameters rule of
     None \<Rightarrow> []
   | Some ps \<Rightarrow> take (unat (resource_transform_rule_parameter_count rule)) ps)"

fun copy_query_rules_from ::
    "nat \<Rightarrow> nat \<Rightarrow> mln_resource_transform_rule list \<Rightarrow> query_rule list \<Rightarrow> thread_locals
      \<Rightarrow> outcome \<times> query_rule list \<times> thread_locals" where
  "copy_query_rules_from 0 index cursor out t = (Returned MLN_STATUS_OK, out, t)"
| "copy_query_rules_from (Suc n) index cursor out t =
     (case next_sized_element resource_transform_rule_size sizeof_mln_resource_transform_rule 8 cursor of
        None \<Rightarrow> (let (status, t1) = reject ''resource transform rule'' index ''has an invalid size'' t
                 in (Returned status, out, t1))
      | Some (rule, cursor') \<Rightarrow>
          (let (status, t1) = check_pattern ''resource transform rule'' index
                 (resource_transform_rule_kinds rule) (resource_transform_rule_flags rule)
                 (resource_transform_rule_url rule) t
           in if status \<noteq> MLN_STATUS_OK then (Returned status, out, t1)
              else if resource_transform_rule_parameters rule = None
                  \<and> resource_transform_rule_parameter_count rule \<noteq> 0
                then (let (status, t2) = reject ''resource transform rule'' index
                         ''has null parameters with a nonzero parameter_count'' t1
                      in (Returned status, out, t2))
              else (case url_pattern_of (resource_transform_rule_kinds rule)
                      (resource_transform_rule_flags rule)
                      (string_from_view (resource_transform_rule_url rule)) of
                  None \<Rightarrow> (Threw_exception (ascii ''glob exceeds 4096 tokens''), out, t1)
                | Some pattern \<Rightarrow>
                    (let (status, query, t2) = copy_parameters index 0 (rule_parameters rule) [] t1
                     in if status \<noteq> MLN_STATUS_OK then (Returned status, out, t2)
                        else copy_query_rules_from n (Suc index) cursor'
                               (out @ [\<lparr>rule_pattern = pattern, rule_query = query\<rparr>]) t2))))"

definition copy_query_rules ::
    "mln_resource_transform_rule list option \<Rightarrow> usize \<Rightarrow> thread_locals \<Rightarrow> query_rule list
      \<Rightarrow> outcome \<times> query_rule list \<times> thread_locals" where
  "copy_query_rules rules count t out =
     (if rules = None \<and> count \<noteq> 0
      then (Returned MLN_STATUS_INVALID_ARGUMENT, out,
            error_text ''rules must not be null with a nonzero rule_count'' t)
      else copy_query_rules_from (unat count) 0 (case rules of None \<Rightarrow> [] | Some elements \<Rightarrow> elements) [] t)"

definition append_query :: "bytes \<Rightarrow> bytes \<Rightarrow> bytes" where
  "append_query url query =
     (let fragment = length (takeWhile (\<lambda>b. b \<noteq> hash) url); base = take fragment url
      in base
         @ (if query \<noteq> []
            then (if question \<notin> set base then [question]
                  else if last base \<noteq> question \<and> last base \<noteq> ampersand then [ampersand] else [])
                 @ query
            else [])
         @ drop fragment url)"

fun query_rules_apply :: "query_rule list \<Rightarrow> u32 \<Rightarrow> bytes \<Rightarrow> bytes" where
  "query_rules_apply [] kind url = url"
| "query_rules_apply (rule # rules) kind url =
     (if pattern_matches (rule_pattern rule) kind url then append_query url (rule_query rule)
      else query_rules_apply rules kind url)"

text \<open>
  How a server reads a URL: the text before the first question mark and the fragment, the pieces of the
  query between ampersands, and in each piece a name, an equals sign and a value, both decoded.
\<close>

definition before_fragment :: "bytes \<Rightarrow> bytes" where
  "before_fragment url = takeWhile (\<lambda>b. b \<noteq> hash) url"

definition url_fragment :: "bytes \<Rightarrow> bytes" where
  "url_fragment url = dropWhile (\<lambda>b. b \<noteq> hash) url"

definition url_path :: "bytes \<Rightarrow> bytes" where
  "url_path url = takeWhile (\<lambda>b. b \<noteq> question) (before_fragment url)"

definition url_query :: "bytes \<Rightarrow> bytes" where
  "url_query url = drop 1 (dropWhile (\<lambda>b. b \<noteq> question) (before_fragment url))"

fun pieces :: "u8 \<Rightarrow> bytes \<Rightarrow> bytes list" where
  "pieces separator [] = [[]]"
| "pieces separator (b # text) =
     (if b = separator then [] # pieces separator text
      else (b # hd (pieces separator text)) # tl (pieces separator text))"

definition hex_value :: "u8 \<Rightarrow> nat" where
  "hex_value b = (if unat b \<le> 0x39 then unat b - 0x30 else unat b - 0x37)"

fun percent_decode :: "bytes \<Rightarrow> bytes" where
  "percent_decode (b # h # l # text) =
     (if b = percent then byte (16 * hex_value h + hex_value l) # percent_decode text
      else b # percent_decode (h # l # text))"
| "percent_decode text = text"

definition parameter_of :: "bytes \<Rightarrow> bytes \<times> bytes" where
  "parameter_of piece = (percent_decode (takeWhile (\<lambda>b. b \<noteq> equals) piece),
     percent_decode (drop 1 (dropWhile (\<lambda>b. b \<noteq> equals) piece)))"

definition query_parameters :: "bytes \<Rightarrow> (bytes \<times> bytes) list" where
  "query_parameters query = map parameter_of (filter (\<lambda>piece. piece \<noteq> []) (pieces ampersand query))"

definition encoded_byte :: "u8 \<Rightarrow> bytes" where
  "encoded_byte b = (if unreserved b then [b] else [percent, hex_upper (drop_bit 4 b), hex_upper (b AND 0x0F)])"

definition encoded :: "bytes \<Rightarrow> bytes" where
  "encoded text = concat (map encoded_byte text)"

lemma append_encoded: "append_encoded out text = out @ encoded text"
  by (induction out "text" rule: append_encoded.induct) (auto simp: encoded_def encoded_byte_def)

lemma hex_upper_table:
  "\<forall>n \<in> set [0..<16]. unat (hex_upper (byte n)) = (if n < 10 then n + 0x30 else n + 0x37)"
  by (simp add: upt_rec hex_upper_def)

lemma hex_upper_code: "unat n < 16 \<Longrightarrow> unat (hex_upper n) = (if unat n < 10 then unat n + 0x30 else unat n + 0x37)"
  using hex_upper_table [rule_format, of "unat n"] by simp

lemma nibbles: "unat (drop_bit 4 b :: u8) = unat b div 16" "unat (b AND 0x0F :: u8) = unat b mod 16"
proof -
  show "unat (drop_bit 4 b) = unat b div 16"
    by (simp add: unat_drop_bit_eq drop_bit_eq_div [of 4 "unat b"])
  have "b AND 0x0F = take_bit 4 b" by (simp add: take_bit_eq_mask mask_numeral)
  then show "unat (b AND 0x0F) = unat b mod 16"
    by (simp only: unsigned_take_bit_eq) (simp add: take_bit_eq_mod)
qed

lemma nibbles_small: "unat (drop_bit 4 b :: u8) < 16" "unat (b AND 0x0F :: u8) < 16"
  using unat_u8_bound [of b] by (simp_all add: nibbles)

lemma hex_upper_safe:
  "unat n < 16 \<Longrightarrow> hex_upper n \<notin> {hash, question, ampersand, equals}"
  using hex_upper_code [of n] by (auto split: if_splits)

lemma unreserved_safe: "unreserved b \<Longrightarrow> b \<notin> {hash, question, ampersand, equals, percent}"
  by (auto simp: unreserved_def)

lemma encoded_byte_safe:
  "hash \<notin> set (encoded_byte b)" "question \<notin> set (encoded_byte b)" "ampersand \<notin> set (encoded_byte b)"
  "equals \<notin> set (encoded_byte b)"
  using unreserved_safe [of b] hex_upper_safe [OF nibbles_small(1), of b] hex_upper_safe [OF nibbles_small(2), of b]
  by (auto simp: encoded_byte_def)

lemma hex_value_upper: "unat n < 16 \<Longrightarrow> hex_value (hex_upper n) = unat n"
  using hex_upper_code [of n] by (auto simp: hex_value_def)

lemma encoded_safe:
  "hash \<notin> set (encoded text)" "question \<notin> set (encoded text)" "ampersand \<notin> set (encoded text)"
  "equals \<notin> set (encoded text)"
  by (induction "text") (simp_all add: encoded_def encoded_byte_safe)

lemma decode_one: "b \<noteq> percent \<Longrightarrow> percent_decode (b # text) = b # percent_decode text"
  by (cases "(b # text)" rule: percent_decode.cases) auto

lemma decode_encoded_byte: "percent_decode (encoded_byte b @ rest) = b # percent_decode rest"
proof (cases "unreserved b")
  case True
  then show ?thesis using unreserved_safe [of b] by (simp add: encoded_byte_def decode_one)
next
  case False
  have "16 * (unat b div 16) + unat b mod 16 = unat b" by simp
  then show ?thesis using False nibbles_small [of b]
    by (simp add: encoded_byte_def hex_value_upper nibbles)
qed

lemma decode_encoded: "percent_decode (encoded text) = text"
  by (induction "text") (simp_all add: encoded_def decode_encoded_byte)

text \<open>Pieces and parameters of a query.\<close>

lemma pieces_nonempty [simp]: "pieces c w \<noteq> []"
  by (cases w) auto

lemma pieces_append: "pieces c (u @ c # v) = pieces c u @ pieces c v"
  by (induction u) auto

lemma pieces_whole: "c \<notin> set w \<Longrightarrow> pieces c w = [w]"
  by (induction w) auto

lemma query_parameters_append:
  "query_parameters (u @ ampersand # v) = query_parameters u @ query_parameters v"
  by (simp add: query_parameters_def pieces_append)

lemma query_parameters_Nil [simp]: "query_parameters [] = []"
  by (simp add: query_parameters_def)

definition encoded_parameter :: "bytes \<times> bytes \<Rightarrow> bytes" where
  "encoded_parameter p = encoded (fst p) @ [equals] @ encoded (snd p)"

lemma encoded_parameter_query: "query_parameters (encoded_parameter p) = [p]"
proof -
  have no: "ampersand \<notin> set (encoded_parameter p)"
    by (simp add: encoded_parameter_def encoded_safe)
  have "equals \<notin> set (encoded (fst p))" by (rule encoded_safe)
  then have "takeWhile (\<lambda>b. b \<noteq> equals) (encoded_parameter p) = encoded (fst p)"
    "dropWhile (\<lambda>b. b \<noteq> equals) (encoded_parameter p) = equals # encoded (snd p)"
    unfolding encoded_parameter_def
    by (auto simp: takeWhile_append2 dropWhile_append2 intro!: takeWhile_append2 [THEN trans] dropWhile_append2 [THEN trans])
  then have "parameter_of (encoded_parameter p) = p"
    by (simp add: parameter_of_def decode_encoded)
  moreover have "encoded_parameter p \<noteq> []" by (simp add: encoded_parameter_def)
  ultimately show ?thesis using no by (simp add: query_parameters_def pieces_whole)
qed

fun joined :: "(bytes \<times> bytes) list \<Rightarrow> bytes" where
  "joined [] = []"
| "joined [p] = encoded_parameter p"
| "joined (p # ps) = encoded_parameter p @ ampersand # joined ps"

lemma joined_query: "query_parameters (joined ps) = ps"
  by (induction ps rule: joined.induct) (simp_all add: encoded_parameter_query query_parameters_append)

lemma joined_safe: "hash \<notin> set (joined ps)" "question \<notin> set (joined ps)"
  by (induction ps rule: joined.induct) (simp_all add: encoded_parameter_def encoded_safe)

lemma joined_snoc: "joined (ps @ [p]) = (if ps = [] then encoded_parameter p else joined ps @ ampersand # encoded_parameter p)"
  by (induction ps rule: joined.induct) auto

lemma joined_Nil_iff: "joined ps = [] \<longleftrightarrow> ps = []"
  by (cases ps rule: joined.cases) (auto simp: encoded_parameter_def)

text \<open>The parameters of a rule, as its views name them.\<close>

definition parameter_pair :: "mln_url_query_parameter \<Rightarrow> bytes \<times> bytes" where
  "parameter_pair p = (string_from_view (url_query_parameter_name p), string_from_view (url_query_parameter_value p))"

lemma copied_parameters:
  assumes "copy_parameters index k ps (joined copied) t = (MLN_STATUS_OK, query, t')"
  shows "query = joined (copied @ map parameter_pair ps)"
  using assms
proof (induction ps arbitrary: k copied t)
  case (Cons p ps)
  have "append_encoded (append_encoded (if joined copied \<noteq> [] then joined copied @ [ampersand] else joined copied)
          (string_from_view (url_query_parameter_name p)) @ [equals])
        (string_from_view (url_query_parameter_value p)) = joined (copied @ [parameter_pair p])"
    by (auto simp: append_encoded joined_snoc joined_Nil_iff encoded_parameter_def parameter_pair_def)
  with Cons.prems obtain t1 where
    "copy_parameters index (Suc k) ps (joined (copied @ [parameter_pair p])) t1 = (MLN_STATUS_OK, query, t')"
    by (auto simp: Let_def split: if_splits prod.splits)
  from Cons.IH [OF this] show ?case by simp
qed simp

lemma append_query_alt: "append_query url query = before_fragment url
    @ (if query \<noteq> []
       then (if question \<notin> set (before_fragment url) then [question]
             else if last (before_fragment url) \<noteq> question \<and> last (before_fragment url) \<noteq> ampersand
               then [ampersand] else []) @ query
       else []) @ url_fragment url"
proof -
  let ?n = "length (before_fragment url)"
  have "before_fragment url @ url_fragment url = url" by (simp add: before_fragment_def url_fragment_def)
  then have "take ?n url = before_fragment url" "drop ?n url = url_fragment url"
    by (metis append_eq_conv_conj)+
  then show ?thesis by (simp add: append_query_def Let_def flip: before_fragment_def)
qed

lemma no_hash_before: "hash \<notin> set (before_fragment url)"
  by (auto simp: before_fragment_def dest: set_takeWhileD)

lemma fragment_starts: "url_fragment url = [] \<or> (\<exists>rest. url_fragment url = hash # rest)"
  unfolding url_fragment_def using hd_dropWhile [of "\<lambda>b. b \<noteq> hash" url]
  by (cases "dropWhile (\<lambda>b. b \<noteq> hash) url") auto

lemma split_fragment:
  "hash \<notin> set base \<Longrightarrow> before_fragment (base @ url_fragment url) = base"
  "hash \<notin> set base \<Longrightarrow> url_fragment (base @ url_fragment url) = url_fragment url"
proof -
  assume "hash \<notin> set base"
  then have *: "\<And>x. x \<in> set base \<Longrightarrow> x \<noteq> hash" by metis
  show "before_fragment (base @ url_fragment url) = base"
    using fragment_starts [of url] * by (auto simp: before_fragment_def takeWhile_append2)
  show "url_fragment (base @ url_fragment url) = url_fragment url"
    using fragment_starts [of url] * by (auto simp: url_fragment_def [of "base @ _"] dropWhile_append2)
qed

lemma split_question:
  assumes "question \<notin> set p"
  shows "takeWhile (\<lambda>b. b \<noteq> question) (p @ question # w) = p"
    "drop 1 (dropWhile (\<lambda>b. b \<noteq> question) (p @ question # w)) = w"
proof -
  have "\<And>x. x \<in> set p \<Longrightarrow> x \<noteq> question" using assms by metis
  then show "takeWhile (\<lambda>b. b \<noteq> question) (p @ question # w) = p"
    "drop 1 (dropWhile (\<lambda>b. b \<noteq> question) (p @ question # w)) = w"
    by (simp_all add: takeWhile_append2 dropWhile_append2)
qed

lemma append_query_reads:
  assumes "hash \<notin> set query"
  shows "url_fragment (append_query url query) = url_fragment url"
    and "url_path (append_query url query) = url_path url"
    and "query_parameters (url_query (append_query url query))
          = query_parameters (url_query url) @ query_parameters query
        \<or> (\<exists>w. url_query url = w @ [question])"
proof -
  define base where "base = before_fragment url"
  define added where "added = (if query \<noteq> []
     then (if question \<notin> set base then [question]
           else if last base \<noteq> question \<and> last base \<noteq> ampersand then [ampersand] else []) @ query
     else [])"
  have url': "append_query url query = (base @ added) @ url_fragment url"
    by (simp add: append_query_alt base_def added_def)
  have no: "hash \<notin> set (base @ added)" using assms no_hash_before [of url]
    by (auto simp: base_def added_def split: if_splits)
  note new = split_fragment [OF no, of url]
  show "url_fragment (append_query url query) = url_fragment url" by (simp only: url' new)
  have "url_path (append_query url query) = url_path url
    \<and> (query_parameters (url_query (append_query url query))
          = query_parameters (url_query url) @ query_parameters query
        \<or> (\<exists>w. url_query url = w @ [question]))"
  proof (cases "query = []")
    case True
    then have "append_query url query = base @ url_fragment url" unfolding url' by (simp add: added_def)
    then have "append_query url query = url"
      by (simp add: base_def before_fragment_def url_fragment_def)
    with True show ?thesis by simp
  next
    case query: False
    show ?thesis
    proof (cases "question \<in> set base")
      case False
      then have "\<And>x. x \<in> set base \<Longrightarrow> x \<noteq> question" by metis
      then have old: "url_path url = base" "url_query url = []"
        unfolding url_path_def url_query_def base_def [symmetric]
        by (simp_all add: takeWhile_eq_all_conv [THEN iffD2] dropWhile_eq_Nil_conv [THEN iffD2])
      have "added = question # query" using query False by (simp add: added_def)
      with new(1) url' have "before_fragment (append_query url query) = base @ question # query" by simp
      with split_question [OF False, of query] old show ?thesis
        unfolding url_path_def [of "append_query _ _"] url_query_def [of "append_query _ _"] by simp
    next
      case True
      then obtain p w where base: "base = p @ question # w" "question \<notin> set p"
        by (meson split_list_first)
      have old: "url_path url = p" "url_query url = w"
        unfolding url_path_def url_query_def base_def [symmetric] base(1)
        using split_question [OF base(2)] by simp_all
      define glue where "glue = (if last base \<noteq> question \<and> last base \<noteq> ampersand then [ampersand] else [])"
      have base': "before_fragment (append_query url query) = p @ question # w @ glue @ query"
      proof -
        have "added = glue @ query" using True query by (simp add: added_def glue_def)
        then show ?thesis using new(1) by (simp only: url' base(1)) simp
      qed
      then have now: "url_path (append_query url query) = p"
        "url_query (append_query url query) = w @ glue @ query"
        unfolding url_path_def url_query_def using split_question [OF base(2)] by simp_all
      have "query_parameters (w @ glue @ query) = query_parameters w @ query_parameters query
          \<or> (\<exists>v. w = v @ [question])"
      proof (cases w rule: rev_cases)
        case Nil
        then show ?thesis by (simp add: glue_def base)
      next
        case (snoc v b)
        consider "b = question" | "b = ampersand" | "b \<noteq> question" "b \<noteq> ampersand" by blast
        then show ?thesis
          using query_parameters_append [of v query] query_parameters_append [of v "[]"]
            query_parameters_append [of w query]
          by cases (simp_all add: snoc glue_def base)
      qed
      with old now show ?thesis by simp
    qed
  qed
  then show "url_path (append_query url query) = url_path url"
    and "query_parameters (url_query (append_query url query))
          = query_parameters (url_query url) @ query_parameters query
        \<or> (\<exists>w. url_query url = w @ [question])"
    by simp_all
qed

definition rule_covers :: "mln_resource_transform_rule \<Rightarrow> u32 \<Rightarrow> bytes \<Rightarrow> bool" where
  "rule_covers rule = pattern_covers (resource_transform_rule_kinds rule)
     (resource_transform_rule_flags rule) (string_from_view (resource_transform_rule_url rule))"

definition rule_copied :: "mln_resource_transform_rule \<Rightarrow> query_rule \<Rightarrow> bool" where
  "rule_copied rule copy \<longleftrightarrow>
     (\<forall>kind url. pattern_matches (rule_pattern copy) kind url \<longleftrightarrow> rule_covers rule kind url)
     \<and> rule_query copy = joined (map parameter_pair (rule_parameters rule))"

lemma copied_query_rules:
  assumes "copy_query_rules_from n index cursor out t = (Returned MLN_STATUS_OK, table, t')"
  shows "n \<le> length cursor \<and> (\<exists>copies. table = out @ copies \<and> list_all2 rule_copied (take n cursor) copies)"
  using assms
proof (induction n arbitrary: index cursor out t)
  case (Suc n)
  from Suc.prems obtain rule rest t1 t2 pattern query where
    element: "cursor = rule # rest"
    and pattern: "url_pattern_of (resource_transform_rule_kinds rule) (resource_transform_rule_flags rule)
      (string_from_view (resource_transform_rule_url rule)) = Some pattern"
    and query: "copy_parameters index 0 (rule_parameters rule) [] t1 = (MLN_STATUS_OK, query, t2)"
    and run: "copy_query_rules_from n (Suc index) rest (out @ [\<lparr>rule_pattern = pattern, rule_query = query\<rparr>]) t2
      = (Returned MLN_STATUS_OK, table, t')"
    by (auto simp: reject_def Let_def dest!: next_sized_element_Some split: option.splits if_splits prod.splits)
  from copied_parameters [where copied = "[]"] query
  have "query = joined (map parameter_pair (rule_parameters rule))" by fastforce
  with url_pattern_covers [OF pattern] have "rule_copied rule \<lparr>rule_pattern = pattern, rule_query = query\<rparr>"
    by (simp add: rule_copied_def rule_covers_def)
  with Suc.IH [OF run] show ?case by (auto simp: element)
qed simp

lemma copy_parameters_status:
  "fst (copy_parameters index k ps query t) \<in> {MLN_STATUS_OK, MLN_STATUS_INVALID_ARGUMENT}"
  by (induction index k ps query t rule: copy_parameters.induct)
    (auto simp: check_parameter_text_def Let_def split_beta)

lemma copy_query_rules_from_returns:
  "\<exists>status. fst (copy_query_rules_from n index cursor out t) = Returned status
     \<and> status \<in> {MLN_STATUS_OK, MLN_STATUS_INVALID_ARGUMENT}"
proof (induction n arbitrary: index cursor out t)
  case (Suc n)
  show ?case
  proof (cases "next_sized_element resource_transform_rule_size sizeof_mln_resource_transform_rule 8 cursor")
    case None
    then show ?thesis by (simp add: reject_def)
  next
    case (Some next_element)
    then obtain rule rest where element: "next_sized_element resource_transform_rule_size
        sizeof_mln_resource_transform_rule 8 cursor = Some (rule, rest)"
      by (cases next_element) auto
    obtain status t1 where check: "check_pattern ''resource transform rule'' index
        (resource_transform_rule_kinds rule) (resource_transform_rule_flags rule)
        (resource_transform_rule_url rule) t = (status, t1)" by fastforce
    show ?thesis
    proof (cases "status = MLN_STATUS_OK")
      case True
      with check obtain pattern where "url_pattern_of (resource_transform_rule_kinds rule)
          (resource_transform_rule_flags rule) (string_from_view (resource_transform_rule_url rule)) = Some pattern"
        using checked_pattern_compiles by metis
      moreover obtain status2 query t2
        where "copy_parameters index 0 (rule_parameters rule) [] t1 = (status2, query, t2)"
        by (metis prod_cases3)
      moreover from this copy_parameters_status [of index 0 "rule_parameters rule" "[]" t1]
      have "status2 \<in> {MLN_STATUS_OK, MLN_STATUS_INVALID_ARGUMENT}" by simp
      ultimately show ?thesis using element check True Suc.IH by (auto simp: reject_def)
    next
      case False
      with check have "status = MLN_STATUS_INVALID_ARGUMENT"
        using check_pattern_status [of "''resource transform rule''" index "resource_transform_rule_kinds rule"
            "resource_transform_rule_flags rule" "resource_transform_rule_url rule" t] by simp
      with element check show ?thesis by simp
    qed
  qed
qed simp

lemma query_rules_apply_find:
  assumes "list_all2 rule_copied rules table"
  shows "query_rules_apply table kind url = (case List.find (\<lambda>rule. rule_covers rule kind url) rules of
      None \<Rightarrow> url
    | Some rule \<Rightarrow> append_query url (joined (map parameter_pair (rule_parameters rule))))"
  using assms by (induction rule: list_all2_induct) (auto simp: rule_copied_def)

text \<open>What a rewritten URL reads as, up to the exception of a query that ends in a question mark.\<close>

definition url_with_parameters :: "bytes \<Rightarrow> (bytes \<times> bytes) list \<Rightarrow> bytes \<Rightarrow> bool" where
  "url_with_parameters url parameters rewritten \<longleftrightarrow>
     url_path rewritten = url_path url \<and> url_fragment rewritten = url_fragment url
     \<and> query_parameters (url_query rewritten) = query_parameters (url_query url) @ parameters"


text \<open>
  The exception is real: after a query that ends in a question mark the first parameter is glued to the
  parameter before it, and neither reads as it was given.
\<close>

lemma query_after_question_mark:
  "append_query (ascii ''h?x=1?'') (ascii ''k=v'') = ascii ''h?x=1?k=v''
   \<and> query_parameters (url_query (ascii ''h?x=1?k=v'')) = [(ascii ''x'', ascii ''1?k=v'')]"
  by (simp add: append_query_def ascii_def query_parameters_def url_query_def before_fragment_def
      parameter_of_def Let_def)

end
