(* ===== verification/Http_Headers.thy ===== *)
theory Http_Headers
  imports Url_Rules
begin

text \<open>
  HTTP headers a host adds to requests: what a header may be and the response a header transform fills
  (\<open>validate_http_header\<close>, \<open>http_header_transform_response_set\<close> and \<open>invoke_http_header_transform\<close> in
  \<open>src/runtime/runtime.cpp\<close>), and the table of header rules with its callback
  (\<open>src/resources/url_rules.cpp\<close>).
\<close>

section \<open>Headers\<close>

definition is_field_name_character :: "u8 \<Rightarrow> bool" where
  "is_field_name_character b \<longleftrightarrow> (b \<ge> 0x30 \<and> b \<le> 0x39) \<or> (b \<ge> 0x41 \<and> b \<le> 0x5A) \<or> (b \<ge> 0x61 \<and> b \<le> 0x7A)
     \<or> b \<in> set (ascii ''!#$%&*+-.^_`|~'') \<or> b = 0x27"

definition ascii_lower :: "u8 \<Rightarrow> u8" where
  "ascii_lower b = (if b \<ge> 0x41 \<and> b \<le> 0x5A then b + 0x20 else b)"

definition http_header_names_equal :: "bytes \<Rightarrow> bytes \<Rightarrow> bool" where
  "http_header_names_equal left right \<longleftrightarrow> list_all2 (\<lambda>a b. ascii_lower a = ascii_lower b) left right"

definition managed_headers :: "bytes list" where
  "managed_headers = map ascii [''Host'', ''Content-Length'', ''Transfer-Encoding'', ''Connection'',
     ''Proxy-Connection'', ''Proxy-Authorization'', ''Keep-Alive'', ''TE'', ''Trailer'', ''Upgrade'',
     ''Range'', ''If-None-Match'', ''If-Modified-Since'', ''Accept-Encoding'', ''User-Agent'']"

definition value_byte_allowed :: "u8 \<Rightarrow> bool" where
  "value_byte_allowed b \<longleftrightarrow> b = 0x09 \<or> (b \<ge> 0x20 \<and> b \<noteq> 0x7F)"

definition validate_http_header ::
    "mln_buffer_view \<Rightarrow> mln_buffer_view \<Rightarrow> thread_locals \<Rightarrow> mln_status \<times> thread_locals" where
  "validate_http_header name val t =
     (let (name_ok, t1) = validate_c_string_view name ''HTTP header name'' t;
          (value_ok, t2) = (if name_ok then validate_c_string_view val ''HTTP header value'' t1 else (False, t1))
      in if \<not> value_ok then (MLN_STATUS_INVALID_ARGUMENT, t2)
         else if buffer_view_size name = 0 \<or> \<not> list_all is_field_name_character (string_from_view name)
           then (MLN_STATUS_INVALID_ARGUMENT, error_text ''HTTP header name is not a valid field name'' t2)
         else if \<not> list_all value_byte_allowed (string_from_view val)
           then (MLN_STATUS_INVALID_ARGUMENT, error_text ''HTTP header value contains a disallowed control byte'' t2)
         else if \<not> is_valid_utf8 (string_from_view val)
           then (MLN_STATUS_INVALID_ARGUMENT, error_text ''HTTP header value must be valid UTF-8'' t2)
         else if list_ex (http_header_names_equal (string_from_view name)) managed_headers
           then (MLN_STATUS_INVALID_ARGUMENT, set_thread_error (Some (ascii ''HTTP header '' @ [0x22]
                  @ string_from_view name @ [0x22] @ ascii '' is managed by MapLibre or the platform transport'')) t2)
         else (MLN_STATUS_OK, t2))"

section \<open>The response of a header transform\<close>

type_synonym http_headers = "(bytes \<times> bytes) list"

text \<open>\<open>mln_http_header_transform_response\<close>: its context points to the headers while the callback runs.\<close>

record header_response =
  response_size :: u32
  response_context :: "http_headers option"

definition sizeof_mln_http_header_transform_response :: nat where
  "sizeof_mln_http_header_transform_response = 16"

text \<open>\<open>find_if\<close> and the assignment through its iterator.\<close>

fun put_header :: "http_headers \<Rightarrow> bytes \<times> bytes \<Rightarrow> http_headers" where
  "put_header [] header = [header]"
| "put_header (existing # headers) header =
     (if http_header_names_equal (fst existing) (fst header) then header # headers
      else existing # put_header headers header)"

definition http_header_transform_response_set ::
    "header_response option \<Rightarrow> mln_buffer_view \<Rightarrow> mln_buffer_view \<Rightarrow> thread_locals
      \<Rightarrow> mln_status \<times> header_response option \<times> thread_locals" where
  "http_header_transform_response_set response name val t = (case response of
     None \<Rightarrow> (MLN_STATUS_INVALID_ARGUMENT, response,
       error_text ''HTTP header transform response must not be null'' t)
   | Some r \<Rightarrow>
       if unat (response_size r) < sizeof_mln_http_header_transform_response
       then (MLN_STATUS_INVALID_ARGUMENT, response,
             error_text ''mln_http_header_transform_response.size is too small'' t)
       else (let (validation, t1) = validate_http_header name val t
         in if validation \<noteq> MLN_STATUS_OK then (validation, response, t1)
            else (case response_context r of
                None \<Rightarrow> (MLN_STATUS_INVALID_STATE, response,
                  error_text ''HTTP headers can only be set during an HTTP header transform callback'' t1)
              | Some headers \<Rightarrow> (MLN_STATUS_OK,
                  Some (r\<lparr>response_context := Some (put_header headers (string_from_view name, string_from_view val))\<rparr>),
                  t1))))"

text \<open>
  The headers of a request. \<open>registered\<close> is the transform with its callback when there is one to call: its
  answer, the response it leaves and the thread.
\<close>

definition invoke_http_header_transform ::
    "(u32 \<Rightarrow> bytes \<Rightarrow> header_response \<Rightarrow> thread_locals \<Rightarrow> outcome \<times> header_response \<times> thread_locals) option
      \<Rightarrow> bool \<Rightarrow> u32 \<Rightarrow> bytes option \<Rightarrow> thread_locals \<Rightarrow> http_headers \<times> thread_locals" where
  "invoke_http_header_transform registered process_exiting kind url t = (case (registered, url) of
     (Some callback, Some u) \<Rightarrow>
       if process_exiting then ([], t)
       else (let (result, response, t1) = callback kind (c_string u)
                 \<lparr>response_size = of_nat sizeof_mln_http_header_transform_response, response_context = Some []\<rparr> t
             in (if result = Returned MLN_STATUS_OK then (case response_context response of None \<Rightarrow> [] | Some headers \<Rightarrow> headers)
                 else [], t1))
   | _ \<Rightarrow> ([], t))"

section \<open>What reaches a request\<close>

text \<open>A header a host may set, and headers without two of one name.\<close>

definition header_allowed :: "bytes \<times> bytes \<Rightarrow> bool" where
  "header_allowed header \<longleftrightarrow> fst header \<noteq> [] \<and> list_all is_field_name_character (fst header)
     \<and> \<not> list_ex (http_header_names_equal (fst header)) managed_headers
     \<and> list_all value_byte_allowed (snd header) \<and> is_valid_utf8 (snd header)"

definition lower_name :: "bytes \<times> bytes \<Rightarrow> bytes" where
  "lower_name header = map ascii_lower (fst header)"

definition headers_ok :: "http_headers \<Rightarrow> bool" where
  "headers_ok headers \<longleftrightarrow> list_all header_allowed headers \<and> distinct (map lower_name headers)"

lemma names_equal_lower: "http_header_names_equal a b \<longleftrightarrow> map ascii_lower a = map ascii_lower b"
  by (simp add: http_header_names_equal_def list.rel_eq list_all2_map1 list_all2_map2 flip: list.rel_eq)

lemma names_put: "map lower_name (put_header headers header) =
    (if lower_name header \<in> lower_name ` set headers then map lower_name headers
     else map lower_name headers @ [lower_name header])"
  by (induction headers) (auto simp: names_equal_lower lower_name_def)

lemma set_put: "set (put_header headers header) \<subseteq> insert header (set headers)"
  by (induction headers) auto

lemma put_header_ok: "headers_ok headers \<Longrightarrow> header_allowed header \<Longrightarrow> headers_ok (put_header headers header)"
  using set_put [of headers header]
  by (auto simp: headers_ok_def names_put list_all_iff distinct_map image_iff)

lemma lookup_put:
  "distinct (map lower_name headers) \<Longrightarrow>
    map_of (map (\<lambda>h. (lower_name h, snd h)) (put_header headers header))
      = (map_of (map (\<lambda>h. (lower_name h, snd h)) headers))(lower_name header \<mapsto> snd header)"
  by (induction headers) (auto simp: names_equal_lower lower_name_def fun_eq_iff)

text \<open>A view whose bytes exist.\<close>

definition readable :: "mln_buffer_view \<Rightarrow> bool" where
  "readable v \<longleftrightarrow> (case buffer_view_data v of None \<Rightarrow> True | Some bs \<Rightarrow> unat (buffer_view_size v) \<le> length bs)"

lemma readable_length:
  "readable v \<Longrightarrow> fst (validate_c_string_view v what t) \<Longrightarrow> length (string_from_view v) = unat (buffer_view_size v)"
  by (cases "buffer_view_data v")
    (auto simp: readable_def validate_c_string_view_def string_from_view_def min_def split: if_splits)

lemma validated_header_allowed:
  assumes "readable name" "validate_http_header name val t = (MLN_STATUS_OK, t1)"
  shows "header_allowed (string_from_view name, string_from_view val)"
proof -
  have "fst (validate_c_string_view name ''HTTP header name'' t)" "buffer_view_size name \<noteq> 0"
    using assms(2) by (auto simp: validate_http_header_def Let_def split: if_splits prod.splits)
  with readable_length [OF assms(1)] have "length (string_from_view name) \<noteq> 0"
    by (metis unat_eq_0)
  with assms(2) show ?thesis
    by (auto simp: validate_http_header_def header_allowed_def Let_def split: if_splits prod.splits)
qed

text \<open>A header set and the response of a run of calls; every status but OK leaves the response as it is.\<close>

definition set_call :: "mln_buffer_view \<times> mln_buffer_view \<Rightarrow> header_response \<times> thread_locals
    \<Rightarrow> header_response \<times> thread_locals" where
  "set_call call = (\<lambda>(response, t).
     case http_header_transform_response_set (Some response) (fst call) (snd call) t of
       (_, response', t') \<Rightarrow> (the response', t'))"

abbreviation call_header :: "mln_buffer_view \<times> mln_buffer_view \<Rightarrow> bytes \<times> bytes" where
  "call_header call \<equiv> (string_from_view (fst call), string_from_view (snd call))"

definition named_values :: "http_headers \<Rightarrow> (bytes \<times> bytes) list" where
  "named_values headers = map (\<lambda>h. (lower_name h, snd h)) headers"

definition accepted :: "mln_buffer_view \<times> mln_buffer_view \<Rightarrow> bool" where
  "accepted call \<longleftrightarrow> fst (validate_http_header (fst call) (snd call) fresh_thread) = MLN_STATUS_OK"

lemma view_check: "fst (validate_c_string_view v what t) \<longleftrightarrow> \<not> (buffer_view_data v = None \<and> buffer_view_size v \<noteq> 0)
    \<and> \<not> (buffer_view_size v \<noteq> 0 \<and> 0 \<in> set (take (unat (buffer_view_size v)) (the (buffer_view_data v))))"
  by (simp only: validate_c_string_view_def if_distrib [of fst] fst_conv) simp

lemma validate_thread: "fst (validate_http_header name val t) = fst (validate_http_header name val t')"
  unfolding validate_http_header_def Let_def split_beta
  by (simp only: if_distrib [of fst] fst_conv view_check)

lemma set_call_step:
  assumes "response_size r = 16" "response_context r = Some headers"
  shows "fst (set_call call (r, t)) = (if accepted call
      then r\<lparr>response_context := Some (put_header headers (call_header call))\<rparr> else r)"
  using assms validate_thread [of "fst call" "snd call" t fresh_thread]
  by (simp add: set_call_def http_header_transform_response_set_def accepted_def split_beta Let_def
      sizeof_mln_http_header_transform_response_def)

lemma set_calls:
  assumes "response_size r = 16" "response_context r = Some headers" "headers_ok headers" "list_all (readable \<circ> fst) calls"
  shows "\<exists>headers' t'. fold set_call calls (r, t) = (r\<lparr>response_context := Some headers'\<rparr>, t') \<and> headers_ok headers'
    \<and> map_of (named_values headers') = map_of (named_values headers) ++ map_of (rev (named_values (map call_header (filter accepted calls))))"
  using assms
proof (induction calls arbitrary: r headers t)
  case Nil
  then show ?case by (cases r) (auto simp: named_values_def)
next
  case (Cons call calls)
  obtain r1 t1 where step: "set_call call (r, t) = (r1, t1)" by fastforce
  define headers1 where "headers1 = (if accepted call then put_header headers (call_header call) else headers)"
  have r1: "r1 = r\<lparr>response_context := Some headers1\<rparr>"
    using set_call_step [OF Cons.prems(1,2), of call t] Cons.prems(2) step by (cases r) (auto simp: headers1_def)
  have "headers_ok headers1"
  proof (cases "accepted call")
    case True
    then obtain t' where "validate_http_header (fst call) (snd call) fresh_thread = (MLN_STATUS_OK, t')"
      unfolding accepted_def by (metis prod.collapse)
    with validated_header_allowed Cons.prems(3,4) put_header_ok show ?thesis
      by (auto simp: headers1_def True)
  qed (use Cons.prems in \<open>simp add: headers1_def\<close>)
  with Cons.IH [of r1 headers1 t1] Cons.prems r1 obtain headers' t' where
    *: "fold set_call calls (r1, t1) = (r1\<lparr>response_context := Some headers'\<rparr>, t')" "headers_ok headers'"
      "map_of (named_values headers') = map_of (named_values headers1) ++ map_of (rev (named_values (map call_header (filter accepted calls))))"
    by auto
  have "map_of (named_values headers1) = (if accepted call
      then (map_of (named_values headers))(lower_name (call_header call) \<mapsto> snd (call_header call))
      else map_of (named_values headers))"
    using lookup_put [of headers "call_header call"] Cons.prems(3)
    by (simp add: headers1_def named_values_def headers_ok_def)
  with * show ?case by (auto simp: step r1 named_values_def)
qed

text \<open>
  C21: whatever headers a transform callback sets, in any order and with any names and values, the request
  carries only allowed ones: field names that are not managed by the library, values that are valid UTF-8
  without control bytes, and no name twice in any letter case. A callback that succeeds has each name at the
  value of the last accepted call for it, and one that fails adds no header.
\<close>

theorem request_headers_allowed:
  assumes "list_all (readable \<circ> fst) calls"
  shows "case invoke_http_header_transform (Some (\<lambda>kind url response t. (answer, fold set_call calls (response, t))))
      False kind (Some url) t of (headers, t') \<Rightarrow>
    headers_ok headers \<and> map_of (named_values headers) = (if answer = Returned MLN_STATUS_OK
      then map_of (rev (named_values (map call_header (filter accepted calls)))) else Map.empty)"
proof -
  let ?r = "\<lparr>response_size = 16, response_context = Some []\<rparr>"
  have "headers_ok []" by (simp add: headers_ok_def)
  from set_calls [of ?r "[]" calls t] assms this obtain headers t' where
    "fold set_call calls (?r, t) = (?r\<lparr>response_context := Some headers\<rparr>, t')" "headers_ok headers"
    "map_of (named_values headers) = map_of (rev (named_values (map call_header (filter accepted calls))))"
    by (auto simp: named_values_def)
  then show ?thesis
    by (simp add: invoke_http_header_transform_def sizeof_mln_http_header_transform_response_def
        headers_ok_def named_values_def)
qed

text \<open>A call with the views of one header.\<close>

definition view_of :: "bytes \<Rightarrow> mln_buffer_view" where
  "view_of bs = \<lparr>buffer_view_data = Some bs, buffer_view_size = of_nat (length bs)\<rparr>"

theorem request_headers_allowed_witness:
  "let set = (\<lambda>(name, val). (view_of (ascii name), view_of (ascii val)))
   in case invoke_http_header_transform (Some (\<lambda>kind url response t. (Returned MLN_STATUS_OK,
        fold set_call [set (''X-Key'', ''a''), set (''host'', ''b''), set (''x-key'', ''c'')] (response, t))))
      False 0 (Some (ascii ''u'')) fresh_thread of (headers, t') \<Rightarrow> headers_ok headers"
  using request_headers_allowed [of "map (\<lambda>(name, val). (view_of (ascii name), view_of (ascii val)))
     [(''X-Key'', ''a''), (''host'', ''b''), (''x-key'', ''c'')]" "Returned MLN_STATUS_OK" 0 "ascii ''u''" fresh_thread]
  by (simp add: readable_def view_of_def ascii_def split: prod.splits)

section \<open>Header rules\<close>

record header_rule =
  header_pattern :: url_pattern
  header_pairs :: http_headers

definition sizeof_mln_http_header_rule :: nat where
  "sizeof_mln_http_header_rule = 48"

text \<open>The headers of a rule, as many as it declares.\<close>

definition rule_header_views :: "mln_http_header_rule \<Rightarrow> mln_http_header list" where
  "rule_header_views rule = (case http_header_rule_headers rule of
     None \<Rightarrow> []
   | Some hs \<Rightarrow> take (unat (http_header_rule_header_count rule)) hs)"

fun copy_headers ::
    "nat \<Rightarrow> mln_http_header list \<Rightarrow> http_headers \<Rightarrow> thread_locals \<Rightarrow> mln_status \<times> http_headers \<times> thread_locals" where
  "copy_headers index [] out t = (MLN_STATUS_OK, out, t)"
| "copy_headers index (h # hs) out t =
     (let (status, t1) = validate_http_header (http_header_name h) (http_header_value h) t
      in if status \<noteq> MLN_STATUS_OK
         then (MLN_STATUS_INVALID_ARGUMENT, out,
               set_thread_error (Some (ascii (''header rule '' @ decimal index @ '': '') @ thread_last_error_message t1)) t1)
         else copy_headers index hs
                (out @ [(string_from_view (http_header_name h), string_from_view (http_header_value h))]) t1)"

fun copy_header_rules_from ::
    "nat \<Rightarrow> nat \<Rightarrow> mln_http_header_rule list \<Rightarrow> header_rule list \<Rightarrow> thread_locals
      \<Rightarrow> outcome \<times> header_rule list \<times> thread_locals" where
  "copy_header_rules_from 0 index cursor out t = (Returned MLN_STATUS_OK, out, t)"
| "copy_header_rules_from (Suc n) index cursor out t =
     (case next_sized_element http_header_rule_size sizeof_mln_http_header_rule 8 cursor of
        None \<Rightarrow> (let (status, t1) = reject ''header rule'' index ''has an invalid size'' t in (Returned status, out, t1))
      | Some (rule, cursor') \<Rightarrow>
          (let (status, t1) = check_pattern ''header rule'' index (http_header_rule_kinds rule)
                 (http_header_rule_flags rule) (http_header_rule_url rule) t
           in if status \<noteq> MLN_STATUS_OK then (Returned status, out, t1)
              else if http_header_rule_headers rule = None \<and> http_header_rule_header_count rule \<noteq> 0
                then (let (status, t2) = reject ''header rule'' index ''has null headers with a nonzero header_count'' t1
                      in (Returned status, out, t2))
              else (case url_pattern_of (http_header_rule_kinds rule) (http_header_rule_flags rule)
                      (string_from_view (http_header_rule_url rule)) of
                  None \<Rightarrow> (Threw_exception (ascii ''glob exceeds 4096 tokens''), out, t1)
                | Some pattern \<Rightarrow>
                    (let (status, headers, t2) = copy_headers index (rule_header_views rule) [] t1
                     in if status \<noteq> MLN_STATUS_OK then (Returned status, out, t2)
                        else copy_header_rules_from n (Suc index) cursor'
                               (out @ [\<lparr>header_pattern = pattern, header_pairs = headers\<rparr>]) t2))))"

definition copy_header_rules ::
    "mln_http_header_rule list option \<Rightarrow> usize \<Rightarrow> thread_locals \<Rightarrow> header_rule list
      \<Rightarrow> outcome \<times> header_rule list \<times> thread_locals" where
  "copy_header_rules rules count t out =
     (if rules = None \<and> count \<noteq> 0
      then (Returned MLN_STATUS_INVALID_ARGUMENT, out,
            error_text ''rules must not be null with a nonzero rule_count'' t)
      else copy_header_rules_from (unat count) 0 (case rules of None \<Rightarrow> [] | Some elements \<Rightarrow> elements) [] t)"

text \<open>The inner loop of the callback: the calls that set the rule's headers until one fails.\<close>

fun set_rule_headers ::
    "http_headers \<Rightarrow> header_response option \<Rightarrow> thread_locals \<Rightarrow> mln_status \<times> header_response option \<times> thread_locals" where
  "set_rule_headers [] response t = (MLN_STATUS_OK, response, t)"
| "set_rule_headers (h # hs) response t =
     (let (status, response1, t1) = http_header_transform_response_set response (view_of (fst h)) (view_of (snd h)) t
      in if status \<noteq> MLN_STATUS_OK then (status, response1, t1) else set_rule_headers hs response1 t1)"

fun header_rules_callback ::
    "header_rule list option \<Rightarrow> u32 \<Rightarrow> bytes \<Rightarrow> header_response option \<Rightarrow> thread_locals
      \<Rightarrow> mln_status \<times> header_response option \<times> thread_locals" where
  "header_rules_callback None kind url response t = (MLN_STATUS_OK, response, t)"
| "header_rules_callback (Some []) kind url response t = (MLN_STATUS_OK, response, t)"
| "header_rules_callback (Some (rule # rules)) kind url response t =
     (if response = None then (MLN_STATUS_OK, response, t)
      else if \<not> pattern_matches (header_pattern rule) kind url
        then header_rules_callback (Some rules) kind url response t
      else set_rule_headers (header_pairs rule) response t)"

definition header_rule_covers :: "mln_http_header_rule \<Rightarrow> u32 \<Rightarrow> bytes \<Rightarrow> bool" where
  "header_rule_covers rule = pattern_covers (http_header_rule_kinds rule)
     (http_header_rule_flags rule) (string_from_view (http_header_rule_url rule))"

definition rule_pairs :: "mln_http_header_rule \<Rightarrow> http_headers" where
  "rule_pairs rule = map (\<lambda>h. (string_from_view (http_header_name h), string_from_view (http_header_value h)))
     (rule_header_views rule)"

text \<open>A copy can be set again: its headers passed the check, and its strings fit in memory.\<close>

definition header_rule_copied :: "mln_http_header_rule \<Rightarrow> header_rule \<Rightarrow> bool" where
  "header_rule_copied rule copy \<longleftrightarrow>
     (\<forall>kind url. pattern_matches (header_pattern copy) kind url \<longleftrightarrow> header_rule_covers rule kind url)
     \<and> header_pairs copy = rule_pairs rule
     \<and> list_all (\<lambda>h. accepted (view_of (fst h), view_of (snd h))) (header_pairs copy)"

definition header_readable :: "mln_http_header \<Rightarrow> bool" where
  "header_readable h \<longleftrightarrow> readable (http_header_name h) \<and> readable (http_header_value h)"

lemma view_of_string:
  assumes "readable v" "fst (validate_c_string_view v what t)"
  shows "string_from_view (view_of (string_from_view v)) = string_from_view v
    \<and> buffer_view_size (view_of (string_from_view v)) = buffer_view_size v
    \<and> fst (validate_c_string_view (view_of (string_from_view v)) what' t')"
proof -
  have len: "length (string_from_view v) = unat (buffer_view_size v)" by (rule readable_length [OF assms])
  have "0 \<notin> set (string_from_view v)"
    using assms(2) unfolding view_check string_from_view_def by auto
  with len show ?thesis unfolding view_check by (simp add: view_of_def string_from_view_def)
qed

lemma view_of_bytes:
  "string_from_view (view_of (string_from_view v)) = string_from_view v" "readable (view_of (string_from_view v))"
proof -
  have "unat (buffer_view_size v) < 2 ^ 64" using unsigned_less [of "buffer_view_size v"] by simp
  moreover have "length (string_from_view v) \<le> unat (buffer_view_size v)" by (simp add: string_from_view_def)
  ultimately have "length (string_from_view v) < 2 ^ 64" by linarith
  then have "unat (of_nat (length (string_from_view v)) :: usize) = length (string_from_view v)"
    by (simp add: unat_of_nat take_bit_nat_eq_self)
  then show "string_from_view (view_of (string_from_view v)) = string_from_view v"
    "readable (view_of (string_from_view v))"
    by (auto simp: view_of_def readable_def string_from_view_def [of "\<lparr>buffer_view_data = _, buffer_view_size = _\<rparr>"])
qed

lemma accepted_again:
  assumes "readable name" "readable val" "fst (validate_http_header name val t) = MLN_STATUS_OK"
  shows "accepted (view_of (string_from_view name), view_of (string_from_view val))"
proof -
  have views: "fst (validate_c_string_view name ''HTTP header name'' t)"
    "fst (validate_c_string_view val ''HTTP header value'' (snd (validate_c_string_view name ''HTTP header name'' t)))"
    using assms(3) by (auto simp: validate_http_header_def Let_def split: if_splits prod.splits)
  note name = view_of_string [OF assms(1) views(1)] and val = view_of_string [OF assms(2) views(2)]
  have "fst (validate_http_header (view_of (string_from_view name)) (view_of (string_from_view val)) fresh_thread)
      = fst (validate_http_header name val t)"
    unfolding validate_http_header_def Let_def split_beta
    using views name val by (simp only: if_distrib [of fst] fst_conv if_True simp_thms)
  with assms(3) show ?thesis by (simp add: accepted_def)
qed

lemma copied_headers:
  assumes "copy_headers index hs out t = (MLN_STATUS_OK, headers, t')" "list_all header_readable hs"
    "list_all (\<lambda>h. accepted (view_of (fst h), view_of (snd h))) out"
  shows "headers = out @ map (\<lambda>h. (string_from_view (http_header_name h), string_from_view (http_header_value h))) hs
    \<and> list_all (\<lambda>h. accepted (view_of (fst h), view_of (snd h))) headers"
  using assms
proof (induction hs arbitrary: out t)
  case (Cons h hs)
  obtain t1 where step: "validate_http_header (http_header_name h) (http_header_value h) t = (MLN_STATUS_OK, t1)"
    and rest: "copy_headers index hs
      (out @ [(string_from_view (http_header_name h), string_from_view (http_header_value h))]) t1 = (MLN_STATUS_OK, headers, t')"
    using Cons.prems(1) by (auto simp: Let_def split: prod.splits if_splits)
  have "accepted (view_of (string_from_view (http_header_name h)), view_of (string_from_view (http_header_value h)))"
    using accepted_again [of "http_header_name h" "http_header_value h" t] step Cons.prems(2)
    by (simp add: header_readable_def)
  with Cons.IH [OF rest] Cons.prems(2,3) show ?case by auto
qed simp

lemma copied_header_rules:
  assumes "copy_header_rules_from n index cursor out t = (Returned MLN_STATUS_OK, table, t')"
    "list_all (\<lambda>rule. list_all header_readable (rule_header_views rule)) cursor"
  shows "n \<le> length cursor \<and> (\<exists>copies. table = out @ copies \<and> list_all2 header_rule_copied (take n cursor) copies)"
  using assms
proof (induction n arbitrary: index cursor out t)
  case (Suc n)
  from Suc.prems obtain rule rest t1 t2 pattern headers where
    element: "cursor = rule # rest"
    and pattern: "url_pattern_of (http_header_rule_kinds rule) (http_header_rule_flags rule)
      (string_from_view (http_header_rule_url rule)) = Some pattern"
    and headers: "copy_headers index (rule_header_views rule) [] t1 = (MLN_STATUS_OK, headers, t2)"
    and run: "copy_header_rules_from n (Suc index) rest (out @ [\<lparr>header_pattern = pattern, header_pairs = headers\<rparr>]) t2
      = (Returned MLN_STATUS_OK, table, t')"
    by (auto simp: reject_def Let_def dest!: next_sized_element_Some split: option.splits if_splits prod.splits)
  from copied_headers [OF headers] Suc.prems(2) url_pattern_covers [OF pattern]
  have "header_rule_copied rule \<lparr>header_pattern = pattern, header_pairs = headers\<rparr>"
    by (auto simp: header_rule_copied_def header_rule_covers_def rule_pairs_def element)
  with Suc.IH [OF run] Suc.prems(2) show ?case by (auto simp: element)
qed simp

lemma set_rule_headers_calls:
  assumes "response_size r = 16" "response_context r = Some headers"
    "list_all (\<lambda>h. accepted (view_of (fst h), view_of (snd h))) hs"
  shows "\<exists>t'. set_rule_headers hs (Some r) t
    = (MLN_STATUS_OK, Some (fst (fold set_call (map (\<lambda>h. (view_of (fst h), view_of (snd h))) hs) (r, t))), t')"
  using assms
proof (induction hs arbitrary: r headers t)
  case (Cons h hs)
  let ?call = "(view_of (fst h), view_of (snd h))"
  let ?r = "r\<lparr>response_context := Some (put_header headers (call_header ?call))\<rparr>"
  have "fst (validate_http_header (view_of (fst h)) (view_of (snd h)) t) = MLN_STATUS_OK"
    using Cons.prems(3) validate_thread [of _ _ t fresh_thread] by (simp add: accepted_def)
  then obtain t1 where set: "http_header_transform_response_set (Some r) (view_of (fst h)) (view_of (snd h)) t
      = (MLN_STATUS_OK, Some ?r, t1)"
    using Cons.prems(1,2)
    by (cases "validate_http_header (view_of (fst h)) (view_of (snd h)) t")
      (simp add: http_header_transform_response_set_def sizeof_mln_http_header_transform_response_def)
  then have "set_call ?call (r, t) = (?r, t1)" by (simp add: set_call_def)
  with Cons.IH [of ?r _ t1] Cons.prems set show ?case by simp
qed simp

lemma header_rules_callback_find:
  assumes "list_all2 header_rule_copied rules table" "response \<noteq> None"
  shows "header_rules_callback (Some table) kind url response t
    = (case List.find (\<lambda>rule. header_rule_covers rule kind url) rules of
         None \<Rightarrow> (MLN_STATUS_OK, response, t)
       | Some rule \<Rightarrow> set_rule_headers (rule_pairs rule) response t)"
  using assms by (induction rule: list_all2_induct) (auto simp: header_rule_copied_def)

lemma found_copied:
  assumes "list_all2 header_rule_copied rules table" "List.find P rules = Some rule"
  shows "list_all (\<lambda>h. accepted (view_of (fst h), view_of (snd h))) (rule_pairs rule)"
  using assms by (induction rule: list_all2_induct) (auto simp: header_rule_copied_def split: if_splits)

text \<open>
  Once header rules are copied, a request gets the headers of the first rule that covers its kind and
  URL, each name at the last value the rule gives it, and no header when no rule covers it; the
  callback never fails, since every header was validated when it was copied.
\<close>

theorem copied_header_rules_apply:
  assumes "copy_header_rules (Some rules) count t out = (Returned MLN_STATUS_OK, table, t')"
    and "list_all (\<lambda>rule. list_all header_readable (rule_header_views rule)) rules"
  shows "\<exists>headers t3. header_rules_callback (Some table) kind url
        (Some \<lparr>response_size = 16, response_context = Some []\<rparr>) t2
      = (MLN_STATUS_OK, Some \<lparr>response_size = 16, response_context = Some headers\<rparr>, t3)
    \<and> headers_ok headers
    \<and> map_of (named_values headers) = (case List.find (\<lambda>rule. header_rule_covers rule kind url) (take (unat count) rules) of
        None \<Rightarrow> Map.empty
      | Some rule \<Rightarrow> map_of (rev (named_values (rule_pairs rule))))"
proof -
  let ?r = "\<lparr>response_size = 16, response_context = Some []\<rparr>"
  from assms copied_header_rules [of "unat count" 0 rules "[]" t table t']
  have copied: "list_all2 header_rule_copied (take (unat count) rules) table"
    by (simp add: copy_header_rules_def)
  show ?thesis
  proof (cases "List.find (\<lambda>rule. header_rule_covers rule kind url) (take (unat count) rules)")
    case None
    with header_rules_callback_find [OF copied, of "Some ?r" kind url t2] show ?thesis
      by (simp add: headers_ok_def named_values_def)
  next
    case (Some rule)
    define calls where "calls = map (\<lambda>h. (view_of (fst h), view_of (snd h))) (rule_pairs rule)"
    note found = found_copied [OF copied Some]
    have ok: "filter accepted calls = calls" using found by (simp add: calls_def filter_id_conv list_all_iff)
    have headers: "map call_header calls = rule_pairs rule" "list_all (readable \<circ> fst) calls"
      using view_of_bytes by (auto simp: calls_def rule_pairs_def list_all_iff)
    have "headers_ok []" by (simp add: headers_ok_def)
    from set_calls [of ?r "[]" calls t2] this headers(2) obtain hs t3 where
      hs: "fold set_call calls (?r, t2) = (?r\<lparr>response_context := Some hs\<rparr>, t3)" "headers_ok hs"
        "map_of (named_values hs) = map_of (rev (named_values (rule_pairs rule)))"
      by (auto simp: ok headers(1) named_values_def [of "[]"])
    with set_rule_headers_calls [of ?r "[]" "rule_pairs rule" t2] found
      header_rules_callback_find [OF copied, of "Some ?r" kind url t2] Some
    show ?thesis by (auto simp flip: calls_def)
  qed
qed

theorem copied_header_rules_apply_witness:
  "let rule = \<lparr>http_header_rule_size = 48, http_header_rule_kinds = 0, http_header_rule_flags = 1,
       http_header_rule_url = view_of (ascii ''u*''), http_header_rule_headers = Some [
         \<lparr>http_header_name = view_of (ascii ''A''), http_header_value = view_of (ascii ''1'')\<rparr>,
         \<lparr>http_header_name = view_of (ascii ''a''), http_header_value = view_of (ascii ''2'')\<rparr>],
       http_header_rule_header_count = 2\<rparr>
   in \<exists>table t' headers t3. copy_header_rules (Some [rule]) 1 fresh_thread [] = (Returned MLN_STATUS_OK, table, t')
     \<and> header_rules_callback (Some table) 3 (ascii ''uv'')
         (Some \<lparr>response_size = 16, response_context = Some []\<rparr>) t'
       = (MLN_STATUS_OK, Some \<lparr>response_size = 16, response_context = Some headers\<rparr>, t3) \<and> headers_ok headers"
proof -
  let ?rule = "\<lparr>http_header_rule_size = 48, http_header_rule_kinds = 0, http_header_rule_flags = 1,
       http_header_rule_url = view_of (ascii ''u*''), http_header_rule_headers = Some [
         \<lparr>http_header_name = view_of (ascii ''A''), http_header_value = view_of (ascii ''1'')\<rparr>,
         \<lparr>http_header_name = view_of (ascii ''a''), http_header_value = view_of (ascii ''2'')\<rparr>],
       http_header_rule_header_count = 2\<rparr>"
  obtain table t' where run: "copy_header_rules (Some [?rule]) 1 fresh_thread [] = (Returned MLN_STATUS_OK, table, t')"
    by (simp add: copy_header_rules_def next_sized_element_def sizeof_mln_http_header_rule_def
        check_pattern_def validate_c_string_view_def has_unknown_bits_def known_url_match_flags_def
        view_of_def ascii_def has_flag_def string_from_view_def url_pattern_of_def compiled_glob_def max_tokens_def
        rule_header_views_def validate_http_header_def is_field_name_character_def value_byte_allowed_def
        is_valid_utf8.simps managed_headers_def http_header_names_equal_def ascii_lower_def)
  have "list_all (\<lambda>rule. list_all header_readable (rule_header_views rule)) [?rule]"
    by (simp add: rule_header_views_def header_readable_def readable_def view_of_def ascii_def)
  from copied_header_rules_apply [OF run this] run show ?thesis unfolding Let_def by blast
qed

end
