(* ===== verification/Control.thy ===== *)
theory Control
  imports Diagnostics
begin

text \<open>
  The count of the submissions and children of a handle (\<open>ControlState\<close> in \<open>src/execution/control_state.hpp\<close>):
  a closing handle accepts neither, and reports when both have retired. Every operation runs under the
  control lock and is one step; the callback it takes out runs after the lock is released, so it
  is a step of its own. The counts are bounded by the objects that hold them.
\<close>

section \<open>The state\<close>

text \<open>\<open>'c\<close> is a callback with its context.\<close>

record 'c control_state =
  submissions :: nat
  children :: nat
  closing :: bool
  drained_callback :: "'c option"

definition fresh_control :: "'c control_state" where
  "fresh_control = \<lparr>submissions = 0, children = 0, closing = False, drained_callback = None\<rparr>"

definition retired :: "'c control_state \<Rightarrow> bool" where
  "retired c \<longleftrightarrow> closing c \<and> submissions c = 0 \<and> children c = 0"

definition acquire :: "'c control_state \<Rightarrow> thread_locals \<Rightarrow> bool \<times> 'c control_state \<times> thread_locals" where
  "acquire c t =
     (if closing c then (False, c, error_text ''handle is closing'' t)
      else (True, c\<lparr>submissions := submissions c + 1\<rparr>, t))"

definition retain_child :: "'c control_state \<Rightarrow> thread_locals \<Rightarrow> bool \<times> 'c control_state \<times> thread_locals" where
  "retain_child c t =
     (if closing c then (False, c, error_text ''handle is closing'' t)
      else (True, c\<lparr>children := children c + 1\<rparr>, t))"

definition begin_close ::
    "bool \<Rightarrow> 'c control_state \<Rightarrow> thread_locals \<Rightarrow> mln_status \<times> 'c control_state \<times> thread_locals" where
  "begin_close defer_children c t =
     (if closing c then (MLN_STATUS_INVALID_STATE, c, error_text ''handle is already closing'' t)
      else if \<not> defer_children \<and> children c \<noteq> 0
        then (MLN_STATUS_INVALID_STATE, c, error_text ''handle still owns live or pending children'' t)
      else (MLN_STATUS_OK, c\<lparr>closing := True\<rparr>, t))"

text \<open>Whether the handle had drained; the callback then runs before the return.\<close>

definition notify_when_drained :: "'c \<Rightarrow> 'c control_state \<Rightarrow> bool \<times> 'c control_state" where
  "notify_when_drained callback c =
     (if retired c then (True, c) else (False, c\<lparr>drained_callback := Some callback\<rparr>))"

text \<open>\<open>release\<close> and \<open>release_child\<close>; the callback to run outside the lock.\<close>

definition release_count :: "bool \<Rightarrow> 'c control_state \<Rightarrow> 'c option \<times> 'c control_state" where
  "release_count child c =
     (let c1 = (if child then c\<lparr>children := children c - 1\<rparr> else c\<lparr>submissions := submissions c - 1\<rparr>)
      in if retired c1 then (drained_callback c1, c1\<lparr>drained_callback := None\<rparr>) else (None, c1))"

section \<open>A handle and those who hold it\<close>

text \<open>
  The system of one control state: the leases and children others hold, the callback asked for,
  the callbacks taken out and not yet run, and those that ran. A handle asks once, after it began
  to close.
\<close>

record 'c control_system =
  control :: "'c control_state"
  leases_held :: nat
  children_held :: nat
  asked :: "'c option"
  due_callbacks :: "'c list"
  ran_callbacks :: "'c list"

definition fresh_system :: "'c control_system" where
  "fresh_system = \<lparr>control = fresh_control, leases_held = 0, children_held = 0, asked = None,
     due_callbacks = [], ran_callbacks = []\<rparr>"

definition give_back :: "bool \<Rightarrow> 'c control_system \<Rightarrow> 'c control_system" where
  "give_back child s =
     (let (callback, c) = release_count child (control s)
      in s\<lparr>control := c,
           leases_held := (if child then leases_held s else leases_held s - 1),
           children_held := (if child then children_held s - 1 else children_held s),
           due_callbacks := due_callbacks s @ (case callback of None \<Rightarrow> [] | Some k \<Rightarrow> [k])\<rparr>)"

inductive control_step :: "'c control_system \<Rightarrow> 'c control_system \<Rightarrow> bool" where
  step_acquire: "acquire (control s) t = (True, c, t') \<Longrightarrow>
     control_step s (s\<lparr>control := c, leases_held := leases_held s + 1\<rparr>)"
| step_refused: "acquire (control s) t = (False, c, t') \<Longrightarrow> control_step s (s\<lparr>control := c\<rparr>)"
| step_retain: "retain_child (control s) t = (True, c, t') \<Longrightarrow>
     control_step s (s\<lparr>control := c, children_held := children_held s + 1\<rparr>)"
| step_release: "0 < leases_held s \<Longrightarrow> control_step s (give_back False s)"
| step_release_child: "0 < children_held s \<Longrightarrow> control_step s (give_back True s)"
| step_close: "begin_close defer (control s) t = (status, c, t') \<Longrightarrow> control_step s (s\<lparr>control := c\<rparr>)"
| step_ask: "closing (control s) \<Longrightarrow> asked s = None \<Longrightarrow>
     notify_when_drained k (control s) = (ready, c) \<Longrightarrow>
     control_step s (s\<lparr>control := c, asked := Some k,
       due_callbacks := due_callbacks s @ (if ready then [k] else [])\<rparr>)"
| step_run: "due_callbacks s = k # ks \<Longrightarrow>
     control_step s (s\<lparr>due_callbacks := ks, ran_callbacks := ran_callbacks s @ [k]\<rparr>)"

inductive control_reachable :: "'c control_system \<Rightarrow> bool" where
  control_start: "control_reachable fresh_system"
| control_next: "control_reachable s \<Longrightarrow> control_step s s' \<Longrightarrow> control_reachable s'"

definition control_ok :: "'c control_system \<Rightarrow> bool" where
  "control_ok s \<longleftrightarrow> submissions (control s) = leases_held s \<and> children (control s) = children_held s
     \<and> (asked s \<noteq> None \<longrightarrow> closing (control s))
     \<and> ran_callbacks s @ due_callbacks s @ (case drained_callback (control s) of None \<Rightarrow> [] | Some k \<Rightarrow> [k])
         = (case asked s of None \<Rightarrow> [] | Some k \<Rightarrow> [k])
     \<and> (retired (control s) \<longleftrightarrow> closing (control s) \<and> leases_held s = 0 \<and> children_held s = 0)
     \<and> (retired (control s) \<longrightarrow> drained_callback (control s) = None)
     \<and> (ran_callbacks s @ due_callbacks s \<noteq> [] \<longrightarrow> retired (control s))"

lemma control_reachable_ok: "control_reachable s \<Longrightarrow> control_ok s"
proof (induction rule: control_reachable.induct)
  case control_start
  then show ?case by (simp add: control_ok_def fresh_system_def fresh_control_def retired_def)
next
  case (control_next s s')
  from control_next(2,3) show ?case
    by (cases rule: control_step.cases)
      (auto simp: control_ok_def acquire_def retain_child_def begin_close_def notify_when_drained_def
        give_back_def release_count_def retired_def Let_def split: if_splits option.splits)
qed

text \<open>
  C23: in every interleaving a closing handle accepts no submission and no child, the callback asked for
  when it closes runs at most once and never while a lease or a child is outstanding, and once
  both have retired it has run or is about to.
\<close>

theorem drained_callback_runs_once:
  assumes "control_reachable s"
  shows "submissions (control s) = leases_held s \<and> children (control s) = children_held s
    \<and> length (ran_callbacks s) \<le> 1
    \<and> (if closing (control s) \<and> leases_held s = 0 \<and> children_held s = 0
       then ran_callbacks s @ due_callbacks s = (case asked s of None \<Rightarrow> [] | Some k \<Rightarrow> [k])
       else ran_callbacks s = [] \<and> due_callbacks s = [])
    \<and> (if closing (control s) then \<not> fst (acquire (control s) t) \<and> \<not> fst (retain_child (control s) t) else True)"
  using control_reachable_ok [OF assms]
  by (auto simp: control_ok_def acquire_def retain_child_def retired_def append_eq_Cons_conv
      split: option.splits if_splits)

text \<open>A handle with one submission closes, asks, and drains when the submission ends.\<close>

lemma drained_run:
  "\<exists>s. control_reachable s \<and> ran_callbacks s = [7 :: nat] \<and> closing (control s) \<and> leases_held s = 0 \<and> children_held s = 0"
proof -
  define s1 where "s1 = fresh_system\<lparr>control := (fresh_control :: nat control_state)\<lparr>submissions := 1\<rparr>, leases_held := 1\<rparr>"
  define s2 where "s2 = s1\<lparr>control := control s1\<lparr>closing := True\<rparr>\<rparr>"
  define s3 where "s3 = s2\<lparr>control := control s2\<lparr>drained_callback := Some 7\<rparr>, asked := Some 7\<rparr>"
  define s4 where "s4 = give_back False s3"
  note states = s1_def s2_def s3_def s4_def fresh_system_def fresh_control_def
  have "control_step fresh_system s1"
    using step_acquire [of "fresh_system :: nat control_system" fresh_thread "control s1" fresh_thread]
    by (simp add: states acquire_def)
  with control_start have r1: "control_reachable s1" by (rule control_next)
  have "control_step s1 s2"
    using step_close [of False s1 fresh_thread MLN_STATUS_OK "control s2" fresh_thread]
    by (simp add: states begin_close_def)
  with r1 have r2: "control_reachable s2" by (rule control_next)
  have "control_step s2 s3"
    using step_ask [of s2 7 False "control s3"] by (simp add: states notify_when_drained_def retired_def)
  with r2 have r3: "control_reachable s3" by (rule control_next)
  have "control_step s3 s4" using step_release [of s3] by (simp add: states)
  with r3 have r4: "control_reachable s4" by (rule control_next)
  have "control_step s4 (s4\<lparr>due_callbacks := [], ran_callbacks := [7]\<rparr>)"
    using step_run [of s4 7 "[]"] by (simp add: states give_back_def release_count_def retired_def)
  with r4 have "control_reachable (s4\<lparr>due_callbacks := [], ran_callbacks := [7]\<rparr>)" by (rule control_next)
  moreover have "closing (control s4) \<and> leases_held s4 = 0 \<and> children_held s4 = 0"
    by (simp add: states give_back_def release_count_def retired_def)
  ultimately show ?thesis by (intro exI [of _ "s4\<lparr>due_callbacks := [], ran_callbacks := [7]\<rparr>"]) simp
qed

theorem drained_callback_runs_once_witness:
  "\<exists>s :: nat control_system. control_reachable s \<and> closing (control s) \<and> length (ran_callbacks s) = 1
     \<and> ran_callbacks s @ due_callbacks s = (case asked s of None \<Rightarrow> [] | Some k \<Rightarrow> [k])"
proof -
  obtain s :: "nat control_system" where s: "control_reachable s" "ran_callbacks s = [7]" "closing (control s)"
    "leases_held s = 0" "children_held s = 0"
    using drained_run by blast
  with drained_callback_runs_once [OF s(1)] show ?thesis by (intro exI [of _ s]) simp
qed

end
