(* ===== verification/Completion.thy ===== *)
theory Completion
  imports Control
begin

text \<open>
  The terminal result of an accepted operation (\<open>src/completion/completion.hpp\<close>, \<open>completion.cpp\<close>): the sink that
  takes it to the host's callback or to a delivery queue, the state that lets exactly one of
  the threads that resolve it deliver, and the order in which the host gets its result and its user
  data and the handle gets its lease back. The atomic state decides who delivers; each part after it
  is a step of the winning thread.
\<close>

section \<open>The sink\<close>

datatype host_event =
    Called_back mln_completion_result
  | Queued_result mln_completion_result
  | Released_user_data
  | Lease_returned

datatype completion_state = State_Created | State_Accepted | State_Resolved

text \<open>
  \<open>sink_queue\<close> says whether the sink has a queue, \<open>fallback\<close> whether its reserved item is still there (its
  argument record is placed when it is made), \<open>submission_lease\<close> whether the completion holds one.
\<close>

record completion =
  sink_descriptor :: mln_completion
  sink_queue :: bool
  fallback :: bool
  delivered :: bool
  state :: completion_state
  submission_lease :: bool

text \<open>The arguments of \<open>CompletionSink::deliver\<close>.\<close>

record delivery =
  delivery_status :: mln_status
  delivery_snapshot :: u64
  delivery_render_update :: u64
  delivery_diagnostic :: bytes
  delivery_value :: ptr
  delivery_value_count :: usize
  delivery_value_size :: u32
  delivery_capture :: bool
  delivery_owner :: bool

text \<open>
  What the queued delivery meets: the size its measure finds (\<open>None\<close> when measuring throws), whether an
  item can be allocated, whether the record can be placed in it, and where the value's copy is (\<open>None\<close>
  when writing it throws).
\<close>

record capture_env =
  measured :: "nat option"
  allocates :: bool
  placed :: bool
  written :: "ptr option"

definition sizeof_mln_completion_result :: u32 where
  "sizeof_mln_completion_result = 64"

definition reserved_result_bytes :: nat where
  "reserved_result_bytes = 256"

definition sizeof_delivery_item :: nat where
  "sizeof_delivery_item = 72"

definition uncopyable_result :: bytes where
  "uncopyable_result = ascii ''the completion result could not be copied into its delivery queue''"

definition diagnostic_view :: "bytes \<Rightarrow> mln_buffer_view" where
  "diagnostic_view message = \<lparr>buffer_view_data = Some message, buffer_view_size = of_nat (length message)\<rparr>"

definition terminal_result :: "delivery \<Rightarrow> mln_completion_result" where
  "terminal_result d = \<lparr>completion_result_size = sizeof_mln_completion_result,
     completion_result_status = mln_status_code (delivery_status d),
     completion_result_value_size = (if delivery_value d = 0 then 0 else delivery_value_size d),
     completion_result_generation = delivery_snapshot d,
     completion_result_render_update_generation = delivery_render_update d,
     completion_result_diagnostic = diagnostic_view (delivery_diagnostic d),
     completion_result_value = delivery_value d,
     completion_result_value_count = delivery_value_count d\<rparr>"

definition uncopied_result :: "mln_completion_result \<Rightarrow> mln_completion_result" where
  "uncopied_result result = \<lparr>completion_result_size = sizeof_mln_completion_result,
     completion_result_status = mln_status_code MLN_STATUS_NATIVE_ERROR,
     completion_result_value_size = 0,
     completion_result_generation = completion_result_generation result,
     completion_result_render_update_generation = completion_result_render_update_generation result,
     completion_result_diagnostic = diagnostic_view uncopyable_result,
     completion_result_value = 0,
     completion_result_value_count = 0\<rparr>"

text \<open>The copy of a result: \<open>None\<close> is an exception. A result without a value needs no capture.\<close>

definition copy_result :: "capture_env \<Rightarrow> bool \<Rightarrow> mln_completion_result \<Rightarrow> mln_completion_result option" where
  "copy_result env capture source =
     (if completion_result_value source = 0 \<and> completion_result_value_count source = 0
      then Some (source\<lparr>completion_result_value := 0\<rparr>)
      else if \<not> capture then None
      else map_option (\<lambda>v. source\<lparr>completion_result_value := v\<rparr>) (written env))"

text \<open>
  The item the try block ends with, whether its argument record is placed, and the copy; the fallback
  item is gone once it is taken.
\<close>

definition fill_item ::
    "capture_env \<Rightarrow> bool \<Rightarrow> bool \<Rightarrow> mln_completion_result \<Rightarrow> completion
      \<Rightarrow> bool option \<times> mln_completion_result option \<times> completion" where
  "fill_item env capture owner result c =
     (if \<not> capture \<and> \<not> (completion_result_value result = 0 \<and> completion_result_value_count result = 0)
      then (None, None, c)
      else case measured env of
        None \<Rightarrow> (None, None, c)
      | Some offset \<Rightarrow>
          (let (item, c1) = (if owner then (if allocates env then Some False else None, c)
                 else if offset \<le> sizeof_delivery_item + reserved_result_bytes
                   then (if fallback c then Some True else None, c\<lparr>fallback := False\<rparr>)
                 else (if allocates env then Some False else None, c))
           in case item of
                None \<Rightarrow> (None, None, c1)
              | Some arguments \<Rightarrow>
                  if placed env then (Some True, copy_result env capture result, c1)
                  else (Some arguments, None, c1)))"

definition deliver_queued ::
    "capture_env \<Rightarrow> bool \<Rightarrow> bool \<Rightarrow> mln_completion_result \<Rightarrow> completion \<Rightarrow> host_event list \<times> completion" where
  "deliver_queued env capture owner result c =
     (case fill_item env capture owner result c of
        (item, Some copy, c1) \<Rightarrow> ([Queued_result copy], c1)
      | (item, None, c1) \<Rightarrow>
          (let (item', c2) = (if item = Some True then (True, c1) else (fallback c1, c1\<lparr>fallback := False\<rparr>))
           in if item' then ([Queued_result (uncopied_result result)], c2) else ([], c2)))"

definition sink_deliver :: "bool \<Rightarrow> capture_env \<Rightarrow> delivery \<Rightarrow> completion \<Rightarrow> host_event list \<times> completion" where
  "sink_deliver exiting env d c =
     (let result = terminal_result d; c1 = c\<lparr>delivered := True\<rparr>
      in if exiting then ([], c1)
         else if sink_queue c1 then deliver_queued env (delivery_capture d) (delivery_owner d) result c1
         else if completion_callback (sink_descriptor c1) = 0 then ([], c1)
         else ([Called_back result], c1))"

section \<open>Deliveries\<close>

definition plain_delivery :: "mln_status \<Rightarrow> bytes \<Rightarrow> delivery" where
  "plain_delivery status diagnostic = \<lparr>delivery_status = status, delivery_snapshot = 0,
     delivery_render_update = 0, delivery_diagnostic = diagnostic, delivery_value = 0,
     delivery_value_count = 0, delivery_value_size = 0, delivery_capture = False, delivery_owner = False\<rparr>"

definition deliver_failure :: "mln_status \<Rightarrow> bytes \<Rightarrow> delivery" where
  "deliver_failure status diagnostic =
     (if status = MLN_STATUS_OK
      then plain_delivery MLN_STATUS_NATIVE_ERROR
             (ascii ''native completion reported success without its result'')
      else plain_delivery status diagnostic)"

definition deliver_valueless :: "mln_status \<Rightarrow> bytes \<Rightarrow> delivery" where
  "deliver_valueless status diagnostic =
     (if status = MLN_STATUS_OK then plain_delivery MLN_STATUS_OK [] else deliver_failure status diagnostic)"

definition deliver_command :: "mln_status \<Rightarrow> u64 \<Rightarrow> u64 \<Rightarrow> bytes \<Rightarrow> delivery" where
  "deliver_command status snapshot render_update diagnostic =
     (plain_delivery status diagnostic)\<lparr>delivery_snapshot := snapshot, delivery_render_update := render_update\<rparr>"

definition abandoned_delivery :: delivery where
  "abandoned_delivery = plain_delivery MLN_STATUS_CANCELLED (ascii ''asynchronous work was abandoned'')"

definition undelivered_delivery :: delivery where
  "undelivered_delivery =
     plain_delivery MLN_STATUS_NATIVE_ERROR (ascii ''the completion result could not be delivered'')"

text \<open>
  A function passed to \<open>resolve\<close>: what it gives the sink, if it gets that far, and whether it throws.
  It gives the sink its result unless it throws before.
\<close>

record delivery_body =
  body_delivers :: "delivery option"
  body_throws :: bool

definition body_ok :: "delivery_body \<Rightarrow> bool" where
  "body_ok b \<longleftrightarrow> body_delivers b \<noteq> None \<or> body_throws b"

section \<open>The completion\<close>

definition new_completion :: "mln_completion \<Rightarrow> bool \<Rightarrow> completion" where
  "new_completion descriptor queue = \<lparr>sink_descriptor = descriptor\<lparr>completion_queue := 0\<rparr>, sink_queue = queue,
     fallback = queue, delivered = False, state = State_Created, submission_lease = False\<rparr>"

definition completion_accept :: "completion \<Rightarrow> completion" where
  "completion_accept c = (if state c = State_Created then c\<lparr>state := State_Accepted\<rparr> else c)"

definition reset_lease :: "completion \<Rightarrow> host_event list \<times> completion" where
  "reset_lease c = (if submission_lease c then [Lease_returned] else [], c\<lparr>submission_lease := False\<rparr>)"

definition completion_revoke :: "completion \<Rightarrow> host_event list \<times> completion" where
  "completion_revoke c =
     (if state c = State_Accepted then reset_lease (c\<lparr>state := State_Created\<rparr>) else ([], c))"

definition set_submission_lease :: "completion \<Rightarrow> completion" where
  "set_submission_lease c = c\<lparr>submission_lease := True\<rparr>"

definition completion_deliver ::
    "bool \<Rightarrow> capture_env \<Rightarrow> delivery_body \<Rightarrow> completion \<Rightarrow> host_event list \<times> completion" where
  "completion_deliver exiting env body c =
     (let (events1, c1) = (case body_delivers body of None \<Rightarrow> ([], c) | Some d \<Rightarrow> sink_deliver exiting env d c);
          (events2, c2) = (if body_throws body \<and> \<not> delivered c1
                           then sink_deliver exiting env undelivered_delivery c1 else ([], c1))
      in (events1 @ events2, c2))"

definition cleared_descriptor :: mln_completion where
  "cleared_descriptor = \<lparr>completion_size = 0, completion_callback = 0, completion_user_data = 0,
     completion_release_user_data = 0, completion_queue = 0\<rparr>"

definition completion_release :: "bool \<Rightarrow> completion \<Rightarrow> host_event list \<times> completion" where
  "completion_release exiting c =
     (let events = (if \<not> sink_queue c \<and> completion_release_user_data (sink_descriptor c) \<noteq> 0 \<and> \<not> exiting
                    then [Released_user_data] else []);
          (lease, c1) = reset_lease (c\<lparr>sink_descriptor := cleared_descriptor, sink_queue := False, fallback := False\<rparr>)
      in (events @ lease, c1))"

text \<open>The destructor, with those of the members.\<close>

definition completion_destroy :: "bool \<Rightarrow> capture_env \<Rightarrow> completion \<Rightarrow> host_event list \<times> completion" where
  "completion_destroy exiting env c =
     (let (events1, c1) = (if state c = State_Accepted
            then (let (e1, c1) = sink_deliver exiting env abandoned_delivery c;
                      (e2, c2) = completion_release exiting c1 in (e1 @ e2, c2))
            else ([], c));
          (events2, c2) = reset_lease c1
      in (events1 @ events2, c2))"

section \<open>Every interleaving of those who hold a completion\<close>

text \<open>
  Any number of threads accept, revoke and resolve a completion. The thread whose exchange finds it accepted
  delivers and then releases; the completion is destroyed when nobody holds it, so with nobody inside.
  \<open>env\<close> is what a queued copy meets.
\<close>

datatype completion_phase = Outside | Delivering delivery_body | Releasing | Destroyed

record completion_run =
  run_completion :: completion
  run_phase :: completion_phase
  run_winner :: "delivery_body option"
  run_log :: "host_event list"

definition start_run :: "mln_completion \<Rightarrow> bool \<Rightarrow> completion_run" where
  "start_run descriptor queue = \<lparr>run_completion = new_completion descriptor queue, run_phase = Outside,
     run_winner = None, run_log = []\<rparr>"

datatype completion_action =
    Install_lease | Accept | Revoke | Resolve delivery_body | Deliver capture_env | Release | Destroy capture_env

text \<open>The step and the events it adds to the log; \<open>None\<close> when the action is not possible.\<close>

definition completion_step ::
    "bool \<Rightarrow> completion_action \<Rightarrow> completion_run \<Rightarrow> (host_event list \<times> completion_run) option" where
  "completion_step exiting action r =
     (let c = run_completion r
      in if run_phase r = Destroyed then None
         else case action of
           Install_lease \<Rightarrow>
             if state c = State_Created \<and> \<not> submission_lease c
             then Some ([], r\<lparr>run_completion := set_submission_lease c\<rparr>) else None
         | Accept \<Rightarrow> Some ([], r\<lparr>run_completion := completion_accept c\<rparr>)
         | Revoke \<Rightarrow> (let (events, c1) = completion_revoke c
             in Some (events, r\<lparr>run_completion := c1, run_log := run_log r @ events\<rparr>))
         | Resolve body \<Rightarrow>
             if state c = State_Accepted \<and> body_ok body
             then Some ([], r\<lparr>run_completion := c\<lparr>state := State_Resolved\<rparr>, run_phase := Delivering body,
                     run_winner := Some body\<rparr>)
             else Some ([], r)
         | Deliver env \<Rightarrow> (case run_phase r of
             Delivering body \<Rightarrow> (let (events, c1) = completion_deliver exiting env body c
               in Some (events, r\<lparr>run_completion := c1, run_phase := Releasing, run_log := run_log r @ events\<rparr>))
           | _ \<Rightarrow> None)
         | Release \<Rightarrow>
             if run_phase r = Releasing
             then (let (events, c1) = completion_release exiting c
               in Some (events, r\<lparr>run_completion := c1, run_phase := Outside, run_log := run_log r @ events\<rparr>))
             else None
         | Destroy env \<Rightarrow>
             if run_phase r = Outside
             then (let (events, c1) = completion_destroy exiting env c
               in Some (events, r\<lparr>run_completion := c1, run_phase := Destroyed, run_log := run_log r @ events\<rparr>))
             else None)"

inductive completion_reachable :: "bool \<Rightarrow> mln_completion \<Rightarrow> bool \<Rightarrow> completion_run \<Rightarrow> bool" for exiting descriptor queue where
  completion_start: "completion_reachable exiting descriptor queue (start_run descriptor queue)"
| completion_next: "completion_reachable exiting descriptor queue r \<Longrightarrow>
     completion_step exiting action r = Some (events, r') \<Longrightarrow> completion_reachable exiting descriptor queue r'"

text \<open>What each action does when it is possible.\<close>

lemma step_phase: "completion_step exiting action r = Some (events, r') \<Longrightarrow> run_phase r \<noteq> Destroyed"
  by (simp add: completion_step_def Let_def split: if_splits)

lemma action_deliver:
  "completion_step exiting (Deliver env) r = Some (events, r') \<longleftrightarrow> (\<exists>body. run_phase r = Delivering body
     \<and> events = fst (completion_deliver exiting env body (run_completion r))
     \<and> r' = r\<lparr>run_completion := snd (completion_deliver exiting env body (run_completion r)), run_phase := Releasing,
          run_log := run_log r @ events\<rparr>)"
  by (cases "run_phase r") (auto simp: completion_step_def split_beta Let_def)

lemma action_release:
  "completion_step exiting Release r = Some (events, r') \<longleftrightarrow> run_phase r = Releasing
     \<and> events = fst (completion_release exiting (run_completion r))
     \<and> r' = r\<lparr>run_completion := snd (completion_release exiting (run_completion r)), run_phase := Outside,
          run_log := run_log r @ events\<rparr>"
  by (cases "run_phase r") (auto simp: completion_step_def split_beta Let_def)

lemma action_destroy:
  "completion_step exiting (Destroy env) r = Some (events, r') \<longleftrightarrow> run_phase r = Outside
     \<and> events = fst (completion_destroy exiting env (run_completion r))
     \<and> r' = r\<lparr>run_completion := snd (completion_destroy exiting env (run_completion r)), run_phase := Destroyed,
          run_log := run_log r @ events\<rparr>"
  by (cases "run_phase r") (auto simp: completion_step_def split_beta Let_def)

lemma action_revoke:
  "completion_step exiting Revoke r = Some (events, r') \<longleftrightarrow> run_phase r \<noteq> Destroyed
     \<and> events = fst (completion_revoke (run_completion r))
     \<and> r' = r\<lparr>run_completion := snd (completion_revoke (run_completion r)), run_log := run_log r @ events\<rparr>"
  by (auto simp: completion_step_def split_beta Let_def)

lemma action_resolve:
  "completion_step exiting (Resolve body) r = Some (events, r') \<longleftrightarrow> run_phase r \<noteq> Destroyed \<and> events = []
     \<and> r' = (if state (run_completion r) = State_Accepted \<and> body_ok body
         then r\<lparr>run_completion := (run_completion r)\<lparr>state := State_Resolved\<rparr>, run_phase := Delivering body,
           run_winner := Some body\<rparr> else r)"
  by (auto simp: completion_step_def Let_def)

lemmas action_steps = action_deliver action_release action_destroy action_revoke action_resolve

text \<open>The host's events without those of the lease, and what a settled completion owes.\<close>

definition host_events :: "host_event list \<Rightarrow> host_event list" where
  "host_events = filter (\<lambda>e. e \<noteq> Lease_returned)"

definition body_result :: "delivery_body option \<Rightarrow> mln_completion_result" where
  "body_result winner = terminal_result (case winner of
     None \<Rightarrow> abandoned_delivery
   | Some body \<Rightarrow> (case body_delivers body of None \<Rightarrow> undelivered_delivery | Some d \<Rightarrow> d))"

definition result_event :: "bool \<Rightarrow> mln_completion \<Rightarrow> bool \<Rightarrow> mln_completion_result \<Rightarrow> host_event list \<Rightarrow> bool" where
  "result_event exiting descriptor queue result events \<longleftrightarrow>
     (if exiting then events = []
      else if queue then \<exists>copy. events = [Queued_result copy]
        \<and> (copy = uncopied_result result \<or> (\<exists>v. copy = result\<lparr>completion_result_value := v\<rparr>))
      else events = (if completion_callback descriptor = 0 then [] else [Called_back result]))"

definition release_event :: "bool \<Rightarrow> mln_completion \<Rightarrow> bool \<Rightarrow> host_event list" where
  "release_event exiting descriptor queue =
     (if \<not> queue \<and> completion_release_user_data descriptor \<noteq> 0 \<and> \<not> exiting then [Released_user_data] else [])"

lemma host_events_simps [simp]:
  "host_events [] = []" "host_events (a @ b) = host_events a @ host_events b"
  "host_events (e # es) = (if e = Lease_returned then host_events es else e # host_events es)" "host_events (release_event exiting descriptor queue) = release_event exiting descriptor queue"
  by (simp_all add: host_events_def release_event_def)

lemma copied_result: "copy_result env capture result = Some copy \<Longrightarrow> \<exists>v. copy = result\<lparr>completion_result_value := v\<rparr>"
  by (auto simp: copy_result_def split: if_splits)

lemma filled_item:
  assumes "fallback c" "fill_item env capture owner result c = (item, copy, c1)"
  shows "(copy = None \<or> copy = copy_result env capture result) \<and> (c1 = c \<or> c1 = c\<lparr>fallback := False\<rparr>)
    \<and> (item = Some True \<or> fallback c1)"
  using assms by (auto simp: fill_item_def Let_def split: option.splits if_splits)

lemma deliver_queued_one:
  assumes "fallback c"
  shows "result_event False descriptor True result (fst (deliver_queued env capture owner result c))
    \<and> snd (deliver_queued env capture owner result c) \<in> {c, c\<lparr>fallback := False\<rparr>}"
proof -
  obtain item copy c1 where fill: "fill_item env capture owner result c = (item, copy, c1)"
    by (metis prod_cases3)
  note filled = filled_item [OF assms fill]
  show ?thesis
  proof (cases copy)
    case None
    with filled show ?thesis by (auto simp: deliver_queued_def fill result_event_def)
  next
    case (Some v)
    with filled have "copy_result env capture result = Some v" by simp
    then obtain w where "v = result\<lparr>completion_result_value := w\<rparr>" using copied_result by blast
    moreover have "deliver_queued env capture owner result c = ([Queued_result v], c1)"
      by (simp add: deliver_queued_def fill Some)
    ultimately show ?thesis using filled by (auto simp: result_event_def)
  qed
qed

lemma sink_deliver_one:
  assumes "sink_descriptor c = descriptor\<lparr>completion_queue := 0\<rparr>" "sink_queue c = queue" "fallback c = queue"
  shows "result_event exiting descriptor queue (terminal_result d) (fst (sink_deliver exiting env d c))
    \<and> snd (sink_deliver exiting env d c) \<in> {c\<lparr>delivered := True\<rparr>, c\<lparr>delivered := True, fallback := False\<rparr>}"
  using assms deliver_queued_one [of "c\<lparr>delivered := True\<rparr>" descriptor "terminal_result d" env "delivery_capture d" "delivery_owner d"]
  by (auto simp: sink_deliver_def result_event_def Let_def)

lemma completion_deliver_one:
  assumes "sink_descriptor c = descriptor\<lparr>completion_queue := 0\<rparr>" "sink_queue c = queue" "fallback c = queue"
    "\<not> delivered c" "body_ok body"
  shows "result_event exiting descriptor queue (body_result (Some body)) (fst (completion_deliver exiting env body c))
    \<and> snd (completion_deliver exiting env body c) \<in> {c\<lparr>delivered := True\<rparr>, c\<lparr>delivered := True, fallback := False\<rparr>}"
proof (cases "body_delivers body")
  case None
  with assms(4,5) sink_deliver_one [OF assms(1-3), of exiting undelivered_delivery env] show ?thesis
    by (simp add: completion_deliver_def body_ok_def body_result_def split_beta)
next
  case (Some d)
  have "delivered (snd (sink_deliver exiting env d c))"
    using sink_deliver_one [OF assms(1-3), of exiting d env] by auto
  with Some sink_deliver_one [OF assms(1-3), of exiting d env] show ?thesis
    by (simp add: completion_deliver_def body_result_def split_beta)
qed

text \<open>The invariant, phase by phase.\<close>

definition sink_untouched :: "mln_completion \<Rightarrow> bool \<Rightarrow> completion \<Rightarrow> bool" where
  "sink_untouched descriptor queue c \<longleftrightarrow> sink_descriptor c = descriptor\<lparr>completion_queue := 0\<rparr>
     \<and> sink_queue c = queue \<and> fallback c = queue \<and> \<not> delivered c"

definition settled :: "bool \<Rightarrow> mln_completion \<Rightarrow> bool \<Rightarrow> completion_run \<Rightarrow> bool" where
  "settled exiting descriptor queue r \<longleftrightarrow> (\<exists>events.
     result_event exiting descriptor queue (body_result (run_winner r)) events
     \<and> host_events (run_log r) = events @ release_event exiting descriptor queue)"

definition run_ok :: "bool \<Rightarrow> mln_completion \<Rightarrow> bool \<Rightarrow> completion_run \<Rightarrow> bool" where
  "run_ok exiting descriptor queue r \<longleftrightarrow> (let c = run_completion r in
     case run_phase r of
       Outside \<Rightarrow> if state c = State_Resolved then settled exiting descriptor queue r \<and> \<not> submission_lease c
         else sink_untouched descriptor queue c \<and> run_winner r = None \<and> host_events (run_log r) = []
     | Delivering body \<Rightarrow> state c = State_Resolved \<and> sink_untouched descriptor queue c \<and> body_ok body
         \<and> run_winner r = Some body \<and> host_events (run_log r) = []
     | Releasing \<Rightarrow> state c = State_Resolved
         \<and> result_event exiting descriptor queue (body_result (run_winner r)) (host_events (run_log r))
         \<and> sink_descriptor c = descriptor\<lparr>completion_queue := 0\<rparr> \<and> sink_queue c = queue
     | Destroyed \<Rightarrow> \<not> submission_lease c
         \<and> (if state c = State_Created then host_events (run_log r) = [] else settled exiting descriptor queue r))"

lemma released_events:
  assumes "sink_descriptor c = descriptor\<lparr>completion_queue := 0\<rparr>" "sink_queue c = queue"
  shows "host_events (fst (completion_release exiting c)) = release_event exiting descriptor queue"
    "state (snd (completion_release exiting c)) = state c" "\<not> submission_lease (snd (completion_release exiting c))"
  using assms by (simp_all add: completion_release_def release_event_def reset_lease_def Let_def)

lemma result_event_host: "result_event exiting descriptor queue result events \<Longrightarrow> host_events events = events"
  by (auto simp: result_event_def host_events_def split: if_splits)

lemma run_step_ok:
  assumes "run_ok exiting descriptor queue r" "completion_step exiting action r = Some (events, r')"
  shows "run_ok exiting descriptor queue r'"
proof (cases action)
  case (Deliver env)
  then obtain body where phase: "run_phase r = Delivering body"
    using assms(2) by (auto simp: action_steps)
  define c where "c = run_completion r"
  from assms(1) phase have c: "sink_descriptor c = descriptor\<lparr>completion_queue := 0\<rparr>" "sink_queue c = queue"
    "fallback c = queue" "\<not> delivered c" "body_ok body" "state c = State_Resolved" "run_winner r = Some body"
    "host_events (run_log r) = []"
    by (auto simp: run_ok_def c_def sink_untouched_def Let_def)
  note one = completion_deliver_one [OF c(1-5), of exiting env]
  from one have "host_events (fst (completion_deliver exiting env body c)) = fst (completion_deliver exiting env body c)"
    by (blast intro: result_event_host)
  with one c assms(2) phase Deliver show ?thesis
    by (auto simp: action_steps run_ok_def Let_def simp flip: c_def)
next
  case Release
  define c where "c = run_completion r"
  from Release assms(2) have phase: "run_phase r = Releasing" by (simp add: action_steps)
  with assms(1) have c: "sink_descriptor c = descriptor\<lparr>completion_queue := 0\<rparr>" "sink_queue c = queue"
    "state c = State_Resolved"
    "result_event exiting descriptor queue (body_result (run_winner r)) (host_events (run_log r))"
    by (auto simp: run_ok_def c_def Let_def)
  with released_events [OF c(1,2), of exiting] assms(2) phase Release show ?thesis
    by (auto simp: action_steps run_ok_def settled_def Let_def simp flip: c_def)
next
  case (Destroy env)
  define c where "c = run_completion r"
  from Destroy assms(2) have phase: "run_phase r = Outside" by (simp add: action_steps)
  have r': "r' = r\<lparr>run_completion := snd (completion_destroy exiting env c), run_phase := Destroyed,
      run_log := run_log r @ fst (completion_destroy exiting env c)\<rparr>"
    using Destroy assms(2) by (simp add: action_steps c_def)
  show ?thesis
  proof (cases "state c = State_Accepted")
    case True
    with assms(1) phase have c: "sink_descriptor c = descriptor\<lparr>completion_queue := 0\<rparr>" "sink_queue c = queue"
      "fallback c = queue" "run_winner r = None" "host_events (run_log r) = []"
      by (auto simp: run_ok_def c_def sink_untouched_def Let_def split: if_splits)
    note one = sink_deliver_one [OF c(1-3), of exiting abandoned_delivery env]
    let ?c1 = "snd (sink_deliver exiting env abandoned_delivery c)"
    have c1: "sink_descriptor ?c1 = descriptor\<lparr>completion_queue := 0\<rparr>" "sink_queue ?c1 = queue" "state ?c1 = State_Accepted"
      using one c True by auto
    note rel = released_events [OF c1(1,2), of exiting]
    have host: "host_events (fst (sink_deliver exiting env abandoned_delivery c)) = fst (sink_deliver exiting env abandoned_delivery c)"
      using one by (blast intro: result_event_host)
    have "completion_destroy exiting env c = (fst (sink_deliver exiting env abandoned_delivery c)
        @ fst (completion_release exiting ?c1), snd (completion_release exiting ?c1))"
      using rel(3) by (simp add: completion_destroy_def True split_beta Let_def reset_lease_def)
    with one host rel c c1 show ?thesis
      by (auto simp: r' run_ok_def settled_def body_result_def)
  next
    case False
    then have "completion_destroy exiting env c = reset_lease c"
      by (simp add: completion_destroy_def split_beta)
    with assms(1) phase False show ?thesis
      by (cases "state c") (auto simp: r' run_ok_def reset_lease_def settled_def Let_def simp flip: c_def)
  qed
next
  case Install_lease
  with assms(2) have "r' = r\<lparr>run_completion := set_submission_lease (run_completion r)\<rparr>"
    "state (run_completion r) = State_Created" "run_phase r \<noteq> Destroyed"
    by (auto simp: completion_step_def Let_def split: if_splits)
  with assms(1) show ?thesis
    by (cases "run_phase r") (simp_all add: run_ok_def sink_untouched_def set_submission_lease_def Let_def)
next
  case Accept
  with assms(2) have "r' = r\<lparr>run_completion := completion_accept (run_completion r)\<rparr>" "run_phase r \<noteq> Destroyed"
    by (auto simp: completion_step_def Let_def split: if_splits)
  with assms(1) show ?thesis
    by (cases "run_phase r") (auto simp: run_ok_def sink_untouched_def settled_def completion_accept_def Let_def)
next
  case Revoke
  with assms(2) have r': "r' = r\<lparr>run_completion := snd (completion_revoke (run_completion r)),
      run_log := run_log r @ fst (completion_revoke (run_completion r))\<rparr>" "run_phase r \<noteq> Destroyed"
    by (auto simp: action_steps)
  show ?thesis
  proof (cases "state (run_completion r) = State_Accepted")
    case True
    with assms(1) r' show ?thesis
      by (cases "run_phase r") (simp_all add: run_ok_def sink_untouched_def completion_revoke_def reset_lease_def Let_def)
  next
    case False
    with r' have "r' = r" by (simp add: completion_revoke_def)
    with assms(1) show ?thesis by simp
  qed
next
  case (Resolve body)
  with assms(2) have "r' = r \<or> state (run_completion r) = State_Accepted \<and> body_ok body \<and> run_phase r \<noteq> Destroyed
      \<and> r' = r\<lparr>run_completion := (run_completion r)\<lparr>state := State_Resolved\<rparr>, run_phase := Delivering body,
          run_winner := Some body\<rparr>"
    by (auto simp: action_steps)
  with assms(1) show ?thesis
    by (cases "run_phase r") (auto simp: run_ok_def sink_untouched_def Let_def)
qed

lemma completion_reachable_ok: "completion_reachable exiting descriptor queue r \<Longrightarrow> run_ok exiting descriptor queue r"
proof (induction rule: completion_reachable.induct)
  case completion_start
  then show ?case by (simp add: run_ok_def start_run_def new_completion_def sink_untouched_def)
next
  case (completion_next r action events r')
  then show ?case by (blast intro: run_step_ok)
qed

lemma result_event_exists: "\<exists>events. result_event exiting descriptor queue result events"
  by (auto simp: result_event_def)


text \<open>A completion with a callback and a release, resolved with success and then again.\<close>

definition sample_completion :: mln_completion where
  "sample_completion = \<lparr>completion_size = 40, completion_callback = 8, completion_user_data = 16,
     completion_release_user_data = 24, completion_queue = 0\<rparr>"

definition sample_body :: delivery_body where
  "sample_body = \<lparr>body_delivers = Some (deliver_valueless MLN_STATUS_OK []), body_throws = False\<rparr>"

definition sample_env :: capture_env where
  "sample_env = \<lparr>measured = None, allocates = False, placed = False, written = None\<rparr>"

fun run_actions :: "completion_action list \<Rightarrow> completion_run \<Rightarrow> completion_run option" where
  "run_actions [] r = Some r"
| "run_actions (action # actions) r = (case completion_step False action r of
     None \<Rightarrow> None | Some (events, r') \<Rightarrow> run_actions actions r')"

lemma run_actions_reachable:
  "completion_reachable False descriptor queue r \<Longrightarrow> run_actions actions r = Some r'
     \<Longrightarrow> completion_reachable False descriptor queue r'"
  by (induction actions arbitrary: r) (auto split: option.splits prod.splits intro: completion_next)

lemmas completion_eval = completion_step_def start_run_def new_completion_def completion_accept_def
  completion_revoke_def set_submission_lease_def reset_lease_def completion_deliver_def sink_deliver_def
  completion_release_def completion_destroy_def body_ok_def sample_body_def sample_completion_def Let_def

lemma sample_run:
  "run_actions [Install_lease, Accept, Resolve sample_body, Resolve sample_body, Deliver sample_env, Accept, Release]
     (start_run sample_completion False)
   = Some \<lparr>run_completion = \<lparr>sink_descriptor = cleared_descriptor, sink_queue = False, fallback = False,
       delivered = True, state = State_Resolved, submission_lease = False\<rparr>,
     run_phase = Outside, run_winner = Some sample_body,
     run_log = [Called_back (terminal_result (deliver_valueless MLN_STATUS_OK [])), Released_user_data, Lease_returned]\<rparr>"
  by (simp add: completion_eval)


end
