(* ===== verification/Handle_Retirement.thy ===== *)
theory Handle_Retirement
  imports Completion
begin

text \<open>
  A handle and the operations submitted to it (\<open>submit_runtime_operation\<close> in \<open>src/runtime/runtime.cpp\<close>,
  \<open>ControlState\<close> and \<open>Completion\<close> together): every accepted operation's completion holds a lease of the handle,
  so a handle that closes retires after all of them have told the host. Other leases and children come
  and go beside them.
\<close>

section \<open>Leases\<close>

definition holds_lease :: "completion_run \<Rightarrow> bool" where
  "holds_lease r \<longleftrightarrow> submission_lease (run_completion r)"

text \<open>A completion that owes the host nothing more: it was revoked, or it has settled.\<close>

definition owes_nothing :: "bool \<Rightarrow> mln_completion \<Rightarrow> bool \<Rightarrow> completion_run \<Rightarrow> bool" where
  "owes_nothing exiting descriptor queue r \<longleftrightarrow>
     (if state (run_completion r) = State_Created then host_events (run_log r) = []
      else settled exiting descriptor queue r)"

definition finished :: "completion_run \<Rightarrow> bool" where
  "finished r \<longleftrightarrow> state (run_completion r) = State_Created \<or> run_phase r = Destroyed
     \<or> (run_phase r = Outside \<and> state (run_completion r) = State_Resolved)"

lemma finished_owes_nothing:
  assumes "completion_reachable exiting descriptor queue r" "finished r"
  shows "owes_nothing exiting descriptor queue r"
  using completion_reachable_ok [OF assms(1)] assms(2)
  by (cases "run_phase r") (auto simp: run_ok_def finished_def owes_nothing_def Let_def split: if_splits)

text \<open>A step returns the lease at most once, exactly when the completion stops holding it.\<close>

definition returns_lease :: "host_event list \<Rightarrow> bool" where
  "returns_lease events \<longleftrightarrow> Lease_returned \<in> set events"

definition keeps_lease :: "completion \<Rightarrow> host_event list \<times> completion \<Rightarrow> bool" where
  "keeps_lease c result \<longleftrightarrow> \<not> returns_lease (fst result)
     \<and> submission_lease (snd result) = submission_lease c \<and> state (snd result) = state c"

lemma deliver_queued_lease: "keeps_lease c (deliver_queued env capture owner result c)"
  by (auto simp: keeps_lease_def returns_lease_def deliver_queued_def fill_item_def Let_def
      split: option.splits if_splits prod.splits)

lemma sink_deliver_lease: "keeps_lease c (sink_deliver exiting env d c)"
  using deliver_queued_lease [of "c\<lparr>delivered := True\<rparr>" env "delivery_capture d" "delivery_owner d" "terminal_result d"]
  by (simp add: sink_deliver_def Let_def keeps_lease_def returns_lease_def)

lemma completion_deliver_lease: "keeps_lease c (completion_deliver exiting env body c)"
  using sink_deliver_lease [of c exiting env] sink_deliver_lease [of "snd (sink_deliver exiting env (the (body_delivers body)) c)" exiting env]
  by (cases "body_delivers body")
    (auto simp: completion_deliver_def Let_def split_beta keeps_lease_def returns_lease_def)

definition drops_lease :: "completion \<Rightarrow> host_event list \<times> completion \<Rightarrow> bool" where
  "drops_lease c result \<longleftrightarrow> (returns_lease (fst result) \<longleftrightarrow> submission_lease c) \<and> \<not> submission_lease (snd result)"

lemma reset_lease_drops: "drops_lease c (reset_lease c)"
  by (simp add: drops_lease_def reset_lease_def returns_lease_def)

lemma completion_release_drops: "drops_lease c (completion_release exiting c)"
  by (auto simp: drops_lease_def completion_release_def reset_lease_def returns_lease_def Let_def)

lemma completion_destroy_drops: "drops_lease c (completion_destroy exiting env c)"
proof (cases "state c = State_Accepted")
  case True
  let ?c1 = "snd (sink_deliver exiting env abandoned_delivery c)"
  have "completion_destroy exiting env c = (fst (sink_deliver exiting env abandoned_delivery c)
      @ fst (completion_release exiting ?c1), snd (completion_release exiting ?c1))"
    using completion_release_drops [of ?c1 exiting]
    by (simp add: completion_destroy_def True split_beta Let_def reset_lease_def drops_lease_def)
  with completion_release_drops [of ?c1 exiting] sink_deliver_lease [of c exiting env abandoned_delivery]
  show ?thesis by (simp add: drops_lease_def keeps_lease_def returns_lease_def)
next
  case False
  then have "completion_destroy exiting env c = reset_lease c"
    by (simp add: completion_destroy_def split_beta)
  then show ?thesis by (simp add: reset_lease_drops)
qed

lemma step_lease:
  assumes "completion_step exiting action r = Some (events, r')" "action \<notin> {Install_lease, Accept}"
    "finished r \<or> holds_lease r" "run_ok exiting descriptor queue r"
  shows "(finished r' \<or> holds_lease r') \<and> (returns_lease events \<longleftrightarrow> holds_lease r \<and> \<not> holds_lease r')
    \<and> (holds_lease r' \<longrightarrow> holds_lease r)"
proof -
  note phase = step_phase [OF assms(1)]
  show ?thesis
  proof (cases action)
    case Revoke
    with assms(1) have r': "r' = r\<lparr>run_completion := snd (completion_revoke (run_completion r)), run_log := run_log r @ events\<rparr>"
      "events = fst (completion_revoke (run_completion r))"
      by (simp_all add: action_steps)
    show ?thesis
    proof (cases "state (run_completion r) = State_Accepted")
      case True
      with r' show ?thesis
        by (simp add: completion_revoke_def reset_lease_def returns_lease_def finished_def holds_lease_def)
    next
      case False
      with r' have "r' = r" "events = []" by (simp_all add: completion_revoke_def)
      with assms(3) show ?thesis by (simp add: returns_lease_def)
    qed
  next
    case (Resolve body)
    with assms(1) have "events = []" "r' = (if state (run_completion r) = State_Accepted \<and> body_ok body
         then r\<lparr>run_completion := (run_completion r)\<lparr>state := State_Resolved\<rparr>, run_phase := Delivering body,
           run_winner := Some body\<rparr> else r)"
      by (simp_all add: action_steps)
    with assms(3) phase show ?thesis
      by (cases "state (run_completion r)") (auto simp: returns_lease_def finished_def holds_lease_def)
  next
    case (Deliver env)
    with assms(1) obtain body where "run_phase r = Delivering body"
      "r' = r\<lparr>run_completion := snd (completion_deliver exiting env body (run_completion r)), run_phase := Releasing,
         run_log := run_log r @ events\<rparr>" "events = fst (completion_deliver exiting env body (run_completion r))"
      by (auto simp: action_steps)
    with assms(3) completion_deliver_lease [of "run_completion r" exiting env body] show ?thesis
      by (auto simp: keeps_lease_def finished_def holds_lease_def)
  next
    case Release
    with assms(1) have "run_phase r = Releasing"
      "r' = r\<lparr>run_completion := snd (completion_release exiting (run_completion r)), run_phase := Outside,
         run_log := run_log r @ events\<rparr>" "events = fst (completion_release exiting (run_completion r))"
      by (simp_all add: action_steps)
    moreover have "state (snd (completion_release exiting (run_completion r))) = state (run_completion r)"
      by (simp add: completion_release_def reset_lease_def Let_def)
    moreover have "state (run_completion r) = State_Resolved"
      using assms(4) \<open>run_phase r = Releasing\<close> by (simp add: run_ok_def Let_def)
    ultimately show ?thesis using assms(3) completion_release_drops [of "run_completion r" exiting]
      by (auto simp: drops_lease_def finished_def holds_lease_def)
  next
    case (Destroy env)
    with assms(1) have "run_phase r' = Destroyed"
      "run_completion r' = snd (completion_destroy exiting env (run_completion r))"
      "events = fst (completion_destroy exiting env (run_completion r))"
      by (simp_all add: action_steps)
    with completion_destroy_drops [of "run_completion r" exiting env] show ?thesis
      by (auto simp: drops_lease_def finished_def holds_lease_def)
  qed (use assms(2) in simp_all)
qed

section \<open>The handle\<close>

text \<open>
  The operations a handle accepted: the descriptor and kind of sink of each with its run. \<open>submit\<close> is the
  acceptance: the lease is acquired, put into the new completion, and the completion accepted.
\<close>

record 'c handle_system =
  handle_control :: "'c control_system"
  handle_runs :: "(mln_completion \<times> bool \<times> completion_run) list"

definition fresh_handle :: "'c handle_system" where
  "fresh_handle = \<lparr>handle_control = fresh_system, handle_runs = []\<rparr>"

definition accepted_run :: "mln_completion \<Rightarrow> bool \<Rightarrow> completion_run" where
  "accepted_run descriptor queue = (start_run descriptor queue)\<lparr>run_completion :=
     completion_accept (set_submission_lease (new_completion descriptor queue))\<rparr>"

definition leases_of :: "(mln_completion \<times> bool \<times> completion_run) list \<Rightarrow> nat" where
  "leases_of runs = length (filter (\<lambda>(d, q, r). holds_lease r) runs)"

inductive handle_step :: "bool \<Rightarrow> 'c handle_system \<Rightarrow> 'c handle_system \<Rightarrow> bool" for exiting where
  handle_submit: "acquire (control (handle_control s)) t = (True, c, t') \<Longrightarrow>
     handle_step exiting s (s\<lparr>handle_control := (handle_control s)\<lparr>control := c,
         leases_held := leases_held (handle_control s) + 1\<rparr>,
       handle_runs := handle_runs s @ [(descriptor, queue, accepted_run descriptor queue)]\<rparr>)"
| handle_complete: "i < length (handle_runs s) \<Longrightarrow> handle_runs s ! i = (descriptor, queue, r) \<Longrightarrow>
     action \<notin> {Install_lease, Accept} \<Longrightarrow> completion_step exiting action r = Some (events, r') \<Longrightarrow>
     handle_step exiting s (s\<lparr>
       handle_control := (if returns_lease events then give_back False (handle_control s) else handle_control s),
       handle_runs := (handle_runs s)[i := (descriptor, queue, r')]\<rparr>)"
| handle_other: "control_step (handle_control s) c \<Longrightarrow> leases_of (handle_runs s) \<le> leases_held c \<Longrightarrow>
     handle_step exiting s (s\<lparr>handle_control := c\<rparr>)"

inductive handle_reachable :: "bool \<Rightarrow> 'c handle_system \<Rightarrow> bool" for exiting where
  handle_start: "handle_reachable exiting fresh_handle"
| handle_next: "handle_reachable exiting s \<Longrightarrow> handle_step exiting s s' \<Longrightarrow> handle_reachable exiting s'"

definition run_sound :: "bool \<Rightarrow> mln_completion \<times> bool \<times> completion_run \<Rightarrow> bool" where
  "run_sound exiting = (\<lambda>(descriptor, queue, r).
     completion_reachable exiting descriptor queue r \<and> (finished r \<or> holds_lease r))"

definition handle_ok :: "bool \<Rightarrow> 'c handle_system \<Rightarrow> bool" where
  "handle_ok exiting s \<longleftrightarrow> control_reachable (handle_control s)
     \<and> leases_of (handle_runs s) \<le> leases_held (handle_control s)
     \<and> list_all (run_sound exiting) (handle_runs s)"

lemma accepted_run_sound: "run_sound exiting (descriptor, queue, accepted_run descriptor queue)"
proof -
  let ?start = "start_run descriptor queue"
  have "completion_step exiting Install_lease ?start
      = Some ([], ?start\<lparr>run_completion := set_submission_lease (new_completion descriptor queue)\<rparr>)"
    by (simp add: completion_step_def start_run_def new_completion_def)
  from completion_next [OF completion_start this]
  have "completion_reachable exiting descriptor queue
      (?start\<lparr>run_completion := set_submission_lease (new_completion descriptor queue)\<rparr>)" .
  moreover have "completion_step exiting Accept
      (?start\<lparr>run_completion := set_submission_lease (new_completion descriptor queue)\<rparr>)
      = Some ([], accepted_run descriptor queue)"
    by (simp add: completion_step_def start_run_def accepted_run_def)
  ultimately have "completion_reachable exiting descriptor queue (accepted_run descriptor queue)"
    by (rule completion_next)
  then show ?thesis
    by (simp add: run_sound_def holds_lease_def accepted_run_def completion_accept_def set_submission_lease_def
        new_completion_def)
qed

lemma leases_of_update:
  assumes "i < length runs" "runs ! i = (d, q, r)"
  shows "leases_of (runs[i := (d, q, r')]) + (if holds_lease r then 1 else 0)
    = leases_of runs + (if holds_lease r' then 1 else 0)"
proof -
  obtain xs ys where "runs = xs @ (d, q, r) # ys" "length xs = i"
    using assms by (metis id_take_nth_drop length_take min.absorb4)
  then show ?thesis by (auto simp: leases_of_def)
qed

lemma give_back_reachable:
  "control_reachable c \<Longrightarrow> 0 < leases_held c \<Longrightarrow> control_reachable (give_back False c)"
  by (rule control_next [OF _ step_release])

lemma give_back_leases: "leases_held (give_back False c) = leases_held c - 1"
  by (simp add: give_back_def Let_def split_beta)

lemma handle_reachable_ok: "handle_reachable exiting s \<Longrightarrow> handle_ok exiting s"
proof (induction rule: handle_reachable.induct)
  case handle_start
  then show ?case by (simp add: handle_ok_def fresh_handle_def control_start leases_of_def)
next
  case (handle_next s s')
  from handle_next(2,3) show ?case
  proof (cases rule: handle_step.cases)
    case (handle_submit t c t' descriptor queue)
    have "control_reachable ((handle_control s)\<lparr>control := c, leases_held := leases_held (handle_control s) + 1\<rparr>)"
      using handle_next(3) step_acquire [OF handle_submit(2)] by (auto simp: handle_ok_def intro: control_next)
    moreover have "leases_of [(descriptor, queue, accepted_run descriptor queue)] \<le> 1" by (simp add: leases_of_def)
    ultimately show ?thesis using handle_next(3) handle_submit(1) accepted_run_sound
      by (auto simp: handle_ok_def leases_of_def)
  next
    case (handle_complete i descriptor queue r action events r')
    from handle_next(3) handle_complete(2,3) have sound: "run_sound exiting (descriptor, queue, r)"
      by (metis handle_ok_def list_all_length)
    then have ok: "run_ok exiting descriptor queue r" "finished r \<or> holds_lease r"
      by (auto simp: run_sound_def completion_reachable_ok)
    note lease = step_lease [OF handle_complete(5,4) ok(2,1)]
    have new: "run_sound exiting (descriptor, queue, r')"
      using sound lease completion_next handle_complete(5) by (fastforce simp: run_sound_def)
    note count = leases_of_update [OF handle_complete(2,3), of r']
    let ?c = "handle_control s"
    have old: "control_reachable ?c" "leases_of (handle_runs s) \<le> leases_held ?c"
      "list_all (run_sound exiting) (handle_runs s)"
      using handle_next(3) by (auto simp: handle_ok_def)
    have all: "list_all (run_sound exiting) ((handle_runs s)[i := (descriptor, queue, r')])"
      using old(3) new by (auto simp: list_all_iff dest: set_update_subset_insert [THEN subsetD])
    show ?thesis
    proof (cases "returns_lease events")
      case True
      then have "holds_lease r" "\<not> holds_lease r'" using lease by auto
      with count have "leases_of ((handle_runs s)[i := (descriptor, queue, r')]) + 1 = leases_of (handle_runs s)"
        by simp
      with old(1,2) all True give_back_reachable [of ?c] show ?thesis
        by (simp add: handle_ok_def handle_complete(1) give_back_leases)
    next
      case False
      with lease count have "leases_of ((handle_runs s)[i := (descriptor, queue, r')]) \<le> leases_of (handle_runs s)"
        by (auto split: if_splits)
      with old all False show ?thesis by (simp add: handle_ok_def handle_complete(1))
    qed
  next
    case (handle_other c)
    with handle_next(3) show ?thesis by (auto simp: handle_ok_def intro: control_next)
  qed
qed


text \<open>A handle whose one operation succeeds, which closes and asks.\<close>

lemma drained_handle:
  "\<exists>s :: nat handle_system. handle_reachable False s \<and> due_callbacks (handle_control s) = [7] \<and> length (handle_runs s) = 1"
proof -
  let ?acc = "accepted_run sample_completion False"
  obtain r1 where r1: "completion_step False (Resolve sample_body) ?acc = Some ([], r1)"
    by (simp add: action_resolve accepted_run_def start_run_def)
  obtain r2 events2 where r2: "completion_step False (Deliver sample_env) r1 = Some (events2, r2)" "\<not> returns_lease events2"
    using r1 by (auto simp: accepted_run_def completion_eval returns_lease_def)
  obtain r3 events3 where r3: "completion_step False Release r2 = Some (events3, r3)" "returns_lease events3"
    using r1 r2 by (auto simp: accepted_run_def completion_eval returns_lease_def)
  define c1 where "c1 = (fresh_system :: nat control_system)\<lparr>control := fresh_control\<lparr>submissions := 1\<rparr>, leases_held := 1\<rparr>"
  define s1 where "s1 = (fresh_handle :: nat handle_system)\<lparr>handle_control := c1,
     handle_runs := [(sample_completion, False, ?acc)]\<rparr>"
  define s4 where "s4 = s1\<lparr>handle_control := give_back False c1, handle_runs := [(sample_completion, False, r3)]\<rparr>"
  define c5 where "c5 = (give_back False c1)\<lparr>control := control (give_back False c1)\<lparr>closing := True\<rparr>\<rparr>"
  define c6 where "c6 = c5\<lparr>asked := Some 7, due_callbacks := [7]\<rparr>"
  note states = s1_def s4_def c1_def c5_def c6_def fresh_handle_def fresh_system_def fresh_control_def
    give_back_def release_count_def retired_def
  have "handle_step False fresh_handle s1"
    using handle_submit [of "fresh_handle :: nat handle_system" fresh_thread "control c1" fresh_thread False
        sample_completion False]
    by (simp add: states acquire_def)
  with handle_start have h1: "handle_reachable False s1" by (rule handle_next)
  have "handle_step False s1 (s1\<lparr>handle_runs := [(sample_completion, False, r1)]\<rparr>)"
    using handle_complete [OF _ _ _ r1, of 0 s1 sample_completion False] by (simp add: states returns_lease_def)
  with h1 have h2: "handle_reachable False (s1\<lparr>handle_runs := [(sample_completion, False, r1)]\<rparr>)" by (rule handle_next)
  have "handle_step False (s1\<lparr>handle_runs := [(sample_completion, False, r1)]\<rparr>) (s1\<lparr>handle_runs := [(sample_completion, False, r2)]\<rparr>)"
    using handle_complete [OF _ _ _ r2(1), of 0 "s1\<lparr>handle_runs := [(sample_completion, False, r1)]\<rparr>" sample_completion False] r2(2)
    by (simp add: states)
  with h2 have h3: "handle_reachable False (s1\<lparr>handle_runs := [(sample_completion, False, r2)]\<rparr>)" by (rule handle_next)
  have "handle_step False (s1\<lparr>handle_runs := [(sample_completion, False, r2)]\<rparr>) s4"
    using handle_complete [OF _ _ _ r3(1), of 0 "s1\<lparr>handle_runs := [(sample_completion, False, r2)]\<rparr>" sample_completion False] r3(2)
    by (simp add: s4_def s1_def)
  with h3 have h4: "handle_reachable False s4" by (rule handle_next)
  have no_lease: "leases_of [(sample_completion, False, r3)] = 0"
    using r3 by (auto simp: leases_of_def holds_lease_def action_release completion_release_def reset_lease_def Let_def)
  have "control_step (give_back False c1) c5"
    using step_close [of False "give_back False c1" fresh_thread MLN_STATUS_OK "control c5" fresh_thread]
    by (simp add: states begin_close_def)
  then have "handle_step False s4 (s4\<lparr>handle_control := c5\<rparr>)"
    by (intro handle_other) (simp_all add: s4_def no_lease)
  with h4 have h5: "handle_reachable False (s4\<lparr>handle_control := c5\<rparr>)" by (rule handle_next)
  have "control_step c5 c6"
    using step_ask [of c5 7 True "control c5"] by (simp add: states notify_when_drained_def)
  then have "handle_step False (s4\<lparr>handle_control := c5\<rparr>) (s4\<lparr>handle_control := c6\<rparr>)"
    using handle_other [of "s4\<lparr>handle_control := c5\<rparr>" c6] by (simp add: s4_def no_lease)
  with h5 have "handle_reachable False (s4\<lparr>handle_control := c6\<rparr>)" by (rule handle_next)
  then show ?thesis by (intro exI [of _ "s4\<lparr>handle_control := c6\<rparr>"]) (simp add: s4_def c6_def)
qed


end
