(* ===== verification/Executor.thy ===== *)
theory Executor
  imports Prelude "HOL-Library.Sublist"
begin

text \<open>
  The worker of a runtime (\<open>RuntimeExecutor\<close> in \<open>src/execution/runtime_executor.hpp\<close>,
  \<open>runtime_executor.cpp\<close>): work and notices that threads queue under its mutex, the drain they post to the
  run loop, the bursts the drain runs, and the ways the loop stops. The run loop is the environment: a FIFO of
  the closures posted to it. Each section under the mutex is one step, and so is each start and end
  of a task.
\<close>

section \<open>Queues\<close>

text \<open>A task is named by its identity. The intrusive list is the list of its nodes from first to last.\<close>

record executor_task =
  task_id :: nat
  command :: bool

definition queue_push :: "executor_task list \<Rightarrow> executor_task \<Rightarrow> executor_task list" where
  "queue_push q task = q @ [task]"

fun queue_pop :: "executor_task list \<Rightarrow> executor_task option \<times> executor_task list" where
  "queue_pop [] = (None, [])"
| "queue_pop (task # q) = (Some task, q)"

text \<open>The fields under the mutex. \<open>running_loop\<close> is \<open>run_loop() != nullptr\<close>.\<close>

record executor =
  running_loop :: bool
  stopping :: bool
  work_queue :: "executor_task list"
  notices :: "executor_task list"
  work_scheduled :: bool
  draining :: bool

text \<open>
  \<open>enqueue\<close>: \<open>None\<close> is the exception, of its own or of the loop when it cannot take the closure (\<open>posts\<close> is
  false); otherwise whether a drain was posted, and the new state.
\<close>

definition enqueue :: "bool \<Rightarrow> executor_task \<Rightarrow> bool \<Rightarrow> executor \<Rightarrow> (bool \<times> executor) option" where
  "enqueue posts task notice e =
     (if \<not> running_loop e \<or> stopping e then None
      else (let needs_drain = \<not> work_scheduled e \<and> (\<not> notice \<or> \<not> draining e);
                e1 = (if needs_drain then e\<lparr>work_scheduled := True\<rparr> else e);
                e2 = (if notice then e1\<lparr>notices := queue_push (notices e1) task\<rparr>
                      else e1\<lparr>work_queue := queue_push (work_queue e1) task\<rparr>)
            in if needs_drain \<and> \<not> posts then None else Some (needs_drain, e2)))"

text \<open>The first section of \<open>drain_work\<close>: the burst, and the state without it.\<close>

definition take_burst :: "executor \<Rightarrow> executor_task list \<times> executor" where
  "take_burst e = (work_queue e, e\<lparr>work_queue := [], work_scheduled := False, draining := True\<rparr>)"

definition end_drain :: "executor \<Rightarrow> executor" where
  "end_drain e = e\<lparr>draining := False\<rparr>"

text \<open>\<open>stop\<close>: whether it posts the closure that drains and stops the loop.\<close>

definition executor_stop :: "executor \<Rightarrow> bool \<times> executor" where
  "executor_stop e = (if running_loop e \<and> \<not> stopping e then (True, e\<lparr>stopping := True\<rparr>) else (False, e))"

definition executor_retire :: "executor \<Rightarrow> executor" where
  "executor_retire e = e\<lparr>stopping := True\<rparr>"

section \<open>The worker\<close>

text \<open>
  Where the worker is: waiting in the loop, about to take the next task of the burst, flushing notices before a
  task or at the end, running a task or a notice, or about to leave the drain.
\<close>

datatype worker_pc =
    At_loop
  | At_pop
  | Flushing "executor_task option"
  | Running executor_task
  | Running_notice executor_task "executor_task option"
  | At_end

datatype loop_closure = Drain | Drain_and_stop

record executor_run =
  shared :: executor
  burst :: "executor_task list"
  pc :: worker_pc
  stop_after :: bool
  posted :: "loop_closure list"
  loop_done :: bool
  retired_on :: bool
  accepted_work :: "executor_task list"
  accepted_notices :: "executor_task list"
  ran_work :: "executor_task list"
  ran_notices :: "executor_task list"

definition start_executor :: executor_run where
  "start_executor = \<lparr>shared = \<lparr>running_loop = True, stopping = False, work_queue = [], notices = [],
       work_scheduled = False, draining = False\<rparr>,
     burst = [], pc = At_loop, stop_after = False, posted = [], loop_done = False, retired_on = False,
     accepted_work = [], accepted_notices = [], ran_work = [], ran_notices = []\<rparr>"

text \<open>The next step of the worker, while the loop runs.\<close>

definition worker_step :: "executor_run \<Rightarrow> executor_run option" where
  "worker_step r = (case pc r of
     At_loop \<Rightarrow> (if loop_done r then None else case posted r of
         [] \<Rightarrow> None
       | closure # rest \<Rightarrow> (let (tasks, e) = take_burst (shared r)
           in Some (r\<lparr>shared := e, burst := tasks, posted := rest, stop_after := (closure = Drain_and_stop),
                pc := At_pop\<rparr>)))
   | At_pop \<Rightarrow> (case queue_pop (burst r) of
         (None, b) \<Rightarrow> Some (r\<lparr>burst := b, pc := Flushing None\<rparr>)
       | (Some task, b) \<Rightarrow> (if command task
            then Some (r\<lparr>burst := b, pc := Running task, ran_work := ran_work r @ [task]\<rparr>)
            else Some (r\<lparr>burst := b, pc := Flushing (Some task)\<rparr>)))
   | Flushing after \<Rightarrow> (case queue_pop (notices (shared r)) of
         (None, q) \<Rightarrow> (case after of
             None \<Rightarrow> Some (r\<lparr>pc := At_end\<rparr>)
           | Some task \<Rightarrow> Some (r\<lparr>pc := Running task, ran_work := ran_work r @ [task]\<rparr>))
       | (Some n, q) \<Rightarrow> Some (r\<lparr>shared := (shared r)\<lparr>notices := q\<rparr>, pc := Running_notice n after,
            ran_notices := ran_notices r @ [n]\<rparr>))
   | Running task \<Rightarrow> Some (r\<lparr>pc := At_pop\<rparr>)
   | Running_notice n after \<Rightarrow> Some (r\<lparr>pc := Flushing after\<rparr>)
   | At_end \<Rightarrow> Some (r\<lparr>shared := end_drain (shared r), pc := At_loop,
        loop_done := loop_done r \<or> stop_after r \<or> retired_on r\<rparr>))"

text \<open>
  The system. Any thread queues work and may stop the executor; notices come from the worker only
  (\<open>schedule_announcement\<close> in \<open>src/map/map.cpp\<close>), inside a task or in a callback of the loop, and so does
  \<open>retire\<close>, inside a task.
\<close>

definition on_worker :: "executor_run \<Rightarrow> bool" where
  "on_worker r \<longleftrightarrow> (case pc r of At_loop \<Rightarrow> \<not> loop_done r | Running _ \<Rightarrow> True | Running_notice _ _ \<Rightarrow> True | _ \<Rightarrow> False)"

inductive executor_step :: "executor_run \<Rightarrow> executor_run \<Rightarrow> bool" where
  step_work: "enqueue posts task False (shared r) = Some (drain, e) \<Longrightarrow>
     executor_step r (r\<lparr>shared := e, posted := posted r @ (if drain then [Drain] else []),
       accepted_work := accepted_work r @ [task]\<rparr>)"
| step_notice: "on_worker r \<Longrightarrow> enqueue posts task True (shared r) = Some (drain, e) \<Longrightarrow>
     executor_step r (r\<lparr>shared := e, posted := posted r @ (if drain then [Drain] else []),
       accepted_notices := accepted_notices r @ [task]\<rparr>)"
| step_stop: "executor_stop (shared r) = (posts, e) \<Longrightarrow>
     executor_step r (r\<lparr>shared := e, posted := posted r @ (if posts then [Drain_and_stop] else [])\<rparr>)"
| step_retire: "pc r = Running task \<Longrightarrow>
     executor_step r (r\<lparr>shared := executor_retire (shared r), retired_on := True\<rparr>)"
| step_worker: "worker_step r = Some r' \<Longrightarrow> executor_step r r'"

inductive executor_reachable :: "executor_run \<Rightarrow> bool" where
  executor_start: "executor_reachable start_executor"
| executor_next: "executor_reachable r \<Longrightarrow> executor_step r r' \<Longrightarrow> executor_reachable r'"

section \<open>The invariant\<close>

definition pending_task :: "worker_pc \<Rightarrow> executor_task list" where
  "pending_task p = (case p of Flushing (Some t) \<Rightarrow> [t] | Running_notice n (Some t) \<Rightarrow> [t] | _ \<Rightarrow> [])"

definition will_flush :: "worker_pc \<Rightarrow> bool" where
  "will_flush p \<longleftrightarrow> p \<noteq> At_loop \<and> p \<noteq> At_end"

definition executor_ok :: "executor_run \<Rightarrow> bool" where
  "executor_ok r \<longleftrightarrow>
     accepted_work r = ran_work r @ pending_task (pc r) @ burst r @ work_queue (shared r)
     \<and> accepted_notices r = ran_notices r @ notices (shared r)
     \<and> running_loop (shared r)
     \<and> (draining (shared r) \<longleftrightarrow> pc r \<noteq> At_loop)
     \<and> (pc r \<in> {At_loop, At_end, Flushing None} \<longrightarrow> burst r = [])
     \<and> (\<forall>n. pc r = Running_notice n None \<longrightarrow> burst r = [])
     \<and> (posted r = (if work_scheduled (shared r) then [Drain] else [])
        \<or> stopping (shared r) \<and> posted r = (if work_scheduled (shared r) then [Drain] else []) @ [Drain_and_stop])
     \<and> (work_queue (shared r) \<noteq> [] \<longrightarrow> work_scheduled (shared r))
     \<and> (notices (shared r) \<noteq> [] \<longrightarrow> work_scheduled (shared r) \<or> will_flush (pc r))
     \<and> (stop_after r \<longrightarrow> stopping (shared r) \<and> posted r = [] \<and> work_queue (shared r) = [])
     \<and> (retired_on r \<longrightarrow> stopping (shared r))
     \<and> (loop_done r \<longrightarrow> pc r = At_loop \<and> stopping (shared r) \<and> (stop_after r \<or> retired_on r))"

lemma worker_ok:
  assumes ok: "executor_ok r" and step: "worker_step r = Some r'"
  shows "executor_ok r'"
proof (cases "pc r")
  case At_loop
  with step obtain closure rest where "posted r = closure # rest" "\<not> loop_done r"
    and r': "r' = r\<lparr>shared := snd (take_burst (shared r)), burst := work_queue (shared r), posted := rest,
      stop_after := (closure = Drain_and_stop), pc := At_pop\<rparr>"
    by (auto simp: worker_step_def take_burst_def split: list.splits if_splits)
  with ok At_loop show ?thesis
    by (cases "work_scheduled (shared r)")
      (auto simp: executor_ok_def take_burst_def pending_task_def will_flush_def)
next
  case At_pop
  show ?thesis
  proof (cases "burst r")
    case Nil
    with At_pop step have "r' = r\<lparr>burst := [], pc := Flushing None\<rparr>" by (simp add: worker_step_def)
    with ok At_pop Nil show ?thesis by (auto simp: executor_ok_def pending_task_def will_flush_def)
  next
    case (Cons task b)
    with At_pop step have "r' = (if command task
        then r\<lparr>burst := b, pc := Running task, ran_work := ran_work r @ [task]\<rparr>
        else r\<lparr>burst := b, pc := Flushing (Some task)\<rparr>)"
      by (simp add: worker_step_def split: if_splits)
    with ok At_pop Cons show ?thesis by (auto simp: executor_ok_def pending_task_def will_flush_def)
  qed
next
  case (Flushing after)
  show ?thesis
  proof (cases "notices (shared r)")
    case Nil
    with Flushing step have "r' = (case after of None \<Rightarrow> r\<lparr>pc := At_end\<rparr>
        | Some task \<Rightarrow> r\<lparr>pc := Running task, ran_work := ran_work r @ [task]\<rparr>)"
      by (simp add: worker_step_def split: option.splits)
    with ok Flushing Nil show ?thesis
      by (cases after) (auto simp: executor_ok_def pending_task_def will_flush_def)
  next
    case (Cons n q)
    with Flushing step have "r' = r\<lparr>shared := (shared r)\<lparr>notices := q\<rparr>, pc := Running_notice n after,
            ran_notices := ran_notices r @ [n]\<rparr>"
      by (simp add: worker_step_def)
    with ok Flushing Cons show ?thesis
      by (cases after) (auto simp: executor_ok_def pending_task_def will_flush_def)
  qed
next
  case (Running task)
  with step have "r' = r\<lparr>pc := At_pop\<rparr>" by (simp add: worker_step_def)
  with ok Running show ?thesis by (auto simp: executor_ok_def pending_task_def will_flush_def)
next
  case (Running_notice n after)
  with step have "r' = r\<lparr>pc := Flushing after\<rparr>" by (simp add: worker_step_def)
  with ok Running_notice show ?thesis
    by (cases after) (auto simp: executor_ok_def pending_task_def will_flush_def)
next
  case At_end
  with step have "r' = r\<lparr>shared := end_drain (shared r), pc := At_loop,
        loop_done := loop_done r \<or> stop_after r \<or> retired_on r\<rparr>"
    by (simp add: worker_step_def)
  with ok At_end show ?thesis
    by (auto simp: executor_ok_def pending_task_def will_flush_def end_drain_def)
qed

lemma enqueue_cases:
  assumes "enqueue posts task notice e = Some (drain, e')"
  shows "running_loop e \<and> \<not> stopping e \<and> (drain \<longleftrightarrow> \<not> work_scheduled e \<and> (\<not> notice \<or> \<not> draining e))
    \<and> e' = (if notice then e\<lparr>work_scheduled := work_scheduled e \<or> drain, notices := notices e @ [task]\<rparr>
           else e\<lparr>work_scheduled := work_scheduled e \<or> drain, work_queue := work_queue e @ [task]\<rparr>)"
  using assms by (cases e) (auto simp: enqueue_def queue_push_def Let_def split: if_splits)

lemma executor_reachable_ok: "executor_reachable r \<Longrightarrow> executor_ok r"
proof (induction rule: executor_reachable.induct)
  case executor_start
  then show ?case by (simp add: executor_ok_def start_executor_def pending_task_def)
next
  case (executor_next r r')
  note ok = executor_next(3)
  from executor_next(2) show ?case
  proof (cases rule: executor_step.cases)
    case (step_work posts task drain e)
    from enqueue_cases [OF step_work(2)] have e: "\<not> stopping (shared r)" "drain \<longleftrightarrow> \<not> work_scheduled (shared r)"
      "e = (shared r)\<lparr>work_scheduled := True, work_queue := work_queue (shared r) @ [task]\<rparr>"
      by auto
    with ok show ?thesis by (cases "work_scheduled (shared r)") (simp_all add: executor_ok_def step_work(1))
  next
    case (step_notice posts task drain e)
    have on: "will_flush (pc r) \<or> pc r = At_loop"
      using step_notice(2) by (auto simp: on_worker_def will_flush_def split: worker_pc.splits)
    from ok have "draining (shared r) \<longleftrightarrow> pc r \<noteq> At_loop" by (simp add: executor_ok_def)
    with enqueue_cases [OF step_notice(3)] have e: "\<not> stopping (shared r)"
      "drain \<longleftrightarrow> \<not> work_scheduled (shared r) \<and> pc r = At_loop"
      "e = (shared r)\<lparr>work_scheduled := work_scheduled (shared r) \<or> drain, notices := notices (shared r) @ [task]\<rparr>"
      by auto
    with ok on show ?thesis
      by (cases "work_scheduled (shared r)"; cases "pc r = At_loop") (simp_all add: executor_ok_def step_notice(1))
  next
    case (step_stop posts e)
    from ok have "running_loop (shared r)" by (simp add: executor_ok_def)
    with step_stop(2) have e: "posts \<longleftrightarrow> \<not> stopping (shared r)" "e = (shared r)\<lparr>stopping := True\<rparr>"
      by (auto simp: executor_stop_def split: if_splits)
    with ok show ?thesis by (cases "stopping (shared r)") (simp_all add: executor_ok_def step_stop(1))
  next
    case (step_retire task)
    with ok show ?thesis by (auto simp: executor_ok_def step_retire(1) executor_retire_def)
  next
    case step_worker
    with ok show ?thesis by (rule worker_ok)
  qed
qed

section \<open>Nothing is lost, nothing is reordered\<close>

lemma idle_has_run:
  assumes ok: "executor_ok r" and idle: "pc r = At_loop" "posted r = []"
  shows "ran_work r = accepted_work r \<and> ran_notices r = accepted_notices r"
proof -
  have "\<not> work_scheduled (shared r)" using ok idle by (auto simp: executor_ok_def split: if_splits)
  with ok idle have "work_queue (shared r) = []" "notices (shared r) = []" "burst r = []"
    by (auto simp: executor_ok_def will_flush_def)
  with ok idle show ?thesis by (simp add: executor_ok_def pending_task_def)
qed

text \<open>
  C25: in every interleaving the tasks and the notices a runtime's worker starts are, each in its own
  order, a prefix of those it accepted. When the worker waits with nothing posted to the loop it has started
  all of them, at most one drain and one stop are ever posted, and once a stop (rather than a retirement) ended
  the loop it has also started everything it accepted and accepts nothing more.
\<close>

theorem executor_runs_in_order:
  assumes "executor_reachable r"
  shows "prefix (ran_work r) (accepted_work r) \<and> prefix (ran_notices r) (accepted_notices r)
    \<and> length (posted r) \<le> 2 \<and> distinct (posted r)
    \<and> (if pc r = At_loop \<and> posted r = []
       then ran_work r = accepted_work r \<and> ran_notices r = accepted_notices r else True)
    \<and> (if loop_done r \<and> \<not> retired_on r
       then ran_work r = accepted_work r \<and> ran_notices r = accepted_notices r
         \<and> (\<forall>posts task notice. enqueue posts task notice (shared r) = None) else True)"
proof -
  have ok: "executor_ok r" by (rule executor_reachable_ok [OF assms])
  have work: "accepted_work r = ran_work r @ pending_task (pc r) @ burst r @ work_queue (shared r)"
    "accepted_notices r = ran_notices r @ notices (shared r)"
    using ok by (simp_all add: executor_ok_def)
  note idle = idle_has_run [OF ok]
  have "ran_work r = accepted_work r \<and> ran_notices r = accepted_notices r
      \<and> (\<forall>posts task notice. enqueue posts task notice (shared r) = None)"
    if "loop_done r" "\<not> retired_on r"
  proof -
    from ok that have "pc r = At_loop" "posted r = []" "stopping (shared r)" by (auto simp: executor_ok_def)
    with idle show ?thesis by (simp add: enqueue_def)
  qed
  moreover have "posted r = (if work_scheduled (shared r) then [Drain] else [])
      \<or> posted r = (if work_scheduled (shared r) then [Drain] else []) @ [Drain_and_stop]"
    using ok unfolding executor_ok_def by blast
  then have "length (posted r) \<le> 2 \<and> distinct (posted r)"
    by (cases "work_scheduled (shared r)") auto
  moreover have "prefix (ran_work r) (accepted_work r)" "prefix (ran_notices r) (accepted_notices r)"
    unfolding work by simp_all
  ultimately show ?thesis using idle \<open>length (posted r) \<le> 2 \<and> distinct (posted r)\<close> by simp
qed

text \<open>The steps a worker still needs when nothing more is queued.\<close>

definition pc_weight :: "worker_pc \<Rightarrow> nat" where
  "pc_weight p = (case p of
     At_loop \<Rightarrow> 0 | At_end \<Rightarrow> 1 | Flushing None \<Rightarrow> 2 | Running_notice n None \<Rightarrow> 3 | At_pop \<Rightarrow> 3 | Running t \<Rightarrow> 4
   | Flushing (Some t) \<Rightarrow> 5 | Running_notice n (Some t) \<Rightarrow> 6)"

definition work_left :: "executor_run \<Rightarrow> nat" where
  "work_left r = 6 * length (posted r) + 4 * (length (work_queue (shared r)) + length (burst r))
     + 2 * length (notices (shared r)) + pc_weight (pc r)"

lemma worker_step_work_left: "executor_ok r \<Longrightarrow> worker_step r = Some r' \<Longrightarrow> work_left r' < work_left r"
proof (cases "pc r")
  case At_loop
  assume "executor_ok r" "worker_step r = Some r'"
  with At_loop show ?thesis
    by (auto simp: worker_step_def work_left_def take_burst_def pc_weight_def executor_ok_def split: list.splits if_splits)
next
  case At_pop
  assume "worker_step r = Some r'"
  with At_pop show ?thesis
    by (cases "burst r") (auto simp: worker_step_def work_left_def pc_weight_def split: if_splits)
next
  case (Flushing after)
  assume "worker_step r = Some r'"
  with Flushing show ?thesis
    by (cases "notices (shared r)"; cases after) (auto simp: worker_step_def work_left_def pc_weight_def)
next
  case (Running_notice n after)
  assume "worker_step r = Some r'"
  with Running_notice show ?thesis
    by (cases after) (auto simp: worker_step_def work_left_def pc_weight_def)
qed (auto simp: worker_step_def work_left_def pc_weight_def end_drain_def)

lemma worker_step_accepts:
  "worker_step r = Some r' \<Longrightarrow> accepted_work r' = accepted_work r \<and> accepted_notices r' = accepted_notices r"
proof (cases "pc r")
  case At_loop
  assume "worker_step r = Some r'"
  with At_loop show ?thesis by (auto simp: worker_step_def take_burst_def split: list.splits if_splits)
next
  case At_pop
  assume "worker_step r = Some r'"
  with At_pop show ?thesis by (cases "burst r") (auto simp: worker_step_def split: if_splits)
next
  case (Flushing after)
  assume "worker_step r = Some r'"
  with Flushing show ?thesis by (cases "notices (shared r)"; cases after) (auto simp: worker_step_def)
qed (auto simp: worker_step_def)

lemma stuck_worker:
  assumes "worker_step r = None"
  shows "pc r = At_loop \<and> (loop_done r \<or> posted r = [])"
proof (cases "pc r")
  case At_loop
  with assms show ?thesis by (auto simp: worker_step_def take_burst_def split: list.splits if_splits)
next
  case At_pop
  with assms show ?thesis by (cases "burst r") (auto simp: worker_step_def split: if_splits)
next
  case (Flushing after)
  with assms show ?thesis by (cases "notices (shared r)"; cases after) (auto simp: worker_step_def)
qed (use assms in \<open>auto simp: worker_step_def\<close>)

fun run_worker :: "nat \<Rightarrow> executor_run \<Rightarrow> executor_run" where
  "run_worker 0 r = r"
| "run_worker (Suc n) r = (case worker_step r of None \<Rightarrow> r | Some r' \<Rightarrow> run_worker n r')"

lemma run_worker_stuck:
  "executor_ok r \<Longrightarrow> work_left r \<le> n \<Longrightarrow>
     worker_step (run_worker n r) = None \<and> executor_ok (run_worker n r)
     \<and> accepted_work (run_worker n r) = accepted_work r \<and> accepted_notices (run_worker n r) = accepted_notices r"
proof (induction n arbitrary: r)
  case 0
  then have "worker_step r = None" using worker_step_work_left [of r] by (cases "worker_step r") auto
  with 0 show ?case by simp
next
  case (Suc n)
  show ?case
  proof (cases "worker_step r")
    case None
    with Suc.prems show ?thesis by simp
  next
    case (Some r')
    have "accepted_work r' = accepted_work r \<and> accepted_notices r' = accepted_notices r"
      by (rule worker_step_accepts [OF Some])
    with Some Suc.prems worker_step_work_left [of r r'] worker_ok [of r r'] Suc.IH [of r'] show ?thesis
      by simp
  qed
qed

text \<open>
  C26: a worker always finishes what it accepted: left alone, from any state, it is back in its loop after a
  bounded number of steps (at most six for each closure, four for each task and two for each notice, and six more),
  and unless it was retired it has started every task and every notice.
\<close>

theorem executor_finishes:
  assumes "executor_reachable r"
  shows "let n = 6 * length (posted r) + 4 * (length (work_queue (shared r)) + length (burst r))
        + 2 * length (notices (shared r)) + 6; r' = run_worker n r
    in pc r' = At_loop \<and> (retired_on r' \<or> ran_work r' = accepted_work r \<and> ran_notices r' = accepted_notices r)"
proof -
  let ?n = "6 * length (posted r) + 4 * (length (work_queue (shared r)) + length (burst r))
        + 2 * length (notices (shared r)) + 6"
  have ok: "executor_ok r" by (rule executor_reachable_ok [OF assms])
  have "work_left r \<le> ?n"
    by (auto simp: work_left_def pc_weight_def split: worker_pc.split option.split)
  from run_worker_stuck [OF ok this] have
    stuck: "worker_step (run_worker ?n r) = None" and ok': "executor_ok (run_worker ?n r)"
    and same: "accepted_work (run_worker ?n r) = accepted_work r" "accepted_notices (run_worker ?n r) = accepted_notices r"
    by blast+
  from stuck_worker [OF stuck] ok' have "pc (run_worker ?n r) = At_loop"
    "retired_on (run_worker ?n r) \<or> posted (run_worker ?n r) = []"
    by (auto simp: executor_ok_def)
  with idle_has_run [OF ok'] same show ?thesis by (auto simp: Let_def)
qed

text \<open>A worker with a command, a notice and a plain task queued from a loop callback.\<close>

lemma queued_run: "\<exists>r. executor_reachable r \<and> accepted_work r = [\<lparr>task_id = 1, command = True\<rparr>, \<lparr>task_id = 2, command = False\<rparr>]
    \<and> accepted_notices r = [\<lparr>task_id = 3, command = False\<rparr>] \<and> \<not> retired_on r \<and> posted r = [Drain] \<and> \<not> loop_done r"
proof -
  let ?t = "\<lambda>n c. \<lparr>task_id = n, command = c\<rparr>"
  let ?e = "\<lambda>w n. \<lparr>running_loop = True, stopping = False, work_queue = w, notices = n, work_scheduled = True, draining = False\<rparr>"
  define r1 where "r1 = start_executor\<lparr>shared := ?e [?t 1 True] [], posted := [Drain], accepted_work := [?t 1 True]\<rparr>"
  define r2 where "r2 = r1\<lparr>shared := ?e [?t 1 True] [?t 3 False], accepted_notices := [?t 3 False]\<rparr>"
  define r3 where "r3 = r2\<lparr>shared := ?e [?t 1 True, ?t 2 False] [?t 3 False], accepted_work := [?t 1 True, ?t 2 False]\<rparr>"
  have "executor_step start_executor r1"
    using step_work [of True "?t 1 True" start_executor True "shared r1"]
    by (simp add: start_executor_def r1_def enqueue_def queue_push_def)
  with executor_start have "executor_reachable r1" by (rule executor_next)
  moreover have "executor_step r1 r2"
    using step_notice [of r1 True "?t 3 False" False "shared r2"]
    by (simp add: start_executor_def r1_def r2_def enqueue_def queue_push_def on_worker_def)
  ultimately have "executor_reachable r2" by (rule executor_next)
  moreover have "executor_step r2 r3"
    using step_work [of True "?t 2 False" r2 False "shared r3"]
    by (simp add: start_executor_def r1_def r2_def r3_def enqueue_def queue_push_def)
  ultimately have "executor_reachable r3" by (rule executor_next)
  then show ?thesis
    by (intro exI [of _ r3]) (simp add: start_executor_def r1_def r2_def r3_def)
qed

theorem executor_runs_in_order_witness:
  "\<exists>r. executor_reachable r \<and> length (accepted_work r) = 2 \<and> prefix (ran_work r) (accepted_work r)"
  using queued_run executor_runs_in_order by (metis length_Cons list.size(3) numeral_2_eq_2)

theorem executor_finishes_witness:
  "\<exists>r n. executor_reachable r \<and> length (accepted_work r) = 2 \<and> pc (run_worker n r) = At_loop"
proof -
  obtain r where r: "executor_reachable r" "length (accepted_work r) = 2" using queued_run by fastforce
  with executor_finishes [OF r(1)] show ?thesis unfolding Let_def by blast
qed

end
