(* ===== verification/Wakes.thy ===== *)
theory Wakes
  imports Delivery
begin

text \<open>
  Host wakes (\<open>src/wake/wake.hpp\<close>, \<open>wake.cpp\<close>): the validation of a descriptor, the wake object, and its life
  in every interleaving of the threads that notify it, its owner, and the queue it may name. A notify
  is the sequence of its atomic actions, and so is the destructor, which waits for the notifies
  under way. \<open>process_exiting()\<close> is a flag that any step may set.
\<close>

section \<open>Validation\<close>

text \<open>An object of the queues' table is the number of the queue's state.\<close>

definition resolve_delivery_queue ::
    "nat handle_table \<Rightarrow> u64 \<Rightarrow> thread_locals \<Rightarrow> nat option \<times> thread_locals" where
  "resolve_delivery_queue table queue t = lease Kind_DeliveryQueue table queue t"

text \<open>The result: the status, the queue the wake names, and the thread.\<close>

definition resolve_wake ::
    "nat handle_table \<Rightarrow> mln_wake option \<Rightarrow> thread_locals \<Rightarrow> mln_status \<times> nat option \<times> thread_locals" where
  "resolve_wake table wake t = (case wake of
     None \<Rightarrow> (MLN_STATUS_INVALID_ARGUMENT, None, error_text ''wake must not be null'' t)
   | Some w \<Rightarrow>
       if wake_callback w = 0 then
         if wake_release_user_data w \<noteq> 0
         then (MLN_STATUS_INVALID_ARGUMENT, None, error_text ''a disabled wake must not retain user data'' t)
         else if wake_queue w \<noteq> 0
         then (MLN_STATUS_INVALID_ARGUMENT, None, error_text ''a disabled wake must not name a queue'' t)
         else (MLN_STATUS_OK, None, t)
       else if wake_queue w = 0 then (MLN_STATUS_OK, None, t)
       else (case resolve_delivery_queue table (wake_queue w) t of
           (None, t') \<Rightarrow> (recorded_fault_status t', None, t')
         | (Some q, t') \<Rightarrow> (MLN_STATUS_OK, Some q, t')))"

section \<open>The object\<close>

definition no_wake :: mln_wake where
  "no_wake = \<lparr>wake_callback = 0, wake_user_data = 0, wake_release_user_data = 0, wake_queue = 0\<rparr>"

text \<open>\<open>queued\<close> says whether the wake has a queue, \<open>has_release_call\<close> whether its release call was made.\<close>

record wake_object =
  wake_descriptor :: mln_wake
  queued :: bool
  call_pending :: bool
  has_release_call :: bool
  held :: "nat option"
  in_flight :: nat
  accepted :: bool
  wake_closing :: bool

definition make_wake_call :: "ptr \<Rightarrow> ptr \<Rightarrow> 'a delivery_item" where
  "make_wake_call callback user_data = \<lparr>item_user_data = user_data, item_invoke = Invoke_wake 0,
     item_callback = callback, item_release = 0, item_discards = False, item_taken = False,
     item_last_call = False\<rparr>"

text \<open>The constructor, with the node its hold would use and the queue, which is of no account for a wake that names none.\<close>

definition construct_wake ::
    "mln_wake \<Rightarrow> bool \<Rightarrow> nat \<Rightarrow> 'a delivery_queue \<Rightarrow> wake_object \<times> 'a delivery_queue" where
  "construct_wake d has_queue node q =
     (let w = \<lparr>wake_descriptor = d, queued = has_queue, call_pending = False, has_release_call = False,
        held = None, in_flight = 0, accepted = False, wake_closing = False\<rparr>
      in if has_queue \<and> wake_release_user_data d \<noteq> 0
         then (case hold_user_data node (wake_user_data d) q of
             (hold, q') \<Rightarrow> (w\<lparr>has_release_call := True, held := hold\<rparr>, q'))
         else (w, q))"

definition accept_wake :: "wake_object \<Rightarrow> wake_object" where
  "accept_wake w = w\<lparr>accepted := True\<rparr>"

definition reject_wake :: "wake_object \<Rightarrow> wake_object" where
  "reject_wake w = w\<lparr>wake_closing := True, wake_descriptor := no_wake\<rparr>"

definition close_wake :: "wake_object \<Rightarrow> wake_object" where
  "close_wake w = w\<lparr>wake_closing := True\<rparr>"

section \<open>The threads\<close>

text \<open>
  Where a notify that passed the guard stands: before it calls or claims the pending flag, with the flag
  claimed, with a push that failed, and before it leaves.
\<close>

datatype notifier = Inside ptr ptr | Pushing ptr ptr | Push_failed | Leaving

text \<open>Where the destructor stands; a settling one holds its copies of the descriptor and of \<open>accepted\<close>.\<close>

datatype destruction = Alive | Waiting | Settling mln_wake bool | Destroyed

text \<open>The call the queue's dispatch runs, before and after the pending flag is cleared.\<close>

datatype 'a running = No_call | Taken "'a delivery_item" | Cleared "'a delivery_item"

datatype wake_event = Wake_called ptr ptr | Wake_released ptr ptr

record 'a wake_system =
  ws_given :: mln_wake
  ws_wake :: wake_object
  ws_queue :: "'a delivery_queue"
  ws_exiting :: bool
  ws_notifiers :: "notifier list"
  ws_destruction :: destruction
  ws_running :: "'a running"
  ws_log :: "wake_event list"

definition start_wake :: "mln_wake \<Rightarrow> bool \<Rightarrow> nat \<Rightarrow> 'a delivery_queue \<Rightarrow> 'a wake_system" where
  "start_wake d has_queue node q = (case construct_wake d has_queue node q of (w, q') \<Rightarrow>
     \<lparr>ws_given = d, ws_wake = w, ws_queue = q', ws_exiting = False, ws_notifiers = [],
      ws_destruction = Alive, ws_running = No_call, ws_log = []\<rparr>)"

text \<open>The first lock of \<open>notify\<close>; \<open>None\<close> is its early return.\<close>

definition notify_enter :: "'a wake_system \<Rightarrow> 'a wake_system option" where
  "notify_enter s = (let w = ws_wake s; d = wake_descriptor w in
     if \<not> accepted w \<or> wake_closing w \<or> wake_callback d = 0 \<or> ws_exiting s then None
     else Some (s\<lparr>ws_wake := w\<lparr>in_flight := in_flight w + 1\<rparr>,
       ws_notifiers := ws_notifiers s @ [Inside (wake_callback d) (wake_user_data d)]\<rparr>))"

text \<open>
  The next action of a notify; \<open>throws\<close> says that making its call throws. The result is where it
  stands then, \<open>None\<close> once it has returned.
\<close>

definition notifier_action :: "bool \<Rightarrow> notifier \<Rightarrow> 'a wake_system \<Rightarrow> notifier option \<times> 'a wake_system" where
  "notifier_action throws n s = (let w = ws_wake s in case n of
     Inside callback user_data \<Rightarrow>
       if queued w then
         if call_pending w then (Some Leaving, s)
         else (Some (Pushing callback user_data), s\<lparr>ws_wake := w\<lparr>call_pending := True\<rparr>\<rparr>)
       else (Some Leaving, s\<lparr>ws_log := ws_log s @ [Wake_called callback user_data]\<rparr>)
   | Pushing callback user_data \<Rightarrow>
       if throws then (Some Push_failed, s)
       else (case push (ws_exiting s) (make_wake_call callback user_data) (ws_queue s) of
           (True, effects, q) \<Rightarrow> (Some Leaving, s\<lparr>ws_queue := q\<rparr>)
         | (False, effects, q) \<Rightarrow> (Some Push_failed, s\<lparr>ws_queue := q\<rparr>))
   | Push_failed \<Rightarrow> (Some Leaving, s\<lparr>ws_wake := w\<lparr>call_pending := False\<rparr>\<rparr>)
   | Leaving \<Rightarrow> (None, s\<lparr>ws_wake := w\<lparr>in_flight := in_flight w - 1\<rparr>\<rparr>))"

text \<open>The destructor after its lock: the release, or the destruction of the hold with the object.\<close>

definition settle_wake :: "mln_wake \<Rightarrow> bool \<Rightarrow> 'a wake_system \<Rightarrow> 'a wake_system" where
  "settle_wake d was_accepted s = (let w = ws_wake s in
     if \<not> was_accepted \<or> wake_release_user_data d = 0 \<or> ws_exiting s
     then s\<lparr>ws_queue := reset_hold (held w) (ws_queue s), ws_destruction := Destroyed\<rparr>
     else if queued w then
       (case push_held (ws_exiting s) (make_release_call (wake_user_data d) (wake_release_user_data d))
               (held w) (ws_queue s) of
         (pushed, effects, q) \<Rightarrow> s\<lparr>ws_queue := (if pushed then q else reset_hold (held w) q),
           ws_destruction := Destroyed\<rparr>)
     else s\<lparr>ws_log := ws_log s @ [Wake_released (wake_release_user_data d) (wake_user_data d)],
            ws_destruction := Destroyed\<rparr>)"

text \<open>Whether a call in the queue belongs to the wake: no other registration has its user data.\<close>

definition own_call :: "'a wake_system \<Rightarrow> 'a delivery_item \<Rightarrow> bool" where
  "own_call s item \<longleftrightarrow> queued (ws_wake s) \<and> item_user_data item = wake_user_data (ws_given s)"

text \<open>The two parts of running a call: the flag its invocation clears first, and the host's callbacks.\<close>

definition clear_pending :: "'a delivery_item \<Rightarrow> 'a wake_system \<Rightarrow> 'a wake_system" where
  "clear_pending item s =
     (if own_call s item \<and> item_invoke item \<noteq> No_invoke
      then s\<lparr>ws_wake := (ws_wake s)\<lparr>call_pending := False\<rparr>\<rparr> else s)"

definition call_events :: "'a wake_system \<Rightarrow> 'a delivery_item \<Rightarrow> wake_event list" where
  "call_events s item =
     (if own_call s item
      then (if item_invoke item \<noteq> No_invoke then [Wake_called (item_callback item) (item_user_data item)] else [])
        @ (if item_release item \<noteq> 0 then [Wake_released (item_release item) (item_user_data item)] else [])
      else [])"

inductive wake_step :: "'a wake_system \<Rightarrow> 'a wake_system \<Rightarrow> bool" where
  wake_notify: "notify_enter s = Some s' \<Longrightarrow> wake_step s s'"
| wake_notifier: "ws_notifiers s = ns1 @ n # ns2 \<Longrightarrow> notifier_action throws n s = (n', s') \<Longrightarrow>
     wake_step s (s'\<lparr>ws_notifiers := ns1 @ (case n' of None \<Rightarrow> [] | Some m \<Rightarrow> [m]) @ ns2\<rparr>)"
| wake_accept: "ws_destruction s = Alive \<Longrightarrow> wake_descriptor (ws_wake s) = ws_given s \<Longrightarrow>
     wake_step s (s\<lparr>ws_wake := accept_wake (ws_wake s)\<rparr>)"
| wake_reject: "ws_destruction s = Alive \<Longrightarrow> \<not> accepted (ws_wake s) \<Longrightarrow>
     wake_step s (s\<lparr>ws_wake := reject_wake (ws_wake s)\<rparr>)"
| wake_close: "ws_destruction s = Alive \<Longrightarrow> wake_step s (s\<lparr>ws_wake := close_wake (ws_wake s)\<rparr>)"
| wake_destroy: "ws_destruction s = Alive \<Longrightarrow>
     wake_step s (s\<lparr>ws_wake := (ws_wake s)\<lparr>wake_closing := True\<rparr>, ws_destruction := Waiting\<rparr>)"
| wake_waited: "ws_destruction s = Waiting \<Longrightarrow> in_flight (ws_wake s) = 0 \<Longrightarrow>
     wake_step s (s\<lparr>ws_destruction := Settling (wake_descriptor (ws_wake s)) (accepted (ws_wake s)),
       ws_wake := (ws_wake s)\<lparr>wake_descriptor := no_wake\<rparr>\<rparr>)"
| wake_settle: "ws_destruction s = Settling d was_accepted \<Longrightarrow> wake_step s (settle_wake d was_accepted s)"
| wake_exit: "wake_step s (s\<lparr>ws_exiting := True\<rparr>)"
| queue_push: "\<not> own_call s item \<Longrightarrow> push (ws_exiting s) item (ws_queue s) = (pushed, effects, q) \<Longrightarrow>
     wake_step s (s\<lparr>ws_queue := q\<rparr>)"
| queue_event: "user_data \<noteq> wake_user_data (ws_given s) \<Longrightarrow>
     push_event (ws_exiting s) event user_data callback (ws_queue s) = Some (effects, q) \<Longrightarrow>
     wake_step s (s\<lparr>ws_queue := q\<rparr>)"
| queue_close: "wake_step s (s\<lparr>ws_queue := snd (close_queue (ws_exiting s) (ws_queue s))\<rparr>)"
| queue_take: "ws_running s = No_call \<Longrightarrow> queue_running (ws_queue s) = [] \<Longrightarrow>
     wake_step s (s\<lparr>ws_queue := snd (take_calls (ws_exiting s) (ws_queue s))\<rparr>)"
| queue_next: "ws_running s = No_call \<Longrightarrow> next_call (ws_exiting s) (ws_queue s) = (item, q) \<Longrightarrow>
     wake_step s (s\<lparr>ws_queue := q, ws_running := (case item of None \<Rightarrow> No_call | Some i \<Rightarrow> Taken i)\<rparr>)"
| queue_invoke: "ws_running s = Taken item \<Longrightarrow>
     wake_step s (clear_pending item s\<lparr>ws_running := Cleared item\<rparr>)"
| queue_ran: "ws_running s = Cleared item \<Longrightarrow>
     wake_step s (s\<lparr>ws_log := ws_log s @ call_events s item, ws_running := No_call\<rparr>)"

inductive wake_reachable :: "'a wake_system \<Rightarrow> bool" where
  wake_start: "list_all (\<lambda>i. item_user_data i \<noteq> wake_user_data d) (queue_running q @ queue_calls q) \<Longrightarrow>
     wake_reachable (start_wake d has_queue node q)"
| wake_next: "wake_reachable s \<Longrightarrow> wake_step s s' \<Longrightarrow> wake_reachable s'"

section \<open>What the queue holds of a wake\<close>

definition own_queue :: "bool \<Rightarrow> ptr \<Rightarrow> 'a delivery_queue \<Rightarrow> 'a delivery_item list" where
  "own_queue b user_data q =
     filter (\<lambda>i. b \<and> item_user_data i = user_data) (queue_running q @ queue_calls q)"

lemma push_own:
  assumes "push exiting item q = (pushed, effects, q')"
  shows "pushed = (exiting \<or> \<not> queue_closed q)" and "queue_closed q' = queue_closed q"
    and "own_queue b u q' = own_queue b u q
      @ (if \<not> exiting \<and> \<not> queue_closed q \<and> b \<and> item_user_data item = u then [item] else [])"
  using assms by (auto simp: push_def append_item_def own_queue_def Let_def split: if_splits)

lemma reset_hold_own [simp]:
  "queue_closed (reset_hold h q) = queue_closed q" "own_queue b u (reset_hold h q) = own_queue b u q"
  by (simp_all add: reset_hold_def withdraw_def own_queue_def split: option.split)

lemma push_held_own:
  assumes "push_held exiting item hold q = (pushed, effects, q')"
  shows "pushed = (exiting \<or> \<not> queue_closed q)" and "queue_closed q' = queue_closed q"
    and "own_queue b u q' = own_queue b u q
      @ (if \<not> exiting \<and> \<not> queue_closed q \<and> b \<and> item_user_data item = u
         then [if hold = None then item else item\<lparr>item_last_call := True\<rparr>] else [])"
  using assms
  by (auto simp: push_held_def reset_hold_def withdraw_def append_item_def own_queue_def Let_def
      split: if_splits option.splits)

lemma push_event_own:
  assumes "push_event exiting event user_data callback q = Some (effects, q')" "user_data \<noteq> u"
  shows "queue_closed q' = queue_closed q" and "own_queue b u q' = own_queue b u q"
proof -
  have last: "item_user_data (last calls) = user_data" if "tail_span user_data callback calls = Some batch"
    for calls :: "'a delivery_item list" and batch
    using that by (auto simp: tail_span_def split: if_splits invocation.splits)
  have drop_last: "filter (\<lambda>i. b \<and> item_user_data i = u) calls
      = filter (\<lambda>i. b \<and> item_user_data i = u) (butlast calls)"
    if "tail_span user_data callback calls = Some batch" for calls :: "'a delivery_item list" and batch
  proof -
    from that have "calls \<noteq> []" by (auto simp: tail_span_def)
    then have "calls = butlast calls @ [last calls]" by simp
    then have "filter (\<lambda>i. b \<and> item_user_data i = u) calls
        = filter (\<lambda>i. b \<and> item_user_data i = u) (butlast calls @ [last calls])" by simp
    with last [OF that] assms(2) show ?thesis by simp
  qed
  show "queue_closed q' = queue_closed q" "own_queue b u q' = own_queue b u q"
    using assms drop_last
    by (auto simp: push_event_def own_queue_def make_event_call_def last split: if_splits option.splits)
qed

lemma close_queue_own:
  "queue_closed (snd (close_queue exiting q))" "own_queue b u (snd (close_queue exiting q)) = []"
  by (simp_all add: close_queue_def own_queue_def Let_def)

lemma take_calls_own:
  assumes "queue_running q = []"
  shows "queue_closed (snd (take_calls exiting q)) = queue_closed q"
    and "own_queue b u (snd (take_calls exiting q)) = own_queue b u q"
  using assms by (simp_all add: take_calls_def own_queue_def)

lemma next_call_own:
  assumes "next_call exiting q = (item, q')"
  shows "queue_closed q' = queue_closed q"
    and "item = None \<Longrightarrow> own_queue b u q' = own_queue b u q \<or> exiting \<and> (\<exists>gone. own_queue b u q = gone @ own_queue b u q')"
    and "item = Some i \<Longrightarrow> own_queue b u q = (if b \<and> item_user_data i = u then [i] else []) @ own_queue b u q'"
  using assms by (auto simp: next_call_def own_queue_def neq_Nil_conv split: if_splits)

lemma hold_user_data_own:
  "queue_closed (snd (hold_user_data node user_data q)) = queue_closed q"
  "own_queue b u (snd (hold_user_data node user_data q)) = own_queue b u q"
  by (simp_all add: hold_user_data_def own_queue_def)

section \<open>The invariant\<close>

definition is_wake_call :: "'a delivery_item \<Rightarrow> bool" where
  "is_wake_call item \<longleftrightarrow> item_invoke item \<noteq> No_invoke"

primrec claims :: "notifier \<Rightarrow> bool" where
  "claims (Inside callback user_data) = False"
| "claims (Pushing callback user_data) = True"
| "claims Push_failed = True"
| "claims Leaving = False"

primrec is_release :: "wake_event \<Rightarrow> bool" where
  "is_release (Wake_called callback user_data) = False"
| "is_release (Wake_released release user_data) = True"

primrec settled :: "destruction \<Rightarrow> bool" where
  "settled Alive = False"
| "settled Waiting = False"
| "settled (Settling d was_accepted) = True"
| "settled Destroyed = True"

primrec notifier_ok :: "mln_wake \<Rightarrow> bool \<Rightarrow> notifier \<Rightarrow> bool" where
  "notifier_ok g q (Inside callback user_data) = (callback = wake_callback g \<and> user_data = wake_user_data g)"
| "notifier_ok g q (Pushing callback user_data) =
     (callback = wake_callback g \<and> user_data = wake_user_data g \<and> q)"
| "notifier_ok g q Push_failed = q"
| "notifier_ok g q Leaving = True"

text \<open>The wake's calls whose flag is not cleared yet, and those not finished yet, in their order.\<close>

definition waiting_calls :: "'a wake_system \<Rightarrow> 'a delivery_item list" where
  "waiting_calls s = (case ws_running s of Taken i \<Rightarrow> filter (own_call s) [i] | _ \<Rightarrow> [])
     @ own_queue (queued (ws_wake s)) (wake_user_data (ws_given s)) (ws_queue s)"

definition unfinished_calls :: "'a wake_system \<Rightarrow> 'a delivery_item list" where
  "unfinished_calls s = (case ws_running s of Cleared i \<Rightarrow> filter (own_call s) [i] | _ \<Rightarrow> []) @ waiting_calls s"

definition claim_count :: "'a wake_system \<Rightarrow> nat" where
  "claim_count s = length (filter claims (ws_notifiers s)) + length (filter is_wake_call (waiting_calls s))"

definition flight_ok :: "'a wake_system \<Rightarrow> bool" where
  "flight_ok s \<longleftrightarrow> (let w = ws_wake s; g = ws_given s in
     in_flight w = length (ws_notifiers s)
     \<and> list_all (notifier_ok g (queued w)) (ws_notifiers s)
     \<and> (wake_descriptor w = g \<or> wake_descriptor w = no_wake \<and> wake_closing w)
     \<and> (\<not> accepted w \<longrightarrow> ws_notifiers s = [])
     \<and> (ws_destruction s \<noteq> Alive \<longrightarrow> wake_closing w)
     \<and> (settled (ws_destruction s) \<longrightarrow> ws_notifiers s = [])
     \<and> (\<forall>d a. ws_destruction s = Settling d a \<longrightarrow> a = accepted w \<and> (d = g \<or> d = no_wake \<and> \<not> a))
     \<and> (accepted w \<and> \<not> settled (ws_destruction s) \<longrightarrow> wake_descriptor w = g))"

definition pending_ok :: "'a wake_system \<Rightarrow> bool" where
  "pending_ok s \<longleftrightarrow> claim_count s \<le> 1
     \<and> (claim_count s = 1 \<longrightarrow> call_pending (ws_wake s))
     \<and> (call_pending (ws_wake s) \<and> \<not> queue_closed (ws_queue s) \<and> \<not> ws_exiting s \<longrightarrow> claim_count s = 1)"

definition call_ok :: "mln_wake \<Rightarrow> 'a delivery_item \<Rightarrow> bool" where
  "call_ok g i \<longleftrightarrow> item_user_data i = wake_user_data g
     \<and> (if is_wake_call i then item_callback i = wake_callback g \<and> item_release i = 0
        else item_release i = wake_release_user_data g \<and> item_release i \<noteq> 0)"

definition event_ok :: "mln_wake \<Rightarrow> wake_event \<Rightarrow> bool" where
  "event_ok g e \<longleftrightarrow> e = Wake_called (wake_callback g) (wake_user_data g)
     \<or> e = Wake_released (wake_release_user_data g) (wake_user_data g) \<and> wake_release_user_data g \<noteq> 0"

definition release_order :: "'a wake_system \<Rightarrow> bool list" where
  "release_order s = map is_release (ws_log s) @ map (Not \<circ> is_wake_call) (unfinished_calls s)"

definition release_due :: "'a wake_system \<Rightarrow> bool" where
  "release_due s \<longleftrightarrow> accepted (ws_wake s) \<and> wake_release_user_data (ws_given s) \<noteq> 0 \<and> \<not> ws_exiting s
     \<and> (queued (ws_wake s) \<longrightarrow> \<not> queue_closed (ws_queue s))"

definition order_ok :: "'a wake_system \<Rightarrow> bool" where
  "order_ok s \<longleftrightarrow> list_all (event_ok (ws_given s)) (ws_log s)
     \<and> list_all (call_ok (ws_given s)) (unfinished_calls s)
     \<and> True \<notin> set (butlast (release_order s))
     \<and> (True \<in> set (release_order s) \<longrightarrow> ws_destruction s = Destroyed)
     \<and> (\<not> accepted (ws_wake s) \<longrightarrow> release_order s = [])
     \<and> (ws_destruction s = Destroyed \<and> release_due s \<longrightarrow> True \<in> set (release_order s))"

definition wake_ok :: "'a wake_system \<Rightarrow> bool" where
  "wake_ok s \<longleftrightarrow> flight_ok s \<and> pending_ok s \<and> order_ok s"

text \<open>What a step has to show of each part when it leaves the others alone.\<close>

definition same_calls :: "'a wake_system \<Rightarrow> 'a wake_system \<Rightarrow> bool" where
  "same_calls s s' \<longleftrightarrow> ws_given s' = ws_given s \<and> queued (ws_wake s') = queued (ws_wake s)
     \<and> ws_running s' = ws_running s \<and> queue_closed (ws_queue s') = queue_closed (ws_queue s)
     \<and> own_queue (queued (ws_wake s)) (wake_user_data (ws_given s)) (ws_queue s')
       = own_queue (queued (ws_wake s)) (wake_user_data (ws_given s)) (ws_queue s)"

lemma same_calls_eq:
  assumes "same_calls s s'"
  shows "waiting_calls s' = waiting_calls s" "unfinished_calls s' = unfinished_calls s"
  using assms by (auto simp: same_calls_def waiting_calls_def unfinished_calls_def own_call_def split: running.split)

lemma pending_keep:
  assumes "pending_ok s" "same_calls s s'" "call_pending (ws_wake s') = call_pending (ws_wake s)"
    "length (filter claims (ws_notifiers s')) = length (filter claims (ws_notifiers s))"
    "ws_exiting s \<Longrightarrow> ws_exiting s'"
  shows "pending_ok s'"
  using assms same_calls_eq [OF assms(2)] by (auto simp: pending_ok_def claim_count_def same_calls_def)

lemma order_keep:
  assumes "order_ok s" "same_calls s s'" "ws_log s' = ws_log s"
    "accepted (ws_wake s) \<Longrightarrow> accepted (ws_wake s')"
    "ws_destruction s = Destroyed \<Longrightarrow> ws_destruction s' = Destroyed"
    "ws_destruction s' = Destroyed \<Longrightarrow>
       ws_destruction s = Destroyed \<and> accepted (ws_wake s') = accepted (ws_wake s) \<or> \<not> release_due s'"
    "ws_exiting s \<Longrightarrow> ws_exiting s'"
  shows "order_ok s'"
  using assms same_calls_eq [OF assms(2)]
  by (auto simp: order_ok_def release_order_def same_calls_def release_due_def)

lemma butlast_drop_middle: "x \<notin> set (butlast (xs @ ys @ zs)) \<Longrightarrow> x \<notin> set (butlast (xs @ zs))"
  by (auto simp: butlast_append split: if_splits dest: in_set_butlastD)

lemma order_drop:
  assumes "order_ok s" "unfinished_calls s = kept @ gone @ rest" "unfinished_calls s' = kept @ rest"
    "ws_given s' = ws_given s" "ws_log s' = ws_log s" "accepted (ws_wake s') = accepted (ws_wake s)"
    "ws_destruction s' = ws_destruction s" "release_due s' \<Longrightarrow> gone = [] \<and> release_due s"
  shows "order_ok s'"
  using assms butlast_drop_middle [of True "map is_release (ws_log s) @ map (Not \<circ> is_wake_call) kept"
    "map (Not \<circ> is_wake_call) gone" "map (Not \<circ> is_wake_call) rest"]
  by (auto simp: order_ok_def release_order_def)

lemma start_wake_ok:
  assumes "list_all (\<lambda>i. item_user_data i \<noteq> wake_user_data d) (queue_running q @ queue_calls q)"
  shows "wake_ok (start_wake d has_queue node q)"
proof -
  have none: "own_queue b (wake_user_data d) q = []" for b
    using assms by (auto simp: own_queue_def list_all_iff filter_empty_conv)
  show ?thesis
    using hold_user_data_own(1) [of node "wake_user_data d" q]
      hold_user_data_own(2) [of _ "wake_user_data d" node "wake_user_data d" q] none
    by (auto simp: wake_ok_def flight_ok_def pending_ok_def order_ok_def claim_count_def release_order_def
        unfinished_calls_def waiting_calls_def start_wake_def construct_wake_def Let_def split: prod.splits)
qed

lemma notify_enter_ok:
  assumes "wake_ok s" "notify_enter s = Some s'"
  shows "wake_ok s'"
proof -
  have "flight_ok s'"
    using assms by (auto simp: wake_ok_def flight_ok_def notify_enter_def Let_def split: if_splits destruction.splits)
  moreover from assms(2) obtain w ns where s': "s' = s\<lparr>ws_wake := w, ws_notifiers := ns\<rparr>"
    and keep: "same_calls s s'" "call_pending w = call_pending (ws_wake s)" "accepted w" "accepted (ws_wake s)"
      "length (filter claims ns) = length (filter claims (ws_notifiers s))"
    by (auto simp: notify_enter_def Let_def same_calls_def split: if_splits)
  moreover have "pending_ok s'"
    by (rule pending_keep [of s]) (use assms(1) s' keep in \<open>simp_all add: wake_ok_def\<close>)
  moreover have "order_ok s'"
    by (rule order_keep [of s]) (use assms(1) s' keep in \<open>simp_all add: wake_ok_def\<close>)
  ultimately show ?thesis by (simp add: wake_ok_def)
qed

lemma notifier_action_parts:
  assumes "notifier_action throws n s = (n', s')"
  shows "ws_given s' = ws_given s" "ws_destruction s' = ws_destruction s" "ws_exiting s' = ws_exiting s"
    "ws_notifiers s' = ws_notifiers s" "ws_running s' = ws_running s"
    "queued (ws_wake s') = queued (ws_wake s)" "accepted (ws_wake s') = accepted (ws_wake s)"
    "wake_closing (ws_wake s') = wake_closing (ws_wake s)"
    "wake_descriptor (ws_wake s') = wake_descriptor (ws_wake s)"
    "in_flight (ws_wake s') = (if n' = None then in_flight (ws_wake s) - 1 else in_flight (ws_wake s))"
    "notifier_ok g (queued (ws_wake s)) n \<Longrightarrow> n' = Some m \<Longrightarrow> notifier_ok g (queued (ws_wake s)) m"
  using assms
  by (cases n; auto simp: notifier_action_def Let_def split: if_splits prod.splits bool.splits)+

lemma notifier_flight:
  assumes ok: "flight_ok s" "ws_notifiers s = ns1 @ n # ns2" "notifier_action throws n s = (n', s')"
  shows "flight_ok (s'\<lparr>ws_notifiers := ns1 @ (case n' of None \<Rightarrow> [] | Some m \<Rightarrow> [m]) @ ns2\<rparr>)"
  using ok(1,2) notifier_action_parts [OF ok(3)]
  by (auto simp: flight_ok_def Let_def split: option.split)

lemma order_append:
  assumes "order_ok s" "True \<notin> set (release_order s)" "ws_given s' = ws_given s"
    "list_all (event_ok (ws_given s)) (ws_log s')" "list_all (call_ok (ws_given s)) (unfinished_calls s')"
    "release_order s' = release_order s @ [b]" "b \<longleftrightarrow> ws_destruction s' = Destroyed" "accepted (ws_wake s')"
  shows "order_ok s'"
  using assms by (auto simp: order_ok_def dest: in_set_butlastD)

lemma no_release_yet:
  assumes "order_ok s" "ws_destruction s \<noteq> Destroyed"
  shows "True \<notin> set (release_order s)"
  using assms by (auto simp: order_ok_def)

lemma direct_wake_no_calls:
  assumes "\<not> queued (ws_wake s)"
  shows "waiting_calls s = []" "unfinished_calls s = []"
  using assms by (auto simp: waiting_calls_def unfinished_calls_def own_call_def own_queue_def split: running.split)

lemma inside_ok:
  assumes ok: "pending_ok s" "order_ok s" and ns: "ws_notifiers s = ns1 @ Inside c u # ns2"
    and alive: "ws_destruction s \<noteq> Destroyed" and acc: "accepted (ws_wake s)"
    and own: "c = wake_callback (ws_given s)" "u = wake_user_data (ws_given s)"
    and act: "notifier_action throws (Inside c u) s = (Some m, s')"
    and s'': "s'' = s'\<lparr>ws_notifiers := ns1 @ m # ns2\<rparr>"
  shows "pending_ok s'' \<and> order_ok s''"
proof (cases "queued (ws_wake s)")
  case True
  with act have m: "m = (if call_pending (ws_wake s) then Leaving else Pushing c u)"
    and s': "s' = s\<lparr>ws_wake := (ws_wake s)\<lparr>call_pending := True\<rparr>\<rparr>"
    by (auto simp: notifier_action_def Let_def split: if_splits)
  then have same: "same_calls s s''" by (simp add: same_calls_def s'')
  have "order_ok s''" by (rule order_keep [OF ok(2) same]) (simp_all add: s'' s')
  moreover have "claim_count s'' = claim_count s + (if call_pending (ws_wake s) then 0 else 1)"
    using same_calls_eq [OF same] ns by (simp add: claim_count_def s'' s' m)
  ultimately show ?thesis using ok(1) by (auto simp: pending_ok_def s'' s')
next
  case False
  with act have m: "m = Leaving" and s': "s' = s\<lparr>ws_log := ws_log s @ [Wake_called c u]\<rparr>"
    by (auto simp: notifier_action_def Let_def)
  then have same: "same_calls s s''" by (simp add: same_calls_def s'')
  note calls = direct_wake_no_calls [OF False] same_calls_eq [OF same]
  have "pending_ok s''"
    by (rule pending_keep [OF ok(1) same]) (simp_all add: s'' s' ns m)
  moreover have "order_ok s''"
    by (rule order_append [OF ok(2) no_release_yet [OF ok(2) alive], of _ False])
      (use ok(2) acc calls own alive in \<open>simp_all add: s'' s' release_order_def order_ok_def event_ok_def\<close>)
  ultimately show ?thesis by simp
qed

lemma pushing_ok:
  fixes s :: "'a wake_system"
  assumes ok: "pending_ok s" "order_ok s" and ns: "ws_notifiers s = ns1 @ Pushing c u # ns2"
    and alive: "ws_destruction s \<noteq> Destroyed" and acc: "accepted (ws_wake s)"
    and own: "c = wake_callback (ws_given s)" "u = wake_user_data (ws_given s)" "queued (ws_wake s)"
    and act: "notifier_action throws (Pushing c u) s = (Some m, s')"
    and s'': "s'' = s'\<lparr>ws_notifiers := ns1 @ m # ns2\<rparr>"
  shows "pending_ok s'' \<and> order_ok s''"
proof (cases throws)
  case True
  with act have s': "m = Push_failed" "s' = s" by (auto simp: notifier_action_def Let_def)
  then have same: "same_calls s s''" by (simp add: same_calls_def s'')
  have "order_ok s''" by (rule order_keep [OF ok(2) same]) (simp_all add: s'' s')
  moreover have "pending_ok s''" by (rule pending_keep [OF ok(1) same]) (simp_all add: s'' s' ns)
  ultimately show ?thesis by simp
next
  case False
  obtain pushed effects q where
    p: "push (ws_exiting s) (make_wake_call c u) (ws_queue s) = (pushed, effects, q)"
    by (cases "push (ws_exiting s) (make_wake_call c u) (ws_queue s)")
  with False act have s': "m = (if pushed then Leaving else Push_failed)" "s' = s\<lparr>ws_queue := q\<rparr>"
    by (auto simp: notifier_action_def Let_def split: bool.splits)
  define new :: "'a delivery_item list" where "new = (if \<not> ws_exiting s \<and> \<not> queue_closed (ws_queue s) then [make_wake_call c u] else [])"
  note pushes = push_own [OF p]
  have queue: "own_queue True u q = own_queue True u (ws_queue s) @ new"
    using pushes(3) [of True u] by (simp add: make_wake_call_def new_def)
  have waiting: "waiting_calls s'' = waiting_calls s @ new"
    using queue own by (simp add: waiting_calls_def s'' s' own_call_def split: running.split)
  have unfinished: "unfinished_calls s'' = unfinished_calls s @ new"
    using waiting own by (simp add: unfinished_calls_def s'' s' own_call_def split: running.split)
  have "claim_count s'' = claim_count s - (if ws_exiting s then 1 else 0)"
    using ns pushes(1) by (simp add: claim_count_def waiting) (simp add: s'' s' is_wake_call_def make_wake_call_def new_def)
  moreover have "0 < claim_count s" using ns by (simp add: claim_count_def)
  ultimately have "pending_ok s''"
    using ok(1) pushes(2) by (auto simp: pending_ok_def s'' s' split: if_splits)
  moreover have "order_ok s''"
  proof (cases "new = []")
    case True
    with unfinished ok(2) alive show ?thesis by (simp add: order_ok_def release_order_def) (simp add: s'' s')
  next
    case False
    then have "new = [make_wake_call c u]" by (simp add: new_def split: if_splits)
    then show ?thesis
      by (intro order_append [OF ok(2) no_release_yet [OF ok(2) alive], of _ False])
        (use ok(2) acc own unfinished alive in \<open>simp_all add: s'' s' release_order_def order_ok_def call_ok_def
            is_wake_call_def make_wake_call_def\<close>)
  qed
  ultimately show ?thesis by simp
qed

lemma leaving_ok:
  assumes ok: "pending_ok s" "order_ok s" and ns: "ws_notifiers s = ns1 @ n # ns2"
    and n: "n = Push_failed \<or> n = Leaving" and act: "notifier_action throws n s = (n', s')"
    and s'': "s'' = s'\<lparr>ws_notifiers := ns1 @ (case n' of None \<Rightarrow> [] | Some m \<Rightarrow> [m]) @ ns2\<rparr>"
  shows "pending_ok s'' \<and> order_ok s''"
proof -
  have same: "same_calls s s''" and log: "ws_log s'' = ws_log s" "accepted (ws_wake s'') = accepted (ws_wake s)"
      "ws_destruction s'' = ws_destruction s" "ws_exiting s'' = ws_exiting s"
    using n act by (auto simp: s'' same_calls_def notifier_action_def Let_def)
  have "order_ok s''" by (rule order_keep [OF ok(2) same]) (simp_all add: log)
  moreover have "pending_ok s''"
  proof (cases "n = Leaving")
    case True
    with act have "n' = None" "call_pending (ws_wake s'') = call_pending (ws_wake s)"
      by (auto simp: notifier_action_def Let_def s'')
    with True ns show ?thesis by (intro pending_keep [OF ok(1) same]) (simp_all add: s'' notifier_action_parts(3) [OF act])
  next
    case False
    with n act have "n = Push_failed" "n' = Some Leaving" "\<not> call_pending (ws_wake s'')"
      by (auto simp: notifier_action_def Let_def s'')
    moreover from this ns have "claim_count s = claim_count s'' + 1"
      using same_calls_eq [OF same] by (simp add: claim_count_def s'')
    ultimately show ?thesis using ok(1) by (simp add: pending_ok_def)
  qed
  ultimately show ?thesis by simp
qed

lemma notifier_action_ok:
  assumes ok: "wake_ok s" and ns: "ws_notifiers s = ns1 @ n # ns2"
    and act: "notifier_action throws n s = (n', s')"
    and s'': "s'' = s'\<lparr>ws_notifiers := ns1 @ (case n' of None \<Rightarrow> [] | Some m \<Rightarrow> [m]) @ ns2\<rparr>"
  shows "wake_ok s''"
proof -
  from ok have flight: "flight_ok s" and parts: "pending_ok s" "order_ok s" by (simp_all add: wake_ok_def)
  from flight ns have acc: "accepted (ws_wake s)" and alive: "ws_destruction s \<noteq> Destroyed"
    and nok: "notifier_ok (ws_given s) (queued (ws_wake s)) n"
    by (auto simp: flight_ok_def Let_def)
  have more: "n = Push_failed \<or> n = Leaving \<or> (\<exists>m. n' = Some m)"
    using act by (cases n) (auto simp: notifier_action_def Let_def split: if_splits prod.splits bool.splits)
  have "pending_ok s'' \<and> order_ok s''"
  proof (cases n)
    case (Inside c u)
    with more obtain m where "n' = Some m" by auto
    with Inside show ?thesis using inside_ok [OF parts _ alive acc] ns nok act s'' by simp
  next
    case (Pushing c u)
    with more obtain m where "n' = Some m" by auto
    with Pushing show ?thesis using pushing_ok [OF parts _ alive acc] ns nok act s'' by simp
  qed (use leaving_ok [OF parts ns _ act s''] in simp_all)
  with notifier_flight [OF flight ns act] show ?thesis by (simp add: wake_ok_def s'')
qed

lemma own_call_iff: "own_call s i \<longleftrightarrow> queued (ws_wake s) \<and> item_user_data i = wake_user_data (ws_given s)"
  by (simp add: own_call_def)

lemma settle_queue:
  assumes "settle_wake d a s = s'"
  shows "queued (ws_wake s') = queued (ws_wake s)" "ws_given s' = ws_given s" "ws_running s' = ws_running s"
    "queue_closed (ws_queue s') = queue_closed (ws_queue s)" "ws_wake s' = ws_wake s"
    "ws_destruction s' = Destroyed" "ws_exiting s' = ws_exiting s" "ws_notifiers s' = ws_notifiers s"
  using assms push_held_own(2) [of "ws_exiting s" _ "held (ws_wake s)" "ws_queue s"]
  by (auto simp: settle_wake_def Let_def split: if_splits prod.splits)

lemma settle_wake_ok:
  fixes s :: "'a wake_system"
  assumes ok: "wake_ok s" and d: "ws_destruction s = Settling d a"
  shows "wake_ok (settle_wake d a s)"
proof -
  define s1 where "s1 = settle_wake d a s"
  let ?g = "ws_given s" and ?u = "wake_user_data (ws_given s)"
  note parts = settle_queue [OF s1_def [symmetric]]
  from ok have flight: "flight_ok s" and pend: "pending_ok s" and ord: "order_ok s" by (simp_all add: wake_ok_def)
  from flight d have a: "a = accepted (ws_wake s)" and dg: "d = ?g \<or> d = no_wake \<and> \<not> a" and ns: "ws_notifiers s = []"
    by (auto simp: flight_ok_def Let_def)
  have f: "flight_ok s1" using flight d ns by (auto simp: flight_ok_def Let_def parts)
  show ?thesis
  proof (cases "a \<and> wake_release_user_data d \<noteq> 0 \<and> \<not> ws_exiting s")
    case False
    then have s': "s1 = s\<lparr>ws_queue := reset_hold (held (ws_wake s)) (ws_queue s), ws_destruction := Destroyed\<rparr>"
      by (auto simp: s1_def settle_wake_def Let_def)
    have same: "same_calls s s1" by (simp add: same_calls_def s')
    have "order_ok s1"
      by (rule order_keep [OF ord same]) (use False a dg in \<open>auto simp: s' release_due_def\<close>)
    moreover have "pending_ok s1" by (rule pending_keep [OF pend same]) (simp_all add: s')
    ultimately show ?thesis using f by (simp add: wake_ok_def s1_def)
  next
    case True
    with dg have d_g: "d = ?g" by (auto simp: no_wake_def)
    show ?thesis
    proof (cases "queued (ws_wake s)")
      case False
      with True have s': "s1 = s\<lparr>ws_log := ws_log s @ [Wake_released (wake_release_user_data d) (wake_user_data d)],
          ws_destruction := Destroyed\<rparr>" by (simp add: s1_def settle_wake_def Let_def)
      have same: "same_calls s s1" by (simp add: same_calls_def s')
      have "pending_ok s1" by (rule pending_keep [OF pend same]) (simp_all add: s')
      moreover have "order_ok s1"
        by (rule order_append [OF ord no_release_yet [OF ord], of _ True])
          (use ord True a d d_g direct_wake_no_calls [OF False] same_calls_eq [OF same] in
            \<open>simp_all add: parts, simp_all add: s' release_order_def order_ok_def event_ok_def\<close>)
      ultimately show ?thesis using f by (simp add: wake_ok_def s1_def)
    next
      case own: True
      let ?item = "make_release_call (wake_user_data d) (wake_release_user_data d) :: 'a delivery_item"
      obtain pushed effects q where
        p: "push_held (ws_exiting s) ?item (held (ws_wake s)) (ws_queue s) = (pushed, effects, q)"
        by (cases "push_held (ws_exiting s) ?item (held (ws_wake s)) (ws_queue s)")
      define q' where "q' = (if pushed then q else reset_hold (held (ws_wake s)) q)"
      from True own p have s': "s1 = s\<lparr>ws_queue := q', ws_destruction := Destroyed\<rparr>"
        by (simp add: s1_def settle_wake_def Let_def q'_def)
      define new where "new = (if queue_closed (ws_queue s) then []
          else [if held (ws_wake s) = None then ?item else ?item\<lparr>item_last_call := True\<rparr>])"
      have new: "list_all (\<lambda>i. \<not> is_wake_call i \<and> call_ok ?g i) new" "length new \<le> 1"
        using True d_g by (auto simp: new_def is_wake_call_def call_ok_def make_release_call_def)
      have queue: "own_queue True ?u q' = own_queue True ?u (ws_queue s) @ new"
        using push_held_own(3) [OF p, of True ?u] True d_g
        by (simp add: new_def q'_def make_release_call_def)
      have waiting: "waiting_calls s1 = waiting_calls s @ new"
        using queue own by (simp add: waiting_calls_def s' own_call_def split: running.split)
      have unfinished: "unfinished_calls s1 = unfinished_calls s @ new"
        using waiting own by (simp add: unfinished_calls_def s' own_call_def split: running.split)
      have "filter is_wake_call new = []" using new(1) by (auto simp: list_all_iff filter_empty_conv)
      then have "claim_count s1 = claim_count s"
        by (simp add: claim_count_def waiting) (simp add: s')
      then have "pending_ok s1" using pend by (simp add: pending_ok_def parts)
      moreover have "order_ok s1"
      proof (cases new)
        case Nil
        then have "\<not> release_due s1" using own by (simp add: new_def release_due_def parts split: if_splits)
        with ord unfinished Nil show ?thesis by (simp add: order_ok_def release_order_def) (simp add: s')
      next
        case (Cons i rest)
        with new have i: "new = [i]" "\<not> is_wake_call i" "call_ok ?g i" by auto
        show ?thesis
          by (rule order_append [OF ord no_release_yet [OF ord], of _ True])
            (use ord True a d i unfinished in \<open>simp_all add: parts, simp_all add: s' release_order_def order_ok_def\<close>)
      qed
      ultimately show ?thesis using f by (simp add: wake_ok_def s1_def)
    qed
  qed
qed

text \<open>A step that leaves the wake's calls and events alone.\<close>

lemma quiet_step_ok:
  assumes "wake_ok s" "same_calls s s'" "ws_log s' = ws_log s" "ws_notifiers s' = ws_notifiers s"
    "call_pending (ws_wake s') = call_pending (ws_wake s)"
    "accepted (ws_wake s) \<Longrightarrow> accepted (ws_wake s')" "ws_destruction s' = Destroyed \<longleftrightarrow> ws_destruction s = Destroyed"
    "ws_destruction s = Destroyed \<Longrightarrow> accepted (ws_wake s') = accepted (ws_wake s)"
    "ws_exiting s \<Longrightarrow> ws_exiting s'" "flight_ok s \<Longrightarrow> flight_ok s'"
  shows "wake_ok s'"
  using assms pending_keep [of s s'] order_keep [of s s'] by (auto simp: wake_ok_def)

lemma queue_change_ok:
  assumes "wake_ok s" "queue_closed q = queue_closed (ws_queue s)"
    "own_queue (queued (ws_wake s)) (wake_user_data (ws_given s)) q
      = own_queue (queued (ws_wake s)) (wake_user_data (ws_given s)) (ws_queue s)"
  shows "wake_ok (s\<lparr>ws_queue := q\<rparr>)"
  by (rule quiet_step_ok [of s]) (use assms in \<open>simp_all add: same_calls_def flight_ok_def Let_def\<close>)

lemma accept_ok:
  "wake_ok s \<Longrightarrow> ws_destruction s = Alive \<Longrightarrow> wake_descriptor (ws_wake s) = ws_given s \<Longrightarrow>
     wake_ok (s\<lparr>ws_wake := accept_wake (ws_wake s)\<rparr>)"
  by (rule quiet_step_ok [of s]) (auto simp: same_calls_def flight_ok_def Let_def accept_wake_def)

lemma reject_ok: "wake_ok s \<Longrightarrow> \<not> accepted (ws_wake s) \<Longrightarrow> wake_ok (s\<lparr>ws_wake := reject_wake (ws_wake s)\<rparr>)"
  by (rule quiet_step_ok [of s]) (auto simp: same_calls_def flight_ok_def Let_def reject_wake_def)

lemma close_ok: "wake_ok s \<Longrightarrow> wake_ok (s\<lparr>ws_wake := close_wake (ws_wake s)\<rparr>)"
  by (rule quiet_step_ok [of s]) (auto simp: same_calls_def flight_ok_def Let_def close_wake_def)

lemma destroy_ok:
  assumes "wake_ok s" "ws_destruction s = Alive"
  shows "wake_ok (s\<lparr>ws_wake := (ws_wake s)\<lparr>wake_closing := True\<rparr>, ws_destruction := Waiting\<rparr>)"
  by (rule quiet_step_ok [of s]) (use assms in \<open>auto simp: same_calls_def flight_ok_def Let_def\<close>)

lemma waited_ok:
  assumes "wake_ok s" "ws_destruction s = Waiting" "in_flight (ws_wake s) = 0"
  shows "wake_ok (s\<lparr>ws_destruction := Settling (wake_descriptor (ws_wake s)) (accepted (ws_wake s)),
       ws_wake := (ws_wake s)\<lparr>wake_descriptor := no_wake\<rparr>\<rparr>)"
  by (rule quiet_step_ok [of s]) (use assms in \<open>auto simp: same_calls_def flight_ok_def Let_def\<close>)

lemma exit_ok: "wake_ok s \<Longrightarrow> wake_ok (s\<lparr>ws_exiting := True\<rparr>)"
  by (rule quiet_step_ok [of s]) (auto simp: same_calls_def flight_ok_def Let_def)

text \<open>A step that drops calls of the queue because it closes or the process exits.\<close>

lemma queue_drop_ok:
  assumes ok: "wake_ok s" and own: "own_queue (queued (ws_wake s)) (wake_user_data (ws_given s)) (ws_queue s)
      = gone @ own_queue (queued (ws_wake s)) (wake_user_data (ws_given s)) q"
    and over: "queue_closed q \<or> ws_exiting s"
  shows "wake_ok (s\<lparr>ws_queue := q\<rparr>)"
proof -
  let ?s = "s\<lparr>ws_queue := q\<rparr>"
  have same: "own_call ?s = own_call s" by (rule ext) (simp add: own_call_def)
  define kept where "kept = (case ws_running s of Taken i \<Rightarrow> filter (own_call s) [i] | _ \<Rightarrow> [])"
  define first where "first = (case ws_running s of Cleared i \<Rightarrow> filter (own_call s) [i] | _ \<Rightarrow> [])"
  have w: "waiting_calls s = kept @ gone @ own_queue (queued (ws_wake s)) (wake_user_data (ws_given s)) q"
      "waiting_calls ?s = kept @ own_queue (queued (ws_wake s)) (wake_user_data (ws_given s)) q"
    using own by (simp_all add: waiting_calls_def kept_def same split: running.split)
  have u: "unfinished_calls s = first @ waiting_calls s" "unfinished_calls ?s = first @ waiting_calls ?s"
    by (simp_all add: unfinished_calls_def first_def same split: running.split)
  have due: "release_due ?s \<Longrightarrow> gone = [] \<and> release_due s"
    using over own by (cases "queued (ws_wake s)") (auto simp: release_due_def own_queue_def)
  have "order_ok ?s"
    by (rule order_drop [of s "first @ kept" gone]) (use ok w u due in \<open>simp_all add: wake_ok_def\<close>)
  moreover have "pending_ok ?s"
    using ok over w by (auto simp: wake_ok_def pending_ok_def claim_count_def)
  moreover have "flight_ok ?s" using ok by (simp add: wake_ok_def flight_ok_def Let_def)
  ultimately show ?thesis by (simp add: wake_ok_def)
qed

lemma next_ok:
  assumes ok: "wake_ok s" and none: "ws_running s = No_call"
    and nxt: "next_call (ws_exiting s) (ws_queue s) = (item, q)"
  shows "wake_ok (s\<lparr>ws_queue := q, ws_running := (case item of None \<Rightarrow> No_call | Some i \<Rightarrow> Taken i)\<rparr>)"
proof (cases item)
  case None
  have eq: "s\<lparr>ws_queue := q, ws_running := (case item of None \<Rightarrow> No_call | Some i \<Rightarrow> Taken i)\<rparr> = s\<lparr>ws_queue := q\<rparr>"
    using none None by simp
  from next_call_own(2) [OF nxt None, of "queued (ws_wake s)" "wake_user_data (ws_given s)"]
  show ?thesis unfolding eq
  proof (elim disjE conjE exE)
    assume "own_queue (queued (ws_wake s)) (wake_user_data (ws_given s)) q
      = own_queue (queued (ws_wake s)) (wake_user_data (ws_given s)) (ws_queue s)"
    with ok next_call_own(1) [OF nxt] show "wake_ok (s\<lparr>ws_queue := q\<rparr>)" by (rule queue_change_ok)
  next
    fix gone
    assume "ws_exiting s" "own_queue (queued (ws_wake s)) (wake_user_data (ws_given s)) (ws_queue s)
      = gone @ own_queue (queued (ws_wake s)) (wake_user_data (ws_given s)) q"
    then show "wake_ok (s\<lparr>ws_queue := q\<rparr>)" by (intro queue_drop_ok [OF ok, of gone]) simp_all
  qed
next
  case (Some i)
  define s1 where "s1 = s\<lparr>ws_queue := q, ws_running := Taken i\<rparr>"
  have w: "waiting_calls s1 = waiting_calls s"
    using next_call_own(3) [OF nxt Some, of "queued (ws_wake s)" "wake_user_data (ws_given s)"] none
    by (simp add: waiting_calls_def own_call_def s1_def)
  then have u: "unfinished_calls s1 = unfinished_calls s"
    using none by (simp add: unfinished_calls_def) (simp add: s1_def)
  have "release_due s1 = release_due s"
    using next_call_own(1) [OF nxt] by (simp add: release_due_def s1_def)
  with u ok have "order_ok s1" by (simp add: wake_ok_def order_ok_def release_order_def) (simp add: s1_def)
  moreover have "pending_ok s1"
    using ok w next_call_own(1) [OF nxt] by (simp add: wake_ok_def pending_ok_def claim_count_def) (simp add: s1_def)
  moreover have "flight_ok s1" using ok by (simp add: wake_ok_def flight_ok_def Let_def s1_def)
  ultimately show ?thesis using Some by (simp add: wake_ok_def s1_def)
qed

lemma invoke_ok:
  assumes ok: "wake_ok s" and taken: "ws_running s = Taken item"
  shows "wake_ok (clear_pending item s\<lparr>ws_running := Cleared item\<rparr>)"
proof -
  define s1 where "s1 = clear_pending item s\<lparr>ws_running := Cleared item\<rparr>"
  have s1: "s1 = s\<lparr>ws_wake := (ws_wake s)\<lparr>call_pending := call_pending (ws_wake s)
      \<and> \<not> (own_call s item \<and> is_wake_call item)\<rparr>, ws_running := Cleared item\<rparr>"
    by (simp add: s1_def clear_pending_def is_wake_call_def)
  have own: "own_call s1 = own_call s" by (rule ext) (simp add: s1 own_call_def)
  have run: "ws_running s1 = Cleared item" by (simp add: s1)
  have w: "waiting_calls s = filter (own_call s) [item] @ waiting_calls s1"
    using taken by (simp add: waiting_calls_def s1)
  have "unfinished_calls s1 = unfinished_calls s"
    using taken w own run by (simp add: unfinished_calls_def)
  moreover have "release_due s1 = release_due s" by (simp add: release_due_def s1)
  ultimately have "order_ok s1"
    using ok by (simp add: wake_ok_def order_ok_def release_order_def) (simp add: s1)
  moreover have "claim_count s = claim_count s1 + (if own_call s item \<and> is_wake_call item then 1 else 0)"
    by (simp add: claim_count_def w) (simp add: s1)
  with ok have "pending_ok s1"
    by (auto simp: wake_ok_def pending_ok_def s1 split: if_splits)
  moreover have "flight_ok s1" using ok by (simp add: wake_ok_def flight_ok_def Let_def s1)
  ultimately show ?thesis by (simp add: wake_ok_def s1_def)
qed

lemma ran_ok:
  assumes ok: "wake_ok s" and cleared: "ws_running s = Cleared item"
  shows "wake_ok (s\<lparr>ws_log := ws_log s @ call_events s item, ws_running := No_call\<rparr>)"
proof -
  define s1 where "s1 = s\<lparr>ws_log := ws_log s @ call_events s item, ws_running := No_call\<rparr>"
  have w: "waiting_calls s1 = waiting_calls s" using cleared by (simp add: waiting_calls_def s1_def own_call_def)
  have u: "unfinished_calls s = filter (own_call s) [item] @ unfinished_calls s1"
    using cleared w by (simp add: unfinished_calls_def [of s] unfinished_calls_def [of s1]) (simp add: s1_def)
  have item: "own_call s item \<Longrightarrow> call_ok (ws_given s) item"
    using ok u by (simp add: wake_ok_def order_ok_def)
  then have events: "map is_release (call_events s item) = map (Not \<circ> is_wake_call) (filter (own_call s) [item])"
      "list_all (event_ok (ws_given s)) (call_events s item)"
    by (auto simp: call_events_def call_ok_def is_wake_call_def event_ok_def)
  then have "release_order s1 = release_order s" by (simp add: release_order_def u) (simp add: s1_def)
  moreover have "release_due s1 = release_due s" by (simp add: release_due_def s1_def)
  ultimately have "order_ok s1"
    using ok u events by (simp add: wake_ok_def order_ok_def) (simp add: s1_def)
  moreover have "pending_ok s1" using ok w by (simp add: wake_ok_def pending_ok_def claim_count_def) (simp add: s1_def)
  moreover have "flight_ok s1" using ok by (simp add: wake_ok_def flight_ok_def Let_def s1_def)
  ultimately show ?thesis by (simp add: wake_ok_def s1_def)
qed

lemma wake_step_ok:
  assumes "wake_step s s'" "wake_ok s"
  shows "wake_ok s'"
  using assms(1)
proof cases
  case wake_notify
  with assms(2) show ?thesis by (rule notify_enter_ok)
next
  case (wake_notifier ns1 n ns2 throws n' s1)
  show ?thesis by (rule notifier_action_ok [OF assms(2) wake_notifier(2,3,1)])
next
  case (queue_push item pushed effects q)
  with push_own [OF queue_push(3)] show ?thesis
    using queue_change_ok [OF assms(2), of q] by (auto simp: own_call_def)
next
  case (queue_event user_data event callback effects q)
  with push_event_own [OF queue_event(3,2)] show ?thesis
    using queue_change_ok [OF assms(2), of q] by simp
next
  case queue_close
  with queue_drop_ok [OF assms(2), of _ "snd (close_queue (ws_exiting s) (ws_queue s))"] show ?thesis
    by (simp add: close_queue_own)
next
  case queue_take
  with queue_change_ok [OF assms(2)] show ?thesis by (simp add: take_calls_own)
next
  case (queue_next item q)
  with next_ok [OF assms(2)] show ?thesis by simp
next
  case wake_accept
  with accept_ok [OF assms(2)] show ?thesis by simp
next
  case wake_reject
  with reject_ok [OF assms(2)] show ?thesis by simp
next
  case wake_close
  with close_ok [OF assms(2)] show ?thesis by simp
next
  case wake_destroy
  with destroy_ok [OF assms(2)] show ?thesis by simp
next
  case wake_waited
  with waited_ok [OF assms(2)] show ?thesis by simp
next
  case wake_settle
  with settle_wake_ok [OF assms(2)] show ?thesis by simp
next
  case wake_exit
  with exit_ok [OF assms(2)] show ?thesis by simp
next
  case queue_invoke
  with invoke_ok [OF assms(2)] show ?thesis by simp
next
  case queue_ran
  with ran_ok [OF assms(2)] show ?thesis by simp
qed

lemma wake_reachable_ok: "wake_reachable s \<Longrightarrow> wake_ok s"
  by (induction rule: wake_reachable.induct) (simp_all add: start_wake_ok wake_step_ok)


section \<open>The properties\<close>

text \<open>
  C27: in every interleaving at most one call of a queued wake is pending. While the pending flag is
  set, the queue is open and no notify is pushing, exactly one call waits in the queue or is about
  to run: a notify that finds the flag set leaves, and its call is not lost.
\<close>

theorem one_wake_call_pending:
  assumes "wake_reachable s"
  shows "length (filter is_wake_call (waiting_calls s)) + length (filter claims (ws_notifiers s)) \<le> 1
    \<and> (if call_pending (ws_wake s) \<and> \<not> queue_closed (ws_queue s) \<and> \<not> ws_exiting s
          \<and> filter claims (ws_notifiers s) = []
       then length (filter is_wake_call (waiting_calls s)) = 1 else True)"
  using wake_reachable_ok [OF assms] by (auto simp: wake_ok_def pending_ok_def claim_count_def)

lemma releases_last:
  assumes "True \<notin> set (butlast (map is_release xs))"
  shows "\<exists>calls rels. xs = calls @ rels \<and> filter is_release calls = [] \<and> length rels \<le> 1"
proof (cases xs rule: rev_cases)
  case (snoc ys y)
  with assms have "filter is_release ys = []" by (auto simp: filter_empty_conv)
  with snoc show ?thesis by (intro exI [of _ ys] exI [of _ "[y]"]) simp
qed simp

lemma calls_only:
  assumes "list_all (event_ok g) es" "filter is_release es = []"
  shows "set es \<subseteq> {Wake_called (wake_callback g) (wake_user_data g)}"
proof
  fix e assume e: "e \<in> set es"
  with assms have "event_ok g e" "\<not> is_release e" by (auto simp: list_all_iff filter_empty_conv)
  then show "e \<in> {Wake_called (wake_callback g) (wake_user_data g)}" by (auto simp: event_ok_def)
qed

text \<open>
  C28: in every interleaving an accepted wake releases its user data at most once, as the last thing
  it does: no notify is under way then and none of its calls is left. A destroyed one has released
  it or has its release in its open queue, unless the process exits, and a wake never accepted
  does nothing.
\<close>

theorem wake_releases_last:
  assumes "wake_reachable s"
  shows "\<exists>calls rels. ws_log s = calls @ rels \<and> length rels \<le> 1
    \<and> set calls \<subseteq> {Wake_called (wake_callback (ws_given s)) (wake_user_data (ws_given s))}
    \<and> (if filter is_release (ws_log s) \<noteq> []
       then rels = [Wake_released (wake_release_user_data (ws_given s)) (wake_user_data (ws_given s))]
         \<and> wake_release_user_data (ws_given s) \<noteq> 0 \<and> accepted (ws_wake s) \<and> ws_notifiers s = []
         \<and> unfinished_calls s = [] \<and> ws_destruction s = Destroyed
       else ws_destruction s = Destroyed \<and> release_due s
         \<longrightarrow> (\<exists>i\<in>set (unfinished_calls s). \<not> is_wake_call i))
    \<and> (accepted (ws_wake s) \<or> ws_log s = [] \<and> unfinished_calls s = [] \<and> ws_notifiers s = [])"
proof -
  let ?g = "ws_given s"
  from wake_reachable_ok [OF assms] have flight: "flight_ok s" and ord: "order_ok s" by (simp_all add: wake_ok_def)
  then have order: "True \<notin> set (butlast (map is_release (ws_log s) @ map (Not \<circ> is_wake_call) (unfinished_calls s)))"
    and events: "list_all (event_ok ?g) (ws_log s)"
    by (simp_all add: order_ok_def release_order_def)
  have no_acc: "accepted (ws_wake s) \<or> ws_log s = [] \<and> unfinished_calls s = [] \<and> ws_notifiers s = []"
    using ord flight by (cases "accepted (ws_wake s)") (simp_all add: order_ok_def release_order_def flight_ok_def Let_def)
  show ?thesis
  proof (cases "filter is_release (ws_log s) = []")
    case True
    with events have "set (ws_log s) \<subseteq> {Wake_called (wake_callback ?g) (wake_user_data ?g)}"
      by (intro calls_only)
    with True no_acc ord show ?thesis
      by (rule_tac x = "ws_log s" in exI, rule_tac x = "[]" in exI)
        (auto simp: order_ok_def release_order_def filter_empty_conv)
  next
    case False
    then have released: "True \<in> set (map is_release (ws_log s))" by (auto simp: filter_empty_conv)
    with order have none: "unfinished_calls s = []" by (cases "unfinished_calls s") (auto simp: butlast_append)
    with order obtain calls rels where split: "ws_log s = calls @ rels" "filter is_release calls = []" "length rels \<le> 1"
      using releases_last [of "ws_log s"] by auto
    with False obtain e where e: "rels = [e]" "is_release e"
      by (cases rels) (auto split: if_splits)
    from e split events have "event_ok ?g e" "list_all (event_ok ?g) calls" by auto
    with e split have "e = Wake_released (wake_release_user_data ?g) (wake_user_data ?g)"
        "wake_release_user_data ?g \<noteq> 0" "set calls \<subseteq> {Wake_called (wake_callback ?g) (wake_user_data ?g)}"
      using calls_only by (auto simp: event_ok_def)
    moreover have "ws_destruction s = Destroyed" using ord released by (auto simp: order_ok_def release_order_def)
    moreover from this flight have "ws_notifiers s = []" by (simp add: flight_ok_def Let_def)
    moreover from released ord have "accepted (ws_wake s)" by (auto simp: order_ok_def release_order_def)
    ultimately show ?thesis using e split none False
      by (rule_tac x = calls in exI, rule_tac x = rels in exI) simp
  qed
qed

text \<open>
  A wake that names a queue, notified twice before the queue dispatches: one call, then the release.
\<close>

definition example_wake :: mln_wake where
  "example_wake = \<lparr>wake_callback = 10, wake_user_data = 20, wake_release_user_data = 30, wake_queue = 40\<rparr>"

abbreviation example_start :: "unit wake_system" where
  "example_start \<equiv> start_wake example_wake True 0 (new_queue False 0)"

abbreviation example_pending :: "unit wake_system" where
  "example_pending \<equiv> example_start\<lparr>
     ws_wake := (ws_wake example_start)\<lparr>accepted := True, call_pending := True\<rparr>,
     ws_queue := (ws_queue example_start)\<lparr>queue_calls := [make_wake_call 10 20]\<rparr>\<rparr>"

lemmas example_defs = start_wake_def construct_wake_def example_wake_def new_queue_def hold_user_data_def
  notify_enter_def notifier_action_def push_def append_item_def accept_wake_def make_wake_call_def
  settle_wake_def no_wake_def Let_def

lemma example_notified: "wake_reachable example_pending"
proof -
  let ?w = "ws_wake example_start"
  let ?s1 = "example_start\<lparr>ws_wake := ?w\<lparr>accepted := True\<rparr>\<rparr>"
  let ?s2 = "example_start\<lparr>ws_wake := ?w\<lparr>accepted := True, in_flight := 1\<rparr>, ws_notifiers := [Inside 10 20]\<rparr>"
  let ?s3 = "example_start\<lparr>ws_wake := ?w\<lparr>accepted := True, in_flight := 1, call_pending := True\<rparr>,
    ws_notifiers := [Pushing 10 20]\<rparr>"
  let ?s4 = "example_start\<lparr>ws_wake := ?w\<lparr>accepted := True, in_flight := 1, call_pending := True\<rparr>,
    ws_queue := (ws_queue example_start)\<lparr>queue_calls := [make_wake_call 10 20]\<rparr>, ws_notifiers := [Leaving]\<rparr>"
  have r0: "wake_reachable example_start" by (rule wake_start) (simp add: new_queue_def)
  have "wake_step example_start ?s1" using wake_accept [of example_start] by (simp add: example_defs)
  with r0 have r1: "wake_reachable ?s1" by (rule wake_next)
  have "wake_step ?s1 ?s2" using wake_notify [of ?s1 ?s2] by (simp add: example_defs)
  with r1 have r2: "wake_reachable ?s2" by (rule wake_next)
  have "wake_step ?s2 ?s3"
    using wake_notifier [of ?s2 "[]" "Inside 10 20" "[]" False "Some (Pushing 10 20)"
      "?s2\<lparr>ws_wake := ?w\<lparr>accepted := True, in_flight := 1, call_pending := True\<rparr>\<rparr>"]
    by (simp add: example_defs)
  with r2 have r3: "wake_reachable ?s3" by (rule wake_next)
  have "wake_step ?s3 ?s4"
    using wake_notifier [of ?s3 "[]" "Pushing 10 20" "[]" False "Some Leaving"
      "?s3\<lparr>ws_queue := (ws_queue example_start)\<lparr>queue_calls := [make_wake_call 10 20]\<rparr>\<rparr>"]
    by (simp add: example_defs Let_def)
  with r3 have r4: "wake_reachable ?s4" by (rule wake_next)
  have "wake_step ?s4 example_pending"
    using wake_notifier [of ?s4 "[]" Leaving "[]" False None "?s4\<lparr>ws_wake := ?w\<lparr>accepted := True, call_pending := True\<rparr>\<rparr>"]
    by (simp add: example_defs)
  with r4 show ?thesis by (rule wake_next)
qed

theorem one_wake_call_pending_witness:
  "wake_reachable example_pending \<and> length (filter is_wake_call (waiting_calls example_pending)) = 1"
proof -
  have "call_pending (ws_wake example_pending) \<and> \<not> queue_closed (ws_queue example_pending)
      \<and> \<not> ws_exiting example_pending \<and> ws_notifiers example_pending = []"
    by (simp add: example_defs)
  with one_wake_call_pending [OF example_notified] example_notified show ?thesis by simp
qed

abbreviation example_direct :: "unit wake_system" where
  "example_direct \<equiv> start_wake example_wake False 0 (new_queue False 0)"

abbreviation example_destroyed :: "unit wake_system" where
  "example_destroyed \<equiv> example_direct\<lparr>
     ws_wake := (ws_wake example_direct)\<lparr>accepted := True, wake_closing := True, wake_descriptor := no_wake\<rparr>,
     ws_destruction := Destroyed, ws_log := [Wake_released 30 20]\<rparr>"

lemma example_released: "wake_reachable example_destroyed"
proof -
  let ?w = "ws_wake example_direct"
  let ?s1 = "example_direct\<lparr>ws_wake := ?w\<lparr>accepted := True\<rparr>\<rparr>"
  let ?s2 = "example_direct\<lparr>ws_wake := ?w\<lparr>accepted := True, wake_closing := True\<rparr>, ws_destruction := Waiting\<rparr>"
  let ?s3 = "example_direct\<lparr>
     ws_wake := ?w\<lparr>accepted := True, wake_closing := True, wake_descriptor := no_wake\<rparr>,
     ws_destruction := Settling example_wake True\<rparr>"
  have r0: "wake_reachable example_direct" by (rule wake_start) (simp add: new_queue_def)
  have "wake_step example_direct ?s1" using wake_accept [of example_direct] by (simp add: example_defs)
  with r0 have r1: "wake_reachable ?s1" by (rule wake_next)
  have "wake_step ?s1 ?s2" using wake_destroy [of ?s1] by (simp add: example_defs)
  with r1 have r2: "wake_reachable ?s2" by (rule wake_next)
  have "wake_step ?s2 ?s3" using wake_waited [of ?s2] by (simp add: example_defs)
  with r2 have r3: "wake_reachable ?s3" by (rule wake_next)
  have "wake_step ?s3 example_destroyed" using wake_settle [of ?s3 example_wake True] by (simp add: example_defs)
  with r3 show ?thesis by (rule wake_next)
qed

theorem wake_releases_last_witness:
  "wake_reachable example_destroyed \<and> (\<exists>calls. ws_log example_destroyed = calls @ [Wake_released 30 20]
     \<and> set calls \<subseteq> {Wake_called 10 20})"
proof -
  have log: "ws_log example_destroyed = [Wake_released 30 20]" "ws_given example_destroyed = example_wake"
    by (simp_all add: example_defs)
  with wake_releases_last [OF example_released] example_released show ?thesis
    by (auto simp: example_wake_def)
qed

end
