(* ===== verification/Queue_Handles.thy ===== *)
theory Queue_Handles
  imports Wakes Completion
begin

text \<open>
  Delivery queues as the C interface names them (\<open>src/delivery/delivery_queue.cpp\<close> from
  \<open>resolve_delivery_queue\<close> on, \<open>queued_registration.cpp\<close>, \<open>c_api/delivery.cpp\<close>) and the completions that may name
  one (\<open>make_completion\<close> in \<open>src/completion/completion.cpp\<close>): the composition of the handle table, the
  queues, their wakes and the boundary of the entry points.
\<close>

section \<open>The queues of the process\<close>

text \<open>The states and wakes the table's objects number; a state stays here after its handle is removed.\<close>

record 'a queue_world =
  queue_table :: "nat handle_table"
  queue_states :: "'a delivery_queue list"
  own_wakes :: "wake_object list"

definition sizeof_mln_delivery_queue_options :: u32 where
  "sizeof_mln_delivery_queue_options = 48"

definition default_queue_options :: mln_delivery_queue_options where
  "default_queue_options = \<lparr>delivery_queue_options_size = sizeof_mln_delivery_queue_options,
     delivery_queue_options_wake = no_wake, delivery_queue_options_release_abandoned_user_data = 0\<rparr>"

text \<open>
  A call returns an outcome, the value of \<open>out_queue\<close> (\<open>None\<close> for a null pointer) and the world. Whether
  making the wake, or the object and its state, throws is an argument: an allocation. The wake's own queue
  is of no account.
\<close>

definition create_delivery_queue ::
    "bool \<Rightarrow> mln_delivery_queue_options option \<Rightarrow> thread_locals \<Rightarrow> u64 option \<times> 'a queue_world
      \<Rightarrow> outcome \<times> thread_locals \<times> (u64 option \<times> 'a queue_world)" where
  "create_delivery_queue fails options t s =
     (let (out, w) = s;
          opts = (case options of None \<Rightarrow> default_queue_options | Some opts \<Rightarrow> opts);
          d = delivery_queue_options_wake opts;
          invalid = (\<lambda>message. (Returned MLN_STATUS_INVALID_ARGUMENT, error_text message t, s))
      in if delivery_queue_options_size opts < sizeof_mln_delivery_queue_options
         then invalid ''mln_delivery_queue_options.size is too small''
         else if wake_queue d \<noteq> 0 then invalid ''a delivery queue's own wake must not name a queue''
         else (case resolve_wake (queue_table w) (Some d) t of (status, wake_target, t1) \<Rightarrow>
           if status \<noteq> MLN_STATUS_OK then (Returned status, t1, s)
           else if out = None \<or> out \<noteq> Some 0
             then (Returned MLN_STATUS_INVALID_ARGUMENT, error_text ''out_queue must point to the null handle'' t1, s)
           else if fails then (Threw_exception (ascii ''std::bad_alloc''), t1, s)
           else
             let state = new_queue True (delivery_queue_options_release_abandoned_user_data opts);
                 wake = fst (construct_wake d False 0 state)
             in (case insert_handle Kind_DeliveryQueue (length (queue_states w)) (queue_table w) of
                 None \<Rightarrow> (Threw_exception (ascii ''handle table is full''), t1, s)
               | Some (h, table) \<Rightarrow> (Returned MLN_STATUS_OK, t1,
                   (Some h, \<lparr>queue_table = table, queue_states = queue_states w @ [state],
                     own_wakes = own_wakes w @ [accept_wake wake]\<rparr>)))))"

definition release_delivery_queue ::
    "bool \<Rightarrow> u64 \<Rightarrow> 'a queue_world \<Rightarrow> 'a effect list \<times> 'a queue_world" where
  "release_delivery_queue exiting queue w =
     (if queue = 0 then ([], w)
      else (case remove_handle Kind_DeliveryQueue (queue_table w) queue of
          (None, table) \<Rightarrow> ([], w\<lparr>queue_table := table\<rparr>)
        | (Some n, table) \<Rightarrow> (case close_queue exiting (queue_states w ! n) of (effects, q) \<Rightarrow>
            (effects, w\<lparr>queue_table := table, queue_states := (queue_states w)[n := q]\<rparr>))))"

text \<open>What \<open>dispatch()\<close> returns is an argument: its run is a sequence of steps of the queue.\<close>

definition dispatch_delivery_queue ::
    "(nat \<Rightarrow> bool) \<Rightarrow> u64 \<Rightarrow> thread_locals \<Rightarrow> 'a queue_world \<Rightarrow> outcome \<times> thread_locals \<times> 'a queue_world" where
  "dispatch_delivery_queue dispatched queue t w =
     (case resolve_delivery_queue (queue_table w) queue t of
       (None, t1) \<Rightarrow> (Returned (recorded_fault_status t1), t1, w)
     | (Some n, t1) \<Rightarrow>
         if dispatched n then (Returned MLN_STATUS_OK, t1, w)
         else (Returned MLN_STATUS_BUSY, error_text ''the delivery queue is already dispatching'' t1, w))"

definition mln_delivery_queue_create ::
    "bool \<Rightarrow> mln_delivery_queue_options option \<Rightarrow> mln_diagnostic option \<Rightarrow> thread_locals \<Rightarrow> u64 option \<times> 'a queue_world
      \<Rightarrow> mln_status \<times> mln_diagnostic option \<times> thread_locals \<times> (u64 option \<times> 'a queue_world)" where
  "mln_delivery_queue_create fails options out_diagnostic =
     status_boundary out_diagnostic (create_delivery_queue fails options)"

definition mln_delivery_queue_dispatch ::
    "(nat \<Rightarrow> bool) \<Rightarrow> u64 \<Rightarrow> mln_diagnostic option \<Rightarrow> thread_locals \<Rightarrow> 'a queue_world
      \<Rightarrow> mln_status \<times> mln_diagnostic option \<times> thread_locals \<times> 'a queue_world" where
  "mln_delivery_queue_dispatch dispatched queue out_diagnostic =
     status_boundary out_diagnostic (dispatch_delivery_queue dispatched queue)"

section \<open>Registrations that may name a queue\<close>

definition resolve_registration_queue ::
    "string \<Rightarrow> nat handle_table \<Rightarrow> u64 \<Rightarrow> bool \<Rightarrow> thread_locals \<Rightarrow> mln_status \<times> nat option \<times> thread_locals" where
  "resolve_registration_queue registration table queue has_callback t =
     (if \<not> has_callback
      then (MLN_STATUS_INVALID_ARGUMENT, None, error_text (registration @ '' requires a callback'') t)
      else if queue = 0 then (MLN_STATUS_OK, None, t)
      else (case resolve_delivery_queue table queue t of
          (None, t1) \<Rightarrow> (recorded_fault_status t1, None, t1)
        | (Some n, t1) \<Rightarrow> (MLN_STATUS_OK, Some n, t1)))"

definition sizeof_mln_completion :: u32 where
  "sizeof_mln_completion = 40"

text \<open>
  A completion's descriptor becomes a completion and, where it names a queue, holds its user data there;
  the number of the node is given. \<open>fails\<close> says that an allocation throws.
\<close>

definition make_completion ::
    "bool \<Rightarrow> nat \<Rightarrow> mln_completion option \<Rightarrow> thread_locals \<Rightarrow> 'a queue_world
      \<Rightarrow> mln_status \<times> completion option \<times> thread_locals \<times> 'a queue_world" where
  "make_completion fails node completion t w = (case completion of
     None \<Rightarrow> (MLN_STATUS_INVALID_ARGUMENT, None, error_text ''completion must not be null'' t, w)
   | Some d \<Rightarrow>
       if completion_size d < sizeof_mln_completion
       then (MLN_STATUS_INVALID_ARGUMENT, None, error_text ''mln_completion.size is too small'' t, w)
       else (case resolve_registration_queue ''completion'' (queue_table w) (completion_queue d)
               (completion_callback d \<noteq> 0) t of (status, queue, t1) \<Rightarrow>
         if status \<noteq> MLN_STATUS_OK then (status, None, t1, w)
         else if fails
           then (MLN_STATUS_NATIVE_ERROR, None,
             error_text ''asynchronous completion state could not be allocated'' t1, w)
         else (MLN_STATUS_OK, Some (new_completion d (queue \<noteq> None)), t1,
           (case queue of None \<Rightarrow> w
            | Some n \<Rightarrow> w\<lparr>queue_states := (queue_states w)[n :=
                snd (hold_user_data node (completion_user_data d) (queue_states w ! n))]\<rparr>))))"

text \<open>A command's completion is optional.\<close>

definition make_command_completion ::
    "bool \<Rightarrow> nat \<Rightarrow> mln_completion option \<Rightarrow> thread_locals \<Rightarrow> 'a queue_world
      \<Rightarrow> mln_status \<times> completion option \<times> thread_locals \<times> 'a queue_world" where
  "make_command_completion fails node descriptor t w =
     (if descriptor = None then (MLN_STATUS_OK, None, t, w) else make_completion fails node descriptor t w)"

section \<open>Runs\<close>

text \<open>
  What can happen to the queues: creations, releases, completions, and any use of a queue that does not
  close it (pushes, holds, dispatches).
\<close>

inductive queue_world_step :: "bool \<Rightarrow> 'a queue_world \<Rightarrow> 'a queue_world \<Rightarrow> bool" for exiting where
  world_create: "create_delivery_queue fails options t (out, w) = (result, t', (out', w')) \<Longrightarrow>
     queue_world_step exiting w w'"
| world_release: "release_delivery_queue exiting queue w = (effects, w') \<Longrightarrow> queue_world_step exiting w w'"
| world_completion: "make_completion fails node completion t w = (status, made, t', w') \<Longrightarrow>
     queue_world_step exiting w w'"
| world_use: "n < length (queue_states w) \<Longrightarrow> queue_closed q = queue_closed (queue_states w ! n) \<Longrightarrow>
     queue_world_step exiting w (w\<lparr>queue_states := (queue_states w)[n := q]\<rparr>)"

definition no_queues :: "'a queue_world" where
  "no_queues = \<lparr>queue_table = empty_table, queue_states = [], own_wakes = []\<rparr>"

inductive queue_world_reachable :: "bool \<Rightarrow> 'a queue_world \<Rightarrow> bool" for exiting where
  world_start: "queue_world_reachable exiting no_queues"
| world_next: "queue_world_reachable exiting w \<Longrightarrow> queue_world_step exiting w w' \<Longrightarrow>
     queue_world_reachable exiting w'"

text \<open>Every open queue is named by exactly one live handle, and a live handle names an open queue.\<close>

definition queue_world_ok :: "'a queue_world \<Rightarrow> bool" where
  "queue_world_ok w \<longleftrightarrow> table_ok (queue_table w) \<and> length (own_wakes w) = length (queue_states w)
     \<and> (\<forall>h n. try_resolve Kind_DeliveryQueue (queue_table w) h = Some n \<longrightarrow>
          n < length (queue_states w) \<and> \<not> queue_closed (queue_states w ! n))
     \<and> (\<forall>h h' n. try_resolve Kind_DeliveryQueue (queue_table w) h = Some n \<longrightarrow>
          try_resolve Kind_DeliveryQueue (queue_table w) h' = Some n \<longrightarrow> h = h')
     \<and> (\<forall>n < length (queue_states w). \<not> queue_closed (queue_states w ! n) \<longrightarrow>
          (\<exists>h. try_resolve Kind_DeliveryQueue (queue_table w) h = Some n))"

lemma queue_world_ok_start: "queue_world_ok no_queues"
  by (simp add: queue_world_ok_def no_queues_def try_resolve_eq empty_table_def table_ok_def)

lemma resolve_queue_eq: "resolve_delivery_queue table h t = resolve Kind_DeliveryQueue table h t"
  by (simp add: resolve_delivery_queue_def lease_eq)

definition options_of :: "mln_delivery_queue_options option \<Rightarrow> mln_delivery_queue_options" where
  "options_of options = (case options of None \<Rightarrow> default_queue_options | Some opts \<Rightarrow> opts)"

text \<open>What creation requires of its arguments.\<close>

definition queue_arguments_ok :: "mln_delivery_queue_options option \<Rightarrow> u64 option \<Rightarrow> bool" where
  "queue_arguments_ok options out \<longleftrightarrow> (let opts = options_of options; d = delivery_queue_options_wake opts in
     sizeof_mln_delivery_queue_options \<le> delivery_queue_options_size opts \<and> wake_queue d = 0
     \<and> (wake_callback d = 0 \<longrightarrow> wake_release_user_data d = 0) \<and> out = Some 0)"

lemma own_wake_resolves:
  assumes "wake_queue d = 0"
  shows "resolve_wake table (Some d) t =
    (if wake_callback d = 0 \<and> wake_release_user_data d \<noteq> 0
     then (MLN_STATUS_INVALID_ARGUMENT, None, error_text ''a disabled wake must not retain user data'' t)
     else (MLN_STATUS_OK, None, t))"
  using assms by (simp add: resolve_wake_def)

lemma create_refuses:
  assumes "\<not> queue_arguments_ok options out"
  shows "fst (create_delivery_queue fails options t (out, w)) = Returned MLN_STATUS_INVALID_ARGUMENT"
    "snd (snd (create_delivery_queue fails options t (out, w))) = (out, w)"
proof -
  let ?opts = "options_of options"
  have refused: "delivery_queue_options_size ?opts < sizeof_mln_delivery_queue_options
    \<or> wake_queue (delivery_queue_options_wake ?opts) \<noteq> 0
    \<or> wake_callback (delivery_queue_options_wake ?opts) = 0 \<and> wake_release_user_data (delivery_queue_options_wake ?opts) \<noteq> 0
    \<or> out \<noteq> Some 0"
    using assms unfolding queue_arguments_ok_def Let_def by force
  show "fst (create_delivery_queue fails options t (out, w)) = Returned MLN_STATUS_INVALID_ARGUMENT"
    "snd (snd (create_delivery_queue fails options t (out, w))) = (out, w)"
    using refused unfolding create_delivery_queue_def Let_def options_of_def [symmetric] prod.case
    by (auto simp: own_wake_resolves)
qed

definition queue_created ::
    "mln_delivery_queue_options option \<Rightarrow> u64 \<Rightarrow> nat handle_table \<Rightarrow> 'a queue_world \<Rightarrow> 'a queue_world" where
  "queue_created options h table w = \<lparr>queue_table = table,
     queue_states = queue_states w
       @ [new_queue True (delivery_queue_options_release_abandoned_user_data (options_of options))],
     own_wakes = own_wakes w
       @ [accept_wake (fst (construct_wake (delivery_queue_options_wake (options_of options)) False 0
            (new_queue True (delivery_queue_options_release_abandoned_user_data (options_of options)) :: 'a delivery_queue)))]\<rparr>"

lemma create_valid:
  assumes "queue_arguments_ok options out"
  shows "create_delivery_queue fails options t (out, w) =
    (if fails then (Threw_exception (ascii ''std::bad_alloc''), t, (out, w))
     else case insert_handle Kind_DeliveryQueue (length (queue_states w)) (queue_table w) of
       None \<Rightarrow> (Threw_exception (ascii ''handle table is full''), t, (out, w))
     | Some (h, table) \<Rightarrow> (Returned MLN_STATUS_OK, t, (Some h, queue_created options h table w)))"
proof -
  have ok: "\<not> delivery_queue_options_size (options_of options) < sizeof_mln_delivery_queue_options"
    "wake_queue (delivery_queue_options_wake (options_of options)) = 0" "out = Some 0"
    "\<not> (wake_callback (delivery_queue_options_wake (options_of options)) = 0
        \<and> wake_release_user_data (delivery_queue_options_wake (options_of options)) \<noteq> 0)"
    using assms unfolding queue_arguments_ok_def Let_def by auto
  have wake: "resolve_wake table (Some (delivery_queue_options_wake (options_of options))) t = (MLN_STATUS_OK, None, t)"
    for table using ok(4) unfolding own_wake_resolves [OF ok(2)] by simp
  show ?thesis
    unfolding create_delivery_queue_def Let_def options_of_def [symmetric] prod.case wake queue_created_def
    using ok(1-3) by simp
qed

lemma create_cases:
  assumes "create_delivery_queue fails options t (out, w) = (result, t', (out', w'))"
  obtains (refused) "result \<noteq> Returned MLN_STATUS_OK" "out' = out" "w' = w"
    | (created) h table where "result = Returned MLN_STATUS_OK" "out' = Some h"
        "insert_handle Kind_DeliveryQueue (length (queue_states w)) (queue_table w) = Some (h, table)"
        "w' = queue_created options h table w"
proof (cases "queue_arguments_ok options out")
  case True
  with assms create_valid [OF True, of fails t w] show ?thesis
    by (auto intro: refused created split: if_splits option.splits)
next
  case False
  with assms create_refuses [OF False, of fails t w] show ?thesis
    by (intro refused) auto
qed

lemma make_completion_cases:
  assumes "make_completion fails node completion t w = (status, made, t', w')"
  obtains (same) "w' = w"
    | (held) n and d :: mln_completion where "resolve_delivery_queue (queue_table w) (completion_queue d) t = (Some n, t')"
        "w' = w\<lparr>queue_states := (queue_states w)[n := snd (hold_user_data node (completion_user_data d) (queue_states w ! n))]\<rparr>"
proof (cases completion)
  case None
  with assms show ?thesis by (intro same) (simp add: make_completion_def)
next
  case (Some d)
  obtain status1 queue t1 where r: "resolve_registration_queue ''completion'' (queue_table w) (completion_queue d)
      (completion_callback d \<noteq> 0) t = (status1, queue, t1)"
    by (metis prod_cases3)
  show ?thesis
  proof (cases queue)
    case None
    with assms Some r show ?thesis by (intro same) (auto simp: make_completion_def split: if_splits)
  next
    case q: (Some n)
    with r have n: "resolve_delivery_queue (queue_table w) (completion_queue d) t = (Some n, t1)"
      unfolding resolve_registration_queue_def by (auto split: if_splits option.splits prod.splits)
    show ?thesis
    proof (cases "w' = w")
      case False
      with assms Some r q n show ?thesis
        by (intro held [where d = d and n = n]) (auto simp: make_completion_def split: if_splits)
    qed (rule same)
  qed
qed

lemma close_queue_closed [simp]: "queue_closed (snd (close_queue exiting q))"
  by (simp add: close_queue_def Let_def)

lemma release_cases:
  assumes "release_delivery_queue exiting queue w = (effects, w')" "queue_world_ok w"
  obtains (nothing) "w' = w" "queue = 0 \<or> try_resolve Kind_DeliveryQueue (queue_table w) queue = None"
    | (released) n where "try_resolve Kind_DeliveryQueue (queue_table w) queue = Some n"
        "w' = w\<lparr>queue_table := snd (remove_handle Kind_DeliveryQueue (queue_table w) queue),
           queue_states := (queue_states w)[n := snd (close_queue exiting (queue_states w ! n))]\<rparr>"
        "effects = fst (close_queue exiting (queue_states w ! n))"
proof (cases "queue = 0 \<or> try_resolve Kind_DeliveryQueue (queue_table w) queue = None")
  case True
  with assms(1) have "w' = w" by (auto simp: release_delivery_queue_def split: if_splits)
  from this True show ?thesis by (rule nothing)
next
  case False
  then obtain n where n: "queue \<noteq> 0" "try_resolve Kind_DeliveryQueue (queue_table w) queue = Some n" by auto
  have "fst (remove_handle Kind_DeliveryQueue (queue_table w) queue) = Some n" using n(2) by (simp add: remove_result)
  then obtain table where "remove_handle Kind_DeliveryQueue (queue_table w) queue = (Some n, table)"
    by (cases "remove_handle Kind_DeliveryQueue (queue_table w) queue") simp
  with n assms(1) show ?thesis
    by (intro released [of n]) (auto simp: release_delivery_queue_def split: prod.splits)
qed

lemma queue_update_ok:
  assumes "queue_world_ok w" "n < length (queue_states w)" "queue_closed q = queue_closed (queue_states w ! n)"
  shows "queue_world_ok (w\<lparr>queue_states := (queue_states w)[n := q]\<rparr>)"
  using assms by (auto simp: queue_world_ok_def nth_list_update)

lemma queue_created_ok:
  assumes w: "queue_world_ok w" and none: "try_resolve Kind_DeliveryQueue (queue_table w) h = None"
    and look: "try_resolve Kind_DeliveryQueue table
        = (try_resolve Kind_DeliveryQueue (queue_table w))(h \<mapsto> length (queue_states w))"
    and ok: "table_ok table"
  shows "queue_world_ok (queue_created options h table w)"
proof -
  let ?look = "try_resolve Kind_DeliveryQueue (queue_table w)"
  have below: "?look h' = Some n \<Longrightarrow> n < length (queue_states w)" for h' n
    using w by (simp add: queue_world_ok_def)
  have "\<exists>h'. (?look(h \<mapsto> length (queue_states w))) h' = Some n"
    if "n < length (queue_states w)" "\<not> queue_closed (queue_states w ! n)" for n
  proof -
    from w that obtain h' where "?look h' = Some n" by (auto simp: queue_world_ok_def)
    with none show ?thesis by (intro exI [of _ h']) auto
  qed
  with w ok below show ?thesis
    by (auto simp: queue_world_ok_def queue_created_def look nth_append new_queue_def less_Suc_eq
        dest!: below split: if_splits)
qed

lemma queue_world_step_ok:
  assumes "queue_world_step exiting w w'" "queue_world_ok w"
  shows "queue_world_ok w'"
  using assms(1)
proof cases
  case (world_create fails options t out result t' out')
  from this(1) show ?thesis
  proof (cases rule: create_cases)
    case (created h table)
    have look: "try_resolve Kind_DeliveryQueue table
        = (try_resolve Kind_DeliveryQueue (queue_table w))(h \<mapsto> length (queue_states w))"
      and ok: "table_ok table"
      using created assms(2) by (auto simp: queue_world_ok_def insert_resolves dest: insert_table_ok)
    have "\<not> was_issued Kind_DeliveryQueue (queue_table w) h"
      using insert_fresh_handle [OF created(3)] assms(2) by (simp add: queue_world_ok_def)
    with assms(2) have "try_resolve Kind_DeliveryQueue (queue_table w) h = None"
      by (cases "try_resolve Kind_DeliveryQueue (queue_table w) h")
        (auto simp: queue_world_ok_def dest: resolved_was_issued)
    with assms(2) look ok show ?thesis unfolding created(4)
      by (intro queue_created_ok)
  qed (use assms(2) in simp)
next
  case (world_release queue effects)
  from this(1) assms(2) show ?thesis
  proof (cases rule: release_cases)
    case (released n)
    have look: "try_resolve Kind_DeliveryQueue (snd (remove_handle Kind_DeliveryQueue (queue_table w) queue))
        = (try_resolve Kind_DeliveryQueue (queue_table w))(queue := None)"
      by (rule remove_resolves)
    have "\<exists>h. ((try_resolve Kind_DeliveryQueue (queue_table w))(queue := None)) h = Some m"
      if "m \<noteq> n" "m < length (queue_states w)" "\<not> queue_closed (queue_states w ! m)" for m
    proof -
      from assms(2) that obtain h where "try_resolve Kind_DeliveryQueue (queue_table w) h = Some m"
        by (auto simp: queue_world_ok_def)
      with released(1) that(1) show ?thesis by (intro exI [of _ h]) auto
    qed
    with assms(2) released(1) show ?thesis unfolding released(2)
      by (auto simp: queue_world_ok_def nth_list_update look remove_table_ok split: if_splits)
  qed (use assms(2) in simp)
next
  case (world_completion fails node completion t status made t')
  from this(1) show ?thesis
  proof (cases rule: make_completion_cases)
    case (held n d)
    then have "try_resolve Kind_DeliveryQueue (queue_table w) (completion_queue d) = Some n"
      by (auto simp: resolve_queue_eq resolve_def split: option.splits)
    with assms(2) have "n < length (queue_states w)" by (auto simp: queue_world_ok_def)
    with held(2) assms(2) show ?thesis
      by (simp add: queue_update_ok hold_user_data_def)
  qed (use assms(2) in simp)
next
  case (world_use n q)
  with assms(2) show ?thesis by (simp add: queue_update_ok)
qed

lemma queue_world_reachable_ok: "queue_world_reachable exiting w \<Longrightarrow> queue_world_ok w"
  by (induction rule: queue_world_reachable.induct) (simp_all add: queue_world_ok_start queue_world_step_ok)

section \<open>The properties\<close>

text \<open>
  C37: whatever creations, releases, completions and uses the queues go through, a queue is open
  exactly while one handle names it, no two handles name the same queue, and every queue created has
  its accepted wake.
\<close>

theorem open_queues_have_handles:
  assumes "queue_world_reachable exiting w"
  shows "length (own_wakes w) = length (queue_states w)
    \<and> (if try_resolve Kind_DeliveryQueue (queue_table w) h = Some n
       then n < length (queue_states w) \<and> \<not> queue_closed (queue_states w ! n) else True)
    \<and> (if n < length (queue_states w) \<and> \<not> queue_closed (queue_states w ! n)
       then \<exists>!h. try_resolve Kind_DeliveryQueue (queue_table w) h = Some n else True)"
  using queue_world_reachable_ok [OF assms] unfolding queue_world_ok_def by (auto; blast)

text \<open>Once a handle is stale, it stays stale.\<close>

definition stale_handle :: "u64 \<Rightarrow> 'a queue_world \<Rightarrow> bool" where
  "stale_handle h w \<longleftrightarrow> was_issued Kind_DeliveryQueue (queue_table w) h
     \<and> try_resolve Kind_DeliveryQueue (queue_table w) h = None"

lemma stale_step:
  assumes "queue_world_step exiting w w'" "queue_world_ok w" "stale_handle h w"
  shows "stale_handle h w'"
  using assms(1)
proof cases
  case (world_create fails options t out result t' out')
  from this(1) show ?thesis
  proof (cases rule: create_cases)
    case (created h' table)
    from assms(2) have ok: "table_ok (queue_table w)" by (simp add: queue_world_ok_def)
    with insert_fresh_handle(1) [OF created(3)] assms(3) have "h \<noteq> h'" by (auto simp: stale_handle_def)
    with assms(3) show ?thesis
      by (simp add: stale_handle_def created(4) queue_created_def insert_issues [OF created(3) ok]
          insert_resolves [OF created(3) ok])
  qed (use assms(3) in simp)
next
  case (world_release queue effects)
  from this(1) assms(2) show ?thesis
    by (cases rule: release_cases)
      (use assms(2,3) in \<open>simp_all add: stale_handle_def remove_issues remove_resolves queue_world_ok_def\<close>)
next
  case (world_completion fails node completion t status made t')
  from this(1) show ?thesis
    by (cases rule: make_completion_cases) (use assms(3) in \<open>simp_all add: stale_handle_def\<close>)
next
  case (world_use n q)
  with assms(3) show ?thesis by (simp add: stale_handle_def)
qed

lemma stale_steps:
  "(queue_world_step exiting)\<^sup>*\<^sup>* w w' \<Longrightarrow> queue_world_ok w \<Longrightarrow> stale_handle h w \<Longrightarrow>
     queue_world_ok w' \<and> stale_handle h w'"
  by (induction rule: rtranclp_induct) (auto dest: queue_world_step_ok stale_step)

lemma stale_dispatch:
  assumes "stale_handle h w" "active_reentry t = None"
  shows "fst (mln_delivery_queue_dispatch dispatched h d t w) = MLN_STATUS_INVALID_STATE"
    "snd (snd (snd (mln_delivery_queue_dispatch dispatched h d t w))) = w"
  using assms resolve_fault [of Kind_DeliveryQueue "queue_table w" h "clear_thread_error t"]
  by (auto simp: mln_delivery_queue_dispatch_def status_boundary_def native_boundary_def
      dispatch_delivery_queue_def resolve_queue_eq stale_handle_def Let_def split: prod.splits option.splits)

lemma stale_completion:
  assumes "stale_handle (completion_queue c) w" "sizeof_mln_completion \<le> completion_size c" "completion_callback c \<noteq> 0"
  shows "fst (make_completion fails node (Some c) t w) = MLN_STATUS_INVALID_STATE"
proof -
  have nz: "completion_queue c \<noteq> 0"
    using assms(1) not_null [of "completion_queue c" Kind_DeliveryQueue] by (auto simp: stale_handle_def was_issued_eq)
  obtain r t1 where r: "resolve Kind_DeliveryQueue (queue_table w) (completion_queue c) t = (r, t1)" by fastforce
  with assms(1) resolve_fault [of Kind_DeliveryQueue "queue_table w" "completion_queue c" t]
  have "r = None" "recorded_fault_status t1 = MLN_STATUS_INVALID_STATE" by (simp_all add: stale_handle_def)
  with r nz assms(2,3) show ?thesis
    by (simp add: make_completion_def resolve_registration_queue_def resolve_queue_eq)
qed

text \<open>
  C38: a queue that is created gets a handle no queue had before, which dispatches it (\<open>BUSY\<close> only
  when its dispatch says so). Releasing the handle closes the queue, and from then on, whatever the process does,
  dispatching it or naming it in a completion is refused with \<open>INVALID_STATE\<close>.
\<close>

theorem queue_handle_life:
  assumes "queue_world_reachable exiting w"
    and create: "mln_delivery_queue_create fails options d t (out, w) = (MLN_STATUS_OK, d', t', (Some h, w1))"
    and release: "release_delivery_queue exiting h w1 = (effects, w2)"
    and later: "(queue_world_step exiting)\<^sup>*\<^sup>* w2 w3"
    and thread: "active_reentry t = None"
    and c: "completion_queue c = h" "sizeof_mln_completion \<le> completion_size c" "completion_callback c \<noteq> 0"
  shows "\<not> was_issued Kind_DeliveryQueue (queue_table w) h \<and> h \<noteq> 0
    \<and> fst (mln_delivery_queue_dispatch dispatched h d t w1)
        = (if dispatched (length (queue_states w)) then MLN_STATUS_OK else MLN_STATUS_BUSY)
    \<and> queue_closed (queue_states w2 ! length (queue_states w))
    \<and> fst (mln_delivery_queue_dispatch dispatched h d t w3) = MLN_STATUS_INVALID_STATE
    \<and> fst (make_completion fails node (Some c) t w3) = MLN_STATUS_INVALID_STATE"
proof -
  have ok: "queue_world_ok w" by (rule queue_world_reachable_ok [OF assms(1)])
  obtain result t1 where body: "create_delivery_queue fails options (clear_thread_error t) (out, w)
      = (result, t1, (Some h, w1))" "result = Returned MLN_STATUS_OK"
    using create thread
    by (auto simp: mln_delivery_queue_create_def status_boundary_def native_boundary_def Let_def
        split: prod.splits outcome.splits)
  obtain table where ins: "insert_handle Kind_DeliveryQueue (length (queue_states w)) (queue_table w) = Some (h, table)"
    and w1: "w1 = queue_created options h table w"
    using body(1) by (cases rule: create_cases) (use body(2) in auto)
  have tok: "table_ok (queue_table w)" using ok by (simp add: queue_world_ok_def)
  note fresh = insert_fresh_handle [OF ins tok]
  have look: "try_resolve Kind_DeliveryQueue (queue_table w1) h = Some (length (queue_states w))"
    by (simp add: w1 queue_created_def insert_resolves [OF ins tok])
  have ok1: "queue_world_ok w1"
    using queue_world_step_ok [OF world_create ok] body(1) by blast
  from release ok1 have closed: "queue_closed (queue_states w2 ! length (queue_states w))"
    and stale: "stale_handle h w2" and ok2: "queue_world_ok w2"
  proof -
    show "queue_world_ok w2" by (rule queue_world_step_ok [OF world_release [OF release] ok1])
    from release ok1 have "queue_closed (queue_states w2 ! length (queue_states w)) \<and> stale_handle h w2"
    proof (cases rule: release_cases)
      case (released n)
      with look have "n = length (queue_states w)" by simp
      moreover have "length (queue_states w) < length (queue_states w1)" by (simp add: w1 queue_created_def)
      moreover have "was_issued Kind_DeliveryQueue (queue_table w1) h"
        using ok1 look by (auto simp: queue_world_ok_def dest: resolved_was_issued)
      ultimately show ?thesis using ok1
        by (simp add: released(2) stale_handle_def remove_issues remove_resolves queue_world_ok_def)
    qed (use look fresh in auto)
    then show "queue_closed (queue_states w2 ! length (queue_states w))" "stale_handle h w2" by simp_all
  qed
  have "stale_handle h w3" using stale_steps [OF later ok2 stale] by simp
  with closed fresh thread c show ?thesis
    using stale_dispatch(1) [of h w3 t dispatched d] stale_completion [of c w3] look
    by (auto simp: mln_delivery_queue_dispatch_def status_boundary_def native_boundary_def
        dispatch_delivery_queue_def resolve_queue_eq resolve_def Let_def split: prod.splits)
qed

text \<open>The first queue of a process, made with the default options and released.\<close>

definition first_table :: "nat handle_table" where
  "first_table = snd (the (insert_handle Kind_DeliveryQueue 0 empty_table))"

definition first_handle :: u64 where
  "first_handle = fst (the (insert_handle Kind_DeliveryQueue (0 :: nat) empty_table))"

lemma first_insert: "insert_handle Kind_DeliveryQueue (0 :: nat) empty_table = Some (first_handle, first_table)"
  by (simp add: first_handle_def first_table_def insert_handle_def empty_table_def)

lemma first_create:
  "create_delivery_queue False None t (Some 0, no_queues :: unit queue_world)
     = (Returned MLN_STATUS_OK, t, (Some first_handle, queue_created None first_handle first_table no_queues))"
proof -
  have "queue_arguments_ok None (Some 0)"
    by (simp add: queue_arguments_ok_def options_of_def default_queue_options_def no_wake_def)
  from create_valid [OF this, of False t "no_queues :: unit queue_world"] show ?thesis
    by (simp add: no_queues_def first_insert)
qed

theorem open_queues_have_handles_witness:
  "\<exists>!h. try_resolve Kind_DeliveryQueue
      (queue_table (queue_created None first_handle first_table (no_queues :: unit queue_world))) h = Some 0"
proof -
  let ?w = "queue_created None first_handle first_table (no_queues :: unit queue_world)"
  have "queue_world_reachable False ?w"
    using world_next [OF world_start world_create] first_create [of fresh_thread] by blast
  moreover have "0 < length (queue_states ?w)" "\<not> queue_closed (queue_states ?w ! 0)"
    by (simp_all add: queue_created_def no_queues_def new_queue_def)
  ultimately show ?thesis using open_queues_have_handles [of False ?w first_handle 0] by simp
qed

theorem queue_handle_life_witness:
  "\<exists>h (w1 :: unit queue_world) (w2 :: unit queue_world).
     fst (mln_delivery_queue_create False None None fresh_thread (Some 0, no_queues :: unit queue_world)) = MLN_STATUS_OK
     \<and> fst (mln_delivery_queue_dispatch (\<lambda>_. False) h None fresh_thread w1) = MLN_STATUS_BUSY
     \<and> fst (mln_delivery_queue_dispatch (\<lambda>_. False) h None fresh_thread w2) = MLN_STATUS_INVALID_STATE
     \<and> fst (make_completion False 0 (Some (sample_completion\<lparr>completion_queue := h\<rparr>)) fresh_thread w2)
         = MLN_STATUS_INVALID_STATE"
proof -
  let ?w1 = "queue_created None first_handle first_table (no_queues :: unit queue_world)"
  obtain effects w2 where release: "release_delivery_queue False first_handle ?w1 = (effects, w2)" by fastforce
  have thread: "active_reentry fresh_thread = None" by (simp add: fresh_thread_def)
  have create: "mln_delivery_queue_create False None None fresh_thread (Some 0, no_queues :: unit queue_world)
      = (MLN_STATUS_OK, None, clear_thread_error fresh_thread, (Some first_handle, ?w1))"
    by (simp add: mln_delivery_queue_create_def status_boundary_def native_boundary_def thread first_create
        write_diagnostic_def)
  have c: "completion_queue (sample_completion\<lparr>completion_queue := first_handle\<rparr>) = first_handle"
    "sizeof_mln_completion \<le> completion_size (sample_completion\<lparr>completion_queue := first_handle\<rparr>)"
    "completion_callback (sample_completion\<lparr>completion_queue := first_handle\<rparr>) \<noteq> 0"
    by (simp_all add: sample_completion_def sizeof_mln_completion_def)
  from queue_handle_life [OF world_start create release rtranclp.rtrancl_refl thread c,
      where dispatched = "\<lambda>_. False" and node = 0]
  have "fst (mln_delivery_queue_dispatch (\<lambda>_. False) first_handle None fresh_thread ?w1) = MLN_STATUS_BUSY"
    "fst (mln_delivery_queue_dispatch (\<lambda>_. False) first_handle None fresh_thread w2) = MLN_STATUS_INVALID_STATE"
    "fst (make_completion False 0 (Some (sample_completion\<lparr>completion_queue := first_handle\<rparr>)) fresh_thread w2)
       = MLN_STATUS_INVALID_STATE"
    by simp_all
  moreover have "fst (mln_delivery_queue_create False None None fresh_thread (Some 0, no_queues :: unit queue_world))
      = MLN_STATUS_OK" by (simp add: create)
  ultimately show ?thesis by blast
qed

end
