(* ===== verification/Durations.thy ===== *)
theory Durations
  imports Api_Map
begin

text \<open>
  Milliseconds as doubles and native durations as 64-bit counts of nanoseconds (\<open>max_native_duration_ms\<close>,
  \<open>duration_from_milliseconds\<close> and \<open>is_native_duration_ms\<close>, which \<open>src/map/map.cpp\<close> and \<open>src/map/style.cpp\<close> both
  define), with the rounding of double arithmetic written out.
\<close>

section \<open>Rounding\<close>

text \<open>
  The double nearest to a real, ties to even, for values in the normal range: 53 bits from
  \<open>2 powr floor (log 2 x)\<close> down. A real is a double when it rounds to itself.
\<close>

definition round_half_even :: "real \<Rightarrow> int" where
  "round_half_even y = (let n = \<lfloor>y\<rfloor>; d = y - of_int n
     in if d < 1 / 2 \<or> d = 1 / 2 \<and> even n then n else n + 1)"

definition last_place :: "real \<Rightarrow> int" where
  "last_place x = \<lfloor>log 2 \<bar>x\<bar>\<rfloor> - 52"

definition round_double :: "real \<Rightarrow> real" where
  "round_double x =
     (if x = 0 then 0 else of_int (round_half_even (x / 2 powr of_int (last_place x))) * 2 powr of_int (last_place x))"

definition is_double :: "real \<Rightarrow> bool" where
  "is_double x \<longleftrightarrow> round_double x = x"

section \<open>Durations\<close>

text \<open>\<open>duration_cast\<close> from the largest nanosecond count: to double, then over \<open>10^6\<close>.\<close>

definition max_native_duration_ms :: double where
  "max_native_duration_ms = Finite (round_double (round_double (2 ^ 63 - 1) / 10 ^ 6))"

text \<open>
  \<open>duration_cast\<close> from milliseconds: times \<open>10^6\<close>, truncated to a 64-bit count. \<open>None\<close> is a count out of
  range, which C++ leaves undefined.
\<close>

definition truncate_real :: "real \<Rightarrow> int" where
  "truncate_real x = (if 0 \<le> x then \<lfloor>x\<rfloor> else \<lceil>x\<rceil>)"

definition duration_from_milliseconds :: "double \<Rightarrow> i64 option" where
  "duration_from_milliseconds d = (case d of
     Finite x \<Rightarrow> (let n = truncate_real (round_double (x * 10 ^ 6))
       in if - (2 ^ 63) \<le> n \<and> n < 2 ^ 63 then Some (of_int n) else None)
   | _ \<Rightarrow> None)"

definition is_native_duration_ms :: "double \<Rightarrow> bool" where
  "is_native_duration_ms milliseconds \<longleftrightarrow> is_finite milliseconds \<and> double_le (Finite 0) milliseconds
     \<and> double_lt milliseconds max_native_duration_ms"

section \<open>The arithmetic\<close>

lemma round_half_even_error: "\<bar>of_int (round_half_even y) - y\<bar> \<le> 1 / 2"
proof -
  have "of_int \<lfloor>y\<rfloor> \<le> y" "y < of_int \<lfloor>y\<rfloor> + 1" by linarith+
  then show ?thesis by (auto simp: round_half_even_def Let_def)
qed

lemma round_half_even_between:
  assumes "of_int k - 1 / 2 < y" "y < of_int k + 1 / 2"
  shows "round_half_even y = k"
proof -
  have "\<bar>of_int (round_half_even y) - (of_int k :: real)\<bar> < 1"
    using round_half_even_error [of y] assms by linarith
  then show ?thesis by linarith
qed

lemma last_place_between:
  assumes "2 ^ n \<le> x" "x < 2 ^ Suc n"
  shows "last_place x = int n - 52"
proof -
  from assms(1) have pos: "0 < x" by (smt (verit) zero_less_power)
  have "log 2 (2 ^ n) \<le> log 2 x" using assms(1) pos by (subst log_le_cancel_iff) auto
  then have lo: "real n \<le> log 2 x" by simp
  have "log 2 x < log 2 (2 ^ Suc n)" using assms pos by (subst log_less_cancel_iff) auto
  also have "log 2 (2 ^ Suc n) = real (Suc n)" by (rule log_pow_cancel) simp_all
  finally have hi: "log 2 x < real n + 1" by simp
  from lo hi have "\<lfloor>log 2 x\<rfloor> = int n" by (simp add: floor_eq_iff)
  with pos show ?thesis by (simp add: last_place_def)
qed

lemma round_double_error:
  assumes "0 \<le> x" "x < 2 ^ 63"
  shows "\<bar>round_double x - x\<bar> \<le> 512"
proof (cases "x = 0")
  case False
  with assms(1) have pos: "0 < x" by simp
  let ?p = "2 powr of_int (last_place x) :: real"
  have "log 2 x < 63"
  proof -
    have "log 2 x < log 2 (2 ^ 63)" using assms pos by (subst log_less_cancel_iff) auto
    also have "log 2 (2 ^ 63 :: real) = real 63" by (rule log_pow_cancel) simp_all
    finally show ?thesis by simp
  qed
  then have "\<lfloor>log 2 x\<rfloor> < 63" by linarith
  then have "last_place x \<le> 10" using pos by (simp add: last_place_def)
  then have "of_int (last_place x) \<le> (10 :: real)" by linarith
  then have "?p \<le> 2 powr 10" by (rule powr_mono) simp
  also have "(2 :: real) powr 10 = 1024" by (simp add: powr_numeral)
  finally have p: "?p \<le> 1024" .
  have pp: "0 < ?p" by simp
  have "round_double x - x = (of_int (round_half_even (x / ?p)) - x / ?p) * ?p"
    using False pp by (simp add: round_double_def left_diff_distrib)
  then have "\<bar>round_double x - x\<bar> = \<bar>of_int (round_half_even (x / ?p)) - x / ?p\<bar> * ?p"
    using pp by (simp add: abs_mult)
  also have "\<dots> \<le> 1 / 2 * ?p" using round_half_even_error [of "x / ?p"] pp by (intro mult_right_mono) auto
  also have "\<dots> \<le> 512" using p by simp
  finally show ?thesis .
qed (simp add: round_double_def)

lemma round_double_place:
  assumes "2 ^ n \<le> x" "x < 2 ^ Suc n"
  shows "round_double x = of_int (round_half_even (x / 2 powr (of_int (int n - 52)))) * 2 powr (of_int (int n - 52))"
proof -
  from assms(1) have "x \<noteq> 0" by (smt (verit) zero_less_power)
  with last_place_between [OF assms] show ?thesis by (simp add: round_double_def)
qed

lemma powr_minus_nine: "2 powr (- 9) = (1 / 512 :: real)"
  by (simp add: powr_minus powr_numeral)

lemma largest_count: "round_double (2 ^ 63 - 1) = 2 ^ 63"
proof -
  have "round_half_even ((2 ^ 63 - 1) / 2 powr (of_int (int 62 - 52))) = 2 ^ 53"
    by (rule round_half_even_between) (simp_all add: powr_numeral)
  moreover have "round_double (2 ^ 63 - 1) = of_int (round_half_even ((2 ^ 63 - 1) / 2 powr (of_int (int 62 - 52))))
      * 2 powr (of_int (int 62 - 52))"
    by (rule round_double_place) simp_all
  ultimately show ?thesis by (simp add: powr_numeral)
qed

lemma max_native_duration_value: "max_native_duration_ms = Finite (4722366482869645 / 512)"
proof -
  let ?x = "2 ^ 63 / 10 ^ 6 :: real"
  have "round_half_even (?x / 2 powr (of_int (int 43 - 52))) = 4722366482869645"
    by (rule round_half_even_between) (simp_all add: powr_minus_nine)
  moreover have "round_double ?x = of_int (round_half_even (?x / 2 powr (of_int (int 43 - 52))))
      * 2 powr (of_int (int 43 - 52))"
    by (rule round_double_place) simp_all
  ultimately have "round_double ?x = 4722366482869645 / 512" by (simp add: powr_minus_nine)
  then show ?thesis by (simp only: max_native_duration_ms_def largest_count)
qed

text \<open>The margin: the last double below the bound is far enough from \<open>2 ^ 63\<close> nanoseconds.\<close>

lemma accepted_product:
  assumes "0 \<le> x" "x < 4722366482869645 / 512" "is_double x"
  shows "x * 10 ^ 6 \<le> 2 ^ 63 - 2048"
proof (cases "x < 2 ^ 43")
  case True
  then show ?thesis by simp
next
  case False
  then have "2 ^ 43 \<le> x" by simp
  moreover have "x < 2 ^ Suc 43" using assms(2) by simp
  ultimately have "round_double x = of_int (round_half_even (x / 2 powr (of_int (int 43 - 52)))) * 2 powr (of_int (int 43 - 52))"
    by (rule round_double_place)
  then obtain m :: int where m: "x = of_int m / 512"
    using assms(3) by (simp add: is_double_def powr_minus_nine)
  with assms(2) have "of_int m < (4722366482869645 :: real)" by simp
  then have "m \<le> 4722366482869644" by linarith
  then have "of_int m \<le> (4722366482869644 :: real)" by linarith
  with m show ?thesis by simp
qed

lemma duration_fits:
  assumes "is_native_duration_ms (Finite x)" "is_double x"
  shows "\<exists>n. duration_from_milliseconds (Finite x) = Some (of_nat n) \<and> n < 2 ^ 63
      \<and> \<bar>real n - x * 10 ^ 6\<bar> \<le> 513"
proof -
  from assms(1) have x: "0 \<le> x" "x < 4722366482869645 / 512"
    by (simp_all add: is_native_duration_ms_def max_native_duration_value)
  let ?y = "round_double (x * 10 ^ 6)"
  have product: "0 \<le> x * 10 ^ 6" "x * 10 ^ 6 \<le> 2 ^ 63 - 2048" using x accepted_product [OF x assms(2)] by simp_all
  then have "\<bar>?y - x * 10 ^ 6\<bar> \<le> 512" by (intro round_double_error) simp_all
  with product have y: "?y < 2 ^ 63" "- 512 \<le> ?y" "\<bar>?y - x * 10 ^ 6\<bar> \<le> 512" by simp_all
  have nonneg: "0 \<le> ?y"
  proof (cases "x = 0")
    case False
    let ?p = "2 powr of_int (last_place (x * 10 ^ 6)) :: real"
    have "0 \<le> x * 10 ^ 6 / ?p" using x by simp
    then have "0 \<le> round_half_even (x * 10 ^ 6 / ?p)" by (auto simp: round_half_even_def Let_def)
    with False show ?thesis by (simp add: round_double_def)
  qed (simp add: round_double_def)
  define n where "n = nat \<lfloor>?y\<rfloor>"
  have n: "int n = \<lfloor>?y\<rfloor>" using nonneg by (simp add: n_def)
  have "\<lfloor>?y\<rfloor> < 2 ^ 63" using y(1) by (simp add: floor_less_iff)
  with n have n_int: "int n < 2 ^ 63" by linarith
  then have small: "n < 2 ^ 63" by simp
  have "truncate_real ?y = int n" using nonneg n by (simp add: truncate_real_def)
  with n_int have "duration_from_milliseconds (Finite x) = Some (of_nat n)"
    unfolding duration_from_milliseconds_def by (simp add: Let_def)
  moreover note small
  moreover have "\<bar>real n - x * 10 ^ 6\<bar> \<le> 513"
  proof -
    have "real n = of_int \<lfloor>?y\<rfloor>" using n by (metis of_int_of_nat_eq)
    then have "real n \<le> ?y" "?y < real n + 1" by linarith+
    with y(3) show ?thesis by linarith
  qed
  ultimately show "\<exists>n. duration_from_milliseconds (Finite x) = Some (of_nat n) \<and> n < 2 ^ 63
      \<and> \<bar>real n - x * 10 ^ 6\<bar> \<le> 513" by blast
qed

lemma bound_overflows: "duration_from_milliseconds max_native_duration_ms = None"
proof -
  let ?b = "4722366482869645 / 512 * 10 ^ 6 :: real"
  have "round_half_even (?b / 2 powr (of_int (int 62 - 52))) = 2 ^ 53"
    by (rule round_half_even_between) (simp_all add: powr_numeral)
  moreover have "round_double ?b = of_int (round_half_even (?b / 2 powr (of_int (int 62 - 52))))
      * 2 powr (of_int (int 62 - 52))"
    by (rule round_double_place) simp_all
  ultimately have "round_double ?b = 2 ^ 63" by (simp add: powr_numeral)
  then show "duration_from_milliseconds max_native_duration_ms = None"
    by (simp add: max_native_duration_value duration_from_milliseconds_def truncate_real_def)
qed

text \<open>
  C40: every accepted duration converts to a native count without overflow: the count is not negative,
  below \<open>2 ^ 63\<close>, and within 513 nanoseconds of the exact value. The bound is exact: the bound itself, the
  next double, would convert to \<open>2 ^ 63\<close>, which no count can hold.
\<close>

theorem accepted_durations_fit:
  assumes "is_native_duration_ms (Finite x)" "is_double x"
  shows "(\<exists>n. duration_from_milliseconds (Finite x) = Some (of_nat n) \<and> n < 2 ^ 63
      \<and> \<bar>real n - x * 10 ^ 6\<bar> \<le> 513)
    \<and> duration_from_milliseconds max_native_duration_ms = None"
  using duration_fits [OF assms] bound_overflows by blast

theorem accepted_durations_fit_witness:
  "\<exists>n. duration_from_milliseconds (Finite 250) = Some (of_nat n) \<and> n < 2 ^ 63 \<and> \<bar>real n - 250 * 10 ^ 6\<bar> \<le> 513"
proof -
  have "is_double 250"
  proof -
    have "round_half_even (250 / 2 powr (of_int (int 7 - 52))) = 250 * 2 ^ 45"
      by (rule round_half_even_between) (simp_all add: powr_minus powr_numeral)
    moreover have "round_double 250 = of_int (round_half_even (250 / 2 powr (of_int (int 7 - 52))))
        * 2 powr (of_int (int 7 - 52))"
      by (rule round_double_place) simp_all
    ultimately show ?thesis by (simp add: is_double_def powr_minus powr_numeral)
  qed
  moreover have "is_native_duration_ms (Finite 250)"
    by (simp add: is_native_duration_ms_def max_native_duration_value)
  ultimately show ?thesis using accepted_durations_fit [of 250] by blast
qed

end
