(* ===== verification/Map_Options.thy ===== *)
theory Map_Options
  imports Durations Api_Runtime Diagnostics
begin

text \<open>
  The validation of the options a host passes for a map (\<open>validate_*\<close> in \<open>src/map/map.cpp\<close> and
  \<open>src/map/logical_extent.hpp\<close>): each validator is the sequence of its checks, in the order of the code, and
  returns at the first that fails, with its message in the thread's buffer.
\<close>

unbundle bit_operations_syntax

section \<open>Checks\<close>

type_synonym check = "thread_locals \<Rightarrow> mln_status \<times> thread_locals"

definition refuse_if :: "bool \<Rightarrow> string \<Rightarrow> check" where
  "refuse_if violated message t =
     (if violated then (MLN_STATUS_INVALID_ARGUMENT, error_text message t) else (MLN_STATUS_OK, t))"

definition check_if :: "bool \<Rightarrow> check \<Rightarrow> check" where
  "check_if enabled c t = (if enabled then c t else (MLN_STATUS_OK, t))"

fun in_order :: "check list \<Rightarrow> check" where
  "in_order [] t = (MLN_STATUS_OK, t)"
| "in_order (c # cs) t = (case c t of (status, t') \<Rightarrow>
     if status \<noteq> MLN_STATUS_OK then (status, t') else in_order cs t')"

text \<open>A check of a pointer, with the message for null, or with none where null is accepted.\<close>

definition check_pointer :: "string \<Rightarrow> 'a option \<Rightarrow> ('a \<Rightarrow> check) \<Rightarrow> check" where
  "check_pointer message p c = (case p of None \<Rightarrow> refuse_if True message | Some x \<Rightarrow> c x)"

definition check_optional :: "'a option \<Rightarrow> ('a \<Rightarrow> check) \<Rightarrow> check" where
  "check_optional p c = (case p of None \<Rightarrow> in_order [] | Some x \<Rightarrow> c x)"

text \<open>The known bits of a set: the union of its flags.\<close>

definition mask_of :: "('e \<Rightarrow> 'w::len word) \<Rightarrow> 'e list \<Rightarrow> 'w word" where
  "mask_of code flags = foldr (\<lambda>e mask. code e OR mask) flags 0"

abbreviation not_finite :: "double \<Rightarrow> bool" where
  "not_finite d \<equiv> \<not> is_finite d"

section \<open>Values\<close>

definition validate_lat_lng :: "mln_lat_lng \<Rightarrow> check" where
  "validate_lat_lng c =
     refuse_if (not_finite (lat_lng_latitude c) \<or> double_lt (lat_lng_latitude c) (Finite (- 90))
         \<or> double_lt (Finite 90) (lat_lng_latitude c) \<or> not_finite (lat_lng_longitude c))
       ''latitude must be finite and within [-90, 90], and longitude must be finite''"

definition validate_lat_lng_bounds :: "mln_lat_lng_bounds \<Rightarrow> check" where
  "validate_lat_lng_bounds b = in_order
     [validate_lat_lng (lat_lng_bounds_southwest b),
      validate_lat_lng (lat_lng_bounds_northeast b),
      refuse_if (double_lt (lat_lng_latitude (lat_lng_bounds_northeast b)) (lat_lng_latitude (lat_lng_bounds_southwest b))
          \<or> double_lt (lat_lng_longitude (lat_lng_bounds_northeast b)) (lat_lng_longitude (lat_lng_bounds_southwest b)))
        ''bounds southwest must be less than or equal to northeast'']"

text \<open>An array is the memory its pointer reaches; the loop reads its first \<open>count\<close> elements.\<close>

definition validate_lat_lng_array :: "mln_lat_lng list option \<Rightarrow> usize \<Rightarrow> bool \<Rightarrow> check" where
  "validate_lat_lng_array coordinates count allow_empty =
     (if count = 0 then refuse_if (\<not> allow_empty) ''coordinate_count must be greater than 0''
      else check_pointer ''coordinates must not be null'' coordinates
        (\<lambda>cs. in_order (map validate_lat_lng (take (unat count) cs))))"

definition validate_screen_point :: "mln_screen_point \<Rightarrow> check" where
  "validate_screen_point p = refuse_if (not_finite (screen_point_x p) \<or> not_finite (screen_point_y p))
     ''screen point values must be finite''"

definition validate_screen_point_array :: "mln_screen_point list option \<Rightarrow> usize \<Rightarrow> check" where
  "validate_screen_point_array points count =
     (if count = 0 then in_order []
      else check_pointer ''points must not be null'' points
        (\<lambda>ps. in_order (map validate_screen_point (take (unat count) ps))))"

definition validate_edge_insets :: "mln_edge_insets \<Rightarrow> check" where
  "validate_edge_insets p =
     refuse_if (not_finite (edge_insets_top p) \<or> not_finite (edge_insets_left p) \<or> not_finite (edge_insets_bottom p)
         \<or> not_finite (edge_insets_right p) \<or> double_lt (edge_insets_top p) (Finite 0)
         \<or> double_lt (edge_insets_left p) (Finite 0) \<or> double_lt (edge_insets_bottom p) (Finite 0)
         \<or> double_lt (edge_insets_right p) (Finite 0))
       ''padding values must be finite and greater than or equal to 0''"

definition validate_projected_meters :: "mln_projected_meters \<Rightarrow> check" where
  "validate_projected_meters m =
     refuse_if (not_finite (projected_meters_northing m) \<or> not_finite (projected_meters_easting m))
       ''projected meter values must be finite''"

definition validate_logical_extent :: "mln_logical_extent \<Rightarrow> string \<Rightarrow> check" where
  "validate_logical_extent e message =
     refuse_if (logical_extent_width e = 0 \<or> logical_extent_height e = 0
         \<or> not_finite (logical_extent_scale_factor e) \<or> double_le (logical_extent_scale_factor e) (Finite 0)) message"

definition validate_logical_size :: "mln_logical_size \<Rightarrow> string \<Rightarrow> check" where
  "validate_logical_size s message = refuse_if (logical_size_width s = 0 \<or> logical_size_height s = 0) message"

definition validate_vec3 :: "mln_vec3 \<Rightarrow> string \<Rightarrow> check" where
  "validate_vec3 v name = refuse_if (not_finite (vec3_x v) \<or> not_finite (vec3_y v) \<or> not_finite (vec3_z v)) name"

definition validate_quaternion :: "mln_quaternion \<Rightarrow> check" where
  "validate_quaternion q = in_order
     [refuse_if (not_finite (quaternion_x q) \<or> not_finite (quaternion_y q) \<or> not_finite (quaternion_z q)
          \<or> not_finite (quaternion_w q)) ''free camera orientation values must be finite'',
      refuse_if (double_eq (quaternion_x q) (Finite 0) \<and> double_eq (quaternion_y q) (Finite 0)
          \<and> double_eq (quaternion_z q) (Finite 0) \<and> double_eq (quaternion_w q) (Finite 0))
        ''free camera orientation must not be zero length'']"

definition validate_frustum_offset :: "mln_edge_insets \<Rightarrow> check" where
  "validate_frustum_offset p = in_order
     [refuse_if (not_finite (edge_insets_top p) \<or> not_finite (edge_insets_left p) \<or> not_finite (edge_insets_bottom p)
          \<or> not_finite (edge_insets_right p)) ''frustum offset values must be finite'',
      refuse_if (double_lt (edge_insets_top p) (Finite 0) \<or> double_lt (edge_insets_left p) (Finite 0)
          \<or> double_lt (edge_insets_bottom p) (Finite 0) \<or> double_lt (edge_insets_right p) (Finite 0))
        ''frustum offset values must be greater than or equal to 0'']"

section \<open>Options\<close>

definition sizeof_mln_map_options :: u32 where "sizeof_mln_map_options = 48"
definition sizeof_mln_camera_options :: u32 where "sizeof_mln_camera_options = 120"
definition sizeof_mln_camera_fit_options :: u32 where "sizeof_mln_camera_fit_options = 56"
definition sizeof_mln_camera_fit_update :: u32 where "sizeof_mln_camera_fit_update = 168"
definition sizeof_mln_bound_options :: u32 where "sizeof_mln_bound_options = 72"
definition sizeof_mln_free_camera_options :: u32 where "sizeof_mln_free_camera_options = 64"
definition sizeof_mln_map_viewport_options :: u32 where "sizeof_mln_map_viewport_options = 56"
definition sizeof_mln_map_tile_options :: u32 where "sizeof_mln_map_tile_options = 56"

definition validate_map_options :: "mln_map_options option \<Rightarrow> check" where
  "validate_map_options options = check_pointer ''map options must not be null'' options (\<lambda>m. in_order
     [refuse_if (map_options_size m < sizeof_mln_map_options) ''mln_map_options.size is too small'',
      refuse_if (has_unknown_bits (map_options_fields m) (mask_of mln_map_option_field_code
          [MLN_MAP_OPTION_EVENT_MASK, MLN_MAP_OPTION_TILE_CACHE_ENABLED]))
        ''mln_map_options.fields contains unknown bits'',
      refuse_if (has_flag (map_options_fields m) (mln_map_option_field_code MLN_MAP_OPTION_EVENT_MASK)
          \<and> has_unknown_bits (map_options_event_mask m) (mln_runtime_event_flag_code MLN_RUNTIME_EVENT_FLAG_ALL))
        ''mln_map_options.event_mask contains unknown bits'',
      validate_logical_extent (map_options_initial_extent m)
        ''initial extent dimensions and scale factor must be positive'',
      refuse_if (enum_of mln_map_mode_code mln_map_mode_values (map_options_map_mode m) = None)
        ''map_mode is invalid''])"

definition validate_camera_fields :: "mln_camera_options \<Rightarrow> check" where
  "validate_camera_fields c = (let has = (\<lambda>f. has_flag (camera_options_fields c) (mln_camera_option_field_code f)) in in_order
     [refuse_if (has_unknown_bits (camera_options_fields c) (mask_of mln_camera_option_field_code
          [MLN_CAMERA_OPTION_CENTER, MLN_CAMERA_OPTION_ZOOM, MLN_CAMERA_OPTION_BEARING, MLN_CAMERA_OPTION_PITCH,
           MLN_CAMERA_OPTION_CENTER_ALTITUDE, MLN_CAMERA_OPTION_PADDING, MLN_CAMERA_OPTION_ANCHOR,
           MLN_CAMERA_OPTION_ROLL, MLN_CAMERA_OPTION_FOV]))
        ''mln_camera_options.fields contains unknown bits'',
      check_if (has MLN_CAMERA_OPTION_CENTER) (validate_lat_lng (camera_options_center c)),
      refuse_if (has MLN_CAMERA_OPTION_CENTER_ALTITUDE \<and> not_finite (camera_options_center_altitude c)
          \<or> has MLN_CAMERA_OPTION_ZOOM \<and> not_finite (camera_options_zoom c)
          \<or> has MLN_CAMERA_OPTION_BEARING \<and> not_finite (camera_options_bearing c)
          \<or> has MLN_CAMERA_OPTION_PITCH \<and> not_finite (camera_options_pitch c)
          \<or> has MLN_CAMERA_OPTION_ROLL \<and> not_finite (camera_options_roll c)
          \<or> has MLN_CAMERA_OPTION_FOV \<and> not_finite (camera_options_field_of_view c))
        ''enabled camera numeric fields must be finite'',
      check_if (has MLN_CAMERA_OPTION_PADDING) (validate_edge_insets (camera_options_padding c)),
      check_if (has MLN_CAMERA_OPTION_ANCHOR) (validate_screen_point (camera_options_anchor c))])"

definition validate_camera_options :: "mln_camera_options option \<Rightarrow> check" where
  "validate_camera_options camera = check_pointer ''camera must not be null'' camera (\<lambda>c. in_order
     [refuse_if (camera_options_size c < sizeof_mln_camera_options) ''mln_camera_options.size is too small'',
      validate_camera_fields c])"

definition validate_animation_options :: "mln_animation_options option \<Rightarrow> check" where
  "validate_animation_options animation = check_optional animation (\<lambda>a.
     let has = (\<lambda>f. has_flag (animation_options_fields a) (mln_animation_option_field_code f));
         end_handler = animation_options_end_handler a;
         easing = animation_options_easing a
     in in_order
     [refuse_if (has_unknown_bits (animation_options_fields a) (mask_of mln_animation_option_field_code
          [MLN_ANIMATION_OPTION_DURATION, MLN_ANIMATION_OPTION_VELOCITY, MLN_ANIMATION_OPTION_MIN_ZOOM,
           MLN_ANIMATION_OPTION_EASING, MLN_ANIMATION_OPTION_TRANSITION_ID]))
        ''mln_animation_options.fields contains unknown bits'',
      refuse_if (camera_transition_handler_callback end_handler = 0
          \<and> camera_transition_handler_release_user_data end_handler \<noteq> 0)
        ''a disabled camera transition handler must not retain user data'',
      refuse_if (has MLN_ANIMATION_OPTION_DURATION \<and> \<not> is_native_duration_ms (animation_options_duration_ms a))
        ''animation duration_ms must fit the native duration range'',
      refuse_if (has MLN_ANIMATION_OPTION_VELOCITY
          \<and> (not_finite (animation_options_velocity a) \<or> double_le (animation_options_velocity a) (Finite 0)))
        ''animation velocity must be positive and finite'',
      refuse_if (has MLN_ANIMATION_OPTION_MIN_ZOOM \<and> not_finite (animation_options_min_zoom a))
        ''animation min_zoom must be finite'',
      refuse_if (has MLN_ANIMATION_OPTION_EASING
          \<and> (not_finite (unit_bezier_x1 easing) \<or> not_finite (unit_bezier_y1 easing)
             \<or> not_finite (unit_bezier_x2 easing) \<or> not_finite (unit_bezier_y2 easing)
             \<or> double_lt (unit_bezier_x1 easing) (Finite 0) \<or> double_lt (Finite 1) (unit_bezier_x1 easing)
             \<or> double_lt (unit_bezier_x2 easing) (Finite 0) \<or> double_lt (Finite 1) (unit_bezier_x2 easing)))
        ''animation easing x values must be within [0, 1] and all easing values must be finite''])"

definition validate_camera_fit_fields :: "mln_camera_fit_options \<Rightarrow> check" where
  "validate_camera_fit_fields f =
     (let has = (\<lambda>b. has_flag (camera_fit_options_fields f) (mln_camera_fit_option_field_code b)) in in_order
     [refuse_if (has_unknown_bits (camera_fit_options_fields f) (mask_of mln_camera_fit_option_field_code
          [MLN_CAMERA_FIT_OPTION_PADDING, MLN_CAMERA_FIT_OPTION_BEARING, MLN_CAMERA_FIT_OPTION_PITCH]))
        ''mln_camera_fit_options.fields contains unknown bits'',
      check_if (has MLN_CAMERA_FIT_OPTION_PADDING) (validate_edge_insets (camera_fit_options_padding f)),
      refuse_if (has MLN_CAMERA_FIT_OPTION_BEARING \<and> not_finite (camera_fit_options_bearing f)
          \<or> has MLN_CAMERA_FIT_OPTION_PITCH \<and> not_finite (camera_fit_options_pitch f))
        ''camera fit bearing and pitch must be finite''])"

definition validate_camera_fit_options :: "mln_camera_fit_options option \<Rightarrow> check" where
  "validate_camera_fit_options options = check_optional options (\<lambda>f. in_order
     [refuse_if (camera_fit_options_size f < sizeof_mln_camera_fit_options) ''mln_camera_fit_options.size is too small'',
      validate_camera_fit_fields f])"

definition validate_camera_fit_update :: "mln_camera_fit_update option \<Rightarrow> check" where
  "validate_camera_fit_update update =
     check_pointer ''camera fit update must have a valid size'' update (\<lambda>u. in_order
     [refuse_if (camera_fit_update_size u < sizeof_mln_camera_fit_update) ''camera fit update must have a valid size'',
      refuse_if (mln_camera_update_mode_code MLN_CAMERA_UPDATE_MODE_FLY < camera_fit_update_mode u)
        ''camera fit update mode is invalid'',
      validate_camera_fit_fields (camera_fit_update_fit u),
      validate_animation_options (Some (camera_fit_update_animation u))])"

definition validate_bound_options :: "mln_bound_options option \<Rightarrow> check" where
  "validate_bound_options options = check_pointer ''bound options must not be null'' options (\<lambda>b.
     let has = (\<lambda>f. has_flag (bound_options_fields b) (mln_bound_option_field_code f)) in in_order
     [refuse_if (bound_options_size b < sizeof_mln_bound_options) ''mln_bound_options.size is too small'',
      refuse_if (has_unknown_bits (bound_options_fields b) (mask_of mln_bound_option_field_code
          [MLN_BOUND_OPTION_BOUNDS, MLN_BOUND_OPTION_MIN_ZOOM, MLN_BOUND_OPTION_MAX_ZOOM, MLN_BOUND_OPTION_MIN_PITCH,
           MLN_BOUND_OPTION_MAX_PITCH, MLN_BOUND_OPTION_UNBOUNDED]))
        ''mln_bound_options.fields contains unknown bits'',
      refuse_if (has MLN_BOUND_OPTION_BOUNDS \<and> has MLN_BOUND_OPTION_UNBOUNDED)
        ''MLN_BOUND_OPTION_BOUNDS and MLN_BOUND_OPTION_UNBOUNDED are mutually exclusive'',
      check_if (has MLN_BOUND_OPTION_BOUNDS) (validate_lat_lng_bounds (bound_options_bounds b)),
      refuse_if (has MLN_BOUND_OPTION_MIN_ZOOM \<and> not_finite (bound_options_min_zoom b)
          \<or> has MLN_BOUND_OPTION_MAX_ZOOM \<and> not_finite (bound_options_max_zoom b)
          \<or> has MLN_BOUND_OPTION_MIN_PITCH \<and> not_finite (bound_options_min_pitch b)
          \<or> has MLN_BOUND_OPTION_MAX_PITCH \<and> not_finite (bound_options_max_pitch b))
        ''bound numeric fields must be finite'',
      refuse_if (has MLN_BOUND_OPTION_MIN_ZOOM \<and> has MLN_BOUND_OPTION_MAX_ZOOM
          \<and> double_lt (bound_options_max_zoom b) (bound_options_min_zoom b))
        ''min_zoom must be less than or equal to max_zoom'',
      refuse_if (has MLN_BOUND_OPTION_MIN_PITCH \<and> has MLN_BOUND_OPTION_MAX_PITCH
          \<and> double_lt (bound_options_max_pitch b) (bound_options_min_pitch b))
        ''min_pitch must be less than or equal to max_pitch''])"

definition validate_free_camera_options :: "mln_free_camera_options option \<Rightarrow> check" where
  "validate_free_camera_options options = check_pointer ''free camera options must not be null'' options (\<lambda>f.
     let has = (\<lambda>b. has_flag (free_camera_options_fields f) (mln_free_camera_option_field_code b)) in in_order
     [refuse_if (free_camera_options_size f < sizeof_mln_free_camera_options)
        ''mln_free_camera_options.size is too small'',
      refuse_if (has_unknown_bits (free_camera_options_fields f) (mask_of mln_free_camera_option_field_code
          [MLN_FREE_CAMERA_OPTION_POSITION, MLN_FREE_CAMERA_OPTION_ORIENTATION]))
        ''mln_free_camera_options.fields contains unknown bits'',
      check_if (has MLN_FREE_CAMERA_OPTION_POSITION)
        (validate_vec3 (free_camera_options_position f) ''free camera position values must be finite''),
      check_if (has MLN_FREE_CAMERA_OPTION_ORIENTATION) (validate_quaternion (free_camera_options_orientation f))])"

definition validate_debug_flags :: "u32 \<Rightarrow> check" where
  "validate_debug_flags flags = refuse_if (has_unknown_bits flags (mask_of mln_map_debug_flag_code
     [MLN_MAP_DEBUG_TILE_BORDERS, MLN_MAP_DEBUG_PARSE_STATUS, MLN_MAP_DEBUG_TIMESTAMPS, MLN_MAP_DEBUG_COLLISION,
      MLN_MAP_DEBUG_OVERDRAW, MLN_MAP_DEBUG_STENCIL_CLIP, MLN_MAP_DEBUG_DEPTH_BUFFER]))
     ''debug flags contain unknown bits''"

definition validate_viewport_options :: "mln_map_viewport_options option \<Rightarrow> check" where
  "validate_viewport_options options = check_pointer ''viewport options must not be null'' options (\<lambda>v.
     let has = (\<lambda>f. has_flag (map_viewport_options_fields v) (mln_map_viewport_option_field_code f)) in in_order
     [refuse_if (map_viewport_options_size v < sizeof_mln_map_viewport_options)
        ''mln_map_viewport_options.size is too small'',
      refuse_if (has_unknown_bits (map_viewport_options_fields v) (mask_of mln_map_viewport_option_field_code
          [MLN_MAP_VIEWPORT_OPTION_NORTH_ORIENTATION, MLN_MAP_VIEWPORT_OPTION_CONSTRAIN_MODE,
           MLN_MAP_VIEWPORT_OPTION_VIEWPORT_MODE, MLN_MAP_VIEWPORT_OPTION_FRUSTUM_OFFSET]))
        ''mln_map_viewport_options.fields contains unknown bits'',
      refuse_if (has MLN_MAP_VIEWPORT_OPTION_NORTH_ORIENTATION
          \<and> enum_of mln_north_orientation_code mln_north_orientation_values (map_viewport_options_north_orientation v) = None)
        ''north_orientation is invalid'',
      refuse_if (has MLN_MAP_VIEWPORT_OPTION_CONSTRAIN_MODE
          \<and> enum_of mln_constrain_mode_code mln_constrain_mode_values (map_viewport_options_constrain_mode v) = None)
        ''constrain_mode is invalid'',
      refuse_if (has MLN_MAP_VIEWPORT_OPTION_VIEWPORT_MODE
          \<and> enum_of mln_viewport_mode_code mln_viewport_mode_values (map_viewport_options_viewport_mode v) = None)
        ''viewport_mode is invalid'',
      check_if (has MLN_MAP_VIEWPORT_OPTION_FRUSTUM_OFFSET)
        (validate_frustum_offset (map_viewport_options_frustum_offset v))])"

definition validate_tile_options :: "mln_map_tile_options option \<Rightarrow> check" where
  "validate_tile_options options = check_pointer ''tile options must not be null'' options (\<lambda>v.
     let has = (\<lambda>f. has_flag (map_tile_options_fields v) (mln_map_tile_option_field_code f)) in in_order
     [refuse_if (map_tile_options_size v < sizeof_mln_map_tile_options) ''mln_map_tile_options.size is too small'',
      refuse_if (has_unknown_bits (map_tile_options_fields v) (mask_of mln_map_tile_option_field_code
          [MLN_MAP_TILE_OPTION_PREFETCH_ZOOM_DELTA, MLN_MAP_TILE_OPTION_LOD_MIN_RADIUS, MLN_MAP_TILE_OPTION_LOD_SCALE,
           MLN_MAP_TILE_OPTION_LOD_PITCH_THRESHOLD, MLN_MAP_TILE_OPTION_LOD_ZOOM_SHIFT, MLN_MAP_TILE_OPTION_LOD_MODE]))
        ''mln_map_tile_options.fields contains unknown bits'',
      refuse_if (has MLN_MAP_TILE_OPTION_PREFETCH_ZOOM_DELTA \<and> 255 < map_tile_options_prefetch_zoom_delta v)
        ''prefetch_zoom_delta must be at most 255'',
      refuse_if (has MLN_MAP_TILE_OPTION_LOD_MIN_RADIUS \<and> not_finite (map_tile_options_lod_min_radius v)
          \<or> has MLN_MAP_TILE_OPTION_LOD_SCALE \<and> not_finite (map_tile_options_lod_scale v)
          \<or> has MLN_MAP_TILE_OPTION_LOD_PITCH_THRESHOLD \<and> not_finite (map_tile_options_lod_pitch_threshold v)
          \<or> has MLN_MAP_TILE_OPTION_LOD_ZOOM_SHIFT \<and> not_finite (map_tile_options_lod_zoom_shift v))
        ''tile LOD values must be finite'',
      refuse_if (has MLN_MAP_TILE_OPTION_LOD_MODE
          \<and> enum_of mln_tile_lod_mode_code mln_tile_lod_mode_values (map_tile_options_lod_mode v) = None)
        ''lod_mode is invalid''])"

section \<open>Defaults\<close>

definition zero_point :: mln_screen_point where
  "zero_point = \<lparr>screen_point_x = Finite 0, screen_point_y = Finite 0\<rparr>"

definition zero_insets :: mln_edge_insets where
  "zero_insets = \<lparr>edge_insets_top = Finite 0, edge_insets_left = Finite 0, edge_insets_bottom = Finite 0,
     edge_insets_right = Finite 0\<rparr>"

definition camera_options_default :: mln_camera_options where
  "camera_options_default = \<lparr>camera_options_size = sizeof_mln_camera_options, camera_options_fields = 0,
     camera_options_center = \<lparr>lat_lng_latitude = Finite 0, lat_lng_longitude = Finite 0\<rparr>,
     camera_options_center_altitude = Finite 0, camera_options_padding = zero_insets,
     camera_options_anchor = zero_point, camera_options_zoom = Finite 0, camera_options_bearing = Finite 0,
     camera_options_pitch = Finite 0, camera_options_roll = Finite 0, camera_options_field_of_view = Finite 0\<rparr>"

definition camera_fit_options_default :: mln_camera_fit_options where
  "camera_fit_options_default = \<lparr>camera_fit_options_size = sizeof_mln_camera_fit_options,
     camera_fit_options_fields = 0, camera_fit_options_padding = zero_insets,
     camera_fit_options_bearing = Finite 0, camera_fit_options_pitch = Finite 0\<rparr>"

definition mln_camera_to_options :: "mln_camera \<Rightarrow> mln_camera_options" where
  "mln_camera_to_options camera = \<lparr>camera_options_size = sizeof_mln_camera_options,
     camera_options_fields = mask_of mln_camera_option_field_code
       [MLN_CAMERA_OPTION_CENTER, MLN_CAMERA_OPTION_CENTER_ALTITUDE, MLN_CAMERA_OPTION_PADDING,
        MLN_CAMERA_OPTION_ZOOM, MLN_CAMERA_OPTION_BEARING, MLN_CAMERA_OPTION_PITCH, MLN_CAMERA_OPTION_ROLL,
        MLN_CAMERA_OPTION_FOV],
     camera_options_center = camera_center camera,
     camera_options_center_altitude = camera_center_altitude camera,
     camera_options_padding = camera_padding camera,
     camera_options_anchor = zero_point,
     camera_options_zoom = camera_zoom camera, camera_options_bearing = camera_bearing camera,
     camera_options_pitch = camera_pitch camera, camera_options_roll = camera_roll camera,
     camera_options_field_of_view = camera_field_of_view camera\<rparr>"

section \<open>A sequence of checks accepts exactly when every check does\<close>

text \<open>A check is decided when it does not look at the thread: it accepts and leaves it alone, or refuses with one message.\<close>

definition passes :: "check \<Rightarrow> bool" where
  "passes c \<longleftrightarrow> (\<forall>t. c t = (MLN_STATUS_OK, t))"

definition refuses :: "check \<Rightarrow> string \<Rightarrow> bool" where
  "refuses c message \<longleftrightarrow> (\<forall>t. c t = (MLN_STATUS_INVALID_ARGUMENT, error_text message t))"

definition decided :: "check \<Rightarrow> bool" where
  "decided c \<longleftrightarrow> passes c \<or> (\<exists>message. message \<noteq> '''' \<and> refuses c message)"

named_theorems deciding and passing

lemma refuses_not_passes: "refuses c message \<Longrightarrow> \<not> passes c"
  by (auto simp: refuses_def passes_def dest: spec [of _ undefined])

lemma decided_refuse_if [deciding]: "message \<noteq> '''' \<Longrightarrow> decided (refuse_if b message)"
  by (cases b) (auto simp: decided_def passes_def refuses_def refuse_if_def)

lemma passes_refuse_if [passing]: "passes (refuse_if b message) \<longleftrightarrow> \<not> b"
  by (auto simp: passes_def refuse_if_def)

lemma decided_check_if [deciding]: "decided c \<Longrightarrow> decided (check_if b c)"
  by (cases b) (auto simp: decided_def passes_def refuses_def check_if_def)

lemma passes_check_if [passing]: "passes (check_if b c) \<longleftrightarrow> (b \<longrightarrow> passes c)"
  by (auto simp: passes_def check_if_def)

lemma in_order_Cons:
  assumes "decided c"
  shows "passes c \<Longrightarrow> in_order (c # cs) = in_order cs" "refuses c message \<Longrightarrow> refuses (in_order (c # cs)) message"
  by (auto simp: passes_def refuses_def)

lemma in_order_decided:
  "list_all decided cs \<Longrightarrow> decided (in_order cs) \<and> (passes (in_order cs) \<longleftrightarrow> list_all passes cs)"
proof (induction cs)
  case (Cons c cs)
  then have c: "decided c" by simp
  show ?case
  proof (cases "passes c")
    case True
    with in_order_Cons(1) [OF c True] Cons show ?thesis by simp
  next
    case False
    with c obtain message where m: "message \<noteq> ''''" "refuses c message" by (auto simp: decided_def)
    with in_order_Cons(2) [OF c m(2)] have "refuses (in_order (c # cs)) message" by simp
    with m False refuses_not_passes [OF this] show ?thesis
      by (auto simp: decided_def simp del: in_order.simps)
  qed
qed (simp add: decided_def passes_def)

lemma decided_in_order [deciding]: "list_all decided cs \<Longrightarrow> decided (in_order cs)"
  by (simp add: in_order_decided)

lemma passes_in_order: "list_all decided cs \<Longrightarrow> passes (in_order cs) \<longleftrightarrow> list_all passes cs"
  by (simp add: in_order_decided)

lemma decided_check_pointer [deciding]:
  "message \<noteq> '''' \<Longrightarrow> (\<And>x. p = Some x \<Longrightarrow> decided (c x)) \<Longrightarrow> decided (check_pointer message p c)"
  by (auto simp: check_pointer_def decided_refuse_if split: option.split)

lemma passes_check_pointer [passing]: "passes (check_pointer message p c) \<longleftrightarrow> (\<exists>x. p = Some x \<and> passes (c x))"
  by (auto simp: check_pointer_def passes_refuse_if split: option.split)

lemma decided_check_optional [deciding]:
  "(\<And>x. p = Some x \<Longrightarrow> decided (c x)) \<Longrightarrow> decided (check_optional p c)"
  by (auto simp: check_optional_def decided_def passes_def split: option.split)

lemma passes_check_optional [passing]: "passes (check_optional p c) \<longleftrightarrow> (\<forall>x. p = Some x \<longrightarrow> passes (c x))"
  by (auto simp: check_optional_def passes_def split: option.split)

lemma bit_mask_of: "bit (mask_of code flags) n \<longleftrightarrow> (\<exists>e\<in>set flags. bit (code e) n)"
  by (induction flags) (auto simp: mask_of_def bit_or_iff)

section \<open>What an accepted value is\<close>

text \<open>A set of flags holds no bit that no flag of its enumeration has.\<close>

definition only_known :: "('e \<Rightarrow> 'w::len word) \<Rightarrow> 'w word \<Rightarrow> bool" where
  "only_known code ws \<longleftrightarrow> (\<forall>n. bit ws n \<longrightarrow> (\<exists>e. bit (code e) n))"

lemma unknown_bits:
  assumes "set flags = UNIV"
  shows "\<not> has_unknown_bits ws (mask_of code flags) \<longleftrightarrow> only_known code ws"
  using assms by (simp add: known_bits_bit bit_mask_of only_known_def)

definition number :: "double \<Rightarrow> (real \<Rightarrow> bool) \<Rightarrow> bool" where
  "number d P \<longleftrightarrow> (\<exists>x. d = Finite x \<and> P x)"

definition lat_lng_ok :: "mln_lat_lng \<Rightarrow> bool" where
  "lat_lng_ok c \<longleftrightarrow> number (lat_lng_latitude c) (\<lambda>x. \<bar>x\<bar> \<le> 90) \<and> number (lat_lng_longitude c) (\<lambda>_. True)"

definition bounds_ok :: "mln_lat_lng_bounds \<Rightarrow> bool" where
  "bounds_ok b \<longleftrightarrow> lat_lng_ok (lat_lng_bounds_southwest b) \<and> lat_lng_ok (lat_lng_bounds_northeast b)
     \<and> double_le (lat_lng_latitude (lat_lng_bounds_southwest b)) (lat_lng_latitude (lat_lng_bounds_northeast b))
     \<and> double_le (lat_lng_longitude (lat_lng_bounds_southwest b)) (lat_lng_longitude (lat_lng_bounds_northeast b))"

definition point_ok :: "mln_screen_point \<Rightarrow> bool" where
  "point_ok p \<longleftrightarrow> is_finite (screen_point_x p) \<and> is_finite (screen_point_y p)"

definition insets_ok :: "mln_edge_insets \<Rightarrow> bool" where
  "insets_ok p \<longleftrightarrow> (\<forall>side\<in>{edge_insets_top, edge_insets_left, edge_insets_bottom, edge_insets_right}.
     number (side p) (\<lambda>x. 0 \<le> x))"

definition easing_ok :: "mln_unit_bezier \<Rightarrow> bool" where
  "easing_ok e \<longleftrightarrow> number (unit_bezier_x1 e) (\<lambda>x. 0 \<le> x \<and> x \<le> 1) \<and> number (unit_bezier_x2 e) (\<lambda>x. 0 \<le> x \<and> x \<le> 1)
     \<and> is_finite (unit_bezier_y1 e) \<and> is_finite (unit_bezier_y2 e)"

definition orientation_ok :: "mln_quaternion \<Rightarrow> bool" where
  "orientation_ok q \<longleftrightarrow> (\<exists>x y z w. q = \<lparr>quaternion_x = Finite x, quaternion_y = Finite y, quaternion_z = Finite z,
     quaternion_w = Finite w\<rparr> \<and> (x, y, z, w) \<noteq> (0, 0, 0, 0))"

definition camera_ok :: "mln_camera_options \<Rightarrow> bool" where
  "camera_ok c \<longleftrightarrow> (let code = mln_camera_option_field_code; sets = (\<lambda>f. has_flag (camera_options_fields c) (code f)) in
     only_known code (camera_options_fields c)
     \<and> (sets MLN_CAMERA_OPTION_CENTER \<longrightarrow> lat_lng_ok (camera_options_center c))
     \<and> (sets MLN_CAMERA_OPTION_CENTER_ALTITUDE \<longrightarrow> is_finite (camera_options_center_altitude c))
     \<and> (sets MLN_CAMERA_OPTION_PADDING \<longrightarrow> insets_ok (camera_options_padding c))
     \<and> (sets MLN_CAMERA_OPTION_ANCHOR \<longrightarrow> point_ok (camera_options_anchor c))
     \<and> (sets MLN_CAMERA_OPTION_ZOOM \<longrightarrow> is_finite (camera_options_zoom c))
     \<and> (sets MLN_CAMERA_OPTION_BEARING \<longrightarrow> is_finite (camera_options_bearing c))
     \<and> (sets MLN_CAMERA_OPTION_PITCH \<longrightarrow> is_finite (camera_options_pitch c))
     \<and> (sets MLN_CAMERA_OPTION_ROLL \<longrightarrow> is_finite (camera_options_roll c))
     \<and> (sets MLN_CAMERA_OPTION_FOV \<longrightarrow> is_finite (camera_options_field_of_view c)))"

definition animation_ok :: "mln_animation_options \<Rightarrow> bool" where
  "animation_ok a \<longleftrightarrow> (let code = mln_animation_option_field_code; sets = (\<lambda>f. has_flag (animation_options_fields a) (code f));
       handler = animation_options_end_handler a in
     only_known code (animation_options_fields a)
     \<and> (camera_transition_handler_release_user_data handler \<noteq> 0 \<longrightarrow> camera_transition_handler_callback handler \<noteq> 0)
     \<and> (sets MLN_ANIMATION_OPTION_DURATION \<longrightarrow> is_native_duration_ms (animation_options_duration_ms a))
     \<and> (sets MLN_ANIMATION_OPTION_VELOCITY \<longrightarrow> number (animation_options_velocity a) (\<lambda>x. 0 < x))
     \<and> (sets MLN_ANIMATION_OPTION_MIN_ZOOM \<longrightarrow> is_finite (animation_options_min_zoom a))
     \<and> (sets MLN_ANIMATION_OPTION_EASING \<longrightarrow> easing_ok (animation_options_easing a)))"

definition fit_ok :: "mln_camera_fit_options \<Rightarrow> bool" where
  "fit_ok f \<longleftrightarrow> (let code = mln_camera_fit_option_field_code; sets = (\<lambda>b. has_flag (camera_fit_options_fields f) (code b)) in
     only_known code (camera_fit_options_fields f)
     \<and> (sets MLN_CAMERA_FIT_OPTION_PADDING \<longrightarrow> insets_ok (camera_fit_options_padding f))
     \<and> (sets MLN_CAMERA_FIT_OPTION_BEARING \<longrightarrow> is_finite (camera_fit_options_bearing f))
     \<and> (sets MLN_CAMERA_FIT_OPTION_PITCH \<longrightarrow> is_finite (camera_fit_options_pitch f)))"

definition bound_options_ok :: "mln_bound_options \<Rightarrow> bool" where
  "bound_options_ok b \<longleftrightarrow> (let code = mln_bound_option_field_code; sets = (\<lambda>f. has_flag (bound_options_fields b) (code f)) in
     only_known code (bound_options_fields b)
     \<and> \<not> (sets MLN_BOUND_OPTION_BOUNDS \<and> sets MLN_BOUND_OPTION_UNBOUNDED)
     \<and> (sets MLN_BOUND_OPTION_BOUNDS \<longrightarrow> bounds_ok (bound_options_bounds b))
     \<and> (sets MLN_BOUND_OPTION_MIN_ZOOM \<longrightarrow> is_finite (bound_options_min_zoom b))
     \<and> (sets MLN_BOUND_OPTION_MAX_ZOOM \<longrightarrow> is_finite (bound_options_max_zoom b))
     \<and> (sets MLN_BOUND_OPTION_MIN_PITCH \<longrightarrow> is_finite (bound_options_min_pitch b))
     \<and> (sets MLN_BOUND_OPTION_MAX_PITCH \<longrightarrow> is_finite (bound_options_max_pitch b))
     \<and> (sets MLN_BOUND_OPTION_MIN_ZOOM \<and> sets MLN_BOUND_OPTION_MAX_ZOOM \<longrightarrow>
          double_le (bound_options_min_zoom b) (bound_options_max_zoom b))
     \<and> (sets MLN_BOUND_OPTION_MIN_PITCH \<and> sets MLN_BOUND_OPTION_MAX_PITCH \<longrightarrow>
          double_le (bound_options_min_pitch b) (bound_options_max_pitch b)))"

definition viewport_ok :: "mln_map_viewport_options \<Rightarrow> bool" where
  "viewport_ok v \<longleftrightarrow> (let code = mln_map_viewport_option_field_code;
       sets = (\<lambda>f. has_flag (map_viewport_options_fields v) (code f)) in
     only_known code (map_viewport_options_fields v)
     \<and> (sets MLN_MAP_VIEWPORT_OPTION_NORTH_ORIENTATION \<longrightarrow>
          map_viewport_options_north_orientation v \<in> range mln_north_orientation_code)
     \<and> (sets MLN_MAP_VIEWPORT_OPTION_CONSTRAIN_MODE \<longrightarrow>
          map_viewport_options_constrain_mode v \<in> range mln_constrain_mode_code)
     \<and> (sets MLN_MAP_VIEWPORT_OPTION_VIEWPORT_MODE \<longrightarrow>
          map_viewport_options_viewport_mode v \<in> range mln_viewport_mode_code)
     \<and> (sets MLN_MAP_VIEWPORT_OPTION_FRUSTUM_OFFSET \<longrightarrow> insets_ok (map_viewport_options_frustum_offset v)))"

definition tile_ok :: "mln_map_tile_options \<Rightarrow> bool" where
  "tile_ok v \<longleftrightarrow> (let code = mln_map_tile_option_field_code; sets = (\<lambda>f. has_flag (map_tile_options_fields v) (code f)) in
     only_known code (map_tile_options_fields v)
     \<and> (sets MLN_MAP_TILE_OPTION_PREFETCH_ZOOM_DELTA \<longrightarrow>
          unat (ucast (map_tile_options_prefetch_zoom_delta v) :: u8) = unat (map_tile_options_prefetch_zoom_delta v))
     \<and> (sets MLN_MAP_TILE_OPTION_LOD_MIN_RADIUS \<longrightarrow> is_finite (map_tile_options_lod_min_radius v))
     \<and> (sets MLN_MAP_TILE_OPTION_LOD_SCALE \<longrightarrow> is_finite (map_tile_options_lod_scale v))
     \<and> (sets MLN_MAP_TILE_OPTION_LOD_PITCH_THRESHOLD \<longrightarrow> is_finite (map_tile_options_lod_pitch_threshold v))
     \<and> (sets MLN_MAP_TILE_OPTION_LOD_ZOOM_SHIFT \<longrightarrow> is_finite (map_tile_options_lod_zoom_shift v))
     \<and> (sets MLN_MAP_TILE_OPTION_LOD_MODE \<longrightarrow> map_tile_options_lod_mode v \<in> range mln_tile_lod_mode_code))"

definition map_ok :: "mln_map_options \<Rightarrow> bool" where
  "map_ok m \<longleftrightarrow> only_known mln_map_option_field_code (map_options_fields m)
     \<and> (has_flag (map_options_fields m) (mln_map_option_field_code MLN_MAP_OPTION_EVENT_MASK) \<longrightarrow>
          only_known mln_runtime_event_flag_code (map_options_event_mask m))
     \<and> 0 < logical_extent_width (map_options_initial_extent m) \<and> 0 < logical_extent_height (map_options_initial_extent m)
     \<and> number (logical_extent_scale_factor (map_options_initial_extent m)) (\<lambda>x. 0 < x)
     \<and> map_options_map_mode m \<in> range mln_map_mode_code"

lemma number_simps [simp]:
  "number (Finite x) P \<longleftrightarrow> P x" "\<not> number Pos_Inf P" "\<not> number Neg_Inf P" "\<not> number Not_A_Number P"
  by (simp_all add: number_def)

lemma is_finite_number: "is_finite d \<longleftrightarrow> number d (\<lambda>_. True)"
  by (cases d) simp_all

lemma number_tests:
  "is_finite d \<and> \<not> double_lt d (Finite l) \<longleftrightarrow> number d (\<lambda>x. l \<le> x)"
  "is_finite d \<and> \<not> double_lt d (Finite l) \<and> \<not> double_lt (Finite h) d \<longleftrightarrow> number d (\<lambda>x. l \<le> x \<and> x \<le> h)"
  "is_finite d \<and> \<not> double_le d (Finite l) \<longleftrightarrow> number d (\<lambda>x. l < x)"
  by (cases d; auto)+

lemma order_tests:
  "is_finite a \<Longrightarrow> is_finite b \<Longrightarrow> \<not> double_lt b a \<longleftrightarrow> double_le a b"
  "is_finite a \<Longrightarrow> is_finite b \<Longrightarrow> double_lt b a \<longleftrightarrow> \<not> double_le a b"
  by (cases a; cases b; auto)+

lemma lat_lng_validated [deciding, passing]:
  "decided (validate_lat_lng c)" "passes (validate_lat_lng c) \<longleftrightarrow> lat_lng_ok c"
proof -
  show "decided (validate_lat_lng c)" by (simp add: validate_lat_lng_def deciding)
  show "passes (validate_lat_lng c) \<longleftrightarrow> lat_lng_ok c"
    by (cases "lat_lng_latitude c"; cases "lat_lng_longitude c")
      (auto simp: validate_lat_lng_def passes_refuse_if lat_lng_ok_def abs_le_iff)
qed

lemma lat_lng_finite: "lat_lng_ok c \<Longrightarrow> is_finite (lat_lng_latitude c) \<and> is_finite (lat_lng_longitude c)"
  by (auto simp: lat_lng_ok_def number_def)

lemma bounds_validated [deciding, passing]:
  "decided (validate_lat_lng_bounds b)" "passes (validate_lat_lng_bounds b) \<longleftrightarrow> bounds_ok b"
proof -
  show "decided (validate_lat_lng_bounds b)" by (simp add: validate_lat_lng_bounds_def deciding)
  show "passes (validate_lat_lng_bounds b) \<longleftrightarrow> bounds_ok b"
    unfolding validate_lat_lng_bounds_def
    using lat_lng_finite [of "lat_lng_bounds_southwest b"] lat_lng_finite [of "lat_lng_bounds_northeast b"]
    by (subst passes_in_order) (auto simp: deciding passing bounds_ok_def order_tests)
qed

lemma point_validated [deciding, passing]:
  "decided (validate_screen_point p)" "passes (validate_screen_point p) \<longleftrightarrow> point_ok p"
  by (auto simp: validate_screen_point_def deciding passing point_ok_def)

lemma insets_validated [deciding, passing]:
  "decided (validate_edge_insets p)" "passes (validate_edge_insets p) \<longleftrightarrow> insets_ok p"
proof -
  show "decided (validate_edge_insets p)" by (simp add: validate_edge_insets_def deciding)
  show "passes (validate_edge_insets p) \<longleftrightarrow> insets_ok p"
    unfolding validate_edge_insets_def passes_refuse_if insets_ok_def by (auto simp flip: number_tests(1))
qed

lemma frustum_validated [deciding, passing]:
  "decided (validate_frustum_offset p)" "passes (validate_frustum_offset p) \<longleftrightarrow> insets_ok p"
proof -
  show "decided (validate_frustum_offset p)" by (simp add: validate_frustum_offset_def deciding)
  show "passes (validate_frustum_offset p) \<longleftrightarrow> insets_ok p"
    unfolding validate_frustum_offset_def insets_ok_def
    by (subst passes_in_order) (auto simp: deciding passes_refuse_if simp flip: number_tests(1))
qed

lemma event_flags_known: "\<forall>e\<in>set mln_runtime_event_flag_values.
    \<not> has_unknown_bits (mln_runtime_event_flag_code e) (mln_runtime_event_flag_code MLN_RUNTIME_EVENT_FLAG_ALL)"
  unfolding has_unknown_bits_def mln_runtime_event_flag_values_def by code_simp

lemma event_mask_known:
  "\<not> has_unknown_bits ws (mln_runtime_event_flag_code MLN_RUNTIME_EVENT_FLAG_ALL)
     \<longleftrightarrow> only_known mln_runtime_event_flag_code ws"
proof -
  have "bit (mln_runtime_event_flag_code e) n \<Longrightarrow> bit (mln_runtime_event_flag_code MLN_RUNTIME_EVENT_FLAG_ALL) n" for e n
    using event_flags_known [rule_format, OF runtime_event_flag_enum.all_values [of e]]
    unfolding known_bits_bit by blast
  then show ?thesis unfolding known_bits_bit only_known_def by blast
qed

text \<open>The flags each validator knows are all of their enumeration.\<close>

lemma all_flags:
  "set [MLN_MAP_OPTION_EVENT_MASK, MLN_MAP_OPTION_TILE_CACHE_ENABLED] = UNIV"
  "set [MLN_CAMERA_OPTION_CENTER, MLN_CAMERA_OPTION_ZOOM, MLN_CAMERA_OPTION_BEARING, MLN_CAMERA_OPTION_PITCH,
     MLN_CAMERA_OPTION_CENTER_ALTITUDE, MLN_CAMERA_OPTION_PADDING, MLN_CAMERA_OPTION_ANCHOR,
     MLN_CAMERA_OPTION_ROLL, MLN_CAMERA_OPTION_FOV] = UNIV"
  "set [MLN_ANIMATION_OPTION_DURATION, MLN_ANIMATION_OPTION_VELOCITY, MLN_ANIMATION_OPTION_MIN_ZOOM,
     MLN_ANIMATION_OPTION_EASING, MLN_ANIMATION_OPTION_TRANSITION_ID] = UNIV"
  "set [MLN_CAMERA_FIT_OPTION_PADDING, MLN_CAMERA_FIT_OPTION_BEARING, MLN_CAMERA_FIT_OPTION_PITCH] = UNIV"
  "set [MLN_BOUND_OPTION_BOUNDS, MLN_BOUND_OPTION_MIN_ZOOM, MLN_BOUND_OPTION_MAX_ZOOM, MLN_BOUND_OPTION_MIN_PITCH,
     MLN_BOUND_OPTION_MAX_PITCH, MLN_BOUND_OPTION_UNBOUNDED] = UNIV"
  "set [MLN_FREE_CAMERA_OPTION_POSITION, MLN_FREE_CAMERA_OPTION_ORIENTATION] = UNIV"
  "set [MLN_MAP_VIEWPORT_OPTION_NORTH_ORIENTATION, MLN_MAP_VIEWPORT_OPTION_CONSTRAIN_MODE,
     MLN_MAP_VIEWPORT_OPTION_VIEWPORT_MODE, MLN_MAP_VIEWPORT_OPTION_FRUSTUM_OFFSET] = UNIV"
  "set [MLN_MAP_TILE_OPTION_PREFETCH_ZOOM_DELTA, MLN_MAP_TILE_OPTION_LOD_MIN_RADIUS, MLN_MAP_TILE_OPTION_LOD_SCALE,
     MLN_MAP_TILE_OPTION_LOD_PITCH_THRESHOLD, MLN_MAP_TILE_OPTION_LOD_ZOOM_SHIFT, MLN_MAP_TILE_OPTION_LOD_MODE] = UNIV"
  by (auto intro: mln_map_option_field.exhaust mln_camera_option_field.exhaust mln_animation_option_field.exhaust
      mln_camera_fit_option_field.exhaust mln_bound_option_field.exhaust mln_free_camera_option_field.exhaust
      mln_map_viewport_option_field.exhaust mln_map_tile_option_field.exhaust)

lemmas known_flags = all_flags [THEN unknown_bits]

lemma extent_validated:
  "decided (validate_logical_extent e ''initial extent dimensions and scale factor must be positive'')"
  "passes (validate_logical_extent e message) \<longleftrightarrow> 0 < logical_extent_width e \<and> 0 < logical_extent_height e
     \<and> number (logical_extent_scale_factor e) (\<lambda>x. 0 < x)"
proof -
  show "decided (validate_logical_extent e ''initial extent dimensions and scale factor must be positive'')"
    by (simp add: validate_logical_extent_def deciding)
  show "passes (validate_logical_extent e message) \<longleftrightarrow> 0 < logical_extent_width e \<and> 0 < logical_extent_height e
     \<and> number (logical_extent_scale_factor e) (\<lambda>x. 0 < x)"
    unfolding validate_logical_extent_def passes_refuse_if number_tests(3) [symmetric] word_neq_0_conv [symmetric]
    by blast
qed

lemma map_options_validated:
  "decided (validate_map_options options)"
  "passes (validate_map_options options)
     \<longleftrightarrow> (\<exists>m. options = Some m \<and> sizeof_mln_map_options \<le> map_options_size m \<and> map_ok m)"
proof -
  show "decided (validate_map_options options)"
    unfolding validate_map_options_def by (intro deciding) (simp_all add: deciding extent_validated)
  show "passes (validate_map_options options)
     \<longleftrightarrow> (\<exists>m. options = Some m \<and> sizeof_mln_map_options \<le> map_options_size m \<and> map_ok m)"
    unfolding validate_map_options_def passes_check_pointer
    by (simp only: passes_in_order list.pred_inject deciding extent_validated passes_refuse_if known_flags event_mask_known
        map_ok_def map_mode_enum.enum_of_None not_less de_Morgan_conj not_not list.distinct simp_thms) blast
qed

lemmas validator_simps = passes_in_order list.pred_inject deciding passing known_flags
  de_Morgan_conj de_Morgan_disj not_not list.distinct simp_thms not_less

lemma camera_validated [deciding, passing]:
  "decided (validate_camera_fields c)" "passes (validate_camera_fields c) \<longleftrightarrow> camera_ok c"
proof -
  show "decided (validate_camera_fields c)"
    unfolding validate_camera_fields_def Let_def by (intro deciding) (simp_all add: deciding)
  show "passes (validate_camera_fields c) \<longleftrightarrow> camera_ok c"
    unfolding validate_camera_fields_def Let_def camera_ok_def by (simp only: validator_simps) blast
qed

lemma easing_tests:
  "(is_finite (unit_bezier_x1 e) \<and> is_finite (unit_bezier_y1 e) \<and> is_finite (unit_bezier_x2 e)
     \<and> is_finite (unit_bezier_y2 e) \<and> \<not> double_lt (unit_bezier_x1 e) (Finite 0) \<and> \<not> double_lt (Finite 1) (unit_bezier_x1 e)
     \<and> \<not> double_lt (unit_bezier_x2 e) (Finite 0) \<and> \<not> double_lt (Finite 1) (unit_bezier_x2 e)) \<longleftrightarrow> easing_ok e"
  unfolding easing_ok_def number_tests(2) [symmetric] by blast

lemma animation_validated [deciding, passing]:
  "decided (validate_animation_options animation)"
  "passes (validate_animation_options animation) \<longleftrightarrow> (\<forall>a. animation = Some a \<longrightarrow> animation_ok a)"
proof -
  show "decided (validate_animation_options animation)"
    unfolding validate_animation_options_def Let_def by (intro deciding) (simp_all add: deciding)
  show "passes (validate_animation_options animation) \<longleftrightarrow> (\<forall>a. animation = Some a \<longrightarrow> animation_ok a)"
    unfolding validate_animation_options_def Let_def animation_ok_def passes_check_optional
    by (simp only: validator_simps easing_tests number_tests(3)) blast
qed

lemma fit_validated [deciding, passing]:
  "decided (validate_camera_fit_fields f)" "passes (validate_camera_fit_fields f) \<longleftrightarrow> fit_ok f"
proof -
  show "decided (validate_camera_fit_fields f)"
    unfolding validate_camera_fit_fields_def Let_def by (intro deciding) (simp_all add: deciding)
  show "passes (validate_camera_fit_fields f) \<longleftrightarrow> fit_ok f"
    unfolding validate_camera_fit_fields_def Let_def fit_ok_def by (simp only: validator_simps) blast
qed

lemmas nested_simps = validator_simps camera_validated animation_validated fit_validated

lemma camera_options_validated:
  "decided (validate_camera_options camera)"
  "passes (validate_camera_options camera)
     \<longleftrightarrow> (\<exists>c. camera = Some c \<and> sizeof_mln_camera_options \<le> camera_options_size c \<and> camera_ok c)"
  by (simp add: validate_camera_options_def deciding)
    (simp only: validate_camera_options_def nested_simps)

lemma camera_fit_options_validated:
  "decided (validate_camera_fit_options options)"
  "passes (validate_camera_fit_options options)
     \<longleftrightarrow> (\<forall>f. options = Some f \<longrightarrow> sizeof_mln_camera_fit_options \<le> camera_fit_options_size f \<and> fit_ok f)"
  by (simp add: validate_camera_fit_options_def deciding)
    (simp only: validate_camera_fit_options_def nested_simps)

lemma camera_fit_update_validated:
  "decided (validate_camera_fit_update update)"
  "passes (validate_camera_fit_update update)
     \<longleftrightarrow> (\<exists>u. update = Some u \<and> sizeof_mln_camera_fit_update \<le> camera_fit_update_size u
         \<and> camera_fit_update_mode u \<in> range mln_camera_update_mode_code
         \<and> fit_ok (camera_fit_update_fit u) \<and> animation_ok (camera_fit_update_animation u))"
proof -
  show "decided (validate_camera_fit_update update)"
    unfolding validate_camera_fit_update_def by (intro deciding) (simp_all add: deciding)
  have two: "v \<le> 2 \<longleftrightarrow> v = 0 \<or> v = 1 \<or> v = 2" for v :: u32
    by (auto simp: word_le_nat_alt word_unat_eq_iff)
  have modes: "range mln_camera_update_mode_code = {0, 1, 2}"
  proof -
    have "(UNIV :: mln_camera_update_mode set) = {MLN_CAMERA_UPDATE_MODE_JUMP, MLN_CAMERA_UPDATE_MODE_EASE, MLN_CAMERA_UPDATE_MODE_FLY}"
      by (auto intro: mln_camera_update_mode.exhaust)
    then have "range mln_camera_update_mode_code = mln_camera_update_mode_code
        ` {MLN_CAMERA_UPDATE_MODE_JUMP, MLN_CAMERA_UPDATE_MODE_EASE, MLN_CAMERA_UPDATE_MODE_FLY}" by (rule arg_cong)
    then show ?thesis by simp
  qed
  show "passes (validate_camera_fit_update update)
     \<longleftrightarrow> (\<exists>u. update = Some u \<and> sizeof_mln_camera_fit_update \<le> camera_fit_update_size u
         \<and> camera_fit_update_mode u \<in> range mln_camera_update_mode_code
         \<and> fit_ok (camera_fit_update_fit u) \<and> animation_ok (camera_fit_update_animation u))"
    unfolding validate_camera_fit_update_def passes_check_pointer modes
    by (simp only: nested_simps mln_camera_update_mode_code.simps two) auto
qed

lemma bound_options_validated:
  "decided (validate_bound_options options)"
  "passes (validate_bound_options options)
     \<longleftrightarrow> (\<exists>b. options = Some b \<and> sizeof_mln_bound_options \<le> bound_options_size b \<and> bound_options_ok b)"
proof -
  show "decided (validate_bound_options options)"
    unfolding validate_bound_options_def Let_def by (intro deciding) (simp_all add: deciding)
  show "passes (validate_bound_options options)
     \<longleftrightarrow> (\<exists>b. options = Some b \<and> sizeof_mln_bound_options \<le> bound_options_size b \<and> bound_options_ok b)"
    unfolding validate_bound_options_def Let_def passes_check_pointer bound_options_ok_def
    by (simp only: validator_simps) (rule ex_cong1, use order_tests(1) in blast)
qed

lemma viewport_validated:
  "decided (validate_viewport_options options)"
  "passes (validate_viewport_options options)
     \<longleftrightarrow> (\<exists>v. options = Some v \<and> sizeof_mln_map_viewport_options \<le> map_viewport_options_size v \<and> viewport_ok v)"
proof -
  show "decided (validate_viewport_options options)"
    unfolding validate_viewport_options_def Let_def by (intro deciding) (simp_all add: deciding)
  show "passes (validate_viewport_options options)
     \<longleftrightarrow> (\<exists>v. options = Some v \<and> sizeof_mln_map_viewport_options \<le> map_viewport_options_size v \<and> viewport_ok v)"
    unfolding validate_viewport_options_def Let_def passes_check_pointer viewport_ok_def
      north_orientation_enum.enum_of_None constrain_mode_enum.enum_of_None viewport_mode_enum.enum_of_None
    by (simp only: validator_simps) blast
qed

lemma byte_bound: "w \<le> 255 \<longleftrightarrow> unat (ucast w :: u8) = unat (w :: u32)"
  by (auto simp: word_le_nat_alt unsigned_ucast_eq take_bit_nat_eq_self_iff)

lemma tile_validated:
  "decided (validate_tile_options options)"
  "passes (validate_tile_options options)
     \<longleftrightarrow> (\<exists>v. options = Some v \<and> sizeof_mln_map_tile_options \<le> map_tile_options_size v \<and> tile_ok v)"
proof -
  show "decided (validate_tile_options options)"
    unfolding validate_tile_options_def Let_def by (intro deciding) (simp_all add: deciding)
  show "passes (validate_tile_options options)
     \<longleftrightarrow> (\<exists>v. options = Some v \<and> sizeof_mln_map_tile_options \<le> map_tile_options_size v \<and> tile_ok v)"
    unfolding validate_tile_options_def Let_def passes_check_pointer tile_ok_def tile_lod_mode_enum.enum_of_None
      byte_bound [symmetric]
    by (simp only: validator_simps) blast
qed

definition free_camera_ok :: "mln_free_camera_options \<Rightarrow> bool" where
  "free_camera_ok f \<longleftrightarrow> (let code = mln_free_camera_option_field_code;
       sets = (\<lambda>b. has_flag (free_camera_options_fields f) (code b)) in
     only_known code (free_camera_options_fields f)
     \<and> (sets MLN_FREE_CAMERA_OPTION_POSITION \<longrightarrow>
          (\<forall>axis\<in>{vec3_x, vec3_y, vec3_z}. is_finite (axis (free_camera_options_position f))))
     \<and> (sets MLN_FREE_CAMERA_OPTION_ORIENTATION \<longrightarrow> orientation_ok (free_camera_options_orientation f)))"

lemma vec3_validated:
  "message \<noteq> '''' \<Longrightarrow> decided (validate_vec3 v message)"
  "passes (validate_vec3 v message) \<longleftrightarrow> (\<forall>axis\<in>{vec3_x, vec3_y, vec3_z}. is_finite (axis v))"
  by (auto simp: validate_vec3_def deciding passing)

lemma quaternion_validated [deciding, passing]:
  "decided (validate_quaternion q)" "passes (validate_quaternion q) \<longleftrightarrow> orientation_ok q"
proof -
  show "decided (validate_quaternion q)" by (simp add: validate_quaternion_def deciding)
  obtain x y z w where q: "q = \<lparr>quaternion_x = x, quaternion_y = y, quaternion_z = z, quaternion_w = w\<rparr>"
    by (cases q)
  have "passes (validate_quaternion q) \<longleftrightarrow> is_finite x \<and> is_finite y \<and> is_finite z \<and> is_finite w
      \<and> \<not> (double_eq x (Finite 0) \<and> double_eq y (Finite 0) \<and> double_eq z (Finite 0) \<and> double_eq w (Finite 0))"
    unfolding validate_quaternion_def q by (subst passes_in_order) (auto simp: deciding passing)
  also have "\<dots> \<longleftrightarrow> orientation_ok q"
    unfolding q by (cases x; cases y; cases z; cases w) (simp_all add: orientation_ok_def)
  finally show "passes (validate_quaternion q) \<longleftrightarrow> orientation_ok q" .
qed

lemma free_camera_validated:
  "decided (validate_free_camera_options options)"
  "passes (validate_free_camera_options options)
     \<longleftrightarrow> (\<exists>f. options = Some f \<and> sizeof_mln_free_camera_options \<le> free_camera_options_size f \<and> free_camera_ok f)"
proof -
  show "decided (validate_free_camera_options options)"
    unfolding validate_free_camera_options_def Let_def by (intro deciding) (simp_all add: deciding vec3_validated)
  show "passes (validate_free_camera_options options)
     \<longleftrightarrow> (\<exists>f. options = Some f \<and> sizeof_mln_free_camera_options \<le> free_camera_options_size f \<and> free_camera_ok f)"
    unfolding validate_free_camera_options_def Let_def passes_check_pointer free_camera_ok_def
    by (simp only: nested_simps vec3_validated quaternion_validated)
qed

lemma coordinates_validated:
  "decided (validate_lat_lng_array coordinates count allow_empty)"
  "passes (validate_lat_lng_array coordinates count allow_empty)
     \<longleftrightarrow> (if count = 0 then allow_empty else \<exists>cs. coordinates = Some cs \<and> list_all lat_lng_ok (take (unat count) cs))"
proof -
  have all: "list_all decided (map validate_lat_lng cs)" for cs
    by (simp add: list_all_iff lat_lng_validated)
  show "decided (validate_lat_lng_array coordinates count allow_empty)"
    by (auto simp: validate_lat_lng_array_def intro!: deciding all)
  show "passes (validate_lat_lng_array coordinates count allow_empty)
     \<longleftrightarrow> (if count = 0 then allow_empty else \<exists>cs. coordinates = Some cs \<and> list_all lat_lng_ok (take (unat count) cs))"
    by (auto simp: validate_lat_lng_array_def passing passes_in_order [OF all] list_all_iff)
qed

text \<open>
  What a validator promises of a condition: it returns \<open>OK\<close> and leaves the thread alone exactly when the
  condition holds, and otherwise refuses with a message of its own.
\<close>

definition accepts_exactly :: "check \<Rightarrow> bool \<Rightarrow> bool" where
  "accepts_exactly c condition \<longleftrightarrow> (\<forall>t. if condition then c t = (MLN_STATUS_OK, t)
     else \<exists>message. message \<noteq> '''' \<and> c t = (MLN_STATUS_INVALID_ARGUMENT, error_text message t))"

lemma accepts_exactly_intro:
  "decided c \<Longrightarrow> (passes c \<longleftrightarrow> condition) \<Longrightarrow> accepts_exactly c condition"
  by (auto simp: accepts_exactly_def decided_def passes_def refuses_def)

text \<open>
  C39: every validator accepts exactly the options whose size covers the struct, that set no bit their
  enumeration lacks, and whose every set field holds a value of its type: finite numbers within their
  ranges, ordered bounds, known enumerators, durations that convert, a prefetch delta that fits its byte, and
  an orientation that is not zero. Fields that are not set may hold anything. A refusal is
  \<open>INVALID_ARGUMENT\<close> with a message, and an acceptance leaves the thread's error alone.
\<close>

theorem options_accepted_exactly:
  "accepts_exactly (validate_map_options options)
     (\<exists>m. options = Some m \<and> sizeof_mln_map_options \<le> map_options_size m \<and> map_ok m)
   \<and> accepts_exactly (validate_camera_options camera)
     (\<exists>c. camera = Some c \<and> sizeof_mln_camera_options \<le> camera_options_size c \<and> camera_ok c)
   \<and> accepts_exactly (validate_animation_options animation) (pred_option animation_ok animation)
   \<and> accepts_exactly (validate_camera_fit_update update)
     (\<exists>u. update = Some u \<and> sizeof_mln_camera_fit_update \<le> camera_fit_update_size u
        \<and> camera_fit_update_mode u \<in> range mln_camera_update_mode_code
        \<and> fit_ok (camera_fit_update_fit u) \<and> animation_ok (camera_fit_update_animation u))
   \<and> accepts_exactly (validate_camera_fit_options fit)
     (pred_option (\<lambda>f. sizeof_mln_camera_fit_options \<le> camera_fit_options_size f \<and> fit_ok f) fit)
   \<and> accepts_exactly (validate_bound_options bound)
     (\<exists>b. bound = Some b \<and> sizeof_mln_bound_options \<le> bound_options_size b \<and> bound_options_ok b)
   \<and> accepts_exactly (validate_free_camera_options free)
     (\<exists>f. free = Some f \<and> sizeof_mln_free_camera_options \<le> free_camera_options_size f \<and> free_camera_ok f)
   \<and> accepts_exactly (validate_viewport_options viewport)
     (\<exists>v. viewport = Some v \<and> sizeof_mln_map_viewport_options \<le> map_viewport_options_size v \<and> viewport_ok v)
   \<and> accepts_exactly (validate_tile_options tile)
     (\<exists>v. tile = Some v \<and> sizeof_mln_map_tile_options \<le> map_tile_options_size v \<and> tile_ok v)
   \<and> accepts_exactly (validate_lat_lng_array coordinates count allow_empty)
     (if count = 0 then allow_empty
      else \<exists>cs. coordinates = Some cs \<and> list_all lat_lng_ok (take (unat count) cs))"
proof -
  have optional: "pred_option P x \<longleftrightarrow> (\<forall>y. x = Some y \<longrightarrow> P y)" for P :: "'b \<Rightarrow> bool" and x
    by (cases x) simp_all
  show ?thesis unfolding optional
    by (intro conjI accepts_exactly_intro)
      (simp_all only: map_options_validated camera_options_validated animation_validated camera_fit_update_validated
        camera_fit_options_validated bound_options_validated free_camera_validated viewport_validated tile_validated
        coordinates_validated)
qed

text \<open>The default options are accepted, and so is a finite camera passed back as options.\<close>

lemma default_options_accepted:
  "passes (validate_camera_options (Some camera_options_default))"
  "passes (validate_camera_fit_options (Some camera_fit_options_default))"
  by (auto simp: camera_options_validated camera_fit_options_validated camera_options_default_def
      camera_fit_options_default_def camera_ok_def fit_ok_def only_known_def)

lemma mask_of_known: "only_known code (mask_of code flags)"
  by (auto simp: only_known_def bit_mask_of)

lemma camera_to_options_accepted:
  assumes "lat_lng_ok (camera_center camera)" "insets_ok (camera_padding camera)"
    "list_all is_finite [camera_center_altitude camera, camera_zoom camera, camera_bearing camera,
       camera_pitch camera, camera_roll camera, camera_field_of_view camera]"
  shows "passes (validate_camera_options (Some (mln_camera_to_options camera)))"
proof -
  have "\<not> has_flag (mask_of mln_camera_option_field_code
        [MLN_CAMERA_OPTION_CENTER, MLN_CAMERA_OPTION_CENTER_ALTITUDE, MLN_CAMERA_OPTION_PADDING,
         MLN_CAMERA_OPTION_ZOOM, MLN_CAMERA_OPTION_BEARING, MLN_CAMERA_OPTION_PITCH, MLN_CAMERA_OPTION_ROLL,
         MLN_CAMERA_OPTION_FOV]) (mln_camera_option_field_code MLN_CAMERA_OPTION_ANCHOR)"
    unfolding has_flag_def mask_of_def by code_simp
  with assms show ?thesis
    by (simp add: camera_options_validated mln_camera_to_options_def camera_ok_def mask_of_known
        del: mln_camera_option_field_code.simps)
qed

end
