(* ===== verification/Resource_Answers.thy ===== *)
theory Resource_Answers
  imports Queue_Handles "HOL-Library.Signed_Division"
begin

text \<open>
  The answers of a host's resource provider (\<open>src/resources/custom_resource_provider.cpp\<close>): the conversion of an
  answer to the engine's response, and the view of a request that a provider is shown.
\<close>

unbundle bit_operations_syntax

section \<open>Answers\<close>

definition sizeof_mln_resource_response :: u32 where
  "sizeof_mln_resource_response = 96"

text \<open>The engine's response: its fields as the code sets them. Times are seconds since the epoch.\<close>

datatype error_reason = Reason_NotFound | Reason_Server | Reason_Connection | Reason_RateLimit | Reason_Other

record native_error =
  native_reason :: error_reason
  native_message :: bytes
  native_retry_after :: "int option"

record native_response =
  native_failure :: "native_error option"
  native_no_content :: bool
  native_not_modified :: bool
  native_must_revalidate :: bool
  native_data :: "bytes option"
  native_modified :: "int option"
  native_expires :: "int option"
  native_etag :: "bytes option"

definition empty_response :: native_response where
  "empty_response = \<lparr>native_failure = None, native_no_content = False, native_not_modified = False,
     native_must_revalidate = False, native_data = None, native_modified = None, native_expires = None,
     native_etag = None\<rparr>"

definition error_response :: "string \<Rightarrow> error_reason \<Rightarrow> native_response" where
  "error_response message reason = empty_response\<lparr>native_failure :=
     Some \<lparr>native_reason = reason, native_message = ascii message, native_retry_after = None\<rparr>\<rparr>"

text \<open>A conversion of time points rounds towards zero.\<close>

definition from_unix_ms :: "i64 \<Rightarrow> int" where
  "from_unix_ms unix_ms = sint unix_ms sdiv 1000"

definition to_unix_ms :: "int \<Rightarrow> i64" where
  "to_unix_ms timestamp = word_of_int (timestamp * 1000)"

definition error_reason_from_abi :: "u32 \<Rightarrow> error_reason" where
  "error_reason_from_abi reason = (case enum_of mln_resource_error_reason_code mln_resource_error_reason_values reason of
     Some MLN_RESOURCE_ERROR_REASON_NOT_FOUND \<Rightarrow> Reason_NotFound
   | Some MLN_RESOURCE_ERROR_REASON_SERVER \<Rightarrow> Reason_Server
   | Some MLN_RESOURCE_ERROR_REASON_CONNECTION \<Rightarrow> Reason_Connection
   | Some MLN_RESOURCE_ERROR_REASON_RATE_LIMIT \<Rightarrow> Reason_RateLimit
   | Some MLN_RESOURCE_ERROR_REASON_OTHER \<Rightarrow> Reason_Other
   | None \<Rightarrow> Reason_Other)"

abbreviation response_has :: "mln_resource_response \<Rightarrow> mln_resource_response_field \<Rightarrow> bool" where
  "response_has r f \<equiv> has_flag (resource_response_fields r) (mln_resource_response_field_code f)"

definition response_from_abi :: "mln_resource_response \<Rightarrow> native_response" where
  "response_from_abi r =
     (if resource_response_size r < sizeof_mln_resource_response
        then error_response ''mln_resource_response.size is too small'' Reason_Other
      else if has_unknown_bits (resource_response_fields r)
          (mln_resource_response_field_code MLN_RESOURCE_RESPONSE_MODIFIED
            OR mln_resource_response_field_code MLN_RESOURCE_RESPONSE_EXPIRES
            OR mln_resource_response_field_code MLN_RESOURCE_RESPONSE_RETRY_AFTER)
        then error_response ''mln_resource_response.fields contains unknown bits'' Reason_Other
      else (case enum_of mln_resource_response_status_code mln_resource_response_status_values
              (resource_response_status r) of
          None \<Rightarrow> error_response ''resource provider returned an unknown response status'' Reason_Other
        | Some status \<Rightarrow>
            if resource_response_byte_count r \<noteq> 0 \<and> resource_response_bytes r = None
            then error_response ''resource provider returned a null byte buffer'' Reason_Other
            else (let response = empty_response\<lparr>
                native_no_content := status = MLN_RESOURCE_RESPONSE_STATUS_NO_CONTENT,
                native_not_modified := status = MLN_RESOURCE_RESPONSE_STATUS_NOT_MODIFIED,
                native_must_revalidate := resource_response_must_revalidate r,
                native_modified := (if response_has r MLN_RESOURCE_RESPONSE_MODIFIED
                  then Some (from_unix_ms (resource_response_modified_unix_ms r)) else None),
                native_expires := (if response_has r MLN_RESOURCE_RESPONSE_EXPIRES
                  then Some (from_unix_ms (resource_response_expires_unix_ms r)) else None),
                native_etag := (if buffer_view_size (resource_response_etag r) \<noteq> 0
                  then Some (string_from_view (resource_response_etag r)) else None)\<rparr>
              in if status = MLN_RESOURCE_RESPONSE_STATUS_ERROR
                 then response\<lparr>native_failure := Some
                   \<lparr>native_reason = error_reason_from_abi (resource_response_error_reason r),
                    native_message = (if buffer_view_size (resource_response_error_message r) \<noteq> 0
                      then string_from_view (resource_response_error_message r)
                      else ascii ''resource provider failed''),
                    native_retry_after = (if response_has r MLN_RESOURCE_RESPONSE_RETRY_AFTER
                      then Some (from_unix_ms (resource_response_retry_after_unix_ms r)) else None)\<rparr>\<rparr>
                 else if \<not> native_not_modified response \<and> \<not> native_no_content response
                 then response\<lparr>native_data := Some
                   (take (unat (resource_response_byte_count r)) (case_option [] id (resource_response_bytes r)))\<rparr>
                 else response)))"

section \<open>The view of a request\<close>

text \<open>The engine's resource, with the enumerators the code names; \<open>None\<close> is any other value.\<close>

datatype native_kind = Resource_Style | Resource_Source | Resource_Tile | Resource_Glyphs | Resource_SpriteImage
  | Resource_SpriteJSON | Resource_Image | Resource_Unknown

datatype native_loading = Loading_CacheOnly | Loading_NetworkOnly | Loading_All | Loading_None

record native_resource =
  resource_url :: bytes
  resource_kind :: "native_kind option"
  resource_loading :: "native_loading option"
  resource_low_priority :: bool
  resource_offline :: bool
  resource_volatile :: bool
  resource_data_range :: "(u64 \<times> u64) option"
  resource_prior_modified :: "int option"
  resource_prior_expires :: "int option"
  resource_prior_etag :: "bytes option"
  resource_prior_data :: "bytes option"

primrec kind_to_abi :: "native_kind option \<Rightarrow> mln_resource_kind" where
  "kind_to_abi None = MLN_RESOURCE_KIND_UNKNOWN"
| "kind_to_abi (Some kind) = (case kind of
     Resource_Style \<Rightarrow> MLN_RESOURCE_KIND_STYLE
   | Resource_Source \<Rightarrow> MLN_RESOURCE_KIND_SOURCE
   | Resource_Tile \<Rightarrow> MLN_RESOURCE_KIND_TILE
   | Resource_Glyphs \<Rightarrow> MLN_RESOURCE_KIND_GLYPHS
   | Resource_SpriteImage \<Rightarrow> MLN_RESOURCE_KIND_SPRITE_IMAGE
   | Resource_SpriteJSON \<Rightarrow> MLN_RESOURCE_KIND_SPRITE_JSON
   | Resource_Image \<Rightarrow> MLN_RESOURCE_KIND_IMAGE
   | Resource_Unknown \<Rightarrow> MLN_RESOURCE_KIND_UNKNOWN)"

definition loading_method_to_abi :: "native_loading option \<Rightarrow> mln_resource_loading_method" where
  "loading_method_to_abi method = (case method of
     Some Loading_CacheOnly \<Rightarrow> MLN_RESOURCE_LOADING_METHOD_CACHE_ONLY
   | Some Loading_NetworkOnly \<Rightarrow> MLN_RESOURCE_LOADING_METHOD_NETWORK_ONLY
   | _ \<Rightarrow> MLN_RESOURCE_LOADING_METHOD_ALL)"

definition sizeof_mln_resource_request_info :: u32 where
  "sizeof_mln_resource_request_info = 128"

text \<open>A view of a string has its bytes and its size.\<close>

definition text_view :: "bytes \<Rightarrow> mln_buffer_view" where
  "text_view v = \<lparr>buffer_view_data = Some v, buffer_view_size = of_nat (length v)\<rparr>"

definition make_request_view :: "native_resource \<Rightarrow> bytes \<Rightarrow> mln_resource_request_info" where
  "make_request_view r resolved_url = \<lparr>
     resource_request_info_size = sizeof_mln_resource_request_info,
     resource_request_info_fields =
       (if resource_data_range r \<noteq> None then mln_resource_request_field_code MLN_RESOURCE_REQUEST_RANGE else 0)
       OR (if resource_prior_modified r \<noteq> None
           then mln_resource_request_field_code MLN_RESOURCE_REQUEST_PRIOR_MODIFIED else 0)
       OR (if resource_prior_expires r \<noteq> None
           then mln_resource_request_field_code MLN_RESOURCE_REQUEST_PRIOR_EXPIRES else 0),
     resource_request_info_requested_url = text_view (resource_url r),
     resource_request_info_resolved_url = text_view resolved_url,
     resource_request_info_kind = mln_resource_kind_code (kind_to_abi (resource_kind r)),
     resource_request_info_loading_method =
       mln_resource_loading_method_code (loading_method_to_abi (resource_loading r)),
     resource_request_info_priority = mln_resource_priority_code
       (if resource_low_priority r then MLN_RESOURCE_PRIORITY_LOW else MLN_RESOURCE_PRIORITY_REGULAR),
     resource_request_info_usage = mln_resource_usage_code
       (if resource_offline r then MLN_RESOURCE_USAGE_OFFLINE else MLN_RESOURCE_USAGE_ONLINE),
     resource_request_info_storage_policy = mln_resource_storage_policy_code
       (if resource_volatile r then MLN_RESOURCE_STORAGE_POLICY_VOLATILE else MLN_RESOURCE_STORAGE_POLICY_PERMANENT),
     resource_request_info_range = (case resource_data_range r of
         Some (lo, hi) \<Rightarrow> \<lparr>resource_range_start = lo, resource_range_end = hi\<rparr>
       | None \<Rightarrow> \<lparr>resource_range_start = 0, resource_range_end = 0\<rparr>),
     resource_request_info_prior_modified_unix_ms = (case resource_prior_modified r of Some t \<Rightarrow> to_unix_ms t | None \<Rightarrow> 0),
     resource_request_info_prior_expires_unix_ms = (case resource_prior_expires r of Some t \<Rightarrow> to_unix_ms t | None \<Rightarrow> 0),
     resource_request_info_prior_etag = text_view (case resource_prior_etag r of Some v \<Rightarrow> v | None \<Rightarrow> []),
     resource_request_info_prior_data = resource_prior_data r,
     resource_request_info_prior_data_size = (case resource_prior_data r of None \<Rightarrow> 0 | Some v \<Rightarrow> of_nat (length v))\<rparr>"

text \<open>A time that a provider hands back as it was shown to it is the same time.\<close>

lemma sint_i64: "- (2 ^ 63) \<le> k \<Longrightarrow> k < 2 ^ 63 \<Longrightarrow> sint (word_of_int k :: i64) = k"
  by (simp add: signed_of_int signed_take_bit_int_eq_self)

lemma unix_ms_roundtrip:
  assumes "\<bar>t\<bar> * 1000 < 2 ^ 63"
  shows "from_unix_ms (to_unix_ms t) = t"
proof -
  have "sint (word_of_int (t * 1000) :: i64) = t * 1000"
    using assms by (intro sint_i64) (auto simp: abs_if split: if_splits)
  moreover have "t * 1000 sdiv 1000 = t"
    by (cases "0 \<le> t") (simp_all add: signed_divide_int_def sgn_if abs_if)
  ultimately show ?thesis by (simp add: from_unix_ms_def to_unix_ms_def)
qed

lemma sdiv_near: "\<bar>m - 1000 * (m sdiv 1000)\<bar> < (1000 :: int)"
proof -
  have d: "n - 1000 * (n div 1000) = n mod 1000" "0 \<le> n mod 1000" "n mod 1000 < 1000" for n :: int
    by (simp_all add: minus_mult_div_eq_mod)
  show ?thesis
  proof (cases "0 \<le> m")
    case True
    then have "m sdiv 1000 = m div 1000" by (simp add: signed_divide_int_def sgn_if)
    with d [of m] show ?thesis by linarith
  next
    case False
    then have "m sdiv 1000 = - (- m div 1000)" by (simp add: signed_divide_int_def sgn_if abs_if)
    with d [of "- m"] show ?thesis by linarith
  qed
qed

lemma from_unix_ms_near: "\<bar>sint ms - 1000 * from_unix_ms ms\<bar> < 1000"
  unfolding from_unix_ms_def by (rule sdiv_near)

end
