(* ===== verification/Resource_Requests.thy ===== *)
theory Resource_Requests
  imports Resource_Answers
begin

text \<open>
  Resource requests that a host's provider serves (\<open>src/resources/custom_resource_provider.cpp\<close> and their entry
  points in \<open>src/c_api/runtime.cpp\<close>): the request object with its locked sections, and the life of a request in
  every interleaving of the provider's callback, the host's calls on any thread, the requesting run loop, and
  the cancellation. A function that takes the request's lock is the sequence of its locked sections and of the
  calls between them.
\<close>

unbundle bit_operations_syntax

section \<open>The request\<close>

text \<open>
  The loader on the requesting run loop: the decision it waits for, the error whose storage is reserved (\<open>None\<close>
  once it is moved away), the callback (likewise), and whether its wake has been sent.
\<close>

datatype decision = Decision_None | Decision_PassThrough | Decision_Failure

datatype failure = Failure_Released | Failure_Exception | Failure_ProcessExit | Failure_Native

primrec failure_message :: "failure \<Rightarrow> string" where
  "failure_message Failure_Released = ''resource request was released without a response''"
| "failure_message Failure_Exception = ''resource provider threw an exception''"
| "failure_message Failure_ProcessExit = ''the process is exiting''"
| "failure_message Failure_Native = ''native resource loading failed''"

record provider_request =
  loader_pending :: decision
  loader_error :: "string option"
  loader_has_callback :: bool
  loader_woken :: bool

definition new_loader :: provider_request where
  "new_loader = \<lparr>loader_pending = Decision_None, loader_error = Some [], loader_has_callback = True, loader_woken = False\<rparr>"

text \<open>\<open>None\<close> is the use of storage that was moved away.\<close>

definition set_failure :: "failure \<Rightarrow> provider_request \<Rightarrow> provider_request option" where
  "set_failure failure l =
     (if loader_error l = None then None else Some (l\<lparr>loader_error := Some (failure_message failure)\<rparr>))"

definition schedule :: "decision \<Rightarrow> failure \<Rightarrow> provider_request \<Rightarrow> provider_request option" where
  "schedule decision failure l =
     (case (if decision = Decision_Failure then set_failure failure l else Some l) of
        None \<Rightarrow> None | Some l1 \<Rightarrow> Some (l1\<lparr>loader_pending := decision, loader_woken := True\<rparr>))"

text \<open>
  What the object calls on cancellation: a host's callback, or the one that queues the cancel; the user data
  of the latter is the registration of the handler on its queue.
\<close>

datatype cancel_function = Host_cancel ptr | Queue_request_cancel

datatype release_function = Host_release ptr | Registration_retire

datatype cancel_context = Host_context ptr | Registration nat mln_resource_request_cancel_handler

record resource_request =
  req_cancelled :: bool
  req_completed :: bool
  req_retired :: bool
  req_deciding :: bool
  req_claimed :: bool
  req_released_while_deciding :: bool
  req_cancel_callback :: "cancel_function option"
  req_cancel_release :: "release_function option"
  req_cancel_user_data :: cancel_context
  req_cancel_callback_registered :: bool
  req_cancel_callback_running :: bool
  req_remove_after_cancel_callback :: bool
  req_cancel_callback_thread :: nat
  req_handle :: u64
  req_loader :: "provider_request option"
  req_prior_data :: "bytes option"
  req_prior_modified :: "int option"
  req_prior_etag :: "bytes option"

definition new_request :: "u64 \<Rightarrow> bytes option \<Rightarrow> int option \<Rightarrow> bytes option \<Rightarrow> resource_request" where
  "new_request handle prior_data prior_modified prior_etag =
     \<lparr>req_cancelled = False, req_completed = False, req_retired = False, req_deciding = False,
      req_claimed = False, req_released_while_deciding = False, req_cancel_callback = None,
      req_cancel_release = None, req_cancel_user_data = Host_context 0, req_cancel_callback_registered = False,
      req_cancel_callback_running = False, req_remove_after_cancel_callback = False,
      req_cancel_callback_thread = 0, req_handle = handle, req_loader = Some new_loader,
      req_prior_data = prior_data, req_prior_modified = prior_modified, req_prior_etag = prior_etag\<rparr>"

text \<open>
  What a request does that others see. \<open>Bad_access\<close> is a use of a null pointer or of storage moved away,
  \<open>Host_answer\<close> the status of a call that answers, when it is decided.
\<close>

datatype request_event =
    Responded native_response
  | Scheduled decision
  | Bad_access
  | Host_answer mln_status
  | Host_release_call
  | Cancelled
  | Handler_stored cancel_function "release_function option" cancel_context
  | Cancel_called cancel_function cancel_context
  | Release_called release_function cancel_context
  | Release_skipped release_function cancel_context
  | Handle_removed
  | Native_started
  | Failure_delivered string

definition schedule_on ::
    "decision \<Rightarrow> failure \<Rightarrow> resource_request \<Rightarrow> request_event list \<times> resource_request" where
  "schedule_on decision failure q =
     (case req_loader q of
        None \<Rightarrow> ([Bad_access], q)
      | Some l \<Rightarrow> (case schedule decision failure l of
          None \<Rightarrow> ([Bad_access], q)
        | Some l' \<Rightarrow> ([Scheduled decision], q\<lparr>req_loader := Some l', req_completed := True\<rparr>)))"

definition fail_locked :: "failure \<Rightarrow> resource_request \<Rightarrow> request_event list \<times> resource_request" where
  "fail_locked failure q =
     (if req_completed q \<or> req_cancelled q then ([], q) else schedule_on Decision_Failure failure q)"

section \<open>The calls of a host\<close>

text \<open>
  Each call that takes the request's lock is split where it takes it: what precedes the lock either returns or
  goes on with the request leased, and the locked section gives the outcome of the call. \<open>throws\<close> is the
  message of the exception, where an allocation or the post to the requester throws.
\<close>

definition report_stale :: "resource_request \<Rightarrow> thread_locals \<Rightarrow> outcome \<times> thread_locals" where
  "report_stale q t = (case report_handle_fault Kind_ResourceRequest (req_handle q) Fault_Stale t of
     (status, t') \<Rightarrow> (Returned status, t'))"

text \<open>The lease of a handle, \<open>Some\<close> with the status it is refused with.\<close>

definition lease_request ::
    "nat handle_table \<Rightarrow> u64 \<Rightarrow> thread_locals \<Rightarrow> mln_status option \<times> thread_locals" where
  "lease_request table handle t = (case lease Kind_ResourceRequest table handle t of
     (None, t') \<Rightarrow> (Some (recorded_fault_status t'), t')
   | (Some n, t') \<Rightarrow> (None, t'))"

definition complete_begin ::
    "nat handle_table \<Rightarrow> u64 \<Rightarrow> mln_resource_response option \<Rightarrow> thread_locals
      \<Rightarrow> mln_status option \<times> thread_locals" where
  "complete_begin table handle response t = (case response of
     None \<Rightarrow> (Some MLN_STATUS_INVALID_ARGUMENT, error_text ''response must not be null'' t)
   | Some r \<Rightarrow>
       (case (if sizeof_mln_resource_response \<le> resource_response_size r
              then (case validate_c_string_view (resource_response_etag r) ''etag'' t of (etag_ok, t1) \<Rightarrow>
                if etag_ok then validate_c_string_view (resource_response_error_message r) ''error_message'' t1
                else (False, t1))
              else (True, t)) of (valid, t2) \<Rightarrow>
        if \<not> valid then (Some MLN_STATUS_INVALID_ARGUMENT, t2) else lease_request table handle t2))"

text \<open>Revalidation delivers the bytes that were withheld.\<close>

definition revalidated :: "resource_request \<Rightarrow> native_response \<Rightarrow> native_response" where
  "revalidated q r =
     (if native_not_modified r \<and> req_prior_data q \<noteq> None
      then r\<lparr>native_data := req_prior_data q,
        native_modified := (if native_modified r = None then req_prior_modified q else native_modified r),
        native_etag := (if native_etag r = None then req_prior_etag q else native_etag r),
        native_not_modified := False\<rparr>
      else r)"

definition complete_locked ::
    "bytes option \<Rightarrow> mln_resource_response \<Rightarrow> resource_request \<Rightarrow> thread_locals
      \<Rightarrow> outcome \<times> request_event list \<times> resource_request \<times> thread_locals" where
  "complete_locked throws response q t =
     (if req_retired q then (case report_stale q t of (r, t') \<Rightarrow> (r, [], q, t'))
      else if req_completed q
        then (Returned MLN_STATUS_INVALID_STATE, [], q, error_text ''resource request is already completed'' t)
      else if req_cancelled q
        then (Returned MLN_STATUS_INVALID_STATE, [], q, error_text ''resource request is cancelled'' t)
      else (case throws of
          Some what \<Rightarrow> (Threw_exception what, [], q, t)
        | None \<Rightarrow> (Returned MLN_STATUS_OK, [Responded (revalidated q (response_from_abi response))],
            q\<lparr>req_completed := True\<rparr>, t)))"

definition pass_through_locked ::
    "resource_request \<Rightarrow> thread_locals
      \<Rightarrow> outcome \<times> request_event list \<times> resource_request \<times> thread_locals" where
  "pass_through_locked q t =
     (if req_retired q then (case report_stale q t of (r, t') \<Rightarrow> (r, [], q, t'))
      else if req_completed q \<or> req_cancelled q
        then (Returned MLN_STATUS_INVALID_STATE, [], q,
          error_text ''resource request is completed or cancelled'' t)
      else (case schedule_on Decision_PassThrough Failure_Released q of
          (events, q') \<Rightarrow> (Returned MLN_STATUS_OK, events, q', t)))"

text \<open>The out parameter of a call is \<open>None\<close> where it is not written.\<close>

definition cancelled_begin ::
    "nat handle_table \<Rightarrow> u64 \<Rightarrow> bool \<Rightarrow> thread_locals \<Rightarrow> mln_status option \<times> thread_locals" where
  "cancelled_begin table handle has_out t =
     (if \<not> has_out then (Some MLN_STATUS_INVALID_ARGUMENT, error_text ''out_cancelled must not be null'' t)
      else lease_request table handle t)"

definition cancelled_locked ::
    "resource_request \<Rightarrow> thread_locals \<Rightarrow> outcome \<times> bool option \<times> thread_locals" where
  "cancelled_locked q t =
     (if req_retired q then (case report_stale q t of (r, t') \<Rightarrow> (r, None, t'))
      else (Returned MLN_STATUS_OK, Some (req_cancelled q \<and> \<not> req_completed q), t))"

definition sizeof_mln_resource_request_cancel_handler :: u32 where
  "sizeof_mln_resource_request_cancel_handler = 40"

definition release_of :: "ptr \<Rightarrow> release_function option" where
  "release_of release = (if release = 0 then None else Some (Host_release release))"

text \<open>With the queue of the handler where the call goes on.\<close>

definition set_cancel_begin ::
    "nat handle_table \<Rightarrow> nat handle_table \<Rightarrow> u64 \<Rightarrow> mln_resource_request_cancel_handler option \<Rightarrow> bool
      \<Rightarrow> thread_locals \<Rightarrow> mln_status option \<times> nat option \<times> thread_locals" where
  "set_cancel_begin queues table handle handler has_out t = (case handler of
     None \<Rightarrow> (Some MLN_STATUS_INVALID_ARGUMENT, None, error_text ''cancel handler must not be null'' t)
   | Some h \<Rightarrow>
       if resource_request_cancel_handler_size h < sizeof_mln_resource_request_cancel_handler
         then (Some MLN_STATUS_INVALID_ARGUMENT, None,
           error_text ''mln_resource_request_cancel_handler.size is too small'' t)
       else if \<not> has_out
         then (Some MLN_STATUS_INVALID_ARGUMENT, None, error_text ''out_cancelled must not be null'' t)
       else (case resolve_registration_queue ''cancel handler'' queues
               (resource_request_cancel_handler_queue h)
               (resource_request_cancel_handler_callback h \<noteq> 0) t of (status, queue, t1) \<Rightarrow>
         if status \<noteq> MLN_STATUS_OK then (Some status, None, t1)
         else (case lease_request table handle t1 of (refusal, t2) \<Rightarrow> (refusal, queue, t2))))"

definition store_handler ::
    "mln_resource_request_cancel_handler \<Rightarrow> nat option \<Rightarrow> cancel_function \<times> release_function option \<times> cancel_context" where
  "store_handler h queue = (case queue of
     Some n \<Rightarrow> (Queue_request_cancel, Some Registration_retire, Registration n h)
   | None \<Rightarrow> (Host_cancel (resource_request_cancel_handler_callback h),
       release_of (resource_request_cancel_handler_release_user_data h),
       Host_context (resource_request_cancel_handler_user_data h)))"

definition set_cancel_locked ::
    "bytes option \<Rightarrow> mln_resource_request_cancel_handler \<Rightarrow> nat option \<Rightarrow> resource_request \<Rightarrow> thread_locals
      \<Rightarrow> outcome \<times> bool option \<times> request_event list \<times> resource_request \<times> thread_locals" where
  "set_cancel_locked throws h queue q t = (case throws of
     Some what \<Rightarrow> (Threw_exception what, None, [], q, t)
   | None \<Rightarrow>
       if req_retired q then (case report_stale q t of (r, t') \<Rightarrow> (r, None, [], q, t'))
       else if req_cancel_callback_registered q
         then (Returned MLN_STATUS_INVALID_STATE, None, [], q,
           error_text ''resource request already has a cancel callback'' t)
       else (let q1 = q\<lparr>req_cancel_callback_registered := True\<rparr>;
                 out_cancelled = req_cancelled q \<and> \<not> req_completed q
         in if out_cancelled then (Returned MLN_STATUS_OK, Some True, [], q1, t)
            else (case store_handler h queue of (callback, release, user_data) \<Rightarrow>
              (Returned MLN_STATUS_OK, Some False, [Handler_stored callback release user_data],
               q1\<lparr>req_cancel_callback := Some callback, req_cancel_release := release,
                 req_cancel_user_data := user_data\<rparr>, t))))"

definition release_locked :: "resource_request \<Rightarrow> request_event list \<times> resource_request" where
  "release_locked q =
     (if req_retired q then ([], q)
      else if req_claimed q then fail_locked Failure_Released q
      else if req_deciding q then ([], q\<lparr>req_released_while_deciding := True\<rparr>)
      else ([], q))"

section \<open>The threads\<close>

text \<open>
  Where a call on the request stands: at the lock of an answer, of a read or of a registration, and through
  \<open>release_resource_request\<close> and \<open>retire_request\<close>, whose wait ends when no cancel callback runs.
\<close>

datatype request_op =
    Completing mln_resource_response
  | Passing_through
  | Reading_cancelled
  | Setting_cancel mln_resource_request_cancel_handler "nat option"
  | Releasing
  | Releasing_locked
  | Retiring
  | Retiring_locked
  | Retire_waiting "release_function option" cancel_context
  | Retire_releasing "release_function option" cancel_context
  | Retire_removing

text \<open>Where the invocation of the provider stands, and where the destruction of the request does.\<close>

datatype provider_phase = Provider_entering | Provider_calling | Provider_failing failure | Provider_done

datatype requester_phase =
    Requester_alive
  | Requester_cancelling
  | Requester_taking
  | Requester_calling cancel_function "release_function option" cancel_context
  | Requester_called "release_function option" cancel_context
  | Requester_ending
  | Requester_removing
  | Requester_gone

record request_system =
  sys_request :: resource_request
  sys_table :: "nat handle_table"
  sys_provider :: provider_phase
  sys_requester :: requester_phase
  sys_ops :: "(nat \<times> request_op) list"
  sys_exiting :: bool
  sys_log :: "request_event list"

abbreviation with_request :: "request_event list \<Rightarrow> resource_request \<Rightarrow> request_system \<Rightarrow> request_system" where
  "with_request events q s \<equiv> s\<lparr>sys_request := q, sys_log := sys_log s @ events\<rparr>"

text \<open>The run loop's thread, which runs the provider's callback, the drain of the loader and the cancellation.\<close>

definition loop_thread :: nat where
  "loop_thread = 0"

text \<open>The request is created with its handle in the table; \<open>n\<close> is the number of the object there.\<close>

definition request_custom_resource ::
    "nat \<Rightarrow> bytes option \<Rightarrow> int option \<Rightarrow> bytes option \<Rightarrow> bool \<Rightarrow> nat handle_table \<Rightarrow> request_system option" where
  "request_custom_resource n prior_data prior_modified prior_etag exiting table =
     (case insert_handle Kind_ResourceRequest n table of
        None \<Rightarrow> None
      | Some (handle, table') \<Rightarrow> Some
          \<lparr>sys_request = new_request handle prior_data prior_modified prior_etag, sys_table = table',
           sys_provider = Provider_entering, sys_requester = Requester_alive, sys_ops = [],
           sys_exiting = exiting, sys_log = []\<rparr>)"

definition release_event :: "bool \<Rightarrow> release_function option \<Rightarrow> cancel_context \<Rightarrow> request_event list" where
  "release_event exiting release user_data = (case release of
     None \<Rightarrow> []
   | Some f \<Rightarrow> if exiting then [Release_skipped f user_data] else [Release_called f user_data])"

definition remove_request :: "request_system \<Rightarrow> request_system" where
  "remove_request s = (case remove_handle Kind_ResourceRequest (sys_table s) (req_handle (sys_request s)) of
     (None, table) \<Rightarrow> s\<lparr>sys_table := table\<rparr>
   | (Some n, table) \<Rightarrow> s\<lparr>sys_table := table, sys_log := sys_log s @ [Handle_removed]\<rparr>)"

text \<open>The critical section of \<open>retire_request\<close>, with the calls that go on from it.\<close>

definition retire_locked :: "nat \<Rightarrow> resource_request \<Rightarrow> request_op option \<times> resource_request" where
  "retire_locked thread q =
     (let release = req_cancel_release q; user_data = req_cancel_user_data q;
          q1 = q\<lparr>req_retired := True, req_cancel_callback := None, req_cancel_release := None,
            req_cancel_user_data := Host_context 0\<rparr>
      in if req_cancel_callback_running q
         then (if req_cancel_callback_thread q = thread
               then (None, q1\<lparr>req_remove_after_cancel_callback := True\<rparr>)
               else (Some (Retire_waiting release user_data), q1))
         else (Some (Retire_releasing release user_data), q1))"

text \<open>An answer that is refused or fails ends the handle as a release does.\<close>

definition after_answer :: "outcome \<Rightarrow> request_op" where
  "after_answer r = (if r = Returned MLN_STATUS_OK then Retiring else Releasing)"

text \<open>
  The next action of a call, with the operation it goes on with, \<open>None\<close> once it has returned or where it
  waits. \<open>throws\<close> is as above, \<open>t\<close> the calling thread's state.
\<close>

definition op_action ::
    "bytes option \<Rightarrow> thread_locals \<Rightarrow> nat \<Rightarrow> request_op \<Rightarrow> request_system \<Rightarrow> request_op option \<times> request_system" where
  "op_action throws t thread op s =
     (let q = sys_request s; found = try_lease Kind_ResourceRequest (sys_table s) (req_handle q) \<noteq> None in
      case op of
        Completing response \<Rightarrow> (case complete_locked throws response q t of (r, events, q', t') \<Rightarrow>
          (Some (after_answer r), with_request (events @ [Host_answer (outcome_status r)]) q' s))
      | Passing_through \<Rightarrow> (case pass_through_locked q t of (r, events, q', t') \<Rightarrow>
          (Some (after_answer r), with_request (events @ [Host_answer (outcome_status r)]) q' s))
      | Reading_cancelled \<Rightarrow> (None, s)
      | Setting_cancel h queue \<Rightarrow> (case set_cancel_locked throws h queue q t of (r, out, events, q', t') \<Rightarrow>
          (None, with_request events q' s))
      | Releasing \<Rightarrow> (Some (if found then Releasing_locked else Retiring), s)
      | Releasing_locked \<Rightarrow> (case release_locked q of (events, q') \<Rightarrow> (Some Retiring, with_request events q' s))
      | Retiring \<Rightarrow> (if found then Some Retiring_locked else None, s)
      | Retiring_locked \<Rightarrow> (case retire_locked thread q of (op', q') \<Rightarrow> (op', s\<lparr>sys_request := q'\<rparr>))
      | Retire_waiting release user_data \<Rightarrow>
          (Some (if req_cancel_callback_running q then Retire_waiting release user_data
                 else Retire_releasing release user_data), s)
      | Retire_releasing release user_data \<Rightarrow>
          (Some Retire_removing, s\<lparr>sys_log := sys_log s @ release_event (sys_exiting s) release user_data\<rparr>)
      | Retire_removing \<Rightarrow> (None, remove_request s))"

text \<open>
  A host's calls, with what precedes their lock. An answer inside a scope that forbids reentry is refused
  by the boundary; a call that is refused or returns before the lock has no operation to go on with, and
  an answer goes on with the release.
\<close>

datatype host_call =
    Call_complete "mln_resource_response option"
  | Call_pass_through
  | Call_is_cancelled bool
  | Call_set_cancel "nat handle_table" "mln_resource_request_cancel_handler option" bool
  | Call_release

definition answer_begin :: "mln_status option \<Rightarrow> request_op \<Rightarrow> request_event list \<times> request_op" where
  "answer_begin refusal op = (case refusal of
     None \<Rightarrow> ([], op) | Some status \<Rightarrow> ([Host_answer status], Releasing))"

definition call_begin :: "thread_locals \<Rightarrow> host_call \<Rightarrow> request_system \<Rightarrow> request_event list \<times> request_op option" where
  "call_begin t call s =
     (let handle = req_handle (sys_request s); forbidden = active_reentry t \<noteq> None in
      case call of
        Call_complete response \<Rightarrow> (case answer_begin
            (if forbidden then Some MLN_STATUS_INVALID_STATE
             else fst (complete_begin (sys_table s) handle response (clear_thread_error t)))
            (Completing (the response)) of (events, op) \<Rightarrow> (events, Some op))
      | Call_pass_through \<Rightarrow> (case answer_begin
            (if forbidden then Some MLN_STATUS_INVALID_STATE
             else fst (lease_request (sys_table s) handle (clear_thread_error t))) Passing_through of
          (events, op) \<Rightarrow> (events, Some op))
      | Call_is_cancelled has_out \<Rightarrow>
          if forbidden \<or> fst (cancelled_begin (sys_table s) handle has_out t) \<noteq> None then ([], None)
          else ([], Some Reading_cancelled)
      | Call_set_cancel queues handler has_out \<Rightarrow>
          (case set_cancel_begin queues (sys_table s) handle handler has_out t of (refusal, queue, t') \<Rightarrow>
           if forbidden \<or> refusal \<noteq> None then ([], None) else ([], Some (Setting_cancel (the handler) queue)))
      | Call_release \<Rightarrow> ([Host_release_call], Some Releasing))"

text \<open>The invocation of the provider; \<open>throws\<close> says that making the view or the callback throws.\<close>

definition provider_action :: "bool \<Rightarrow> request_system \<Rightarrow> request_system" where
  "provider_action throws s = (let q = sys_request s in case sys_provider s of
     Provider_entering \<Rightarrow>
       if sys_exiting s then s\<lparr>sys_provider := Provider_failing Failure_ProcessExit\<rparr>
       else if throws then s\<lparr>sys_provider := Provider_failing Failure_Exception\<rparr>
       else s\<lparr>sys_request := q\<lparr>req_deciding := True\<rparr>, sys_provider := Provider_calling\<rparr>
   | Provider_calling \<Rightarrow>
       if throws then s\<lparr>sys_provider := Provider_failing Failure_Exception\<rparr>
       else (let q1 = q\<lparr>req_deciding := False, req_claimed := True\<rparr> in
         case (if req_released_while_deciding q1 then fail_locked Failure_Released q1 else ([], q1)) of
           (events, q2) \<Rightarrow> with_request events q2 s\<lparr>sys_provider := Provider_done\<rparr>)
   | Provider_failing failure \<Rightarrow>
       (case fail_locked failure (q\<lparr>req_deciding := False\<rparr>) of (events, q1) \<Rightarrow>
         with_request events q1 s\<lparr>sys_provider := Provider_done, sys_ops := sys_ops s @ [(loop_thread, Retiring)]\<rparr>)
   | Provider_done \<Rightarrow> s)"

text \<open>
  The destruction of the request by its requester: the destructor of the loader, then the cancel handler of
  the response, which runs the cancel callback. The callback is under way from \<open>Requester_called\<close> to the
  release of its user data.
\<close>

definition requester_action :: "request_system \<Rightarrow> request_system" where
  "requester_action s = (let q = sys_request s in case sys_requester s of
     Requester_alive \<Rightarrow> with_request [Cancelled] (q\<lparr>req_cancelled := True, req_loader := None\<rparr>) s
       \<lparr>sys_requester := Requester_cancelling\<rparr>
   | Requester_cancelling \<Rightarrow> s\<lparr>sys_request := q\<lparr>req_cancelled := True\<rparr>, sys_requester := Requester_taking\<rparr>
   | Requester_taking \<Rightarrow> (case req_cancel_callback q of
       None \<Rightarrow> s\<lparr>sys_requester := Requester_gone\<rparr>
     | Some callback \<Rightarrow>
         if req_completed q then s\<lparr>sys_requester := Requester_gone\<rparr>
         else s\<lparr>sys_request := q\<lparr>req_cancel_callback := None, req_cancel_release := None,
             req_cancel_user_data := Host_context 0, req_cancel_callback_running := True,
             req_cancel_callback_thread := loop_thread\<rparr>,
           sys_requester := Requester_calling callback (req_cancel_release q) (req_cancel_user_data q)\<rparr>)
   | Requester_calling callback release user_data \<Rightarrow>
       s\<lparr>sys_log := sys_log s @ (if sys_exiting s then [] else [Cancel_called callback user_data]),
         sys_requester := Requester_called release user_data\<rparr>
   | Requester_called release user_data \<Rightarrow>
       s\<lparr>sys_log := sys_log s @ release_event (sys_exiting s) release user_data, sys_requester := Requester_ending\<rparr>
   | Requester_ending \<Rightarrow>
       s\<lparr>sys_request := q\<lparr>req_cancel_callback_running := False, req_remove_after_cancel_callback := False\<rparr>,
         sys_requester := (if req_remove_after_cancel_callback q then Requester_removing else Requester_gone)\<rparr>
   | Requester_removing \<Rightarrow> remove_request s\<lparr>sys_requester := Requester_gone\<rparr>
   | Requester_gone \<Rightarrow> s)"

text \<open>
  The drain of the loader, which its wake runs on the run loop. \<open>throws\<close> says that the native load cannot
  be started.
\<close>

definition send_failure :: "provider_request \<Rightarrow> request_event list \<times> provider_request" where
  "send_failure l = (case loader_error l of
     None \<Rightarrow> ([Bad_access], l)
   | Some message \<Rightarrow> if \<not> loader_has_callback l then ([Bad_access], l)
       else ([Failure_delivered message], l\<lparr>loader_error := None, loader_has_callback := False\<rparr>))"

definition pass_through :: "bool \<Rightarrow> provider_request \<Rightarrow> request_event list \<times> provider_request" where
  "pass_through throws l =
     (if throws then (case set_failure Failure_Native l of None \<Rightarrow> ([Bad_access], l) | Some l1 \<Rightarrow> send_failure l1)
      else ([Native_started], l))"

definition drain_loader :: "bool \<Rightarrow> provider_request \<Rightarrow> request_event list \<times> provider_request" where
  "drain_loader throws l =
     (let l1 = l\<lparr>loader_pending := Decision_None, loader_woken := False\<rparr> in case loader_pending l of
        Decision_None \<Rightarrow> ([], l1)
      | Decision_PassThrough \<Rightarrow> pass_through throws l1
      | Decision_Failure \<Rightarrow> send_failure l1)"

definition drain_request :: "bool \<Rightarrow> resource_request \<Rightarrow> request_event list \<times> resource_request" where
  "drain_request throws q =
     (if req_cancelled q then ([], q)
      else (case req_loader q of
          None \<Rightarrow> ([Bad_access], q)
        | Some l \<Rightarrow> (case drain_loader throws l of (events, l') \<Rightarrow> (events, q\<lparr>req_loader := Some l'\<rparr>))))"

text \<open>
  Every step of a request: a host that was given the handle begins a call on any thread, a call takes its
  next action, the provider's invocation and, once it has returned, the requester take theirs, a loader
  that was woken drains, other objects come to the table and leave it, the process begins to exit.
\<close>

inductive request_step :: "request_system \<Rightarrow> request_system \<Rightarrow> bool" where
  step_call: "sys_provider s \<noteq> Provider_entering \<Longrightarrow> call_begin t call s = (events, op) \<Longrightarrow>
     request_step s (s\<lparr>sys_log := sys_log s @ events,
       sys_ops := sys_ops s @ (case op of None \<Rightarrow> [] | Some p \<Rightarrow> [(thread, p)])\<rparr>)"
| step_op: "sys_ops s = ops1 @ (thread, op) # ops2 \<Longrightarrow> op_action throws t thread op s = (op', s') \<Longrightarrow>
     request_step s (s'\<lparr>sys_ops := ops1 @ (case op' of None \<Rightarrow> [] | Some p \<Rightarrow> [(thread, p)]) @ ops2\<rparr>)"
| step_provider: "request_step s (provider_action throws s)"
| step_requester: "sys_provider s = Provider_done \<Longrightarrow> request_step s (requester_action s)"
| step_drain: "req_loader (sys_request s) = Some l \<Longrightarrow> loader_woken l \<Longrightarrow> sys_requester s = Requester_alive \<Longrightarrow>
     drain_request throws (sys_request s) = (events, q) \<Longrightarrow> request_step s (with_request events q s)"
| step_insert: "insert_handle Kind_ResourceRequest n (sys_table s) = Some (h, table) \<Longrightarrow>
     request_step s (s\<lparr>sys_table := table\<rparr>)"
| step_remove: "h \<noteq> req_handle (sys_request s) \<Longrightarrow>
     request_step s (s\<lparr>sys_table := snd (remove_handle Kind_ResourceRequest (sys_table s) h)\<rparr>)"
| step_exit: "request_step s (s\<lparr>sys_exiting := True\<rparr>)"

inductive request_reachable :: "request_system \<Rightarrow> bool" where
  request_start: "table_ok table \<Longrightarrow>
     request_custom_resource n prior_data prior_modified prior_etag exiting table = Some s \<Longrightarrow> request_reachable s"
| request_next: "request_reachable s \<Longrightarrow> request_step s s' \<Longrightarrow> request_reachable s'"


section \<open>What the requester is given\<close>

text \<open>An answer that can be read: its size, its fields, its status and its bytes.\<close>

definition response_valid :: "mln_resource_response \<Rightarrow> bool" where
  "response_valid r \<longleftrightarrow> sizeof_mln_resource_response \<le> resource_response_size r
     \<and> \<not> has_unknown_bits (resource_response_fields r) 7
     \<and> resource_response_status r < 4
     \<and> (resource_response_byte_count r = 0 \<or> resource_response_bytes r \<noteq> None)"

lemma known_response_fields:
  "mln_resource_response_field_code MLN_RESOURCE_RESPONSE_MODIFIED
     OR mln_resource_response_field_code MLN_RESOURCE_RESPONSE_EXPIRES
     OR mln_resource_response_field_code MLN_RESOURCE_RESPONSE_RETRY_AFTER = 7"
  by simp

lemma status_known: "enum_of mln_resource_response_status_code mln_resource_response_status_values st = None \<longleftrightarrow> \<not> st < 4"
proof -
  have "st < 4 \<longleftrightarrow> st = 0 \<or> st = 1 \<or> st = 2 \<or> st = 3"
    by (simp add: word_less_nat_alt word_unat_eq_iff) linarith
  then show ?thesis by (auto simp: enum_of_def mln_resource_response_status_values_def)
qed

lemma status_read:
  assumes "enum_of mln_resource_response_status_code mln_resource_response_status_values st = Some e"
  shows "st = mln_resource_response_status_code e"
  using assms by (simp add: resource_response_status_enum.enum_of_Some)

lemma response_cases:
  obtains (invalid) message where "\<not> response_valid r" "response_from_abi r = error_response message Reason_Other"
  | (failed) "response_valid r" "resource_response_status r = 1" "native_failure (response_from_abi r) \<noteq> None"
      "native_data (response_from_abi r) = None" "\<not> native_no_content (response_from_abi r)"
      "\<not> native_not_modified (response_from_abi r)"
  | (data) "response_valid r" "resource_response_status r = 0" "native_failure (response_from_abi r) = None"
      "native_data (response_from_abi r) = Some
        (take (unat (resource_response_byte_count r)) (case_option [] id (resource_response_bytes r)))"
      "\<not> native_no_content (response_from_abi r)" "\<not> native_not_modified (response_from_abi r)"
  | (no_content) "response_valid r" "resource_response_status r = 2" "native_failure (response_from_abi r) = None"
      "native_data (response_from_abi r) = None" "native_no_content (response_from_abi r)"
      "\<not> native_not_modified (response_from_abi r)"
  | (not_modified) "response_valid r" "resource_response_status r = 3" "native_failure (response_from_abi r) = None"
      "native_data (response_from_abi r) = None" "\<not> native_no_content (response_from_abi r)"
      "native_not_modified (response_from_abi r)"
proof (cases "response_valid r")
  case False
  have read: "\<exists>message. response_from_abi r = error_response message Reason_Other"
  proof (cases "resource_response_size r < sizeof_mln_resource_response \<or> has_unknown_bits (resource_response_fields r) 7")
    case True
    then show ?thesis by (auto simp: response_from_abi_def known_response_fields)
  next
    case readable: False
    show ?thesis
    proof (cases "enum_of mln_resource_response_status_code mln_resource_response_status_values (resource_response_status r)")
      case None
      with readable show ?thesis by (auto simp: response_from_abi_def known_response_fields)
    next
      case (Some e)
      with status_known have "resource_response_status r < 4" by (metis option.distinct(1))
      with False readable have "resource_response_byte_count r \<noteq> 0 \<and> resource_response_bytes r = None"
        by (auto simp: response_valid_def)
      with readable Some show ?thesis by (auto simp: response_from_abi_def known_response_fields)
    qed
  qed
  then obtain message where "response_from_abi r = error_response message Reason_Other" by blast
  with False show thesis by (rule invalid)
next
  case True
  then obtain e where e: "enum_of mln_resource_response_status_code mln_resource_response_status_values
      (resource_response_status r) = Some e"
    using status_known [of "resource_response_status r"] by (auto simp: response_valid_def)
  note st = status_read [OF e]
  show thesis
  proof (cases e)
    case MLN_RESOURCE_RESPONSE_STATUS_OK
    with True e st show thesis
      by (intro data) (auto simp: response_valid_def response_from_abi_def known_response_fields empty_response_def Let_def)
  next
    case MLN_RESOURCE_RESPONSE_STATUS_ERROR
    with True e st show thesis
      by (intro failed) (auto simp: response_valid_def response_from_abi_def known_response_fields empty_response_def Let_def)
  next
    case MLN_RESOURCE_RESPONSE_STATUS_NO_CONTENT
    with True e st show thesis
      by (intro no_content) (auto simp: response_valid_def response_from_abi_def known_response_fields empty_response_def Let_def)
  next
    case MLN_RESOURCE_RESPONSE_STATUS_NOT_MODIFIED
    with True e st show thesis
      by (intro not_modified) (auto simp: response_valid_def response_from_abi_def known_response_fields empty_response_def Let_def)
  qed
qed

text \<open>
  C36: Every answer of a provider gives its requester exactly one of a failure, bytes, no content and not
  modified. An answer that cannot be read gives a failure for other reasons; one that can gives the
  failure, the exact bytes or no content that it states, and one that is not modified gives the bytes that
  were withheld from the requester, if there were any.
\<close>

theorem provider_answer_read:
  "let n = revalidated q (response_from_abi r)
   in length (filter id [native_failure n \<noteq> None, native_data n \<noteq> None, native_no_content n, native_not_modified n]) = 1
     \<and> (if response_valid r then
          (native_failure n \<noteq> None) = (resource_response_status r = 1)
          \<and> native_no_content n = (resource_response_status r = 2)
          \<and> native_not_modified n = (resource_response_status r = 3 \<and> req_prior_data q = None)
          \<and> native_data n =
             (if resource_response_status r = 0
              then Some (take (unat (resource_response_byte_count r)) (case_option [] id (resource_response_bytes r)))
              else if resource_response_status r = 3 then req_prior_data q else None)
        else native_failure n \<noteq> None \<and> native_reason (the (native_failure n)) = Reason_Other)"
  by (cases r rule: response_cases)
    (auto simp: Let_def revalidated_def error_response_def empty_response_def)

end
