(* ===== verification/Request_Answers.thy ===== *)
theory Request_Answers
  imports Resource_Requests
begin

text \<open>
  A resource request is answered once, and its handle ends with the first answer or release: the
  invariant of the answers and of the handle's life over every step of \<open>Resource_Requests\<close>.
\<close>

section \<open>One answer\<close>

primrec is_answer :: "request_event \<Rightarrow> bool" where
  "is_answer (Responded r) = True"
| "is_answer (Scheduled d) = True"
| "is_answer Bad_access = False"
| "is_answer (Host_answer status) = False"
| "is_answer Host_release_call = False"
| "is_answer Cancelled = False"
| "is_answer (Handler_stored callback release user_data) = False"
| "is_answer (Cancel_called callback user_data) = False"
| "is_answer (Release_called release user_data) = False"
| "is_answer (Release_skipped release user_data) = False"
| "is_answer Handle_removed = False"
| "is_answer Native_started = False"
| "is_answer (Failure_delivered message) = False"

definition host_gave :: "request_event \<Rightarrow> bool" where
  "host_gave e \<longleftrightarrow> is_answer e \<and> e \<noteq> Scheduled Decision_Failure"

definition is_outcome :: "request_event \<Rightarrow> bool" where
  "is_outcome e \<longleftrightarrow> e = Native_started \<or> (\<exists>message. e = Failure_delivered message)"

definition is_cancel_call :: "request_event \<Rightarrow> bool" where
  "is_cancel_call e \<longleftrightarrow> (\<exists>callback user_data. e = Cancel_called callback user_data)"

abbreviation answers :: "request_event list \<Rightarrow> request_event list" where
  "answers evs \<equiv> filter is_answer evs"

abbreviation outcomes :: "request_event list \<Rightarrow> request_event list" where
  "outcomes evs \<equiv> filter is_outcome evs"

definition since_cancelled :: "request_event list \<Rightarrow> request_event list" where
  "since_cancelled evs = dropWhile (\<lambda>e. e \<noteq> Cancelled) evs"

text \<open>What the requester has got once the decision is carried out.\<close>

primrec carried_out :: "decision \<Rightarrow> request_event list \<Rightarrow> bool" where
  "carried_out Decision_None result = False"
| "carried_out Decision_PassThrough result =
     (result = [Native_started] \<or> result = [Failure_delivered (failure_message Failure_Native)])"
| "carried_out Decision_Failure result =
     (\<exists>failure. result = [Failure_delivered (failure_message failure)])"

definition loader_intact :: "provider_request \<Rightarrow> bool" where
  "loader_intact l \<longleftrightarrow> loader_error l \<noteq> None \<and> loader_has_callback l"

definition loader_ok :: "request_event list \<Rightarrow> request_event list \<Rightarrow> provider_request \<Rightarrow> bool" where
  "loader_ok given result l \<longleftrightarrow> (case given of
     [Scheduled d] \<Rightarrow>
       (if loader_woken l
        then loader_pending l = d \<and> d \<noteq> Decision_None \<and> loader_intact l \<and> result = []
          \<and> (if d = Decision_Failure then \<exists>failure. loader_error l = Some (failure_message failure) else True)
        else carried_out d result)
   | _ \<Rightarrow> \<not> loader_woken l \<and> loader_pending l = Decision_None \<and> loader_intact l \<and> result = [])"

definition answers_ok :: "bool \<Rightarrow> bool \<Rightarrow> provider_request option \<Rightarrow> request_event list \<Rightarrow> bool" where
  "answers_ok completed cancelled loader evs \<longleftrightarrow>
     completed = (answers evs \<noteq> []) \<and> length (answers evs) \<le> 1 \<and> cancelled = (Cancelled \<in> set evs)
     \<and> answers (since_cancelled evs) = [] \<and> Bad_access \<notin> set evs \<and> length (outcomes evs) \<le> 1
     \<and> (loader = None) = cancelled
     \<and> (case loader of None \<Rightarrow> True | Some l \<Rightarrow> loader_ok (answers evs) (outcomes evs) l)
     \<and> (list_ex is_cancel_call evs \<longrightarrow> \<not> completed \<and> cancelled)"

text \<open>Events that are none of these change nothing.\<close>

definition neutral :: "request_event \<Rightarrow> bool" where
  "neutral e \<longleftrightarrow> \<not> is_answer e \<and> \<not> is_outcome e \<and> \<not> is_cancel_call e \<and> e \<noteq> Cancelled \<and> e \<noteq> Bad_access"

lemma since_cancelled_append:
  "since_cancelled (evs @ es) =
     (if Cancelled \<in> set evs then since_cancelled evs @ es else since_cancelled es)"
  by (induction evs) (auto simp: since_cancelled_def dropWhile_append1 dropWhile_append2)

lemma since_cancelled_simps [simp]:
  "since_cancelled [] = []"
  "since_cancelled (e # es) = (if e = Cancelled then e # es else since_cancelled es)"
  by (simp_all add: since_cancelled_def)

lemma since_cancelled_filter: "filter P (since_cancelled es) = [] \<or> filter P es \<noteq> []"
  by (metis filter_empty_conv set_dropWhileD since_cancelled_def)

lemma neutral_filters:
  "list_all neutral es \<Longrightarrow> filter is_answer es = [] \<and> filter is_outcome es = [] \<and> \<not> list_ex is_cancel_call es
     \<and> Cancelled \<notin> set es \<and> Bad_access \<notin> set es \<and> since_cancelled es = []"
  by (induction es) (auto simp: neutral_def)

lemma answers_ok_neutral:
  assumes "answers_ok c k l evs" "list_all neutral es"
  shows "answers_ok c k l (evs @ es)"
  using assms(1) neutral_filters [OF assms(2)]
  by (auto simp: answers_ok_def since_cancelled_append)

lemma neutral_events [simp]:
  "neutral (Host_answer status)" "neutral Host_release_call" "neutral (Handler_stored cb rel ud)"
  "neutral (Release_called f ud)" "neutral (Release_skipped f ud)" "neutral Handle_removed"
  by (simp_all add: neutral_def is_outcome_def is_cancel_call_def)

lemma neutral_release [simp]: "list_all neutral (release_event exiting release user_data)"
  by (simp add: release_event_def split: option.split)

abbreviation request_answers_ok :: "resource_request \<Rightarrow> request_event list \<Rightarrow> bool" where
  "request_answers_ok q evs \<equiv> answers_ok (req_completed q) (req_cancelled q) (req_loader q) evs"

lemma answers_ok_responded:
  assumes "answers_ok False False l evs"
  shows "answers_ok True False l (evs @ [Responded r])"
  using assms
  by (auto simp: answers_ok_def since_cancelled_append is_outcome_def loader_ok_def is_cancel_call_def
      split: option.splits)

text \<open>Only the answer of a request differs.\<close>

definition framed :: "resource_request \<Rightarrow> resource_request \<Rightarrow> bool" where
  "framed q q' \<longleftrightarrow> q' = q\<lparr>req_loader := req_loader q', req_completed := req_completed q'\<rparr>"

lemma framed_refl [simp]: "framed q q"
  by (cases q) (simp add: framed_def)

lemma framedD:
  assumes "framed q q'"
  shows "req_cancelled q' = req_cancelled q" "req_retired q' = req_retired q" "req_deciding q' = req_deciding q"
    "req_claimed q' = req_claimed q" "req_released_while_deciding q' = req_released_while_deciding q"
    "req_cancel_callback q' = req_cancel_callback q" "req_cancel_release q' = req_cancel_release q"
    "req_cancel_user_data q' = req_cancel_user_data q"
    "req_cancel_callback_registered q' = req_cancel_callback_registered q"
    "req_cancel_callback_running q' = req_cancel_callback_running q"
    "req_remove_after_cancel_callback q' = req_remove_after_cancel_callback q"
    "req_handle q' = req_handle q"
  using assms by (cases q; cases q'; simp add: framed_def)+

lemma framed_updates [simp]:
  "framed q (q\<lparr>req_loader := l, req_completed := c\<rparr>)" "framed q (q\<lparr>req_completed := c\<rparr>)" "framed q (q\<lparr>req_loader := l\<rparr>)"
  by (cases q; simp add: framed_def)+

lemma schedule_on_ok:
  assumes ok: "request_answers_ok q evs" and open_request: "\<not> req_completed q" "\<not> req_cancelled q"
    and d: "d \<noteq> Decision_None" and result: "schedule_on d f q = (events, q')"
  shows "events = [Scheduled d]" "req_completed q'" "\<not> req_cancelled q'"
    "request_answers_ok q' (evs @ events)" "framed q q'"
proof -
  from ok open_request obtain l where l: "req_loader q = Some l" by (auto simp: answers_ok_def)
  with ok open_request have intact: "loader_intact l" "loader_ok [] (outcomes evs) l"
    by (auto simp: answers_ok_def loader_ok_def)
  then obtain l' where l': "schedule d f l = Some l'"
    and facts: "loader_pending l' = d" "loader_woken l'" "loader_intact l'"
      "d = Decision_Failure \<Longrightarrow> loader_error l' = Some (failure_message f)"
    by (cases "d = Decision_Failure") (auto simp: schedule_def set_failure_def loader_intact_def)
  from result l l' have q': "events = [Scheduled d]" "q' = q\<lparr>req_loader := Some l', req_completed := True\<rparr>"
    by (simp_all add: schedule_on_def)
  then show "events = [Scheduled d]" "req_completed q'" "\<not> req_cancelled q'"
    "framed q q'" using open_request by auto
  from ok open_request l intact q' d facts show "request_answers_ok q' (evs @ events)"
    by (auto simp: answers_ok_def since_cancelled_append is_outcome_def is_cancel_call_def loader_ok_def)
qed

lemma fail_locked_ok:
  assumes "request_answers_ok q evs" "fail_locked f q = (events, q')"
  shows "request_answers_ok q' (evs @ events)" "req_completed q' \<or> req_cancelled q'"
    "framed q q'" "events = [] \<or> events = [Scheduled Decision_Failure]"
proof -
  consider "q' = q" "events = []" "req_completed q \<or> req_cancelled q"
    | "\<not> req_completed q" "\<not> req_cancelled q" "schedule_on Decision_Failure f q = (events, q')"
    using assms(2) by (auto simp: fail_locked_def split: if_splits)
  then have "request_answers_ok q' (evs @ events) \<and> (req_completed q' \<or> req_cancelled q')
    \<and> framed q q' \<and> (events = [] \<or> events = [Scheduled Decision_Failure])"
  proof cases
    case 1
    with assms(1) show ?thesis by auto
  next
    case 2
    note r = schedule_on_ok [OF assms(1) 2(1,2) _ 2(3)]
    from r(1,2,4,5) show ?thesis by auto
  qed
  then show "request_answers_ok q' (evs @ events)" "req_completed q' \<or> req_cancelled q'"
    "framed q q'" "events = [] \<or> events = [Scheduled Decision_Failure]"
    by blast+
qed

definition host_ok :: "request_event list \<Rightarrow> bool" where
  "host_ok evs \<longleftrightarrow> length (filter (\<lambda>e. e = Host_answer MLN_STATUS_OK) evs) = length (filter host_gave evs)"

definition request_ok :: "resource_request \<Rightarrow> request_event list \<Rightarrow> bool" where
  "request_ok q evs \<longleftrightarrow> request_answers_ok q evs \<and> host_ok evs"

text \<open>Events of which a host's answers know nothing.\<close>

definition silent :: "request_event \<Rightarrow> bool" where
  "silent e \<longleftrightarrow> neutral e \<and> e \<noteq> Host_answer MLN_STATUS_OK"

lemma request_ok_silent:
  assumes "request_ok q evs" "list_all silent es"
    "req_completed q' = req_completed q" "req_cancelled q' = req_cancelled q" "req_loader q' = req_loader q"
  shows "request_ok q' (evs @ es)"
proof -
  have "filter (\<lambda>e. e = Host_answer MLN_STATUS_OK) es = [] \<and> filter host_gave es = []" "list_all neutral es"
    using assms(2) by (induction es) (auto simp: silent_def neutral_def host_gave_def)
  with assms show ?thesis by (simp add: request_ok_def host_ok_def answers_ok_neutral)
qed

lemma request_ok_same:
  "request_ok q evs \<Longrightarrow> req_completed q' = req_completed q \<Longrightarrow> req_cancelled q' = req_cancelled q \<Longrightarrow>
    req_loader q' = req_loader q \<Longrightarrow> request_ok q' evs"
  by (simp add: request_ok_def)

lemma silent_events [simp]:
  "silent (Host_answer status) \<longleftrightarrow> status \<noteq> MLN_STATUS_OK" "silent Host_release_call" "silent (Handler_stored cb rel ud)"
  "silent (Release_called f ud)" "silent (Release_skipped f ud)" "silent Handle_removed"
  by (simp_all add: silent_def)

lemma silent_release [simp]: "list_all silent (release_event exiting release user_data)"
  by (simp add: release_event_def split: option.split)

lemma request_ok_remove:
  "request_ok (sys_request s) (sys_log s) \<Longrightarrow> request_ok (sys_request (remove_request s)) (sys_log (remove_request s))"
  by (auto simp: remove_request_def request_ok_silent split: option.split prod.split)

lemma report_stale_status: "report_stale q t = (r, t') \<Longrightarrow> r = Returned MLN_STATUS_INVALID_STATE"
  by (simp add: report_stale_def report_handle_fault_def handle_fault_status_def)

lemma complete_locked_ok:
  assumes "request_ok q evs" "complete_locked throws response q t = (r, events, q', t')"
  shows "request_ok q' (evs @ events @ [Host_answer (outcome_status r)])"
    "r = Returned MLN_STATUS_OK \<longrightarrow> req_completed q'"
    "framed q q'"
proof -
  consider "events = []" "q' = q" "outcome_status r \<noteq> MLN_STATUS_OK"
    | response where "events = [Responded response]" "r = Returned MLN_STATUS_OK" "q' = q\<lparr>req_completed := True\<rparr>"
        "\<not> req_completed q" "\<not> req_cancelled q"
    using assms(2)
    by (auto simp: complete_locked_def outcome_status_def dest!: report_stale_status split: if_splits option.splits prod.splits)
  then have "request_ok q' (evs @ events @ [Host_answer (outcome_status r)])
      \<and> (r = Returned MLN_STATUS_OK \<longrightarrow> req_completed q') \<and> framed q q'"
  proof cases
    case 1
    with assms(1) show ?thesis by (auto simp: request_ok_silent outcome_status_def)
  next
    case 2
    then have "request_answers_ok q' (evs @ [Responded response])"
      using assms(1) answers_ok_responded by (simp add: request_ok_def)
    then have "request_answers_ok q' ((evs @ [Responded response]) @ [Host_answer MLN_STATUS_OK])"
      by (rule answers_ok_neutral) simp
    with 2 assms(1) show ?thesis by (simp add: request_ok_def host_ok_def host_gave_def outcome_status_def)
  qed
  then show "request_ok q' (evs @ events @ [Host_answer (outcome_status r)])"
    "r = Returned MLN_STATUS_OK \<longrightarrow> req_completed q'" "framed q q'"
    by blast+
qed

lemma pass_through_locked_ok:
  assumes "request_ok q evs" "pass_through_locked q t = (r, events, q', t')"
  shows "request_ok q' (evs @ events @ [Host_answer (outcome_status r)])"
    "r = Returned MLN_STATUS_OK \<longrightarrow> req_completed q'"
    "framed q q'"
proof -
  consider "events = []" "q' = q" "outcome_status r \<noteq> MLN_STATUS_OK"
    | "r = Returned MLN_STATUS_OK" "\<not> req_completed q" "\<not> req_cancelled q"
        "schedule_on Decision_PassThrough Failure_Released q = (events, q')"
    using assms(2)
    by (auto simp: pass_through_locked_def outcome_status_def dest!: report_stale_status split: if_splits prod.splits)
  then have "request_ok q' (evs @ events @ [Host_answer (outcome_status r)])
      \<and> (r = Returned MLN_STATUS_OK \<longrightarrow> req_completed q') \<and> framed q q'"
  proof cases
    case 1
    with assms(1) show ?thesis
      by (auto simp: request_ok_silent outcome_status_def)
  next
    case 2
    from assms(1) have "request_answers_ok q evs" by (simp add: request_ok_def)
    note r = schedule_on_ok [OF this 2(2,3) _ 2(4)]
    have "request_answers_ok q' ((evs @ events) @ [Host_answer MLN_STATUS_OK])"
      by (rule answers_ok_neutral) (use r(4) in simp_all)
    with r(1,2,5) 2(1) assms(1) show ?thesis
      by (auto simp: request_ok_def host_ok_def host_gave_def outcome_status_def)
  qed
  then show "request_ok q' (evs @ events @ [Host_answer (outcome_status r)])"
    "r = Returned MLN_STATUS_OK \<longrightarrow> req_completed q'" "framed q q'"
    by blast+
qed

lemma fail_locked_request_ok:
  assumes "request_ok q evs" "fail_locked f q = (events, q')"
  shows "request_ok q' (evs @ events)"
proof -
  from assms(1) have "request_answers_ok q evs" by (simp add: request_ok_def)
  from fail_locked_ok(1,4) [OF this assms(2)] assms(1) show ?thesis
    by (auto simp: request_ok_def host_ok_def host_gave_def)
qed

lemma set_cancel_locked_ok:
  assumes "set_cancel_locked throws h queue q t = (r, out, events, q', t')"
  shows "list_all silent events" "req_completed q' = req_completed q" "req_cancelled q' = req_cancelled q"
    "req_loader q' = req_loader q"
  using assms
  by (auto simp: set_cancel_locked_def Let_def split: if_splits option.splits prod.splits)

lemma set_cancel_request_ok:
  "request_ok q evs \<Longrightarrow> set_cancel_locked throws h queue q t = (r, out, events, q', t') \<Longrightarrow>
    request_ok q' (evs @ events)"
  by (rule request_ok_silent [OF _ set_cancel_locked_ok])

lemma release_locked_ok:
  assumes "request_ok q evs" "release_locked q = (events, q')"
  shows "request_ok q' (evs @ events)"
  using assms fail_locked_request_ok [of q evs Failure_Released]
  by (auto simp: release_locked_def split: if_splits intro: request_ok_same)

lemma retire_locked_ok:
  assumes "retire_locked thread q = (op, q')"
  shows "req_completed q' = req_completed q" "req_cancelled q' = req_cancelled q" "req_loader q' = req_loader q"
    "req_handle q' = req_handle q" "req_retired q'"
  using assms by (auto simp: retire_locked_def Let_def split: if_splits)

lemma retire_request_ok:
  "request_ok q evs \<Longrightarrow> retire_locked thread q = (op, q') \<Longrightarrow> request_ok q' evs"
  by (erule request_ok_same) (simp_all add: retire_locked_ok)

abbreviation sys_ok :: "request_system \<Rightarrow> bool" where
  "sys_ok s \<equiv> request_ok (sys_request s) (sys_log s)"

lemma op_action_request_ok:
  assumes "sys_ok s" "op_action throws t thread op s = (op', s')"
  shows "sys_ok s'"
proof (cases op)
  case (Completing x)
  with assms show ?thesis
    by (auto simp: op_action_def Let_def complete_locked_ok(1) split: prod.splits)
next
  case Passing_through
  with assms show ?thesis
    by (auto simp: op_action_def Let_def pass_through_locked_ok(1) split: prod.splits)
next
  case (Setting_cancel h queue)
  with assms show ?thesis
    by (auto simp: op_action_def Let_def set_cancel_request_ok split: prod.splits)
next
  case Releasing_locked
  with assms show ?thesis
    by (auto simp: op_action_def Let_def release_locked_ok split: prod.splits)
next
  case Retiring_locked
  with assms show ?thesis
    by (auto simp: op_action_def Let_def retire_request_ok split: prod.splits)
next
  case (Retire_releasing rel ud)
  with assms show ?thesis by (auto simp: op_action_def Let_def request_ok_silent)
next
  case Retire_removing
  with assms show ?thesis by (auto simp: op_action_def Let_def request_ok_remove)
qed (use assms in \<open>auto simp: op_action_def Let_def split: if_splits\<close>)


lemma lease_request_refusal: "lease_request table handle t = (Some status, t') \<Longrightarrow> status \<noteq> MLN_STATUS_OK"
  by (auto simp: lease_request_def lease_eq resolve_def report_handle_fault_def handle_fault_status_def
      split: option.splits if_splits)

lemma complete_begin_refusal:
  "complete_begin table handle response t = (Some status, t') \<Longrightarrow> status \<noteq> MLN_STATUS_OK"
  by (auto simp: complete_begin_def dest: lease_request_refusal split: option.splits if_splits prod.splits)

lemma call_begin_silent:
  assumes "call_begin t call s = (events, op)"
  shows "list_all silent events"
proof -
  have "status \<noteq> MLN_STATUS_OK" if "fst (lease_request table handle t') = Some status" for table handle t' status
    using that lease_request_refusal by (cases "lease_request table handle t'") auto
  moreover have "status \<noteq> MLN_STATUS_OK" if "fst (complete_begin table handle r t') = Some status" for table handle r t' status
    using that complete_begin_refusal by (cases "complete_begin table handle r t'") auto
  ultimately show ?thesis using assms
    by (cases call) (auto simp: call_begin_def Let_def answer_begin_def split: option.splits if_splits prod.splits)
qed

lemma provider_action_request_ok:
  assumes "sys_ok s"
  shows "sys_ok (provider_action throws s)"
proof -
  have fail: "request_ok q2 (sys_log s @ events)"
    if "fail_locked f q1 = (events, q2)" "req_completed q1 = req_completed (sys_request s)"
      "req_cancelled q1 = req_cancelled (sys_request s)" "req_loader q1 = req_loader (sys_request s)" for f q1 events q2
    by (rule fail_locked_request_ok [OF request_ok_same [OF assms] that(1)]) (use that in simp_all)
  show ?thesis
  proof (cases "sys_provider s")
    case Provider_entering
    with assms show ?thesis by (auto simp: provider_action_def Let_def intro: request_ok_same)
  next
    case Provider_calling
    with assms show ?thesis
      by (auto simp: provider_action_def Let_def dest: fail intro: request_ok_same split: prod.splits)
  next
    case (Provider_failing failure)
    with assms show ?thesis by (auto simp: provider_action_def Let_def dest: fail split: prod.splits)
  qed (use assms in \<open>simp add: provider_action_def\<close>)
qed

lemma answers_ok_cancel:
  assumes "answers_ok completed cancelled l evs"
  shows "answers_ok completed True None (evs @ [Cancelled])"
  using assms by (auto simp: answers_ok_def since_cancelled_append is_outcome_def is_cancel_call_def)

lemma answers_ok_cancel_called:
  assumes "answers_ok False True l evs"
  shows "answers_ok False True l (evs @ [Cancel_called callback user_data])"
  using assms by (auto simp: answers_ok_def since_cancelled_append is_outcome_def)

text \<open>What a phase of the requester says of its request.\<close>

primrec requester_ok :: "requester_phase \<Rightarrow> resource_request \<Rightarrow> bool" where
  "requester_ok Requester_alive q \<longleftrightarrow> \<not> req_cancelled q \<and> \<not> req_cancel_callback_running q"
| "requester_ok Requester_cancelling q \<longleftrightarrow> req_cancelled q \<and> \<not> req_cancel_callback_running q"
| "requester_ok Requester_taking q \<longleftrightarrow> req_cancelled q \<and> \<not> req_cancel_callback_running q"
| "requester_ok (Requester_calling callback release user_data) q \<longleftrightarrow>
     req_cancelled q \<and> \<not> req_completed q \<and> req_cancel_callback_running q"
| "requester_ok (Requester_called release user_data) q \<longleftrightarrow> req_cancelled q \<and> req_cancel_callback_running q"
| "requester_ok Requester_ending q \<longleftrightarrow> req_cancelled q \<and> req_cancel_callback_running q"
| "requester_ok Requester_removing q \<longleftrightarrow> req_cancelled q \<and> \<not> req_cancel_callback_running q"
| "requester_ok Requester_gone q \<longleftrightarrow> req_cancelled q \<and> \<not> req_cancel_callback_running q"

lemma remove_request_simps [simp]:
  "sys_request (remove_request s) = sys_request s" "sys_requester (remove_request s) = sys_requester s"
  "sys_provider (remove_request s) = sys_provider s" "sys_ops (remove_request s) = sys_ops s"
  "sys_exiting (remove_request s) = sys_exiting s"
  by (simp_all add: remove_request_def split: option.split prod.split)

lemma requester_action_request_ok:
  assumes "sys_ok s" "requester_ok (sys_requester s) (sys_request s)"
  shows "sys_ok (requester_action s)" "requester_ok (sys_requester (requester_action s)) (sys_request (requester_action s))"
proof -
  have "sys_ok (requester_action s) \<and> requester_ok (sys_requester (requester_action s)) (sys_request (requester_action s))"
  proof (cases "sys_requester s")
    case Requester_alive
    with assms answers_ok_cancel show ?thesis
      by (auto simp: requester_action_def Let_def request_ok_def host_ok_def host_gave_def)
  next
    case Requester_taking
    with assms show ?thesis
      by (auto simp: requester_action_def Let_def split: option.splits intro: request_ok_same)
  next
    case (Requester_calling callback release user_data)
    with assms have "answers_ok False True (req_loader (sys_request s)) (sys_log s)"
      by (simp add: request_ok_def)
    from answers_ok_cancel_called [OF this] Requester_calling assms show ?thesis
      by (auto simp: requester_action_def Let_def request_ok_def host_ok_def host_gave_def)
  next
    case Requester_removing
    with assms request_ok_remove [of s] show ?thesis by (auto simp: requester_action_def Let_def)
  qed (use assms in \<open>auto simp: requester_action_def Let_def request_ok_silent intro: request_ok_same\<close>)
  then show "sys_ok (requester_action s)"
    "requester_ok (sys_requester (requester_action s)) (sys_request (requester_action s))" by auto
qed

lemma drain_request_ok:
  assumes "request_ok q evs" "req_loader q = Some l" "loader_woken l" "drain_request throws q = (events, q')"
  shows "request_ok q' (evs @ events)" "framed q q'" "req_completed q' = req_completed q"
proof -
  from assms(1,2) have ok: "loader_ok (answers evs) (outcomes evs) l" "\<not> req_cancelled q"
    "length (answers evs) \<le> 1"
    by (auto simp: request_ok_def answers_ok_def)
  with assms(3) obtain d where d: "answers evs = [Scheduled d]" "loader_pending l = d" "d \<noteq> Decision_None"
    "loader_intact l" "outcomes evs = []"
    "d = Decision_Failure \<Longrightarrow> \<exists>failure. loader_error l = Some (failure_message failure)"
    by (auto simp: loader_ok_def split: list.splits request_event.splits if_splits)
  have "\<exists>e l'. events = [e] \<and> is_outcome e \<and> req_loader q' = Some l' \<and> q' = q\<lparr>req_loader := req_loader q'\<rparr>
      \<and> \<not> loader_woken l' \<and> carried_out d [e]"
    using assms(2,4) ok(2) d
    by (cases d) (auto simp: drain_request_def drain_loader_def pass_through_def send_failure_def set_failure_def Let_def
        loader_intact_def is_outcome_def loader_ok_def split: if_splits option.splits prod.splits)
  then obtain e l' where e: "events = [e]" "is_outcome e" "q' = q\<lparr>req_loader := Some l'\<rparr>"
    "\<not> loader_woken l'" "carried_out d [e]" by metis
  then have "loader_ok [Scheduled d] [e] l'" by (simp add: loader_ok_def)
  from e(2) have "\<not> is_answer e" "e \<noteq> Cancelled" "e \<noteq> Bad_access" "\<not> is_cancel_call e"
    "e \<noteq> Host_answer MLN_STATUS_OK" "\<not> host_gave e"
    by (auto simp: is_outcome_def is_cancel_call_def host_gave_def)
  with \<open>loader_ok [Scheduled d] [e] l'\<close> e d ok assms(1) show "request_ok q' (evs @ events)"
    by (auto simp: request_ok_def answers_ok_def host_ok_def since_cancelled_append)
  show "framed q q'" "req_completed q' = req_completed q" using e(3) by auto
qed

section \<open>The life of the handle\<close>

lemma answer_closed:
  "req_completed q \<or> req_cancelled q \<Longrightarrow> complete_locked throws response q t = (r, events, q', t') \<Longrightarrow> q' = q"
  "req_completed q \<or> req_cancelled q \<Longrightarrow> pass_through_locked q t = (r, events, q', t') \<Longrightarrow> q' = q"
  "req_completed q \<or> req_cancelled q \<Longrightarrow> fail_locked failure q = (events, q') \<Longrightarrow> q' = q"
  by (auto simp: complete_locked_def pass_through_locked_def fail_locked_def split: if_splits prod.splits option.splits)

lemma set_cancel_frame:
  assumes "set_cancel_locked throws h queue q t = (r, out, events, q', t')"
  shows "req_handle q' = req_handle q" "req_retired q' = req_retired q" "req_deciding q' = req_deciding q"
    "req_claimed q' = req_claimed q" "req_released_while_deciding q' = req_released_while_deciding q"
    "req_cancel_callback_running q' = req_cancel_callback_running q"
    "req_remove_after_cancel_callback q' = req_remove_after_cancel_callback q"
  using assms
  by (auto simp: set_cancel_locked_def Let_def split: if_splits option.splits prod.splits)

lemma retire_frame:
  assumes "retire_locked thread q = (op, q')"
  shows "req_deciding q' = req_deciding q"
    "req_claimed q' = req_claimed q" "req_released_while_deciding q' = req_released_while_deciding q"
    "req_cancel_callback_running q' = req_cancel_callback_running q"
    "req_remove_after_cancel_callback q \<Longrightarrow> req_remove_after_cancel_callback q'"
    "req_remove_after_cancel_callback q' \<Longrightarrow> req_remove_after_cancel_callback q \<or> req_cancel_callback_running q"
    "op = None \<Longrightarrow> req_remove_after_cancel_callback q'"
  using assms by (auto simp: retire_locked_def Let_def split: if_splits)

definition alive :: "request_system \<Rightarrow> bool" where
  "alive s \<longleftrightarrow> try_resolve Kind_ResourceRequest (sys_table s) (req_handle (sys_request s)) \<noteq> None"

text \<open>What one step of a call keeps.\<close>

definition steady :: "resource_request \<Rightarrow> resource_request \<Rightarrow> bool" where
  "steady q q' \<longleftrightarrow> req_handle q' = req_handle q \<and> req_cancelled q' = req_cancelled q
     \<and> req_deciding q' = req_deciding q \<and> req_claimed q' = req_claimed q
     \<and> req_cancel_callback_running q' = req_cancel_callback_running q
     \<and> (req_completed q \<longrightarrow> req_completed q') \<and> (req_cancelled q \<longrightarrow> req_completed q' = req_completed q)
     \<and> (req_retired q \<longrightarrow> req_retired q')
     \<and> (req_released_while_deciding q \<longrightarrow> req_released_while_deciding q')
     \<and> (req_remove_after_cancel_callback q \<longrightarrow> req_remove_after_cancel_callback q')
     \<and> (req_remove_after_cancel_callback q' \<longrightarrow>
         req_remove_after_cancel_callback q \<or> req_cancel_callback_running q \<and> req_retired q')"

lemma steady_refl [simp]: "steady q q"
  by (simp add: steady_def)

lemma framed_steady:
  assumes "framed q q'" "req_completed q \<or> req_cancelled q \<Longrightarrow> q' = q"
  shows "steady q q'"
  using assms framedD [OF assms(1)] by (auto simp: steady_def)

lemma release_locked_steady:
  assumes "request_answers_ok q evs" "release_locked q = (events, q')"
  shows "steady q q'"
proof (cases "\<not> req_retired q \<and> req_claimed q")
  case True
  with assms(2) have f: "fail_locked Failure_Released q = (events, q')" by (simp add: release_locked_def)
  show ?thesis by (rule framed_steady [OF fail_locked_ok(3) [OF assms(1) f]]) (use f answer_closed(3) in auto)
next
  case False
  with assms(2) show ?thesis by (auto simp: release_locked_def steady_def split: if_splits)
qed

lemma op_action_steady:
  assumes ok: "sys_ok s" and act: "op_action throws t thread op s = (op', s')"
  shows "steady (sys_request s) (sys_request s')" "sys_provider s' = sys_provider s"
    "sys_requester s' = sys_requester s" "sys_ops s' = sys_ops s" "sys_exiting s' = sys_exiting s"
    "s' = remove_request s \<and> op = Retire_removing \<or> sys_table s' = sys_table s \<and> op \<noteq> Retire_removing"
proof -
  from ok have answers: "request_answers_ok (sys_request s) (sys_log s)" by (simp add: request_ok_def)
  have "steady q q'" if "complete_locked throws response q t = (r, events, q', t')" "request_ok q evs"
    for response q r events q' t' evs
    by (rule framed_steady [OF complete_locked_ok(3) [OF that(2,1)]]) (use that answer_closed(1) in blast)
  moreover have "steady q q'" if "pass_through_locked q t = (r, events, q', t')" "request_ok q evs"
    for q r events q' t' evs
    by (rule framed_steady [OF pass_through_locked_ok(3) [OF that(2,1)]]) (use that answer_closed(2) in blast)
  moreover have "steady q q'" if "set_cancel_locked throws h queue q t = (r, out, events, q', t')"
    for h queue q r out events q' t'
    using set_cancel_locked_ok [OF that] set_cancel_frame [OF that] by (simp add: steady_def)
  moreover have "steady q q'" if "retire_locked thread q = (op'', q')" for op'' q q'
    using retire_locked_ok [OF that] retire_frame [OF that] by (auto simp: steady_def)
  moreover note release_locked_steady [OF answers]
  ultimately show "steady (sys_request s) (sys_request s')"
    using ok act by (cases op) (auto simp: op_action_def Let_def split: prod.splits if_splits)
  show "sys_provider s' = sys_provider s"
    "sys_requester s' = sys_requester s" "sys_ops s' = sys_ops s" "sys_exiting s' = sys_exiting s"
    "s' = remove_request s \<and> op = Retire_removing \<or> sys_table s' = sys_table s \<and> op \<noteq> Retire_removing"
    using act by (cases op; auto simp: op_action_def Let_def split: prod.splits if_splits)+
qed

text \<open>
  A request is ready to retire once it is answered or cancelled, or will be failed when the invocation of
  its provider ends.
\<close>

definition ready :: "request_system \<Rightarrow> bool" where
  "ready s \<longleftrightarrow> req_completed (sys_request s) \<or> req_cancelled (sys_request s)
     \<or> (\<exists>failure. sys_provider s = Provider_failing failure)
     \<or> sys_provider s = Provider_calling \<and> req_released_while_deciding (sys_request s)"

primrec op_ok :: "request_op \<Rightarrow> request_system \<Rightarrow> bool" where
  "op_ok (Completing response) s = True"
| "op_ok Passing_through s = True"
| "op_ok Reading_cancelled s = True"
| "op_ok (Setting_cancel h queue) s = True"
| "op_ok Releasing s = True"
| "op_ok Releasing_locked s = True"
| "op_ok Retiring s = (ready s \<or> \<not> alive s)"
| "op_ok Retiring_locked s = ready s"
| "op_ok (Retire_waiting release user_data) s = (ready s \<and> req_retired (sys_request s))"
| "op_ok (Retire_releasing release user_data) s = (ready s \<and> req_retired (sys_request s))"
| "op_ok Retire_removing s = (ready s \<and> req_retired (sys_request s))"

definition is_removing :: "nat \<times> request_op \<Rightarrow> bool" where
  "is_removing p \<longleftrightarrow> (case snd p of Retire_waiting release user_data \<Rightarrow> True
     | Retire_releasing release user_data \<Rightarrow> True | Retire_removing \<Rightarrow> True | _ \<Rightarrow> False)"

definition is_ending :: "nat \<times> request_op \<Rightarrow> bool" where
  "is_ending p \<longleftrightarrow> is_removing p \<or> snd p = Releasing \<or> snd p = Releasing_locked \<or> snd p = Retiring
     \<or> snd p = Retiring_locked"

definition ends_handle :: "request_event \<Rightarrow> bool" where
  "ends_handle e \<longleftrightarrow> e = Host_release_call \<or> (\<exists>status. e = Host_answer status)"

definition provider_ok :: "request_system \<Rightarrow> bool" where
  "provider_ok s \<longleftrightarrow> (let q = sys_request s in
     (sys_provider s = Provider_done \<or> sys_requester s = Requester_alive)
     \<and> (case sys_provider s of
          Provider_entering \<Rightarrow> \<not> req_deciding q \<and> \<not> req_claimed q \<and> sys_ops s = []
        | Provider_calling \<Rightarrow> req_deciding q \<and> \<not> req_claimed q
        | Provider_failing failure \<Rightarrow> \<not> req_claimed q
        | Provider_done \<Rightarrow> \<not> req_deciding q \<and> (req_claimed q \<or> req_completed q \<or> req_cancelled q)))"

definition removal_ok :: "request_system \<Rightarrow> bool" where
  "removal_ok s \<longleftrightarrow> (let q = sys_request s in
     (req_retired q \<longrightarrow> ready s) \<and> (\<not> alive s \<longrightarrow> req_retired q)
     \<and> (req_remove_after_cancel_callback q \<longrightarrow> req_cancel_callback_running q \<and> req_retired q)
     \<and> (sys_requester s = Requester_removing \<longrightarrow> req_retired q)
     \<and> (req_retired q \<and> alive s \<longrightarrow> list_ex is_removing (sys_ops s) \<or> req_remove_after_cancel_callback q
         \<or> sys_requester s = Requester_removing)
     \<and> (list_ex ends_handle (sys_log s) \<longrightarrow> req_retired q \<or> \<not> alive s \<or> list_ex is_ending (sys_ops s)))"

definition table_part_ok :: "request_system \<Rightarrow> bool" where
  "table_part_ok s \<longleftrightarrow> table_ok (sys_table s)
     \<and> was_issued Kind_ResourceRequest (sys_table s) (req_handle (sys_request s))"

definition life_ok :: "request_system \<Rightarrow> bool" where
  "life_ok s \<longleftrightarrow> sys_ok s \<and> requester_ok (sys_requester s) (sys_request s) \<and> provider_ok s \<and> removal_ok s
     \<and> table_part_ok s \<and> list_all (\<lambda>p. op_ok (snd p) s) (sys_ops s)"

lemma remove_request_table:
  "sys_table (remove_request s) = snd (remove_handle Kind_ResourceRequest (sys_table s) (req_handle (sys_request s)))"
  by (simp add: remove_request_def split: option.split prod.split)

lemma alive_remove [simp]: "\<not> alive (remove_request s)"
  by (simp add: alive_def remove_request_table remove_resolves)

lemma table_part_remove: "table_part_ok s \<Longrightarrow> table_part_ok (remove_request s)"
  by (simp add: table_part_ok_def remove_request_table remove_table_ok remove_issues)

text \<open>Parts of the state that the facts about the handle do not read.\<close>

lemma irrelevant [simp]:
  "ready (s\<lparr>sys_ops := ops\<rparr>) = ready s" "ready (s\<lparr>sys_log := evs\<rparr>) = ready s" "ready (s\<lparr>sys_exiting := b\<rparr>) = ready s"
  "ready (s\<lparr>sys_requester := ph\<rparr>) = ready s" "ready (s\<lparr>sys_table := table\<rparr>) = ready s"
  "alive (s\<lparr>sys_ops := ops\<rparr>) = alive s" "alive (s\<lparr>sys_log := evs\<rparr>) = alive s" "alive (s\<lparr>sys_exiting := b\<rparr>) = alive s"
  "alive (s\<lparr>sys_requester := ph\<rparr>) = alive s" "alive (s\<lparr>sys_provider := p\<rparr>) = alive s"
  "table_part_ok (s\<lparr>sys_ops := ops\<rparr>) = table_part_ok s" "table_part_ok (s\<lparr>sys_log := evs\<rparr>) = table_part_ok s"
  "table_part_ok (s\<lparr>sys_exiting := b\<rparr>) = table_part_ok s" "table_part_ok (s\<lparr>sys_requester := ph\<rparr>) = table_part_ok s"
  "table_part_ok (s\<lparr>sys_provider := p\<rparr>) = table_part_ok s"
  by (simp_all add: ready_def alive_def table_part_ok_def)

definition later :: "request_system \<Rightarrow> request_system \<Rightarrow> bool" where
  "later s s' \<longleftrightarrow> (ready s \<longrightarrow> ready s') \<and> (req_retired (sys_request s) \<longrightarrow> req_retired (sys_request s'))
     \<and> (alive s' \<longrightarrow> alive s)"

lemma op_ok_later: "later s s' \<Longrightarrow> op_ok op s \<Longrightarrow> op_ok op s'"
  by (cases op) (auto simp: later_def)

lemma ops_ok_later:
  "later s s' \<Longrightarrow> list_all (\<lambda>p. op_ok (snd p) s) ops \<Longrightarrow> list_all (\<lambda>p. op_ok (snd p) s') ops"
  by (auto simp: list_all_iff intro: op_ok_later)

lemma op_action_later:
  assumes "sys_ok s" "op_action throws t thread op s = (op', s')"
  shows "later s s'"
proof -
  note st = op_action_steady [OF assms]
  have "ready s \<Longrightarrow> ready s'" "req_retired (sys_request s) \<Longrightarrow> req_retired (sys_request s')"
    using st(1,2) unfolding ready_def steady_def by auto
  moreover have "alive s' \<Longrightarrow> alive s"
    using st(6)
  proof
    assume "s' = remove_request s \<and> op = Retire_removing" "alive s'"
    then show "alive s" by simp
  next
    assume "sys_table s' = sys_table s \<and> op \<noteq> Retire_removing" "alive s'"
    with st(1) show "alive s" by (simp add: alive_def steady_def)
  qed
  ultimately show ?thesis by (simp add: later_def)
qed

lemma after_answer_ok: "(r = Returned MLN_STATUS_OK \<Longrightarrow> ready s) \<Longrightarrow> op_ok (after_answer r) s"
  by (simp add: after_answer_def)

lemma release_locked_cases:
  assumes "release_locked q = (events, q')"
  obtains (retired) "req_retired q" "q' = q"
    | (claimed) "req_claimed q" "fail_locked Failure_Released q = (events, q')"
    | (deciding) "\<not> req_claimed q" "req_deciding q" "q' = q\<lparr>req_released_while_deciding := True\<rparr>"
    | (unknown) "\<not> req_claimed q" "\<not> req_deciding q" "q' = q"
proof -
  consider "req_retired q" | "\<not> req_retired q" "req_claimed q" | "\<not> req_retired q" "\<not> req_claimed q" "req_deciding q"
    | "\<not> req_retired q" "\<not> req_claimed q" "\<not> req_deciding q" by blast
  then show thesis
  proof cases
    case 1
    with assms show thesis by (intro retired) (simp_all add: release_locked_def)
  next
    case 2
    with assms show thesis by (intro claimed) (simp_all add: release_locked_def)
  next
    case 3
    with assms show thesis by (intro deciding) (simp_all add: release_locked_def)
  next
    case 4
    with assms show thesis by (intro unknown) (simp_all add: release_locked_def)
  qed
qed

lemma release_locked_ready:
  assumes ok: "life_ok s" "sys_ops s \<noteq> []" and act: "release_locked (sys_request s) = (events, q)"
  shows "ready (with_request events q s)"
proof -
  from ok have answers: "request_answers_ok (sys_request s) (sys_log s)" by (simp add: life_ok_def request_ok_def)
  from ok have removal: "removal_ok s" and provider: "provider_ok s" by (simp_all add: life_ok_def)
  from act show ?thesis
  proof (cases rule: release_locked_cases)
    case retired
    with removal show ?thesis by (auto simp: removal_ok_def ready_def Let_def)
  next
    case claimed
    with fail_locked_ok(2) [OF answers claimed(2)] show ?thesis by (auto simp: ready_def)
  next
    case deciding
    with provider ok(2) show ?thesis
      by (cases "sys_provider s") (auto simp: provider_ok_def ready_def Let_def)
  next
    case unknown
    with provider ok(2) show ?thesis
      by (cases "sys_provider s") (auto simp: provider_ok_def ready_def Let_def)
  qed
qed

lemma op_action_next_ok:
  assumes ok: "life_ok s" "sys_ops s \<noteq> []" "op_ok op s" and act: "op_action throws t thread op s = (Some op', s')"
  shows "op_ok op' s'"
proof (cases op)
  case (Completing response)
  with ok act show ?thesis
    by (auto simp: op_action_def Let_def life_ok_def ready_def dest: complete_locked_ok(2)
        intro!: after_answer_ok split: prod.splits)
next
  case Passing_through
  with ok act show ?thesis
    by (auto simp: op_action_def Let_def life_ok_def ready_def dest: pass_through_locked_ok(2)
        intro!: after_answer_ok split: prod.splits)
next
  case Releasing
  with act show ?thesis by (auto simp: op_action_def Let_def alive_def try_lease_eq)
next
  case Releasing_locked
  with act release_locked_ready [OF ok(1,2)] show ?thesis
    by (auto simp: op_action_def Let_def split: prod.splits)
next
  case Retiring
  with ok act show ?thesis by (auto simp: op_action_def Let_def alive_def try_lease_eq split: if_splits)
next
  case Retiring_locked
  with ok act show ?thesis
    by (auto simp: op_action_def Let_def retire_locked_def ready_def split: prod.splits if_splits)
qed (use ok act in \<open>auto simp: op_action_def Let_def ready_def split: prod.splits if_splits\<close>)

lemma is_removing_simps [simp]:
  "is_removing (th, Completing r) = False" "is_removing (th, Passing_through) = False"
  "is_removing (th, Reading_cancelled) = False" "is_removing (th, Setting_cancel h n) = False"
  "is_removing (th, Releasing) = False" "is_removing (th, Releasing_locked) = False"
  "is_removing (th, Retiring) = False" "is_removing (th, Retiring_locked) = False"
  "is_removing (th, Retire_waiting rel ud)" "is_removing (th, Retire_releasing rel ud)" "is_removing (th, Retire_removing)"
  by (simp_all add: is_removing_def)

lemma is_ending_simps [simp]:
  "is_ending (th, Completing r) = False" "is_ending (th, Passing_through) = False"
  "is_ending (th, Reading_cancelled) = False" "is_ending (th, Setting_cancel h n) = False"
  "is_ending (th, Releasing)" "is_ending (th, Releasing_locked)" "is_ending (th, Retiring)" "is_ending (th, Retiring_locked)"
  "is_ending (th, Retire_waiting rel ud)" "is_ending (th, Retire_releasing rel ud)" "is_ending (th, Retire_removing)"
  by (simp_all add: is_ending_def)

abbreviation op_list :: "nat \<Rightarrow> request_op option \<Rightarrow> (nat \<times> request_op) list" where
  "op_list thread op \<equiv> (case op of None \<Rightarrow> [] | Some p \<Rightarrow> [(thread, p)])"

lemma is_ending_answer [simp]: "is_ending (th, after_answer r)"
  by (simp add: after_answer_def)

text \<open>A call that has begun to end the handle goes on with it until the handle is gone or another call ends it.\<close>

lemma op_action_progress:
  assumes "op_action throws t thread op s = (op', s')"
  shows "is_removing (thread, op) \<Longrightarrow> list_ex is_removing (op_list thread op') \<or> \<not> alive s'"
    "is_ending (thread, op) \<Longrightarrow> list_ex is_ending (op_list thread op') \<or> req_retired (sys_request s') \<or> \<not> alive s'"
    "\<not> req_retired (sys_request s) \<Longrightarrow> req_retired (sys_request s') \<Longrightarrow>
      op = Retiring_locked
      \<and> (list_ex is_removing (op_list thread op') \<or> req_remove_after_cancel_callback (sys_request s'))"
proof -
  show "is_removing (thread, op) \<Longrightarrow> list_ex is_removing (op_list thread op') \<or> \<not> alive s'"
    using assms by (cases op) (auto simp: op_action_def Let_def split: if_splits)
  show "list_ex is_ending (op_list thread op') \<or> req_retired (sys_request s') \<or> \<not> alive s'" if e: "is_ending (thread, op)"
  proof (cases op)
    case Retiring
    with assms show ?thesis by (auto simp: op_action_def Let_def alive_def try_lease_eq split: if_splits)
  next
    case Retiring_locked
    with assms show ?thesis by (auto simp: op_action_def Let_def dest: retire_locked_ok(5) split: prod.splits)
  qed (use assms e in \<open>auto simp: op_action_def Let_def split: prod.splits if_splits\<close>)
  show "op = Retiring_locked
      \<and> (list_ex is_removing (op_list thread op') \<or> req_remove_after_cancel_callback (sys_request s'))"
    if "\<not> req_retired (sys_request s)" "req_retired (sys_request s')"
  proof (cases op)
    case (Completing x)
    have "\<And>r events q' t'. complete_locked throws x (sys_request s) t = (r, events, q', t') \<Longrightarrow>
        req_retired q' = req_retired (sys_request s)"
      by (auto simp: complete_locked_def split: if_splits prod.splits option.splits)
    with Completing assms that show ?thesis by (auto simp: op_action_def Let_def split: prod.splits)
  next
    case Passing_through
    have "\<And>r events q' t'. pass_through_locked (sys_request s) t = (r, events, q', t') \<Longrightarrow>
        req_retired q' = req_retired (sys_request s)"
      by (auto simp: pass_through_locked_def schedule_on_def split: if_splits prod.splits option.splits)
    with Passing_through assms that show ?thesis by (auto simp: op_action_def Let_def split: prod.splits)
  next
    case (Setting_cancel h n)
    with assms that set_cancel_frame(2) show ?thesis by (auto simp: op_action_def Let_def split: prod.splits)
  next
    case Releasing_locked
    have "\<And>events q'. release_locked (sys_request s) = (events, q') \<Longrightarrow> req_retired q' = req_retired (sys_request s)"
      by (auto simp: release_locked_def fail_locked_def schedule_on_def split: if_splits option.splits)
    with Releasing_locked assms that show ?thesis by (auto simp: op_action_def Let_def split: prod.splits)
  next
    case Retiring_locked
    with assms that show ?thesis
      by (auto simp: op_action_def Let_def retire_locked_def split: prod.splits if_splits)
  qed (use assms that in \<open>auto simp: op_action_def Let_def split: prod.splits if_splits\<close>)
qed

lemma op_action_log:
  assumes "op_action throws t thread op s = (op', s')" "list_ex ends_handle (sys_log s')"
  shows "list_ex ends_handle (sys_log s) \<or> list_ex is_ending (op_list thread op') \<or> is_ending (thread, op)"
  using assms
proof (cases op)
  case (Setting_cancel h n)
  have "\<And>r out events q' t'. set_cancel_locked throws h n (sys_request s) t = (r, out, events, q', t') \<Longrightarrow>
      \<not> list_ex ends_handle events"
    by (auto simp: set_cancel_locked_def Let_def ends_handle_def split: if_splits option.splits prod.splits)
  with Setting_cancel assms show ?thesis by (auto simp: op_action_def Let_def split: prod.splits)
qed (auto simp: op_action_def Let_def ends_handle_def split: prod.splits)

lemma requester_ok_steady:
  "steady q q' \<Longrightarrow> requester_ok phase q \<Longrightarrow> requester_ok phase q'"
  by (cases phase) (auto simp: steady_def)

lemma op_step_life:
  assumes ok: "life_ok s" and ops: "sys_ops s = ops1 @ (thread, op) # ops2"
    and act: "op_action throws t thread op s = (op', s')"
  shows "life_ok (s'\<lparr>sys_ops := ops1 @ op_list thread op' @ ops2\<rparr>)"
proof -
  let ?s = "s'\<lparr>sys_ops := ops1 @ op_list thread op' @ ops2\<rparr>"
  from ok have parts: "sys_ok s" "provider_ok s" "removal_ok s" "table_part_ok s"
    "requester_ok (sys_requester s) (sys_request s)" "list_all (\<lambda>p. op_ok (snd p) s) (sys_ops s)"
    by (simp_all add: life_ok_def)
  note st = op_action_steady [OF parts(1) act]
  note later = op_action_later [OF parts(1) act]
  note progress = op_action_progress [OF act]
  have later': "later s' ?s" by (simp add: later_def)
  have sys: "sys_ok ?s" using op_action_request_ok [OF parts(1) act] by simp
  have requester: "requester_ok (sys_requester ?s) (sys_request ?s)"
    using requester_ok_steady [OF st(1) parts(5)] st(3) by simp
  have provider: "provider_ok ?s"
    using parts(2) st(1,2,3) ops by (auto simp: provider_ok_def steady_def Let_def split: provider_phase.splits)
  have table: "table_part_ok ?s"
    using st(6)
  proof
    assume "s' = remove_request s \<and> op = Retire_removing"
    then show ?thesis using table_part_remove [OF parts(4)] by simp
  next
    assume "sys_table s' = sys_table s \<and> op \<noteq> Retire_removing"
    then show ?thesis using parts(4) st(1) by (simp add: table_part_ok_def steady_def)
  qed
  have now: "op_ok op s" and others: "list_all (\<lambda>p. op_ok (snd p) s) (ops1 @ ops2)"
    using parts(6) ops by auto
  have "op_ok p s'" if "op' = Some p" for p
    using op_action_next_ok [OF ok _ now] ops act that by auto
  then have next_ops: "list_all (\<lambda>p. op_ok (snd p) s') (ops1 @ op_list thread op' @ ops2)"
    using ops_ok_later [OF later others] by (simp split: option.split)
  have all: "list_all (\<lambda>p. op_ok (snd p) ?s) (sys_ops ?s)"
    using ops_ok_later [OF later' next_ops] by simp
  have removal: "removal_ok ?s"
    unfolding removal_ok_def Let_def
  proof (intro conjI impI)
    assume r: "req_retired (sys_request ?s)"
    show "ready ?s"
    proof (cases "req_retired (sys_request s)")
      case True
      with parts(3) later show ?thesis by (simp add: removal_ok_def later_def Let_def)
    next
      case False
      with r progress(3) now later show ?thesis by (simp add: later_def)
    qed
  next
    assume dead: "\<not> alive ?s"
    show "req_retired (sys_request ?s)"
    proof (cases "alive s")
      case True
      have "sys_table s' \<noteq> sys_table s"
      proof
        assume "sys_table s' = sys_table s"
        with True dead st(1) show False by (simp add: alive_def steady_def)
      qed
      with st(6) have "op = Retire_removing" by blast
      with now later show ?thesis by (simp add: later_def)
    next
      case False
      with parts(3) later show ?thesis by (simp add: removal_ok_def later_def Let_def)
    qed
  next
    assume "req_remove_after_cancel_callback (sys_request ?s)"
    then show "req_cancel_callback_running (sys_request ?s)" "req_retired (sys_request ?s)"
      using parts(3) st(1) by (auto simp: removal_ok_def steady_def Let_def)
  next
    assume "sys_requester ?s = Requester_removing"
    with parts(3) st(3) later show "req_retired (sys_request ?s)" by (simp add: removal_ok_def later_def Let_def)
  next
    assume "req_retired (sys_request ?s) \<and> alive ?s"
    then have r: "req_retired (sys_request s')" and a: "alive s'" by simp_all
    show "list_ex is_removing (sys_ops ?s) \<or> req_remove_after_cancel_callback (sys_request ?s)
        \<or> sys_requester ?s = Requester_removing"
    proof (cases "req_retired (sys_request s)")
      case True
      with a later parts(3) have "list_ex is_removing (sys_ops s) \<or> req_remove_after_cancel_callback (sys_request s)
          \<or> sys_requester s = Requester_removing"
        by (simp add: removal_ok_def later_def Let_def)
      with progress(1) a st(1,3) ops show ?thesis by (auto simp: steady_def)
    next
      case False
      with progress(3) r show ?thesis by auto
    qed
  next
    assume "list_ex ends_handle (sys_log ?s)"
    then have "list_ex ends_handle (sys_log s) \<or> list_ex is_ending (op_list thread op') \<or> is_ending (thread, op)"
      using op_action_log [OF act] by simp
    then show "req_retired (sys_request ?s) \<or> \<not> alive ?s \<or> list_ex is_ending (sys_ops ?s)"
      using parts(3) later progress(2) ops by (auto simp: removal_ok_def later_def Let_def)
  qed
  show ?thesis using sys requester provider removal table all by (simp add: life_ok_def)
qed


text \<open>
  A step of the others. It suffices that the request only goes forward, that the handle is not revived, and
  that the operations are those of before and new ones that are ok.
\<close>

lemma life_next:
  assumes ok: "life_ok s" and later: "later s s'" and sys: "sys_ok s'"
    and requester: "requester_ok (sys_requester s') (sys_request s')" and provider: "provider_ok s'"
    and table: "table_part_ok s'" and ops: "sys_ops s' = sys_ops s @ new" "list_all (\<lambda>p. op_ok (snd p) s') new"
    and dead: "alive s' = alive s \<or> req_retired (sys_request s') \<and> \<not> alive s'"
    and retired: "req_retired (sys_request s') = req_retired (sys_request s)"
    and removing: "req_remove_after_cancel_callback (sys_request s') \<Longrightarrow>
      req_remove_after_cancel_callback (sys_request s) \<and> req_cancel_callback_running (sys_request s')"
    "sys_requester s' = Requester_removing \<Longrightarrow> req_retired (sys_request s')"
    "req_remove_after_cancel_callback (sys_request s) \<or> sys_requester s = Requester_removing \<Longrightarrow>
      req_remove_after_cancel_callback (sys_request s') \<or> sys_requester s' = Requester_removing \<or> \<not> alive s'"
    and ends: "list_ex ends_handle (sys_log s') \<Longrightarrow> list_ex ends_handle (sys_log s) \<or> list_ex is_ending new"
  shows "life_ok s'"
proof -
  have all: "list_all (\<lambda>p. op_ok (snd p) s') (sys_ops s')"
    using ops_ok_later [OF later, of "sys_ops s"] ok ops by (simp add: life_ok_def)
  have old: "removal_ok s" using ok by (simp add: life_ok_def)
  have "removal_ok s'"
    unfolding removal_ok_def Let_def
  proof (intro conjI impI)
    assume "req_retired (sys_request s')"
    with old retired later show "ready s'" by (simp add: removal_ok_def later_def Let_def)
  next
    assume "\<not> alive s'"
    with old retired dead show "req_retired (sys_request s')" by (auto simp: removal_ok_def Let_def)
  next
    assume "req_remove_after_cancel_callback (sys_request s')"
    then show "req_cancel_callback_running (sys_request s')" "req_retired (sys_request s')"
      using removing(1) old retired by (simp_all add: removal_ok_def Let_def)
  next
    assume "sys_requester s' = Requester_removing"
    then show "req_retired (sys_request s')" by (rule removing(2))
  next
    assume a: "req_retired (sys_request s') \<and> alive s'"
    with later have "alive s" by (simp add: later_def)
    with a old retired have "list_ex is_removing (sys_ops s) \<or> req_remove_after_cancel_callback (sys_request s)
        \<or> sys_requester s = Requester_removing" by (simp add: removal_ok_def Let_def)
    with a ops(1) removing(3) show "list_ex is_removing (sys_ops s') \<or> req_remove_after_cancel_callback (sys_request s')
        \<or> sys_requester s' = Requester_removing" by auto
  next
    assume "list_ex ends_handle (sys_log s')"
    then have "list_ex ends_handle (sys_log s) \<or> list_ex is_ending new" by (rule ends)
    with old retired later ops(1) show "req_retired (sys_request s') \<or> \<not> alive s' \<or> list_ex is_ending (sys_ops s')"
      by (auto simp: removal_ok_def later_def Let_def)
  qed
  with sys requester provider table all show ?thesis by (simp add: life_ok_def)
qed

lemma call_ending:
  assumes "call_begin t call s = (events, op)"
  shows "list_ex ends_handle events \<Longrightarrow> list_ex is_ending (op_list thread op)"
    "list_all (\<lambda>p. op_ok (snd p) s') (op_list thread op)"
  using assms
  by (cases call; auto simp: call_begin_def Let_def answer_begin_def ends_handle_def split: option.splits if_splits prod.splits)+

lemma call_step_life:
  assumes ok: "life_ok s" and "sys_provider s \<noteq> Provider_entering" and act: "call_begin t call s = (events, op)"
  shows "life_ok (s\<lparr>sys_log := sys_log s @ events, sys_ops := sys_ops s @ op_list thread op\<rparr>)"
proof (rule life_next [OF ok, where new = "op_list thread op"])
  let ?s = "s\<lparr>sys_log := sys_log s @ events, sys_ops := sys_ops s @ op_list thread op\<rparr>"
  show "sys_ok ?s" using ok call_begin_silent [OF act] by (auto simp: life_ok_def intro: request_ok_silent)
  show "list_all (\<lambda>p. op_ok (snd p) ?s) (op_list thread op)" by (rule call_ending(2) [OF act])
  show "list_ex ends_handle (sys_log s) \<or> list_ex is_ending (op_list thread op)"
    if "list_ex ends_handle (sys_log ?s)" using that call_ending(1) [OF act] by auto
  show "provider_ok ?s" using ok assms(2) by (auto simp: life_ok_def provider_ok_def Let_def split: provider_phase.splits)
qed (use ok in \<open>auto simp: life_ok_def later_def removal_ok_def Let_def\<close>)

lemma drain_step_life:
  assumes ok: "life_ok s" and l: "req_loader (sys_request s) = Some l" "loader_woken l"
    and act: "drain_request throws (sys_request s) = (events, q)"
  shows "life_ok (with_request events q s)"
proof -
  from ok have sys: "sys_ok s" by (simp add: life_ok_def)
  note d = drain_request_ok [OF sys l act]
  note f = framedD [OF d(2)]
  have "\<not> list_ex ends_handle events"
    using act by (auto simp: drain_request_def drain_loader_def pass_through_def send_failure_def Let_def ends_handle_def
        split: if_splits option.splits prod.splits decision.splits)
  moreover have "later s (with_request events q s)" using f d(3) by (auto simp: later_def ready_def alive_def)
  moreover have "provider_ok (with_request events q s)" using ok f d(3)
    by (auto simp: life_ok_def provider_ok_def Let_def split: provider_phase.splits)
  moreover have "requester_ok (sys_requester s) q"
    using ok f d(3) by (cases "sys_requester s") (auto simp: life_ok_def)
  ultimately show ?thesis
    using ok f d by (intro life_next [OF ok, where new = "[]"])
      (auto simp: life_ok_def table_part_ok_def alive_def removal_ok_def Let_def)
qed


lemma fail_locked_log: "fail_locked f q = (events, q') \<Longrightarrow> \<not> list_ex ends_handle events"
  by (auto simp: fail_locked_def schedule_on_def ends_handle_def split: if_splits option.splits)

lemma fail_step_life:
  assumes ok: "life_ok s" and f: "fail_locked f ((sys_request s)\<lparr>req_deciding := False, req_claimed := claimed\<rparr>) = (events, q)"
    and phase: "sys_provider s \<noteq> Provider_done" "sys_provider s \<noteq> Provider_entering"
    and ops: "new = [] \<or> new = [(thread, Retiring)]"
  shows "life_ok (with_request events q s\<lparr>sys_provider := Provider_done, sys_ops := sys_ops s @ new\<rparr>)"
proof -
  let ?q = "(sys_request s)\<lparr>req_deciding := False, req_claimed := claimed\<rparr>"
  let ?s = "with_request events q s\<lparr>sys_provider := Provider_done, sys_ops := sys_ops s @ new\<rparr>"
  have q: "request_ok ?q (sys_log s)" using ok by (auto simp: life_ok_def intro: request_ok_same)
  then have "request_answers_ok ?q (sys_log s)" by (simp add: request_ok_def)
  note r = fail_locked_ok [OF this f]
  note fr = framedD [OF r(3)]
  have alive: "sys_requester s = Requester_alive" using ok phase by (simp add: life_ok_def provider_ok_def Let_def)
  show ?thesis
  proof (rule life_next [OF ok, where new = new])
    show "sys_ok ?s" using fail_locked_request_ok [OF q f] by simp
    show "later s ?s" using fr r(2) by (auto simp: later_def ready_def alive_def)
    show "provider_ok ?s" using fr r(2) by (simp add: provider_ok_def)
    show "list_all (\<lambda>p. op_ok (snd p) ?s) new" using ops r(2) by (auto simp: ready_def)
    show "requester_ok (sys_requester ?s) (sys_request ?s)" using ok alive fr by (simp add: life_ok_def)
    show "table_part_ok ?s" using ok fr by (simp add: life_ok_def table_part_ok_def)
    show "list_ex ends_handle (sys_log s) \<or> list_ex is_ending new" if "list_ex ends_handle (sys_log ?s)"
      using that fail_locked_log [OF f] by auto
  qed (use ok fr alive in \<open>auto simp: alive_def life_ok_def removal_ok_def Let_def\<close>)
qed

lemma released_step_life:
  assumes ok: "life_ok s" and "sys_provider s = Provider_calling" "\<not> req_released_while_deciding (sys_request s)"
  shows "life_ok (s\<lparr>sys_request := (sys_request s)\<lparr>req_deciding := False, req_claimed := True\<rparr>, sys_provider := Provider_done\<rparr>)"
    (is "life_ok ?s")
proof (rule life_next [OF ok, where new = "[]"])
  show "sys_ok ?s" using ok by (auto simp: life_ok_def intro: request_ok_same)
  show "later s ?s" using assms by (auto simp: later_def ready_def alive_def)
  show "table_part_ok ?s" using ok by (simp add: life_ok_def table_part_ok_def)
  show "requester_ok (sys_requester ?s) (sys_request ?s)"
    using ok assms(2) by (auto simp: life_ok_def provider_ok_def Let_def)
qed (use ok in \<open>auto simp: alive_def life_ok_def removal_ok_def provider_ok_def Let_def\<close>)

lemma provider_step_life:
  assumes ok: "life_ok s"
  shows "life_ok (provider_action throws s)"
proof (cases "sys_provider s")
  case Provider_entering
  then have enter: "sys_requester s = Requester_alive" using ok by (simp add: life_ok_def provider_ok_def Let_def)
  have fails: "life_ok (s\<lparr>sys_provider := Provider_failing f\<rparr>)" for f
    by (rule life_next [OF ok, where new = "[]"])
      (use ok Provider_entering in \<open>auto simp: life_ok_def later_def ready_def provider_ok_def removal_ok_def Let_def\<close>)
  have calls: "life_ok (s\<lparr>sys_request := (sys_request s)\<lparr>req_deciding := True\<rparr>, sys_provider := Provider_calling\<rparr>)"
    (is "life_ok ?s")
  proof (rule life_next [OF ok, where new = "[]"])
    show "sys_ok ?s" using ok by (auto simp: life_ok_def intro: request_ok_same)
    show "later s ?s" using Provider_entering by (auto simp: later_def ready_def alive_def)
    show "table_part_ok ?s" using ok by (simp add: life_ok_def table_part_ok_def)
  qed (use ok Provider_entering enter in \<open>auto simp: alive_def life_ok_def removal_ok_def provider_ok_def Let_def\<close>)
  from Provider_entering fails calls show ?thesis by (simp add: provider_action_def Let_def)
next
  case Provider_calling
  have fails: "life_ok (s\<lparr>sys_provider := Provider_failing f\<rparr>)" for f
    by (rule life_next [OF ok, where new = "[]"])
      (use ok Provider_calling in \<open>auto simp: life_ok_def later_def ready_def provider_ok_def removal_ok_def Let_def\<close>)
  obtain events q where f: "fail_locked Failure_Released
      ((sys_request s)\<lparr>req_deciding := False, req_claimed := True\<rparr>) = (events, q)" by fastforce
  consider "throws" | "\<not> throws" "req_released_while_deciding (sys_request s)"
    | "\<not> throws" "\<not> req_released_while_deciding (sys_request s)" by blast
  then show ?thesis
  proof cases
    case 1
    with Provider_calling fails show ?thesis by (simp add: provider_action_def Let_def)
  next
    case 2
    with fail_step_life [OF ok f, of "[]"] Provider_calling f show ?thesis by (simp add: provider_action_def Let_def)
  next
    case 3
    with released_step_life [OF ok Provider_calling] Provider_calling show ?thesis
      by (simp add: provider_action_def Let_def)
  qed
next
  case (Provider_failing failure)
  have "req_claimed (sys_request s) = False" using ok Provider_failing by (simp add: life_ok_def provider_ok_def Let_def)
  then have same: "(sys_request s)\<lparr>req_deciding := False\<rparr> = (sys_request s)\<lparr>req_deciding := False, req_claimed := False\<rparr>"
    by (cases "sys_request s") simp
  obtain events q where f: "fail_locked failure
      ((sys_request s)\<lparr>req_deciding := False, req_claimed := False\<rparr>) = (events, q)" by fastforce
  have "fail_locked failure ((sys_request s)\<lparr>req_deciding := False\<rparr>) = (events, q)" by (subst same) (rule f)
  with fail_step_life [OF ok f, of "[(loop_thread, Retiring)]" loop_thread] Provider_failing show ?thesis
    by (simp add: provider_action_def Let_def)
qed (use ok in \<open>simp add: provider_action_def\<close>)


lemma remove_request_log: "list_ex ends_handle (sys_log (remove_request s)) = list_ex ends_handle (sys_log s)"
  by (simp add: remove_request_def ends_handle_def split: option.split prod.split)

lemma requester_step_life:
  assumes ok: "life_ok s" and returned: "sys_provider s = Provider_done"
  shows "life_ok (requester_action s)"
proof -
  let ?s = "requester_action s"
  from ok have parts: "sys_ok s" "requester_ok (sys_requester s) (sys_request s)" "provider_ok s" "removal_ok s"
    "table_part_ok s" by (simp_all add: life_ok_def)
  note sys = requester_action_request_ok [OF parts(1,2)]
  have step: "life_ok ?s"
    if "later s ?s" "provider_ok ?s" "table_part_ok ?s" "sys_ops ?s = sys_ops s"
      "alive ?s = alive s \<or> req_retired (sys_request ?s) \<and> \<not> alive ?s"
      "req_retired (sys_request ?s) = req_retired (sys_request s)"
      "req_remove_after_cancel_callback (sys_request ?s) \<longrightarrow>
        req_remove_after_cancel_callback (sys_request s) \<and> req_cancel_callback_running (sys_request ?s)"
      "sys_requester ?s = Requester_removing \<longrightarrow> req_retired (sys_request ?s)"
      "req_remove_after_cancel_callback (sys_request s) \<or> sys_requester s = Requester_removing \<longrightarrow>
        req_remove_after_cancel_callback (sys_request ?s) \<or> sys_requester ?s = Requester_removing \<or> \<not> alive ?s"
      "list_ex ends_handle (sys_log ?s) = list_ex ends_handle (sys_log s)"
    by (rule life_next [OF ok that(1) sys that(2,3), where new = "[]"]) (use that in auto)
  show ?thesis
  proof (cases "sys_requester s")
    case Requester_alive
    with parts returned show ?thesis
      by (intro step) (auto simp: requester_action_def Let_def later_def ready_def alive_def provider_ok_def
          table_part_ok_def removal_ok_def ends_handle_def)
  next
    case Requester_cancelling
    with parts returned show ?thesis
      by (intro step) (auto simp: requester_action_def Let_def later_def ready_def alive_def provider_ok_def
          table_part_ok_def removal_ok_def)
  next
    case Requester_taking
    with parts returned show ?thesis
      by (intro step) (auto simp: requester_action_def Let_def later_def ready_def alive_def provider_ok_def
          table_part_ok_def removal_ok_def split: option.split)
  next
    case (Requester_calling callback release user_data)
    with parts returned show ?thesis
      by (intro step) (auto simp: requester_action_def Let_def later_def ready_def alive_def provider_ok_def
          table_part_ok_def removal_ok_def ends_handle_def)
  next
    case (Requester_called release user_data)
    with parts returned show ?thesis
      by (intro step) (auto simp: requester_action_def Let_def later_def ready_def alive_def provider_ok_def
          table_part_ok_def removal_ok_def ends_handle_def release_event_def split: option.split)
  next
    case Requester_ending
    with parts returned show ?thesis
      by (intro step) (auto simp: requester_action_def Let_def later_def ready_def alive_def provider_ok_def
          table_part_ok_def removal_ok_def)
  next
    case Requester_removing
    have "req_retired (sys_request s)" "ready s" using parts(4) Requester_removing by (auto simp: removal_ok_def Let_def)
    with Requester_removing parts returned table_part_remove [OF parts(5)] show ?thesis
      by (intro step) (auto simp: requester_action_def Let_def later_def ready_def provider_ok_def
          remove_request_log removal_ok_def)
  qed (use ok in \<open>simp add: requester_action_def Let_def\<close>)
qed

lemma table_step_life:
  assumes ok: "life_ok s" and table: "table_ok table"
    and issued: "was_issued Kind_ResourceRequest table (req_handle (sys_request s))"
    and same: "try_resolve Kind_ResourceRequest table (req_handle (sys_request s)) = None \<longleftrightarrow> \<not> alive s"
  shows "life_ok (s\<lparr>sys_table := table\<rparr>)"
  using assms
  by (intro life_next [OF ok, where new = "[]"])
    (auto simp: life_ok_def later_def alive_def table_part_ok_def provider_ok_def removal_ok_def Let_def
      split: provider_phase.splits)

lemma insert_step_life:
  assumes ok: "life_ok s" and ins: "insert_handle Kind_ResourceRequest n (sys_table s) = Some (h, table)"
  shows "life_ok (s\<lparr>sys_table := table\<rparr>)"
proof (rule table_step_life [OF ok])
  have t: "table_ok (sys_table s)" "was_issued Kind_ResourceRequest (sys_table s) (req_handle (sys_request s))"
    using ok by (simp_all add: life_ok_def table_part_ok_def)
  show "table_ok table" using insert_table_ok [OF ins t(1)] .
  show "was_issued Kind_ResourceRequest table (req_handle (sys_request s))"
    using insert_issues [OF ins t(1)] t(2) by blast
  have "h \<noteq> req_handle (sys_request s)" using insert_fresh_handle [OF ins t(1)] t(2) by blast
  then show "try_resolve Kind_ResourceRequest table (req_handle (sys_request s)) = None \<longleftrightarrow> \<not> alive s"
    using insert_resolves [OF ins t(1)] by (simp add: alive_def)
qed

lemma request_step_life: "request_step s s' \<Longrightarrow> life_ok s \<Longrightarrow> life_ok s'"
proof (induction rule: request_step.induct)
  case (step_call s t call events op thread)
  then show ?case by (rule call_step_life [rotated])
next
  case (step_op s ops1 thread op ops2 throws t op' s')
  then show ?case by (rule op_step_life [rotated])
next
  case (step_remove h s)
  then have t: "table_ok (sys_table s)" "was_issued Kind_ResourceRequest (sys_table s) (req_handle (sys_request s))"
    by (simp_all add: life_ok_def table_part_ok_def)
  show ?case
    by (rule table_step_life)
      (use step_remove t in \<open>simp_all add: remove_table_ok remove_issues remove_resolves alive_def\<close>)
next
  case (step_exit s)
  then show ?case
    by (intro life_next [OF step_exit, where new = "[]"])
      (auto simp: life_ok_def later_def provider_ok_def removal_ok_def Let_def split: provider_phase.splits)
qed (auto intro: provider_step_life requester_step_life drain_step_life insert_step_life)

lemma request_start_life:
  assumes "table_ok table" "request_custom_resource n prior_data prior_modified prior_etag exiting table = Some s"
  shows "life_ok s"
proof -
  from assms(2) obtain h table' where ins: "insert_handle Kind_ResourceRequest n table = Some (h, table')"
    and s: "s = \<lparr>sys_request = new_request h prior_data prior_modified prior_etag, sys_table = table',
           sys_provider = Provider_entering, sys_requester = Requester_alive, sys_ops = [],
           sys_exiting = exiting, sys_log = []\<rparr>"
    by (auto simp: request_custom_resource_def split: option.splits)
  have "was_issued Kind_ResourceRequest table' h" using insert_issues [OF ins assms(1)] by blast
  moreover have "alive s" using insert_resolves [OF ins assms(1)] by (simp add: alive_def s new_request_def)
  ultimately show ?thesis using insert_table_ok [OF ins assms(1)]
    by (auto simp: life_ok_def s new_request_def request_ok_def answers_ok_def host_ok_def loader_ok_def
        new_loader_def loader_intact_def provider_ok_def removal_ok_def table_part_ok_def)
qed

lemma request_reachable_life: "request_reachable s \<Longrightarrow> life_ok s"
  by (induction rule: request_reachable.induct) (auto intro: request_start_life request_step_life)

section \<open>What a request promises\<close>

text \<open>Nothing of the request is under way.\<close>

definition quiescent :: "request_system \<Rightarrow> bool" where
  "quiescent s \<longleftrightarrow> sys_ops s = [] \<and> sys_provider s = Provider_done
     \<and> (sys_requester s = Requester_alive \<or> sys_requester s = Requester_gone)"

definition handle_live :: "request_system \<Rightarrow> bool" where
  "handle_live s \<longleftrightarrow> try_lease Kind_ResourceRequest (sys_table s) (req_handle (sys_request s)) \<noteq> None"

lemma handle_live_alive: "handle_live s = alive s"
  by (simp add: handle_live_def alive_def try_lease_eq)

lemma quiescent_dead:
  assumes "life_ok s" "quiescent s"
  shows "list_ex ends_handle (sys_log s) \<Longrightarrow> \<not> alive s"
    "\<not> alive s \<Longrightarrow> req_completed (sys_request s) \<or> req_cancelled (sys_request s)"
  using assms by (auto simp: life_ok_def removal_ok_def quiescent_def ready_def Let_def)

text \<open>
  C34: Whatever the provider's callback, the host's calls on any thread and the cancellation do, and in whatever
  order their locked sections run, a request is answered at most once: by one response, one hand-over
  to the native loader or one failure. It is answered only before it is cancelled, the calls of the host
  that return OK are exactly the answers it gave, the requester gets what was decided and at most one
  result, and no pointer is used after it is gone. Once nothing is under way, a handle that any answer
  or release was called on is gone, and a request whose handle is gone is answered or cancelled.
\<close>

theorem request_answered_once:
  assumes "request_reachable s"
  shows "length (answers (sys_log s)) \<le> 1
    \<and> req_completed (sys_request s) = (answers (sys_log s) \<noteq> [])
    \<and> answers (since_cancelled (sys_log s)) = []
    \<and> length (filter (\<lambda>e. e = Host_answer MLN_STATUS_OK) (sys_log s)) = length (filter host_gave (sys_log s))
    \<and> length (outcomes (sys_log s)) \<le> 1 \<and> Bad_access \<notin> set (sys_log s)
    \<and> (case req_loader (sys_request s) of
          None \<Rightarrow> req_cancelled (sys_request s)
        | Some l \<Rightarrow> (case answers (sys_log s) of
              [Scheduled d] \<Rightarrow> loader_woken l \<or> carried_out d (outcomes (sys_log s))
            | _ \<Rightarrow> outcomes (sys_log s) = []))
    \<and> (if quiescent s
       then (if list_ex ends_handle (sys_log s) then \<not> handle_live s else True)
         \<and> (handle_live s \<or> req_completed (sys_request s) \<or> req_cancelled (sys_request s))
       else True)"
proof -
  have life: "life_ok s" by (rule request_reachable_life [OF assms])
  then have ok: "answers_ok (req_completed (sys_request s)) (req_cancelled (sys_request s)) (req_loader (sys_request s))
      (sys_log s)" and host: "host_ok (sys_log s)"
    by (simp_all add: life_ok_def request_ok_def)
  have loader: "case req_loader (sys_request s) of
          None \<Rightarrow> req_cancelled (sys_request s)
        | Some l \<Rightarrow> (case answers (sys_log s) of
              [Scheduled d] \<Rightarrow> loader_woken l \<or> carried_out d (outcomes (sys_log s))
            | _ \<Rightarrow> outcomes (sys_log s) = [])"
    using ok by (auto simp: answers_ok_def loader_ok_def split: option.splits list.splits request_event.splits if_splits)
  have "if quiescent s
       then (if list_ex ends_handle (sys_log s) then \<not> handle_live s else True)
         \<and> (handle_live s \<or> req_completed (sys_request s) \<or> req_cancelled (sys_request s))
       else True"
    using quiescent_dead [OF life] by (auto simp: handle_live_alive)
  with ok host loader show ?thesis by (simp add: answers_ok_def host_ok_def)
qed

section \<open>Two requests\<close>

text \<open>The first request of a process; its provider throws, and so the request fails.\<close>

definition first_request :: request_system where
  "first_request = the (request_custom_resource 0 None None None False empty_table)"

lemma first_request_reachable: "request_reachable first_request"
proof -
  have "request_custom_resource 0 None None None False empty_table = Some first_request"
    by (simp add: first_request_def request_custom_resource_def insert_handle_def empty_table_def)
  then show ?thesis by (rule request_start [OF table_ok_empty])
qed

lemma provider_runs: "request_reachable s \<Longrightarrow> request_reachable (provider_action throws s)"
  by (erule request_next) (rule step_provider)

lemma requester_runs: "request_reachable s \<Longrightarrow> sys_provider s = Provider_done \<Longrightarrow> request_reachable (requester_action s)"
  by (erule request_next) (rule step_requester)

lemmas first_request_values = first_request_def request_custom_resource_def insert_handle_def empty_table_def
  new_request_def new_loader_def provider_action_def Let_def

theorem request_answered_once_witness:
  "let s = provider_action False (provider_action True (provider_action False first_request))
   in length (answers (sys_log s)) \<le> 1 \<and> req_completed (sys_request s) = (answers (sys_log s) \<noteq> [])
     \<and> answers (sys_log s) = [Scheduled Decision_Failure]"
proof -
  let ?s = "provider_action False (provider_action True (provider_action False first_request))"
  have "request_reachable ?s" by (intro provider_runs first_request_reachable)
  from request_answered_once [OF this]
  have "length (answers (sys_log ?s)) \<le> 1" "req_completed (sys_request ?s) = (answers (sys_log ?s) \<noteq> [])" by simp_all
  moreover have "answers (sys_log ?s) = [Scheduled Decision_Failure]"
    by (simp add: first_request_values fail_locked_def schedule_on_def schedule_def set_failure_def)
  ultimately show ?thesis by (simp add: Let_def)
qed

end
