(* ===== verification/Request_Cancellation.thy ===== *)
theory Request_Cancellation
  imports Request_Answers
begin

text \<open>
  The cancel handler of a resource request: its callback runs at most once and its user data is released
  exactly once, over every step of \<open>Resource_Requests\<close>.
\<close>

section \<open>The user data of a cancel handler\<close>

primrec stored_by :: "request_event \<Rightarrow> (release_function \<times> cancel_context) list" where
  "stored_by (Responded r) = []"
| "stored_by (Scheduled d) = []"
| "stored_by Bad_access = []"
| "stored_by (Host_answer status) = []"
| "stored_by Host_release_call = []"
| "stored_by Cancelled = []"
| "stored_by (Handler_stored callback release user_data) =
     (case release of None \<Rightarrow> [] | Some f \<Rightarrow> [(f, user_data)])"
| "stored_by (Cancel_called callback user_data) = []"
| "stored_by (Release_called release user_data) = []"
| "stored_by (Release_skipped release user_data) = []"
| "stored_by Handle_removed = []"
| "stored_by Native_started = []"
| "stored_by (Failure_delivered message) = []"

text \<open>User data leaves by its release, which a process that exits skips.\<close>

definition left_by :: "request_event \<Rightarrow> (release_function \<times> cancel_context) list" where
  "left_by e = (case e of Release_called f user_data \<Rightarrow> [(f, user_data)]
     | Release_skipped f user_data \<Rightarrow> [(f, user_data)] | _ \<Rightarrow> [])"

definition is_handler :: "request_event \<Rightarrow> bool" where
  "is_handler e \<longleftrightarrow> (\<exists>callback release user_data. e = Handler_stored callback release user_data)"

definition release_due :: "release_function option \<Rightarrow> cancel_context \<Rightarrow> (release_function \<times> cancel_context) list" where
  "release_due release user_data = (case release of None \<Rightarrow> [] | Some f \<Rightarrow> [(f, user_data)])"

definition op_due :: "request_op \<Rightarrow> (release_function \<times> cancel_context) list" where
  "op_due op = (case op of Retire_waiting release user_data \<Rightarrow> release_due release user_data
     | Retire_releasing release user_data \<Rightarrow> release_due release user_data | _ \<Rightarrow> [])"

definition requester_due :: "requester_phase \<Rightarrow> (release_function \<times> cancel_context) list" where
  "requester_due phase = (case phase of Requester_calling callback release user_data \<Rightarrow> release_due release user_data
     | Requester_called release user_data \<Rightarrow> release_due release user_data | _ \<Rightarrow> [])"

definition ops_due :: "(nat \<times> request_op) list \<Rightarrow> (release_function \<times> cancel_context) list" where
  "ops_due ops = concat (map (\<lambda>p. op_due (snd p)) ops)"

definition all_due :: "request_system \<Rightarrow> (release_function \<times> cancel_context) list" where
  "all_due s = release_due (req_cancel_release (sys_request s)) (req_cancel_user_data (sys_request s))
     @ requester_due (sys_requester s) @ ops_due (sys_ops s)"

definition stored :: "request_event list \<Rightarrow> (release_function \<times> cancel_context) list" where
  "stored evs = concat (map stored_by evs)"

definition left :: "request_event list \<Rightarrow> (release_function \<times> cancel_context) list" where
  "left evs = concat (map left_by evs)"

lemma due_lists [simp]:
  "stored [] = []" "stored (e # es) = stored_by e @ stored es" "stored (es @ es') = stored es @ stored es'"
  "left [] = []" "left (e # es) = left_by e @ left es" "left (es @ es') = left es @ left es'"
  "ops_due [] = []" "ops_due (p # ops) = op_due (snd p) @ ops_due ops" "ops_due (ops @ ops') = ops_due ops @ ops_due ops'"
  by (simp_all add: stored_def left_def ops_due_def)

definition since_left :: "request_event list \<Rightarrow> request_event list" where
  "since_left evs = dropWhile (\<lambda>e. left_by e = []) evs"

definition releases_ok :: "request_system \<Rightarrow> bool" where
  "releases_ok s \<longleftrightarrow> mset (stored (sys_log s)) = mset (left (sys_log s)) + mset (all_due s)"

definition is_removal :: "nat \<times> request_op \<Rightarrow> bool" where
  "is_removal p \<longleftrightarrow> (case snd p of Retire_releasing release user_data \<Rightarrow> True | Retire_removing \<Rightarrow> True | _ \<Rightarrow> False)"

text \<open>A call follows the handler it belongs to.\<close>

definition call_stored :: "request_event list \<Rightarrow> request_event \<Rightarrow> bool" where
  "call_stored evs e \<longleftrightarrow> (case e of
     Cancel_called callback user_data \<Rightarrow> \<exists>release. Handler_stored callback release user_data \<in> set evs | _ \<Rightarrow> True)"

definition calls_ok :: "request_system \<Rightarrow> bool" where
  "calls_ok s \<longleftrightarrow> (let q = sys_request s; evs = sys_log s in
     length (filter is_handler evs) \<le> 1
     \<and> (list_ex is_handler evs \<longrightarrow> req_cancel_callback_registered q)
     \<and> (case req_cancel_callback q of None \<Rightarrow> True
         | Some callback \<Rightarrow> Handler_stored callback (req_cancel_release q) (req_cancel_user_data q) \<in> set evs
             \<and> \<not> list_ex is_cancel_call evs)
     \<and> (case sys_requester s of Requester_calling callback release user_data \<Rightarrow>
           Handler_stored callback release user_data \<in> set evs \<and> \<not> list_ex is_cancel_call evs \<and> req_cancel_callback q = None
         | _ \<Rightarrow> True)
     \<and> length (filter is_cancel_call evs) \<le> 1 \<and> list_all (call_stored evs) evs
     \<and> \<not> list_ex is_cancel_call (since_left evs))"

definition running_ok :: "request_system \<Rightarrow> bool" where
  "running_ok s \<longleftrightarrow> (let q = sys_request s in
     (req_retired q \<longrightarrow> req_cancel_callback q = None \<and> req_cancel_release q = None)
     \<and> (req_cancel_callback_running q \<longrightarrow>
         req_cancel_callback_registered q \<and> req_cancel_callback q = None \<and> req_cancel_release q = None)
     \<and> (list_ex is_removal (sys_ops s) \<or> \<not> alive s \<longrightarrow> \<not> req_cancel_callback_running q))"

definition user_data_ok :: "request_system \<Rightarrow> bool" where
  "user_data_ok s \<longleftrightarrow> releases_ok s \<and> calls_ok s \<and> running_ok s"

definition mute :: "request_event \<Rightarrow> bool" where
  "mute e \<longleftrightarrow> stored_by e = [] \<and> left_by e = [] \<and> \<not> is_handler e \<and> \<not> is_cancel_call e"

definition kept :: "resource_request \<Rightarrow> resource_request \<Rightarrow> bool" where
  "kept q q' \<longleftrightarrow> req_cancel_callback q' = req_cancel_callback q \<and> req_cancel_release q' = req_cancel_release q
     \<and> req_cancel_user_data q' = req_cancel_user_data q
     \<and> req_cancel_callback_registered q' = req_cancel_callback_registered q
     \<and> req_cancel_callback_running q' = req_cancel_callback_running q \<and> req_retired q' = req_retired q"

lemma mute_lists:
  "list_all mute es \<Longrightarrow> stored es = [] \<and> left es = [] \<and> filter is_handler es = [] \<and> filter is_cancel_call es = []
     \<and> \<not> list_ex is_handler es \<and> \<not> list_ex is_cancel_call es \<and> since_left es = [] \<and> list_all (call_stored evs) es"
  by (induction es) (auto simp: mute_def since_left_def call_stored_def is_cancel_call_def split: request_event.split)

lemma since_left_simps [simp]:
  "since_left [] = []" "since_left (e # es) = (if left_by e = [] then since_left es else e # es)"
  by (simp_all add: since_left_def)

lemma not_ex_filter: "filter P evs = [] \<longleftrightarrow> \<not> list_ex P evs"
  by (auto simp: filter_empty_conv list_ex_iff)

lemma since_left_append:
  "since_left (evs @ es) = (if left evs = [] then since_left es else since_left evs @ es)"
  by (induction evs) (auto simp: since_left_def)

lemma call_stored_append: "call_stored evs e \<Longrightarrow> call_stored (evs @ es) e"
  by (auto simp: call_stored_def split: request_event.splits)

lemma calls_stored_append: "list_all (call_stored evs) l \<Longrightarrow> list_all (call_stored (evs @ es)) l"
  by (auto simp: list_all_iff intro: call_stored_append)

lemma calls_ok_kept:
  assumes "calls_ok s" "kept (sys_request s) (sys_request s')" "sys_log s' = sys_log s @ es" "list_all mute es"
    "sys_requester s' = sys_requester s"
  shows "calls_ok s'"
  using assms mute_lists [OF assms(4), of "sys_log s @ es"]
  by (auto simp: calls_ok_def kept_def Let_def since_left_append intro: calls_stored_append
      split: option.splits requester_phase.splits)

lemma user_data_kept:
  assumes ok: "user_data_ok s" and kept: "kept (sys_request s) (sys_request s')"
    and evs: "sys_log s' = sys_log s @ es" "list_all mute es"
    and same: "sys_requester s' = sys_requester s" "ops_due (sys_ops s') = ops_due (sys_ops s)"
      "list_ex is_removal (sys_ops s') \<or> \<not> alive s' \<Longrightarrow> list_ex is_removal (sys_ops s) \<or> \<not> alive s"
  shows "user_data_ok s'"
proof -
  have "calls_ok s'" using calls_ok_kept [OF _ kept evs same(1)] ok by (simp add: user_data_ok_def)
  moreover have "releases_ok s'"
    using ok kept same mute_lists [OF evs(2)] by (simp add: user_data_ok_def releases_ok_def all_due_def kept_def evs(1))
  moreover have "running_ok s'" using ok kept same by (auto simp: user_data_ok_def running_ok_def kept_def Let_def)
  ultimately show ?thesis by (simp add: user_data_ok_def)
qed


lemma kept_refl [simp]: "kept q q"
  by (simp add: kept_def)

lemma framed_kept: "framed q q' \<Longrightarrow> kept q q'"
  using framedD [of q q'] by (simp add: kept_def)

lemma mute_events [simp]:
  "mute (Responded r)" "mute (Scheduled d)" "mute Bad_access" "mute (Host_answer status)" "mute Host_release_call"
  "mute Cancelled" "mute Handle_removed" "mute Native_started" "mute (Failure_delivered m)"
  by (simp_all add: mute_def left_by_def is_handler_def is_cancel_call_def)

lemma complete_locked_mute: "complete_locked throws response q t = (r, events, q', t') \<Longrightarrow> list_all mute events"
  by (auto simp: complete_locked_def split: if_splits option.splits prod.splits)

lemma schedule_on_mute: "schedule_on d f q = (events, q') \<Longrightarrow> list_all mute events"
  by (auto simp: schedule_on_def split: option.splits)

lemma pass_through_locked_mute: "pass_through_locked q t = (r, events, q', t') \<Longrightarrow> list_all mute events"
  by (auto simp: pass_through_locked_def dest: schedule_on_mute split: if_splits prod.splits)

lemma fail_locked_mute: "fail_locked f q = (events, q') \<Longrightarrow> list_all mute events"
  by (auto simp: fail_locked_def dest: schedule_on_mute split: if_splits)

lemma release_locked_mute: "release_locked q = (events, q') \<Longrightarrow> list_all mute events"
  by (auto simp: release_locked_def dest: fail_locked_mute split: if_splits)

lemma release_locked_kept:
  assumes "request_answers_ok q evs" "release_locked q = (events, q')"
  shows "kept q q'"
  using assms(2)
proof (cases rule: release_locked_cases)
  case claimed
  then show ?thesis by (intro framed_kept fail_locked_ok(3) [OF assms(1)])
qed (simp_all add: kept_def)

lemma drain_mute: "drain_request throws q = (events, q') \<Longrightarrow> list_all mute events"
  by (auto simp: drain_request_def drain_loader_def pass_through_def send_failure_def Let_def
      split: if_splits option.splits prod.splits decision.splits)

lemma call_begin_mute:
  assumes "call_begin t call s = (events, op)"
  shows "list_all mute events" "ops_due (op_list thread op) = []" "\<not> list_ex is_removal (op_list thread op)"
  using assms
  by (cases call; auto simp: call_begin_def Let_def answer_begin_def op_due_def is_removal_def
      split: option.splits if_splits prod.splits)+

lemma event_stores: "(\<And>callback release user_data. e \<noteq> Handler_stored callback release user_data) \<Longrightarrow> stored_by e = []"
  by (cases e) auto

lemma no_handler_stored: "\<not> list_ex is_handler evs \<Longrightarrow> stored evs = []"
  by (induction evs) (auto simp: is_handler_def intro: event_stores)

lemma unregistered:
  assumes ok: "user_data_ok s" and new: "\<not> req_cancel_callback_registered (sys_request s)"
  shows "\<not> list_ex is_handler (sys_log s)" "left (sys_log s) = []" "all_due s = []"
    "req_cancel_callback (sys_request s) = None" "\<not> list_ex is_cancel_call (sys_log s)"
    "sys_requester s \<noteq> Requester_calling callback release user_data"
proof -
  let ?q = "sys_request s"
  from ok have calls: "calls_ok s" and rel: "releases_ok s" by (simp_all add: user_data_ok_def)
  show h: "\<not> list_ex is_handler (sys_log s)" using calls new by (auto simp: calls_ok_def Let_def)
  then have none: "Handler_stored cb rl ud \<notin> set (sys_log s)" for cb rl ud
    by (auto simp: list_ex_iff is_handler_def)
  have "mset (left (sys_log s)) + mset (all_due s) = {#}"
    using rel no_handler_stored [OF h] by (simp add: releases_ok_def)
  then show "left (sys_log s) = []" "all_due s = []" by simp_all
  show "req_cancel_callback ?q = None" "sys_requester s \<noteq> Requester_calling callback release user_data"
    using calls none by (auto simp: calls_ok_def Let_def split: option.splits)
  show "\<not> list_ex is_cancel_call (sys_log s)"
  proof
    assume "list_ex is_cancel_call (sys_log s)"
    then obtain cb ud where "Cancel_called cb ud \<in> set (sys_log s)" by (auto simp: list_ex_iff is_cancel_call_def)
    with calls have "call_stored (sys_log s) (Cancel_called cb ud)" by (auto simp: calls_ok_def Let_def list_all_iff)
    with none show False by (auto simp: call_stored_def)
  qed
qed

lemma set_cancel_step_data:
  assumes ok: "user_data_ok s" and act: "set_cancel_locked throws h queue (sys_request s) t = (r, out, events, q, t')"
    and ops: "sys_ops s = ops1 @ (thread, Setting_cancel h queue) # ops2"
  shows "user_data_ok (with_request events q s\<lparr>sys_ops := ops1 @ ops2\<rparr>)"
proof (cases "events = []")
  case True
  then consider "q = sys_request s"
    | "q = (sys_request s)\<lparr>req_cancel_callback_registered := True\<rparr>"
    using act by (auto simp: set_cancel_locked_def Let_def split: if_splits option.splits prod.splits)
  then show ?thesis
  proof cases
    case 1
    with ok ops True show ?thesis
      by (auto intro!: user_data_kept [OF ok, where es = "[]"] simp: op_due_def is_removal_def alive_def)
  next
    case 2
    with ok ops True show ?thesis
      by (auto simp: user_data_ok_def releases_ok_def calls_ok_def running_ok_def all_due_def Let_def op_due_def
          is_removal_def alive_def split: option.splits requester_phase.splits)
  qed
next
  case False
  then obtain callback release user_data where
      e: "events = [Handler_stored callback release user_data]" and
      q: "q = (sys_request s)\<lparr>req_cancel_callback_registered := True, req_cancel_callback := Some callback,
        req_cancel_release := release, req_cancel_user_data := user_data\<rparr>" and
      new: "\<not> req_cancel_callback_registered (sys_request s)" "\<not> req_retired (sys_request s)"
    using act by (auto simp: set_cancel_locked_def Let_def split: if_splits option.splits prod.splits)
  let ?s = "with_request events q s\<lparr>sys_ops := ops1 @ ops2\<rparr>"
  note u = unregistered [OF ok new(1)]
  have "releases_ok ?s"
    using ok u(2,3) ops e q
    by (simp add: user_data_ok_def releases_ok_def all_due_def release_due_def op_due_def left_by_def split: option.splits)
  moreover have "calls_ok ?s"
    using u ok e q calls_stored_append
    by (auto simp: calls_ok_def user_data_ok_def Let_def is_handler_def [of "Handler_stored _ _ _"]
        is_cancel_call_def [of "Handler_stored _ _ _"] call_stored_def [of _ "Handler_stored _ _ _"]
        since_left_append left_by_def not_ex_filter split: requester_phase.splits)
  moreover have "running_ok ?s"
    using ok new ops e q by (auto simp: user_data_ok_def running_ok_def Let_def alive_def)
  ultimately show ?thesis by (simp add: user_data_ok_def)
qed


lemma op_due_simps [simp]:
  "op_due (Completing r) = []" "op_due Passing_through = []" "op_due Reading_cancelled = []"
  "op_due (Setting_cancel h n) = []" "op_due Releasing = []" "op_due Releasing_locked = []" "op_due Retiring = []"
  "op_due Retiring_locked = []" "op_due Retire_removing = []"
  "op_due (Retire_waiting rel ud) = release_due rel ud" "op_due (Retire_releasing rel ud) = release_due rel ud"
  "op_due (after_answer res) = []"
  by (simp_all add: op_due_def after_answer_def)

lemma is_removal_simps [simp]:
  "is_removal (th, Completing r) = False" "is_removal (th, Passing_through) = False"
  "is_removal (th, Reading_cancelled) = False" "is_removal (th, Setting_cancel h n) = False"
  "is_removal (th, Releasing) = False" "is_removal (th, Releasing_locked) = False"
  "is_removal (th, Retiring) = False" "is_removal (th, Retiring_locked) = False"
  "is_removal (th, Retire_waiting rel ud) = False" "is_removal (th, Retire_releasing rel ud)"
  "is_removal (th, Retire_removing)" "is_removal (th, after_answer res) = False"
  by (simp_all add: is_removal_def after_answer_def)

lemma release_event_lists [simp]:
  "stored (release_event exiting rel ud) = []" "left (release_event exiting rel ud) = release_due rel ud"
  "filter is_handler (release_event exiting rel ud) = []" "filter is_cancel_call (release_event exiting rel ud) = []"
  "\<not> list_ex is_handler (release_event exiting rel ud)" "\<not> list_ex is_cancel_call (release_event exiting rel ud)"
  "list_all (call_stored evs) (release_event exiting rel ud)"
  "\<not> list_ex is_cancel_call (since_left (release_event exiting rel ud))"
  by (auto simp: release_event_def release_due_def left_by_def is_handler_def is_cancel_call_def call_stored_def
      split: option.split)

lemma calls_ok_release:
  assumes "calls_ok s" "sys_log s' = sys_log s @ release_event exiting rel ud" "sys_request s' = sys_request s"
    "sys_requester s' = sys_requester s
     \<or> (\<forall>callback release user_data. sys_requester s' \<noteq> Requester_calling callback release user_data)"
  shows "calls_ok s'"
  using assms
  by (auto simp: calls_ok_def Let_def since_left_append intro: calls_stored_append
      split: option.splits requester_phase.splits)

lemma calls_ok_same:
  "calls_ok s \<Longrightarrow> sys_log s' = sys_log s \<Longrightarrow>
    req_cancel_callback_registered (sys_request s') = req_cancel_callback_registered (sys_request s) \<Longrightarrow>
    req_cancel_callback (sys_request s') = None \<Longrightarrow>
    sys_requester s' = sys_requester s
     \<or> (\<forall>callback release user_data. sys_requester s' \<noteq> Requester_calling callback release user_data) \<Longrightarrow>
    calls_ok s'"
  by (auto simp: calls_ok_def Let_def split: option.splits requester_phase.splits)

lemma retire_step_data:
  assumes ok: "user_data_ok s" and act: "retire_locked thread (sys_request s) = (op', q)"
    and ops: "sys_ops s = ops1 @ (thread, Retiring_locked) # ops2"
  shows "user_data_ok (s\<lparr>sys_request := q, sys_ops := ops1 @ op_list thread op' @ ops2\<rparr>)" (is "user_data_ok ?s")
proof -
  let ?q = "sys_request s"
  note fr = retire_frame [OF act] retire_locked_ok [OF act]
  have q: "req_cancel_callback q = None" "req_cancel_release q = None"
    "req_cancel_callback_registered q = req_cancel_callback_registered ?q"
    and op: "if req_cancel_callback_running ?q
        then op' = None \<or> op' = Some (Retire_waiting (req_cancel_release ?q) (req_cancel_user_data ?q))
        else op' = Some (Retire_releasing (req_cancel_release ?q) (req_cancel_user_data ?q))"
    using act by (auto simp: retire_locked_def Let_def split: if_splits)
  from ok have run: "running_ok s" and rel: "releases_ok s" and calls: "calls_ok s" by (simp_all add: user_data_ok_def)
  from run have none: "req_cancel_callback_running ?q \<Longrightarrow> req_cancel_release ?q = None"
    by (simp add: running_ok_def Let_def)
  have "releases_ok ?s"
    using rel ops op none q(2) by (auto simp: releases_ok_def all_due_def release_due_def split: if_splits)
  moreover have "calls_ok ?s" by (rule calls_ok_same [OF calls]) (use q in simp_all)
  moreover have "running_ok ?s"
    using run ops op q fr by (auto simp: running_ok_def Let_def alive_def split: if_splits)
  ultimately show ?thesis by (simp add: user_data_ok_def)
qed

lemma remove_request_mute:
  obtains es where "sys_log (remove_request s) = sys_log s @ es" "list_all mute es"
proof -
  obtain x table where "remove_handle Kind_ResourceRequest (sys_table s) (req_handle (sys_request s)) = (x, table)"
    by (cases "remove_handle Kind_ResourceRequest (sys_table s) (req_handle (sys_request s))")
  then show thesis
    by (cases x) (auto simp: remove_request_def intro: that [of "[]"] that [of "[Handle_removed]"])
qed

lemma op_step_data:
  assumes life: "life_ok s" and ok: "user_data_ok s" and ops: "sys_ops s = ops1 @ (thread, op) # ops2"
    and act: "op_action throws t thread op s = (op', s')"
  shows "user_data_ok (s'\<lparr>sys_ops := ops1 @ op_list thread op' @ ops2\<rparr>)"
proof -
  from life have sys: "sys_ok s" "request_answers_ok (sys_request s) (sys_log s)"
    by (simp_all add: life_ok_def request_ok_def)
  show ?thesis
  proof (cases op)
    case (Completing response)
    with act obtain r events q t' where a: "complete_locked throws response (sys_request s) t = (r, events, q, t')"
      "op' = Some (after_answer r)" "s' = with_request (events @ [Host_answer (outcome_status r)]) q s"
      by (auto simp: op_action_def Let_def split: prod.splits)
    show ?thesis
      using Completing ops a complete_locked_mute [OF a(1)] framed_kept [OF complete_locked_ok(3) [OF sys(1) a(1)]]
        framedD(12) [OF complete_locked_ok(3) [OF sys(1) a(1)]]
      by (intro user_data_kept [OF ok, where es = "events @ [Host_answer (outcome_status r)]"]) (auto simp: alive_def)
  next
    case Passing_through
    with act obtain r events q t' where a: "pass_through_locked (sys_request s) t = (r, events, q, t')"
      "op' = Some (after_answer r)" "s' = with_request (events @ [Host_answer (outcome_status r)]) q s"
      by (auto simp: op_action_def Let_def split: prod.splits)
    show ?thesis
      using Passing_through ops a pass_through_locked_mute [OF a(1)] framed_kept [OF pass_through_locked_ok(3) [OF sys(1) a(1)]]
        framedD(12) [OF pass_through_locked_ok(3) [OF sys(1) a(1)]]
      by (intro user_data_kept [OF ok, where es = "events @ [Host_answer (outcome_status r)]"]) (auto simp: alive_def)
  next
    case (Setting_cancel h queue)
    with act obtain r out events q t' where a: "set_cancel_locked throws h queue (sys_request s) t = (r, out, events, q, t')"
      "op' = None" "s' = with_request events q s"
      by (auto simp: op_action_def Let_def split: prod.splits)
    from set_cancel_step_data [OF ok a(1)] ops Setting_cancel a(2,3) show ?thesis by simp
  next
    case Releasing_locked
    with act obtain events q where a: "release_locked (sys_request s) = (events, q)" "op' = Some Retiring"
      "s' = with_request events q s"
      by (auto simp: op_action_def Let_def split: prod.splits)
    have "req_handle q = req_handle (sys_request s)" using release_locked_steady [OF sys(2) a(1)] by (simp add: steady_def)
    then show ?thesis
      using Releasing_locked ops a release_locked_mute [OF a(1)] release_locked_kept [OF sys(2) a(1)]
      by (intro user_data_kept [OF ok, where es = events]) (auto simp: alive_def)
  next
    case Retiring_locked
    with act obtain q where "retire_locked thread (sys_request s) = (op', q)" "s' = s\<lparr>sys_request := q\<rparr>"
      by (auto simp: op_action_def Let_def split: prod.splits)
    from retire_step_data [OF ok this(1)] ops Retiring_locked this(2) show ?thesis by simp
  next
    case (Retire_waiting rel ud)
    with act have s: "s' = s" and op: "op' = Some (if req_cancel_callback_running (sys_request s)
        then Retire_waiting rel ud else Retire_releasing rel ud)"
      by (auto simp: op_action_def Let_def)
    have "calls_ok (s\<lparr>sys_ops := ops1 @ op_list thread op' @ ops2\<rparr>)" "releases_ok (s\<lparr>sys_ops := ops1 @ op_list thread op' @ ops2\<rparr>)"
      "running_ok (s\<lparr>sys_ops := ops1 @ op_list thread op' @ ops2\<rparr>)"
      using ok op ops Retire_waiting
      by (auto simp: user_data_ok_def calls_ok_def releases_ok_def all_due_def running_ok_def Let_def alive_def
          split: option.splits requester_phase.splits)
    with s show ?thesis by (simp add: user_data_ok_def)
  next
    case (Retire_releasing rel ud)
    let ?s = "s\<lparr>sys_log := sys_log s @ release_event (sys_exiting s) rel ud,
      sys_ops := ops1 @ (thread, Retire_removing) # ops2\<rparr>"
    have "releases_ok ?s" using ok ops Retire_releasing by (simp add: user_data_ok_def releases_ok_def all_due_def)
    moreover have "calls_ok ?s" using ok by (auto simp: user_data_ok_def intro: calls_ok_release)
    moreover have "running_ok ?s" using ok ops Retire_releasing by (auto simp: user_data_ok_def running_ok_def Let_def alive_def)
    ultimately show ?thesis using act Retire_releasing by (auto simp: op_action_def Let_def user_data_ok_def)
  next
    case Retire_removing
    let ?s = "remove_request s\<lparr>sys_ops := ops1 @ ops2\<rparr>"
    obtain es where es: "sys_log (remove_request s) = sys_log s @ es" "list_all mute es"
      by (rule remove_request_mute)
    have "user_data_ok ?s"
      by (rule user_data_kept [OF ok, where es = es]) (use ops Retire_removing es in auto)
    with act Retire_removing show ?thesis by (auto simp: op_action_def Let_def)
  qed (use act ops in \<open>auto intro!: user_data_kept [OF ok, where es = "[]"] simp: op_action_def Let_def alive_def split: if_splits\<close>)
qed


lemma provider_step_data:
  assumes life: "life_ok s" and ok: "user_data_ok s"
  shows "user_data_ok (provider_action throws s)"
proof -
  have fails: "user_data_ok (with_request events q s\<lparr>sys_provider := p, sys_ops := sys_ops s @ ops\<rparr>)"
    if f: "fail_locked f ((sys_request s)\<lparr>req_deciding := b, req_claimed := c\<rparr>) = (events, q)"
      and ops: "ops_due ops = []" "\<not> list_ex is_removal ops" for f b c events q p ops
  proof -
    let ?q = "(sys_request s)\<lparr>req_deciding := b, req_claimed := c\<rparr>"
    have "request_answers_ok ?q (sys_log s)" using life by (simp add: life_ok_def request_ok_def)
    note fr = fail_locked_ok(3) [OF this f]
    have "kept (sys_request s) q" using framed_kept [OF fr] by (simp add: kept_def)
    then show ?thesis using ops fail_locked_mute [OF f] framedD(12) [OF fr]
      by (intro user_data_kept [OF ok, where es = events]) (auto simp: alive_def)
  qed
  have quiet: "user_data_ok (s\<lparr>sys_request := (sys_request s)\<lparr>req_deciding := b, req_claimed := c\<rparr>, sys_provider := p\<rparr>)" for b c p
    by (rule user_data_kept [OF ok, where es = "[]"]) (auto simp: kept_def alive_def)
  have phase: "user_data_ok (s\<lparr>sys_provider := p\<rparr>)" for p
    by (rule user_data_kept [OF ok, where es = "[]"]) (auto simp: kept_def alive_def)
  have dec: "(sys_request s)\<lparr>req_deciding := b\<rparr> = (sys_request s)\<lparr>req_deciding := b, req_claimed := req_claimed (sys_request s)\<rparr>" for b
    by (cases "sys_request s") simp
  show ?thesis
  proof (cases "sys_provider s")
    case Provider_entering
    with phase quiet [where b = True and c = "req_claimed (sys_request s)" and p = Provider_calling, folded dec] show ?thesis
      by (simp add: provider_action_def Let_def)
  next
    case Provider_calling
    obtain events q where f: "fail_locked Failure_Released
        ((sys_request s)\<lparr>req_deciding := False, req_claimed := True\<rparr>) = (events, q)" by fastforce
    from Provider_calling phase fails [OF f, where ops = "[]" and p = Provider_done] f quiet [where b = False and c = True and p = Provider_done] show ?thesis
      by (simp add: provider_action_def Let_def)
  next
    case (Provider_failing failure)
    obtain events q where f: "fail_locked failure ((sys_request s)\<lparr>req_deciding := False\<rparr>) = (events, q)" by fastforce
    from fails [where f = failure and b = False and c = "req_claimed (sys_request s)" and ops = "[(loop_thread, Retiring)]"
        and p = Provider_done, folded dec, OF f]
    show ?thesis using Provider_failing f by (simp add: provider_action_def Let_def)
  qed (use ok in \<open>simp add: provider_action_def\<close>)
qed

lemma requester_due_simps [simp]:
  "requester_due Requester_alive = []" "requester_due Requester_cancelling = []" "requester_due Requester_taking = []"
  "requester_due (Requester_calling cb rel ud) = release_due rel ud" "requester_due (Requester_called rel ud) = release_due rel ud"
  "requester_due Requester_ending = []" "requester_due Requester_removing = []" "requester_due Requester_gone = []"
  by (simp_all add: requester_due_def)

text \<open>The one handler that was stored has not been released while its callback is still to be called.\<close>

lemma call_before_release:
  assumes ok: "user_data_ok s" and phase: "sys_requester s = Requester_calling callback release user_data"
  shows "left (sys_log s) = []"
proof (rule ccontr)
  assume some: "left (sys_log s) \<noteq> []"
  from ok phase have rel: "mset (stored (sys_log s)) = mset (left (sys_log s)) + mset (all_due s)"
    and one: "length (filter is_handler (sys_log s)) \<le> 1"
    and e: "Handler_stored callback release user_data \<in> set (sys_log s)"
    by (auto simp: user_data_ok_def releases_ok_def calls_ok_def Let_def)
  from split_list [OF e] obtain es es' where log: "sys_log s = es @ Handler_stored callback release user_data # es'" by blast
  with one have "filter is_handler es = []" "filter is_handler es' = []" by (auto simp: is_handler_def)
  then have "stored es = []" "stored es' = []" using no_handler_stored by (auto simp: not_ex_filter)
  with log have "stored (sys_log s) = release_due release user_data" by (simp add: release_due_def)
  with rel phase have "mset (release_due release user_data)
      = mset (left (sys_log s)) + (mset (release_due release user_data)
        + mset (release_due (req_cancel_release (sys_request s)) (req_cancel_user_data (sys_request s)))
        + mset (ops_due (sys_ops s)))"
    by (simp add: all_due_def)
  from arg_cong [OF this, of size] have "left (sys_log s) = []" by simp
  with some show False by simp
qed


lemma calls_ok_call:
  assumes ok: "user_data_ok s" and phase: "sys_requester s = Requester_calling callback release user_data"
  shows "calls_ok (s\<lparr>sys_log := sys_log s @ (if exiting then [] else [Cancel_called callback user_data]),
    sys_requester := Requester_called release user_data\<rparr>)"
  using ok phase call_before_release [OF ok phase] calls_stored_append
  by (auto simp: user_data_ok_def calls_ok_def Let_def since_left_append is_cancel_call_def [of "Cancel_called _ _"]
      is_handler_def [of "Cancel_called _ _"] left_by_def call_stored_def [of _ "Cancel_called _ _"] not_ex_filter)

lemma requester_step_data:
  assumes life: "life_ok s" and ok: "user_data_ok s"
  shows "user_data_ok (requester_action s)"
proof -
  from life have parts: "requester_ok (sys_requester s) (sys_request s)" "removal_ok s" by (simp_all add: life_ok_def)
  from ok have data: "releases_ok s" "calls_ok s" "running_ok s" by (simp_all add: user_data_ok_def)
  show ?thesis
  proof (cases "sys_requester s")
    case Requester_alive
    have "calls_ok (with_request [Cancelled] ((sys_request s)\<lparr>req_cancelled := True, req_loader := None\<rparr>) s
        \<lparr>sys_requester := Requester_cancelling\<rparr>)"
      by (rule calls_ok_kept [where s = "s\<lparr>sys_requester := Requester_cancelling\<rparr>" and es = "[Cancelled]"])
        (use data(2) Requester_alive in \<open>auto simp: kept_def calls_ok_def Let_def split: option.splits\<close>)
    with Requester_alive data show ?thesis
      by (auto simp: requester_action_def user_data_ok_def releases_ok_def running_ok_def all_due_def Let_def alive_def left_by_def)
  next
    case Requester_cancelling
    with data show ?thesis
      by (auto simp: requester_action_def user_data_ok_def releases_ok_def running_ok_def all_due_def Let_def alive_def
          calls_ok_def split: option.splits)
  next
    case Requester_taking
    have run: "\<not> req_cancel_callback_running (sys_request s)" using parts(1) Requester_taking by simp
    consider "requester_action s = s\<lparr>sys_requester := Requester_gone\<rparr>"
      | callback where "req_cancel_callback (sys_request s) = Some callback"
        "requester_action s = s\<lparr>sys_request := (sys_request s)\<lparr>req_cancel_callback := None, req_cancel_release := None,
             req_cancel_user_data := Host_context 0, req_cancel_callback_running := True,
             req_cancel_callback_thread := loop_thread\<rparr>,
           sys_requester := Requester_calling callback (req_cancel_release (sys_request s)) (req_cancel_user_data (sys_request s))\<rparr>"
      using Requester_taking
      by (cases "req_cancel_callback (sys_request s)"; cases "req_completed (sys_request s)")
        (auto simp: requester_action_def Let_def)
    then show ?thesis
    proof cases
      case 1
      with Requester_taking data show ?thesis
        by (auto simp: user_data_ok_def releases_ok_def running_ok_def all_due_def Let_def calls_ok_def split: option.splits)
    next
      case 2
      have handler: "Handler_stored callback (req_cancel_release (sys_request s)) (req_cancel_user_data (sys_request s))
          \<in> set (sys_log s)" "\<not> list_ex is_cancel_call (sys_log s)"
        using data(2) 2(1) by (auto simp: calls_ok_def Let_def)
      then have "list_ex is_handler (sys_log s)" by (auto simp: list_ex_iff is_handler_def)
      then have reg: "req_cancel_callback_registered (sys_request s)" using data(2) by (simp add: calls_ok_def Let_def)
      have open_handle: "\<not> req_retired (sys_request s)" using data(3) 2(1) by (auto simp: running_ok_def Let_def)
      then have no_removal: "alive s" "\<not> list_ex is_removal (sys_ops s)"
        using parts(2) life
        by (auto simp: removal_ok_def Let_def life_ok_def list_ex_iff list_all_iff is_removal_def split: request_op.splits)
      have "calls_ok (requester_action s)" using data(2) handler reg unfolding 2(2) by (simp add: calls_ok_def Let_def)
      moreover have "releases_ok (requester_action s)"
        using data(1) Requester_taking unfolding 2(2) by (simp add: releases_ok_def all_due_def release_due_def)
      moreover have "running_ok (requester_action s)"
        using open_handle no_removal reg unfolding 2(2) by (simp add: running_ok_def Let_def alive_def)
      ultimately show ?thesis by (simp add: user_data_ok_def)
    qed
  next
    case (Requester_calling callback release user_data)
    from calls_ok_call [OF ok Requester_calling] Requester_calling data show ?thesis
      by (auto simp: requester_action_def user_data_ok_def releases_ok_def running_ok_def all_due_def Let_def left_by_def)
  next
    case (Requester_called release user_data)
    have "calls_ok (requester_action s)"
      by (rule calls_ok_release [OF data(2)]) (use Requester_called in \<open>auto simp: requester_action_def Let_def\<close>)
    with Requester_called data show ?thesis
      by (auto simp: requester_action_def user_data_ok_def releases_ok_def running_ok_def all_due_def Let_def)
  next
    case Requester_ending
    with data show ?thesis
      by (auto simp: requester_action_def user_data_ok_def releases_ok_def running_ok_def all_due_def Let_def alive_def
          calls_ok_def split: option.splits)
  next
    case Requester_removing
    obtain es where es: "sys_log (remove_request s) = sys_log s @ es" "list_all mute es" by (rule remove_request_mute)
    have stop: "\<not> req_cancel_callback_running (sys_request s)" using parts(1) Requester_removing by simp
    have removed: "user_data_ok (s\<lparr>sys_requester := Requester_gone\<rparr>)"
      using data Requester_removing
      by (auto simp: user_data_ok_def releases_ok_def running_ok_def all_due_def Let_def calls_ok_def split: option.splits)
    have "calls_ok (requester_action s)" "releases_ok (requester_action s)"
      using calls_ok_kept [where s = "s\<lparr>sys_requester := Requester_gone\<rparr>" and s' = "requester_action s" and es = es]
        removed es Requester_removing mute_lists [OF es(2)]
      by (simp_all add: requester_action_def Let_def user_data_ok_def releases_ok_def all_due_def)
    moreover have "running_ok (requester_action s)"
      using data(3) stop Requester_removing by (simp add: requester_action_def Let_def running_ok_def)
    ultimately show ?thesis by (simp add: user_data_ok_def)
  qed (use ok in \<open>simp add: requester_action_def Let_def\<close>)
qed

lemma request_step_data:
  "request_step s s' \<Longrightarrow> life_ok s \<Longrightarrow> user_data_ok s \<Longrightarrow> user_data_ok s'"
proof (induction rule: request_step.induct)
  case (step_call s t call events op thread)
  note c = call_begin_mute [OF step_call(2)]
  show ?case
    by (rule user_data_kept [OF step_call(4), where es = events]) (use c in \<open>auto simp: alive_def\<close>)
next
  case (step_op s ops1 thread op ops2 throws t op' s')
  then show ?case by (intro op_step_data)
next
  case (step_drain s l throws events q)
  have "sys_ok s" using step_drain by (simp add: life_ok_def)
  note d = drain_request_ok [OF this step_drain(1,2,4)]
  show ?case
    by (rule user_data_kept [OF step_drain(6), where es = events])
      (use d framed_kept [OF d(2)] framedD(12) [OF d(2)] drain_mute [OF step_drain(4)] in \<open>auto simp: alive_def\<close>)
next
  case (step_insert n s h table)
  then have t: "table_ok (sys_table s)" by (simp add: life_ok_def table_part_ok_def)
  show ?case
    by (rule user_data_kept [OF step_insert(3), where es = "[]"])
      (use insert_resolves [OF step_insert(1) t] in \<open>auto simp: alive_def split: if_splits\<close>)
next
  case (step_remove h s)
  show ?case
    by (rule user_data_kept [OF step_remove(3), where es = "[]"])
      (use step_remove(1) in \<open>auto simp: alive_def remove_resolves\<close>)
next
  case (step_exit s)
  show ?case by (rule user_data_kept [OF step_exit(2), where es = "[]"]) auto
qed (auto intro: provider_step_data requester_step_data)

lemma request_start_data:
  assumes "table_ok table" "request_custom_resource n prior_data prior_modified prior_etag exiting table = Some s"
  shows "user_data_ok s"
proof -
  from request_start_life [OF assms] have "removal_ok s" by (simp add: life_ok_def)
  with assms show ?thesis
    by (auto simp: request_custom_resource_def new_request_def user_data_ok_def releases_ok_def all_due_def release_due_def
        calls_ok_def running_ok_def removal_ok_def split: option.splits)
qed

lemma request_reachable_data: "request_reachable s \<Longrightarrow> user_data_ok s"
  by (induction rule: request_reachable.induct)
    (auto intro: request_start_data request_step_data request_reachable_life)


section \<open>What a cancel handler is promised\<close>

text \<open>
  C35: A request takes at most one cancel handler. Its callback runs at most once, only if it was stored, never
  once the request is answered and never after its user data is released; it is not running once
  the handle is gone. The user data is released, or skipped by a process that exits, at most once, and once
  nothing is under way and the handle is gone it has been exactly if a handler with a release was stored.
\<close>

theorem cancel_handler_released_once:
  assumes "request_reachable s"
  shows "length (filter is_handler (sys_log s)) \<le> 1 \<and> length (filter is_cancel_call (sys_log s)) \<le> 1
    \<and> length (left (sys_log s)) \<le> 1 \<and> set (left (sys_log s)) \<subseteq> set (stored (sys_log s))
    \<and> list_all (call_stored (sys_log s)) (sys_log s)
    \<and> (if list_ex is_cancel_call (sys_log s) then req_cancelled (sys_request s) \<and> answers (sys_log s) = [] else True)
    \<and> \<not> list_ex is_cancel_call (since_left (sys_log s))
    \<and> (if handle_live s then True else \<not> req_cancel_callback_running (sys_request s)
         \<and> (if quiescent s then left (sys_log s) = stored (sys_log s) else True))"
proof -
  have life: "life_ok s" and data: "user_data_ok s"
    by (rule request_reachable_life [OF assms], rule request_reachable_data [OF assms])
  then have calls: "calls_ok s" and rel: "mset (stored (sys_log s)) = mset (left (sys_log s)) + mset (all_due s)"
    and run: "running_ok s" and answers: "request_answers_ok (sys_request s) (sys_log s)" and removal: "removal_ok s"
    by (simp_all add: user_data_ok_def releases_ok_def life_ok_def request_ok_def)
  have "length (stored evs) \<le> length (filter is_handler evs)" for evs
    by (induction evs) (use event_stores in \<open>auto simp: is_handler_def split: option.split\<close>)
  with calls have one: "length (stored (sys_log s)) \<le> 1"
    by (auto simp: calls_ok_def Let_def intro: le_trans)
  have subset: "set (left (sys_log s)) \<subseteq> set (stored (sys_log s))"
    using rel by (metis set_mset_mset set_mset_union Un_upper1)
  have size: "length (stored (sys_log s)) = length (left (sys_log s)) + length (all_due s)"
    using arg_cong [OF rel, of size] by simp
  have "left (sys_log s) = stored (sys_log s)" if "\<not> alive s" "quiescent s"
  proof -
    from that(1) removal have "req_retired (sys_request s)" by (auto simp: removal_ok_def Let_def)
    with run that(2) have "all_due s = []"
      by (auto simp: running_ok_def Let_def all_due_def release_due_def quiescent_def)
    with rel one show ?thesis
      by (cases "left (sys_log s)"; cases "stored (sys_log s)") auto
  qed
  with calls run answers one size subset show ?thesis
    by (auto simp: calls_ok_def running_ok_def answers_ok_def handle_live_alive Let_def)
qed


section \<open>A cancelled request\<close>

text \<open>A provider sets a cancel handler while it is called, and the requester then destroys the request.\<close>

definition sample_handler :: mln_resource_request_cancel_handler where
  "sample_handler = \<lparr>resource_request_cancel_handler_size = 40, resource_request_cancel_handler_callback = 16,
     resource_request_cancel_handler_user_data = 32, resource_request_cancel_handler_release_user_data = 48,
     resource_request_cancel_handler_queue = 0\<rparr>"

definition called_request :: request_system where
  "called_request = provider_action False first_request"

definition setting_request :: request_system where
  "setting_request = called_request\<lparr>sys_ops := [(1, Setting_cancel sample_handler None)]\<rparr>"

definition handled_request :: request_system where
  "handled_request = snd (op_action None fresh_thread 1 (Setting_cancel sample_handler None) setting_request)\<lparr>sys_ops := []\<rparr>"

definition returned_request :: request_system where
  "returned_request = provider_action False handled_request"

definition cancelled_request :: request_system where
  "cancelled_request = (requester_action ^^ 5) returned_request"

lemma lease_alive: "alive s \<Longrightarrow> lease_request (sys_table s) (req_handle (sys_request s)) t = (None, t)"
  by (auto simp: lease_request_def lease_eq resolve_def alive_def)

lemma setting_request_reachable: "request_reachable setting_request"
proof -
  have reach: "request_reachable called_request"
    unfolding called_request_def by (rule provider_runs [OF first_request_reachable])
  have phase: "sys_provider called_request \<noteq> Provider_entering"
    by (simp add: called_request_def first_request_values)
  have "alive called_request"
    using request_reachable_life [OF reach]
    by (auto simp: life_ok_def removal_ok_def Let_def called_request_def first_request_values)
  note live = lease_alive [OF this]
  have begins: "call_begin fresh_thread (Call_set_cancel empty_table (Some sample_handler) True) called_request
      = ([], Some (Setting_cancel sample_handler None))"
    by (simp add: call_begin_def set_cancel_begin_def sample_handler_def sizeof_mln_resource_request_cancel_handler_def
        resolve_registration_queue_def live fresh_thread_def)
  have "setting_request = called_request\<lparr>sys_log := sys_log called_request @ [],
      sys_ops := sys_ops called_request @ op_list 1 (Some (Setting_cancel sample_handler None))\<rparr>"
    by (simp add: setting_request_def called_request_def first_request_values)
  then show ?thesis using request_next [OF reach step_call [OF phase begins, of 1]] by simp
qed

lemma returned_request_reachable: "request_reachable returned_request"
proof -
  have "request_step setting_request handled_request"
    using step_op [of setting_request "[]" 1 "Setting_cancel sample_handler None" "[]" None fresh_thread None
        "snd (op_action None fresh_thread 1 (Setting_cancel sample_handler None) setting_request)"]
    by (simp add: handled_request_def setting_request_def op_action_def Let_def split: prod.split)
  then show ?thesis
    unfolding returned_request_def by (intro provider_runs request_next [OF setting_request_reachable])
qed

lemma requester_keeps_provider [simp]: "sys_provider (requester_action s) = sys_provider s"
  by (cases "sys_requester s") (auto simp: requester_action_def Let_def split: option.split)

lemma requester_runs_on:
  "request_reachable s \<Longrightarrow> sys_provider s = Provider_done \<Longrightarrow>
    request_reachable ((requester_action ^^ n) s) \<and> sys_provider ((requester_action ^^ n) s) = Provider_done"
  by (induction n) (auto intro: requester_runs)

lemma sample_release: "release_of 48 = Some (Host_release 48)"
  by (simp add: release_of_def)

lemma five_times: "(f ^^ 5) s = f (f (f (f (f s))))"
  by (simp add: numeral_eq_Suc)

lemmas sample_request_values = cancelled_request_def returned_request_def handled_request_def setting_request_def
  called_request_def first_request_values sample_handler_def

theorem cancel_handler_released_once_witness:
  "left (sys_log cancelled_request) = [(Host_release 48, Host_context 32)]
   \<and> length (left (sys_log cancelled_request)) \<le> 1
   \<and> \<not> list_ex is_cancel_call (since_left (sys_log cancelled_request))
   \<and> list_ex is_cancel_call (sys_log cancelled_request)"
proof -
  have "sys_provider returned_request = Provider_done"
    by (simp add: sample_request_values op_action_def set_cancel_locked_def store_handler_def)
  then have "request_reachable cancelled_request"
    unfolding cancelled_request_def using requester_runs_on [OF returned_request_reachable] by blast
  from cancel_handler_released_once [OF this]
  have "length (left (sys_log cancelled_request)) \<le> 1"
    "\<not> list_ex is_cancel_call (since_left (sys_log cancelled_request))" by simp_all
  moreover have "sys_log cancelled_request = [Handler_stored (Host_cancel 16) (Some (Host_release 48)) (Host_context 32),
      Cancelled, Cancel_called (Host_cancel 16) (Host_context 32), Release_called (Host_release 48) (Host_context 32)]"
    by (simp add: sample_request_values op_action_def set_cancel_locked_def store_handler_def sample_release
        requester_action_def five_times release_event_def)
  ultimately show ?thesis by (simp add: left_by_def is_cancel_call_def)
qed

end
