(* ===== verification/Render_Sessions.thy ===== *)
theory Render_Sessions
  imports Api_Render Api_Runtime
begin

text \<open>
  A render session (\<open>mln_render_session_object\<close> of \<open>src/render/render_session_common.hpp\<close>) and the functions that
  run under its lock (\<open>..._locked\<close> of \<open>src/render/render_session_common.cpp\<close>): the queues of frame demands and
  of their results, the ring of texture slots, the driver's work, and the wakes a locked section owes. The
  sections that the calls of a host and the driver are made of are in \<open>Render_Steps\<close>.

  The session's map is what the session reads of it: its newest update, its pending still image and its counts of
  commands. The flag by which a session asks the map for a notice of its next command is left out: a
  notice may come at any time. An allocation takes its outcome from \<open>memory\<close>, which any step may set; when the
  list is used up, allocations succeed.
\<close>

unbundle bit_operations_syntax

section \<open>The session\<close>

datatype render_session_kind = Surface | Texture

datatype texture_session_mode = Offscreen | Borrowed | Exported

datatype retarget_target_kind = Target_surface | Target_borrowed_texture

definition MLN_FRAME_DEMAND_TOKEN_STILL_IMAGE :: u64 where
  "MLN_FRAME_DEMAND_TOKEN_STILL_IMAGE = -1"

text \<open>An accepted demand, how many map commands were sent before it, and the address of its object.\<close>

record queued_demand = mln_frame_demand +
  demand_map_commands :: u64
  demand_id :: nat

text \<open>A slot of the ring. The metadata is the backend's own record of a frame.\<close>

record texture_slot =
  slot_result :: mln_render_frame_result
  slot_producer_sync :: mln_gpu_sync
  slot_metadata :: "nat option"
  slot_available :: bool
  slot_acquired :: bool
  slot_rendering :: bool
  slot_quarantined :: bool

text \<open>
  The work queued for the driver. A demand's work names the demand it was queued for, a release the frame and
  the synchronization the host handed over, the others the operation they complete.
\<close>

datatype driver_work =
    Attach_work nat
  | Demand_work nat
  | Scheduler_work "nat option"
  | Barrier_work nat
  | Release_work nat mln_gpu_sync
  | Retarget_work nat retarget_target_kind mln_logical_size "u32 \<times> u32" "u64 list"
  | Release_target_work nat
  | Resize_work nat mln_logical_size
  | Detach_work nat
  | Operation_work nat
  | Pending_work nat

datatype session_wake = Frame_wake | Driver_wake | Redraw_wake | Pacer_request

text \<open>
  The queues of demands and of frame results; the last three fields are history: the tokens of the demands
  the session accepted, those of the demands it dropped at its disposal, the results a host has taken.
\<close>

record frame_queues =
  demands :: "queued_demand list"
  update_waiting_demands :: "queued_demand list"
  frame_results :: "mln_render_frame_result list"
  results_capacity :: nat
  unfinished_demands :: nat
  still_image_demands :: nat
  still_image_demand_generation :: u64
  still_image_rearm :: bool
  pending_frame_barriers :: nat
  next_demand :: nat
  accepted_tokens :: "u64 list"
  dropped_tokens :: "u64 list"
  taken_results :: "mln_render_frame_result list"

text \<open>The ring, and the work of the driver.\<close>

record session_ring = frame_queues +
  texture_mode :: texture_session_mode
  slots :: "texture_slot list"
  pending_retargets :: nat
  gpu_frames_in_flight :: nat
  gpu_wait_pending :: bool
  acquired_frame_count :: nat
  driver_work :: "driver_work list"

record session_map =
  map_latest_update :: u64
  map_still_image :: u64
  map_commands_sent :: u64
  map_commands_applied :: u64

record render_session = session_ring +
  session_kind :: render_session_kind
  session_driver :: mln_render_driver_kind
  acquires_frames :: bool
  consumer_sync_kinds :: mln_gpu_sync_kind_flags
  producer_sync_kind :: u32
  session_state :: mln_render_session_state
  failure_status :: mln_status
  extent :: mln_logical_size
  physical_extent :: "u32 \<times> u32"
  scale_factor :: double
  generation :: u64
  map_update_generation :: u64
  rendered_update_generation :: u64
  rendered_target_generation :: u64
  frame_generation :: u64
  pending_changes :: bool
  target_released :: bool
  pending_target_releases :: nat
  target_identity :: "u64 list"
  attached :: bool
  the_map :: "session_map option"
  map_created :: "bool option"
  pending_result_ready :: bool
  active_views :: nat
  views_invalidated :: bool
  abandonment_complete :: bool
  disposal_requested :: bool
  disposal_detach :: bool
  destruction_started :: bool
  driver_call_in_flight :: bool
  stop_worker :: bool
  scheduler_service_queued :: bool
  holds_wakes :: bool
  has_pacer :: bool
  has_redraw_wake :: bool
  frame_wake_pending :: bool
  driver_wake_pending :: bool
  redraw_wake_pending :: bool
  owed_wakes :: "session_wake list"
  fired_wakes :: "session_wake list"
  completed :: "(nat \<times> mln_status) list"
  memory :: "bool list"

text \<open>The outcome of the next allocation.\<close>

definition allocate :: "render_session \<Rightarrow> bool \<times> render_session" where
  "allocate s = (case memory s of [] \<Rightarrow> (True, s) | ok # later \<Rightarrow> (ok, s\<lparr>memory := later\<rparr>))"

text \<open>A map the session has let go of is not read: the functions below look only at a map that is there.\<close>

definition no_map :: session_map where
  "no_map = \<lparr>map_latest_update = 0, map_still_image = 0, map_commands_sent = 0, map_commands_applied = 0\<rparr>"

definition map_of_session :: "render_session \<Rightarrow> session_map" where
  "map_of_session s = (case the_map s of None \<Rightarrow> no_map | Some m \<Rightarrow> m)"

section \<open>Wakes\<close>

text \<open>
  \<open>DeferredWakes\<close>: a section records the wakes it owes, each at most once, and they run when it has let go of
  the lock: the frame wake, the driver's, the redraw wake.
\<close>

definition owe :: "session_wake \<Rightarrow> render_session \<Rightarrow> render_session" where
  "owe w s = s\<lparr>owed_wakes := List.insert w (owed_wakes s)\<rparr>"

definition leave_section :: "render_session \<Rightarrow> render_session" where
  "leave_section s = s\<lparr>fired_wakes := fired_wakes s
       @ filter (\<lambda>w. w \<in> set (owed_wakes s)) [Frame_wake, Driver_wake, Redraw_wake],
     owed_wakes := []\<rparr>"

section \<open>The ring\<close>

definition sizeof_mln_gpu_sync :: u32 where
  "sizeof_mln_gpu_sync = 24"

definition sizeof_mln_render_frame_result :: u32 where
  "sizeof_mln_render_frame_result = 248"

definition zero_map_view :: mln_map_view where
  "zero_map_view = \<lparr>map_view_size = 0,
     map_view_camera = \<lparr>camera_center = \<lparr>lat_lng_latitude = Finite 0, lat_lng_longitude = Finite 0\<rparr>,
       camera_center_altitude = Finite 0,
       camera_padding = \<lparr>edge_insets_top = Finite 0, edge_insets_left = Finite 0,
         edge_insets_bottom = Finite 0, edge_insets_right = Finite 0\<rparr>,
       camera_zoom = Finite 0, camera_bearing = Finite 0, camera_pitch = Finite 0, camera_roll = Finite 0,
       camera_field_of_view = Finite 0\<rparr>,
     map_view_extent = \<lparr>logical_extent_width = 0, logical_extent_height = 0,
       logical_extent_scale_factor = Finite 0\<rparr>,
     map_view_projection_mode = \<lparr>projection_mode_axonometric = False, projection_mode_x_skew = Finite 0,
       projection_mode_y_skew = Finite 0\<rparr>,
     map_view_viewport = \<lparr>map_viewport_north_orientation = 0, map_viewport_constrain_mode = 0,
       map_viewport_viewport_mode = 0,
       map_viewport_frustum_offset = \<lparr>edge_insets_top = Finite 0, edge_insets_left = Finite 0,
         edge_insets_bottom = Finite 0, edge_insets_right = Finite 0\<rparr>\<rparr>\<rparr>"

text \<open>\<open>RenderTextureSlot{}\<close>.\<close>

definition fresh_slot :: texture_slot where
  "fresh_slot = \<lparr>
     slot_result = \<lparr>render_frame_result_size = 0, render_frame_result_disposition = 0,
       render_frame_result_token = 0, render_frame_result_map_update_generation = 0,
       render_frame_result_generation = 0, render_frame_result_frame_generation = 0,
       render_frame_result_needs_repaint = False, render_frame_result_view = zero_map_view,
       render_frame_result_mode = 0\<rparr>,
     slot_producer_sync = \<lparr>gpu_sync_size = sizeof_mln_gpu_sync,
       gpu_sync_kind = mln_gpu_sync_kind_code MLN_GPU_SYNC_CPU_COMPLETE, gpu_sync_handle = 0, gpu_sync_value = 0\<rparr>,
     slot_metadata = None, slot_available = False, slot_acquired = False, slot_rendering = False,
     slot_quarantined = False\<rparr>"

definition every_slot_quarantined :: "render_session \<Rightarrow> bool" where
  "every_slot_quarantined s \<longleftrightarrow> slots s \<noteq> [] \<and> list_all slot_quarantined (slots s)"

definition invalidate_slot :: "texture_slot \<Rightarrow> texture_slot" where
  "invalidate_slot slot = (if slot_acquired slot then slot else slot\<lparr>slot_available := False, slot_metadata := None\<rparr>)"

definition invalidate_unacquired_texture_frames :: "render_session \<Rightarrow> render_session" where
  "invalidate_unacquired_texture_frames s =
     (if session_kind s \<noteq> Texture then s else s\<lparr>slots := map invalidate_slot (slots s)\<rparr>)"

text \<open>Which synchronization kinds name an object that the receiver must wait on.\<close>

definition gpu_sync_kind_flag :: "u32 \<Rightarrow> mln_gpu_sync_kind_flags" where
  "gpu_sync_kind_flag kind = (if kind < 32 then push_bit (unat kind) 1 else 0)"

definition known_gpu_sync_kinds :: mln_gpu_sync_kind_flags where
  "known_gpu_sync_kinds = fold (OR) (map mln_gpu_sync_kind_flag_code mln_gpu_sync_kind_flag_values) 0"

definition gpu_sync_names_object :: "u32 \<Rightarrow> bool" where
  "gpu_sync_names_object kind \<longleftrightarrow> kind \<noteq> mln_gpu_sync_kind_code MLN_GPU_SYNC_CPU_COMPLETE
     \<and> kind \<noteq> mln_gpu_sync_kind_code MLN_GPU_SYNC_QUEUE_ORDER"

section \<open>The driver's work\<close>

primrec renders_frame :: "driver_work \<Rightarrow> bool" where
  "renders_frame (Attach_work _) = False"
| "renders_frame (Demand_work _) = True"
| "renders_frame (Scheduler_work expected) = (expected \<noteq> None)"
| "renders_frame (Barrier_work _) = False"
| "renders_frame (Release_work _ _) = False"
| "renders_frame (Retarget_work _ _ _ _ _) = False"
| "renders_frame (Release_target_work _) = False"
| "renders_frame (Resize_work _ _) = False"
| "renders_frame (Detach_work _) = False"
| "renders_frame (Operation_work _) = False"
| "renders_frame (Pending_work _) = False"

definition frame_waits_for_gpu :: "render_session \<Rightarrow> bool" where
  "frame_waits_for_gpu s \<longleftrightarrow> driver_work s \<noteq> [] \<and> renders_frame (hd (driver_work s)) \<and> slots s \<noteq> []
     \<and> length (slots s) \<le> gpu_frames_in_flight s"

definition map_commands_ready :: "nat option \<Rightarrow> render_session \<Rightarrow> bool" where
  "map_commands_ready expected s \<longleftrightarrow>
     (if expected = None
        \<or> (session_state s \<noteq> MLN_RENDER_SESSION_STATE_ATTACHING \<and> session_state s \<noteq> MLN_RENDER_SESSION_STATE_ATTACHED)
        \<or> the expected \<notin> set (map demand_id (demands s))
      then True
      else demand_map_commands (hd (demands s)) \<le> map_commands_applied (map_of_session s))"

primrec work_ready :: "driver_work \<Rightarrow> render_session \<Rightarrow> bool" where
  "work_ready (Attach_work _) s = (map_created s \<noteq> None)"
| "work_ready (Demand_work expected) s = map_commands_ready (Some expected) s"
| "work_ready (Scheduler_work expected) s = map_commands_ready expected s"
| "work_ready (Barrier_work _) s = True"
| "work_ready (Release_work _ _) s = True"
| "work_ready (Retarget_work _ _ _ _ _) s = True"
| "work_ready (Release_target_work _) s = True"
| "work_ready (Resize_work _ _) s = True"
| "work_ready (Detach_work _) s = True"
| "work_ready (Operation_work _) s = True"
| "work_ready (Pending_work _) s = pending_result_ready s"

definition driver_work_runnable :: "render_session \<Rightarrow> bool" where
  "driver_work_runnable s \<longleftrightarrow> driver_work s \<noteq> [] \<and> \<not> frame_waits_for_gpu s \<and> work_ready (hd (driver_work s)) s"

text \<open>A core worker is notified through its condition; a driver of the host's has its wake.\<close>

definition publish_driver_work :: "render_session \<Rightarrow> render_session" where
  "publish_driver_work s =
     (if \<not> driver_work_runnable s \<and> (\<not> frame_waits_for_gpu s \<or> gpu_wait_pending s) then s
      else if session_driver s = MLN_RENDER_DRIVER_CORE_WORKER then s
      else if holds_wakes s \<and> \<not> driver_wake_pending s then owe Driver_wake (s\<lparr>driver_wake_pending := True\<rparr>)
      else s)"

definition push_driver_work :: "driver_work \<Rightarrow> render_session \<Rightarrow> render_session" where
  "push_driver_work w s = publish_driver_work (s\<lparr>driver_work := driver_work s @ [w]\<rparr>)"

text \<open>The first result is whether the work was queued.\<close>

definition queue_frame_demand_work :: "queued_demand \<Rightarrow> render_session \<Rightarrow> bool \<times> render_session" where
  "queue_frame_demand_work demand s =
     (case allocate s of (ok, s1) \<Rightarrow>
        if ok then (True, push_driver_work (Demand_work (demand_id demand)) s1) else (False, s1))"

definition resume_parked_demand :: "render_session \<Rightarrow> render_session" where
  "resume_parked_demand s =
     (if demands s = [] \<or> (session_state s \<noteq> MLN_RENDER_SESSION_STATE_ATTACHED
        \<and> session_state s \<noteq> MLN_RENDER_SESSION_STATE_DETACHING) then s
      else snd (queue_frame_demand_work (hd (demands s)) s))"

section \<open>Demands and their results\<close>

definition requeue_update_waiting_demands :: "render_session \<Rightarrow> render_session" where
  "requeue_update_waiting_demands s =
     s\<lparr>demands := fold (#) (rev (update_waiting_demands s)) (demands s), update_waiting_demands := []\<rparr>"

text \<open>Room for the results of every unfinished demand and one more; \<open>False\<close> where the allocation fails.\<close>

definition reserve_frame_result :: "render_session \<Rightarrow> bool \<times> render_session" where
  "reserve_frame_result s =
     (let required = length (frame_results s) + unfinished_demands s + 1 in
      if results_capacity s < required then
        (case allocate s of (ok, s1) \<Rightarrow>
           if ok then (True, s1\<lparr>results_capacity := max required (results_capacity s * 2)\<rparr>) else (False, s1))
      else (True, s))"

definition new_demand :: "u32 \<Rightarrow> mln_frame_demand_flags \<Rightarrow> u64 \<Rightarrow> u64 \<Rightarrow> render_session \<Rightarrow> queued_demand" where
  "new_demand sz flags token commands s =
     \<lparr>frame_demand_size = sz, frame_demand_flags = flags, frame_demand_token = token,
      demand_map_commands = commands, demand_id = next_demand s\<rparr>"

definition sizeof_mln_frame_demand :: u32 where
  "sizeof_mln_frame_demand = 16"

definition still_image_demand :: "render_session \<Rightarrow> queued_demand" where
  "still_image_demand s = new_demand sizeof_mln_frame_demand
     (mln_frame_demand_flag_code MLN_FRAME_DEMAND_WAIT_FOR_UPDATE) MLN_FRAME_DEMAND_TOKEN_STILL_IMAGE 0 s"

definition arm_still_image_demand :: "render_session \<Rightarrow> render_session" where
  "arm_still_image_demand s =
     (if session_state s \<noteq> MLN_RENDER_SESSION_STATE_ATTACHED \<or> pending_frame_barriers s \<noteq> 0 \<or> every_slot_quarantined s
      then s
      else let image = map_still_image (map_of_session s) in
      if image = 0 \<or> image \<le> rendered_update_generation s then s
      else if still_image_demands s \<noteq> 0 \<and> still_image_demand_generation s = image then s\<lparr>still_image_rearm := True\<rparr>
      else (case reserve_frame_result s of (reserved, s1) \<Rightarrow>
        if \<not> reserved then s1
        else (case allocate s1 of (made, s2) \<Rightarrow>
          if \<not> made then s2
          else let demand = still_image_demand s2 in
            (case queue_frame_demand_work demand (s2\<lparr>demands := demands s2 @ [demand], next_demand := next_demand s2 + 1\<rparr>) of
               (queued, s3) \<Rightarrow>
                 if \<not> queued then s3\<lparr>demands := butlast (demands s3)\<rparr>
                 else s3\<lparr>unfinished_demands := unfinished_demands s3 + 1,
                   still_image_demands := still_image_demands s3 + 1, still_image_demand_generation := image,
                   accepted_tokens := accepted_tokens s3 @ [frame_demand_token demand]\<rparr>))))"

definition request_redraw :: "render_session \<Rightarrow> render_session" where
  "request_redraw s =
     (if \<not> holds_wakes s \<or> redraw_wake_pending s \<or> session_state s \<noteq> MLN_RENDER_SESSION_STATE_ATTACHED
        \<or> target_released s \<or> the_map s = None then s
      else if pending_changes s \<or> rendered_target_generation s \<noteq> generation s
        \<or> map_latest_update (map_of_session s) \<noteq> rendered_update_generation s then
        (let s1 = s\<lparr>redraw_wake_pending := True\<rparr> in
         if has_pacer s then s1\<lparr>fired_wakes := fired_wakes s @ [Pacer_request]\<rparr> else owe Redraw_wake s1)
      else s)"

text \<open>The waiting demands that were put back are the first \<open>n\<close> of the queue; the loop stops at the first failure.\<close>

fun queue_work_of :: "queued_demand list \<Rightarrow> render_session \<Rightarrow> render_session" where
  "queue_work_of [] s = s"
| "queue_work_of (demand # later) s =
     (case queue_frame_demand_work demand s of (ok, s1) \<Rightarrow> if ok then queue_work_of later s1 else s1)"

definition resume_update_waiting_demands :: "render_session \<Rightarrow> render_session" where
  "resume_update_waiting_demands s =
     (let count = length (update_waiting_demands s); s1 = requeue_update_waiting_demands s in
      request_redraw (arm_still_image_demand (queue_work_of (take count (demands s1)) s1)))"

definition publish_frame_result :: "mln_render_frame_result \<Rightarrow> render_session \<Rightarrow> render_session" where
  "publish_frame_result result s =
     (let result1 = result\<lparr>render_frame_result_size := sizeof_mln_render_frame_result\<rparr>;
          result2 = (if render_frame_result_disposition result \<noteq> mln_render_result_code MLN_RENDER_RESULT_RENDERED
            then result1\<lparr>render_frame_result_generation := generation s\<rparr> else result1);
          s1 = (if render_frame_result_token result = MLN_FRAME_DEMAND_TOKEN_STILL_IMAGE \<and> still_image_demands s \<noteq> 0
            then s\<lparr>still_image_demands := still_image_demands s - 1\<rparr> else s);
          s2 = s1\<lparr>unfinished_demands := unfinished_demands s1 - 1, frame_results := frame_results s1 @ [result2]\<rparr>;
          s3 = (if holds_wakes s2 \<and> \<not> frame_wake_pending s2
            then owe Frame_wake (s2\<lparr>frame_wake_pending := True\<rparr>) else s2)
      in if render_frame_result_disposition result = mln_render_result_code MLN_RENDER_RESULT_TARGET_NOT_READY
         then request_redraw s3 else s3)"

definition ended_result :: "mln_render_result \<Rightarrow> queued_demand \<Rightarrow> render_session \<Rightarrow> mln_render_frame_result" where
  "ended_result disposition pending s =
     \<lparr>render_frame_result_size = sizeof_mln_render_frame_result,
      render_frame_result_disposition = mln_render_result_code disposition,
      render_frame_result_token = frame_demand_token pending,
      render_frame_result_map_update_generation = map_update_generation s,
      render_frame_result_generation = generation s,
      render_frame_result_frame_generation = 0, render_frame_result_needs_repaint = False,
      render_frame_result_view = zero_map_view,
      render_frame_result_mode = mln_render_mode_code MLN_RENDER_MODE_PARTIAL\<rparr>"

definition finish_demand :: "mln_render_result \<Rightarrow> queued_demand \<Rightarrow> render_session \<Rightarrow> render_session" where
  "finish_demand disposition pending s = publish_frame_result (ended_result disposition pending s) s"

definition finish_waiting_demands :: "mln_render_result \<Rightarrow> render_session \<Rightarrow> render_session" where
  "finish_waiting_demands disposition s =
     (fold (finish_demand disposition) (update_waiting_demands s) s)\<lparr>update_waiting_demands := []\<rparr>"

definition finish_demands :: "mln_render_result \<Rightarrow> render_session \<Rightarrow> render_session" where
  "finish_demands disposition s =
     (let s1 = finish_waiting_demands disposition s in
      (fold (finish_demand disposition) (demands s1) s1)\<lparr>demands := []\<rparr>)"

definition quarantine_slot :: "nat \<Rightarrow> render_session \<Rightarrow> render_session" where
  "quarantine_slot k s =
     (let s1 = s\<lparr>slots := (slots s)[k := (slots s ! k)\<lparr>slot_quarantined := True\<rparr>]\<rparr> in
      if session_state s1 \<noteq> MLN_RENDER_SESSION_STATE_ATTACHED \<or> \<not> every_slot_quarantined s1 then s1
      else resume_parked_demand (finish_waiting_demands MLN_RENDER_RESULT_TARGET_NOT_READY s1))"

end
