(* ===== verification/Render_Steps.thy ===== *)
theory Render_Steps
  imports Render_Sessions Durations "HOL-Library.Multiset"
begin

text \<open>
  What happens to a render session (\<open>src/render/render_session_common.cpp\<close>): the driver's work item by item, each
  the sequence of its locked sections and of the calls between them; the calls of a host on any thread; the notices of
  the map, the scheduler and the GPU; disposal, abandonment and destruction.

  A thread is a stack of activations: what it does next, and under it what it goes on with. The driver is one
  thread, the core worker or the host's service; every other call is a thread of its own from its first section to
  its last. What a call outside the session answers is an argument of the step.
\<close>

unbundle bit_operations_syntax

section \<open>Frames and threads\<close>

datatype handle_stage = Handle_private | Handle_live | Handle_gone

text \<open>A frame that a host acquires; its index in \<open>frames\<close> is the object.\<close>

record acquired_frame =
  frame_slot :: nat
  frame_result :: mln_render_frame_result
  frame_producer_sync :: mln_gpu_sync
  frame_metadata :: "nat option"
  frame_valid :: bool
  frame_views :: nat
  frame_handle :: handle_stage

text \<open>The frame attempt of \<open>run_frame_demand\<close>: its demand, its result so far, its slot, the update it looked at.\<close>

record attempt =
  attempt_demand :: queued_demand
  attempt_result :: mln_render_frame_result
  attempt_slot :: "nat option"
  attempt_update :: u64

datatype attempt_point =
    At_delivering bool
  | At_checking
  | At_waiting
  | At_choosing
  | At_rendering
  | At_rendered u32 bool mln_map_view
  | At_recording
  | At_storing "nat option" mln_gpu_sync
  | At_committing
  | At_publishing
  | At_leaving

datatype activation =
    Service_loop
  | Driver_call_end
  | Running driver_work
  | Throwing driver_work mln_status
  | Cancelling driver_work mln_status
  | Failing
  | Completing nat mln_status
  | Operation_ended nat mln_status
  | Attach_ready nat
  | Scheduler_delivering "nat option"
  | Attempt_begun queued_demand bool
  | Attempt attempt_point attempt
  | Attempt_returning
  | Releasing nat mln_gpu_sync
  | Release_waited nat mln_gpu_sync mln_status
  | Retarget_swap nat retarget_target_kind mln_logical_size "u32 \<times> u32" "u64 list"
  | Retarget_reset nat retarget_target_kind mln_logical_size "u32 \<times> u32" "u64 list"
  | Settle_retarget nat retarget_target_kind driver_work "(mln_status, mln_status) sum"
  | Release_target_record nat
  | Settle_release nat driver_work "(mln_status, mln_status) sum"
  | Resize_record nat mln_logical_size "u32 \<times> u32"
  | Detach_run "nat option"
  | Detach_finish "nat option"
  | Disposal_begin bool
  | Disposal_end bool bool
  | Inserting_frame nat
  | Removing_frame nat mln_gpu_sync bool
  | Discard_removing nat
  | Discard_finishing nat
  | Draining
  | Abandon_begin bool
  | Abandon_finish bool
  | Lane_submit
  | Destroying

record session_system =
  session :: render_session
  frames :: "acquired_frame list"
  driver :: "activation list"
  hosts :: "activation list multiset"
  lane_submitted :: bool
  worker_stopped :: bool
  next_operation :: nat

section \<open>What the outside answers\<close>

text \<open>
  The delivery of the scheduler's work to the renderer, and an exception out of a call: the target is not ready,
  or another exception, with the status a session fails with.
\<close>

datatype engine_delivery = Delivered | Target_unready | Engine_threw mln_status

datatype render_call = Render_done | Render_unready | Render_threw mln_status

record engine_answers =
  engine_throws :: "engine_delivery option"
  has_renderer_backend :: bool
  newest_update :: "u64 \<times> (u32 \<times> u32) option"
  surface_prepared :: "mln_status \<times> bool"
  surface_prepared_again :: "mln_status \<times> bool"
  renderer_made :: bool
  sources_changed :: bool
  feature_state_needs_warmup :: bool
  warmup_render :: render_call
  frame_render :: render_call
  frame_completed :: bool
  after_render :: "mln_status \<times> bool"
  rendered_view :: mln_map_view
  rendered_mode :: u32
  rendered_repaint :: bool

record answers =
  answer_status :: mln_status
  answer_throws :: "mln_status option"
  answer_pending :: bool
  answer_delivery :: engine_delivery
  answer_metadata :: "nat option"
  answer_sync :: mln_gpu_sync
  answer_renders_ahead :: bool
  answer_on_driver_thread :: bool
  answer_on_abandoning_thread :: bool
  answer_engine :: engine_answers

section \<open>Failure\<close>

text \<open>
  \<open>fail_session\<close>: the section that marks the session failed and ends its demands, then the cancellation of the
  queued work one item at a time, then what the thread goes on with.
\<close>

definition fail_section :: "mln_status \<Rightarrow> render_session \<Rightarrow> render_session" where
  "fail_section status s =
     (let s1 = s\<lparr>failure_status := (if status = MLN_STATUS_TARGET_LOST then MLN_STATUS_TARGET_LOST
              else MLN_STATUS_NATIVE_ERROR),
            session_state := MLN_RENDER_SESSION_STATE_FAILED,
            generation := generation s + 1, pending_changes := True,
            rendered_update_generation := 0, rendered_target_generation := 0\<rparr>
      in leave_section ((finish_demands MLN_RENDER_RESULT_FAILED (invalidate_unacquired_texture_frames s1))
           \<lparr>stop_worker := True\<rparr>))"

definition fail_session ::
    "mln_status \<Rightarrow> activation list \<Rightarrow> session_system \<Rightarrow> activation list \<times> session_system" where
  "fail_session status k S =
     (let s = session S in
      if failure_status s \<noteq> MLN_STATUS_OK \<or> session_state s = MLN_RENDER_SESSION_STATE_ABANDONED
        \<or> session_state s = MLN_RENDER_SESSION_STATE_DETACHED
      then (k, S)
      else (Failing # k, S\<lparr>session := fail_section status s\<rparr>))"

definition finish_unready_attempt :: "render_session \<Rightarrow> render_session" where
  "finish_unready_attempt s =
     s\<lparr>pending_changes := True, rendered_update_generation := 0, rendered_target_generation := 0\<rparr>"

text \<open>
  \<open>deliver_pending_session_work\<close>: nothing where it delivered, or else the disposition that ends the attempt; the
  stack is the one the thread goes on with for each.
\<close>

definition deliver_pending_session_work ::
    "engine_delivery \<Rightarrow> (mln_render_result option \<Rightarrow> activation list) \<Rightarrow> session_system \<Rightarrow> activation list \<times> session_system" where
  "deliver_pending_session_work outcome k S =
     (case outcome of
        Delivered \<Rightarrow> (k None, S)
      | Target_unready \<Rightarrow> (k (Some MLN_RENDER_RESULT_TARGET_NOT_READY),
          S\<lparr>session := finish_unready_attempt (session S)\<rparr>)
      | Engine_threw status \<Rightarrow> fail_session status (k (Some MLN_RENDER_RESULT_FAILED)) S)"

section \<open>A frame demand\<close>

text \<open>\<open>publish_frame_result\<close> with its lock: a still image that asked for another demand meanwhile gets it.\<close>

definition publish_and_rearm :: "mln_render_frame_result \<Rightarrow> render_session \<Rightarrow> render_session" where
  "publish_and_rearm result s =
     (let s1 = publish_frame_result result s in
      leave_section
        (if render_frame_result_token result = MLN_FRAME_DEMAND_TOKEN_STILL_IMAGE \<and> still_image_rearm s1
         then arm_still_image_demand (s1\<lparr>still_image_rearm := False\<rparr>) else s1))"

definition is_still_image :: "queued_demand \<Rightarrow> bool" where
  "is_still_image d \<longleftrightarrow> frame_demand_token d = MLN_FRAME_DEMAND_TOKEN_STILL_IMAGE"

definition demand_forces :: "queued_demand \<Rightarrow> bool" where
  "demand_forces d \<longleftrightarrow> has_flag (frame_demand_flags d) (mln_frame_demand_flag_code MLN_FRAME_DEMAND_FORCE)"

definition demand_waits :: "queued_demand \<Rightarrow> bool" where
  "demand_waits d \<longleftrightarrow> has_flag (frame_demand_flags d) (mln_frame_demand_flag_code MLN_FRAME_DEMAND_WAIT_FOR_UPDATE)"

text \<open>The first section: the demand at the front, if the work's own demand still waits.\<close>

definition take_demand :: "nat \<Rightarrow> render_session \<Rightarrow> (queued_demand \<times> bool) option \<times> render_session" where
  "take_demand expected s =
     (if pending_frame_barriers s \<noteq> 0 \<or> expected \<notin> set (map demand_id (demands s))
        \<or> (session_state s \<noteq> MLN_RENDER_SESSION_STATE_ATTACHED \<and> session_state s \<noteq> MLN_RENDER_SESSION_STATE_DETACHING)
      then (None, s)
      else let demand = hd (demands s) in
        (Some (demand, pending_target_releases s \<noteq> 0),
         s\<lparr>demands := tl (demands s),
           still_image_rearm := (if is_still_image demand then False else still_image_rearm s)\<rparr>))"

definition with_disposition :: "mln_render_result \<Rightarrow> attempt \<Rightarrow> attempt" where
  "with_disposition disposition a =
     a\<lparr>attempt_result := (attempt_result a)\<lparr>render_frame_result_disposition := mln_render_result_code disposition\<rparr>\<rparr>"

definition start_attempt :: "queued_demand \<Rightarrow> render_session \<Rightarrow> attempt" where
  "start_attempt d s =
     \<lparr>attempt_demand = d,
      attempt_result =
        \<lparr>render_frame_result_size = sizeof_mln_render_frame_result,
         render_frame_result_disposition = mln_render_result_code MLN_RENDER_RESULT_NO_UPDATE,
         render_frame_result_token = frame_demand_token d,
         render_frame_result_map_update_generation = map_latest_update (map_of_session s),
         render_frame_result_generation = 0, render_frame_result_frame_generation = 0,
         render_frame_result_needs_repaint = False, render_frame_result_view = zero_map_view,
         render_frame_result_mode = mln_render_mode_code MLN_RENDER_MODE_PARTIAL\<rparr>,
      attempt_slot = None, attempt_update = map_latest_update (map_of_session s)\<rparr>"

definition begin_attempt :: "queued_demand \<Rightarrow> bool \<Rightarrow> render_session \<Rightarrow> activation" where
  "begin_attempt d releasing s =
     (let a = start_attempt d s in
      if map_commands_applied (map_of_session s) < demand_map_commands d
      then Attempt At_publishing (with_disposition MLN_RENDER_RESULT_TARGET_NOT_READY a)
      else if target_released s \<or> releasing then Attempt (At_delivering True) a
      else if \<not> demand_forces d then Attempt At_checking a
      else Attempt At_choosing a)"

definition nothing_changed :: "attempt \<Rightarrow> render_session \<Rightarrow> bool" where
  "nothing_changed a s \<longleftrightarrow> \<not> pending_changes s \<and> rendered_target_generation s = generation s
     \<and> render_frame_result_map_update_generation (attempt_result a) = rendered_update_generation s"

text \<open>\<open>wait_for_map_update\<close>: the disposition the caller publishes, or \<open>None\<close> where the demand waits or runs again.\<close>

definition wait_for_map_update :: "attempt \<Rightarrow> render_session \<Rightarrow> attempt option \<times> render_session" where
  "wait_for_map_update a s =
     (let d = attempt_demand a in
      if every_slot_quarantined s then (Some (with_disposition MLN_RENDER_RESULT_TARGET_NOT_READY a), s)
      else if pending_frame_barriers s \<noteq> 0 then (Some (with_disposition MLN_RENDER_RESULT_NO_UPDATE a), s)
      else if is_still_image d \<and> map_still_image (map_of_session s) = 0 then (Some a, s)
      else (case allocate s of (ok, s1) \<Rightarrow>
        if \<not> ok then (Some a, s1)
        else if map_latest_update (map_of_session s1) = attempt_update a
        then (None, s1\<lparr>update_waiting_demands := update_waiting_demands s1 @ [d]\<rparr>)
        else (case queue_frame_demand_work d (s1\<lparr>demands := d # demands s1\<rparr>) of (queued, s2) \<Rightarrow>
          if queued then (None, s2) else (Some a, s2\<lparr>demands := tl (demands s2)\<rparr>))))"

definition slot_busy :: "texture_slot \<Rightarrow> bool" where
  "slot_busy slot \<longleftrightarrow> slot_acquired slot \<or> slot_rendering slot \<or> slot_quarantined slot"

text \<open>
  \<open>std::find_if\<close> and \<open>std::min_element\<close>: the index of the first slot that satisfies the predicate, and of the first
  that no other slot is less than.
\<close>

fun first_slot :: "(texture_slot \<Rightarrow> bool) \<Rightarrow> nat \<Rightarrow> texture_slot list \<Rightarrow> nat option" where
  "first_slot P k [] = None"
| "first_slot P k (slot # rest) = (if P slot then Some k else first_slot P (k + 1) rest)"

fun min_slot :: "(texture_slot \<Rightarrow> texture_slot \<Rightarrow> bool) \<Rightarrow> nat \<Rightarrow> texture_slot \<Rightarrow> nat \<Rightarrow> texture_slot list \<Rightarrow> nat" where
  "min_slot lt best value k [] = best"
| "min_slot lt best value k (slot # rest) =
     (if lt slot value then min_slot lt k slot (k + 1) rest else min_slot lt best value (k + 1) rest)"

definition older_slot :: "texture_slot \<Rightarrow> texture_slot \<Rightarrow> bool" where
  "older_slot left right \<longleftrightarrow>
     (if slot_busy left then False
      else if slot_busy right then True
      else render_frame_result_frame_generation (slot_result left) < render_frame_result_frame_generation (slot_result right))"

text \<open>The slot the next frame is rendered into, \<open>None\<close> where every slot is busy.\<close>

definition choose_slot :: "texture_slot list \<Rightarrow> nat option" where
  "choose_slot sl =
     (case first_slot (\<lambda>slot. \<not> slot_busy slot \<and> \<not> slot_available slot) 0 sl of
        Some k \<Rightarrow> Some k
      | None \<Rightarrow> (case sl of
          [] \<Rightarrow> None
        | slot # rest \<Rightarrow> let k = min_slot older_slot 0 slot 1 rest in if slot_busy (sl ! k) then None else Some k))"

definition choose_render_slot :: "attempt \<Rightarrow> session_system \<Rightarrow> activation list \<Rightarrow> activation list \<times> session_system" where
  "choose_render_slot a S k =
     (let s = session S; d = attempt_demand a in
      if every_slot_quarantined s then
        (Attempt_returning # k,
         S\<lparr>session := leave_section (resume_parked_demand (publish_frame_result
             (attempt_result (with_disposition MLN_RENDER_RESULT_TARGET_NOT_READY a)) s))\<rparr>)
      else if slots s = [] then (Attempt At_rendering a # k, S)
      else (case choose_slot (slots s) of
          Some i \<Rightarrow> (Attempt At_rendering (a\<lparr>attempt_slot := Some i\<rparr>) # k,
            S\<lparr>session := s\<lparr>slots := (slots s)[i := (slots s ! i)\<lparr>slot_available := False, slot_rendering := True\<rparr>]\<rparr>\<rparr>)
        | None \<Rightarrow>
            if pending_frame_barriers s \<noteq> 0 then
              (Attempt_returning # k,
               S\<lparr>session := leave_section (publish_frame_result
                   (attempt_result (with_disposition MLN_RENDER_RESULT_NO_UPDATE a)) s)\<rparr>)
            else (case allocate s of (ok, s1) \<Rightarrow>
              if ok then (Attempt_returning # k, S\<lparr>session := s1\<lparr>demands := d # demands s1\<rparr>\<rparr>)
              else fail_session MLN_STATUS_NATIVE_ERROR
                (Attempt At_publishing (with_disposition MLN_RENDER_RESULT_FAILED a) # k) (S\<lparr>session := s1\<rparr>))))"


text \<open>
  \<open>render_session_render_update_on_driver\<close>, up to its last section: the status it returns with the disposition
  and, once it looked at the newest update, the generation of that; or the exception that leaves it.
\<close>

datatype update_outcome =
    Update_threw engine_delivery
  | Update_returned mln_status mln_render_result "u64 option"

definition render_once :: "render_call \<Rightarrow> u64 \<Rightarrow> update_outcome option" where
  "render_once call g =
     (case call of
        Render_done \<Rightarrow> None
      | Render_unready \<Rightarrow> Some (Update_returned MLN_STATUS_OK MLN_RENDER_RESULT_TARGET_NOT_READY (Some g))
      | Render_threw status \<Rightarrow> Some (Update_threw (Engine_threw status)))"

definition wait_surface :: "mln_status \<times> bool \<Rightarrow> u64 \<Rightarrow> update_outcome option" where
  "wait_surface prepared g =
     (case prepared of (status, ready) \<Rightarrow>
        if status \<noteq> MLN_STATUS_OK then Some (Update_returned status MLN_RENDER_RESULT_NO_UPDATE (Some g))
        else if \<not> ready then Some (Update_returned MLN_STATUS_OK MLN_RENDER_RESULT_TARGET_NOT_READY (Some g))
        else None)"

definition finish_update :: "engine_answers \<Rightarrow> u64 \<Rightarrow> render_session \<Rightarrow> update_outcome" where
  "finish_update e g s =
     (if \<not> frame_completed e then Update_returned MLN_STATUS_OK MLN_RENDER_RESULT_NO_UPDATE (Some g)
      else if session_kind s = Texture \<and> fst (after_render e) \<noteq> MLN_STATUS_OK
      then Update_returned (fst (after_render e)) MLN_RENDER_RESULT_NO_UPDATE (Some g)
      else if session_kind s = Texture \<and> \<not> snd (after_render e)
      then Update_returned MLN_STATUS_OK MLN_RENDER_RESULT_NO_UPDATE (Some g)
      else Update_returned MLN_STATUS_OK MLN_RENDER_RESULT_RENDERED (Some g))"

definition render_update :: "engine_answers \<Rightarrow> render_session \<Rightarrow> update_outcome" where
  "render_update e s =
     (if \<not> attached s then Update_returned MLN_STATUS_INVALID_STATE MLN_RENDER_RESULT_NO_UPDATE None
      else if \<not> has_renderer_backend e then Update_returned MLN_STATUS_NATIVE_ERROR MLN_RENDER_RESULT_NO_UPDATE None
      else case engine_throws e of
        Some d \<Rightarrow> Update_threw d
      | None \<Rightarrow>
        (case newest_update e of
          (g, None) \<Rightarrow> Update_returned MLN_STATUS_OK MLN_RENDER_RESULT_NO_UPDATE (Some g)
        | (g, Some sz) \<Rightarrow>
          if sz \<noteq> (logical_size_width (extent s), logical_size_height (extent s))
          then Update_returned MLN_STATUS_OK MLN_RENDER_RESULT_NO_UPDATE (Some g)
          else (case wait_surface (surface_prepared e) g of
            Some early \<Rightarrow> early
          | None \<Rightarrow>
            if \<not> renderer_made e then Update_returned MLN_STATUS_NATIVE_ERROR MLN_RENDER_RESULT_NO_UPDATE (Some g)
            else (case (if sources_changed e \<and> feature_state_needs_warmup e
                        then (case render_once (warmup_render e) g of
                                Some early \<Rightarrow> Some early
                              | None \<Rightarrow> wait_surface (surface_prepared_again e) g)
                        else None) of
              Some early \<Rightarrow> early
            | None \<Rightarrow> (case render_once (frame_render e) g of
                Some early \<Rightarrow> early
              | None \<Rightarrow> finish_update e g s)))))"

text \<open>The last section of a rendered update.\<close>

definition record_rendered :: "u64 \<Rightarrow> render_session \<Rightarrow> render_session" where
  "record_rendered g s = s\<lparr>rendered_target_generation := generation s, rendered_update_generation := g,
     pending_changes := False\<rparr>"

text \<open>
  The tail of an attempt that ended otherwise than rendered: its result tells of no frame, and it waits where its
  demand asks for that.
\<close>

definition without_frame :: "attempt \<Rightarrow> attempt" where
  "without_frame a = a\<lparr>attempt_result := (attempt_result a)\<lparr>render_frame_result_frame_generation := 0,
     render_frame_result_needs_repaint := False, render_frame_result_view := zero_map_view,
     render_frame_result_mode := mln_render_mode_code MLN_RENDER_MODE_PARTIAL\<rparr>\<rparr>"

definition end_attempt :: "mln_render_result \<Rightarrow> attempt \<Rightarrow> activation" where
  "end_attempt disposition a =
     (let a1 = without_frame (with_disposition disposition a) in
      if demand_waits (attempt_demand a) \<and> disposition = MLN_RENDER_RESULT_NO_UPDATE
      then Attempt At_waiting a1 else Attempt At_publishing a1)"

text \<open>An exception in the attempt: one for a target that is not ready, or another, which fails the session.\<close>

definition catch_attempt ::
    "engine_delivery \<Rightarrow> attempt \<Rightarrow> session_system \<Rightarrow> activation list \<Rightarrow> activation list \<times> session_system" where
  "catch_attempt exn a S k =
     (case exn of
        Engine_threw status \<Rightarrow> fail_session status (end_attempt MLN_RENDER_RESULT_FAILED a # k) S
      | _ \<Rightarrow> (end_attempt MLN_RENDER_RESULT_TARGET_NOT_READY a # k,
          S\<lparr>session := finish_unready_attempt (session S)\<rparr>))"

definition with_update :: "u64 option \<Rightarrow> attempt \<Rightarrow> attempt" where
  "with_update g a =
     (let a1 = (case g of None \<Rightarrow> a | Some u \<Rightarrow> a\<lparr>attempt_update := u\<rparr>) in
      a1\<lparr>attempt_result := (attempt_result a1)\<lparr>render_frame_result_map_update_generation := attempt_update a1\<rparr>\<rparr>)"

definition backend_present :: "render_session \<Rightarrow> bool" where
  "backend_present s \<longleftrightarrow> session_kind s = Texture \<and> attached s"

definition render_frame ::
    "answers \<Rightarrow> attempt \<Rightarrow> session_system \<Rightarrow> activation list \<Rightarrow> activation list \<times> session_system" where
  "render_frame ans a S k =
     (let s = session S in
      if attempt_slot a \<noteq> None \<and> backend_present s \<and> answer_status ans \<noteq> MLN_STATUS_OK
      then fail_session (answer_status ans)
        (Attempt At_publishing (with_disposition MLN_RENDER_RESULT_FAILED a) # k) S
      else (case render_update (answer_engine ans) s of
        Update_threw exn \<Rightarrow> catch_attempt exn a S k
      | Update_returned status disposition g \<Rightarrow>
          if status \<noteq> MLN_STATUS_OK
          then fail_session status (end_attempt MLN_RENDER_RESULT_FAILED (with_update g a) # k) S
          else (case disposition of
            MLN_RENDER_RESULT_RENDERED \<Rightarrow>
              (Attempt (At_rendered (rendered_mode (answer_engine ans)) (rendered_repaint (answer_engine ans))
                 (rendered_view (answer_engine ans))) (with_disposition disposition (with_update g a)) # k,
               S\<lparr>session := record_rendered (fst (newest_update (answer_engine ans))) s\<rparr>)
          | MLN_RENDER_RESULT_TARGET_NOT_READY \<Rightarrow>
              (end_attempt disposition (with_update g a) # k, S\<lparr>session := finish_unready_attempt s\<rparr>)
          | _ \<Rightarrow> (end_attempt disposition (with_update g a) # k, S))))"

text \<open>The section that numbers a rendered frame, the record of its metadata, and the section that publishes its slot.\<close>

definition number_frame :: "u32 \<Rightarrow> bool \<Rightarrow> mln_map_view \<Rightarrow> attempt \<Rightarrow> render_session \<Rightarrow> attempt \<times> render_session" where
  "number_frame mode repaint view a s =
     (let s1 = s\<lparr>frame_generation := frame_generation s + 1\<rparr> in
      (a\<lparr>attempt_result := (attempt_result a)\<lparr>render_frame_result_mode := mode,
         render_frame_result_needs_repaint := repaint, render_frame_result_view := view,
         render_frame_result_generation := generation s1,
         render_frame_result_frame_generation := frame_generation s1\<rparr>\<rparr>, s1))"

definition slot_acquirable :: "attempt \<Rightarrow> render_session \<Rightarrow> bool" where
  "slot_acquirable a s \<longleftrightarrow> attempt_slot a \<noteq> None \<and> backend_present s \<and> acquires_frames s"

definition record_metadata ::
    "answers \<Rightarrow> attempt \<Rightarrow> session_system \<Rightarrow> activation list \<Rightarrow> activation list \<times> session_system" where
  "record_metadata ans a S k =
     (let s = session S;
          plain = \<lparr>gpu_sync_size = sizeof_mln_gpu_sync, gpu_sync_kind = producer_sync_kind s,
            gpu_sync_handle = 0, gpu_sync_value = 0\<rparr> in
      case answer_throws ans of
        Some status \<Rightarrow> catch_attempt (Engine_threw status) a S k
      | None \<Rightarrow>
        if \<not> slot_acquirable a s then (Attempt (At_storing None plain) a # k, S)
        else if answer_status ans \<noteq> MLN_STATUS_OK
        then fail_session (answer_status ans)
          (Attempt At_publishing (without_frame (with_disposition MLN_RENDER_RESULT_FAILED a)) # k) S
        else (Attempt (At_storing (answer_metadata ans)
            (if gpu_sync_names_object (producer_sync_kind s) then answer_sync ans else plain)) a # k, S))"

definition store_frame ::
    "bool \<Rightarrow> nat option \<Rightarrow> mln_gpu_sync \<Rightarrow> attempt \<Rightarrow> render_session \<Rightarrow> render_session" where
  "store_frame ahead metadata sync a s =
     (case attempt_slot a of
        None \<Rightarrow> s
      | Some i \<Rightarrow>
          s\<lparr>slots := (slots s)[i := (slots s ! i)\<lparr>slot_result := attempt_result a, slot_producer_sync := sync,
                slot_available := \<not> slot_acquirable a s \<or> metadata \<noteq> None, slot_metadata := metadata,
                slot_rendering := False\<rparr>],
            gpu_frames_in_flight := (if backend_present s \<and> ahead then gpu_frames_in_flight s + 1
              else gpu_frames_in_flight s)\<rparr>)"

definition leave_slot :: "attempt \<Rightarrow> render_session \<Rightarrow> render_session" where
  "leave_slot a s =
     (case attempt_slot a of
        None \<Rightarrow> s
      | Some i \<Rightarrow> s\<lparr>slots := (slots s)[i := (slots s ! i)\<lparr>slot_rendering := False\<rparr>]\<rparr>)"

definition run_attempt ::
    "answers \<Rightarrow> attempt_point \<Rightarrow> attempt \<Rightarrow> session_system \<Rightarrow> activation list \<Rightarrow> activation list \<times> session_system" where
  "run_attempt ans p a S k =
     (let s = session S in case p of
        At_delivering after_release \<Rightarrow>
          deliver_pending_session_work (answer_delivery ans)
            (\<lambda>ended. (case ended of
                Some disposition \<Rightarrow> Attempt At_publishing (with_disposition disposition a)
              | None \<Rightarrow>
                  if after_release then Attempt At_publishing (with_disposition MLN_RENDER_RESULT_TARGET_NOT_READY a)
                  else if demand_waits (attempt_demand a)
                  then Attempt At_waiting (with_disposition MLN_RENDER_RESULT_NO_UPDATE a)
                  else Attempt At_publishing (with_disposition MLN_RENDER_RESULT_NO_UPDATE a)) # k)
            (if after_release \<and> answer_delivery ans = Delivered
             then S\<lparr>session := finish_unready_attempt s\<rparr> else S)
      | At_checking \<Rightarrow> (Attempt (if nothing_changed a s then At_delivering False else At_choosing) a # k, S)
      | At_waiting \<Rightarrow> (case wait_for_map_update a s of (published, s1) \<Rightarrow>
          ((case published of Some a1 \<Rightarrow> Attempt At_publishing a1 | None \<Rightarrow> Attempt At_leaving a) # k,
           S\<lparr>session := leave_section s1\<rparr>))
      | At_choosing \<Rightarrow> choose_render_slot a S k
      | At_rendering \<Rightarrow> render_frame ans a S k
      | At_rendered mode repaint view \<Rightarrow> (case number_frame mode repaint view a s of (a1, s1) \<Rightarrow>
          (Attempt At_recording a1 # k, S\<lparr>session := s1\<rparr>))
      | At_recording \<Rightarrow> record_metadata ans a S k
      | At_storing metadata sync \<Rightarrow>
          (Attempt At_committing a # k, S\<lparr>session := store_frame (answer_renders_ahead ans) metadata sync a s\<rparr>)
      | At_committing \<Rightarrow> (case answer_throws ans of
            Some status \<Rightarrow> catch_attempt (Engine_threw status) a S k
          | None \<Rightarrow> (Attempt At_publishing a # k, S))
      | At_publishing \<Rightarrow> (Attempt At_leaving a # k, S\<lparr>session := publish_and_rearm (attempt_result a) s\<rparr>)
      | At_leaving \<Rightarrow> (k, S\<lparr>session := leave_slot a s\<rparr>))"


section \<open>The other work of the driver\<close>

text \<open>
  \<open>execute_driver_work\<close> catches what leaves an item: the session fails, and the item completes as cancelled with
  the session's failure.
\<close>

definition throw_work :: "driver_work \<Rightarrow> mln_status \<Rightarrow> session_system \<Rightarrow> activation list \<Rightarrow> activation list \<times> session_system" where
  "throw_work w status S k =
     (let S1 = snd (fail_session status [] S) in
      fail_session status (Cancelling w (failure_status (session S1)) # k) S)"

text \<open>\<open>finish_driver_work\<close>: the status of an operation's callable, which fails the session where the target is lost.\<close>

definition end_operation :: "nat \<Rightarrow> mln_status \<Rightarrow> session_system \<Rightarrow> activation list \<Rightarrow> activation list \<times> session_system" where
  "end_operation op status S k =
     (if status = MLN_STATUS_TARGET_LOST then fail_session status (Completing op status # k) S
      else (Completing op status # k, S))"

definition retarget_kind_status :: "retarget_target_kind \<Rightarrow> render_session \<Rightarrow> mln_status" where
  "retarget_kind_status kind s =
     (case kind of
        Target_surface \<Rightarrow> if session_kind s = Surface then MLN_STATUS_OK else MLN_STATUS_UNSUPPORTED
      | Target_borrowed_texture \<Rightarrow>
          if session_kind s \<noteq> Texture then MLN_STATUS_UNSUPPORTED
          else if texture_mode s = Borrowed then MLN_STATUS_OK
          else MLN_STATUS_UNSUPPORTED)"

text \<open>\<open>validate_render_session_retarget\<close>, on the driver.\<close>

definition validate_retarget :: "retarget_target_kind \<Rightarrow> render_session \<Rightarrow> mln_status" where
  "validate_retarget kind s =
     (if \<not> attached s then MLN_STATUS_INVALID_STATE
      else if acquired_frame_count s \<noteq> 0 then MLN_STATUS_INVALID_STATE
      else retarget_kind_status kind s)"

definition same_target :: "mln_logical_size \<Rightarrow> u32 \<times> u32 \<Rightarrow> u64 list \<Rightarrow> render_session \<Rightarrow> bool" where
  "same_target logical physical identity s \<longleftrightarrow> \<not> target_released s \<and> target_identity s = identity
     \<and> extent s = logical \<and> physical_extent s = physical"

text \<open>\<open>render_session_set_target\<close>, up to its sections.\<close>

definition set_target ::
    "answers \<Rightarrow> nat \<Rightarrow> retarget_target_kind \<Rightarrow> mln_logical_size \<Rightarrow> u32 \<times> u32 \<Rightarrow> u64 list \<Rightarrow> session_system
      \<Rightarrow> activation list \<Rightarrow> activation list \<times> session_system" where
  "set_target ans op kind logical physical identity S k =
     (let s = session S; w = Retarget_work op kind logical physical identity;
          settle = (\<lambda>outcome. Settle_retarget op kind w outcome # k) in
      if validate_retarget kind s \<noteq> MLN_STATUS_OK then (settle (Inr (validate_retarget kind s)), S)
      else if same_target logical physical identity s then (settle (Inr MLN_STATUS_OK), S)
      else (case answer_throws ans of
        Some status \<Rightarrow> (settle (Inl status), S)
      | None \<Rightarrow>
          if answer_status ans \<noteq> MLN_STATUS_OK then (settle (Inr (answer_status ans)), S)
          else (Retarget_swap op kind logical physical identity # k, S)))"

definition reset_target ::
    "retarget_target_kind \<Rightarrow> mln_logical_size \<Rightarrow> u32 \<times> u32 \<Rightarrow> render_session \<Rightarrow> render_session" where
  "reset_target kind logical physical s =
     (let s1 = s\<lparr>rendered_update_generation := 0, rendered_target_generation := 0, pending_changes := True,
            extent := logical, physical_extent := physical, generation := generation s + 1\<rparr>;
          s2 = (if kind = Target_borrowed_texture then s1\<lparr>slots := map (\<lambda>_. fresh_slot) (slots s1)\<rparr> else s1)
      in leave_section (resume_update_waiting_demands s2))"

text \<open>\<open>Settle\<close> of a retarget and of a release of the target.\<close>

definition settle_retarget :: "retarget_target_kind \<Rightarrow> render_session \<Rightarrow> render_session" where
  "settle_retarget kind s =
     (if kind = Target_borrowed_texture then s\<lparr>pending_retargets := pending_retargets s - 1\<rparr> else s)"

definition settle_release :: "render_session \<Rightarrow> render_session" where
  "settle_release s =
     (let s1 = s\<lparr>pending_target_releases := pending_target_releases s - 1\<rparr> in
      if session_kind s = Texture then s1\<lparr>pending_retargets := pending_retargets s1 - 1\<rparr> else s1)"

definition after_settle ::
    "nat \<Rightarrow> driver_work \<Rightarrow> (mln_status, mln_status) sum \<Rightarrow> session_system \<Rightarrow> activation list
      \<Rightarrow> activation list \<times> session_system" where
  "after_settle op w outcome S k =
     (case outcome of Inl status \<Rightarrow> (Throwing w status # k, S) | Inr status \<Rightarrow> (Operation_ended op status # k, S))"

definition release_target ::
    "answers \<Rightarrow> nat \<Rightarrow> session_system \<Rightarrow> activation list \<Rightarrow> activation list \<times> session_system" where
  "release_target ans op S k =
     (let s = session S; settle = (\<lambda>outcome. Settle_release op (Release_target_work op) outcome # k) in
      if \<not> attached s then (settle (Inr MLN_STATUS_INVALID_STATE), S)
      else if target_released s then (Release_target_record op # k, S)
      else (case answer_throws ans of
        Some status \<Rightarrow> (settle (Inl status), S)
      | None \<Rightarrow>
          if answer_status ans \<noteq> MLN_STATUS_OK then (settle (Inr (answer_status ans)), S)
          else (Release_target_record op # k, S)))"

definition record_released_target :: "render_session \<Rightarrow> render_session" where
  "record_released_target s =
     leave_section (resume_update_waiting_demands
       (s\<lparr>target_released := True, pending_changes := True, rendered_update_generation := 0,
          rendered_target_generation := 0, slots := map (\<lambda>_. fresh_slot) (slots s)\<rparr>))"

definition record_resize :: "mln_logical_size \<Rightarrow> u32 \<times> u32 \<Rightarrow> render_session \<Rightarrow> render_session" where
  "record_resize logical physical s =
     leave_section (resume_update_waiting_demands
       (s\<lparr>extent := logical, physical_extent := physical, generation := generation s + 1, pending_changes := True,
          rendered_update_generation := 0, rendered_target_generation := 0\<rparr>))"

text \<open>The sections of a release of a frame whose synchronization is waited for (\<open>release\<close> in \<open>acquired_frame_release\<close>).\<close>

definition release_sync ::
    "answers \<Rightarrow> nat \<Rightarrow> mln_gpu_sync \<Rightarrow> session_system \<Rightarrow> activation list \<Rightarrow> activation list \<times> session_system" where
  "release_sync ans f sync S k =
     (let s = session S in
      if session_state s = MLN_RENDER_SESSION_STATE_ABANDONED \<or> session_state s = MLN_RENDER_SESSION_STATE_FAILED
      then (Release_waited f sync MLN_STATUS_TARGET_LOST # k, S)
      else if \<not> backend_present s then (Release_waited f sync MLN_STATUS_OK # k, S)
      else if answer_status ans \<noteq> MLN_STATUS_OK
      then fail_session (answer_status ans) (Release_waited f sync (answer_status ans) # k) S
      else (Release_waited f sync MLN_STATUS_OK # k, S))"

definition release_slot :: "nat \<Rightarrow> mln_gpu_sync \<Rightarrow> mln_status \<Rightarrow> render_session \<Rightarrow> render_session" where
  "release_slot i sync status s =
     (let s1 = (if i < length (slots s) then
           (let s2 = s\<lparr>slots := (slots s)[i := (slots s ! i)\<lparr>slot_acquired := False\<rparr>]\<rparr> in
            if (status \<noteq> MLN_STATUS_OK \<and> status \<noteq> MLN_STATUS_TARGET_LOST)
              \<or> (status = MLN_STATUS_TARGET_LOST
                 \<and> gpu_sync_kind sync \<noteq> mln_gpu_sync_kind_code MLN_GPU_SYNC_CPU_COMPLETE)
            then quarantine_slot i s2 else s2)
         else s)
      in leave_section (resume_parked_demand s1))"

text \<open>\<open>render_session_detach\<close> and the rest of \<open>finish_detach\<close>; a disposal drops the demands, another detach ends them.\<close>

definition detach_render_session :: "render_session \<Rightarrow> render_session" where
  "detach_render_session s = s\<lparr>attached := False, the_map := None, rendered_update_generation := 0,
     rendered_target_generation := 0, generation := generation s + 1\<rparr>"

definition drop_demands :: "render_session \<Rightarrow> render_session" where
  "drop_demands s = s\<lparr>dropped_tokens := dropped_tokens s
       @ map frame_demand_token (update_waiting_demands s @ demands s),
     update_waiting_demands := [], demands := []\<rparr>"

definition finish_detach :: "render_session \<Rightarrow> render_session" where
  "finish_detach s =
     (let s1 = s\<lparr>session_state := MLN_RENDER_SESSION_STATE_DETACHED, generation := generation s + 1\<rparr> in
      leave_section (if disposal_requested s1 then drop_demands s1
        else finish_demands MLN_RENDER_RESULT_TARGET_NOT_READY s1))"

definition attach_session :: "render_session \<Rightarrow> render_session" where
  "attach_session s =
     leave_section (request_redraw (arm_still_image_demand
       (s\<lparr>session_state := MLN_RENDER_SESSION_STATE_ATTACHED, generation := generation s + 1\<rparr>)))"

definition physical_dimension :: "u32 \<Rightarrow> double \<Rightarrow> u32" where
  "physical_dimension logical scale =
     (case scale of Finite x \<Rightarrow> word_of_int \<lceil>round_double (of_nat (unat logical) * x)\<rceil> | _ \<Rightarrow> 0)"


section \<open>Driver calls\<close>

text \<open>
  One pass of the loop of \<open>render_session_service_driver_work\<close>: the detach of a disposal, or the next item that can run,
  or the question when the GPU is done, and the end of the call.
\<close>

definition service_pass :: "session_system \<Rightarrow> activation list \<Rightarrow> activation list \<times> session_system" where
  "service_pass S k =
     (let s = session S in
      if disposal_detach s then (Disposal_begin False # k, S\<lparr>session := s\<lparr>disposal_detach := False\<rparr>\<rparr>)
      else if \<not> driver_work_runnable s
      then (k, S\<lparr>session := (if frame_waits_for_gpu s then s\<lparr>gpu_wait_pending := True\<rparr> else s)\<rparr>)
      else (Running (hd (driver_work s)) # Service_loop # k, S\<lparr>session := s\<lparr>driver_work := tl (driver_work s)\<rparr>\<rparr>))"

definition end_driver_call :: "render_session \<Rightarrow> render_session" where
  "end_driver_call s =
     (let s1 = s\<lparr>driver_call_in_flight := False\<rparr> in
      if session_driver s = MLN_RENDER_DRIVER_CORE_WORKER then s1
      else let s2 = s1\<lparr>driver_wake_pending := disposal_detach s1 \<or> driver_work_runnable s1\<rparr> in
        leave_section (if driver_wake_pending s2 \<and> holds_wakes s2 then owe Driver_wake s2 else s2))"

text \<open>Where a service begins: whether its thread is the session's graphics thread, or the first to service it, is given.\<close>

definition service_begin :: "bool \<Rightarrow> render_session \<Rightarrow> mln_status" where
  "service_begin right_thread s =
     (if disposal_requested s \<and> \<not> disposal_detach s then MLN_STATUS_INVALID_STATE
      else if views_invalidated s then MLN_STATUS_TARGET_LOST
      else if session_driver s \<noteq> MLN_RENDER_DRIVER_CALLER_GRAPHICS_THREAD then MLN_STATUS_INVALID_STATE
      else if \<not> right_thread then MLN_STATUS_WRONG_THREAD
      else if driver_call_in_flight s then MLN_STATUS_BUSY
      else MLN_STATUS_OK)"

definition gpu_report_needed :: "render_session \<Rightarrow> bool" where
  "gpu_report_needed s \<longleftrightarrow> frame_waits_for_gpu s \<and> \<not> gpu_wait_pending s"

definition worker_ready :: "render_session \<Rightarrow> bool" where
  "worker_ready s \<longleftrightarrow> stop_worker s \<or> disposal_detach s \<or> driver_work_runnable s \<or> gpu_report_needed s"

text \<open>One pass of the core worker, whose stack is empty between two passes.\<close>

definition core_worker_step :: "session_system \<Rightarrow> activation list \<times> session_system" where
  "core_worker_step S =
     (let s = session S in
      if disposal_detach s then ([Disposal_begin True], S\<lparr>worker_stopped := True\<rparr>)
      else if views_invalidated s \<or> disposal_requested s then ([], S\<lparr>worker_stopped := True\<rparr>)
      else if driver_work_runnable s
      then ([Running (hd (driver_work s)), Driver_call_end],
        S\<lparr>session := s\<lparr>driver_work := tl (driver_work s), driver_call_in_flight := True\<rparr>\<rparr>)
      else if \<not> stop_worker s \<and> gpu_report_needed s
      then ([Driver_call_end], S\<lparr>session := s\<lparr>gpu_wait_pending := True, driver_call_in_flight := True\<rparr>\<rparr>)
      else ([], S\<lparr>worker_stopped := True\<rparr>))"

section \<open>Disposal, abandonment and destruction\<close>

definition begin_disposal_detach :: "bool \<Rightarrow> session_system \<Rightarrow> activation list \<Rightarrow> activation list \<times> session_system" where
  "begin_disposal_detach marks S k =
     (let s = (session S)\<lparr>disposal_detach := False\<rparr> in
      if session_state s = MLN_RENDER_SESSION_STATE_ATTACHED \<and> \<not> views_invalidated s
        \<and> acquired_frame_count s = 0 \<and> active_views s = 0
      then (map (\<lambda>w. Cancelling w MLN_STATUS_TARGET_LOST) (driver_work s) @ Detach_run None # Disposal_end marks True # k,
        S\<lparr>session := s\<lparr>session_state := MLN_RENDER_SESSION_STATE_DETACHING, generation := generation s + 1,
          driver_call_in_flight := marks \<or> driver_call_in_flight s, driver_work := []\<rparr>\<rparr>)
      else (Disposal_end marks False # k, S\<lparr>session := s\<rparr>))"

definition end_disposal_detach :: "bool \<Rightarrow> bool \<Rightarrow> session_system \<Rightarrow> activation list \<Rightarrow> activation list \<times> session_system" where
  "end_disposal_detach marks detaching S k =
     (let s = session S;
          discarded = (if detaching then driver_work s else []);
          s1 = (if detaching then s\<lparr>driver_call_in_flight := \<not> marks \<and> driver_call_in_flight s, driver_work := []\<rparr> else s)
      in (map (\<lambda>w. Cancelling w MLN_STATUS_TARGET_LOST) discarded @ Lane_submit # k,
          S\<lparr>session := s1\<lparr>views_invalidated := True, stop_worker := True\<rparr>\<rparr>))"

text \<open>The section of \<open>abandon_render_session\<close> that takes everything from the session.\<close>

definition abandon_section :: "render_session \<Rightarrow> render_session" where
  "abandon_section s =
     (let s1 = s\<lparr>views_invalidated := True, session_state := MLN_RENDER_SESSION_STATE_ABANDONED, attached := False,
            stop_worker := True, driver_work := []\<rparr>;
          s2 = (if disposal_requested s1 then drop_demands s1
            else finish_demands MLN_RENDER_RESULT_TARGET_NOT_READY s1);
          s3 = (if frame_results s2 \<noteq> [] \<and> holds_wakes s2
            then owe Frame_wake (s2\<lparr>frame_wake_pending := True\<rparr>) else s2)
      in leave_section (s3\<lparr>holds_wakes := False, has_pacer := False, generation := generation s3 + 1\<rparr>))"

definition abandon_render_session ::
    "answers \<Rightarrow> bool \<Rightarrow> session_system \<Rightarrow> activation list \<Rightarrow> activation list \<times> session_system" where
  "abandon_render_session ans by_disposal S k =
     (let s = session S; refused = (if by_disposal then Destroying # k else k, S) in
      if \<not> by_disposal \<and> disposal_requested s then refused
      else if active_views s \<noteq> 0 then refused
      else if session_state s = MLN_RENDER_SESSION_STATE_DETACHED \<or> session_state s = MLN_RENDER_SESSION_STATE_ABANDONED
      then refused
      else if driver_call_in_flight s then
        (if session_driver s \<noteq> MLN_RENDER_DRIVER_CORE_WORKER \<or> answer_on_driver_thread ans then refused
         else (Abandon_begin by_disposal # k, S))
      else (map (\<lambda>w. Cancelling w MLN_STATUS_TARGET_LOST) (driver_work s) @ Abandon_finish by_disposal # k,
        S\<lparr>session := abandon_section s\<rparr>))"

definition finish_abandon :: "render_session \<Rightarrow> render_session" where
  "finish_abandon s = s\<lparr>the_map := None, abandonment_complete := True\<rparr>"

text \<open>
  \<open>destroy_render_session\<close>: refused as busy, or waiting for an abandonment to complete, or its section, which
  refuses a second destruction, a session that is not over and a detached one whose frames are held.
\<close>

definition destroy_section :: "render_session \<Rightarrow> render_session" where
  "destroy_section s =
     (if destruction_started s
        \<or> (session_state s \<noteq> MLN_RENDER_SESSION_STATE_DETACHED \<and> session_state s \<noteq> MLN_RENDER_SESSION_STATE_ABANDONED)
        \<or> (session_state s = MLN_RENDER_SESSION_STATE_DETACHED \<and> acquired_frame_count s \<noteq> 0)
      then s
      else s\<lparr>destruction_started := True, stop_worker := True, holds_wakes := False, has_pacer := False\<rparr>)"

definition destroy_render_session ::
    "answers \<Rightarrow> session_system \<Rightarrow> activation list \<Rightarrow> activation list \<times> session_system" where
  "destroy_render_session ans S k =
     (let s = session S in
      if views_invalidated s \<and> session_state s \<noteq> MLN_RENDER_SESSION_STATE_DETACHED
        \<and> (active_views s \<noteq> 0 \<or> (\<not> abandonment_complete s \<and> answer_on_abandoning_thread ans)
            \<or> (driver_call_in_flight s \<and> answer_on_driver_thread ans))
      then (k, S)
      else if views_invalidated s \<and> session_state s \<noteq> MLN_RENDER_SESSION_STATE_DETACHED \<and> \<not> abandonment_complete s
      then (Destroying # k, S)
      else (k, S\<lparr>session := destroy_section s\<rparr>))"

section \<open>The frames of a host\<close>

definition slot_ready :: "texture_slot \<Rightarrow> bool" where
  "slot_ready slot \<longleftrightarrow> slot_available slot \<and> \<not> slot_acquired slot"

definition newer_slot :: "texture_slot \<Rightarrow> texture_slot \<Rightarrow> bool" where
  "newer_slot left right \<longleftrightarrow>
     (if \<not> slot_ready right then False
      else if \<not> slot_ready left then True
      else render_frame_result_frame_generation (slot_result left) < render_frame_result_frame_generation (slot_result right))"

text \<open>\<open>std::max_element\<close>.\<close>

fun max_slot :: "(texture_slot \<Rightarrow> texture_slot \<Rightarrow> bool) \<Rightarrow> nat \<Rightarrow> texture_slot \<Rightarrow> nat \<Rightarrow> texture_slot list \<Rightarrow> nat" where
  "max_slot lt best value k [] = best"
| "max_slot lt best value k (slot # rest) =
     (if lt value slot then max_slot lt k slot (k + 1) rest else max_slot lt best value (k + 1) rest)"

definition newest_slot :: "texture_slot list \<Rightarrow> nat option" where
  "newest_slot sl =
     (case sl of
        [] \<Rightarrow> None
      | slot # rest \<Rightarrow> let k = max_slot newer_slot 0 slot 1 rest in
          if \<not> slot_ready (sl ! k) \<or> slot_metadata (sl ! k) = None then None else Some k)"

definition drop_older :: "nat \<Rightarrow> nat \<Rightarrow> texture_slot \<Rightarrow> texture_slot" where
  "drop_older i j slot = (if j = i \<or> \<not> slot_ready slot then slot
     else slot\<lparr>slot_available := False, slot_metadata := None\<rparr>)"

definition unusable_session_status :: "render_session \<Rightarrow> mln_status" where
  "unusable_session_status s =
     (if session_state s = MLN_RENDER_SESSION_STATE_FAILED then failure_status s else MLN_STATUS_INVALID_STATE)"

text \<open>The section of \<open>render_session_acquire_frame\<close>: the new frame's thread goes on to insert its handle.\<close>

definition acquire_frame :: "session_system \<Rightarrow> mln_status \<times> session_system" where
  "acquire_frame S =
     (let s = session S in
      if disposal_requested s then (MLN_STATUS_INVALID_STATE, S)
      else if session_state s \<noteq> MLN_RENDER_SESSION_STATE_ATTACHING
        \<and> session_state s \<noteq> MLN_RENDER_SESSION_STATE_ATTACHED
      then (unusable_session_status s, S)
      else if \<not> acquires_frames s then (MLN_STATUS_UNSUPPORTED, S)
      else if pending_retargets s \<noteq> 0 then (MLN_STATUS_OK, S)
      else (case newest_slot (slots s) of
        None \<Rightarrow> (MLN_STATUS_OK, S)
      | Some i \<Rightarrow>
          let slot = slots s ! i;
              others = map (\<lambda>(j, other). drop_older i j other) (enumerate 0 (slots s)) in
          (MLN_STATUS_OK,
           S\<lparr>session := s\<lparr>slots := others[i := slot\<lparr>slot_available := False, slot_acquired := True, slot_metadata := None\<rparr>],
               acquired_frame_count := acquired_frame_count s + 1\<rparr>,
             frames := frames S @ [\<lparr>frame_slot = i, frame_result = slot_result slot,
               frame_producer_sync = slot_producer_sync slot, frame_metadata = slot_metadata slot,
               frame_valid = True, frame_views = 0, frame_handle = Handle_private\<rparr>],
             hosts := add_mset [Inserting_frame (length (frames S))] (hosts S)\<rparr>)))"

definition with_frame :: "nat \<Rightarrow> (acquired_frame \<Rightarrow> acquired_frame) \<Rightarrow> session_system \<Rightarrow> session_system" where
  "with_frame f g S = S\<lparr>frames := (frames S)[f := g (frames S ! f)]\<rparr>"

definition insert_frame :: "answers \<Rightarrow> nat \<Rightarrow> session_system \<Rightarrow> session_system" where
  "insert_frame ans f S =
     (let s = session S; frame = frames S ! f; i = frame_slot frame in
      if answer_throws ans = None then with_frame f (\<lambda>x. x\<lparr>frame_handle := Handle_live\<rparr>) S
      else with_frame f (\<lambda>x. x\<lparr>frame_metadata := None, frame_valid := False, frame_handle := Handle_gone\<rparr>)
        (S\<lparr>session := s\<lparr>slots := (slots s)[i := (slots s ! i)\<lparr>slot_metadata := frame_metadata frame,
             slot_available := True, slot_acquired := False\<rparr>],
           acquired_frame_count := acquired_frame_count s - 1\<rparr>\<rparr>))"

definition frame_backing_status :: "render_session \<Rightarrow> mln_status" where
  "frame_backing_status s =
     (if session_state s = MLN_RENDER_SESSION_STATE_FAILED then MLN_STATUS_TARGET_LOST
      else if disposal_requested s \<or> views_invalidated s \<or> session_state s = MLN_RENDER_SESSION_STATE_ABANDONED
      then MLN_STATUS_TARGET_LOST
      else MLN_STATUS_OK)"

definition begin_view :: "nat \<Rightarrow> session_system \<Rightarrow> mln_status \<times> session_system" where
  "begin_view f S =
     (let s = session S; frame = frames S ! f in
      if \<not> frame_valid frame then (MLN_STATUS_INVALID_STATE, S)
      else if frame_backing_status s \<noteq> MLN_STATUS_OK then (frame_backing_status s, S)
      else (MLN_STATUS_OK, with_frame f (\<lambda>x. x\<lparr>frame_views := frame_views x + 1\<rparr>)
        (S\<lparr>session := s\<lparr>active_views := active_views s + 1\<rparr>\<rparr>)))"

definition end_view :: "nat \<Rightarrow> session_system \<Rightarrow> session_system" where
  "end_view f S = with_frame f (\<lambda>x. x\<lparr>frame_views := frame_views x - 1\<rparr>)
     (S\<lparr>session := (session S)\<lparr>active_views := active_views (session S) - 1\<rparr>\<rparr>)"

text \<open>The checks of \<open>acquired_frame_release\<close> before it leases the frame, and its section.\<close>

definition validate_consumer_sync :: "mln_gpu_sync \<Rightarrow> mln_status" where
  "validate_consumer_sync sync =
     (if gpu_sync_size sync < sizeof_mln_gpu_sync then MLN_STATUS_INVALID_ARGUMENT
      else if has_flag known_gpu_sync_kinds (gpu_sync_kind_flag (gpu_sync_kind sync))
        \<and> gpu_sync_names_object (gpu_sync_kind sync)
        \<and> gpu_sync_kind sync \<noteq> mln_gpu_sync_kind_code MLN_GPU_SYNC_SYNC_FD \<and> gpu_sync_handle sync = 0
      then MLN_STATUS_INVALID_ARGUMENT
      else MLN_STATUS_OK)"

definition release_frame :: "nat \<Rightarrow> mln_gpu_sync \<Rightarrow> session_system \<Rightarrow> mln_status \<times> session_system" where
  "release_frame f sync S =
     (let s = session S; frame = frames S ! f; i = frame_slot frame in
      if frame_views frame \<noteq> 0 then (MLN_STATUS_BUSY, S)
      else if \<not> frame_valid frame then (MLN_STATUS_INVALID_STATE, S)
      else if \<not> has_flag (consumer_sync_kinds s) (gpu_sync_kind_flag (gpu_sync_kind sync))
      then (MLN_STATUS_UNSUPPORTED, S)
      else
        let immediately = (session_state s = MLN_RENDER_SESSION_STATE_ABANDONED
              \<or> session_state s = MLN_RENDER_SESSION_STATE_FAILED);
            waits = gpu_sync_names_object (gpu_sync_kind sync);
            queued = (waits \<and> \<not> immediately)
        in case (if queued then allocate s else (True, s)) of (ok, s1) \<Rightarrow>
          if \<not> ok then (MLN_STATUS_NATIVE_ERROR, S\<lparr>session := s1\<rparr>)
          else
            let s2 = (if queued then s1\<lparr>driver_work := driver_work s1 @ [Release_work f sync]\<rparr> else s1);
                s3 = s2\<lparr>acquired_frame_count := acquired_frame_count s2 - 1\<rparr>;
                s4 = (if \<not> waits then
                    resume_parked_demand (if i < length (slots s3)
                      then s3\<lparr>slots := (slots s3)[i := (slots s3 ! i)\<lparr>slot_acquired := False\<rparr>]\<rparr> else s3)
                  else if queued then publish_driver_work s3 else s3)
            in (MLN_STATUS_OK,
                with_frame f (\<lambda>x. x\<lparr>frame_valid := False\<rparr>)
                  (S\<lparr>session := leave_section s4,
                     hosts := add_mset [Removing_frame f sync immediately] (hosts S)\<rparr>)))"

definition remove_frame :: "nat \<Rightarrow> mln_gpu_sync \<Rightarrow> bool \<Rightarrow> session_system \<Rightarrow> activation list \<times> session_system" where
  "remove_frame f sync immediately S =
     (if gpu_sync_names_object (gpu_sync_kind sync) \<and> immediately then [Releasing f sync] else [],
      with_frame f (\<lambda>x. x\<lparr>frame_handle := Handle_gone\<rparr>) S)"

definition discard_slot :: "nat \<Rightarrow> render_session \<Rightarrow> render_session" where
  "discard_slot i s =
     (let s1 = s\<lparr>acquired_frame_count := acquired_frame_count s - 1\<rparr> in
      leave_section (if i < length (slots s1)
        then quarantine_slot i (s1\<lparr>slots := (slots s1)[i := fresh_slot]\<rparr>) else s1))"

text \<open>The second section of a drain: room for the results to come, and the results.\<close>

definition drain_results :: "render_session \<Rightarrow> render_session" where
  "drain_results s =
     (case allocate s of (ok, s1) \<Rightarrow>
        if \<not> ok then s1
        else s1\<lparr>results_capacity := unfinished_demands s1, taken_results := taken_results s1 @ frame_results s1,
          frame_results := [], frame_wake_pending := False\<rparr>)"

section \<open>One action of a thread\<close>

primrec cancel_work ::
    "driver_work \<Rightarrow> mln_status \<Rightarrow> session_system \<Rightarrow> activation list \<Rightarrow> activation list \<times> session_system" where
  "cancel_work (Attach_work op) status S k = (Completing op status # k, S)"
| "cancel_work (Demand_work _) status S k = (k, S)"
| "cancel_work (Scheduler_work _) status S k = (k, S)"
| "cancel_work (Barrier_work op) status S k = (Completing op status # k, S)"
| "cancel_work (Release_work f sync) status S k = (Releasing f sync # k, S)"
| "cancel_work (Retarget_work op _ _ _ _) status S k = (Completing op status # k, S)"
| "cancel_work (Release_target_work op) status S k = (Completing op status # k, S)"
| "cancel_work (Resize_work op _) status S k = (Completing op status # k, S)"
| "cancel_work (Detach_work op) status S k = (Completing op status # k, S)"
| "cancel_work (Operation_work op) status S k = (Completing op status # k, S)"
| "cancel_work (Pending_work op) status S k = (Completing op status # k, S)"

text \<open>An operation's callable may leave the rest of its result as work at the front of the queue.\<close>

definition run_operation ::
    "answers \<Rightarrow> driver_work \<Rightarrow> nat \<Rightarrow> session_system \<Rightarrow> activation list \<Rightarrow> activation list \<times> session_system" where
  "run_operation ans w op S k =
     (case answer_throws ans of
        Some status \<Rightarrow> (Throwing w status # k, S)
      | None \<Rightarrow>
          if answer_status ans = MLN_STATUS_OK \<and> answer_pending ans
          then (k, S\<lparr>session := leave_section (publish_driver_work
            ((session S)\<lparr>driver_work := Pending_work op # driver_work (session S), pending_result_ready := False\<rparr>))\<rparr>)
          else (Operation_ended op (answer_status ans) # k, S))"

definition run_detach ::
    "answers \<Rightarrow> nat option \<Rightarrow> session_system \<Rightarrow> activation list \<Rightarrow> activation list \<times> session_system" where
  "run_detach ans op S k =
     (let ended = (\<lambda>status. (case op of None \<Rightarrow> [] | Some n \<Rightarrow> [Completing n status]) @ k) in
      if \<not> attached (session S) then fail_session MLN_STATUS_INVALID_STATE (ended MLN_STATUS_INVALID_STATE) S
      else (case answer_throws ans of
        Some status \<Rightarrow> ((case op of None \<Rightarrow> [] | Some n \<Rightarrow> [Throwing (Detach_work n) status]) @ k, S)
      | None \<Rightarrow>
          if answer_status ans \<noteq> MLN_STATUS_OK then fail_session (answer_status ans) (ended (answer_status ans)) S
          else (Detach_finish op # k, S\<lparr>session := detach_render_session (session S)\<rparr>)))"

definition take_work :: "nat \<Rightarrow> session_system \<Rightarrow> activation list \<Rightarrow> activation list \<times> session_system" where
  "take_work expected S k =
     (case take_demand expected (session S) of
        (None, s1) \<Rightarrow> (k, S\<lparr>session := s1\<rparr>)
      | (Some (d, releasing), s1) \<Rightarrow> (Attempt_begun d releasing # k, S\<lparr>session := s1\<rparr>))"

fun run_work ::
    "answers \<Rightarrow> driver_work \<Rightarrow> session_system \<Rightarrow> activation list \<Rightarrow> activation list \<times> session_system" where
  "run_work ans (Attach_work op) S k =
     (if map_created (session S) \<noteq> Some True
      then fail_session MLN_STATUS_INVALID_STATE (Completing op MLN_STATUS_INVALID_STATE # k) S
      else (case answer_throws ans of
        Some status \<Rightarrow> (Throwing (Attach_work op) status # k, S)
      | None \<Rightarrow>
          if answer_status ans \<noteq> MLN_STATUS_OK
          then fail_session (answer_status ans) (Completing op (answer_status ans) # k) S
          else (Attach_ready op # k, S)))"
| "run_work ans (Demand_work expected) S k = take_work expected S k"
| "run_work ans (Scheduler_work expected) S k =
     (let s = (session S)\<lparr>scheduler_service_queued := False\<rparr> in
      if session_state s \<noteq> MLN_RENDER_SESSION_STATE_ATTACHED \<and> session_state s \<noteq> MLN_RENDER_SESSION_STATE_DETACHING
      then (k, S\<lparr>session := s\<rparr>)
      else (Scheduler_delivering expected # k, S\<lparr>session := s\<rparr>))"
| "run_work ans (Barrier_work op) S k =
     (Completing op MLN_STATUS_OK # k, S\<lparr>session := leave_section (arm_still_image_demand
        ((session S)\<lparr>pending_frame_barriers := pending_frame_barriers (session S) - 1\<rparr>))\<rparr>)"
| "run_work ans (Release_work f sync) S k = release_sync ans f sync S k"
| "run_work ans (Retarget_work op kind logical physical identity) S k =
     set_target ans op kind logical physical identity S k"
| "run_work ans (Release_target_work op) S k = release_target ans op S k"
| "run_work ans (Resize_work op logical) S k =
     (let s = session S in
      if session_state s \<noteq> MLN_RENDER_SESSION_STATE_ATTACHED then (Completing op MLN_STATUS_INVALID_STATE # k, S)
      else (Resize_record op logical (physical_dimension (logical_size_width logical) (scale_factor s),
              physical_dimension (logical_size_height logical) (scale_factor s)) # k,
            S\<lparr>session := invalidate_unacquired_texture_frames s\<rparr>))"
| "run_work ans (Detach_work op) S k = run_detach ans (Some op) S k"
| "run_work ans (Operation_work op) S k = run_operation ans (Operation_work op) op S k"
| "run_work ans (Pending_work op) S k = run_operation ans (Pending_work op) op S k"


fun run_activation ::
    "answers \<Rightarrow> activation \<Rightarrow> activation list \<Rightarrow> session_system \<Rightarrow> activation list \<times> session_system" where
  "run_activation ans Service_loop k S = service_pass S k"
| "run_activation ans Driver_call_end k S = (k, S\<lparr>session := end_driver_call (session S)\<rparr>)"
| "run_activation ans (Running w) k S = run_work ans w S k"
| "run_activation ans (Throwing w status) k S = throw_work w status S k"
| "run_activation ans (Cancelling w status) k S = cancel_work w status S k"
| "run_activation ans Failing k S =
     (let s = session S in
      if driver_work s = [] then (k, S)
      else (Cancelling (hd (driver_work s)) (failure_status s) # Failing # k,
        S\<lparr>session := s\<lparr>driver_work := tl (driver_work s)\<rparr>\<rparr>))"
| "run_activation ans (Completing op status) k S =
     (k, S\<lparr>session := (session S)\<lparr>completed := completed (session S) @ [(op, status)]\<rparr>\<rparr>)"
| "run_activation ans (Operation_ended op status) k S = end_operation op status S k"
| "run_activation ans (Attach_ready op) k S =
     (Completing op MLN_STATUS_OK # k, S\<lparr>session := attach_session (session S)\<rparr>)"
| "run_activation ans (Scheduler_delivering expected) k S =
     deliver_pending_session_work (answer_delivery ans)
       (\<lambda>_. (case expected of None \<Rightarrow> [] | Some d \<Rightarrow> [Running (Demand_work d)]) @ k) S"
| "run_activation ans (Attempt_begun d releasing) k S = (begin_attempt d releasing (session S) # k, S)"
| "run_activation ans (Attempt p a) k S = run_attempt ans p a S k"
| "run_activation ans Attempt_returning k S = deliver_pending_session_work (answer_delivery ans) (\<lambda>_. k) S"
| "run_activation ans (Releasing f sync) k S = release_sync ans f sync S k"
| "run_activation ans (Release_waited f sync status) k S =
     (k, S\<lparr>session := release_slot (frame_slot (frames S ! f)) sync status (session S)\<rparr>)"
| "run_activation ans (Retarget_swap op kind logical physical identity) k S =
     (Retarget_reset op kind logical physical identity # k,
      S\<lparr>session := (session S)\<lparr>target_released := False, target_identity := identity\<rparr>\<rparr>)"
| "run_activation ans (Retarget_reset op kind logical physical identity) k S =
     (Settle_retarget op kind (Retarget_work op kind logical physical identity) (Inr MLN_STATUS_OK) # k,
      S\<lparr>session := reset_target kind logical physical (session S)\<rparr>)"
| "run_activation ans (Settle_retarget op kind w outcome) k S =
     after_settle op w outcome (S\<lparr>session := settle_retarget kind (session S)\<rparr>) k"
| "run_activation ans (Release_target_record op) k S =
     (Settle_release op (Release_target_work op) (Inr MLN_STATUS_OK) # k,
      S\<lparr>session := record_released_target (session S)\<rparr>)"
| "run_activation ans (Settle_release op w outcome) k S =
     after_settle op w outcome (S\<lparr>session := settle_release (session S)\<rparr>) k"
| "run_activation ans (Resize_record op logical physical) k S =
     (case (if target_released (session S) then None else answer_throws ans) of
        Some status \<Rightarrow> (Throwing (Resize_work op logical) status # k, S)
      | None \<Rightarrow> (Completing op MLN_STATUS_OK # k, S\<lparr>session := record_resize logical physical (session S)\<rparr>))"
| "run_activation ans (Detach_run op) k S = run_detach ans op S k"
| "run_activation ans (Detach_finish op) k S =
     ((case op of None \<Rightarrow> [] | Some n \<Rightarrow> [Completing n MLN_STATUS_OK]) @ k,
      S\<lparr>session := finish_detach (session S)\<rparr>)"
| "run_activation ans (Disposal_begin marks) k S = begin_disposal_detach marks S k"
| "run_activation ans (Disposal_end marks detaching) k S = end_disposal_detach marks detaching S k"
| "run_activation ans (Inserting_frame f) k S = (k, insert_frame ans f S)"
| "run_activation ans (Removing_frame f sync immediately) k S =
     (case remove_frame f sync immediately S of (r, S1) \<Rightarrow> (r @ k, S1))"
| "run_activation ans (Discard_removing f) k S =
     (Discard_finishing f # k, with_frame f (\<lambda>x. x\<lparr>frame_handle := Handle_gone\<rparr>) S)"
| "run_activation ans (Discard_finishing f) k S =
     (k, S\<lparr>session := discard_slot (frame_slot (frames S ! f)) (session S)\<rparr>)"
| "run_activation ans Draining k S = (k, S\<lparr>session := drain_results (session S)\<rparr>)"
| "run_activation ans (Abandon_begin by_disposal) k S = abandon_render_session ans by_disposal S k"
| "run_activation ans (Abandon_finish by_disposal) k S =
     (if by_disposal then Destroying # k else k, S\<lparr>session := finish_abandon (session S)\<rparr>)"
| "run_activation ans Lane_submit k S = (k, S\<lparr>lane_submitted := True\<rparr>)"
| "run_activation ans Destroying k S = destroy_render_session ans S k"

section \<open>The calls of a host\<close>

text \<open>\<open>render_session_demand_frame\<close>: what it checks before it leases the session, and its section.\<close>

definition validate_demand :: "mln_frame_demand \<Rightarrow> mln_status" where
  "validate_demand d =
     (if frame_demand_size d < sizeof_mln_frame_demand then MLN_STATUS_INVALID_ARGUMENT
      else if has_unknown_bits (frame_demand_flags d)
        (mln_frame_demand_flag_code MLN_FRAME_DEMAND_FORCE OR mln_frame_demand_flag_code MLN_FRAME_DEMAND_WAIT_FOR_UPDATE)
      then MLN_STATUS_INVALID_ARGUMENT
      else if has_flag (frame_demand_flags d) (mln_frame_demand_flag_code MLN_FRAME_DEMAND_WAIT_FOR_UPDATE)
        \<and> has_flag (frame_demand_flags d) (mln_frame_demand_flag_code MLN_FRAME_DEMAND_FORCE)
      then MLN_STATUS_INVALID_ARGUMENT
      else if frame_demand_token d = MLN_FRAME_DEMAND_TOKEN_STILL_IMAGE then MLN_STATUS_INVALID_ARGUMENT
      else MLN_STATUS_OK)"

definition supersedes :: "mln_frame_demand \<Rightarrow> queued_demand \<Rightarrow> bool" where
  "supersedes d pending \<longleftrightarrow>
     \<not> has_flag (frame_demand_flags d) (mln_frame_demand_flag_code MLN_FRAME_DEMAND_FORCE)
     \<and> frame_demand_flags pending = frame_demand_flags d \<and> \<not> is_still_image pending"

definition supersede_demands :: "mln_frame_demand \<Rightarrow> render_session \<Rightarrow> render_session" where
  "supersede_demands d s =
     (let s1 = (fold (finish_demand MLN_RENDER_RESULT_SUPERSEDED)
            (filter (supersedes d) (update_waiting_demands s)) s)
          \<lparr>update_waiting_demands := filter (\<lambda>p. \<not> supersedes d p) (update_waiting_demands s)\<rparr>
      in (fold (finish_demand MLN_RENDER_RESULT_SUPERSEDED) (filter (supersedes d) (demands s1)) s1)
          \<lparr>demands := filter (\<lambda>p. \<not> supersedes d p) (demands s1)\<rparr>)"

definition accept_demand :: "mln_frame_demand \<Rightarrow> render_session \<Rightarrow> mln_status \<times> render_session" where
  "accept_demand d s =
     (case reserve_frame_result s of (reserved, s1) \<Rightarrow>
        if \<not> reserved then (MLN_STATUS_NATIVE_ERROR, s1)
        else (case allocate s1 of (made, s2) \<Rightarrow>
          if \<not> made then (MLN_STATUS_NATIVE_ERROR, s2)
          else let queued = new_demand (frame_demand_size d) (frame_demand_flags d) (frame_demand_token d)
                 (if the_map s2 \<noteq> None then map_commands_sent (map_of_session s2) else 0) s2 in
            (case allocate s2 of (pushed, s3) \<Rightarrow>
               if \<not> pushed then (MLN_STATUS_NATIVE_ERROR, s3)
               else let s4 = push_driver_work (Demand_work (demand_id queued))
                      (s3\<lparr>demands := demands s3 @ [queued], next_demand := next_demand s3 + 1\<rparr>) in
                 (MLN_STATUS_OK, s4\<lparr>unfinished_demands := unfinished_demands s4 + 1, redraw_wake_pending := False,
                    accepted_tokens := accepted_tokens s4 @ [frame_demand_token d]\<rparr>))))"

definition demand_frame :: "mln_frame_demand \<Rightarrow> render_session \<Rightarrow> mln_status \<times> render_session" where
  "demand_frame d s =
     (if session_state s \<noteq> MLN_RENDER_SESSION_STATE_ATTACHING \<and> session_state s \<noteq> MLN_RENDER_SESSION_STATE_ATTACHED
      then (unusable_session_status s, s)
      else if every_slot_quarantined s then (MLN_STATUS_INVALID_STATE, s)
      else (case accept_demand d (supersede_demands d s) of (status, s1) \<Rightarrow> (status, leave_section s1)))"

definition set_frame_pacer :: "bool \<Rightarrow> render_session \<Rightarrow> mln_status \<times> render_session" where
  "set_frame_pacer paced s =
     (if session_state s \<noteq> MLN_RENDER_SESSION_STATE_ATTACHING \<and> session_state s \<noteq> MLN_RENDER_SESSION_STATE_ATTACHED
      then (unusable_session_status s, s)
      else if has_redraw_wake s then (MLN_STATUS_INVALID_STATE, s)
      else (MLN_STATUS_OK, leave_section (request_redraw (s\<lparr>has_pacer := paced, redraw_wake_pending := False\<rparr>))))"

text \<open>A submission: it queues its work while the session is attached, if the work can be allocated.\<close>

definition submit_work ::
    "driver_work \<Rightarrow> (render_session \<Rightarrow> mln_status) \<Rightarrow> (render_session \<Rightarrow> render_session) \<Rightarrow> render_session
      \<Rightarrow> mln_status \<times> render_session" where
  "submit_work w check commit s =
     (if session_state s \<noteq> MLN_RENDER_SESSION_STATE_ATTACHED then (MLN_STATUS_INVALID_STATE, s)
      else if check s \<noteq> MLN_STATUS_OK then (check s, s)
      else (case allocate s of (ok, s1) \<Rightarrow>
        if \<not> ok then (MLN_STATUS_NATIVE_ERROR, s1)
        else (MLN_STATUS_OK, leave_section (publish_driver_work (commit (s1\<lparr>driver_work := driver_work s1 @ [w]\<rparr>))))))"

definition submit_operation :: "nat \<Rightarrow> render_session \<Rightarrow> mln_status \<times> render_session" where
  "submit_operation op = submit_work (Operation_work op) (\<lambda>_. MLN_STATUS_OK) id"

definition submit_retarget ::
    "nat \<Rightarrow> retarget_target_kind \<Rightarrow> nat \<Rightarrow> mln_logical_size \<Rightarrow> u32 \<times> u32 \<Rightarrow> u64 list \<Rightarrow> render_session
      \<Rightarrow> mln_status \<times> render_session" where
  "submit_retarget op kind texture_count logical physical identity =
     submit_work (Retarget_work op kind logical physical identity)
       (\<lambda>s. if kind = Target_surface then MLN_STATUS_OK
          else if acquired_frame_count s \<noteq> 0 then MLN_STATUS_INVALID_STATE
          else if texture_count \<noteq> length (slots s) then MLN_STATUS_INVALID_ARGUMENT
          else MLN_STATUS_OK)
       (\<lambda>s. if kind = Target_borrowed_texture then s\<lparr>pending_retargets := pending_retargets s + 1\<rparr> else s)"

definition submit_release_target :: "nat \<Rightarrow> render_session \<Rightarrow> mln_status \<times> render_session" where
  "submit_release_target op =
     submit_work (Release_target_work op)
       (\<lambda>s. if session_kind s = Texture \<and> texture_mode s \<noteq> Borrowed then MLN_STATUS_UNSUPPORTED
          else if acquired_frame_count s \<noteq> 0 then MLN_STATUS_INVALID_STATE
          else MLN_STATUS_OK)
       (\<lambda>s. let s1 = s\<lparr>pending_target_releases := pending_target_releases s + 1\<rparr> in
          if session_kind s1 \<noteq> Texture then s1
          else (invalidate_unacquired_texture_frames s1)\<lparr>pending_retargets := pending_retargets s1 + 1\<rparr>)"

definition submit_barrier :: "nat \<Rightarrow> render_session \<Rightarrow> mln_status \<times> render_session" where
  "submit_barrier op =
     submit_work (Barrier_work op) (\<lambda>_. MLN_STATUS_OK)
       (\<lambda>s. finish_demands MLN_RENDER_RESULT_NO_UPDATE (s\<lparr>pending_frame_barriers := pending_frame_barriers s + 1\<rparr>))"

definition submit_detach :: "nat \<Rightarrow> render_session \<Rightarrow> mln_status \<times> render_session" where
  "submit_detach op =
     submit_work (Detach_work op)
       (\<lambda>s. if acquired_frame_count s \<noteq> 0 then MLN_STATUS_INVALID_STATE else MLN_STATUS_OK)
       (\<lambda>s. s\<lparr>session_state := MLN_RENDER_SESSION_STATE_DETACHING, generation := generation s + 1\<rparr>)"

text \<open>
  The second section of \<open>render_session_resize_start\<close>, where the map took its half; the first has checked that the
  session is attached, is not a borrowed ring and lends no frame.
\<close>

definition submit_resize :: "nat \<Rightarrow> mln_logical_size \<Rightarrow> render_session \<Rightarrow> mln_status \<times> render_session" where
  "submit_resize op logical =
     submit_work (Resize_work op logical) (\<lambda>_. MLN_STATUS_OK)
       (\<lambda>s. invalidate_unacquired_texture_frames (s\<lparr>pending_changes := True\<rparr>))"

text \<open>\<open>render_session_drain_frame_results\<close>: its two sections.\<close>

definition drain_begin :: "session_system \<Rightarrow> session_system" where
  "drain_begin S =
     (if frame_results (session S) = [] then S\<lparr>session := (session S)\<lparr>frame_wake_pending := False\<rparr>\<rparr>
      else S\<lparr>hosts := add_mset [Draining] (hosts S)\<rparr>)"

text \<open>\<open>dispose_render_session\<close>; a release refuses a session whose frames the host holds.\<close>

definition dispose_render_session :: "bool \<Rightarrow> bool \<Rightarrow> session_system \<Rightarrow> bool \<times> session_system" where
  "dispose_render_session quarantine refuses_held S =
     (let s = session S in
      if disposal_requested s then (False, S)
      else if refuses_held \<and> acquired_frame_count s \<noteq> 0 then (False, S)
      else
        let caller_driven = (session_driver s = MLN_RENDER_DRIVER_CALLER_GRAPHICS_THREAD);
            detach_on_driver = (\<not> quarantine
              \<and> (caller_driven \<or> session_driver s = MLN_RENDER_DRIVER_CORE_WORKER)
              \<and> session_state s = MLN_RENDER_SESSION_STATE_ATTACHED \<and> \<not> views_invalidated s
              \<and> acquired_frame_count s = 0 \<and> active_views s = 0);
            s1 = s\<lparr>disposal_requested := True\<rparr>;
            s2 = (if detach_on_driver then
                (let s3 = s1\<lparr>disposal_detach := True\<rparr> in
                 if caller_driven \<and> holds_wakes s3 \<and> \<not> driver_wake_pending s3
                 then owe Driver_wake (s3\<lparr>driver_wake_pending := True\<rparr>) else s3)
              else s1\<lparr>views_invalidated := True, stop_worker := True\<rparr>)
        in (True, S\<lparr>session := leave_section s2, lane_submitted := lane_submitted S \<or> \<not> detach_on_driver\<rparr>))"

text \<open>\<open>abandon_unserviced_disposal\<close>: the map closes before the host serviced the detach.\<close>

definition abandon_unserviced_disposal :: "session_system \<Rightarrow> session_system" where
  "abandon_unserviced_disposal S =
     (let s = session S in
      if \<not> disposal_detach s then S
      else S\<lparr>session := s\<lparr>disposal_detach := False, views_invalidated := True, stop_worker := True\<rparr>,
             lane_submitted := True\<rparr>)"

section \<open>Notices\<close>

definition notify_map_update :: "u64 \<Rightarrow> render_session \<Rightarrow> render_session" where
  "notify_map_update g s =
     (let s1 = s\<lparr>map_update_generation := g\<rparr>;
          s2 = (if g \<noteq> rendered_update_generation s1 then s1\<lparr>pending_changes := True\<rparr> else s1)
      in leave_section (resume_update_waiting_demands s2))"

definition notify_map_commands :: "render_session \<Rightarrow> render_session" where
  "notify_map_commands s =
     (if session_state s \<noteq> MLN_RENDER_SESSION_STATE_ATTACHED then s else leave_section (publish_driver_work s))"

definition notify_still_image :: "render_session \<Rightarrow> render_session" where
  "notify_still_image s =
     (if session_state s \<noteq> MLN_RENDER_SESSION_STATE_ATTACHED then s
      else if map_still_image (map_of_session s) \<noteq> 0 then leave_section (arm_still_image_demand s)
      else leave_section ((fold (finish_demand MLN_RENDER_RESULT_NO_UPDATE)
              (filter is_still_image (update_waiting_demands s)) s)
            \<lparr>update_waiting_demands := filter (\<lambda>p. \<not> is_still_image p) (update_waiting_demands s)\<rparr>))"

definition schedule_service :: "render_session \<Rightarrow> render_session" where
  "schedule_service s =
     (if scheduler_service_queued s
        \<or> (session_state s \<noteq> MLN_RENDER_SESSION_STATE_ATTACHED \<and> session_state s \<noteq> MLN_RENDER_SESSION_STATE_DETACHING)
      then s
      else (case allocate s of (ok, s1) \<Rightarrow>
        if \<not> ok then s1
        else leave_section ((push_driver_work
               (Scheduler_work (case demands s1 of [] \<Rightarrow> None | d # _ \<Rightarrow> Some (demand_id d))) s1)
             \<lparr>scheduler_service_queued := True\<rparr>)))"

definition gpu_work_done :: "render_session \<Rightarrow> render_session" where
  "gpu_work_done s = leave_section (publish_driver_work (s\<lparr>gpu_frames_in_flight := 0, gpu_wait_pending := False\<rparr>))"

definition resume_driver_work :: "render_session \<Rightarrow> render_session" where
  "resume_driver_work s = leave_section (publish_driver_work s)"

section \<open>Every step of a session\<close>

definition with_session :: "(render_session \<Rightarrow> render_session) \<Rightarrow> session_system \<Rightarrow> session_system" where
  "with_session f S = S\<lparr>session := f (session S)\<rparr>"

definition leased_frame :: "nat \<Rightarrow> session_system \<Rightarrow> bool" where
  "leased_frame f S \<longleftrightarrow> f < length (frames S) \<and> frame_handle (frames S ! f) = Handle_live"

text \<open>
  A call that leased the session may take the lock after a disposal or a release of the handle, so the steps
  below do not ask for a live handle.
\<close>

inductive session_step :: "session_system \<Rightarrow> session_system \<Rightarrow> bool" where
  step_driver: "driver S = a # k \<Longrightarrow> run_activation ans a k S = (k', S') \<Longrightarrow> session_step S (S'\<lparr>driver := k'\<rparr>)"
| step_worker: "driver S = [] \<Longrightarrow> session_driver (session S) = MLN_RENDER_DRIVER_CORE_WORKER \<Longrightarrow> \<not> worker_stopped S \<Longrightarrow>
     worker_ready (session S) \<Longrightarrow> core_worker_step S = (k', S') \<Longrightarrow> session_step S (S'\<lparr>driver := k'\<rparr>)"
| step_service: "driver S = [] \<Longrightarrow> service_begin right_thread (session S) = MLN_STATUS_OK \<Longrightarrow>
     session_step S (with_session (\<lambda>s. s\<lparr>driver_call_in_flight := True\<rparr>) S\<lparr>driver := [Service_loop, Driver_call_end]\<rparr>)"
| step_host: "hosts S = add_mset (a # k) H \<Longrightarrow> run_activation ans a k (S\<lparr>hosts := H\<rparr>) = (k', S') \<Longrightarrow>
     session_step S (S'\<lparr>hosts := (if k' = [] then hosts S' else add_mset k' (hosts S'))\<rparr>)"
| step_demand: "validate_demand d = MLN_STATUS_OK \<Longrightarrow>
     session_step S (with_session (\<lambda>s. snd (demand_frame d s)) S)"
| step_pacer: "session_step S (with_session (\<lambda>s. snd (set_frame_pacer paced s)) S)"
| step_drain: "session_step S (drain_begin S)"
| step_acquire: "session_step S (snd (acquire_frame S))"
| step_view: "leased_frame f S \<Longrightarrow> session_step S (snd (begin_view f S))"
| step_end_view: "f < length (frames S) \<Longrightarrow> frame_views (frames S ! f) \<noteq> 0 \<Longrightarrow> session_step S (end_view f S)"
| step_release: "leased_frame f S \<Longrightarrow> validate_consumer_sync sync = MLN_STATUS_OK \<Longrightarrow>
     session_step S (snd (release_frame f sync S))"
| step_discard: "leased_frame f S \<Longrightarrow> frame_valid (frames S ! f) \<Longrightarrow>
     session_step S (with_frame f (\<lambda>x. x\<lparr>frame_valid := False\<rparr>) S\<lparr>hosts := add_mset [Discard_removing f] (hosts S)\<rparr>)"
| step_operation: "session_step S (with_session (\<lambda>s. snd (submit_operation (next_operation S) s)) S
     \<lparr>next_operation := next_operation S + 1\<rparr>)"
| step_retarget: "retarget_kind_status kind (session S) = MLN_STATUS_OK \<Longrightarrow>
     session_step S (with_session (\<lambda>s. snd (submit_retarget (next_operation S) kind texture_count logical physical identity s)) S
       \<lparr>next_operation := next_operation S + 1\<rparr>)"
| step_release_target: "session_step S (with_session (\<lambda>s. snd (submit_release_target (next_operation S) s)) S
     \<lparr>next_operation := next_operation S + 1\<rparr>)"
| step_barrier: "session_step S (with_session (\<lambda>s. snd (submit_barrier (next_operation S) s)) S
     \<lparr>next_operation := next_operation S + 1\<rparr>)"
| step_resize: "\<not> (session_kind (session S) = Texture \<and> texture_mode (session S) = Borrowed) \<Longrightarrow>
     session_step S (with_session (\<lambda>s. snd (submit_resize (next_operation S) logical s)) S
       \<lparr>next_operation := next_operation S + 1\<rparr>)"
| step_detach: "session_step S (with_session (\<lambda>s. snd (submit_detach (next_operation S) s)) S
     \<lparr>next_operation := next_operation S + 1\<rparr>)"
| step_abandon: "session_step S (S\<lparr>hosts := add_mset [Abandon_begin False] (hosts S)\<rparr>)"
| step_dispose: "session_step S (snd (dispose_render_session quarantine refuses_held S))"
| step_unserviced: "session_driver (session S) = MLN_RENDER_DRIVER_CALLER_GRAPHICS_THREAD \<Longrightarrow>
     session_step S (abandon_unserviced_disposal S)"
| step_lane: "lane_submitted S \<Longrightarrow> \<not> driver_call_in_flight (session S) \<Longrightarrow> active_views (session S) = 0 \<Longrightarrow>
     session_step S (S\<lparr>lane_submitted := False, hosts := add_mset [Abandon_begin True] (hosts S)\<rparr>)"
| step_map_update: "session_step S (with_session (notify_map_update g) S)"
| step_map_commands: "session_step S (with_session notify_map_commands S)"
| step_still_image: "session_step S (with_session notify_still_image S)"
| step_scheduler: "session_step S (with_session schedule_service S)"
| step_gpu: "gpu_wait_pending (session S) \<Longrightarrow> session_step S (with_session gpu_work_done S)"
| step_created: "map_created (session S) = None \<Longrightarrow>
     session_step S (with_session (\<lambda>s. resume_driver_work (s\<lparr>map_created := Some created\<rparr>)) S)"
| step_result_ready: "session_step S (with_session (\<lambda>s. resume_driver_work (s\<lparr>pending_result_ready := True\<rparr>)) S)"
| step_map: "the_map (session S) \<noteq> None \<Longrightarrow> session_step S (with_session (\<lambda>s. s\<lparr>the_map := Some m\<rparr>) S)"
| step_memory: "session_step S (with_session (\<lambda>s. s\<lparr>memory := outcomes\<rparr>) S)"

text \<open>
  A session whose attachment \<open>start_attach_render_session\<close> has committed: a ring of the target's depth, no ring
  for a surface, and the attach queued for the driver.
\<close>

definition attaching_session ::
    "render_session_kind \<Rightarrow> texture_session_mode \<Rightarrow> nat \<Rightarrow> mln_render_driver_kind \<Rightarrow> mln_gpu_sync_kind_flags \<Rightarrow> u32
      \<Rightarrow> bool \<Rightarrow> bool \<Rightarrow> mln_logical_size \<Rightarrow> u32 \<times> u32 \<Rightarrow> double \<Rightarrow> u64 list \<Rightarrow> session_map \<Rightarrow> render_session" where
  "attaching_session kind mode depth session_drv consumer producer acquires redraw logical physical scale identity m =
     publish_driver_work
     \<lparr>demands = [], update_waiting_demands = [], frame_results = [], results_capacity = 0, unfinished_demands = 0,
      still_image_demands = 0, still_image_demand_generation = 0, still_image_rearm = False,
      pending_frame_barriers = 0, next_demand = 0, accepted_tokens = [], dropped_tokens = [], taken_results = [],
      texture_mode = mode, slots = (if kind = Texture then replicate depth fresh_slot else []),
      pending_retargets = 0, gpu_frames_in_flight = 0, gpu_wait_pending = False, acquired_frame_count = 0,
      driver_work = [Attach_work 0],
      session_kind = kind, session_driver = session_drv, acquires_frames = acquires, consumer_sync_kinds = consumer,
      producer_sync_kind = producer, session_state = MLN_RENDER_SESSION_STATE_ATTACHING,
      failure_status = MLN_STATUS_OK, extent = logical, physical_extent = physical, scale_factor = scale,
      generation = 1, map_update_generation = 0, rendered_update_generation = 0, rendered_target_generation = 0,
      frame_generation = 0, pending_changes = True, target_released = False, pending_target_releases = 0,
      target_identity = identity, attached = True, the_map = Some m, map_created = None,
      pending_result_ready = False, active_views = 0, views_invalidated = False, abandonment_complete = False,
      disposal_requested = False, disposal_detach = False, destruction_started = False,
      driver_call_in_flight = False, stop_worker = False, scheduler_service_queued = False, holds_wakes = True,
      has_pacer = False, has_redraw_wake = redraw, frame_wake_pending = False, driver_wake_pending = False,
      redraw_wake_pending = False, owed_wakes = [], fired_wakes = [], completed = [], memory = []\<rparr>"

definition attaching_system :: "render_session \<Rightarrow> session_system" where
  "attaching_system s = \<lparr>session = s, frames = [], driver = [], hosts = {#}, lane_submitted = False,
     worker_stopped = False, next_operation = 1\<rparr>"

inductive session_reachable :: "session_system \<Rightarrow> bool" where
  session_start: "session_reachable (attaching_system
     (attaching_session kind mode depth session_drv consumer producer acquires redraw logical physical scale identity m))"
| session_next: "session_reachable S \<Longrightarrow> session_step S S' \<Longrightarrow> session_reachable S'"

end
