(* ===== verification/Session_Runs.thy ===== *)
theory Session_Runs
  imports Render_Steps
begin

text \<open>
  A texture session with two slots that a host drives: \<open>drive\<close> runs one action of the driver, and the samples
  are reached that way.
\<close>

definition drive :: "answers \<Rightarrow> session_system \<Rightarrow> session_system" where
  "drive ans S = (case driver S of [] \<Rightarrow> S | a # k \<Rightarrow> (case run_activation ans a k S of (k', S') \<Rightarrow> S'\<lparr>driver := k'\<rparr>))"

lemma reachable_drive: "session_reachable S \<Longrightarrow> session_reachable (drive ans S)"
  by (auto simp: drive_def split: list.split prod.split intro: session_next step_driver)

lemma reachable_drives: "session_reachable S \<Longrightarrow> session_reachable ((drive ans ^^ n) S)"
  by (induction n) (simp_all add: reachable_drive)

definition good_engine :: engine_answers where
  "good_engine = \<lparr>engine_throws = None, has_renderer_backend = True, newest_update = (1, Some (16, 16)),
     surface_prepared = (MLN_STATUS_OK, True), surface_prepared_again = (MLN_STATUS_OK, True), renderer_made = True,
     sources_changed = False, feature_state_needs_warmup = False, warmup_render = Render_done, frame_render = Render_done,
     frame_completed = True, after_render = (MLN_STATUS_OK, True), rendered_view = zero_map_view, rendered_mode = 0,
     rendered_repaint = False\<rparr>"

definition good_answers :: answers where
  "good_answers = \<lparr>answer_status = MLN_STATUS_OK, answer_throws = None, answer_pending = False, answer_delivery = Delivered,
     answer_metadata = Some 5, answer_sync = \<lparr>gpu_sync_size = sizeof_mln_gpu_sync, gpu_sync_kind = 0, gpu_sync_handle = 0,
       gpu_sync_value = 0\<rparr>, answer_renders_ahead = False, answer_on_driver_thread = False,
     answer_on_abandoning_thread = False, answer_engine = good_engine\<rparr>"

definition attaching_sample :: session_system where
  "attaching_sample = attaching_system (attaching_session Texture Offscreen 2 MLN_RENDER_DRIVER_CALLER_GRAPHICS_THREAD
     (mln_gpu_sync_kind_flag_code MLN_GPU_SYNC_KIND_FLAG_CPU_COMPLETE) (mln_gpu_sync_kind_code MLN_GPU_SYNC_CPU_COMPLETE)
     True False \<lparr>logical_size_width = 16, logical_size_height = 16\<rparr> (16, 16) (Finite 1) []
     \<lparr>map_latest_update = 1, map_still_image = 0, map_commands_sent = 0, map_commands_applied = 0\<rparr>)"

text \<open>The map is there, and the host services the session as far as the end of its attach.\<close>

definition serviced_sample :: session_system where
  "serviced_sample = (let S = with_session (\<lambda>s. resume_driver_work (s\<lparr>map_created := Some True\<rparr>)) attaching_sample in
     with_session (\<lambda>s. s\<lparr>driver_call_in_flight := True\<rparr>) S\<lparr>driver := [Service_loop, Driver_call_end]\<rparr>)"

definition attached_sample :: session_system where
  "attached_sample = (drive good_answers ^^ 4) serviced_sample"

definition sample_demand :: mln_frame_demand where
  "sample_demand = \<lparr>frame_demand_size = sizeof_mln_frame_demand,
     frame_demand_flags = mln_frame_demand_flag_code MLN_FRAME_DEMAND_FORCE, frame_demand_token = 7\<rparr>"

definition demanded_sample :: session_system where
  "demanded_sample = with_session (\<lambda>s. snd (demand_frame sample_demand s)) attached_sample"

text \<open>The demand's attempt as far as its result, and the frame that it rendered, acquired.\<close>

definition attempting_sample :: session_system where
  "attempting_sample = (drive good_answers ^^ 4) demanded_sample"

definition rendered_sample :: session_system where
  "rendered_sample = (drive good_answers ^^ 7) attempting_sample"

definition acquired_sample :: session_system where
  "acquired_sample = snd (acquire_frame rendered_sample)"

lemmas run_defs = drive_def with_session_def service_pass_def Let_def driver_work_runnable_def frame_waits_for_gpu_def
  attach_session_def leave_section_def request_redraw_def arm_still_image_demand_def every_slot_quarantined_def
  resume_driver_work_def publish_driver_work_def owe_def map_of_session_def fresh_slot_def

lemmas start_defs = serviced_sample_def attaching_sample_def attaching_system_def attaching_session_def

lemmas demand_defs = demand_frame_def supersede_demands_def accept_demand_def reserve_frame_result_def allocate_def
  push_driver_work_def new_demand_def supersedes_def is_still_image_def sample_demand_def sizeof_mln_frame_demand_def
  take_work_def take_demand_def map_commands_ready_def begin_attempt_def start_attempt_def demand_forces_def

lemmas attempt_defs = run_attempt_def choose_render_slot_def choose_slot_def slot_busy_def render_frame_def render_update_def
  good_engine_def wait_surface_def render_once_def finish_update_def with_update_def with_disposition_def record_rendered_def
  number_frame_def record_metadata_def slot_acquirable_def backend_present_def store_frame_def leave_slot_def

lemma sample_token: "(7 :: u64) \<noteq> MLN_FRAME_DEMAND_TOKEN_STILL_IMAGE" "MLN_FRAME_DEMAND_TOKEN_STILL_IMAGE \<noteq> (7 :: u64)"
  by (simp_all add: MLN_FRAME_DEMAND_TOKEN_STILL_IMAGE_def)

lemma publish_rendered:
  assumes "holds_wakes s" "\<not> frame_wake_pending s" "owed_wakes s = []"
    "render_frame_result_token r \<noteq> MLN_FRAME_DEMAND_TOKEN_STILL_IMAGE"
    "render_frame_result_disposition r = mln_render_result_code MLN_RENDER_RESULT_RENDERED"
  shows "publish_and_rearm r s = s\<lparr>unfinished_demands := unfinished_demands s - 1,
    frame_results := frame_results s @ [r\<lparr>render_frame_result_size := sizeof_mln_render_frame_result\<rparr>],
    frame_wake_pending := True, fired_wakes := fired_wakes s @ [Frame_wake]\<rparr>"
  using assms by (simp add: publish_and_rearm_def publish_frame_result_def leave_section_def owe_def)

lemma drives_numeral: "(drive ans ^^ numeral n) S = drive ans ((drive ans ^^ pred_numeral n) S)"
  by (simp add: numeral_eq_Suc)

text \<open>The ring after one of its two frames was acquired.\<close>

lemma newest_of_two:
  "newest_slot [x, y] = (let k = (if newer_slot x y then 1 else 0) in
     if \<not> slot_ready ([x, y] ! k) \<or> slot_metadata ([x, y] ! k) = None then None else Some k)"
  by (simp add: newest_slot_def)

lemmas sample_defs = attempting_sample_def demanded_sample_def attached_sample_def start_defs run_defs drives_numeral
  numeral_2_eq_2
  good_answers_def demand_defs attempt_defs has_flag_def publish_rendered sample_token

lemmas acquire_defs = acquired_sample_def rendered_sample_def acquire_frame_def newest_of_two newer_slot_def slot_ready_def
  drop_older_def

lemma reachable_attaching: "session_reachable attaching_sample"
  unfolding attaching_sample_def by (rule session_start)

lemma reachable_serviced: "session_reachable serviced_sample"
proof -
  let ?S = "with_session (\<lambda>s. resume_driver_work (s\<lparr>map_created := Some True\<rparr>)) attaching_sample"
  have created: "session_reachable ?S"
    by (rule session_next [OF reachable_attaching], rule step_created) (simp add: start_defs run_defs)
  have "session_step ?S serviced_sample"
    unfolding serviced_sample_def Let_def
    by (rule step_service [where right_thread = True]) (simp_all add: start_defs run_defs service_begin_def)
  with created show ?thesis by (rule session_next)
qed

lemma reachable_attached: "session_reachable attached_sample"
  unfolding attached_sample_def by (rule reachable_drives [OF reachable_serviced])

lemma reachable_demanded: "session_reachable demanded_sample"
  unfolding demanded_sample_def
  by (rule session_next [OF reachable_attached], rule step_demand)
    (simp add: validate_demand_def sample_demand_def has_flag_def has_unknown_bits_def sizeof_mln_frame_demand_def sample_token)

lemma reachable_attempting: "session_reachable attempting_sample"
  unfolding attempting_sample_def by (rule reachable_drives [OF reachable_demanded])

lemma reachable_rendered: "session_reachable rendered_sample"
  unfolding rendered_sample_def by (rule reachable_drives [OF reachable_attempting])

lemma reachable_acquired: "session_reachable acquired_sample"
  unfolding acquired_sample_def by (rule session_next [OF reachable_rendered step_acquire])

text \<open>A disposal of the attached session, quarantined: it goes to the retirement lane.\<close>

definition disposed_sample :: session_system where
  "disposed_sample = snd (dispose_render_session True False attached_sample)"

lemma reachable_disposed: "session_reachable disposed_sample"
  unfolding disposed_sample_def by (rule session_next [OF reachable_attached step_dispose])

lemma attached_sample_is:
  "session_state (session attached_sample) = MLN_RENDER_SESSION_STATE_ATTACHED"
  "driver attached_sample = [Service_loop, Driver_call_end]" "hosts attached_sample = {#}"
  "lane_submitted attached_sample = False" "disposal_requested (session attached_sample) = False"
  by (simp_all add: sample_defs)

lemma disposed_sample_is:
  "session_state (session disposed_sample) = MLN_RENDER_SESSION_STATE_ATTACHED"
  "driver disposed_sample = [Service_loop, Driver_call_end]" "hosts disposed_sample = {#}"
  "lane_submitted disposed_sample" "disposal_requested (session disposed_sample)"
  using attached_sample_is
  by (simp_all add: disposed_sample_def dispose_render_session_def Let_def leave_section_def)

lemma rendered_sample_is:
  "accepted_tokens (session rendered_sample) = [7]" "demands (session rendered_sample) = []"
  "update_waiting_demands (session rendered_sample) = []" "driver rendered_sample = [Service_loop, Driver_call_end]"
  "dropped_tokens (session rendered_sample) = []" "results_capacity (session rendered_sample) = 1"
  "length (frame_results (session rendered_sample)) = 1" "holds_wakes (session rendered_sample)"
  by (simp_all add: sample_defs rendered_sample_def)

lemma attempting_sample_is:
  "accepted_tokens (session attempting_sample) = [7]" "demands (session attempting_sample) = []"
  "update_waiting_demands (session attempting_sample) = []" "dropped_tokens (session attempting_sample) = []"
  "frame_results (session attempting_sample) = []" "taken_results (session attempting_sample) = []"
  "\<exists>a. driver attempting_sample = [Attempt At_rendering a, Service_loop, Driver_call_end]
     \<and> frame_demand_token (attempt_demand a) = 7 \<and> attempt_slot a = Some 0"
  by (simp_all add: sample_defs)

end
