(* ===== verification/Session_Life.thy ===== *)
theory Session_Life
  imports Session_Runs
begin

text \<open>
  The life of a render session over every step of \<open>Render_Steps\<close>: what the driver's stack can be, that one
  retirement at most is under way, that the attach happens once, and that a session that failed, was
  abandoned or was detached stays over. \<open>Frame_Demands\<close> and \<open>Texture_Ring\<close> rest on these.
\<close>

section \<open>What most functions leave alone\<close>

fun is_attach :: "driver_work \<Rightarrow> bool" where
  "is_attach (Attach_work _) = True"
| "is_attach _ = False"

fun is_detach :: "driver_work \<Rightarrow> bool" where
  "is_detach (Detach_work _) = True"
| "is_detach _ = False"

text \<open>The queued work that changes the state of the session.\<close>

definition staged :: "render_session \<Rightarrow> driver_work list" where
  "staged s = filter (\<lambda>w. is_attach w \<or> is_detach w) (driver_work s)"

definition attach_works :: "render_session \<Rightarrow> nat" where
  "attach_works s = length (filter is_attach (staged s))"

definition detach_works :: "render_session \<Rightarrow> nat" where
  "detach_works s = length (filter is_detach (staged s))"

definition life_part where
  "life_part s = (session_state s, attached s, driver_call_in_flight s, disposal_requested s, disposal_detach s,
     session_driver s, views_invalidated s, staged s)"

text \<open>A function that leaves the life of the session alone.\<close>

locale keeps_life =
  fixes f :: "render_session \<Rightarrow> render_session"
  assumes keeps_life: "life_part (f s) = life_part s"
begin

lemma life_kept [simp]:
  "session_state (f s) = session_state s" "attached (f s) = attached s"
  "driver_call_in_flight (f s) = driver_call_in_flight s" "disposal_requested (f s) = disposal_requested s"
  "disposal_detach (f s) = disposal_detach s" "session_driver (f s) = session_driver s"
  "views_invalidated (f s) = views_invalidated s"
  "staged (f s) = staged s" "attach_works (f s) = attach_works s" "detach_works (f s) = detach_works s"
  using keeps_life [of s] by (simp_all add: life_part_def attach_works_def detach_works_def)

end

lemma staged_update [simp]:
  "staged (s\<lparr>driver_work := ws\<rparr>) = filter (\<lambda>w. is_attach w \<or> is_detach w) ws"
  by (simp add: staged_def)

lemma staged_fields [simp]:
  "staged (s\<lparr>demands := y1\<rparr>) = staged s"
  "staged (s\<lparr>update_waiting_demands := y2\<rparr>) = staged s"
  "staged (s\<lparr>frame_results := y3\<rparr>) = staged s"
  "staged (s\<lparr>results_capacity := y4\<rparr>) = staged s"
  "staged (s\<lparr>unfinished_demands := y5\<rparr>) = staged s"
  "staged (s\<lparr>still_image_demands := y6\<rparr>) = staged s"
  "staged (s\<lparr>still_image_demand_generation := y7\<rparr>) = staged s"
  "staged (s\<lparr>still_image_rearm := y8\<rparr>) = staged s"
  "staged (s\<lparr>pending_frame_barriers := y9\<rparr>) = staged s"
  "staged (s\<lparr>next_demand := y10\<rparr>) = staged s"
  "staged (s\<lparr>accepted_tokens := y11\<rparr>) = staged s"
  "staged (s\<lparr>dropped_tokens := y12\<rparr>) = staged s"
  "staged (s\<lparr>taken_results := y13\<rparr>) = staged s"
  "staged (s\<lparr>slots := x1\<rparr>) = staged s"
  "staged (s\<lparr>pending_retargets := x2\<rparr>) = staged s"
  "staged (s\<lparr>gpu_frames_in_flight := x3\<rparr>) = staged s"
  "staged (s\<lparr>gpu_wait_pending := x4\<rparr>) = staged s"
  "staged (s\<lparr>acquired_frame_count := x5\<rparr>) = staged s"
  "staged (s\<lparr>failure_status := x7\<rparr>) = staged s"
  "staged (s\<lparr>session_state := z1\<rparr>) = staged s"
  "staged (s\<lparr>extent := x8\<rparr>) = staged s"
  "staged (s\<lparr>physical_extent := x9\<rparr>) = staged s"
  "staged (s\<lparr>generation := x10\<rparr>) = staged s"
  "staged (s\<lparr>map_update_generation := x11\<rparr>) = staged s"
  "staged (s\<lparr>rendered_update_generation := x12\<rparr>) = staged s"
  "staged (s\<lparr>rendered_target_generation := x13\<rparr>) = staged s"
  "staged (s\<lparr>frame_generation := x14\<rparr>) = staged s"
  "staged (s\<lparr>pending_changes := x15\<rparr>) = staged s"
  "staged (s\<lparr>target_released := x16\<rparr>) = staged s"
  "staged (s\<lparr>pending_target_releases := x17\<rparr>) = staged s"
  "staged (s\<lparr>target_identity := x18\<rparr>) = staged s"
  "staged (s\<lparr>attached := x19\<rparr>) = staged s"
  "staged (s\<lparr>the_map := x20\<rparr>) = staged s"
  "staged (s\<lparr>map_created := x21\<rparr>) = staged s"
  "staged (s\<lparr>pending_result_ready := x22\<rparr>) = staged s"
  "staged (s\<lparr>active_views := x23\<rparr>) = staged s"
  "staged (s\<lparr>views_invalidated := x24\<rparr>) = staged s"
  "staged (s\<lparr>abandonment_complete := x25\<rparr>) = staged s"
  "staged (s\<lparr>disposal_requested := z2\<rparr>) = staged s"
  "staged (s\<lparr>disposal_detach := x26\<rparr>) = staged s"
  "staged (s\<lparr>destruction_started := x27\<rparr>) = staged s"
  "staged (s\<lparr>driver_call_in_flight := x28\<rparr>) = staged s"
  "staged (s\<lparr>stop_worker := x29\<rparr>) = staged s"
  "staged (s\<lparr>scheduler_service_queued := x30\<rparr>) = staged s"
  "staged (s\<lparr>holds_wakes := z3\<rparr>) = staged s"
  "staged (s\<lparr>has_pacer := x31\<rparr>) = staged s"
  "staged (s\<lparr>frame_wake_pending := z4\<rparr>) = staged s"
  "staged (s\<lparr>driver_wake_pending := x32\<rparr>) = staged s"
  "staged (s\<lparr>redraw_wake_pending := x33\<rparr>) = staged s"
  "staged (s\<lparr>owed_wakes := x34\<rparr>) = staged s"
  "staged (s\<lparr>fired_wakes := x35\<rparr>) = staged s"
  "staged (s\<lparr>completed := x36\<rparr>) = staged s"
  "staged (s\<lparr>memory := x37\<rparr>) = staged s"
  by (simp_all add: staged_def)

interpretation owe: keeps_life "owe w" for w
  by unfold_locales (simp add: life_part_def owe_def)

interpretation leave_section: keeps_life leave_section
  by unfold_locales (simp add: life_part_def leave_section_def)

interpretation allocate: keeps_life "\<lambda>s. snd (allocate s)"
  by unfold_locales (simp add: life_part_def allocate_def split: list.split)

interpretation publish_driver_work: keeps_life publish_driver_work
  by unfold_locales (simp add: life_part_def publish_driver_work_def)

lemma push_driver_work_life [simp]:
  "session_state (push_driver_work w s) = session_state s" "attached (push_driver_work w s) = attached s"
  "driver_call_in_flight (push_driver_work w s) = driver_call_in_flight s"
  "disposal_requested (push_driver_work w s) = disposal_requested s"
  "disposal_detach (push_driver_work w s) = disposal_detach s"
  "session_driver (push_driver_work w s) = session_driver s"
  "views_invalidated (push_driver_work w s) = views_invalidated s"
  "staged (push_driver_work w s) = staged s @ (if is_attach w \<or> is_detach w then [w] else [])"
  by (simp_all add: push_driver_work_def staged_def [of s])

interpretation queue_frame_demand_work: keeps_life "\<lambda>s. snd (queue_frame_demand_work d s)" for d
  by unfold_locales (simp add: life_part_def queue_frame_demand_work_def split_beta)

interpretation resume_parked_demand: keeps_life resume_parked_demand
  by unfold_locales (simp add: life_part_def resume_parked_demand_def)

interpretation request_redraw: keeps_life request_redraw
  by unfold_locales (simp add: life_part_def request_redraw_def Let_def)

interpretation invalidate: keeps_life invalidate_unacquired_texture_frames
  by unfold_locales (simp add: life_part_def invalidate_unacquired_texture_frames_def)

lemma queue_work_of_life: "life_part (queue_work_of ds s) = life_part s"
  by (induction ds arbitrary: s) (simp_all add: split_beta life_part_def)

interpretation queue_work_of: keeps_life "queue_work_of ds" for ds
  by unfold_locales (rule queue_work_of_life)

interpretation reserve_frame_result: keeps_life "\<lambda>s. snd (reserve_frame_result s)"
  by unfold_locales (simp add: life_part_def reserve_frame_result_def Let_def split_beta)

interpretation arm_still_image_demand: keeps_life arm_still_image_demand
  by unfold_locales (simp add: life_part_def arm_still_image_demand_def Let_def split_beta)

interpretation requeue_update_waiting_demands: keeps_life requeue_update_waiting_demands
  by unfold_locales (simp add: life_part_def requeue_update_waiting_demands_def)

interpretation resume_update_waiting_demands: keeps_life resume_update_waiting_demands
  by unfold_locales (simp add: life_part_def resume_update_waiting_demands_def Let_def)

interpretation publish_frame_result: keeps_life "publish_frame_result r" for r
  by unfold_locales (simp add: life_part_def publish_frame_result_def Let_def)

interpretation finish_demand: keeps_life "finish_demand disposition d" for disposition d
  by unfold_locales (simp add: life_part_def finish_demand_def)

lemma finish_each_life: "life_part (fold (finish_demand disposition) ds s) = life_part s"
  by (induction ds arbitrary: s) (simp_all add: finish_demand.keeps_life)

interpretation finish_each: keeps_life "fold (finish_demand disposition) ds" for disposition ds
  by unfold_locales (rule finish_each_life)

interpretation finish_waiting_demands: keeps_life "finish_waiting_demands disposition" for disposition
  by unfold_locales (simp add: life_part_def finish_waiting_demands_def)

interpretation finish_demands: keeps_life "finish_demands disposition" for disposition
  by unfold_locales (simp add: life_part_def finish_demands_def Let_def)

interpretation quarantine_slot: keeps_life "quarantine_slot k" for k
  by unfold_locales (simp add: life_part_def quarantine_slot_def Let_def)

interpretation publish_and_rearm: keeps_life "publish_and_rearm r" for r
  by unfold_locales (simp add: life_part_def publish_and_rearm_def Let_def)

interpretation finish_unready_attempt: keeps_life finish_unready_attempt
  by unfold_locales (simp add: life_part_def finish_unready_attempt_def)

interpretation record_rendered: keeps_life "record_rendered g" for g
  by unfold_locales (simp add: life_part_def record_rendered_def)

interpretation store_frame: keeps_life "store_frame ahead metadata sync a" for ahead metadata sync a
  by unfold_locales (simp add: life_part_def store_frame_def split: option.split)

interpretation leave_slot: keeps_life "leave_slot a" for a
  by unfold_locales (simp add: life_part_def leave_slot_def split: option.split)

interpretation take_demand: keeps_life "\<lambda>s. snd (take_demand d s)" for d
  by unfold_locales (simp add: life_part_def take_demand_def Let_def)

interpretation wait_for_map_update: keeps_life "\<lambda>s. snd (wait_for_map_update a s)" for a
  by unfold_locales (simp add: life_part_def wait_for_map_update_def Let_def split_beta)

interpretation settle_retarget: keeps_life "settle_retarget kind" for kind
  by unfold_locales (simp add: life_part_def settle_retarget_def)

interpretation settle_release: keeps_life settle_release
  by unfold_locales (simp add: life_part_def settle_release_def Let_def)

interpretation reset_target: keeps_life "reset_target kind logical physical" for kind logical physical
  by unfold_locales (simp add: life_part_def reset_target_def Let_def)

interpretation record_released_target: keeps_life record_released_target
  by unfold_locales (simp add: life_part_def record_released_target_def)

interpretation record_resize: keeps_life "record_resize logical physical" for logical physical
  by unfold_locales (simp add: life_part_def record_resize_def)

interpretation release_slot: keeps_life "release_slot i sync status" for i sync status
  by unfold_locales (simp add: life_part_def release_slot_def Let_def)

interpretation discard_slot: keeps_life "discard_slot i" for i
  by unfold_locales (simp add: life_part_def discard_slot_def Let_def)

interpretation drop_demands: keeps_life drop_demands
  by unfold_locales (simp add: life_part_def drop_demands_def)

interpretation drain_results: keeps_life drain_results
  by unfold_locales (simp add: life_part_def drain_results_def split_beta)

interpretation finish_abandon: keeps_life finish_abandon
  by unfold_locales (simp add: life_part_def finish_abandon_def)

interpretation destroy_section: keeps_life destroy_section
  by unfold_locales (simp add: life_part_def destroy_section_def)

interpretation supersede_demands: keeps_life "supersede_demands d" for d
  by unfold_locales (simp add: life_part_def supersede_demands_def Let_def)

interpretation accept_demand: keeps_life "\<lambda>s. snd (accept_demand d s)" for d
  by unfold_locales (simp add: life_part_def accept_demand_def Let_def split_beta)

interpretation demand_frame: keeps_life "\<lambda>s. snd (demand_frame d s)" for d
  by unfold_locales (simp add: life_part_def demand_frame_def split_beta)

interpretation set_frame_pacer: keeps_life "\<lambda>s. snd (set_frame_pacer paced s)" for paced
  by unfold_locales (simp add: life_part_def set_frame_pacer_def)

interpretation notify_map_update: keeps_life "notify_map_update g" for g
  by unfold_locales (simp add: life_part_def notify_map_update_def Let_def)

interpretation notify_map_commands: keeps_life notify_map_commands
  by unfold_locales (simp add: life_part_def notify_map_commands_def)

interpretation notify_still_image: keeps_life notify_still_image
  by unfold_locales (simp add: life_part_def notify_still_image_def)

interpretation schedule_service: keeps_life schedule_service
  by unfold_locales (simp add: life_part_def schedule_service_def split_beta)

interpretation gpu_work_done: keeps_life gpu_work_done
  by unfold_locales (simp add: life_part_def gpu_work_done_def)

interpretation resume_driver_work: keeps_life resume_driver_work
  by unfold_locales (simp add: life_part_def resume_driver_work_def)

text \<open>The submissions queue other work than an attach; only a detach changes the state.\<close>

lemma submit_work_life:
  assumes "\<not> is_attach w" "\<not> is_detach w" "\<And>s. life_part (commit s) = life_part s"
  shows "life_part (snd (submit_work w check commit s)) = life_part s"
proof -
  define s1 where "s1 = (snd (allocate s))\<lparr>driver_work := driver_work (snd (allocate s)) @ [w]\<rparr>"
  have "life_part s1 = life_part s"
    using assms(1,2) by (simp add: life_part_def s1_def flip: staged_def)
  with assms(3) [of s1] have "life_part (commit s1) = life_part s" by simp
  then show ?thesis
    by (simp add: submit_work_def split_beta allocate.keeps_life leave_section.keeps_life
        publish_driver_work.keeps_life flip: s1_def)
qed

interpretation submit_operation: keeps_life "\<lambda>s. snd (submit_operation op s)" for op
  by unfold_locales (unfold submit_operation_def, rule submit_work_life, simp_all add: life_part_def Let_def)

interpretation submit_retarget: keeps_life
    "\<lambda>s. snd (submit_retarget op kind texture_count logical physical identity s)"
    for op kind texture_count logical physical identity
  by unfold_locales (unfold submit_retarget_def, rule submit_work_life, simp_all add: life_part_def Let_def)

interpretation submit_release_target: keeps_life "\<lambda>s. snd (submit_release_target op s)" for op
  by unfold_locales (unfold submit_release_target_def, rule submit_work_life, simp_all add: life_part_def Let_def)

interpretation submit_barrier: keeps_life "\<lambda>s. snd (submit_barrier op s)" for op
  by unfold_locales (unfold submit_barrier_def, rule submit_work_life, simp_all add: life_part_def Let_def)

interpretation submit_resize: keeps_life "\<lambda>s. snd (submit_resize op logical s)" for op logical
  by unfold_locales (unfold submit_resize_def, rule submit_work_life, simp_all add: life_part_def Let_def)


section \<open>The driver's stack\<close>

text \<open>
  The driver's work runs on the end of its call or on the service loop; a failure and the cancellations it makes
  run on top of it, but not of an attempt that is still to render.
\<close>

fun quiet :: "activation \<Rightarrow> bool" where
  "quiet (Cancelling _ _) = True"
| "quiet Failing = True"
| "quiet (Completing _ _) = True"
| "quiet (Releasing _ _) = True"
| "quiet (Release_waited _ _ _) = True"
| "quiet _ = False"

fun open_attempt :: "activation \<Rightarrow> bool" where
  "open_attempt (Attempt_begun _ _) = True"
| "open_attempt (Attempt p _) = (p \<noteq> At_publishing \<and> p \<noteq> At_leaving)"
| "open_attempt _ = False"

fun detaching :: "activation \<Rightarrow> bool" where
  "detaching (Running w) = is_detach w"
| "detaching (Detach_run _) = True"
| "detaching (Detach_finish _) = True"
| "detaching _ = False"

fun attaching :: "activation \<Rightarrow> bool" where
  "attaching (Running w) = is_attach w"
| "attaching (Attach_ready _) = True"
| "attaching _ = False"

definition call_base :: "activation list \<Rightarrow> bool" where
  "call_base k \<longleftrightarrow> k = [Driver_call_end] \<or> k = [Service_loop, Driver_call_end]"

definition disposal_base :: "bool \<Rightarrow> activation list" where
  "disposal_base marks = (if marks then [] else [Driver_call_end])"

fun runs_on :: "activation \<Rightarrow> activation list \<Rightarrow> bool" where
  "runs_on Driver_call_end k = (k = [])"
| "runs_on Service_loop k = (k = [Driver_call_end])"
| "runs_on (Disposal_begin marks) k = (k = disposal_base marks)"
| "runs_on (Disposal_end marks _) k = (k = disposal_base marks)"
| "runs_on Lane_submit k = (k = [] \<or> k = [Driver_call_end])"
| "runs_on (Detach_run None) k = (\<exists>marks. k = Disposal_end marks True # disposal_base marks)"
| "runs_on (Detach_finish None) k = (\<exists>marks. k = Disposal_end marks True # disposal_base marks)"
| "runs_on (Inserting_frame _) k = False"
| "runs_on (Removing_frame _ _ _) k = False"
| "runs_on (Discard_removing _) k = False"
| "runs_on (Discard_finishing _) k = False"
| "runs_on Draining k = False"
| "runs_on (Abandon_begin _) k = False"
| "runs_on (Abandon_finish _) k = False"
| "runs_on Destroying k = False"
| "runs_on _ k = call_base k"

fun driver_stack :: "activation list \<Rightarrow> bool" where
  "driver_stack [] = True"
| "driver_stack (a # k) =
     (if quiet a then k \<noteq> [] \<and> driver_stack k \<and> \<not> open_attempt (hd k) \<and> \<not> attaching (hd k)
      else runs_on a k)"

section \<open>One retirement\<close>

text \<open>
  What is under way for the retirement of a disposed session: the detach that is asked of the driver, the
  driver's detach, the task on the lane, the lane's abandonment and destruction.
\<close>

fun driver_retires :: "activation \<Rightarrow> nat" where
  "driver_retires (Disposal_begin marks) = (if marks then 0 else 1)"
| "driver_retires (Disposal_end _ _) = 1"
| "driver_retires Lane_submit = 1"
| "driver_retires _ = 0"

fun host_retires :: "activation \<Rightarrow> nat" where
  "host_retires (Abandon_begin by_disposal) = (if by_disposal then 1 else 0)"
| "host_retires (Abandon_finish by_disposal) = (if by_disposal then 1 else 0)"
| "host_retires Destroying = 1"
| "host_retires _ = 0"

definition stack_retires :: "activation list \<Rightarrow> nat" where
  "stack_retires k = sum_list (map driver_retires k)"

lemma stack_retires_simps [simp]:
  "stack_retires [] = 0" "stack_retires (a # k) = driver_retires a + stack_retires k"
  "stack_retires (j @ k) = stack_retires j + stack_retires k"
  by (simp_all add: stack_retires_def)

definition hosts_retire :: "activation list multiset \<Rightarrow> nat" where
  "hosts_retire H = (\<Sum>k\<in>#H. sum_list (map host_retires k))"

definition undetached :: "mln_render_session_state \<Rightarrow> bool" where
  "undetached st \<longleftrightarrow> st = MLN_RENDER_SESSION_STATE_ATTACHING \<or> st = MLN_RENDER_SESSION_STATE_ATTACHED"

lemma undetached_simps [simp]:
  "undetached MLN_RENDER_SESSION_STATE_ATTACHING" "undetached MLN_RENDER_SESSION_STATE_ATTACHED"
  "\<not> undetached MLN_RENDER_SESSION_STATE_DETACHING" "\<not> undetached MLN_RENDER_SESSION_STATE_DETACHED"
  "\<not> undetached MLN_RENDER_SESSION_STATE_FAILED" "\<not> undetached MLN_RENDER_SESSION_STATE_ABANDONED"
  by (simp_all add: undetached_def)

definition driver_ok :: "nat \<Rightarrow> activation list \<Rightarrow> render_session \<Rightarrow> bool" where
  "driver_ok others k s \<longleftrightarrow> driver_stack k
     \<and> (Driver_call_end \<in> set k \<longrightarrow> driver_call_in_flight s)
     \<and> (Disposal_begin True \<in> set k \<longrightarrow> disposal_detach s \<and> session_driver s = MLN_RENDER_DRIVER_CORE_WORKER)
     \<and> of_bool (disposal_detach s) + stack_retires k + others \<le> (of_bool (disposal_requested s) :: nat)
     \<and> attach_works s + (if k \<noteq> [] \<and> attaching (hd k) then 1 else 0) \<le> 1
     \<and> (attach_works s \<noteq> 0 \<longrightarrow> session_state s = MLN_RENDER_SESSION_STATE_ATTACHING \<or> Failing \<in> set k)
     \<and> (k \<noteq> [] \<and> attaching (hd k) \<longrightarrow> session_state s = MLN_RENDER_SESSION_STATE_ATTACHING)
     \<and> (k \<noteq> [] \<and> open_attempt (hd k) \<longrightarrow> session_state s = MLN_RENDER_SESSION_STATE_ATTACHED
          \<or> session_state s = MLN_RENDER_SESSION_STATE_DETACHING)
     \<and> (detach_works s \<noteq> 0 \<or> list_ex detaching k \<longrightarrow> \<not> undetached (session_state s))
     \<and> (Failing \<in> set k \<longrightarrow> session_state s = MLN_RENDER_SESSION_STATE_FAILED)
     \<and> (k \<noteq> [] \<longrightarrow> session_state s \<noteq> MLN_RENDER_SESSION_STATE_ABANDONED)
     \<and> (session_state s = MLN_RENDER_SESSION_STATE_ABANDONED \<longrightarrow> views_invalidated s \<and> \<not> disposal_detach s)"

text \<open>A session that failed, was abandoned or was detached: nothing fails it any more.\<close>

definition session_over :: "mln_render_session_state \<Rightarrow> bool" where
  "session_over st \<longleftrightarrow> st = MLN_RENDER_SESSION_STATE_FAILED \<or> st = MLN_RENDER_SESSION_STATE_ABANDONED
     \<or> st = MLN_RENDER_SESSION_STATE_DETACHED"

lemma session_over_simps [simp]:
  "\<not> session_over MLN_RENDER_SESSION_STATE_ATTACHING" "\<not> session_over MLN_RENDER_SESSION_STATE_ATTACHED"
  "\<not> session_over MLN_RENDER_SESSION_STATE_DETACHING" "session_over MLN_RENDER_SESSION_STATE_FAILED"
  "session_over MLN_RENDER_SESSION_STATE_ABANDONED" "session_over MLN_RENDER_SESSION_STATE_DETACHED"
  by (simp_all add: session_over_def)

abbreviation calm :: "render_session \<Rightarrow> bool" where
  "calm s \<equiv> session_over (session_state s)"

fun host_activation :: "activation \<Rightarrow> bool" where
  "host_activation (Cancelling _ _) = True"
| "host_activation (Completing _ _) = True"
| "host_activation (Releasing _ _) = True"
| "host_activation (Release_waited _ _ _) = True"
| "host_activation (Inserting_frame _) = True"
| "host_activation (Removing_frame _ _ _) = True"
| "host_activation (Discard_removing _) = True"
| "host_activation (Discard_finishing _) = True"
| "host_activation Draining = True"
| "host_activation (Abandon_begin _) = True"
| "host_activation (Abandon_finish _) = True"
| "host_activation Destroying = True"
| "host_activation _ = False"

fun needs_calm :: "activation \<Rightarrow> bool" where
  "needs_calm (Cancelling _ _) = True"
| "needs_calm (Releasing _ _) = True"
| "needs_calm (Removing_frame _ _ immediately) = immediately"
| "needs_calm _ = False"

definition host_ok :: "render_session \<Rightarrow> activation list \<Rightarrow> bool" where
  "host_ok s k \<longleftrightarrow> list_all host_activation k \<and> (list_ex needs_calm k \<longrightarrow> calm s)"

definition life_ok :: "session_system \<Rightarrow> bool" where
  "life_ok S \<longleftrightarrow> driver_ok (of_bool (lane_submitted S) + hosts_retire (hosts S)) (driver S) (session S)
     \<and> (\<forall>k\<in>#hosts S. host_ok (session S) k)"

lemma hosts_retire_simps [simp]:
  "hosts_retire {#} = 0" "hosts_retire (add_mset k H) = sum_list (map host_retires k) + hosts_retire H"
  by (simp_all add: hosts_retire_def)

section \<open>Steps of the driver\<close>

lemma driver_ok_same_life:
  "life_part s' = life_part s \<Longrightarrow> driver_ok n k s' = driver_ok n k s"
  by (simp add: driver_ok_def life_part_def attach_works_def detach_works_def)

context keeps_life begin

lemma driver_ok_kept [simp]: "driver_ok n k (f s) = driver_ok n k s"
  by (rule driver_ok_same_life) (rule keeps_life)

lemma host_ok_kept [simp]: "host_ok (f s) k = host_ok s k"
  by (simp add: host_ok_def)

end

text \<open>Work of the driver that is neither a part of a disposal nor a failure.\<close>

definition plain_work :: "activation \<Rightarrow> bool" where
  "plain_work a \<longleftrightarrow> \<not> quiet a \<and> driver_retires a = 0 \<and> (\<forall>k. runs_on a k = call_base k)
     \<and> (\<forall>marks. a \<noteq> Disposal_begin marks)"

lemma call_base_stack:
  assumes "call_base k"
  shows "driver_stack k" "k \<noteq> []" "\<not> open_attempt (hd k)" "\<not> attaching (hd k)" "Failing \<notin> set k"
    "stack_retires k = 0" "\<not> list_ex detaching k" "Disposal_begin marks \<notin> set k" "Driver_call_end \<in> set k"
  using assms by (auto simp: call_base_def)

lemma driver_ok_work:
  assumes "driver_ok n (a # k) s" "plain_work a"
  shows "call_base k" "driver_call_in_flight s" "session_state s \<noteq> MLN_RENDER_SESSION_STATE_ABANDONED"
  using assms call_base_stack [of k] by (auto simp: driver_ok_def plain_work_def)

lemma driver_ok_pop:
  assumes "driver_ok n (a # k) s" "plain_work a"
  shows "driver_ok n k s"
  using assms call_base_stack [OF driver_ok_work(1) [OF assms]]
  by (auto simp: driver_ok_def plain_work_def split: if_splits)

lemma driver_ok_push:
  assumes "driver_ok n k s" "call_base k" "plain_work b"
    "attaching b \<Longrightarrow> session_state s = MLN_RENDER_SESSION_STATE_ATTACHING \<and> attach_works s = 0"
    "open_attempt b \<Longrightarrow> session_state s = MLN_RENDER_SESSION_STATE_ATTACHED \<or> session_state s = MLN_RENDER_SESSION_STATE_DETACHING"
    "detaching b \<Longrightarrow> \<not> undetached (session_state s)"
  shows "driver_ok n (b # k) s"
  using assms call_base_stack [OF assms(2)]
  by (auto simp: driver_ok_def plain_work_def)

lemma driver_ok_quiet:
  assumes "driver_ok n k s" "k \<noteq> []" "\<not> open_attempt (hd k)" "\<not> attaching (hd k)" "quiet q" "q \<noteq> Failing"
  shows "driver_ok n (q # k) s"
  using assms by (cases q) (auto simp: driver_ok_def)

lemma driver_ok_unquiet:
  assumes "driver_ok n (q # k) s" "quiet q" "q = Failing \<Longrightarrow> attach_works s = 0"
  shows "driver_ok n k s" "k \<noteq> []" "\<not> open_attempt (hd k)" "\<not> attaching (hd k)"
  using assms by (cases q; auto simp: driver_ok_def)+

lemma fail_section_life [simp]:
  "session_state (fail_section status s) = MLN_RENDER_SESSION_STATE_FAILED"
  "attached (fail_section status s) = attached s"
  "driver_call_in_flight (fail_section status s) = driver_call_in_flight s"
  "disposal_requested (fail_section status s) = disposal_requested s"
  "disposal_detach (fail_section status s) = disposal_detach s"
  "session_driver (fail_section status s) = session_driver s"
  "views_invalidated (fail_section status s) = views_invalidated s"
  "staged (fail_section status s) = staged s"
  by (simp_all add: fail_section_def Let_def)

lemma fail_session_cases:
  assumes "fail_session status k S = (k', S')"
  obtains (same) "k' = k" "S' = S"
  | (failed) "k' = Failing # k" "S' = S\<lparr>session := fail_section status (session S)\<rparr>"
      "failure_status (session S) = MLN_STATUS_OK"
      "session_state (session S) \<noteq> MLN_RENDER_SESSION_STATE_ABANDONED"
      "session_state (session S) \<noteq> MLN_RENDER_SESSION_STATE_DETACHED"
  using assms by (auto simp: fail_session_def Let_def split: if_splits)

lemma driver_ok_Failing:
  assumes "driver_ok n k s" "k \<noteq> []" "\<not> open_attempt (hd k)" "\<not> attaching (hd k)"
  shows "driver_ok n (Failing # k) (fail_section status s)"
  using assms by (simp add: driver_ok_def attach_works_def detach_works_def)

lemma driver_ok_fail:
  assumes "fail_session status k S = (k', S')"
    "driver_ok n k (session S)" "k \<noteq> []" "\<not> open_attempt (hd k)" "\<not> attaching (hd k)"
  shows "driver_ok n k' (session S')"
  using assms(1)
proof (cases rule: fail_session_cases)
  case same
  with assms(2) show ?thesis by simp
next
  case failed
  with driver_ok_Failing [OF assms(2-5)] show ?thesis by simp
qed

lemma fail_session_frame:
  assumes "fail_session status k S = (k', S')"
  shows "lane_submitted S' = lane_submitted S" "hosts S' = hosts S" "frames S' = frames S"
    "calm (session S) \<longrightarrow> calm (session S')"
    "attached (session S') = attached (session S)"
  using assms by (cases rule: fail_session_cases; simp)+


text \<open>
  What a step of the driver gives, a stack and a system, is well formed; \<open>others\<close> counts the retirements
  under way on the threads of hosts.
\<close>

definition ok :: "nat \<Rightarrow> activation list \<times> session_system \<Rightarrow> bool" where
  "ok others r = driver_ok (of_bool (lane_submitted (snd r)) + others) (fst r) (session (snd r))"

definition ready :: "nat \<Rightarrow> activation list \<Rightarrow> session_system \<Rightarrow> bool" where
  "ready others k S \<longleftrightarrow> ok others (k, S) \<and> call_base k"

definition live :: "session_system \<Rightarrow> bool" where
  "live S \<longleftrightarrow> session_state (session S) = MLN_RENDER_SESSION_STATE_ATTACHED
     \<or> session_state (session S) = MLN_RENDER_SESSION_STATE_DETACHING"

lemma ready_same_life:
  assumes "ready n k S" "life_part s' = life_part (session S)"
  shows "ready n k (S\<lparr>session := s'\<rparr>)"
  using assms driver_ok_same_life [OF assms(2)] by (simp add: ready_def ok_def)

lemma live_same_life: "life_part s' = life_part (session S) \<Longrightarrow> live (S\<lparr>session := s'\<rparr>) = live S"
  by (simp add: live_def life_part_def)

lemma ready_work:
  assumes "ok n (a # k, S)" "plain_work a"
  shows "ready n k S"
  using assms driver_ok_pop driver_ok_work(1) by (auto simp: ready_def ok_def)

lemma ok_base: "ready n k S \<Longrightarrow> ok n (k, S)"
  by (simp add: ready_def)

lemma ok_push:
  "ready n k S \<Longrightarrow> plain_work b \<Longrightarrow> \<not> attaching b \<Longrightarrow> \<not> detaching b \<Longrightarrow> (open_attempt b \<Longrightarrow> live S)
     \<Longrightarrow> ok n (b # k, S)"
  by (auto simp: ready_def ok_def live_def intro!: driver_ok_push)

lemma ok_quiet:
  assumes "ok n (k, S)" "k \<noteq> []" "\<not> open_attempt (hd k)" "\<not> attaching (hd k)" "quiet q" "q \<noteq> Failing"
  shows "ok n (q # k, S)"
  using assms by (simp add: ok_def driver_ok_quiet)

lemma ready_quiet: "ready n k S \<Longrightarrow> quiet q \<Longrightarrow> q \<noteq> Failing \<Longrightarrow> ok n (q # k, S)"
  by (rule ok_quiet) (auto simp: ready_def dest: call_base_stack)

lemma ok_fail:
  assumes "ok n (k, S)" "k \<noteq> []" "\<not> open_attempt (hd k)" "\<not> attaching (hd k)"
  shows "ok n (fail_session status k S)"
proof -
  obtain k' S' where r: "fail_session status k S = (k', S')" by (rule prod.exhaust)
  from driver_ok_fail [OF r, of "of_bool (lane_submitted S) + n"] fail_session_frame(1) [OF r] assms show ?thesis
    by (simp add: ok_def r)
qed

lemma ready_fail:
  assumes "ready n k S"
  shows "ok n (fail_session status k S)"
    and "plain_work b \<Longrightarrow> \<not> attaching b \<Longrightarrow> \<not> detaching b \<Longrightarrow> \<not> open_attempt b \<Longrightarrow> ok n (fail_session status (b # k) S)"
    and "quiet q \<Longrightarrow> q \<noteq> Failing \<Longrightarrow> ok n (fail_session status (q # k) S)"
proof -
  from assms have base: "call_base k" by (simp add: ready_def)
  show "ok n (fail_session status k S)"
    using call_base_stack [OF base] by (intro ok_fail ok_base [OF assms])
  show "ok n (fail_session status (b # k) S)" if "plain_work b" "\<not> attaching b" "\<not> detaching b" "\<not> open_attempt b"
    using that by (intro ok_fail ok_push [OF assms]) simp_all
  show "ok n (fail_session status (q # k) S)" if "quiet q" "q \<noteq> Failing"
    using that by (intro ok_fail ready_quiet [OF assms]) (cases q; simp)+
qed

lemma plain_works [simp]:
  "plain_work (Running w)" "plain_work (Throwing w status)" "plain_work (Operation_ended op status)"
  "plain_work (Attach_ready op)" "plain_work (Scheduler_delivering e)" "plain_work (Attempt_begun d releasing)"
  "plain_work (Attempt p a)" "plain_work Attempt_returning" "plain_work (Retarget_swap op kind ls ps identity)"
  "plain_work (Retarget_reset op kind ls ps identity)" "plain_work (Settle_retarget op kind w outcome)"
  "plain_work (Release_target_record op)" "plain_work (Settle_release op w outcome)"
  "plain_work (Resize_record op ls ps)" "plain_work (Detach_run (Some op))" "plain_work (Detach_finish (Some op))"
  by (simp_all add: plain_work_def)

lemma ok_deliver:
  assumes "ready n k S" "b None # k = j None" "\<And>d. b (Some d) # k = j (Some d)"
    "\<And>e. plain_work (b e) \<and> \<not> attaching (b e) \<and> \<not> detaching (b e)" "open_attempt (b None) \<Longrightarrow> live S" "\<And>d. \<not> open_attempt (b (Some d))"
  shows "ok n (deliver_pending_session_work outcome j S)"
proof (cases outcome)
  case Delivered
  with assms ok_push [OF assms(1), of "b None"] show ?thesis
    by (simp add: deliver_pending_session_work_def)
next
  case Target_unready
  have "ready n k (S\<lparr>session := finish_unready_attempt (session S)\<rparr>)"
    by (rule ready_same_life [OF assms(1) finish_unready_attempt.keeps_life])
  from ok_push [OF this, of "b (Some MLN_RENDER_RESULT_TARGET_NOT_READY)"] Target_unready assms show ?thesis
    by (simp add: deliver_pending_session_work_def)
next
  case (Engine_threw status)
  with ready_fail(2) [OF assms(1), of "b (Some MLN_RENDER_RESULT_FAILED)"] assms show ?thesis
    by (simp add: deliver_pending_session_work_def)
qed

section \<open>The attempt\<close>

lemma not_open_end [simp]:
  "\<not> open_attempt (Attempt At_publishing a)" "\<not> open_attempt (Attempt At_leaving a)"
  "open_attempt (end_attempt disposition a) \<longleftrightarrow> demand_waits (attempt_demand a) \<and> disposition = MLN_RENDER_RESULT_NO_UPDATE"
  "\<not> attaching (end_attempt disposition a)" "\<not> detaching (end_attempt disposition a)" "plain_work (end_attempt disposition a)"
  by (simp_all add: end_attempt_def Let_def)

lemma ok_catch_attempt: "ready n k S \<Longrightarrow> ok n (catch_attempt exn a S k)"
  by (cases exn) (auto simp: catch_attempt_def intro!: ok_push ready_fail(2) ready_same_life finish_unready_attempt.keeps_life)

lemma ok_choose_render_slot:
  assumes "ready n k S" "live S"
  shows "ok n (choose_render_slot a S k)"
proof -
  have same: "ready n k (S\<lparr>session := s'\<rparr>)" if "life_part s' = life_part (session S)" for s'
    using ready_same_life [OF assms(1) that] .
  have live: "live (S\<lparr>session := s'\<rparr>)" if "life_part s' = life_part (session S)" for s'
    using assms(2) live_same_life [OF that] by simp
  show ?thesis
    using assms
    by (auto simp: choose_render_slot_def Let_def split_beta life_part_def
        intro!: ok_push same live ready_fail(2) split: option.split)
qed

lemma ok_render_frame:
  assumes "ready n k S" "live S"
  shows "ok n (render_frame ans a S k)"
proof -
  have same: "ready n k (S\<lparr>session := s'\<rparr>)" if "life_part s' = life_part (session S)" for s'
    using ready_same_life [OF assms(1) that] .
  have live: "live (S\<lparr>session := s'\<rparr>)" if "life_part s' = life_part (session S)" for s'
    using assms(2) live_same_life [OF that] by simp
  show ?thesis
    using assms
    by (auto simp: render_frame_def Let_def life_part_def
        intro!: ok_push same live ready_fail(2) ok_catch_attempt split: update_outcome.split mln_render_result.split)
qed

lemma ok_record_metadata:
  assumes "ready n k S" "live S"
  shows "ok n (record_metadata ans a S k)"
  using assms
  by (auto simp: record_metadata_def Let_def intro!: ok_push ready_fail(2) ok_catch_attempt split: option.split)

lemma ok_run_attempt:
  assumes "ok n (Attempt p a # k, S)"
  shows "ok n (run_attempt ans p a S k)"
proof -
  have ready: "ready n k S" by (rule ready_work [OF assms]) simp
  have live: "live S" if "open_attempt (Attempt p a)"
    using assms that by (auto simp: ok_def driver_ok_def live_def)
  have same: "ready n k (S\<lparr>session := s'\<rparr>)" if "life_part s' = life_part (session S)" for s'
    using ready_same_life [OF ready that] .
  have still: "live (S\<lparr>session := s'\<rparr>)" if "open_attempt (Attempt p a)" "life_part s' = life_part (session S)" for s'
    using live [OF that(1)] live_same_life [OF that(2)] by simp
  show ?thesis
  proof (cases p)
    case (At_delivering after_release)
    let ?S = "if after_release \<and> answer_delivery ans = Delivered
      then S\<lparr>session := finish_unready_attempt (session S)\<rparr> else S"
    have "ready n k ?S" "live ?S"
      using ready live same [OF finish_unready_attempt.keeps_life] still [OF _ finish_unready_attempt.keeps_life]
      by (auto simp: At_delivering)
    then show ?thesis
      unfolding At_delivering run_attempt_def Let_def attempt_point.case
      by (intro ok_deliver [where k = k and b = "\<lambda>ended. case ended of
          Some disposition \<Rightarrow> Attempt At_publishing (with_disposition disposition a)
        | None \<Rightarrow>
            if after_release then Attempt At_publishing (with_disposition MLN_RENDER_RESULT_TARGET_NOT_READY a)
            else if demand_waits (attempt_demand a)
            then Attempt At_waiting (with_disposition MLN_RENDER_RESULT_NO_UPDATE a)
            else Attempt At_publishing (with_disposition MLN_RENDER_RESULT_NO_UPDATE a)"])
        (auto split: option.split)
  next
    case At_checking
    with ready live show ?thesis by (auto simp: run_attempt_def intro!: ok_push)
  next
    case At_waiting
    have "ready n k (S\<lparr>session := leave_section (snd (wait_for_map_update a (session S)))\<rparr>)"
      by (rule same) (simp add: leave_section.keeps_life wait_for_map_update.keeps_life)
    with At_waiting show ?thesis
      by (auto simp: run_attempt_def Let_def split_beta intro!: ok_push split: option.split)
  next
    case At_choosing
    with ready live show ?thesis by (simp add: run_attempt_def ok_choose_render_slot)
  next
    case At_rendering
    with ready live show ?thesis by (simp add: run_attempt_def ok_render_frame)
  next
    case (At_rendered mode repaint view)
    with ready live show ?thesis
      by (auto simp: run_attempt_def number_frame_def Let_def life_part_def intro!: ok_push same still)
  next
    case At_recording
    with ready live show ?thesis by (simp add: run_attempt_def ok_record_metadata)
  next
    case (At_storing metadata sync)
    with ready live show ?thesis
      by (auto simp: run_attempt_def store_frame.keeps_life intro!: ok_push same still)
  next
    case At_committing
    with ready show ?thesis by (auto simp: run_attempt_def intro!: ok_push ok_catch_attempt split: option.split)
  next
    case At_publishing
    with ready show ?thesis by (auto simp: run_attempt_def publish_and_rearm.keeps_life intro!: ok_push same)
  next
    case At_leaving
    with ready show ?thesis by (auto simp: run_attempt_def leave_slot.keeps_life intro!: ok_base same)
  qed
qed

section \<open>The other work\<close>

lemma ready_push_attaching:
  assumes "ready n k S" "session_state (session S) = MLN_RENDER_SESSION_STATE_ATTACHING" "attach_works (session S) = 0"
  shows "ok n (Attach_ready op # k, S)"
  using assms by (auto simp: ready_def ok_def intro!: driver_ok_push)

lemma ready_push_detaching:
  assumes "ready n k S" "\<not> undetached (session_state (session S))"
  shows "ok n (Detach_finish (Some op) # k, S)"
  using assms by (auto simp: ready_def ok_def intro!: driver_ok_push)

lemma driver_ok_attached [simp]: "driver_ok n k (detach_render_session s) = driver_ok n k s"
  by (simp add: driver_ok_def detach_render_session_def attach_works_def detach_works_def)

lemma detach_state: "session_state (detach_render_session s) = session_state s"
  by (simp add: detach_render_session_def)

lemma ready_detached [simp]: "ready n k (S\<lparr>session := detach_render_session (session S)\<rparr>) = ready n k S"
  by (simp add: ready_def ok_def)

lemma ok_take_work:
  assumes "ready n k S" shows "ok n (take_work expected S k)"
proof -
  have same: "ready n k (S\<lparr>session := snd (take_demand expected (session S))\<rparr>)"
    by (rule ready_same_life [OF assms take_demand.keeps_life])
  have live: "live (S\<lparr>session := snd (take_demand expected (session S))\<rparr>)" if "fst (take_demand expected (session S)) \<noteq> None"
    using that by (auto simp: live_def take_demand_def Let_def split: if_splits)
  show ?thesis
    using ok_base [OF same] ok_push [OF same] live
    by (auto simp: take_work_def split_beta split: option.split prod.split)
qed

lemma ok_set_target:
  "ready n k S \<Longrightarrow> ok n (set_target ans op kind logical physical identity S k)"
  by (auto simp: set_target_def Let_def intro!: ok_push split: option.split)

lemma ok_release_target: "ready n k S \<Longrightarrow> ok n (release_target ans op S k)"
  by (auto simp: release_target_def Let_def intro!: ok_push split: option.split)

lemma ok_after_settle: "ready n k S \<Longrightarrow> ok n (after_settle op w outcome S k)"
  by (cases outcome) (auto simp: after_settle_def intro!: ok_push)

lemma ok_end_operation: "ready n k S \<Longrightarrow> ok n (end_operation op status S k)"
  by (auto simp: end_operation_def intro!: ready_fail(3) ready_quiet)

lemma ok_throw_work: "ready n k S \<Longrightarrow> ok n (throw_work w status S k)"
  by (auto simp: throw_work_def Let_def intro!: ready_fail(3))

lemma ok_run_operation:
  assumes "ready n k S" "w = Operation_work op \<or> w = Pending_work op"
  shows "ok n (run_operation ans w op S k)"
proof -
  have "ready n k (S\<lparr>session := leave_section (publish_driver_work
      ((session S)\<lparr>driver_work := Pending_work op # driver_work (session S), pending_result_ready := False\<rparr>))\<rparr>)"
    by (rule ready_same_life [OF assms(1)]) (simp add: life_part_def flip: staged_def)
  from ok_base [OF this] assms show ?thesis
    by (auto simp: run_operation_def intro!: ok_push split: option.split)
qed

lemma ok_run_detach:
  assumes "ready n k S" "\<not> undetached (session_state (session S))"
  shows "ok n (run_detach ans (Some op) S k)"
proof -
  have "ok n (Detach_finish (Some op) # k, S\<lparr>session := detach_render_session (session S)\<rparr>)"
    by (rule ready_push_detaching) (use assms in \<open>simp_all add: detach_state\<close>)
  with assms(1) show ?thesis
    by (auto simp: run_detach_def Let_def intro!: ok_push ready_fail(3) split: option.split)
qed

text \<open>A release waits for the GPU on the driver, or on the thread of a failure or a cancellation.\<close>

lemma ok_release_sync:
  assumes "ok n (k, S)" "k \<noteq> []" "\<not> open_attempt (hd k)" "\<not> attaching (hd k)"
  shows "ok n (release_sync ans f sync S k)"
  using assms by (auto simp: release_sync_def Let_def intro!: ok_fail ok_quiet)

lemma ok_cancel_work:
  assumes "ok n (k, S)" "k \<noteq> []" "\<not> open_attempt (hd k)" "\<not> attaching (hd k)"
  shows "ok n (cancel_work w status S k)"
  using assms by (cases w) (auto intro!: ok_quiet)

lemma ok_run_work:
  assumes "ok n (Running w # k, S)"
  shows "ok n (run_work ans w S k)"
proof -
  have ready: "ready n k S" by (rule ready_work [OF assms]) simp
  have same: "ready n k (S\<lparr>session := s'\<rparr>)" if "life_part s' = life_part (session S)" for s'
    using ready_same_life [OF ready that] .
  have base: "call_base k" using ready by (simp add: ready_def)
  show ?thesis
  proof (cases w)
    case (Attach_work op)
    with assms have "session_state (session S) = MLN_RENDER_SESSION_STATE_ATTACHING" "attach_works (session S) = 0"
      by (simp_all add: ok_def driver_ok_def)
    from ready_push_attaching [OF ready this] ready show ?thesis
      by (auto simp: Attach_work intro!: ok_push ready_fail(3) split: option.split)
  next
    case (Demand_work expected)
    with ready show ?thesis by (simp add: ok_take_work)
  next
    case (Scheduler_work expected)
    from same have "ready n k (S\<lparr>session := (session S)\<lparr>scheduler_service_queued := False\<rparr>\<rparr>)"
      by (simp add: life_part_def)
    from ok_base [OF this] ok_push [OF this, of "Scheduler_delivering expected"] Scheduler_work show ?thesis by (auto simp: Let_def)
  next
    case (Barrier_work op)
    then show ?thesis by (auto simp: life_part_def intro!: ready_quiet same)
  next
    case (Release_work f sync)
    with ok_release_sync [OF ok_base [OF ready]] call_base_stack [OF base] show ?thesis by simp
  next
    case (Resize_work op logical)
    have "ok n (Resize_record op logical size # k, S\<lparr>session := invalidate_unacquired_texture_frames (session S)\<rparr>)" for size
      by (rule ok_push [OF same]) (simp_all add: invalidate.keeps_life)
    with Resize_work ready_quiet [OF ready] show ?thesis by (simp add: Let_def)
  next
    case (Detach_work op)
    with assms have "\<not> undetached (session_state (session S))"
      by (simp add: ok_def driver_ok_def)
    with ok_run_detach [OF ready] Detach_work show ?thesis by simp
  qed (simp_all add: ready ok_set_target ok_release_target ok_run_operation)
qed

text \<open>The driver's stack, whole: the parts of a disposal have their own places.\<close>

lemma driver_ok_cancelling:
  assumes "driver_ok n (a # k) s" "\<not> open_attempt a" "\<not> attaching a"
  shows "driver_ok n (map (\<lambda>w. Cancelling w status) ws @ a # k) s"
  using assms by (induction ws) (auto intro!: driver_ok_quiet simp: hd_append list.map_sel split: if_splits)

lemma ok_begin_disposal_detach:
  assumes "ok n (Disposal_begin marks # k, S)"
  shows "ok n (begin_disposal_detach marks S k)"
proof -
  from assms have k: "k = disposal_base marks" by (simp add: ok_def driver_ok_def)
  define s where "s = session S"
  have detached: "driver_ok (of_bool (lane_submitted S) + n) (Detach_run None # Disposal_end marks True # k)
      (s\<lparr>disposal_detach := False, session_state := MLN_RENDER_SESSION_STATE_DETACHING, generation := g,
        driver_call_in_flight := marks \<or> driver_call_in_flight s, driver_work := []\<rparr>)" for g
    using assms k by (cases marks; cases "disposal_requested s") (auto simp: ok_def driver_ok_def disposal_base_def attach_works_def detach_works_def s_def)
  have kept: "driver_ok (of_bool (lane_submitted S) + n) (Disposal_end marks False # k) (s\<lparr>disposal_detach := False\<rparr>)"
    using assms k by (cases marks; cases "disposal_requested s") (auto simp: ok_def driver_ok_def disposal_base_def attach_works_def detach_works_def s_def)
  show ?thesis
    using kept driver_ok_cancelling [OF detached]
    by (simp add: begin_disposal_detach_def Let_def ok_def flip: s_def)
qed

lemma ok_end_disposal_detach:
  assumes "ok n (Disposal_end marks detaches # k, S)"
  shows "ok n (end_disposal_detach marks detaches S k)"
proof -
  from assms have k: "k = disposal_base marks" by (simp add: ok_def driver_ok_def)
  define s where "s = session S"
  have detached: "driver_ok (of_bool (lane_submitted S) + n) (Lane_submit # k)
      (s\<lparr>driver_call_in_flight := \<not> marks \<and> driver_call_in_flight s, driver_work := [], views_invalidated := True,
        stop_worker := True\<rparr>)"
    using assms k by (cases marks; cases "disposal_requested s") (auto simp: ok_def driver_ok_def disposal_base_def attach_works_def detach_works_def s_def)
  have kept: "driver_ok (of_bool (lane_submitted S) + n) (Lane_submit # k) (s\<lparr>views_invalidated := True, stop_worker := True\<rparr>)"
    using assms k by (cases marks; cases "disposal_requested s") (auto simp: ok_def driver_ok_def disposal_base_def attach_works_def detach_works_def s_def)
  show ?thesis
    using kept driver_ok_cancelling [OF detached]
    by (cases detaches) (simp_all add: end_disposal_detach_def Let_def ok_def flip: s_def)
qed

lemma ok_service_pass:
  assumes "ok n (Service_loop # k, S)"
  shows "ok n (service_pass S k)"
proof -
  from assms have k: "k = [Driver_call_end]" by (simp add: ok_def driver_ok_def)
  define s where "s = session S"
  note parts = attach_works_def detach_works_def call_base_def disposal_base_def
  have disposal: "driver_ok (of_bool (lane_submitted S) + n) (Disposal_begin False # k) (s\<lparr>disposal_detach := False\<rparr>)"
    if "disposal_detach s"
    using assms that by (cases "disposal_requested s") (auto simp: k ok_def driver_ok_def parts s_def)
  have runs: "driver_ok (of_bool (lane_submitted S) + n) (Running w # Service_loop # k) (s\<lparr>driver_work := ws\<rparr>)"
    if "driver_work s = w # ws" for w ws
    using assms that by (cases w) (auto simp: k ok_def driver_ok_def parts staged_def s_def)
  have ends: "driver_ok (of_bool (lane_submitted S) + n) k (if frame_waits_for_gpu s then s\<lparr>gpu_wait_pending := True\<rparr> else s)"
    using assms by (auto simp: k ok_def driver_ok_def parts s_def)
  have "driver_work s = hd (driver_work s) # tl (driver_work s)" if "driver_work_runnable s"
    using that by (simp add: driver_work_runnable_def)
  with disposal runs ends show ?thesis
    by (simp add: service_pass_def Let_def ok_def flip: s_def)
qed

lemma ok_same_life:
  assumes "ok n (k, S)" "life_part s' = life_part (session S)"
  shows "ok n (k, S\<lparr>session := s'\<rparr>)"
  using assms(1) driver_ok_same_life [OF assms(2)] by (simp add: ok_def)

lemma finish_detach_life [simp]:
  "session_state (finish_detach s) = MLN_RENDER_SESSION_STATE_DETACHED"
  "driver_call_in_flight (finish_detach s) = driver_call_in_flight s"
  "disposal_requested (finish_detach s) = disposal_requested s" "disposal_detach (finish_detach s) = disposal_detach s"
  "session_driver (finish_detach s) = session_driver s" "views_invalidated (finish_detach s) = views_invalidated s"
  "staged (finish_detach s) = staged s"
  by (simp_all add: finish_detach_def Let_def)

lemma attach_session_life [simp]:
  "session_state (attach_session s) = MLN_RENDER_SESSION_STATE_ATTACHED"
  "driver_call_in_flight (attach_session s) = driver_call_in_flight s"
  "disposal_requested (attach_session s) = disposal_requested s" "disposal_detach (attach_session s) = disposal_detach s"
  "session_driver (attach_session s) = session_driver s" "views_invalidated (attach_session s) = views_invalidated s"
  "staged (attach_session s) = staged s"
  by (simp_all add: attach_session_def)

lemma end_driver_call_life [simp]:
  "session_state (end_driver_call s) = session_state s" "driver_call_in_flight (end_driver_call s) = False"
  "disposal_requested (end_driver_call s) = disposal_requested s" "disposal_detach (end_driver_call s) = disposal_detach s"
  "session_driver (end_driver_call s) = session_driver s" "views_invalidated (end_driver_call s) = views_invalidated s"
  "staged (end_driver_call s) = staged s"
  by (simp_all add: end_driver_call_def Let_def)

lemma ok_attach_ready:
  assumes "ok n (Attach_ready op # k, S)"
  shows "ok n (Completing op MLN_STATUS_OK # k, S\<lparr>session := attach_session (session S)\<rparr>)"
proof -
  have "call_base k" using ready_work [OF assms] by (simp add: ready_def)
  note base = call_base_stack [OF this]
  have "ok n (k, S\<lparr>session := attach_session (session S)\<rparr>)"
    using assms base by (auto simp: ok_def driver_ok_def attach_works_def detach_works_def)
  then show ?thesis by (rule ok_quiet) (use base in simp_all)
qed

lemma detaching_no_attach:
  assumes "ok n (a # k, S)" "detaching a" "Failing \<notin> set (a # k)"
  shows "attach_works (session S) = 0"
  using assms by (auto simp: ok_def driver_ok_def)

lemma ok_detach_finish:
  assumes "ok n (Detach_finish op # k, S)"
  shows "ok n ((case op of None \<Rightarrow> [] | Some m \<Rightarrow> [Completing m MLN_STATUS_OK]) @ k,
    S\<lparr>session := finish_detach (session S)\<rparr>)"
proof (cases op)
  case None
  with assms obtain marks where k: "k = Disposal_end marks True # disposal_base marks"
    by (auto simp: ok_def driver_ok_def)
  with None detaching_no_attach [OF assms] have "attach_works (session S) = 0" by (simp add: disposal_base_def)
  with None assms k show ?thesis
    by (cases marks) (auto simp: ok_def driver_ok_def disposal_base_def attach_works_def detach_works_def)
next
  case (Some m)
  then have "call_base k" using ready_work [of n "Detach_finish op" k S] assms by (simp add: ready_def)
  note base = call_base_stack [OF this]
  have "attach_works (session S) = 0" by (rule detaching_no_attach [OF assms]) (use base in auto)
  then have "ok n (k, S\<lparr>session := finish_detach (session S)\<rparr>)"
    using assms base Some by (auto simp: ok_def driver_ok_def attach_works_def detach_works_def)
  with Some base show ?thesis by (auto intro!: ok_quiet)
qed

lemma ok_detach_run:
  assumes "ok n (Detach_run op # k, S)"
  shows "ok n (run_detach ans op S k)"
proof (cases op)
  case (Some m)
  with assms have "\<not> undetached (session_state (session S))" by (simp add: ok_def driver_ok_def)
  with ok_run_detach [OF ready_work [OF assms]] Some show ?thesis by simp
next
  case None
  with assms obtain marks where k: "k = Disposal_end marks True # disposal_base marks"
    by (auto simp: ok_def driver_ok_def)
  have pops: "ok n (k, S)"
    using assms None k by (cases marks) (auto simp: ok_def driver_ok_def disposal_base_def)
  have finish: "ok n (Detach_finish None # k, S\<lparr>session := detach_render_session (session S)\<rparr>)"
    using assms None k by (cases marks) (auto simp: ok_def driver_ok_def disposal_base_def detach_render_session_def
        attach_works_def detach_works_def)
  from ok_fail [OF pops] k finish pops None show ?thesis
    by (auto simp: run_detach_def Let_def split: option.split)
qed

lemma ok_unquiet:
  assumes "ok n (q # k, S)" "quiet q" "q \<noteq> Failing"
  shows "ok n (k, S)" "k \<noteq> []" "\<not> open_attempt (hd k)" "\<not> attaching (hd k)"
  using assms driver_ok_unquiet [of _ q k] by (auto simp: ok_def)

lemma ok_failing:
  assumes "ok n (Failing # k, S)"
  shows "ok n (run_activation ans Failing k S)"
proof (cases "driver_work (session S)")
  case Nil
  then have "attach_works (session S) = 0" by (simp add: attach_works_def staged_def)
  with assms Nil driver_ok_unquiet(1) [of _ Failing k] show ?thesis by (auto simp: ok_def)
next
  case (Cons w ws)
  have "ok n (Failing # k, S\<lparr>session := (session S)\<lparr>driver_work := ws\<rparr>\<rparr>)"
    using assms Cons by (auto simp: ok_def driver_ok_def attach_works_def detach_works_def staged_def split: if_splits)
  from ok_quiet [OF this] Cons show ?thesis by (simp add: Let_def)
qed

lemma ok_run_activation:
  assumes "ok n (a # k, S)"
  shows "ok n (run_activation ans a k S)"
proof (cases "quiet a")
  case True
  note below = ok_unquiet [OF assms True]
  have quiet: "ok n (k, S\<lparr>session := s'\<rparr>)" if "a \<noteq> Failing" "life_part s' = life_part (session S)" for s'
    using ok_same_life [OF below(1) [OF that(1)] that(2)] .
  from True assms below quiet ok_failing show ?thesis
  proof (cases a)
    case (Cancelling w status)
    with below show ?thesis by (simp add: ok_cancel_work)
  next
    case (Releasing f sync)
    with below show ?thesis by (simp add: ok_release_sync)
  qed (simp_all add: life_part_def release_slot.keeps_life [unfolded life_part_def] del: run_activation.simps(6))
next
  case False
  have ready: "ready n k S" if "plain_work a" by (rule ready_work [OF assms that])
  have same: "ready n k (S\<lparr>session := s'\<rparr>)" if "plain_work a" "life_part s' = life_part (session S)" for s'
    using ready_same_life [OF ready [OF that(1)] that(2)] .
  have push: "ok n (b # k, S\<lparr>session := s'\<rparr>)"
    if "plain_work a" "life_part s' = life_part (session S)" "plain_work b" "\<not> attaching b" "\<not> detaching b" "\<not> open_attempt b"
    for b s'
    by (rule ok_push [OF same [OF that(1,2)]]) (use that in simp_all)
  show ?thesis
  proof (cases a)
    case Service_loop
    with assms show ?thesis by (simp add: ok_service_pass)
  next
    case Driver_call_end
    with assms show ?thesis
      by (auto simp: ok_def driver_ok_def attach_works_def detach_works_def)
  next
    case (Running w)
    with assms show ?thesis by (simp add: ok_run_work)
  next
    case (Scheduler_delivering expected)
    with ready have ready: "ready n k S" by simp
    have unready: "ready n k (S\<lparr>session := finish_unready_attempt (session S)\<rparr>)"
      by (rule ready_same_life [OF ready finish_unready_attempt.keeps_life])
    show ?thesis
    proof (cases expected)
      case None
      with ok_base [OF ready] ok_base [OF unready] ready_fail(1) [OF ready] show ?thesis
        by (cases "answer_delivery ans") (simp_all add: Scheduler_delivering deliver_pending_session_work_def)
    next
      case (Some d)
      with ok_push [OF ready, of "Running (Demand_work d)"] ok_push [OF unready, of "Running (Demand_work d)"]
        ready_fail(2) [OF ready, of "Running (Demand_work d)"]
      show ?thesis
        by (cases "answer_delivery ans") (simp_all add: Scheduler_delivering deliver_pending_session_work_def)
    qed
  next
    case (Attempt_begun d releasing)
    with ready assms show ?thesis
      by (auto simp: begin_attempt_def Let_def live_def ok_def driver_ok_def intro!: ok_push [unfolded ok_def])
  next
    case (Attempt p at)
    with assms show ?thesis by (simp add: ok_run_attempt)
  next
    case Attempt_returning
    with ready have ready: "ready n k S" by simp
    show ?thesis
      by (cases "answer_delivery ans")
        (auto simp: Attempt_returning deliver_pending_session_work_def
          intro!: ready ok_base ready_fail(1) ready_same_life finish_unready_attempt.keeps_life)
  next
    case (Settle_retarget op kind w outcome)
    with same [OF _ settle_retarget.keeps_life] show ?thesis by (simp add: ok_after_settle)
  next
    case (Settle_release op w outcome)
    with same [OF _ settle_release.keeps_life] show ?thesis by (simp add: ok_after_settle)
  next
    case (Attach_ready op)
    with assms show ?thesis by (simp add: ok_attach_ready)
  next
    case (Resize_record op logical physical)
    with ready have ready: "ready n k S" by simp
    have throws: "ok n (Throwing (Resize_work op logical) status # k, S)" for status
      by (rule ok_push [OF ready]) simp_all
    have "ok n (Completing op MLN_STATUS_OK # k, S\<lparr>session := record_resize logical physical (session S)\<rparr>)"
      by (rule ready_quiet [OF ready_same_life [OF ready record_resize.keeps_life]]) simp_all
    with throws Resize_record show ?thesis by (simp split: option.split)
  next
    case (Detach_run op)
    with assms show ?thesis by (simp add: ok_detach_run)
  next
    case (Detach_finish op)
    with ok_detach_finish assms show ?thesis by simp
  next
    case (Disposal_begin marks)
    with assms show ?thesis by (simp add: ok_begin_disposal_detach)
  next
    case (Disposal_end marks detaches)
    with assms show ?thesis by (simp add: ok_end_disposal_detach)
  next
    case Lane_submit
    with assms show ?thesis
      by (cases "disposal_requested (session S)"; cases "lane_submitted S") (auto simp: ok_def driver_ok_def)
  qed (use False ready push assms in \<open>auto simp: ok_throw_work ok_end_operation reset_target.keeps_life record_released_target.keeps_life
      life_part_def ok_def [of n "(_ # _, S)"] driver_ok_def\<close>)
qed

section \<open>What one action changes\<close>

text \<open>The threads of hosts and the driver's stack are the step's own to change.\<close>

definition threads where
  "threads S = (hosts S, driver S, lane_submitted S, worker_stopped S, next_operation S)"

lemma threads_session [simp]: "threads (S\<lparr>session := s\<rparr>) = threads S"
  by (simp add: threads_def)

lemma threads_with_frame [simp]: "threads (with_frame f g S) = threads S"
  by (simp add: threads_def with_frame_def)

lemma threads_fail_session [simp]: "threads (snd (fail_session status k S)) = threads S"
  by (simp add: fail_session_def Let_def)

lemma threads_catch_attempt [simp]: "threads (snd (catch_attempt exn a S k)) = threads S"
  by (cases exn) (simp_all add: catch_attempt_def)

lemma threads_run_attempt [simp]: "threads (snd (run_attempt ans p a S k)) = threads S"
  by (cases p)
    (simp_all add: run_attempt_def Let_def split_beta deliver_pending_session_work_def choose_render_slot_def
      render_frame_def record_metadata_def split: engine_delivery.split option.split update_outcome.split mln_render_result.split)

lemma threads_run_work [simp]: "threads (snd (run_work ans w S k)) = threads S"
  by (cases w)
    (simp_all add: Let_def take_work_def release_sync_def set_target_def release_target_def run_detach_def run_operation_def
      split: option.split prod.split)

lemma threads_run_activation:
  "a \<noteq> Lane_submit \<Longrightarrow> threads (snd (run_activation ans a k S)) = threads S"
proof (cases a)
  case (Cancelling w status)
  then show ?thesis by (cases w) simp_all
qed (auto simp: Let_def split_beta service_pass_def throw_work_def end_operation_def deliver_pending_session_work_def
    release_sync_def after_settle_def run_detach_def begin_disposal_detach_def end_disposal_detach_def insert_frame_def
    remove_frame_def abandon_render_session_def destroy_render_session_def split: engine_delivery.split option.split sum.split)

text \<open>
  The states a session goes through: attaching, attached, detaching, detached; it may fail before it is detached or
  abandoned, and be abandoned before it is detached. The last two states are final.
\<close>

definition session_moves :: "mln_render_session_state \<Rightarrow> mln_render_session_state \<Rightarrow> bool" where
  "session_moves st st' \<longleftrightarrow> st' = st
     \<or> (st = MLN_RENDER_SESSION_STATE_ATTACHING \<and> st' = MLN_RENDER_SESSION_STATE_ATTACHED)
     \<or> (st = MLN_RENDER_SESSION_STATE_ATTACHED \<and> st' = MLN_RENDER_SESSION_STATE_DETACHING)
     \<or> ((st = MLN_RENDER_SESSION_STATE_DETACHING \<or> st = MLN_RENDER_SESSION_STATE_FAILED)
        \<and> st' = MLN_RENDER_SESSION_STATE_DETACHED)
     \<or> (st \<noteq> MLN_RENDER_SESSION_STATE_DETACHED \<and> st \<noteq> MLN_RENDER_SESSION_STATE_ABANDONED
        \<and> (st' = MLN_RENDER_SESSION_STATE_FAILED \<or> st' = MLN_RENDER_SESSION_STATE_ABANDONED))"

definition stays_or_fails :: "session_system \<Rightarrow> session_system \<Rightarrow> bool" where
  "stays_or_fails S S' \<longleftrightarrow> session_state (session S') = session_state (session S)
     \<or> (session_state (session S') = MLN_RENDER_SESSION_STATE_FAILED
        \<and> session_state (session S) \<noteq> MLN_RENDER_SESSION_STATE_DETACHED
        \<and> session_state (session S) \<noteq> MLN_RENDER_SESSION_STATE_ABANDONED)"

lemma stays_same [simp]:
  "stays_or_fails S S"
  "session_state s' = session_state (session S) \<Longrightarrow> stays_or_fails S (S\<lparr>session := s'\<rparr>)"
  "stays_or_fails S (with_frame f g S') = stays_or_fails S S'"
  "stays_or_fails S (S\<lparr>lane_submitted := True\<rparr>)"
  by (simp_all add: stays_or_fails_def with_frame_def)

lemma stays_fail_session [simp]:
  "stays_or_fails S (snd (fail_session status k S))"
  "session_state s' = session_state (session S) \<Longrightarrow> stays_or_fails S (snd (fail_session status k (S\<lparr>session := s'\<rparr>)))"
  by (simp_all add: stays_or_fails_def fail_session_def Let_def)

lemma stays_catch_attempt [simp]: "stays_or_fails S (snd (catch_attempt exn a S k))"
  by (cases exn) (simp_all add: catch_attempt_def)

lemma record_rendered_state [simp]: "session_state (record_rendered g s) = session_state s"
  by (simp add: record_rendered_def)

lemma stays_run_attempt [simp]: "stays_or_fails S (snd (run_attempt ans p a S k))"
  by (cases p)
    (simp_all add: run_attempt_def Let_def split_beta deliver_pending_session_work_def choose_render_slot_def number_frame_def
      render_frame_def record_metadata_def split: engine_delivery.split option.split update_outcome.split mln_render_result.split)

lemma stays_run_work [simp]: "stays_or_fails S (snd (run_work ans w S k))"
  by (cases w)
    (simp_all add: Let_def take_work_def split_beta release_sync_def set_target_def release_target_def run_detach_def
      run_operation_def detach_state split: option.split)

fun changes_state :: "activation \<Rightarrow> bool" where
  "changes_state (Attach_ready _) = True"
| "changes_state (Detach_finish _) = True"
| "changes_state (Disposal_begin _) = True"
| "changes_state (Abandon_begin _) = True"
| "changes_state _ = False"

lemma stays_run_activation:
  "\<not> changes_state a \<Longrightarrow> stays_or_fails S (snd (run_activation ans a k S))"
proof (cases a)
  case (Cancelling w status)
  then show ?thesis by (cases w) simp_all
next
  case (Scheduler_delivering expected)
  then show ?thesis by (cases "answer_delivery ans") (simp_all add: deliver_pending_session_work_def)
next
  case Attempt_returning
  then show ?thesis by (cases "answer_delivery ans") (simp_all add: deliver_pending_session_work_def)
qed (auto simp: Let_def split_beta service_pass_def throw_work_def end_operation_def
    release_sync_def after_settle_def run_detach_def detach_state end_disposal_detach_def insert_frame_def
    remove_frame_def destroy_render_session_def split: option.split sum.split)

lemma moves_stays: "stays_or_fails S S' \<Longrightarrow> session_moves (session_state (session S)) (session_state (session S'))"
  by (auto simp: stays_or_fails_def session_moves_def)

lemma driver_moves:
  assumes "ok n (a # k, S)"
  shows "session_moves (session_state (session S)) (session_state (session (snd (run_activation ans a k S))))"
proof (cases "changes_state a")
  case False
  then show ?thesis by (intro moves_stays stays_run_activation)
next
  case True
  then show ?thesis
  proof (cases a)
    case (Attach_ready op)
    with assms show ?thesis by (simp add: ok_def driver_ok_def session_moves_def)
  next
    case (Detach_finish op)
    with assms have "\<not> undetached (session_state (session S))"
      "session_state (session S) \<noteq> MLN_RENDER_SESSION_STATE_ABANDONED"
      by (auto simp: ok_def driver_ok_def)
    then have "session_state (session S) \<in> {MLN_RENDER_SESSION_STATE_DETACHING, MLN_RENDER_SESSION_STATE_FAILED,
        MLN_RENDER_SESSION_STATE_DETACHED}"
      by (cases "session_state (session S)") simp_all
    with Detach_finish show ?thesis by (auto simp: session_moves_def)
  next
    case (Disposal_begin marks)
    then show ?thesis by (simp add: begin_disposal_detach_def Let_def session_moves_def)
  next
    case (Abandon_begin by_disposal)
    with assms show ?thesis by (simp add: ok_def driver_ok_def)
  qed simp_all
qed

lemma moves_calm: "session_moves st st' \<Longrightarrow> session_over st \<Longrightarrow> session_over st'"
  by (auto simp: session_moves_def)

section \<open>The threads of hosts\<close>

lemma runs_on_detach:
  "runs_on (Detach_run op) k = (case op of None \<Rightarrow> \<exists>marks. k = Disposal_end marks True # disposal_base marks | Some _ \<Rightarrow> call_base k)"
  "runs_on (Detach_finish op) k = (case op of None \<Rightarrow> \<exists>marks. k = Disposal_end marks True # disposal_base marks | Some _ \<Rightarrow> call_base k)"
  by (cases op; simp)+

lemma driver_stack_empty:
  "driver_stack k \<Longrightarrow> stack_retires k = 0 \<Longrightarrow> Driver_call_end \<notin> set k \<Longrightarrow> Disposal_begin True \<notin> set k \<Longrightarrow> k = []"
proof (induction k)
  case (Cons a k)
  then show ?case
    by (cases "quiet a"; cases a) (auto simp: runs_on_detach call_base_def disposal_base_def split: if_splits option.splits)
qed simp

text \<open>An abandonment finds the driver idle: another call is refused or tried again, and one retirement is under way.\<close>

lemma driver_idle:
  assumes "driver_ok n k s" "\<not> driver_call_in_flight s" "disposal_requested s \<longrightarrow> n \<noteq> 0"
  shows "k = []" "\<not> disposal_detach s"
proof -
  from assms(1) have stack: "driver_stack k" "Driver_call_end \<in> set k \<longrightarrow> driver_call_in_flight s"
    "Disposal_begin True \<in> set k \<longrightarrow> disposal_detach s"
    and tokens: "of_bool (disposal_detach s) + stack_retires k + n \<le> (of_bool (disposal_requested s) :: nat)"
    unfolding driver_ok_def by blast+
  from tokens assms(3) have free: "of_bool (disposal_detach s) + stack_retires k = (0 :: nat)"
    by (cases "disposal_requested s"; cases "disposal_detach s") simp_all
  then show "\<not> disposal_detach s" by simp
  with free stack assms(2) driver_stack_empty [of k] show "k = []" by simp
qed

lemma abandon_section_life [simp]:
  "session_state (abandon_section s) = MLN_RENDER_SESSION_STATE_ABANDONED"
  "driver_call_in_flight (abandon_section s) = driver_call_in_flight s"
  "disposal_requested (abandon_section s) = disposal_requested s"
  "disposal_detach (abandon_section s) = disposal_detach s"
  "session_driver (abandon_section s) = session_driver s" "views_invalidated (abandon_section s)"
  "staged (abandon_section s) = []"
  by (simp_all add: abandon_section_def Let_def)

definition host_run_ok :: "nat \<Rightarrow> session_system \<Rightarrow> activation list \<times> session_system \<Rightarrow> bool" where
  "host_run_ok n S r \<longleftrightarrow> driver_ok (of_bool (lane_submitted (snd r)) + sum_list (map host_retires (fst r)) + n)
       (driver (snd r)) (session (snd r))
     \<and> host_ok (session (snd r)) (fst r)
     \<and> session_moves (session_state (session S)) (session_state (session (snd r)))"

lemma host_run_kept:
  assumes "driver_ok (of_bool (lane_submitted S) + sum_list (map host_retires (a # k)) + n) (driver S) (session S)"
    "host_ok (session S) (a # k)" "threads S' = threads S" "life_part (session S') = life_part (session S)"
    "list_all host_activation j" "list_ex needs_calm j \<longrightarrow> calm (session S)"
    "sum_list (map host_retires j) = host_retires a"
  shows "host_run_ok n S (j @ k, S')"
proof -
  from assms(3) have "driver S' = driver S" "lane_submitted S' = lane_submitted S" by (simp_all add: threads_def)
  with assms(1,7) driver_ok_same_life [OF assms(4)] have
    "driver_ok (of_bool (lane_submitted S') + sum_list (map host_retires (j @ k)) + n) (driver S') (session S')"
    by (simp add: ac_simps)
  moreover have "session_state (session S') = session_state (session S)"
    using assms(4) by (simp add: life_part_def)
  ultimately show ?thesis
    using assms(2,5,6) by (auto simp: host_run_ok_def host_ok_def session_moves_def)
qed

lemma driver_ok_less: "driver_ok n k s \<Longrightarrow> m \<le> n \<Longrightarrow> driver_ok m k s"
  unfolding driver_ok_def by (elim conjE, intro conjI) (assumption | linarith)+

text \<open>The abandonment: it takes an idle driver's work, and nothing of the driver runs after it.\<close>

lemma driver_ok_abandoned:
  assumes "driver_ok n k s" "\<not> driver_call_in_flight s" "disposal_requested s \<longrightarrow> n \<noteq> 0"
  shows "driver_ok n k (abandon_section s)"
proof -
  note idle = driver_idle [OF assms]
  from assms(1) have "of_bool (disposal_detach s) + stack_retires k + n \<le> (of_bool (disposal_requested s) :: nat)"
    unfolding driver_ok_def by blast
  with idle show ?thesis by (simp add: driver_ok_def attach_works_def detach_works_def)
qed

lemma host_cancelling:
  "list_all host_activation (map (\<lambda>w. Cancelling w status) ws)"
  "sum_list (map host_retires (map (\<lambda>w. Cancelling w status) ws)) = 0"
  by (induction ws) simp_all

lemma host_run_abandon:
  assumes "driver_ok (of_bool (lane_submitted S) + sum_list (map host_retires (Abandon_begin by_disposal # k)) + n)
      (driver S) (session S)"
    "host_ok (session S) (Abandon_begin by_disposal # k)"
  shows "host_run_ok n S (abandon_render_session ans by_disposal S k)"
proof -
  have refused: "host_run_ok n S (if by_disposal then Destroying # k else k, S)"
    using host_run_kept [OF assms, of S "if by_disposal then [Destroying] else []"] by (cases by_disposal) simp_all
  have waits: "host_run_ok n S (Abandon_begin by_disposal # k, S)"
    using host_run_kept [OF assms, of S "[Abandon_begin by_disposal]"] by simp
  have abandons: "host_run_ok n S (map (\<lambda>w. Cancelling w MLN_STATUS_TARGET_LOST) (driver_work (session S))
      @ Abandon_finish by_disposal # k, S\<lparr>session := abandon_section (session S)\<rparr>)"
    if "by_disposal \<or> \<not> disposal_requested (session S)" "\<not> driver_call_in_flight (session S)"
      "session_state (session S) \<noteq> MLN_RENDER_SESSION_STATE_DETACHED"
  proof -
    have "driver_ok (of_bool (lane_submitted S) + sum_list (map host_retires (Abandon_begin by_disposal # k)) + n)
        (driver S) (abandon_section (session S))"
      using that(1) by (intro driver_ok_abandoned [OF assms(1) that(2)]) auto
    with assms(2) that(3) show ?thesis
      by (auto simp: host_run_ok_def host_ok_def host_cancelling session_moves_def comp_def)
  qed
  show ?thesis
    using refused waits abandons by (auto simp: abandon_render_session_def Let_def)
qed

lemma release_sync_calm:
  "calm (session S) \<Longrightarrow> \<exists>status. release_sync ans f sync S k = (Release_waited f sync status # k, S)"
  by (auto simp: release_sync_def Let_def session_over_def fail_session_def)

lemma host_run_activation:
  assumes "driver_ok (of_bool (lane_submitted S) + sum_list (map host_retires (a # k)) + n) (driver S) (session S)"
    "host_ok (session S) (a # k)"
  shows "host_run_ok n S (run_activation ans a k S)"
proof -
  note kept = host_run_kept [OF assms]
  have same: "host_run_ok n S (k, S\<lparr>session := s'\<rparr>)" if "life_part s' = life_part (session S)" "host_retires a = 0" for s'
    using kept [of "S\<lparr>session := s'\<rparr>" "[]"] that by simp
  have host: "host_activation a" using assms(2) by (simp add: host_ok_def)
  have calm: "calm (session S)" if "needs_calm a" using assms(2) that by (simp add: host_ok_def)
  show ?thesis
  proof (cases a)
    case (Cancelling w status)
    with kept [of S "[]"] kept [of S "[b]" for b] calm show ?thesis by (cases w) simp_all
  next
    case (Completing op status)
    then show ?thesis by (simp add: same life_part_def)
  next
    case (Releasing f sync)
    with release_sync_calm [OF calm, of ans f sync k] kept [of S "[b]" for b] show ?thesis by auto
  next
    case (Release_waited f sync status)
    then show ?thesis by (simp add: same release_slot.keeps_life)
  next
    case (Inserting_frame f)
    with kept [of "insert_frame ans f S" "[]"] show ?thesis
      by (simp add: insert_frame_def Let_def life_part_def with_frame_def threads_def)
  next
    case (Removing_frame f sync immediately)
    with kept [of "with_frame f (\<lambda>x. x\<lparr>frame_handle := Handle_gone\<rparr>) S" "[]"]
      kept [of "with_frame f (\<lambda>x. x\<lparr>frame_handle := Handle_gone\<rparr>) S" "[Releasing f sync]"] calm
    show ?thesis by (auto simp: remove_frame_def life_part_def with_frame_def threads_def)
  next
    case (Discard_removing f)
    with kept [of "with_frame f (\<lambda>x. x\<lparr>frame_handle := Handle_gone\<rparr>) S" "[Discard_finishing f]"] show ?thesis
      by (simp add: life_part_def with_frame_def threads_def)
  next
    case (Discard_finishing f)
    then show ?thesis by (simp add: same discard_slot.keeps_life)
  next
    case Draining
    then show ?thesis by (simp add: same drain_results.keeps_life)
  next
    case (Abandon_begin by_disposal)
    with assms host_run_abandon show ?thesis by simp
  next
    case (Abandon_finish by_disposal)
    with kept [of "S\<lparr>session := finish_abandon (session S)\<rparr>" "if by_disposal then [Destroying] else []"] show ?thesis
      by (cases by_disposal) (simp_all add: finish_abandon.keeps_life)
  next
    case Destroying
    have "driver_ok (of_bool (lane_submitted S) + sum_list (map host_retires k) + n) (driver S) (session S)"
      by (rule driver_ok_less [OF assms(1)]) (simp add: Destroying)
    with assms(2) Destroying have "host_run_ok n S (k, S)" "host_run_ok n S (k, S\<lparr>session := destroy_section (session S)\<rparr>)"
      by (simp_all add: host_run_ok_def host_ok_def session_moves_def)
    with kept [of S "[Destroying]"] Destroying show ?thesis by (simp add: destroy_render_session_def Let_def)
  qed (use host in simp_all)
qed

section \<open>Every step\<close>

definition life_step :: "session_system \<Rightarrow> session_system \<Rightarrow> bool" where
  "life_step S S' \<longleftrightarrow> life_ok S' \<and> session_moves (session_state (session S)) (session_state (session S'))"

lemma host_ok_moves: "host_ok s k \<Longrightarrow> session_moves (session_state s) (session_state s') \<Longrightarrow> host_ok s' k"
  by (auto simp: host_ok_def dest: moves_calm)

lemma life_step_kept:
  assumes "life_ok S" "life_part (session S') = life_part (session S)" "driver S' = driver S"
    "lane_submitted S' = lane_submitted S" "hosts S' = hosts S + H"
    "\<forall>k\<in>#H. host_ok (session S) k \<and> sum_list (map host_retires k) = 0"
  shows "life_step S S'"
proof -
  have retire: "hosts_retire (hosts S') = hosts_retire (hosts S)"
    using assms(6) by (simp add: assms(5) hosts_retire_def cong: image_mset_cong)
  have state: "session_state (session S') = session_state (session S)" using assms(2) by (simp add: life_part_def)
  with assms retire show ?thesis
    by (auto simp: life_step_def life_ok_def session_moves_def host_ok_def driver_ok_same_life [OF assms(2)])
qed

lemma life_step_with:
  "life_ok S \<Longrightarrow> (\<And>s. life_part (f s) = life_part s) \<Longrightarrow> life_step S (with_session f S)"
  "life_ok S \<Longrightarrow> (\<And>s. life_part (f s) = life_part s) \<Longrightarrow> life_step S (with_session f S\<lparr>next_operation := n\<rparr>)"
  using life_step_kept [of S "with_session f S" "{#}"] life_step_kept [of S "with_session f S\<lparr>next_operation := n\<rparr>" "{#}"]
  by (simp_all add: with_session_def)

lemma life_step_driver:
  assumes "life_ok S" "driver S = a # k" "run_activation ans a k S = (k', S')"
  shows "life_step S (S'\<lparr>driver := k'\<rparr>)"
proof -
  have ok: "ok (hosts_retire (hosts S)) (a # k, S)" using assms(1,2) by (simp add: life_ok_def ok_def)
  have threads: "hosts S' = hosts S" "a \<noteq> Lane_submit \<Longrightarrow> lane_submitted S' = lane_submitted S"
    using threads_run_activation [of a ans k S] assms(3) by (cases "a = Lane_submit"; auto simp: threads_def)+
  have moves: "session_moves (session_state (session S)) (session_state (session S'))"
    using driver_moves [OF ok, of ans] assms(3) by simp
  from ok_run_activation [OF ok, of ans] assms(3) threads moves assms(1) show ?thesis
    by (auto simp: life_step_def life_ok_def ok_def intro: host_ok_moves)
qed

lemma life_step_host:
  assumes "life_ok S" "hosts S = add_mset (a # k) H" "run_activation ans a k (S\<lparr>hosts := H\<rparr>) = (k', S')"
  shows "life_step S (S'\<lparr>hosts := (if k' = [] then hosts S' else add_mset k' (hosts S'))\<rparr>)"
proof -
  have host: "host_activation a" using assms(1,2) by (simp add: life_ok_def host_ok_def)
  then have threads: "hosts S' = H"
    using threads_run_activation [of a ans k "S\<lparr>hosts := H\<rparr>"] assms(3) by (cases a) (auto simp: threads_def)
  have "host_run_ok (hosts_retire H) (S\<lparr>hosts := H\<rparr>) (run_activation ans a k (S\<lparr>hosts := H\<rparr>))"
    using assms(1,2) by (intro host_run_activation) (auto simp: life_ok_def ac_simps)
  with assms threads show ?thesis
    by (auto simp: host_run_ok_def life_step_def life_ok_def ac_simps intro: host_ok_moves)
qed

lemma life_step_worker:
  assumes "life_ok S" "driver S = []" "session_driver (session S) = MLN_RENDER_DRIVER_CORE_WORKER"
    "core_worker_step S = (k', S')"
  shows "life_step S (S'\<lparr>driver := k'\<rparr>)"
proof -
  define s where "s = session S"
  define n where "n = of_bool (lane_submitted S) + hosts_retire (hosts S)"
  have idle: "driver_ok n [] s" using assms(1,2) by (simp add: life_ok_def s_def n_def)
  have disposal: "driver_ok n [Disposal_begin True] s" if "disposal_detach s"
    using idle that assms(3) by (auto simp: driver_ok_def disposal_base_def s_def)
  have runs: "driver_ok n [Running w, Driver_call_end] (s\<lparr>driver_work := ws, driver_call_in_flight := True\<rparr>)"
    if "driver_work s = w # ws" "\<not> views_invalidated s" for w ws
    using idle that by (cases w) (auto simp: driver_ok_def call_base_def attach_works_def detach_works_def staged_def)
  have reports: "driver_ok n [Driver_call_end] (s\<lparr>gpu_wait_pending := True, driver_call_in_flight := True\<rparr>)"
    if "\<not> views_invalidated s"
    using idle that by (auto simp: driver_ok_def attach_works_def detach_works_def)
  have "driver_work s = hd (driver_work s) # tl (driver_work s)" if "driver_work_runnable s"
    using that by (simp add: driver_work_runnable_def)
  with idle disposal runs reports have "driver_ok n k' (session S')" "session_state (session S') = session_state s"
    "hosts S' = hosts S" "lane_submitted S' = lane_submitted S"
    using assms(4) by (auto simp: core_worker_step_def Let_def simp flip: s_def split: if_splits)
  with assms(1) show ?thesis
    by (auto simp: life_step_def life_ok_def session_moves_def n_def s_def host_ok_def)
qed

lemma life_step_service:
  assumes "life_ok S" "driver S = []" "service_begin right_thread (session S) = MLN_STATUS_OK"
  shows "life_step S (with_session (\<lambda>s. s\<lparr>driver_call_in_flight := True\<rparr>) S\<lparr>driver := [Service_loop, Driver_call_end]\<rparr>)"
proof -
  from assms(3) have "\<not> views_invalidated (session S)" by (simp add: service_begin_def split: if_splits)
  with assms(1,2) show ?thesis
    by (auto simp: life_step_def life_ok_def with_session_def session_moves_def driver_ok_def host_ok_def
        attach_works_def detach_works_def)
qed

text \<open>A detach is submitted while the session is attached, which it is then no more.\<close>

lemma submit_detach_life:
  "life_part (snd (submit_detach op s)) = life_part s
   \<or> (session_state s = MLN_RENDER_SESSION_STATE_ATTACHED
      \<and> life_part (snd (submit_detach op s)) = life_part (s\<lparr>driver_work := driver_work s @ [Detach_work op],
          session_state := MLN_RENDER_SESSION_STATE_DETACHING\<rparr>))"
proof -
  have "staged (snd (allocate s)) = filter (\<lambda>w. is_attach w \<or> is_detach w) (driver_work (snd (allocate s)))"
    by (simp only: staged_def)
  then show ?thesis
    by (simp add: submit_detach_def submit_work_def split_beta life_part_def flip: staged_def)
qed

lemma driver_ok_detaching:
  assumes "driver_ok n k s" "session_state s = MLN_RENDER_SESSION_STATE_ATTACHED"
  shows "driver_ok n k (s\<lparr>driver_work := driver_work s @ [Detach_work op], session_state := MLN_RENDER_SESSION_STATE_DETACHING\<rparr>)"
  using assms by (auto simp: driver_ok_def attach_works_def detach_works_def simp flip: staged_def)

lemma life_step_detach:
  assumes "life_ok S"
  shows "life_step S (with_session (\<lambda>s. snd (submit_detach m s)) S\<lparr>next_operation := j\<rparr>)"
  using submit_detach_life [of m "session S"]
proof
  assume "life_part (snd (submit_detach m (session S))) = life_part (session S)"
  with assms life_step_kept [of S "with_session (\<lambda>s. snd (submit_detach m s)) S\<lparr>next_operation := j\<rparr>" "{#}"] show ?thesis
    by (simp add: with_session_def)
next
  let ?s = "(session S)\<lparr>driver_work := driver_work (session S) @ [Detach_work m],
      session_state := MLN_RENDER_SESSION_STATE_DETACHING\<rparr>"
  assume detaches: "session_state (session S) = MLN_RENDER_SESSION_STATE_ATTACHED
    \<and> life_part (snd (submit_detach m (session S))) = life_part ?s"
  then have "session_state (snd (submit_detach m (session S))) = MLN_RENDER_SESSION_STATE_DETACHING"
    by (simp add: life_part_def)
  with detaches assms driver_ok_detaching [of _ _ "session S" m] show ?thesis
    by (auto simp: life_step_def life_ok_def with_session_def session_moves_def host_ok_def
        driver_ok_same_life [of "snd (submit_detach m (session S))" ?s])
qed

text \<open>A disposal starts one retirement: a detach on the driver, or the task on the lane.\<close>

lemma driver_ok_disposed:
  assumes "driver_ok n k s" "\<not> disposal_requested s"
  shows "session_state s \<noteq> MLN_RENDER_SESSION_STATE_ABANDONED \<Longrightarrow> driver_ok n k (s\<lparr>disposal_requested := True, disposal_detach := True\<rparr>)"
    "driver_ok (Suc n) k (s\<lparr>disposal_requested := True, views_invalidated := True, stop_worker := True\<rparr>)"
    "n = 0"
proof -
  from assms(1) have "of_bool (disposal_detach s) + stack_retires k + n \<le> (of_bool (disposal_requested s) :: nat)"
    unfolding driver_ok_def by blast
  with assms(2) have none: "\<not> disposal_detach s" "stack_retires k = 0" "n = 0" by simp_all
  then show "n = 0" by simp
  show "driver_ok n k (s\<lparr>disposal_requested := True, disposal_detach := True\<rparr>)"
    if "session_state s \<noteq> MLN_RENDER_SESSION_STATE_ABANDONED"
    using assms(1) that none unfolding driver_ok_def attach_works_def detach_works_def
    by (cases "session_state s"; simp)
  show "driver_ok (Suc n) k (s\<lparr>disposal_requested := True, views_invalidated := True, stop_worker := True\<rparr>)"
    using assms(1) none unfolding driver_ok_def attach_works_def detach_works_def
    by (cases "session_state s"; simp)
qed

lemma driver_ok_wake [simp]: "driver_ok n k (s\<lparr>driver_wake_pending := b\<rparr>) = driver_ok n k s"
  by (rule driver_ok_same_life) (simp add: life_part_def)

lemma life_step_dispose:
  assumes "life_ok S" shows "life_step S (snd (dispose_render_session quarantine refuses_held S))"
proof (cases "disposal_requested (session S) \<or> (refuses_held \<and> acquired_frame_count (session S) \<noteq> 0)")
  case True
  with assms show ?thesis
    by (auto simp: dispose_render_session_def Let_def life_step_def session_moves_def)
next
  case False
  then have fresh: "\<not> disposal_requested (session S)" by simp
  note disposed = driver_ok_disposed [OF _ fresh]
  have driver: "driver_ok (of_bool (lane_submitted S) + hosts_retire (hosts S)) (driver S) (session S)"
    using assms by (simp add: life_ok_def)
  have lane: "\<not> lane_submitted S" "hosts_retire (hosts S) = 0" using disposed(3) [OF driver] by simp_all
  show ?thesis
    using False assms lane disposed(1,2) [OF driver]
    by (auto simp: dispose_render_session_def Let_def life_step_def life_ok_def session_moves_def host_ok_def)
qed

lemma driver_ok_unserviced:
  assumes "driver_ok n k s" "disposal_detach s" "session_driver s = MLN_RENDER_DRIVER_CALLER_GRAPHICS_THREAD"
  shows "driver_ok (Suc n) k (s\<lparr>disposal_detach := False, views_invalidated := True, stop_worker := True\<rparr>)"
  using assms unfolding driver_ok_def attach_works_def detach_works_def
  by (cases "session_state s"; simp)

lemma life_step_unserviced:
  assumes "life_ok S" "session_driver (session S) = MLN_RENDER_DRIVER_CALLER_GRAPHICS_THREAD"
  shows "life_step S (abandon_unserviced_disposal S)"
proof (cases "disposal_detach (session S)")
  case True
  have driver: "driver_ok (of_bool (lane_submitted S) + hosts_retire (hosts S)) (driver S) (session S)"
    using assms by (simp add: life_ok_def)
  then have "of_bool (disposal_detach (session S)) + stack_retires (driver S) + (of_bool (lane_submitted S) + hosts_retire (hosts S))
      \<le> (of_bool (disposal_requested (session S)) :: nat)" unfolding driver_ok_def by blast
  with True have "\<not> lane_submitted S" "hosts_retire (hosts S) = 0"
    by (cases "disposal_requested (session S)"; cases "lane_submitted S"; simp)+
  with driver_ok_unserviced [OF driver True assms(2)] assms True show ?thesis
    by (auto simp: abandon_unserviced_disposal_def Let_def life_step_def life_ok_def session_moves_def host_ok_def)
next
  case False
  with assms show ?thesis by (simp add: abandon_unserviced_disposal_def life_step_def session_moves_def)
qed

lemma acquire_frame_kept:
  "life_part (session (snd (acquire_frame S))) = life_part (session S)"
  "driver (snd (acquire_frame S)) = driver S" "lane_submitted (snd (acquire_frame S)) = lane_submitted S"
  "\<exists>H. hosts (snd (acquire_frame S)) = hosts S + H \<and> (\<forall>k\<in>#H. \<exists>f. k = [Inserting_frame f])"
  by (auto simp: acquire_frame_def Let_def life_part_def split: option.split intro: exI [of _ "{#}"])

lemma release_frame_kept:
  "life_part (session (snd (release_frame f sync S))) = life_part (session S)"
  "driver (snd (release_frame f sync S)) = driver S" "lane_submitted (snd (release_frame f sync S)) = lane_submitted S"
  "\<exists>H. hosts (snd (release_frame f sync S)) = hosts S + H
     \<and> (\<forall>k\<in>#H. \<exists>immediately. k = [Removing_frame f sync immediately] \<and> (immediately \<longrightarrow> calm (session S)))"
  by (auto simp: release_frame_def Let_def split_beta life_part_def with_frame_def session_over_def intro: exI [of _ "{#}"]
      simp flip: staged_def)

lemma life_step_queues:
  assumes "life_ok S"
  shows "life_step S (drain_begin S)" "life_step S (snd (begin_view f S))" "life_step S (end_view f S)"
    "life_step S (with_frame f g S\<lparr>hosts := add_mset [Discard_removing f] (hosts S)\<rparr>)"
    "life_step S (S\<lparr>hosts := add_mset [Abandon_begin False] (hosts S)\<rparr>)"
proof -
  note kept = life_step_kept [OF assms]
  from kept [of _ "{#[Draining]#}"] kept [of _ "{#}"] show "life_step S (drain_begin S)"
    by (simp add: drain_begin_def host_ok_def life_part_def)
  from kept [of _ "{#}"] show "life_step S (snd (begin_view f S))" "life_step S (end_view f S)"
    by (simp_all add: begin_view_def end_view_def Let_def with_frame_def life_part_def)
  from kept [of _ "{#[Discard_removing f]#}"]
  show "life_step S (with_frame f g S\<lparr>hosts := add_mset [Discard_removing f] (hosts S)\<rparr>)"
    by (simp add: with_frame_def host_ok_def)
  from kept [of _ "{#[Abandon_begin False]#}"] show "life_step S (S\<lparr>hosts := add_mset [Abandon_begin False] (hosts S)\<rparr>)"
    by (simp add: host_ok_def)
qed

lemma life_step_lane:
  assumes "life_ok S" "lane_submitted S"
  shows "life_step S (S\<lparr>lane_submitted := False, hosts := add_mset [Abandon_begin True] (hosts S)\<rparr>)"
  using assms by (auto simp: life_step_def life_ok_def session_moves_def host_ok_def)

lemma resume_driver_work_life:
  "life_part (resume_driver_work (s\<lparr>map_created := c\<rparr>)) = life_part s"
  "life_part (resume_driver_work (s\<lparr>pending_result_ready := r\<rparr>)) = life_part s"
  "life_part (s\<lparr>the_map := m\<rparr>) = life_part s" "life_part (s\<lparr>memory := outcomes\<rparr>) = life_part s"
  by (simp_all add: resume_driver_work.keeps_life) (simp_all add: life_part_def)

lemmas calls_keep_life =
  demand_frame.keeps_life set_frame_pacer.keeps_life submit_operation.keeps_life submit_retarget.keeps_life
  submit_release_target.keeps_life submit_barrier.keeps_life submit_resize.keeps_life notify_map_update.keeps_life
  notify_map_commands.keeps_life notify_still_image.keeps_life schedule_service.keeps_life gpu_work_done.keeps_life
  resume_driver_work_life

lemma life_step_any:
  assumes "life_ok S" "session_step S S'"
  shows "life_step S S'"
  using assms(2,1)
proof (cases rule: session_step.cases)
  case (step_driver a k ans k' S1)
  with assms life_step_driver show ?thesis by simp
next
  case (step_worker k' S1)
  with assms life_step_worker show ?thesis by simp
next
  case step_service
  with assms life_step_service show ?thesis by simp
next
  case (step_host a k H ans k' S1)
  with assms life_step_host show ?thesis by blast
next
  case (step_release f sync)
  from release_frame_kept(4) [of f sync S] obtain H where "hosts (snd (release_frame f sync S)) = hosts S + H"
    "\<forall>k\<in>#H. \<exists>immediately. k = [Removing_frame f sync immediately] \<and> (immediately \<longrightarrow> calm (session S))" by blast
  with life_step_kept [OF assms(1) release_frame_kept(1-3)] step_release show ?thesis
    by (fastforce simp: host_ok_def)
next
  case step_acquire
  from acquire_frame_kept(4) [of S] obtain H where "hosts (snd (acquire_frame S)) = hosts S + H"
    "\<forall>k\<in>#H. \<exists>f. k = [Inserting_frame f]" by blast
  with life_step_kept [OF assms(1) acquire_frame_kept(1-3)] step_acquire show ?thesis
    by (fastforce simp: host_ok_def)
qed (use assms(1) in \<open>auto intro!: life_step_with calls_keep_life life_step_detach life_step_dispose life_step_unserviced
    life_step_queues life_step_lane\<close>)

lemma attaching_session_life:
  "life_part (attaching_session kind mode depth drv consumer producer acquires redraw logical physical scale identity m)
    = (MLN_RENDER_SESSION_STATE_ATTACHING, True, False, False, False, drv, False, [Attach_work 0])"
  unfolding attaching_session_def publish_driver_work.keeps_life by (simp add: life_part_def staged_def)

lemma life_ok_start: "life_ok (attaching_system
    (attaching_session kind mode depth drv consumer producer acquires redraw logical physical scale identity m))"
  using attaching_session_life [of kind mode depth drv consumer producer acquires redraw logical physical scale identity m]
  by (simp add: life_ok_def attaching_system_def life_part_def driver_ok_def attach_works_def detach_works_def)

lemma reachable_life: "session_reachable S \<Longrightarrow> life_ok S"
  by (induction rule: session_reachable.induct) (auto simp: life_ok_start life_step_def dest: life_step_any)

section \<open>The properties\<close>

lemma reachable_steps: "session_step\<^sup>*\<^sup>* S S' \<Longrightarrow> session_reachable S \<Longrightarrow> session_reachable S'"
  by (induction rule: rtranclp_induct) (auto intro: session_next)

lemma reachable_moves:
  "session_reachable S \<Longrightarrow> session_step S S' \<Longrightarrow> session_moves (session_state (session S)) (session_state (session S'))"
  using life_step_any reachable_life by (auto simp: life_step_def)

definition final_state :: "mln_render_session_state \<Rightarrow> bool" where
  "final_state st \<longleftrightarrow> st = MLN_RENDER_SESSION_STATE_DETACHED \<or> st = MLN_RENDER_SESSION_STATE_ABANDONED"

definition comes_before :: "mln_render_session_state \<Rightarrow> mln_render_session_state \<Rightarrow> bool" where
  "comes_before st st' \<longleftrightarrow> (session_over st \<longrightarrow> session_over st') \<and> (final_state st \<longrightarrow> st' = st)
     \<and> (st' = MLN_RENDER_SESSION_STATE_ATTACHING \<longrightarrow> st = MLN_RENDER_SESSION_STATE_ATTACHING)
     \<and> (st' = MLN_RENDER_SESSION_STATE_ATTACHED \<longrightarrow> undetached st)"

lemma comes_before_moves: "comes_before st st' \<Longrightarrow> session_moves st' st'' \<Longrightarrow> comes_before st st''"
  unfolding comes_before_def session_moves_def session_over_def final_state_def undetached_def
  by (cases st; cases st'; cases st''; simp)

text \<open>
  C30: Whatever happens to a render session in any order (driver work, calls of hosts on any thread, notices, disposal,
  failing allocations), its state only goes forward: it attaches once, from attaching; it does not become
  attached again after a detach began; when it failed, was abandoned or was detached it stays over, and detached
  and abandoned are final.
\<close>

theorem render_session_goes_forward:
  assumes "session_reachable S" "session_step\<^sup>*\<^sup>* S S'"
  shows "(session_over (session_state (session S)) \<longrightarrow> session_over (session_state (session S')))
    \<and> (final_state (session_state (session S)) \<longrightarrow> session_state (session S') = session_state (session S))
    \<and> (session_state (session S') = MLN_RENDER_SESSION_STATE_ATTACHING
        \<longrightarrow> session_state (session S) = MLN_RENDER_SESSION_STATE_ATTACHING)
    \<and> (session_state (session S') = MLN_RENDER_SESSION_STATE_ATTACHED \<longrightarrow> undetached (session_state (session S)))"
proof -
  have "comes_before (session_state (session S)) (session_state (session S'))"
    using assms(2)
  proof (induction rule: rtranclp_induct)
    case base
    show ?case by (simp add: comes_before_def undetached_def)
  next
    case (step T T')
    with reachable_moves [OF reachable_steps [OF step(1) assms(1)] step(2)] show ?case
      by (blast intro: comes_before_moves)
  qed
  then show ?thesis unfolding comes_before_def .
qed

theorem render_session_goes_forward_witness:
  "session_state (session attached_sample) = MLN_RENDER_SESSION_STATE_ATTACHED
   \<and> session_state (session disposed_sample) = MLN_RENDER_SESSION_STATE_ATTACHED
   \<and> undetached (session_state (session attached_sample))"
proof -
  have "session_step\<^sup>*\<^sup>* attached_sample disposed_sample"
    unfolding disposed_sample_def by (rule r_into_rtranclp) (rule step_dispose)
  with render_session_goes_forward [OF reachable_attached, of disposed_sample] show ?thesis
    by (simp add: attached_sample_is disposed_sample_is)
qed

text \<open>
  C31: One retirement at most is under way for a session, and none before its disposal: the detach asked of the
  driver, the driver's detach, the task on the retirement lane, the lane's abandonment and destruction are
  never two. The driver runs an attempt that is still to render only while the session is attached or detaching, it runs nothing
  for an abandoned session, and the flag that keeps two threads from driving is set while a call is under way.
\<close>

theorem render_session_retired_once:
  assumes "session_reachable S"
  shows "of_bool (disposal_detach (session S)) + stack_retires (driver S) + of_bool (lane_submitted S) + hosts_retire (hosts S)
      \<le> (of_bool (disposal_requested (session S)) :: nat)
    \<and> (session_state (session S) = MLN_RENDER_SESSION_STATE_ABANDONED \<longrightarrow> driver S = [])
    \<and> (Driver_call_end \<in> set (driver S) \<longrightarrow> driver_call_in_flight (session S))
    \<and> (\<forall>a k. driver S = a # k \<longrightarrow> open_attempt a \<longrightarrow> live S)"
proof -
  from reachable_life [OF assms] have life: "life_ok S" .
  then have "driver_ok (of_bool (lane_submitted S) + hosts_retire (hosts S)) (driver S) (session S)"
    by (simp add: life_ok_def)
  note parts = this [unfolded driver_ok_def]
  from parts have "of_bool (disposal_detach (session S)) + stack_retires (driver S)
      + (of_bool (lane_submitted S) + hosts_retire (hosts S)) \<le> (of_bool (disposal_requested (session S)) :: nat)" by blast
  moreover from parts have "session_state (session S) = MLN_RENDER_SESSION_STATE_ABANDONED \<longrightarrow> driver S = []" by blast
  moreover from parts have "Driver_call_end \<in> set (driver S) \<longrightarrow> driver_call_in_flight (session S)" by blast
  moreover from parts have "driver S = a # k \<Longrightarrow> open_attempt a \<Longrightarrow> live S" for a k
    by (auto simp: live_def)
  ultimately show ?thesis by (simp add: ac_simps)
qed

theorem render_session_retired_once_witness:
  "lane_submitted disposed_sample \<and> disposal_requested (session disposed_sample)
   \<and> stack_retires (driver disposed_sample) = 0 \<and> driver_call_in_flight (session disposed_sample)"
  using render_session_retired_once [OF reachable_disposed] by (simp add: disposed_sample_is)

end
