(* ===== verification/Frame_Demands.thy ===== *)
theory Frame_Demands
  imports Session_Life
begin

text \<open>
  Every frame demand that a session accepts gets one result: the ledger of a session, which every function
  of \<open>Render_Sessions\<close> and every step of \<open>Render_Steps\<close> balances. A demand is pending (queued or waiting for
  an update), or owned by the attempt that runs it, or answered, or dropped by the session's disposal.
\<close>

section \<open>The ledger\<close>

record ledger =
  accepted_of :: "u64 multiset"
  answered_of :: "u64 multiset"
  pending_of :: "u64 multiset"
  dropped_of :: "u64 multiset"
  unfinished_of :: nat
  queued_results :: nat
  capacity_of :: nat
  announced :: bool
  state_of :: mln_render_session_state
  disposed :: bool

definition demand_tokens :: "queued_demand list \<Rightarrow> u64 multiset" where
  "demand_tokens ds = mset (map frame_demand_token ds)"

definition ledger :: "render_session \<Rightarrow> ledger" where
  "ledger s = \<lparr>accepted_of = mset (accepted_tokens s),
     answered_of = mset (map render_frame_result_token (taken_results s @ frame_results s)),
     pending_of = demand_tokens (demands s) + demand_tokens (update_waiting_demands s),
     dropped_of = mset (dropped_tokens s),
     unfinished_of = unfinished_demands s, queued_results = length (frame_results s),
     capacity_of = results_capacity s,
     announced = (holds_wakes s \<and> frame_results s \<noteq> [] \<longrightarrow> frame_wake_pending s),
     state_of = session_state s, disposed = disposal_requested s\<rparr>"

text \<open>The ledger with the demands that running attempts own.\<close>

definition balanced :: "u64 multiset \<Rightarrow> ledger \<Rightarrow> bool" where
  "balanced owned l \<longleftrightarrow> accepted_of l = owned + answered_of l + pending_of l + dropped_of l
     \<and> unfinished_of l = size owned + size (pending_of l) + size (dropped_of l)
     \<and> queued_results l + unfinished_of l \<le> capacity_of l
     \<and> announced l"

definition settled :: "ledger \<Rightarrow> bool" where
  "settled l \<longleftrightarrow> (session_over (state_of l) \<longrightarrow> pending_of l = {#}) \<and> (dropped_of l \<noteq> {#} \<longrightarrow> disposed l)"

lemma demand_tokens_simps [simp]:
  "demand_tokens [] = {#}"
  "demand_tokens (d # ds) = add_mset (frame_demand_token d) (demand_tokens ds)"
  "demand_tokens (ds @ es) = demand_tokens ds + demand_tokens es"
  "demand_tokens (rev ds) = demand_tokens ds"
  "size (demand_tokens ds) = length ds"
  by (simp_all add: demand_tokens_def rev_map)

lemma demand_tokens_filter:
  "demand_tokens (filter P ds) + demand_tokens (filter (\<lambda>d. \<not> P d) ds) = demand_tokens ds"
  by (simp add: demand_tokens_def multiset_partition flip: mset_filter mset_map)
    (simp add: filter_mset_image_mset flip: image_mset_union multiset_partition)

section \<open>What leaves the ledger as it is\<close>

lemma ledger_fields [simp]:
  "ledger (s\<lparr>slots := x1\<rparr>) = ledger s"
  "ledger (s\<lparr>pending_retargets := x2\<rparr>) = ledger s"
  "ledger (s\<lparr>gpu_frames_in_flight := x3\<rparr>) = ledger s"
  "ledger (s\<lparr>gpu_wait_pending := x4\<rparr>) = ledger s"
  "ledger (s\<lparr>acquired_frame_count := x5\<rparr>) = ledger s"
  "ledger (s\<lparr>driver_work := x6\<rparr>) = ledger s"
  "ledger (s\<lparr>failure_status := x7\<rparr>) = ledger s"
  "ledger (s\<lparr>extent := x8\<rparr>) = ledger s"
  "ledger (s\<lparr>physical_extent := x9\<rparr>) = ledger s"
  "ledger (s\<lparr>generation := x10\<rparr>) = ledger s"
  "ledger (s\<lparr>map_update_generation := x11\<rparr>) = ledger s"
  "ledger (s\<lparr>rendered_update_generation := x12\<rparr>) = ledger s"
  "ledger (s\<lparr>rendered_target_generation := x13\<rparr>) = ledger s"
  "ledger (s\<lparr>frame_generation := x14\<rparr>) = ledger s"
  "ledger (s\<lparr>pending_changes := x15\<rparr>) = ledger s"
  "ledger (s\<lparr>target_released := x16\<rparr>) = ledger s"
  "ledger (s\<lparr>pending_target_releases := x17\<rparr>) = ledger s"
  "ledger (s\<lparr>target_identity := x18\<rparr>) = ledger s"
  "ledger (s\<lparr>attached := x19\<rparr>) = ledger s"
  "ledger (s\<lparr>the_map := x20\<rparr>) = ledger s"
  "ledger (s\<lparr>map_created := x21\<rparr>) = ledger s"
  "ledger (s\<lparr>pending_result_ready := x22\<rparr>) = ledger s"
  "ledger (s\<lparr>active_views := x23\<rparr>) = ledger s"
  "ledger (s\<lparr>views_invalidated := x24\<rparr>) = ledger s"
  "ledger (s\<lparr>abandonment_complete := x25\<rparr>) = ledger s"
  "ledger (s\<lparr>disposal_detach := x26\<rparr>) = ledger s"
  "ledger (s\<lparr>destruction_started := x27\<rparr>) = ledger s"
  "ledger (s\<lparr>driver_call_in_flight := x28\<rparr>) = ledger s"
  "ledger (s\<lparr>stop_worker := x29\<rparr>) = ledger s"
  "ledger (s\<lparr>scheduler_service_queued := x30\<rparr>) = ledger s"
  "ledger (s\<lparr>has_pacer := x31\<rparr>) = ledger s"
  "ledger (s\<lparr>driver_wake_pending := x32\<rparr>) = ledger s"
  "ledger (s\<lparr>redraw_wake_pending := x33\<rparr>) = ledger s"
  "ledger (s\<lparr>owed_wakes := x34\<rparr>) = ledger s"
  "ledger (s\<lparr>fired_wakes := x35\<rparr>) = ledger s"
  "ledger (s\<lparr>completed := x36\<rparr>) = ledger s"
  "ledger (s\<lparr>memory := x37\<rparr>) = ledger s"
  "ledger (s\<lparr>still_image_demands := x38\<rparr>) = ledger s"
  "ledger (s\<lparr>still_image_demand_generation := x39\<rparr>) = ledger s"
  "ledger (s\<lparr>still_image_rearm := x40\<rparr>) = ledger s"
  "ledger (s\<lparr>pending_frame_barriers := x41\<rparr>) = ledger s"
  "ledger (s\<lparr>next_demand := x42\<rparr>) = ledger s"
  by (simp_all add: ledger_def)

lemma ledger_updates [simp]:
  "ledger (s\<lparr>demands := ds\<rparr>) = (ledger s)\<lparr>pending_of := demand_tokens ds + demand_tokens (update_waiting_demands s)\<rparr>"
  "ledger (s\<lparr>update_waiting_demands := ds\<rparr>) = (ledger s)\<lparr>pending_of := demand_tokens (demands s) + demand_tokens ds\<rparr>"
  "ledger (s\<lparr>unfinished_demands := n\<rparr>) = (ledger s)\<lparr>unfinished_of := n\<rparr>"
  "ledger (s\<lparr>accepted_tokens := ts\<rparr>) = (ledger s)\<lparr>accepted_of := mset ts\<rparr>"
  "ledger (s\<lparr>dropped_tokens := ts\<rparr>) = (ledger s)\<lparr>dropped_of := mset ts\<rparr>"
  "ledger (s\<lparr>results_capacity := n\<rparr>) = (ledger s)\<lparr>capacity_of := n\<rparr>"
  "ledger (s\<lparr>session_state := st\<rparr>) = (ledger s)\<lparr>state_of := st\<rparr>"
  "ledger (s\<lparr>disposal_requested := b\<rparr>) = (ledger s)\<lparr>disposed := b\<rparr>"
  by (simp_all add: ledger_def)

lemma ledger_parts [simp]:
  "accepted_of (ledger s) = mset (accepted_tokens s)"
  "unfinished_of (ledger s) = unfinished_demands s"
  "capacity_of (ledger s) = results_capacity s"
  "queued_results (ledger s) = length (frame_results s)"
  "dropped_of (ledger s) = mset (dropped_tokens s)"
  "state_of (ledger s) = session_state s"
  "disposed (ledger s) = disposal_requested s"
  "pending_of (ledger s) = demand_tokens (demands s) + demand_tokens (update_waiting_demands s)"
  by (simp_all add: ledger_def)


lemma ledger_pending [simp]:
  "(ledger s)\<lparr>pending_of := demand_tokens (demands s) + demand_tokens (update_waiting_demands s)\<rparr> = ledger s"
  by (simp add: ledger_def)

text \<open>
  A function that leaves the queues of demands alone, and one that leaves the results alone too: what the
  functions of the ring, of the wakes and of the driver's work promise to those of the demands.
\<close>

definition queue_part where
  "queue_part s = (demands s, update_waiting_demands s, accepted_tokens s, dropped_tokens s, taken_results s,
     results_capacity s, session_state s, disposal_requested s, holds_wakes s)"

definition result_part where
  "result_part s = (frame_results s, unfinished_demands s, frame_wake_pending s)"

locale keeps_queues =
  fixes f :: "render_session \<Rightarrow> render_session"
  assumes keeps_queues: "queue_part (f s) = queue_part s"
begin

lemma queues_kept [simp]:
  "demands (f s) = demands s" "update_waiting_demands (f s) = update_waiting_demands s"
  "accepted_tokens (f s) = accepted_tokens s" "dropped_tokens (f s) = dropped_tokens s"
  "taken_results (f s) = taken_results s" "results_capacity (f s) = results_capacity s"
  "session_state (f s) = session_state s" "disposal_requested (f s) = disposal_requested s"
  "holds_wakes (f s) = holds_wakes s"
  using keeps_queues [of s] by (simp_all add: queue_part_def)

end

locale keeps_ledger = keeps_queues +
  assumes keeps_results: "result_part (f s) = result_part s"
begin

lemma results_kept [simp]:
  "frame_results (f s) = frame_results s" "unfinished_demands (f s) = unfinished_demands s"
  "frame_wake_pending (f s) = frame_wake_pending s"
  using keeps_results [of s] by (simp_all add: result_part_def)

lemma ledger_kept [simp]: "ledger (f s) = ledger s"
  by (simp add: ledger_def)

end

interpretation owe: keeps_ledger "owe w" for w
  by unfold_locales (simp_all add: queue_part_def result_part_def owe_def)

interpretation leave_section: keeps_ledger leave_section
  by unfold_locales (simp_all add: queue_part_def result_part_def leave_section_def)

interpretation allocate: keeps_ledger "\<lambda>s. snd (allocate s)"
  by unfold_locales (simp_all add: queue_part_def result_part_def allocate_def split: list.split)

interpretation publish_driver_work: keeps_ledger publish_driver_work
  by unfold_locales (simp_all add: queue_part_def result_part_def publish_driver_work_def)

interpretation push_driver_work: keeps_ledger "push_driver_work w" for w
  by unfold_locales (simp_all add: queue_part_def result_part_def push_driver_work_def)

interpretation queue_frame_demand_work: keeps_ledger "\<lambda>s. snd (queue_frame_demand_work d s)" for d
  by unfold_locales (simp_all add: queue_part_def result_part_def queue_frame_demand_work_def split_beta)

interpretation resume_parked_demand: keeps_ledger resume_parked_demand
  by unfold_locales (simp_all add: queue_part_def result_part_def resume_parked_demand_def)

interpretation request_redraw: keeps_ledger request_redraw
  by unfold_locales (simp_all add: queue_part_def result_part_def request_redraw_def Let_def)

interpretation invalidate: keeps_ledger invalidate_unacquired_texture_frames
  by unfold_locales (simp_all add: queue_part_def result_part_def invalidate_unacquired_texture_frames_def)

lemma queue_work_of_keeps:
  "queue_part (queue_work_of ds s) = queue_part s \<and> result_part (queue_work_of ds s) = result_part s"
  by (induction ds arbitrary: s) (simp_all add: split_beta queue_part_def result_part_def)

interpretation queue_work_of: keeps_ledger "queue_work_of ds" for ds
  by unfold_locales (simp_all add: queue_work_of_keeps)

interpretation finish_unready_attempt: keeps_ledger finish_unready_attempt
  by unfold_locales (simp_all add: queue_part_def result_part_def finish_unready_attempt_def)

interpretation record_rendered: keeps_ledger "record_rendered g" for g
  by unfold_locales (simp_all add: queue_part_def result_part_def record_rendered_def)

interpretation store_frame: keeps_ledger "store_frame ahead metadata sync a" for ahead metadata sync a
  by unfold_locales (simp_all add: queue_part_def result_part_def store_frame_def split: option.split)

interpretation leave_slot: keeps_ledger "leave_slot a" for a
  by unfold_locales (simp_all add: queue_part_def result_part_def leave_slot_def split: option.split)

interpretation settle_retarget: keeps_ledger "settle_retarget kind" for kind
  by unfold_locales (simp_all add: queue_part_def result_part_def settle_retarget_def)

interpretation settle_release: keeps_ledger settle_release
  by unfold_locales (simp_all add: queue_part_def result_part_def settle_release_def Let_def)

interpretation detach_render_session: keeps_ledger detach_render_session
  by unfold_locales (simp_all add: queue_part_def result_part_def detach_render_session_def)

interpretation end_driver_call: keeps_ledger end_driver_call
  by unfold_locales (simp_all add: queue_part_def result_part_def end_driver_call_def Let_def)

interpretation finish_abandon: keeps_ledger finish_abandon
  by unfold_locales (simp_all add: queue_part_def result_part_def finish_abandon_def)

interpretation notify_map_commands: keeps_ledger notify_map_commands
  by unfold_locales (simp_all add: queue_part_def result_part_def notify_map_commands_def)

interpretation schedule_service: keeps_ledger schedule_service
  by unfold_locales (simp_all add: queue_part_def result_part_def schedule_service_def split_beta)

interpretation gpu_work_done: keeps_ledger gpu_work_done
  by unfold_locales (simp_all add: queue_part_def result_part_def gpu_work_done_def)

interpretation resume_driver_work: keeps_ledger resume_driver_work
  by unfold_locales (simp_all add: queue_part_def result_part_def resume_driver_work_def)

interpretation set_frame_pacer: keeps_ledger "\<lambda>s. snd (set_frame_pacer paced s)" for paced
  by unfold_locales (simp_all add: queue_part_def result_part_def set_frame_pacer_def)

section \<open>Results\<close>

interpretation publish_frame_result: keeps_queues "publish_frame_result r" for r
  by unfold_locales (simp add: queue_part_def publish_frame_result_def Let_def)

lemma published [simp]:
  "unfinished_demands (publish_frame_result r s) = unfinished_demands s - 1"
  "map render_frame_result_token (frame_results (publish_frame_result r s))
     = map render_frame_result_token (frame_results s) @ [render_frame_result_token r]"
  "frame_results (publish_frame_result r s) \<noteq> []"
  "length (frame_results (publish_frame_result r s)) = length (frame_results s) + 1"
  "holds_wakes s \<Longrightarrow> frame_wake_pending (publish_frame_result r s)"
  by (simp_all add: publish_frame_result_def Let_def)

definition answer_tokens :: "u64 multiset \<Rightarrow> ledger \<Rightarrow> ledger" where
  "answer_tokens T l = l\<lparr>answered_of := T + answered_of l, unfinished_of := unfinished_of l - size T,
     queued_results := queued_results l + size T, announced := announced l \<or> T \<noteq> {#}\<rparr>"

lemma ledger_published [simp]:
  "ledger (publish_frame_result r s) = answer_tokens {#render_frame_result_token r#} (ledger s)"
  by (simp add: ledger_def answer_tokens_def)

lemma answer_tokens_empty [simp]: "answer_tokens {#} l = l"
  by (simp add: answer_tokens_def)

lemma answer_tokens_twice [simp]: "answer_tokens T (answer_tokens U l) = answer_tokens (T + U) l"
  by (simp add: answer_tokens_def ac_simps)

lemma answer_tokens_parts [simp]:
  "accepted_of (answer_tokens T l) = accepted_of l" "pending_of (answer_tokens T l) = pending_of l"
  "dropped_of (answer_tokens T l) = dropped_of l" "capacity_of (answer_tokens T l) = capacity_of l"
  "state_of (answer_tokens T l) = state_of l" "disposed (answer_tokens T l) = disposed l"
  by (simp_all add: answer_tokens_def)

interpretation finish_demand: keeps_queues "finish_demand disposition d" for disposition d
  by unfold_locales (simp add: queue_part_def finish_demand_def)

lemma ledger_finish_demand [simp]:
  "ledger (finish_demand disposition d s) = answer_tokens {#frame_demand_token d#} (ledger s)"
  by (simp add: finish_demand_def ended_result_def)

lemma finish_each_queues: "queue_part (fold (finish_demand disposition) ds s) = queue_part s"
  by (induction ds arbitrary: s) (simp_all add: finish_demand.keeps_queues)

interpretation finish_each: keeps_queues "fold (finish_demand disposition) ds" for disposition ds
  by unfold_locales (rule finish_each_queues)

lemma ledger_finish_each [simp]:
  "ledger (fold (finish_demand disposition) ds s) = answer_tokens (demand_tokens ds) (ledger s)"
  by (induction ds arbitrary: s) simp_all

text \<open>A result for a demand that was pending or owned keeps the balance.\<close>

lemma balanced_answer:
  "balanced (owned + T) l \<Longrightarrow> balanced owned (answer_tokens T l)"
  by (auto simp: balanced_def answer_tokens_def ac_simps)

lemma balanced_answer_pending:
  assumes "balanced owned l" "pending_of l = T + P"
  shows "balanced owned ((answer_tokens T l)\<lparr>pending_of := P\<rparr>)"
  using assms by (auto simp: balanced_def answer_tokens_def ac_simps)


section \<open>Sound ledgers\<close>

definition sound :: "u64 multiset \<Rightarrow> render_session \<Rightarrow> bool" where
  "sound owned s \<longleftrightarrow> balanced owned (ledger s) \<and> settled (ledger s)"

lemma sound_cong: "ledger s' = ledger s \<Longrightarrow> sound owned s' = sound owned s"
  by (simp add: sound_def)

text \<open>An accepted demand: room for its result is there before it is counted.\<close>

definition reserved :: "render_session \<Rightarrow> render_session" where
  "reserved s = snd (reserve_frame_result s)"

lemma reserved_simps [simp]:
  "demands (reserved s) = demands s" "update_waiting_demands (reserved s) = update_waiting_demands s"
  "accepted_tokens (reserved s) = accepted_tokens s" "unfinished_demands (reserved s) = unfinished_demands s"
  "session_state (reserved s) = session_state s" "frame_results (reserved s) = frame_results s"
  "disposal_requested (reserved s) = disposal_requested s" "holds_wakes (reserved s) = holds_wakes s"
  "ledger (reserved s) = (ledger s)\<lparr>capacity_of := results_capacity (reserved s)\<rparr>"
  by (auto simp: reserved_def reserve_frame_result_def Let_def split_beta split: if_splits)

lemma reserved_capacity:
  "results_capacity s \<le> results_capacity (reserved s)"
  "fst (reserve_frame_result s) \<Longrightarrow> length (frame_results s) + unfinished_demands s + 1 \<le> results_capacity (reserved s)"
  by (auto simp: reserved_def reserve_frame_result_def Let_def split_beta split: if_splits)

lemma sound_reserved: "sound owned s \<Longrightarrow> sound owned (reserved s)"
  using reserved_capacity(1) [of s] by (auto simp: sound_def balanced_def settled_def)

lemma sound_accept:
  assumes sound: "sound owned s" and room: "length (frame_results s) + unfinished_demands s + 1 \<le> c"
    and ledger: "ledger s1 = (ledger s)\<lparr>capacity_of := c, pending_of := add_mset t (pending_of (ledger s)),
      unfinished_of := unfinished_demands s + 1, accepted_of := add_mset t (accepted_of (ledger s))\<rparr>"
    and live: "\<not> session_over (session_state s)"
  shows "sound owned s1"
  using assms by (auto simp: sound_def balanced_def settled_def ac_simps)

lemma new_demand_token [simp]: "frame_demand_token (new_demand sz flags token commands s) = token"
  by (simp add: new_demand_def)

lemma arm_still_image_demand_state [simp]:
  "session_state (arm_still_image_demand s) = session_state s"
  "disposal_requested (arm_still_image_demand s) = disposal_requested s"
  by (simp_all add: arm_still_image_demand_def Let_def split_beta flip: reserved_def)

lemma sound_arm_still_image_demand [simp]:
  assumes "sound owned s"
  shows "sound owned (arm_still_image_demand s)"
proof (cases "session_state s = MLN_RENDER_SESSION_STATE_ATTACHED \<and> pending_frame_barriers s = 0
    \<and> \<not> every_slot_quarantined s")
  case False
  with assms show ?thesis by (auto simp: arm_still_image_demand_def)
next
  case attached: True
  define s2 where "s2 = snd (allocate (reserved s))"
  define s3 where "s3 = queue_frame_demand_work (still_image_demand s2)
      (s2\<lparr>demands := demands s2 @ [still_image_demand s2], next_demand := next_demand s2 + 1\<rparr>)"
  have s2: "sound owned s2" "ledger s2 = ledger (reserved s)"
    using sound_reserved [OF assms] by (simp_all add: s2_def sound_def)
  have unqueued: "sound owned ((snd s3)\<lparr>demands := butlast (demands (snd s3))\<rparr>)"
    using s2(1) by (simp add: s3_def sound_def)
  have queued: "sound owned ((snd s3)\<lparr>unfinished_demands := unfinished_demands (snd s3) + 1,
      still_image_demands := m, still_image_demand_generation := g,
      accepted_tokens := accepted_tokens (snd s3) @ [frame_demand_token (still_image_demand s2)]\<rparr>)"
    if "fst (reserve_frame_result s)" for m g
    by (rule sound_accept [OF assms reserved_capacity(2) [OF that], where t = MLN_FRAME_DEMAND_TOKEN_STILL_IMAGE])
      (use attached in \<open>simp_all add: s3_def s2_def still_image_demand_def\<close>)
  have "arm_still_image_demand s \<in> {s, s\<lparr>still_image_rearm := True\<rparr>, reserved s, s2,
      (snd s3)\<lparr>demands := butlast (demands (snd s3))\<rparr>}
    \<or> (fst (reserve_frame_result s) \<and> (\<exists>m g. arm_still_image_demand s
        = (snd s3)\<lparr>unfinished_demands := unfinished_demands (snd s3) + 1,
            still_image_demands := m, still_image_demand_generation := g,
            accepted_tokens := accepted_tokens (snd s3) @ [frame_demand_token (still_image_demand s2)]\<rparr>))"
    using attached by (auto simp: arm_still_image_demand_def Let_def split_beta s3_def s2_def reserved_def)
  with assms sound_reserved [OF assms] s2 unqueued queued show ?thesis
    by (auto simp: sound_def)
qed


section \<open>Demands that end\<close>

lemma sound_answer_pending:
  assumes "sound owned s" "pending_of (ledger s) = T + P" "ledger s1 = (answer_tokens T (ledger s))\<lparr>pending_of := P\<rparr>"
  shows "sound owned s1"
  using assms balanced_answer_pending [of owned "ledger s" T P] by (auto simp: sound_def settled_def)

lemma finish_waiting_demands_simps [simp]:
  "demands (finish_waiting_demands disposition s) = demands s"
  "update_waiting_demands (finish_waiting_demands disposition s) = []"
  "session_state (finish_waiting_demands disposition s) = session_state s"
  "disposal_requested (finish_waiting_demands disposition s) = disposal_requested s"
  "dropped_tokens (finish_waiting_demands disposition s) = dropped_tokens s"
  "holds_wakes (finish_waiting_demands disposition s) = holds_wakes s"
  by (simp_all add: finish_waiting_demands_def)

lemma ledger_finish_waiting_demands [simp]:
  "ledger (finish_waiting_demands disposition s)
     = (answer_tokens (demand_tokens (update_waiting_demands s)) (ledger s))\<lparr>pending_of := demand_tokens (demands s)\<rparr>"
  by (simp add: finish_waiting_demands_def)

lemma sound_finish_waiting_demands [simp]: "sound owned s \<Longrightarrow> sound owned (finish_waiting_demands disposition s)"
  by (rule sound_answer_pending [where T = "demand_tokens (update_waiting_demands s)" and P = "demand_tokens (demands s)"])
    simp_all

lemma finish_demands_simps [simp]:
  "demands (finish_demands disposition s) = []" "update_waiting_demands (finish_demands disposition s) = []"
  "session_state (finish_demands disposition s) = session_state s"
  "disposal_requested (finish_demands disposition s) = disposal_requested s"
  "dropped_tokens (finish_demands disposition s) = dropped_tokens s"
  "holds_wakes (finish_demands disposition s) = holds_wakes s"
  by (simp_all add: finish_demands_def Let_def)

lemma ledger_finish_demands [simp]:
  "ledger (finish_demands disposition s)
     = (answer_tokens (demand_tokens (demands s) + demand_tokens (update_waiting_demands s)) (ledger s))\<lparr>pending_of := {#}\<rparr>"
  by (simp add: finish_demands_def Let_def answer_tokens_def ac_simps)

lemma balanced_finish_demands [simp]:
  "balanced owned (ledger s) \<Longrightarrow> balanced owned (ledger (finish_demands disposition s))"
  using balanced_answer_pending [of owned "ledger s" "pending_of (ledger s)" "{#}"] by simp

text \<open>A session that is over for another reason than a disposal has ended its demands, a disposed one dropped them.\<close>

lemma sound_finish_demands [simp]:
  "balanced owned (ledger s) \<Longrightarrow> dropped_tokens s \<noteq> [] \<longrightarrow> disposal_requested s
     \<Longrightarrow> sound owned (finish_demands disposition s)"
  using balanced_finish_demands [of owned s disposition]
  by (simp add: sound_def settled_def del: balanced_finish_demands)

lemma sound_drop_demands [simp]:
  "balanced owned (ledger s) \<Longrightarrow> disposal_requested s \<Longrightarrow> sound owned (drop_demands s)"
  by (auto simp: drop_demands_def sound_def settled_def balanced_def ledger_def demand_tokens_def ac_simps)

lemma sound_parts:
  "sound owned s \<Longrightarrow> balanced owned (ledger s)" "sound owned s \<Longrightarrow> dropped_tokens s \<noteq> [] \<longrightarrow> disposal_requested s"
  "sound owned s \<Longrightarrow> session_over (session_state s) \<Longrightarrow> demands s = [] \<and> update_waiting_demands s = []"
  by (auto simp: sound_def settled_def demand_tokens_def)

lemma balanced_state [simp]: "balanced owned (l\<lparr>state_of := st\<rparr>) = balanced owned l"
  by (simp add: balanced_def)

text \<open>Functions with the ledger of their argument keep its soundness.\<close>

context keeps_ledger begin

lemma sound_kept [simp]: "sound owned (f s) = sound owned s"
  by (rule sound_cong) (rule ledger_kept)

end

lemma sound_fields [simp]:
  "sound owned (s\<lparr>slots := x1\<rparr>) = sound owned s"
  "sound owned (s\<lparr>pending_retargets := x2\<rparr>) = sound owned s"
  "sound owned (s\<lparr>gpu_frames_in_flight := x3\<rparr>) = sound owned s"
  "sound owned (s\<lparr>gpu_wait_pending := x4\<rparr>) = sound owned s"
  "sound owned (s\<lparr>acquired_frame_count := x5\<rparr>) = sound owned s"
  "sound owned (s\<lparr>driver_work := x6\<rparr>) = sound owned s"
  "sound owned (s\<lparr>extent := x8\<rparr>) = sound owned s"
  "sound owned (s\<lparr>physical_extent := x9\<rparr>) = sound owned s"
  "sound owned (s\<lparr>generation := x10\<rparr>) = sound owned s"
  "sound owned (s\<lparr>map_update_generation := x11\<rparr>) = sound owned s"
  "sound owned (s\<lparr>rendered_update_generation := x12\<rparr>) = sound owned s"
  "sound owned (s\<lparr>rendered_target_generation := x13\<rparr>) = sound owned s"
  "sound owned (s\<lparr>frame_generation := x14\<rparr>) = sound owned s"
  "sound owned (s\<lparr>pending_changes := x15\<rparr>) = sound owned s"
  "sound owned (s\<lparr>target_released := x16\<rparr>) = sound owned s"
  "sound owned (s\<lparr>pending_target_releases := x17\<rparr>) = sound owned s"
  "sound owned (s\<lparr>target_identity := x18\<rparr>) = sound owned s"
  "sound owned (s\<lparr>the_map := x20\<rparr>) = sound owned s"
  "sound owned (s\<lparr>map_created := x21\<rparr>) = sound owned s"
  "sound owned (s\<lparr>pending_result_ready := x22\<rparr>) = sound owned s"
  "sound owned (s\<lparr>active_views := x23\<rparr>) = sound owned s"
  "sound owned (s\<lparr>views_invalidated := x24\<rparr>) = sound owned s"
  "sound owned (s\<lparr>disposal_detach := x26\<rparr>) = sound owned s"
  "sound owned (s\<lparr>driver_call_in_flight := x28\<rparr>) = sound owned s"
  "sound owned (s\<lparr>stop_worker := x29\<rparr>) = sound owned s"
  "sound owned (s\<lparr>scheduler_service_queued := x30\<rparr>) = sound owned s"
  "sound owned (s\<lparr>driver_wake_pending := x32\<rparr>) = sound owned s"
  "sound owned (s\<lparr>completed := x36\<rparr>) = sound owned s"
  "sound owned (s\<lparr>memory := x37\<rparr>) = sound owned s"
  "sound owned (s\<lparr>still_image_rearm := x40\<rparr>) = sound owned s"
  "sound owned (s\<lparr>pending_frame_barriers := x41\<rparr>) = sound owned s"
  by (simp_all add: sound_def)

lemma sound_dispose [simp]: "sound owned s \<Longrightarrow> sound owned (s\<lparr>disposal_requested := True\<rparr>)"
  by (simp add: sound_def settled_def balanced_def)

lemma sound_live_state [simp]: "sound owned s \<Longrightarrow> \<not> session_over st \<Longrightarrow> sound owned (s\<lparr>session_state := st\<rparr>)"
  by (simp add: sound_def settled_def balanced_def)

section \<open>The sections\<close>

lemma sound_resume_update_waiting_demands [simp]:
  assumes "sound owned s" shows "sound owned (resume_update_waiting_demands s)"
proof -
  have "sound owned (requeue_update_waiting_demands s)"
    using assms by (simp add: requeue_update_waiting_demands_def fold_Cons_rev sound_def add.commute [of "demand_tokens (update_waiting_demands s)"])
  then show ?thesis by (simp add: resume_update_waiting_demands_def Let_def)
qed

lemma sound_quarantine_slot [simp]: "sound owned s \<Longrightarrow> sound owned (quarantine_slot k s)"
  by (simp add: quarantine_slot_def Let_def)

lemma sound_publish_and_rearm:
  assumes "sound (add_mset (render_frame_result_token r) owned) s"
  shows "sound owned (publish_and_rearm r s)"
proof -
  have "sound owned (publish_frame_result r s)"
    using assms balanced_answer [of owned "{#render_frame_result_token r#}" "ledger s"]
    by (simp add: sound_def settled_def)
  then show ?thesis by (simp add: publish_and_rearm_def Let_def)
qed

lemma sound_publish_frame_result:
  assumes "sound (add_mset (render_frame_result_token r) owned) s"
  shows "sound owned (publish_frame_result r s)"
  using assms balanced_answer [of owned "{#render_frame_result_token r#}" "ledger s"]
  by (simp add: sound_def settled_def)

lemma sound_fail_section [simp]: "sound owned s \<Longrightarrow> sound owned (fail_section status s)"
  using sound_parts [of owned s]
  by (simp add: fail_section_def Let_def)

lemma sound_finish_detach [simp]: "sound owned s \<Longrightarrow> sound owned (finish_detach s)"
  using sound_parts [of owned s] by (auto simp: finish_detach_def Let_def)

lemma sound_attach_session [simp]: "sound owned s \<Longrightarrow> sound owned (attach_session s)"
  by (simp add: attach_session_def)

lemma sound_reset_target [simp]: "sound owned s \<Longrightarrow> sound owned (reset_target kind logical physical s)"
  by (simp add: reset_target_def Let_def)

lemma sound_record_released_target [simp]: "sound owned s \<Longrightarrow> sound owned (record_released_target s)"
  by (simp add: record_released_target_def)

lemma sound_record_resize [simp]: "sound owned s \<Longrightarrow> sound owned (record_resize logical physical s)"
  by (simp add: record_resize_def)

lemma sound_release_slot [simp]: "sound owned s \<Longrightarrow> sound owned (release_slot i sync status s)"
  by (simp add: release_slot_def Let_def)

lemma sound_discard_slot [simp]: "sound owned s \<Longrightarrow> sound owned (discard_slot i s)"
  by (simp add: discard_slot_def Let_def)

lemma sound_notify_map_update [simp]: "sound owned s \<Longrightarrow> sound owned (notify_map_update g s)"
  by (simp add: notify_map_update_def Let_def)


lemma sound_finish_some_waiting:
  assumes "sound owned s"
  shows "sound owned ((fold (finish_demand disposition) (filter P (update_waiting_demands s)) s)
    \<lparr>update_waiting_demands := filter (\<lambda>d. \<not> P d) (update_waiting_demands s)\<rparr>)"
  by (rule sound_answer_pending [OF assms, where T = "demand_tokens (filter P (update_waiting_demands s))"
        and P = "demand_tokens (demands s) + demand_tokens (filter (\<lambda>d. \<not> P d) (update_waiting_demands s))"])
    (simp_all add: ac_simps flip: demand_tokens_filter [of P "update_waiting_demands s"])

lemma sound_finish_some_queued:
  assumes "sound owned s"
  shows "sound owned ((fold (finish_demand disposition) (filter P (demands s)) s)
    \<lparr>demands := filter (\<lambda>d. \<not> P d) (demands s)\<rparr>)"
  by (rule sound_answer_pending [OF assms, where T = "demand_tokens (filter P (demands s))"
        and P = "demand_tokens (filter (\<lambda>d. \<not> P d) (demands s)) + demand_tokens (update_waiting_demands s)"])
    (simp_all add: ac_simps flip: demand_tokens_filter [of P "demands s"])

lemma sound_notify_still_image [simp]: "sound owned s \<Longrightarrow> sound owned (notify_still_image s)"
  by (simp add: notify_still_image_def sound_finish_some_waiting)

lemma sound_supersede_demands: "sound owned s \<Longrightarrow> sound owned (supersede_demands d s)"
  unfolding supersede_demands_def Let_def by (intro sound_finish_some_queued sound_finish_some_waiting)

lemma supersede_demands_state [simp]: "session_state (supersede_demands d s) = session_state s"
  by (simp add: supersede_demands_def Let_def)

lemma sound_accept_demand:
  assumes "sound owned s" "\<not> session_over (session_state s)"
  shows "sound owned (snd (accept_demand d s))"
proof -
  define s2 where "s2 = snd (allocate (reserved s))"
  define s3 where "s3 = snd (allocate s2)"
  note kept = sound_reserved [OF assms(1)]
  then have failed: "sound owned s2" "sound owned s3" by (simp_all add: s2_def s3_def)
  have accepted: "sound owned (s4\<lparr>unfinished_demands := unfinished_demands s4 + 1, redraw_wake_pending := False,
      accepted_tokens := accepted_tokens s4 @ [frame_demand_token d]\<rparr>)"
    if "fst (reserve_frame_result s)" and s4: "s4 = push_driver_work w
      (s3\<lparr>demands := demands s3 @ [new_demand sz flags (frame_demand_token d) commands s'], next_demand := n\<rparr>)"
    for s4 w sz flags commands s' n
    by (rule sound_accept [OF assms(1) reserved_capacity(2) [OF that(1)], where t = "frame_demand_token d"])
      (use assms(2) in \<open>simp_all add: s4 s3_def s2_def\<close>)
  show ?thesis
    using kept failed accepted
    by (simp add: accept_demand_def Let_def split_beta flip: reserved_def)
      (simp add: s3_def s2_def)
qed

lemma sound_demand_frame [simp]: "sound owned s \<Longrightarrow> sound owned (snd (demand_frame d s))"
  by (auto simp: demand_frame_def split_beta session_over_def
      intro!: sound_accept_demand sound_supersede_demands)

lemma sound_submit_work:
  assumes "sound owned s" "\<And>s. sound owned s \<Longrightarrow> session_state s = MLN_RENDER_SESSION_STATE_ATTACHED \<Longrightarrow> sound owned (commit s)"
  shows "sound owned (snd (submit_work w check commit s))"
  using assms by (simp add: submit_work_def split_beta)

lemma sound_submissions [simp]:
  assumes "sound owned s"
  shows "sound owned (snd (submit_operation op s))"
    "sound owned (snd (submit_retarget op kind texture_count logical physical identity s))"
    "sound owned (snd (submit_release_target op s))"
    "sound owned (snd (submit_barrier op s))"
    "sound owned (snd (submit_detach op s))"
    "sound owned (snd (submit_resize op logical s))"
  unfolding submit_operation_def submit_retarget_def submit_release_target_def submit_barrier_def
    submit_detach_def submit_resize_def
  by (rule sound_submit_work [OF assms], simp add: Let_def sound_parts)+

lemma sound_drain_results [simp]: "sound owned s \<Longrightarrow> sound owned (drain_results s)"
  by (auto simp: drain_results_def split_beta sound_def settled_def balanced_def ledger_def)

lemma sound_wakes [simp]:
  "sound owned s \<Longrightarrow> sound owned (s\<lparr>frame_wake_pending := True\<rparr>)"
  "sound owned s \<Longrightarrow> sound owned (s\<lparr>holds_wakes := False\<rparr>)"
  "sound owned (s\<lparr>has_pacer := b\<rparr>) = sound owned s"
  by (simp_all add: sound_def settled_def balanced_def ledger_def)

lemma sound_abandon_section [simp]: "sound owned s \<Longrightarrow> sound owned (abandon_section s)"
  using sound_parts [of owned s] by (auto simp: abandon_section_def Let_def)

lemma sound_destroy_section [simp]: "sound owned s \<Longrightarrow> sound owned (destroy_section s)"
  by (simp add: destroy_section_def sound_def settled_def balanced_def ledger_def)

section \<open>Attempts\<close>

text \<open>The demand that an action still has to answer.\<close>

fun owns :: "activation \<Rightarrow> u64 multiset" where
  "owns (Attempt_begun d _) = {#frame_demand_token d#}"
| "owns (Attempt p a) = (if p = At_leaving then {#} else {#frame_demand_token (attempt_demand a)#})"
| "owns _ = {#}"

definition owned :: "activation list \<Rightarrow> u64 multiset" where
  "owned k = sum_list (map owns k)"

lemma owned_simps [simp]:
  "owned [] = {#}" "owned (a # k) = owns a + owned k" "owned (j @ k) = owned j + owned k"
  by (simp_all add: owned_def)

fun answers_its_demand :: "activation \<Rightarrow> bool" where
  "answers_its_demand (Attempt _ a) = (render_frame_result_token (attempt_result a) = frame_demand_token (attempt_demand a))"
| "answers_its_demand _ = True"

text \<open>
  What an action leaves: more actions on the stack it ran on, which own what the ledger says they own. \<open>others\<close>
  is what the rest of the stack owns.
\<close>

definition kept :: "u64 multiset \<Rightarrow> activation list \<Rightarrow> activation list \<times> session_system \<Rightarrow> bool" where
  "kept others k r \<longleftrightarrow> (\<exists>j. fst r = j @ k \<and> sound (owned j + others) (session (snd r)) \<and> list_all answers_its_demand j)"

lemma kept_intro:
  "sound (owned j + others) (session S) \<Longrightarrow> list_all answers_its_demand j \<Longrightarrow> kept others k (j @ k, S)"
  by (auto simp: kept_def)

lemma kept_pop: "sound others (session S) \<Longrightarrow> kept others k (k, S)"
  using kept_intro [of "[]"] by simp

lemma kept_push: "sound (owns b + others) (session S) \<Longrightarrow> answers_its_demand b \<Longrightarrow> kept others k (b # k, S)"
  using kept_intro [of "[b]"] by simp

lemma kept_fail:
  assumes "sound (owned j + others) (session S)" "list_all answers_its_demand j"
  shows "kept others k (fail_session status (j @ k) S)"
  using assms kept_intro [of j others S k] kept_intro [of "Failing # j" others "S\<lparr>session := fail_section status (session S)\<rparr>" k]
  by (simp add: fail_session_def Let_def)

lemma kept_fail_pop: "sound others (session S) \<Longrightarrow> kept others k (fail_session status k S)"
  using kept_fail [of "[]"] by simp

lemma kept_fail_push:
  "sound (owns b + others) (session S) \<Longrightarrow> answers_its_demand b \<Longrightarrow> kept others k (fail_session status (b # k) S)"
  using kept_fail [of "[b]"] by simp

lemmas kept_rules = kept_push kept_fail_push kept_pop kept_fail_pop

text \<open>An attempt that goes on owns the demand it was made for.\<close>

lemma attempt_parts [simp]:
  "attempt_demand (with_disposition disposition a) = attempt_demand a"
  "render_frame_result_token (attempt_result (with_disposition disposition a)) = render_frame_result_token (attempt_result a)"
  "attempt_demand (without_frame a) = attempt_demand a"
  "render_frame_result_token (attempt_result (without_frame a)) = render_frame_result_token (attempt_result a)"
  "attempt_demand (with_update g a) = attempt_demand a"
  "render_frame_result_token (attempt_result (with_update g a)) = render_frame_result_token (attempt_result a)"
  "attempt_demand (fst (number_frame mode repaint view a s)) = attempt_demand a"
  "render_frame_result_token (attempt_result (fst (number_frame mode repaint view a s)))
     = render_frame_result_token (attempt_result a)"
  "owns (end_attempt disposition a) = {#frame_demand_token (attempt_demand a)#}"
  "answers_its_demand (end_attempt disposition a)
     = (render_frame_result_token (attempt_result a) = frame_demand_token (attempt_demand a))"
  by (simp_all add: with_disposition_def without_frame_def with_update_def Let_def number_frame_def end_attempt_def split: option.split)

lemma sound_take_demand:
  assumes "sound others s"
  shows "case fst (take_demand expected s) of None \<Rightarrow> sound others (snd (take_demand expected s))
    | Some (d, releasing) \<Rightarrow> sound (add_mset (frame_demand_token d) others) (snd (take_demand expected s))"
proof (cases "demands s")
  case Nil
  with assms show ?thesis by (simp add: take_demand_def)
next
  case (Cons d ds)
  with assms show ?thesis
    by (auto simp: take_demand_def Let_def sound_def settled_def balanced_def)
qed

text \<open>A demand goes back to the queue it came from only while the session is not over.\<close>

lemma sound_park:
  assumes "sound (add_mset (frame_demand_token d) others) s" "\<not> session_over (session_state s)"
  shows "sound others (s\<lparr>demands := d # demands s\<rparr>)"
    "sound others (s\<lparr>update_waiting_demands := update_waiting_demands s @ [d]\<rparr>)"
  using assms by (auto simp: sound_def settled_def balanced_def)

lemma sound_unpark: "s\<lparr>demands := tl (d # demands s)\<rparr> = (s :: render_session)"
  by simp

lemma sound_wait_for_map_update:
  assumes "sound (add_mset (frame_demand_token (attempt_demand a)) others) s" "\<not> session_over (session_state s)"
  shows "case fst (wait_for_map_update a s) of None \<Rightarrow> sound others (snd (wait_for_map_update a s))
    | Some b \<Rightarrow> sound (add_mset (frame_demand_token (attempt_demand a)) others) (snd (wait_for_map_update a s))
        \<and> attempt_demand b = attempt_demand a
        \<and> render_frame_result_token (attempt_result b) = render_frame_result_token (attempt_result a)"
proof -
  define s1 where "s1 = snd (allocate s)"
  have s1: "sound (add_mset (frame_demand_token (attempt_demand a)) others) s1" "\<not> session_over (session_state s1)"
    using assms by (simp_all add: s1_def)
  from s1(1) have unqueued: "sound (add_mset (frame_demand_token (attempt_demand a)) others)
      ((snd (queue_frame_demand_work d (s1\<lparr>demands := d # demands s1\<rparr>)))\<lparr>demands := demands s1\<rparr>)" for d
    by (simp add: sound_def)
  from assms s1 sound_park [OF s1] unqueued show ?thesis
    by (auto simp: wait_for_map_update_def Let_def split_beta simp flip: s1_def)
qed

lemma live_not_over: "live S \<Longrightarrow> \<not> session_over (session_state (session S))"
  by (auto simp: live_def)

lemma kept_catch_attempt:
  assumes "sound (add_mset (frame_demand_token (attempt_demand a)) others) (session S)"
    "render_frame_result_token (attempt_result a) = frame_demand_token (attempt_demand a)"
  shows "kept others k (catch_attempt exn a S k)"
  using assms by (cases exn) (auto simp: catch_attempt_def intro!: kept_rules)

lemma kept_choose_render_slot:
  assumes "sound (add_mset (frame_demand_token (attempt_demand a)) others) (session S)"
    "render_frame_result_token (attempt_result a) = frame_demand_token (attempt_demand a)" "live S"
  shows "kept others k (choose_render_slot a S k)"
proof -
  define s1 where "s1 = snd (allocate (session S))"
  have publish: "sound others (publish_frame_result (attempt_result (with_disposition disposition a)) (session S))" for disposition
    by (rule sound_publish_frame_result) (use assms in simp)
  have "sound others (s1\<lparr>demands := attempt_demand a # demands s1\<rparr>)"
    by (rule sound_park(1)) (use assms live_not_over [OF assms(3)] in \<open>simp_all add: s1_def\<close>)
  with publish assms show ?thesis
    by (auto simp: choose_render_slot_def Let_def split_beta intro!: kept_rules split: option.split simp flip: s1_def)
      (simp_all add: s1_def)
qed

lemma kept_render_frame:
  assumes "sound (add_mset (frame_demand_token (attempt_demand a)) others) (session S)"
    "render_frame_result_token (attempt_result a) = frame_demand_token (attempt_demand a)"
  shows "kept others k (render_frame ans a S k)"
  using assms
  by (auto simp: render_frame_def Let_def
      intro!: kept_rules kept_catch_attempt split: update_outcome.split mln_render_result.split)

lemma kept_record_metadata:
  assumes "sound (add_mset (frame_demand_token (attempt_demand a)) others) (session S)"
    "render_frame_result_token (attempt_result a) = frame_demand_token (attempt_demand a)"
  shows "kept others k (record_metadata ans a S k)"
  using assms by (auto simp: record_metadata_def Let_def intro!: kept_rules kept_catch_attempt split: option.split)

lemma kept_run_attempt:
  assumes "sound (owns (Attempt p a) + others) (session S)" "answers_its_demand (Attempt p a)"
    "open_attempt (Attempt p a) \<Longrightarrow> live S"
  shows "kept others k (run_attempt ans p a S k)"
proof -
  have same: "render_frame_result_token (attempt_result a) = frame_demand_token (attempt_demand a)" using assms(2) by simp
  have sound: "sound (add_mset (frame_demand_token (attempt_demand a)) others) (session S)" if "p \<noteq> At_leaving"
    using assms(1) that by simp
  note facts = sound same
  show ?thesis
  proof (cases p)
    case (At_delivering after_release)
    with facts show ?thesis
      by (cases "answer_delivery ans")
        (auto simp: run_attempt_def Let_def deliver_pending_session_work_def intro!: kept_rules)
  next
    case At_checking
    with facts show ?thesis by (auto simp: run_attempt_def intro!: kept_rules)
  next
    case At_waiting
    with assms(3) have "\<not> session_over (session_state (session S))" by (simp add: live_not_over)
    from sound_wait_for_map_update [OF sound this] At_waiting same show ?thesis
      by (auto simp: run_attempt_def Let_def split_beta intro!: kept_rules split: option.splits)
  next
    case At_choosing
    with facts assms(3) show ?thesis by (simp add: run_attempt_def kept_choose_render_slot)
  next
    case At_rendering
    with facts show ?thesis by (simp add: run_attempt_def kept_render_frame)
  next
    case (At_rendered mode repaint view)
    have "sound others' (snd (number_frame mode repaint view a s)) = sound others' s" for others' s
      by (rule sound_cong) (simp add: number_frame_def Let_def)
    with At_rendered facts show ?thesis by (auto simp: run_attempt_def Let_def split_beta intro!: kept_rules)
  next
    case At_recording
    with facts show ?thesis by (simp add: run_attempt_def kept_record_metadata)
  next
    case (At_storing metadata sync)
    with facts show ?thesis by (auto simp: run_attempt_def intro!: kept_rules)
  next
    case At_committing
    with facts show ?thesis by (auto simp: run_attempt_def intro!: kept_rules kept_catch_attempt split: option.split)
  next
    case At_publishing
    have "sound others (publish_and_rearm (attempt_result a) (session S))"
      by (rule sound_publish_and_rearm) (use sound same At_publishing in simp)
    with At_publishing same show ?thesis by (auto simp: run_attempt_def intro!: kept_rules)
  next
    case At_leaving
    with assms(1) show ?thesis by (auto simp: run_attempt_def intro!: kept_rules)
  qed
qed

section \<open>Every action\<close>

lemma kept_take_work: "sound others (session S) \<Longrightarrow> kept others k (take_work expected S k)"
  using sound_take_demand [of others "session S" expected]
  by (auto simp: take_work_def intro!: kept_rules split: option.splits prod.splits)

lemma kept_run_detach:
  assumes "sound others (session S)" shows "kept others k (run_detach ans op S k)"
  using assms
  by (cases op) (auto simp: run_detach_def Let_def intro!: kept_rules split: option.split)

lemma kept_release_sync: "sound others (session S) \<Longrightarrow> kept others k (release_sync ans f sync S k)"
  by (auto simp: release_sync_def Let_def intro!: kept_rules)

lemma kept_run_operation: "sound others (session S) \<Longrightarrow> kept others k (run_operation ans w op S k)"
  by (auto simp: run_operation_def intro!: kept_rules split: option.split)

lemma kept_run_work:
  assumes "sound others (session S)" shows "kept others k (run_work ans w S k)"
proof (cases w)
  case (Demand_work expected)
  with assms show ?thesis by (simp add: kept_take_work)
next
  case (Release_work f sync)
  with assms show ?thesis by (simp add: kept_release_sync)
next
  case (Detach_work op)
  with assms show ?thesis by (simp add: kept_run_detach)
next
  case (Operation_work op)
  with assms show ?thesis by (simp add: kept_run_operation)
next
  case (Pending_work op)
  with assms show ?thesis by (simp add: kept_run_operation)
qed (use assms in \<open>auto simp: Let_def set_target_def release_target_def intro!: kept_rules split: option.split\<close>)

lemma owned_cancelling [simp]:
  "owned (map (\<lambda>w. Cancelling w status) ws) = {#}"
  "list_all answers_its_demand (map (\<lambda>w. Cancelling w status) ws)"
  by (induction ws) simp_all

lemma kept_cancelling:
  assumes "sound (owned j + others) (session S)" "list_all answers_its_demand j"
  shows "kept others k (map (\<lambda>w. Cancelling w status) ws @ j @ k, S)"
  using kept_intro [of "map (\<lambda>w. Cancelling w status) ws @ j" others S k] assms by simp

lemma kept_abandon:
  assumes "sound others (session S)" shows "kept others k (abandon_render_session ans by_disposal S k)"
  using assms kept_cancelling [of "[Abandon_finish by_disposal]" others "S\<lparr>session := abandon_section (session S)\<rparr>" k]
  by (auto simp: abandon_render_session_def Let_def intro!: kept_rules)

lemma kept_disposal:
  assumes "sound others (session S)"
  shows "kept others k (begin_disposal_detach marks S k)" "kept others k (end_disposal_detach marks detaches S k)"
proof -
  let ?s = "(session S)\<lparr>disposal_detach := False\<rparr>"
  have "sound others ?s" using assms by simp
  then have "sound others (?s\<lparr>session_state := MLN_RENDER_SESSION_STATE_DETACHING\<rparr>)"
    by (rule sound_live_state) simp
  then have "sound others (?s\<lparr>session_state := MLN_RENDER_SESSION_STATE_DETACHING, generation := generation ?s + 1,
      driver_call_in_flight := b, driver_work := []\<rparr>)" for b
    by simp
  with kept_cancelling [of "[Detach_run None, Disposal_end marks True]" others "S\<lparr>session := ?s\<lparr>session_state := MLN_RENDER_SESSION_STATE_DETACHING,
      generation := generation ?s + 1, driver_call_in_flight := marks \<or> driver_call_in_flight ?s, driver_work := []\<rparr>\<rparr>" k] assms
  show "kept others k (begin_disposal_detach marks S k)"
    by (auto simp: begin_disposal_detach_def Let_def intro!: kept_rules)
  from assms show "kept others k (end_disposal_detach marks detaches S k)"
    using kept_cancelling [of "[Lane_submit]" others _ k]
    by (auto simp: end_disposal_detach_def Let_def intro!: kept_rules)
qed

lemma kept_insert_frame: "sound others (session S) \<Longrightarrow> sound others (session (insert_frame ans f S))"
  by (simp add: insert_frame_def Let_def with_frame_def)

lemma kept_run_activation:
  assumes "sound (owns a + others) (session S)" "answers_its_demand a" "open_attempt a \<Longrightarrow> live S"
  shows "kept others k (run_activation ans a k S)"
proof (cases a)
  case (Cancelling w status)
  with assms(1) show ?thesis by (cases w) (auto intro!: kept_rules)
next
  case (Running w)
  with assms show ?thesis by (simp add: kept_run_work)
next
  case (Scheduler_delivering expected)
  with assms show ?thesis
    by (cases expected; cases "answer_delivery ans")
      (auto simp: deliver_pending_session_work_def intro!: kept_rules)
next
  case Attempt_returning
  with assms show ?thesis
    by (cases "answer_delivery ans") (auto simp: deliver_pending_session_work_def intro!: kept_rules)
next
  case (Attempt_begun d releasing)
  with assms show ?thesis
    by (auto simp: begin_attempt_def start_attempt_def Let_def intro!: kept_rules)
next
  case (Attempt p b)
  with kept_run_attempt [of p b others S k ans] assms show ?thesis by simp
next
  case (Releasing f sync)
  with assms show ?thesis by (simp add: kept_release_sync)
next
  case (Detach_run op)
  with assms show ?thesis by (simp add: kept_run_detach)
next
  case (Detach_finish op)
  with assms show ?thesis by (cases op) (auto intro!: kept_rules)
next
  case (Disposal_begin marks)
  with assms show ?thesis by (simp add: kept_disposal)
next
  case (Disposal_end marks detaches)
  with assms show ?thesis by (simp add: kept_disposal)
next
  case (Inserting_frame f)
  with assms show ?thesis by (auto intro!: kept_rules kept_insert_frame)
next
  case (Abandon_begin by_disposal)
  with assms show ?thesis by (simp add: kept_abandon)
next
  case (Throwing w status)
  with assms show ?thesis by (auto simp: throw_work_def Let_def intro!: kept_rules)
next
  case Service_loop
  with assms kept_intro [of "[Running (hd (driver_work (session S))), Service_loop]" others _ k] show ?thesis
    by (auto simp: service_pass_def Let_def intro!: kept_rules)
next
  case Failing
  with assms kept_intro [of "[Cancelling (hd (driver_work (session S))) (failure_status (session S)), Failing]" others _ k] show ?thesis
    by (auto simp: Let_def intro!: kept_rules)
qed (use assms in \<open>auto simp: Let_def end_operation_def after_settle_def remove_frame_def with_frame_def
    destroy_render_session_def intro!: kept_rules split: option.split sum.split\<close>)

section \<open>Every step\<close>

definition ledger_ok :: "session_system \<Rightarrow> bool" where
  "ledger_ok S \<longleftrightarrow> sound (owned (driver S)) (session S) \<and> list_all answers_its_demand (driver S)"

lemma host_owns: "host_activation a \<Longrightarrow> owns a = {#} \<and> answers_its_demand a \<and> \<not> open_attempt a"
  by (cases a) simp_all

lemma driver_open: "life_ok S \<Longrightarrow> driver S = a # k \<Longrightarrow> open_attempt a \<Longrightarrow> live S"
  by (auto simp: life_ok_def driver_ok_def live_def)

lemma ledger_step_driver:
  assumes "life_ok S" "ledger_ok S" "driver S = a # k" "run_activation ans a k S = (k', S')"
  shows "ledger_ok (S'\<lparr>driver := k'\<rparr>)"
proof -
  have "kept (owned k) k (run_activation ans a k S)"
    by (rule kept_run_activation) (use assms driver_open in \<open>auto simp: ledger_ok_def\<close>)
  with assms show ?thesis by (auto simp: kept_def ledger_ok_def)
qed

lemma ledger_step_host:
  assumes "life_ok S" "ledger_ok S" "hosts S = add_mset (a # k) H" "run_activation ans a k (S\<lparr>hosts := H\<rparr>) = (k', S')"
  shows "ledger_ok (S'\<lparr>hosts := H'\<rparr>)"
proof -
  have "host_activation a" using assms(1,3) by (simp add: life_ok_def host_ok_def)
  note none = host_owns [OF this]
  have kept: "kept (owned (driver S)) k (run_activation ans a k (S\<lparr>hosts := H\<rparr>))"
    by (rule kept_run_activation) (use assms none in \<open>auto simp: ledger_ok_def\<close>)
  have "a \<noteq> Lane_submit" using \<open>host_activation a\<close> by auto
  then have driver: "driver S' = driver S"
    using threads_run_activation [of a ans k "S\<lparr>hosts := H\<rparr>"] assms(4) by (simp add: threads_def)
  have life: "life_step S (S'\<lparr>hosts := (if k' = [] then hosts S' else add_mset k' (hosts S'))\<rparr>)"
    by (rule life_step_host [OF assms(1,3,4)])
  from kept assms(4) obtain j where "sound (owned j + owned (driver S)) (session S')" "k' = j @ k" by (auto simp: kept_def)
  moreover have "owned j = {#}"
  proof -
    have "list_all host_activation k'"
      using life by (cases "k' = []") (auto simp: life_step_def life_ok_def host_ok_def)
    with \<open>k' = j @ k\<close> have "list_all host_activation j" by simp
    then show ?thesis by (induction j) (simp_all add: host_owns)
  qed
  ultimately show ?thesis using driver assms(2) by (simp add: ledger_ok_def)
qed

lemma ledger_step_with:
  assumes "ledger_ok S" "\<And>others s. sound others s \<Longrightarrow> sound others (f s)"
  shows "ledger_ok (with_session f S)" "ledger_ok (with_session f S\<lparr>next_operation := n\<rparr>)"
  using assms by (simp_all add: ledger_ok_def with_session_def)

lemma ledger_step_worker:
  assumes "ledger_ok S" "driver S = []" "core_worker_step S = (k', S')"
  shows "ledger_ok (S'\<lparr>driver := k'\<rparr>)"
  using assms by (auto simp: core_worker_step_def Let_def ledger_ok_def split: if_splits)

lemma ledger_step_calls:
  assumes "ledger_ok S"
  shows "ledger_ok (drain_begin S)" "ledger_ok (snd (acquire_frame S))" "ledger_ok (snd (begin_view f S))"
    "ledger_ok (end_view f S)" "ledger_ok (snd (release_frame f sync S))"
    "ledger_ok (snd (dispose_render_session quarantine refuses_held S))" "ledger_ok (abandon_unserviced_disposal S)"
proof -
  from assms show "ledger_ok (drain_begin S)"
    by (auto simp: drain_begin_def ledger_ok_def sound_def settled_def balanced_def ledger_def)
  from assms show "ledger_ok (snd (acquire_frame S))" "ledger_ok (snd (begin_view f S))" "ledger_ok (end_view f S)"
    by (auto simp: acquire_frame_def begin_view_def end_view_def Let_def ledger_ok_def with_frame_def split: option.split)
  from assms show "ledger_ok (snd (release_frame f sync S))"
    by (simp add: release_frame_def Let_def ledger_ok_def with_frame_def split_beta)
  from assms show "ledger_ok (snd (dispose_render_session quarantine refuses_held S))" "ledger_ok (abandon_unserviced_disposal S)"
    by (auto simp: dispose_render_session_def abandon_unserviced_disposal_def Let_def ledger_ok_def)
qed

lemma sound_calls:
  "sound others s \<Longrightarrow> sound others (snd (set_frame_pacer paced s))"
  "sound others s \<Longrightarrow> sound others (notify_map_commands s)" "sound others s \<Longrightarrow> sound others (schedule_service s)"
  "sound others s \<Longrightarrow> sound others (gpu_work_done s)"
  "sound others s \<Longrightarrow> sound others (resume_driver_work (s\<lparr>map_created := created\<rparr>))"
  "sound others s \<Longrightarrow> sound others (resume_driver_work (s\<lparr>pending_result_ready := True\<rparr>))"
  "sound others s \<Longrightarrow> sound others (s\<lparr>the_map := m\<rparr>)" "sound others s \<Longrightarrow> sound others (s\<lparr>memory := outcomes\<rparr>)"
  by simp_all

lemma ledger_step:
  assumes "life_ok S" "ledger_ok S" "session_step S S'"
  shows "ledger_ok S'"
  using assms(3,1,2)
proof (cases rule: session_step.cases)
  case (step_driver a k ans k' S1)
  with assms ledger_step_driver show ?thesis by simp
next
  case (step_worker k' S1)
  with assms ledger_step_worker show ?thesis by simp
next
  case step_service
  with assms(2) show ?thesis by (simp add: ledger_ok_def with_session_def)
next
  case (step_host a k H ans k' S1)
  with assms ledger_step_host show ?thesis by blast
next
  case (step_discard f)
  with assms(2) show ?thesis by (simp add: ledger_ok_def with_frame_def)
next
  case step_abandon
  with assms(2) show ?thesis by (simp add: ledger_ok_def)
next
  case step_lane
  with assms(2) show ?thesis by (simp add: ledger_ok_def)
qed (use assms(2) in \<open>auto intro!: ledger_step_with ledger_step_calls sound_calls simp del: with_session_def\<close>)

lemma attaching_session_ledger:
  "ledger (attaching_session kind mode depth drv consumer producer acquires redraw logical physical scale identity m)
    = \<lparr>accepted_of = {#}, answered_of = {#}, pending_of = {#}, dropped_of = {#}, unfinished_of = 0, queued_results = 0,
       capacity_of = 0, announced = True, state_of = MLN_RENDER_SESSION_STATE_ATTACHING, disposed = False\<rparr>"
  unfolding attaching_session_def publish_driver_work.ledger_kept by (simp add: ledger_def demand_tokens_def)

lemma ledger_ok_start: "ledger_ok (attaching_system
    (attaching_session kind mode depth drv consumer producer acquires redraw logical physical scale identity m))"
  by (simp add: ledger_ok_def attaching_system_def sound_def balanced_def settled_def attaching_session_ledger
      del: ledger_parts)

lemma reachable_ledger: "session_reachable S \<Longrightarrow> ledger_ok S"
  by (induction rule: session_reachable.induct) (auto simp: ledger_ok_start intro: ledger_step reachable_life)

section \<open>The properties\<close>

text \<open>
  C29: No frame demand is lost or answered twice. At any time, the demands a session accepted are, token by token,
  those its results answered, taken or still queued, those that are pending, the one that the driver's attempt
  owns, and those that the session's disposal dropped; only a disposal drops any. Once the session failed, was
  abandoned or was detached and its driver is idle, and it was not disposed of, every accepted demand has its one result.
\<close>

theorem frame_demands_answered_once:
  assumes "session_reachable S"
  shows "mset (accepted_tokens (session S)) = owned (driver S)
      + mset (map render_frame_result_token (taken_results (session S) @ frame_results (session S)))
      + (demand_tokens (demands (session S)) + demand_tokens (update_waiting_demands (session S)))
      + mset (dropped_tokens (session S))
    \<and> (dropped_tokens (session S) = [] \<or> disposal_requested (session S))
    \<and> (if session_over (session_state (session S)) \<and> driver S = [] \<and> \<not> disposal_requested (session S)
       then mset (accepted_tokens (session S))
         = mset (map render_frame_result_token (taken_results (session S) @ frame_results (session S)))
       else True)"
proof -
  from reachable_ledger [OF assms] have "sound (owned (driver S)) (session S)" by (simp add: ledger_ok_def)
  note parts = this [unfolded sound_def balanced_def settled_def ledger_parts]
  from parts have balance: "mset (accepted_tokens (session S)) = owned (driver S) + answered_of (ledger (session S))
      + (demand_tokens (demands (session S)) + demand_tokens (update_waiting_demands (session S))) + mset (dropped_tokens (session S))"
    by blast
  from parts have dropped: "dropped_tokens (session S) = [] \<or> disposal_requested (session S)" by auto
  have over: "session_over (session_state (session S)) \<Longrightarrow> demands (session S) = [] \<and> update_waiting_demands (session S) = []"
    using sound_parts(3) [of "owned (driver S)" "session S"] reachable_ledger [OF assms] by (simp add: ledger_ok_def)
  have "answered_of (ledger (session S))
      = mset (map render_frame_result_token (taken_results (session S) @ frame_results (session S)))"
    by (simp add: ledger_def)
  with balance dropped over show ?thesis by auto
qed

lemma owned_samples: "owned (driver rendered_sample) = {#}" "owned (driver attempting_sample) = {#7#}"
  using attempting_sample_is(7) by (auto simp: rendered_sample_is)

theorem frame_demands_answered_once_witness:
  "mset (accepted_tokens (session attempting_sample)) = {#7#} \<and> owned (driver attempting_sample) = {#7#}
   \<and> mset (accepted_tokens (session rendered_sample))
     = mset (map render_frame_result_token (taken_results (session rendered_sample) @ frame_results (session rendered_sample)))
   \<and> owned (driver rendered_sample) = {#}"
  using frame_demands_answered_once [OF reachable_rendered] frame_demands_answered_once [OF reachable_attempting]
  by (simp add: rendered_sample_is attempting_sample_is(1-6) owned_samples)

text \<open>
  C32: There is always room for the result of every demand that is not answered yet, so that the publication of a
  result, which may not fail, never has to grow the list of results: the results queued and the demands
  unfinished are together no more than the room that was reserved when the demands were accepted.
\<close>

theorem frame_results_have_room:
  assumes "session_reachable S"
  shows "length (frame_results (session S)) + unfinished_demands (session S) \<le> results_capacity (session S)
    \<and> unfinished_demands (session S) = size (owned (driver S)) + length (demands (session S))
        + length (update_waiting_demands (session S)) + length (dropped_tokens (session S))
    \<and> (if owned (driver S) = {#} \<and> demands (session S) = [] \<and> update_waiting_demands (session S) = [] then True
       else length (frame_results (session S)) < results_capacity (session S))"
proof -
  from reachable_ledger [OF assms] have "sound (owned (driver S)) (session S)" by (simp add: ledger_ok_def)
  note parts = this [unfolded sound_def balanced_def settled_def ledger_parts]
  from parts have room: "length (frame_results (session S)) + unfinished_demands (session S) \<le> results_capacity (session S)"
    by blast
  from parts have "unfinished_demands (session S) = size (owned (driver S))
      + size (demand_tokens (demands (session S)) + demand_tokens (update_waiting_demands (session S)))
      + size (mset (dropped_tokens (session S)))" by blast
  then have unfinished: "unfinished_demands (session S) = size (owned (driver S)) + length (demands (session S))
        + length (update_waiting_demands (session S)) + length (dropped_tokens (session S))" by simp
  have "unfinished_demands (session S) \<noteq> 0"
    if "\<not> (owned (driver S) = {#} \<and> demands (session S) = [] \<and> update_waiting_demands (session S) = [])"
    using that unfinished by auto
  then have "length (frame_results (session S)) < results_capacity (session S)"
    if "\<not> (owned (driver S) = {#} \<and> demands (session S) = [] \<and> update_waiting_demands (session S) = [])"
    using that room by fastforce
  with room unfinished show ?thesis by (intro conjI) simp_all
qed

theorem frame_results_have_room_witness:
  "unfinished_demands (session attempting_sample) = 1
   \<and> length (frame_results (session attempting_sample)) < results_capacity (session attempting_sample)"
  using frame_results_have_room [OF reachable_attempting] by (simp add: attempting_sample_is(1-6) owned_samples)



end
