(* ===== verification/Spec2Isabelle.thy ===== *)
theory Spec2Isabelle
  imports Api_Style Api_Render Delivery Jni Http_Headers Handle_Retirement Executor Queue_Handles Map_Options
    Request_Cancellation Frame_Demands
begin

text \<open>
  MapLibre Native FFI: a verification development for the C API of \<open>maplibre-native-ffi\<close>.

  The program. The library puts a C interface (\<open>include/maplibre_native_c/\<close>) in front of the C++ map
  engine. A host names every object by a 64-bit handle (\<open>src/handles/\<close>), calls entry points that all run
  in one wrapper (\<open>src/c_api/boundary.hpp\<close>), and hears back through callbacks. Commands on a
  runtime or a map are queued to the runtime's own worker thread (\<open>src/execution/runtime_executor.cpp\<close>)
  and end in a completion (\<open>src/completion/\<close>); a completion, an event or a wake that a
  host registered with a delivery queue is not called at once but queued until the host dispatches the
  queue (\<open>src/delivery/\<close>, \<open>src/wake/\<close>). A runtime asks the host for resources through a provider whose requests
  are handles of their own, and rewrites the URLs and headers of the others by the host's rules
  (\<open>src/resources/\<close>, \<open>src/runtime/runtime.cpp\<close>). Render sessions draw a map into a surface or a ring of
  textures on a driver thread (\<open>src/render/\<close>). The bindings wrap the C interface for other languages; most
  of them are generated.

  How the code is modelled. Data keeps the source's fields and widths: a C struct is a record, an
  enumeration a datatype with its codes (the locale \<open>c_enum\<close> of \<open>Prelude\<close>), an integer field a word that wraps.
  A function is a function that returns its results and its new state, a status or an exception where
  the source returns or throws one. A class whose methods run on several threads is a record of its members and
  a step relation: a step is one section under the object's lock, or one call made outside it,
  and any threads' steps interleave. A thread is the value of where it stands between its sections; the histories a
  theorem speaks of (what was called, what was released) are fields beside the program's
  own. Counters and vectors that cannot wrap or overflow below the size of memory are naturals and lists.

  The theories, by component (each opens with its own account):
  - \<open>Prelude\<close>: machine types, doubles, bit masks, the interface of enumerations.
  - \<open>Api_Base\<close>, \<open>Api_Geometry\<close>, \<open>Api_Runtime\<close>, \<open>Api_Map\<close>, \<open>Api_Style\<close>, \<open>Api_Render\<close>: the structs, unions, enumerations and
    flags of the public headers. Each enumeration interprets \<open>c_enum\<close>: its codes are distinct
    and the headers' values are read back.
  - \<open>Utf8\<close>, \<open>Diagnostics\<close>: the UTF-8 check against the Unicode definition; the thread's error buffer, which
    holds the longest valid prefix that fits, and the boundary every entry point runs in.
  - \<open>Handles\<close>: the generational handle table; its refinement of a map from
    handles to objects that never issues a handle twice, and the status of every lookup.
  - \<open>Delivery_Events\<close>, \<open>Delivery\<close>, \<open>Wakes\<close>, \<open>Queue_Handles\<close>: delivery queues with their event spans, held user data and
    dispatches; host wakes; and the composition of both with the handle table. The invariants are over every
    reachable state: calls run in order and outside the lock, one dispatch at a time, no lost wake-up,
    user data released exactly once and last.
  - \<open>Url_Globs\<close>, \<open>Url_Rules\<close>, \<open>Http_Headers\<close>: the rules of a host over URLs and headers: a compiled glob
    against the language its pattern denotes, routes, query rules, and the validation of headers.
  - \<open>Control\<close>, \<open>Completion\<close>, \<open>Handle_Retirement\<close>, \<open>Executor\<close>: the counts that keep a handle's owner alive, an
    operation's completion, their composition, and the worker thread. The interface of \<open>Control\<close>
    is a locale that the retirement of handles uses.
  - \<open>Durations\<close>, \<open>Map_Options\<close>: the validation of a host's options, with the conversion of milliseconds to a
    64-bit count of nanoseconds in double arithmetic.
  - \<open>Resource_Answers\<close>, \<open>Resource_Requests\<close>, \<open>Request_Answers\<close>, \<open>Request_Cancellation\<close>: a provider's requests: the answer a host
    gives, the life of a request between provider, host, loader and requester, and the two
    invariants over it (answered once; cancel handler released once).
  - \<open>Render_Sessions\<close>, \<open>Render_Steps\<close>: a render session: its state and the functions that run under its lock;
    the driver's work, the frame attempt, the calls of a host, the notices of map, scheduler and GPU, disposal,
    abandonment and destruction. A thread is a stack of activations, each one section under the lock or one call made
    outside it. \<open>Session_Runs\<close> has a session that is driven through its life, for the witnesses.
    \<open>Session_Life\<close> shows in which order the states of a session follow one another and that it is retired once;
    \<open>Frame_Demands\<close> that every demand gets its one result, with room for it, and that the host is woken for it.
    Both state what most functions leave alone as locales and interpret them on the locked functions.
  - \<open>Jni\<close>: the hand-written half of the Android shim.

  Bounds and fuel. No definition uses fuel: every recursion is structural or has its
  \<open>termination\<close> proof, and where a loop ends only when other threads stop feeding it, the theorems say so
  (\<open>lone_dispatch_terminates\<close>, \<open>executor_finishes\<close>). The handle table keeps the source's bounds of \<open>2 ^ 32\<close>
  slots and of the generation's width. Lengths of strings that reach C memory are
  64-bit words; the theorems that copy text state the capacity they need.

  Where the steps of a render session allow more than the code does, a theorem about every reachable state holds of
  the code all the more: a core worker may start a call while an abandon waits for it (the code counts the waiting
  abandons), a map may report its commands at any time (the code asks for one report at a time), a leased call
  may come after the release of its handle. A retirement that is parked until the session is idle is a step of
  the lane that waits for that.

  Arguments of the model. What is not under \<open>src/\<close> is an argument: the engine's replies, the host's callbacks (any
  value a host could return, any thread it could call from), the time, the memory allocator's failures, and the
  JNI environment. No theorem assumes the host well behaved beyond what the C headers ask of it.

  Not modelled. The live maps of \<open>src/map/map.cpp\<close> and \<open>src/map/style.cpp\<close> forward to the engine's
  map and style classes, which are not in the repository, and so do queries,
  projections, GeoJSON conversion and offline regions. The render backends and \<open>src/platform/\<close> are
  calls of graphics and operating-system interfaces; a render session takes what they and the engine's renderer
  answer as an argument of its steps (\<open>answers\<close>). \<open>resource_loader.cpp\<close> and the file-source manager drive the
  engine's file sources. The logging, the sync points of the tests and the generated capture code carry no state a property
  is about. The GObject, TypeScript, Kotlin, Dart, Swift and other bindings are generated from the headers.
\<close>

end
